(* ===== verification/Prelude.thy ===== *)
theory Prelude
  imports Main "HOL-Library.While_Combinator" "HOL-Library.Multiset"
begin

text \<open>
  What every component of the development shares: the conventions for Go values
  (time, durations, strings with \<open>strings.TrimSpace\<close>, results that carry an error),
  and the lemmas on lists, folds and sums that several components use.

  Conventions. Identifiers (\<open>int64\<close>) and counters are \<open>int\<close>; the code only compares
  identifiers and adds one or small counts to counters, and no property here depends on
  where they would wrap. A \<open>time.Time\<close> is the number of nanoseconds since an epoch, and
  an operation that calls \<open>time.Now()\<close> takes the instant as its argument \<open>now\<close>. A pointer
  to a value that may be nil is an \<open>option\<close>. A Go error return is the left side of a sum.
\<close>

section \<open>Time\<close>

type_synonym time = int
type_synonym duration = int

text \<open>\<open>t.Sub(u)\<close> saturates at the bounds of the 64-bit \<open>Duration\<close>.\<close>

definition maxDuration :: duration where
  "maxDuration = 9223372036854775807"

definition minDuration :: duration where
  "minDuration = - 9223372036854775808"

definition timeSub :: "time \<Rightarrow> time \<Rightarrow> duration" where
  "timeSub t u = max minDuration (min maxDuration (t - u))"

text \<open>\<open>d.Milliseconds()\<close> divides by a million, truncating towards zero.\<close>

definition milliseconds :: "duration \<Rightarrow> int" where
  "milliseconds d = (if 0 \<le> d then d div 1000000 else - ((- d) div 1000000))"

lemma milliseconds_nonneg: "0 \<le> milliseconds d \<longleftrightarrow> - 1000000 < d"
proof (cases "0 \<le> d")
  case True
  then show ?thesis by (simp add: milliseconds_def pos_imp_zdiv_nonneg_iff)
next
  case False
  have "0 < (- d) div 1000000 \<longleftrightarrow> 1000000 \<le> - d"
    by (rule pos_imp_zdiv_pos_iff) simp
  with False show ?thesis by (simp add: milliseconds_def) linarith
qed

lemma timeSub_nonneg: "u \<le> t \<Longrightarrow> 0 \<le> timeSub t u"
  by (simp add: timeSub_def maxDuration_def)

lemma elapsed_nonneg: "u \<le> t \<Longrightarrow> 0 \<le> milliseconds (timeSub t u)"
  using timeSub_nonneg [of u t] by (simp add: milliseconds_nonneg)

section \<open>Strings\<close>

text \<open>
  A Go string is its list of bytes. \<open>strings.TrimSpace\<close> drops the leading and trailing
  code points for which \<open>unicode.IsSpace\<close> holds; these are the byte sequences that encode
  them in UTF-8.
\<close>

definition spaceRunes :: "string list" where
  "spaceRunes =
     [[CHR 0x20], [CHR 0x09], [CHR 0x0A], [CHR 0x0B], [CHR 0x0C], [CHR 0x0D],
      [CHR 0xC2, CHR 0x85], [CHR 0xC2, CHR 0xA0], [CHR 0xE1, CHR 0x9A, CHR 0x80],
      [CHR 0xE2, CHR 0x80, CHR 0x80], [CHR 0xE2, CHR 0x80, CHR 0x81],
      [CHR 0xE2, CHR 0x80, CHR 0x82], [CHR 0xE2, CHR 0x80, CHR 0x83],
      [CHR 0xE2, CHR 0x80, CHR 0x84], [CHR 0xE2, CHR 0x80, CHR 0x85],
      [CHR 0xE2, CHR 0x80, CHR 0x86], [CHR 0xE2, CHR 0x80, CHR 0x87],
      [CHR 0xE2, CHR 0x80, CHR 0x88], [CHR 0xE2, CHR 0x80, CHR 0x89],
      [CHR 0xE2, CHR 0x80, CHR 0x8A], [CHR 0xE2, CHR 0x80, CHR 0xA8],
      [CHR 0xE2, CHR 0x80, CHR 0xA9], [CHR 0xE2, CHR 0x80, CHR 0xAF],
      [CHR 0xE2, CHR 0x81, CHR 0x9F], [CHR 0xE3, CHR 0x80, CHR 0x80]]"

definition startsWith :: "string \<Rightarrow> string \<Rightarrow> bool" where
  "startsWith s w \<longleftrightarrow> take (length w) s = w"

lemma length_pos_if_take: "w \<noteq> [] \<Longrightarrow> take (length w) s = w \<Longrightarrow> 0 < length s"
  by (cases s) auto

function trimLeft :: "string list \<Rightarrow> string \<Rightarrow> string" where
  "trimLeft ws s =
     (case find (\<lambda>w. w \<noteq> [] \<and> startsWith s w) ws of
        None \<Rightarrow> s
      | Some w \<Rightarrow> trimLeft ws (drop (length w) s))"
  by pat_completeness auto
termination
  by (relation "measure (\<lambda>(ws, s). length s)")
    (auto simp: find_Some_iff startsWith_def intro!: diff_less length_pos_if_take)

declare trimLeft.simps [simp del]

definition trimSpace :: "string \<Rightarrow> string" where
  "trimSpace s = rev (trimLeft (map rev spaceRunes) (rev (trimLeft spaceRunes s)))"

lemma trimSpace_Nil [simp]: "trimSpace [] = []"
  by (simp add: trimSpace_def trimLeft.simps startsWith_def spaceRunes_def)

text \<open>Strings are ordered by their bytes.\<close>

fun bytesLess :: "string \<Rightarrow> string \<Rightarrow> bool" where
  "bytesLess _ [] = False"
| "bytesLess [] (c # cs) = True"
| "bytesLess (b # bs) (c # cs) = ((of_char b :: nat) < of_char c \<or> b = c \<and> bytesLess bs cs)"

definition isDigit :: "char \<Rightarrow> bool" where
  "isDigit c \<longleftrightarrow> c \<in> set ''0123456789''"

section \<open>Results and optional fields\<close>

text \<open>An error ends a function. An optional field of a command that is absent leaves the stored one.\<close>

definition tryE :: "'e + 'a \<Rightarrow> ('a \<Rightarrow> 'e + 'b) \<Rightarrow> 'e + 'b" where
  "tryE r k = (case r of Inl e \<Rightarrow> Inl e | Inr v \<Rightarrow> k v)"

lemma tryE_simps [simp]: "tryE (Inl e) k = Inl e" "tryE (Inr v) k = k v"
  by (simp_all add: tryE_def)

lemma tryE_Inr: "tryE r k = Inr v \<longleftrightarrow> (\<exists>u. r = Inr u \<and> k u = Inr v)"
  by (cases r) simp_all

definition orKeep :: "'a option \<Rightarrow> 'a \<Rightarrow> 'a" where
  "orKeep p cur = (case p of None \<Rightarrow> cur | Some v \<Rightarrow> v)"

lemma orKeep_simps [simp]: "orKeep None t = t" "orKeep (Some v) t = v"
  by (simp_all add: orKeep_def)

lemma find_SomeD: "find P xs = Some x \<Longrightarrow> P x \<and> x \<in> set xs"
  by (induction xs) (auto split: if_splits)

section \<open>Lists and folds\<close>

lemma fold_fold_concat:
  "fold (\<lambda>x acc. fold f (g x) acc) xs a = fold f (concat (map g xs)) a"
  by (induction xs arbitrary: a) auto

lemma concat_map_concat:
  "concat (map f (concat xss)) = concat (map (\<lambda>xs. concat (map f xs)) xss)"
  by (induction xss) auto

lemma sorted_list_of_set_unique:
  "sorted xs \<Longrightarrow> distinct xs \<Longrightarrow> set xs = A \<Longrightarrow> xs = sorted_list_of_set A"
  by (auto simp: sorted_list_of_set.idem_if_sorted_distinct)

lemma sort_distinct_eq:
  "distinct xs \<Longrightarrow> sort xs = sorted_list_of_set (set xs)"
  by (simp add: sorted_list_of_set_sort_remdups distinct_remdups_id)

lemma count_list_distinct: "distinct xs \<Longrightarrow> count_list xs x = (if x \<in> set xs then 1 else 0)"
  by (induction xs) auto

lemma count_list_concat_map:
  "count_list (concat (map f xs)) y = (\<Sum>x\<leftarrow>xs. count_list (f x) y)"
  by (induction xs) auto

lemma length_filter_mono:
  "(\<And>x. x \<in> set xs \<Longrightarrow> P x \<Longrightarrow> Q x) \<Longrightarrow> length (filter P xs) \<le> length (filter Q xs)"
  by (induction xs) (auto intro: le_SucI)

lemma length_filter_strict:
  assumes "\<And>x. x \<in> set xs \<Longrightarrow> P x \<Longrightarrow> Q x" and "y \<in> set xs" "Q y" "\<not> P y"
  shows "length (filter P xs) < length (filter Q xs)"
  using assms
proof (induction xs)
  case (Cons x xs)
  have "length (filter P xs) \<le> length (filter Q xs)"
    using Cons.prems(1) by (intro length_filter_mono) auto
  with Cons show ?case by (cases "x = y") (auto simp: le_imp_less_Suc)
qed simp

lemma sum_list_indicator:
  "distinct xs \<Longrightarrow> (\<Sum>x\<leftarrow>xs. if P x then 1 else 0 :: nat) = card {x \<in> set xs. P x}"
proof (induction xs)
  case (Cons x xs)
  have "{y \<in> set (x # xs). P y} = (if P x then insert x {y \<in> set xs. P y} else {y \<in> set xs. P y})"
    by auto
  with Cons show ?case by simp
qed simp

end
