(* ===== verification/Processes.thy ===== *)
theory Processes
  imports Prelude
begin

text \<open>
  The handlers of the services as programs of atomic calls, and the logic that proves
  invariants of any number of them running at once.

  A handler is a \<open>prog\<close>: it ends with a result, or makes one atomic call on the world (one
  SQL statement, one publish) and goes on with what the call gave it. \<open>run\<close> executes a
  program alone. A pool executes many, one call at a time in any order: programs start,
  stop half-way (a crash) and the environment acts in between.

  \<open>safe\<close> is a rely-guarantee triple with tokens: every call made from a world that the
  others may have moved along \<open>R\<close> keeps the invariant \<open>I\<close> and itself moves along \<open>R\<close>. The
  tokens a program holds are permissions the invariant counts: a chunk claimed and not yet
  folded into its job, the right to insert the chunks of a job. The locale \<open>protocol\<close>
  states what rely, invariant, handlers and environment owe each other, and shows that
  then the invariant holds in every reachable state of the pool.
\<close>

section \<open>Programs\<close>

datatype ('w, 'e, 'a) prog =
  Return "'e + 'a"
| Step "'w \<Rightarrow> ('w, 'e, 'a) prog \<times> 'w"

primrec run :: "('w, 'e, 'a) prog \<Rightarrow> 'w \<Rightarrow> ('e + 'a) \<times> 'w" where
  "run (Return r) = Pair r"
| "run (Step f) = (\<lambda>w. case map_prod run id (f w) of (g, w') \<Rightarrow> g w')"

text \<open>Continue with the result of a program, error or not.\<close>

primrec continue :: "('w, 'e, 'a) prog \<Rightarrow> ('e + 'a \<Rightarrow> ('w, 'e, 'b) prog) \<Rightarrow> ('w, 'e, 'b) prog" where
  "continue (Return r) g = g r"
| "continue (Step f) g = Step (\<lambda>w. map_prod (\<lambda>p. continue p g) id (f w))"

definition ok :: "'a \<Rightarrow> ('w, 'e, 'a) prog" where
  "ok a = Return (Inr a)"

definition fails :: "'e \<Rightarrow> ('w, 'e, 'a) prog" where
  "fails e = Return (Inl e)"

text \<open>The usual \<open>if err != nil { return err }\<close>: an error ends the sequence.\<close>

definition andThen :: "('w, 'e, 'a) prog \<Rightarrow> ('a \<Rightarrow> ('w, 'e, 'b) prog) \<Rightarrow> ('w, 'e, 'b) prog" where
  "andThen p g = continue p (case_sum fails g)"

text \<open>An error that is only logged.\<close>

definition logged :: "('w, 'e, 'a) prog \<Rightarrow> ('w, 'e, unit) prog" where
  "logged p = continue p (\<lambda>_. ok ())"

primrec forEach :: "('a \<Rightarrow> ('w, 'e, unit) prog) \<Rightarrow> 'a list \<Rightarrow> ('w, 'e, unit) prog" where
  "forEach f [] = ok ()"
| "forEach f (x # xs) = andThen (f x) (\<lambda>_. forEach f xs)"

lemma run_Step [simp]: "run (Step f) w = run (fst (f w)) (snd (f w))"
  by (simp add: map_prod_def split: prod.splits)

declare run.simps(2) [simp del]

lemma run_continue [simp]: "run (continue p g) w = run (g (fst (run p w))) (snd (run p w))"
proof (induction p arbitrary: w)
  case (Step f)
  have "run (continue (fst (f w)) g) (snd (f w)) =
      run (g (fst (run (fst (f w)) (snd (f w))))) (snd (run (fst (f w)) (snd (f w))))"
    by (rule Step.IH [of "f w"]) (auto intro: fsts.intros)
  then show ?case by simp
qed simp

lemma run_ok [simp]: "run (ok a) w = (Inr a, w)"
  by (simp add: ok_def)

lemma run_fails [simp]: "run (fails e) w = (Inl e, w)"
  by (simp add: fails_def)

lemma run_andThen:
  "run (andThen p g) w = (case run p w of (Inl e, w') \<Rightarrow> (Inl e, w') | (Inr a, w') \<Rightarrow> run (g a) w')"
  by (simp add: andThen_def split: prod.splits sum.splits)

lemma run_logged [simp]: "run (logged p) w = (Inr (), snd (run p w))"
  by (simp add: logged_def)

text \<open>What a program run alone guarantees from the worlds satisfying \<open>P\<close>.\<close>

definition triple ::
  "('w \<Rightarrow> bool) \<Rightarrow> ('w, 'e, 'a) prog \<Rightarrow> ('e + 'a \<Rightarrow> 'w \<Rightarrow> bool) \<Rightarrow> bool" where
  "triple P p Q \<longleftrightarrow> (\<forall>w. P w \<longrightarrow> Q (fst (run p w)) (snd (run p w)))"

named_theorems triple_intro \<open>rules that run a program symbolically\<close>

lemma tripleI: "(\<And>w. P w \<Longrightarrow> Q (fst (run p w)) (snd (run p w))) \<Longrightarrow> triple P p Q"
  by (simp add: triple_def)

lemma tripleD: "triple P p Q \<Longrightarrow> P w \<Longrightarrow> Q (fst (run p w)) (snd (run p w))"
  by (simp add: triple_def)

lemma triple_continue:
  "triple P p Q \<Longrightarrow> (\<And>r. triple (Q r) (g r) Q') \<Longrightarrow> triple P (continue p g) Q'"
  by (simp add: triple_def)

lemma triple_ok [triple_intro]: "(\<And>w. P w \<Longrightarrow> Q (Inr a) w) \<Longrightarrow> triple P (ok a) Q"
  by (simp add: triple_def)

lemma triple_fails [triple_intro]: "(\<And>w. P w \<Longrightarrow> Q (Inl e) w) \<Longrightarrow> triple P (fails e) Q"
  by (simp add: triple_def)

lemma triple_andThen:
  assumes "triple P p Q" and "\<And>a. triple (Q (Inr a)) (g a) Q'" and "\<And>e w. Q (Inl e) w \<Longrightarrow> Q' (Inl e) w"
  shows "triple P (andThen p g) Q'"
  unfolding andThen_def
  by (rule triple_continue [OF assms(1)]) (auto split: sum.split intro: assms(2,3) triple_fails)

lemma triple_if [triple_intro]:
  "(c \<Longrightarrow> triple P p Q) \<Longrightarrow> (\<not> c \<Longrightarrow> triple P q Q) \<Longrightarrow> triple P (if c then p else q) Q"
  by simp

lemma triple_forEach:
  assumes "\<And>x. x \<in> set xs \<Longrightarrow> triple P (f x) (\<lambda>_. P)"
  shows "triple P (forEach f xs) (\<lambda>_. P)"
  using assms
proof (induction xs)
  case (Cons y ys)
  show ?case unfolding forEach.simps
    by (rule triple_andThen [where Q = "\<lambda>_. P"]) (use Cons in auto)
qed (simp add: triple_ok)

section \<open>Rely, guarantee, tokens\<close>

primrec safe ::
  "('w \<Rightarrow> 'w \<Rightarrow> bool) \<Rightarrow> ('w \<Rightarrow> 't multiset \<Rightarrow> bool) \<Rightarrow> ('w, 'e, 'a) prog \<Rightarrow>
     ('e + 'a \<Rightarrow> 'w \<Rightarrow> 't multiset \<Rightarrow> bool) \<Rightarrow> 'w \<Rightarrow> 't multiset \<Rightarrow> bool" where
  "safe R I (Return r) Q w t = (\<forall>w'. R w w' \<longrightarrow> Q r w' t)"
| "safe R I (Step f) Q w t =
     (\<forall>w' k. R w w' \<longrightarrow> I w' (k + t) \<longrightarrow>
        R w' (snd (f w')) \<and>
        (\<exists>t'. I (snd (f w')) (k + t') \<and>
           fst (map_prod (\<lambda>p. safe R I p) id (f w')) Q (snd (f w')) t'))"

lemma safe_Step:
  "safe R I (Step f) Q w t \<longleftrightarrow>
     (\<forall>w' k. R w w' \<longrightarrow> I w' (k + t) \<longrightarrow>
        R w' (snd (f w')) \<and>
        (\<exists>t'. I (snd (f w')) (k + t') \<and> safe R I (fst (f w')) Q (snd (f w')) t'))"
  by simp

declare safe.simps(2) [simp del]

locale rely_guarantee =
  fixes R :: "'w \<Rightarrow> 'w \<Rightarrow> bool"
    and I :: "'w \<Rightarrow> 't multiset \<Rightarrow> bool"
  assumes rely_refl: "R w w"
    and rely_trans: "R u v \<Longrightarrow> R v w \<Longrightarrow> R u w"
    and drop_token: "I w (k + t) \<Longrightarrow> I w k"
begin

lemma safe_later: "safe R I p Q w t \<Longrightarrow> R w w' \<Longrightarrow> safe R I p Q w' t"
  by (cases p) (auto simp: safe_Step intro: rely_trans)

lemma safe_Return: "(\<And>w'. R w w' \<Longrightarrow> Q r w' t) \<Longrightarrow> safe R I (Return r) Q w t"
  by simp

lemma safe_continue:
  assumes "safe R I p Q w t"
    and "\<And>r w' t'. R w w' \<Longrightarrow> Q r w' t' \<Longrightarrow> safe R I (g r) Q' w' t'"
  shows "safe R I (continue p g) Q' w t"
  using assms
proof (induction p arbitrary: w t)
  case (Return r)
  from Return.prems(1) rely_refl have "Q r w t" by simp
  with rely_refl have "safe R I (g r) Q' w t" by (rule Return.prems(2))
  then show ?case by simp
next
  case (Step f)
  show ?case unfolding continue.simps safe_Step
  proof (intro allI impI)
    fix w' k
    assume w': "R w w'" and "I w' (k + t)"
    with Step.prems(1) obtain t' where r: "R w' (snd (f w'))"
      and t': "I (snd (f w')) (k + t')" "safe R I (fst (f w')) Q (snd (f w')) t'"
      by (auto simp: safe_Step)
    have "safe R I (continue (fst (f w')) g) Q' (snd (f w')) t'"
    proof (rule Step.IH [OF rangeI _ t'(2)])
      show "fst (f w') \<in> Basic_BNFs.fsts (f w')" by (rule fsts.intros)
    next
      fix r w'' t''
      assume "R (snd (f w')) w''" and "Q r w'' t''"
      with w' r show "safe R I (g r) Q' w'' t''" by (blast intro: rely_trans Step.prems(2))
    qed
    with r t'(1) show "R w' (snd (map_prod (\<lambda>p. continue p g) id (f w'))) \<and>
        (\<exists>t'. I (snd (map_prod (\<lambda>p. continue p g) id (f w'))) (k + t') \<and>
          safe R I (fst (map_prod (\<lambda>p. continue p g) id (f w'))) Q'
            (snd (map_prod (\<lambda>p. continue p g) id (f w'))) t')"
      by (auto simp: fst_map_prod snd_map_prod)
  qed
qed

lemma safe_weaken:
  assumes "safe R I p Q w t" and "\<And>r w' t'. R w w' \<Longrightarrow> Q r w' t' \<Longrightarrow> Q' r w' t'"
  shows "safe R I p Q' w t"
  using assms
proof (induction p arbitrary: w t)
  case (Step f)
  show ?case unfolding safe_Step
  proof (intro allI impI)
    fix w' k
    assume w': "R w w'" and "I w' (k + t)"
    with Step.prems(1) obtain t' where r: "R w' (snd (f w'))"
      and t': "I (snd (f w')) (k + t')" "safe R I (fst (f w')) Q (snd (f w')) t'"
      by (auto simp: safe_Step)
    have "safe R I (fst (f w')) Q' (snd (f w')) t'"
    proof (rule Step.IH [OF rangeI fsts.intros t'(2)])
      fix r w'' t''
      assume "R (snd (f w')) w''" and "Q r w'' t''"
      with w' r show "Q' r w'' t''" by (blast intro: rely_trans Step.prems(2))
    qed
    with r t'(1) show "R w' (snd (f w')) \<and>
        (\<exists>t'. I (snd (f w')) (k + t') \<and> safe R I (fst (f w')) Q' (snd (f w')) t')" by blast
  qed
qed simp

lemma safe_andThen:
  assumes "safe R I p Q w t"
    and "\<And>e w' t'. R w w' \<Longrightarrow> Q (Inl e) w' t' \<Longrightarrow> safe R I (fails e) Q' w' t'"
    and "\<And>a w' t'. R w w' \<Longrightarrow> Q (Inr a) w' t' \<Longrightarrow> safe R I (g a) Q' w' t'"
  shows "safe R I (andThen p g) Q' w t"
  unfolding andThen_def
  by (rule safe_continue [OF assms(1)]) (auto split: sum.split intro: assms(2,3))

end

section \<open>Pools\<close>

type_synonym ('w, 'e) pool = "'w \<times> ('w, 'e, unit) prog list"

inductive poolStep ::
  "('w \<Rightarrow> ('w, 'e, unit) prog \<Rightarrow> bool) \<Rightarrow> ('w \<Rightarrow> 'w \<Rightarrow> bool) \<Rightarrow>
     ('w, 'e) pool \<Rightarrow> ('w, 'e) pool \<Rightarrow> bool"
  for starts and env
where
  poolStart: "starts w p \<Longrightarrow> poolStep starts env (w, ps) (w, p # ps)"
| poolCall: "f w = (p', w') \<Longrightarrow> poolStep starts env (w, ps @ Step f # qs) (w', ps @ p' # qs)"
| poolStop: "poolStep starts env (w, ps @ p # qs) (w, ps @ qs)"
| poolEnv: "env w w' \<Longrightarrow> poolStep starts env (w, ps) (w', ps)"

text \<open>One program of a pool may run to its end before the others move.\<close>

lemma pool_run:
  "(poolStep starts env)\<^sup>*\<^sup>* (w, p # qs) (snd (run p w), Return (fst (run p w)) # qs)"
proof (induction p arbitrary: w)
  case (Step f)
  have "poolStep starts env (w, [] @ Step f # qs) (snd (f w), [] @ fst (f w) # qs)"
    by (rule poolCall) simp
  moreover have "(poolStep starts env)\<^sup>*\<^sup>* (snd (f w), fst (f w) # qs)
      (snd (run (fst (f w)) (snd (f w))), Return (fst (run (fst (f w)) (snd (f w)))) # qs)"
    by (rule Step.IH [OF rangeI fsts.intros])
  ultimately show ?case by (simp add: converse_rtranclp_into_rtranclp)
qed simp

lemma pool_handler:
  assumes "starts w p"
  shows "(poolStep starts env)\<^sup>*\<^sup>* (w, qs) (snd (run p w), qs)"
proof -
  have "poolStep starts env (w, qs) (w, p # qs)" using assms by (rule poolStart)
  moreover have "poolStep starts env (snd (run p w), [] @ Return (fst (run p w)) # qs) (snd (run p w), [] @ qs)"
    by (rule poolStop)
  ultimately show ?thesis
    using pool_run [of starts env w p qs] by (auto intro: rtranclp.rtrancl_into_rtrancl converse_rtranclp_into_rtranclp)
qed

locale protocol = rely_guarantee R I
  for R :: "'w \<Rightarrow> 'w \<Rightarrow> bool" and I :: "'w \<Rightarrow> 't multiset \<Rightarrow> bool" +
  fixes starts :: "'w \<Rightarrow> ('w, 'e, unit) prog \<Rightarrow> bool"
    and env :: "'w \<Rightarrow> 'w \<Rightarrow> bool"
  assumes starts_safe: "starts w p \<Longrightarrow> I w t \<Longrightarrow> safe R I p (\<lambda>_ _ _. True) w {#}"
    and env_ok: "env w w' \<Longrightarrow> I w t \<Longrightarrow> R w w' \<and> I w' t"
begin

definition covered :: "('w, 'e) pool \<Rightarrow> bool" where
  "covered c \<longleftrightarrow> (\<exists>ts. list_all2 (\<lambda>p t. safe R I p (\<lambda>_ _ _. True) (fst c) t) (snd c) ts \<and>
     I (fst c) (sum_list ts))"

lemma covered_I: "covered (w, ps) \<Longrightarrow> I w {#}"
  using drop_token [of w "{#}"] by (auto simp: covered_def)

lemma all_later:
  "list_all2 (\<lambda>p t. safe R I p Q w t) ps ts \<Longrightarrow> R w w' \<Longrightarrow> list_all2 (\<lambda>p t. safe R I p Q w' t) ps ts"
  by (erule list_all2_mono) (rule safe_later)

lemma covered_call:
  assumes c: "covered (w, ps @ Step f # qs)" and f: "f w = (p', w')"
  shows "covered (w', ps @ p' # qs)"
proof -
  from c obtain as t bs where ps: "list_all2 (\<lambda>p t. safe R I p (\<lambda>_ _ _. True) w t) ps as"
    and s: "safe R I (Step f) (\<lambda>_ _ _. True) w t"
    and qs: "list_all2 (\<lambda>p t. safe R I p (\<lambda>_ _ _. True) w t) qs bs"
    and i: "I w (sum_list as + sum_list bs + t)"
    by (auto simp: covered_def list_all2_append1 list_all2_Cons1 ac_simps)
  from s [unfolded safe_Step, rule_format, OF rely_refl i] f
  obtain t' where r: "R w w'" and i': "I w' (sum_list as + sum_list bs + t')"
    and s': "safe R I p' (\<lambda>_ _ _. True) w' t'" by auto
  from all_later [OF ps r] all_later [OF qs r] s'
  have "list_all2 (\<lambda>p t. safe R I p (\<lambda>_ _ _. True) w' t) (ps @ p' # qs) (as @ t' # bs)"
    by (auto intro: list_all2_appendI)
  with i' show ?thesis
    by (auto simp: covered_def ac_simps intro!: exI [of _ "as @ t' # bs"])
qed

lemma covered_stop:
  assumes c: "covered (w, ps @ p # qs)" shows "covered (w, ps @ qs)"
proof -
  from c obtain as t bs where ps: "list_all2 (\<lambda>p t. safe R I p (\<lambda>_ _ _. True) w t) ps as"
    and qs: "list_all2 (\<lambda>p t. safe R I p (\<lambda>_ _ _. True) w t) qs bs"
    and i: "I w (sum_list as + sum_list bs + t)"
    by (auto simp: covered_def list_all2_append1 list_all2_Cons1 ac_simps)
  from ps qs drop_token [OF i] show ?thesis
    by (auto simp: covered_def intro!: exI [of _ "as @ bs"] list_all2_appendI)
qed

lemma covered_step: "poolStep starts env c c' \<Longrightarrow> covered c \<Longrightarrow> covered c'"
proof (induction rule: poolStep.induct)
  case (poolStart w p ps)
  then obtain ts where ts: "list_all2 (\<lambda>p t. safe R I p (\<lambda>_ _ _. True) w t) ps ts"
    and i: "I w (sum_list ts)" by (auto simp: covered_def)
  from starts_safe [OF poolStart(1) i] ts i show ?case
    by (auto simp: covered_def intro!: exI [of _ "{#} # ts"])
next
  case (poolCall f w p' w' ps qs)
  then show ?case by (blast intro: covered_call)
next
  case (poolStop w ps p qs)
  then show ?case by (rule covered_stop)
next
  case (poolEnv w w' ps)
  then show ?case by (auto simp: covered_def dest: env_ok all_later)
qed

lemma reachable_covered:
  "(poolStep starts env)\<^sup>*\<^sup>* c c' \<Longrightarrow> covered c \<Longrightarrow> covered c'"
  by (induction rule: rtranclp_induct) (auto intro: covered_step)

theorem reachable_invariant:
  assumes "(poolStep starts env)\<^sup>*\<^sup>* (w0, []) (w, ps)" and "I w0 {#}"
  shows "I w {#}"
proof -
  from assms(2) have "covered (w0, [])" by (simp add: covered_def)
  from reachable_covered [OF assms(1) this] show ?thesis by (rule covered_I)
qed

end

end
