(* ===== verification/WavePlanner.thy ===== *)
theory WavePlanner
  imports Prelude
begin

text \<open>
  \<^verbatim>\<open>pkg/costcalc/dependency_graph.go\<close> and \<^verbatim>\<open>pkg/costcalc/wave_planner.go\<close>: the product
  dependency graph and Kahn's algorithm, which layers it into waves. The wave loop is a
  \<open>while_option\<close>, so that its termination is a theorem; the specification it refines is
  the inductive layering \<open>layer\<close> of the graph.
\<close>

section \<open>The dependency graph\<close>

text \<open>A missing key of the Go map \<open>edges\<close> reads as the nil slice.\<close>

record dependency_graph =
  dg_edges :: "int \<Rightarrow> int list"
  dg_nodes :: "int set"

definition NewDependencyGraph :: dependency_graph where
  "NewDependencyGraph = \<lparr>dg_edges = (\<lambda>_. []), dg_nodes = {}\<rparr>"

definition AddNode :: "dependency_graph \<Rightarrow> int \<Rightarrow> dependency_graph" where
  "AddNode g i = g\<lparr>dg_nodes := insert i (dg_nodes g)\<rparr>"

definition AddEdge :: "dependency_graph \<Rightarrow> int \<Rightarrow> int \<Rightarrow> dependency_graph" where
  "AddEdge g downstream upstream =
     (let g' = AddNode (AddNode g downstream) upstream
      in g'\<lparr>dg_edges := (dg_edges g')(downstream := dg_edges g' downstream @ [upstream])\<rparr>)"

definition Nodes :: "dependency_graph \<Rightarrow> int list" where
  "Nodes g = sorted_list_of_set (dg_nodes g)"

definition Upstream :: "dependency_graph \<Rightarrow> int \<Rightarrow> int list" where
  "Upstream g i = dg_edges g i"

definition HasNode :: "dependency_graph \<Rightarrow> int \<Rightarrow> bool" where
  "HasNode g i \<longleftrightarrow> i \<in> dg_nodes g"

text \<open>
  Well-formed graphs are finite and their edges join nodes; every graph that the two
  operations build from the empty one is well formed.
\<close>

definition wf_graph :: "dependency_graph \<Rightarrow> bool" where
  "wf_graph g \<longleftrightarrow>
     finite (dg_nodes g) \<and> (\<forall>d. \<forall>u \<in> set (Upstream g d). d \<in> dg_nodes g \<and> u \<in> dg_nodes g)"

lemma wf_New [simp]: "wf_graph NewDependencyGraph"
  by (simp add: wf_graph_def NewDependencyGraph_def Upstream_def)

lemma wf_AddNode [simp]: "wf_graph g \<Longrightarrow> wf_graph (AddNode g i)"
  by (auto simp: wf_graph_def AddNode_def Upstream_def)

lemma wf_AddEdge [simp]: "wf_graph g \<Longrightarrow> wf_graph (AddEdge g d u)"
  by (auto simp: wf_graph_def AddEdge_def AddNode_def Upstream_def Let_def)

lemma nodes_AddNode [simp]: "dg_nodes (AddNode g i) = insert i (dg_nodes g)"
  by (simp add: AddNode_def)

lemma nodes_AddEdge [simp]: "dg_nodes (AddEdge g d u) = insert d (insert u (dg_nodes g))"
  by (auto simp: AddEdge_def AddNode_def Let_def)

lemma Upstream_AddNode [simp]: "Upstream (AddNode g i) = Upstream g"
  by (rule ext) (simp add: AddNode_def Upstream_def)

lemma Upstream_AddEdge [simp]:
  "Upstream (AddEdge g d u) n = (if n = d then Upstream g d @ [u] else Upstream g n)"
  by (simp add: AddEdge_def AddNode_def Upstream_def Let_def)

lemma Upstream_New [simp]: "Upstream NewDependencyGraph n = []"
  by (simp add: NewDependencyGraph_def Upstream_def)

lemma set_Nodes: "wf_graph g \<Longrightarrow> set (Nodes g) = dg_nodes g"
  by (simp add: wf_graph_def Nodes_def)

lemma sorted_Nodes: "sorted (Nodes g) \<and> distinct (Nodes g)"
  by (simp add: Nodes_def)

section \<open>PlanWaves\<close>

record wave =
  wv_number :: int
  wv_products :: "int list"

record wave_plan =
  wp_waves :: "wave list"
  wp_cyclic :: "int list"

text \<open>The first pass counts each distinct edge once.\<close>

record edge_scan =
  es_inDeg :: "int \<Rightarrow> int"
  es_rev :: "int \<Rightarrow> int list"
  es_seen :: "(int \<times> int) set"

definition scanEdge :: "int \<Rightarrow> int \<Rightarrow> edge_scan \<Rightarrow> edge_scan" where
  "scanEdge n u s =
     (if (n, u) \<in> es_seen s then s
      else s\<lparr>es_seen := insert (n, u) (es_seen s),
             es_inDeg := (es_inDeg s)(n := es_inDeg s n + 1),
             es_rev := (es_rev s)(u := es_rev s u @ [n])\<rparr>)"

definition scanEdges :: "dependency_graph \<Rightarrow> edge_scan" where
  "scanEdges g =
     fold (\<lambda>n s. fold (scanEdge n) (Upstream g n) s) (Nodes g)
       \<lparr>es_inDeg = (\<lambda>_. 0), es_rev = (\<lambda>_. []), es_seen = {}\<rparr>"

text \<open>The wave loop: releasing a node lowers the in-degree of those that depend on it.\<close>

record plan_loop =
  pl_current :: "int list"
  pl_inDeg :: "int \<Rightarrow> int"
  pl_waves :: "wave list"
  pl_waveNo :: int
  pl_visited :: "int set"

definition releaseOne :: "int \<Rightarrow> (int \<Rightarrow> int) \<times> int list \<Rightarrow> (int \<Rightarrow> int) \<times> int list" where
  "releaseOne d acc =
     (let inDeg = (fst acc)(d := fst acc d - 1)
      in (inDeg, if inDeg d = 0 then snd acc @ [d] else snd acc))"

definition planStep :: "(int \<Rightarrow> int list) \<Rightarrow> plan_loop \<Rightarrow> plan_loop" where
  "planStep rv l =
     (let released = fold (\<lambda>n acc. fold releaseOne (rv n) acc) (pl_current l) (pl_inDeg l, [])
      in \<lparr>pl_current = sort (snd released),
          pl_inDeg = fst released,
          pl_waves = pl_waves l @ [\<lparr>wv_number = pl_waveNo l, wv_products = pl_current l\<rparr>],
          pl_waveNo = pl_waveNo l + 1,
          pl_visited = pl_visited l \<union> set (pl_current l)\<rparr>)"

definition planInit :: "dependency_graph \<Rightarrow> plan_loop" where
  "planInit g =
     \<lparr>pl_current = sort (filter (\<lambda>n. es_inDeg (scanEdges g) n = 0) (Nodes g)),
      pl_inDeg = es_inDeg (scanEdges g), pl_waves = [], pl_waveNo = 0, pl_visited = {}\<rparr>"

definition PlanWaves :: "dependency_graph \<Rightarrow> wave_plan option" where
  "PlanWaves g =
     (case while_option (\<lambda>l. pl_current l \<noteq> []) (planStep (es_rev (scanEdges g))) (planInit g) of
        None \<Rightarrow> None
      | Some l \<Rightarrow> Some \<lparr>wp_waves = pl_waves l,
                       wp_cyclic = sort (filter (\<lambda>n. n \<notin> pl_visited l) (Nodes g))\<rparr>)"

section \<open>Specification: the layers of a graph\<close>

text \<open>
  \<open>settled g k\<close> are the nodes whose dependency chains have at most \<open>k\<close> nodes, and
  \<open>layer g k\<close> those whose longest chain has exactly \<open>k + 1\<close>.
\<close>

definition deps :: "dependency_graph \<Rightarrow> int \<Rightarrow> int set" where
  "deps g n = set (Upstream g n)"

primrec settled :: "dependency_graph \<Rightarrow> nat \<Rightarrow> int set" where
  "settled g 0 = {}"
| "settled g (Suc k) = {n \<in> dg_nodes g. deps g n \<subseteq> settled g k}"

definition layer :: "dependency_graph \<Rightarrow> nat \<Rightarrow> int set" where
  "layer g k = settled g (Suc k) - settled g k"

text \<open>\<open>u\<close> is a direct dependency of \<open>n\<close>.\<close>

definition depRel :: "dependency_graph \<Rightarrow> (int \<times> int) set" where
  "depRel g = {(u, n). u \<in> deps g n}"

lemma settled_nodes: "settled g k \<subseteq> dg_nodes g"
  by (cases k) auto

lemma settled_Suc_mono: "settled g k \<subseteq> settled g (Suc k)"
  by (induction k) auto

lemma settled_mono: "j \<le> k \<Longrightarrow> settled g j \<subseteq> settled g k"
  by (rule lift_Suc_mono_le [of "settled g"]) (rule settled_Suc_mono)

lemma settled_Suc: "settled g (Suc k) = settled g k \<union> layer g k"
  using settled_Suc_mono [of g k] unfolding layer_def by blast

lemma layer_disjoint_settled: "layer g k \<inter> settled g k = {}"
  unfolding layer_def by blast

lemma settled_layers: "settled g k = (\<Union>i<k. layer g i)"
proof (induction k)
  case (Suc k)
  have "settled g (Suc k) = (\<Union>i<k. layer g i) \<union> layer g k"
    by (simp only: settled_Suc Suc.IH)
  then show ?case by (simp add: lessThan_Suc Un_commute)
qed simp

lemma layer_disjoint: "i \<noteq> j \<Longrightarrow> layer g i \<inter> layer g j = {}"
proof (induction i j rule: linorder_wlog)
  case (le i j)
  then have "layer g i \<subseteq> settled g j"
    using settled_mono [of "Suc i" j g] by (auto simp: layer_def)
  then show ?case using layer_disjoint_settled [of g j] by blast
next
  case (sym i j)
  then show ?case by blast
qed

lemma layer_deps: "n \<in> layer g k \<Longrightarrow> u \<in> deps g n \<Longrightarrow> \<exists>j<k. u \<in> layer g j"
  using settled_layers [of g k] by (auto simp: layer_def)

lemma layer_tight: "n \<in> layer g (Suc k) \<Longrightarrow> \<exists>u \<in> deps g n. u \<in> layer g k"
  by (auto simp: layer_def)

lemma finite_settled: "wf_graph g \<Longrightarrow> finite (settled g k)"
  by (rule finite_subset [OF settled_nodes]) (simp add: wf_graph_def)

lemma finite_layer: "wf_graph g \<Longrightarrow> finite (layer g k)"
  by (simp add: layer_def finite_settled del: settled.simps)

lemma finite_deps [simp]: "finite (deps g n)"
  by (simp add: deps_def)

section \<open>The scan computes degrees and reverse edges\<close>

definition scanPairs :: "dependency_graph \<Rightarrow> (int \<times> int) list" where
  "scanPairs g = concat (map (\<lambda>n. map (Pair n) (Upstream g n)) (Nodes g))"

definition scanState :: "(int \<times> int) set \<Rightarrow> edge_scan \<Rightarrow> bool" where
  "scanState E s \<longleftrightarrow>
     es_seen s = E \<and>
     (\<forall>n. es_inDeg s n = int (card {u. (n, u) \<in> E})) \<and>
     (\<forall>u. distinct (es_rev s u) \<and> set (es_rev s u) = {n. (n, u) \<in> E})"

lemma scanEdge_state:
  assumes "finite E" and "scanState E s"
  shows "scanState (insert (n, u) E) (scanEdge n u s)"
proof (cases "(n, u) \<in> E")
  case True
  then show ?thesis using assms by (simp add: scanEdge_def scanState_def insert_absorb)
next
  case False
  have fin: "finite {u'. (n, u') \<in> E}"
    by (rule finite_subset [OF _ finite_imageI [OF assms(1), of snd]]) force
  have row: "{u'. (m, u') \<in> insert (n, u) E} =
      (if m = n then insert u {u'. (n, u') \<in> E} else {u'. (m, u') \<in> E})" for m
    by auto
  have col: "{m. (m, u') \<in> insert (n, u) E} =
      (if u' = u then insert n {m. (m, u) \<in> E} else {m. (m, u') \<in> E})" for u'
    by auto
  show ?thesis
    using assms(2) False fin unfolding scanState_def row col by (auto simp: scanEdge_def)
qed

lemma scanPairs_state:
  "scanState (set ps) (fold (\<lambda>(n, u). scanEdge n u) ps
     \<lparr>es_inDeg = (\<lambda>_. 0), es_rev = (\<lambda>_. []), es_seen = {}\<rparr>)"
proof (induction ps rule: rev_induct)
  case Nil
  show ?case by (simp add: scanState_def)
next
  case (snoc p ps)
  then show ?case by (cases p) (simp add: scanEdge_state)
qed

lemma scanEdges_pairs:
  "scanEdges g = fold (\<lambda>(n, u). scanEdge n u) (scanPairs g)
     \<lparr>es_inDeg = (\<lambda>_. 0), es_rev = (\<lambda>_. []), es_seen = {}\<rparr>"
proof -
  have "fold (scanEdge n) us s = fold (\<lambda>(n, u). scanEdge n u) (map (Pair n) us) s" for n us s
    by (simp add: fold_map comp_def)
  then show ?thesis by (simp add: scanEdges_def scanPairs_def fold_fold_concat)
qed

lemma in_scanPairs: "wf_graph g \<Longrightarrow> (n, u) \<in> set (scanPairs g) \<longleftrightarrow> u \<in> deps g n"
  by (auto simp: scanPairs_def set_Nodes deps_def) (auto simp: wf_graph_def)

lemma inDeg_scan: "wf_graph g \<Longrightarrow> es_inDeg (scanEdges g) n = int (card (deps g n))"
  using scanPairs_state [of "scanPairs g"]
  by (simp add: scanEdges_pairs scanState_def in_scanPairs)

lemma rev_scan:
  assumes "wf_graph g"
  shows "distinct (es_rev (scanEdges g) u)" and "set (es_rev (scanEdges g) u) = {n. u \<in> deps g n}"
  using scanPairs_state [of "scanPairs g"] assms
  by (simp_all add: scanEdges_pairs scanState_def in_scanPairs)

section \<open>One turn of the wave loop\<close>

lemma release_fold:
  assumes "\<forall>d. int (count_list ds d) \<le> f d"
  shows "\<exists>ys. fold releaseOne ds (f, acc) = (\<lambda>d. f d - int (count_list ds d), acc @ ys) \<and>
    distinct ys \<and> set ys = {d \<in> set ds. f d = int (count_list ds d)}"
  using assms
proof (induction ds arbitrary: f acc)
  case Nil
  show ?case by simp
next
  case (Cons x ds)
  let ?f = "f(x := f x - 1)" and ?new = "if f x = 1 then [x] else []"
  have "\<forall>d. int (count_list ds d) \<le> ?f d"
    using Cons.prems by (auto split: if_splits)
  from Cons.IH [OF this, of "acc @ ?new"] obtain ys where
    run: "fold releaseOne ds (?f, acc @ ?new) = (\<lambda>d. ?f d - int (count_list ds d), (acc @ ?new) @ ys)"
    and ys: "distinct ys" "set ys = {d \<in> set ds. ?f d = int (count_list ds d)}"
    by blast
  have step: "releaseOne x (f, acc) = (?f, acc @ ?new)"
    by (simp add: releaseOne_def Let_def)
  define c where "c = count_list ds x"
  have "int c + 1 \<le> f x" using Cons.prems [rule_format, of x] by (simp add: c_def)
  moreover have "x \<in> set ds \<longleftrightarrow> c \<noteq> 0" unfolding c_def by (metis count_list_0_iff)
  ultimately have c: "count_list ds x = c" "x \<in> set ds \<longleftrightarrow> c \<noteq> 0" "int c + 1 \<le> f x"
    by (simp_all only: c_def)
  have "distinct (?new @ ys)"
    using ys c by auto
  moreover have "set (?new @ ys) = {d \<in> set (x # ds). f d = int (count_list (x # ds) d)}"
  proof (rule set_eqI)
    fix d
    show "d \<in> set (?new @ ys) \<longleftrightarrow> d \<in> {d \<in> set (x # ds). f d = int (count_list (x # ds) d)}"
      by (cases "d = x") (use c in \<open>auto simp: ys(2)\<close>)
  qed
  moreover have "fold releaseOne (x # ds) (f, acc) =
      (\<lambda>d. f d - int (count_list (x # ds) d), acc @ ?new @ ys)"
    using run by (auto simp: step fun_eq_iff)
  ultimately show ?case by blast
qed

section \<open>The loop refines the layering\<close>

definition waveAt :: "dependency_graph \<Rightarrow> nat \<Rightarrow> wave" where
  "waveAt g i = \<lparr>wv_number = int i, wv_products = sorted_list_of_set (layer g i)\<rparr>"

definition planInv :: "dependency_graph \<Rightarrow> plan_loop \<Rightarrow> bool" where
  "planInv g l \<longleftrightarrow>
     (\<exists>k. pl_current l = sorted_list_of_set (layer g k) \<and>
          pl_inDeg l = (\<lambda>n. int (card (deps g n - settled g k))) \<and>
          pl_waves l = map (waveAt g) [0..<k] \<and>
          pl_waveNo l = int k \<and>
          pl_visited l = settled g k \<and>
          (\<forall>i<k. layer g i \<noteq> {}))"

lemma planInv_init: "wf_graph g \<Longrightarrow> planInv g (planInit g)"
proof -
  assume wf: "wf_graph g"
  have "pl_current (planInit g) = sorted_list_of_set (layer g 0)"
  proof (rule sorted_list_of_set_unique)
    show "set (pl_current (planInit g)) = layer g 0"
      using wf by (auto simp: planInit_def inDeg_scan set_Nodes layer_def)
  qed (use wf sorted_Nodes [of g] in \<open>simp_all add: planInit_def\<close>)
  then show ?thesis
    using wf unfolding planInv_def by (intro exI [of _ 0]) (auto simp: planInit_def inDeg_scan)
qed

text \<open>How often the released nodes of a layer occur among the dependents.\<close>

lemma count_released:
  assumes wf: "wf_graph g"
  shows "count_list (concat (map (es_rev (scanEdges g)) (sorted_list_of_set (layer g k)))) d =
    card (deps g d \<inter> layer g k)"
proof -
  let ?rv = "es_rev (scanEdges g)" and ?cur = "sorted_list_of_set (layer g k)"
  have "count_list (?rv n) d = (if n \<in> deps g d then 1 else 0)" for n
    using rev_scan [OF wf, of n] by (simp add: count_list_distinct)
  then have "count_list (concat (map ?rv ?cur)) d = (\<Sum>n\<leftarrow>?cur. if n \<in> deps g d then 1 else 0)"
    by (simp add: count_list_concat_map)
  also have "\<dots> = card {n \<in> set ?cur. n \<in> deps g d}"
    by (rule sum_list_indicator) simp
  also have "{n \<in> set ?cur. n \<in> deps g d} = deps g d \<inter> layer g k"
    using finite_layer [OF wf] by auto
  finally show ?thesis .
qed

lemma card_deps_split:
  "card (deps g d - settled g k) = card (deps g d \<inter> layer g k) + card (deps g d - settled g (Suc k))"
proof -
  have eq: "deps g d - settled g k = (deps g d \<inter> layer g k) \<union> (deps g d - settled g (Suc k))"
    using layer_disjoint_settled [of g k] unfolding settled_Suc by blast
  have "(deps g d \<inter> layer g k) \<inter> (deps g d - settled g (Suc k)) = {}"
    unfolding settled_Suc by blast
  then show ?thesis unfolding eq by (intro card_Un_disjoint) auto
qed

text \<open>The dependents whose last unsettled dependency lies in a layer form the next layer.\<close>

lemma next_layer:
  assumes wf: "wf_graph g"
  shows "{d. deps g d \<inter> layer g k \<noteq> {} \<and> deps g d \<subseteq> settled g (Suc k)} = layer g (Suc k)"
proof (rule set_eqI)
  fix d
  have node: "deps g d \<noteq> {} \<Longrightarrow> d \<in> dg_nodes g"
    using wf unfolding wf_graph_def deps_def by (metis all_not_in_conv)
  have "deps g d \<subseteq> settled g k \<longleftrightarrow> deps g d \<inter> layer g k = {}" if "deps g d \<subseteq> settled g (Suc k)"
    using that layer_disjoint_settled [of g k] unfolding settled_Suc by blast
  then show "d \<in> {d. deps g d \<inter> layer g k \<noteq> {} \<and> deps g d \<subseteq> settled g (Suc k)} \<longleftrightarrow>
      d \<in> layer g (Suc k)"
    using node unfolding layer_def by (auto simp del: settled.simps(2) simp: settled.simps(2) [of g "Suc k"])
      (auto)
qed

lemma planInv_step:
  assumes wf: "wf_graph g" and inv: "planInv g l" and cur: "pl_current l \<noteq> []"
  shows "planInv g (planStep (es_rev (scanEdges g)) l)"
proof -
  let ?rv = "es_rev (scanEdges g)"
  from inv obtain k where k: "pl_current l = sorted_list_of_set (layer g k)"
    "pl_inDeg l = (\<lambda>n. int (card (deps g n - settled g k)))"
    "pl_waves l = map (waveAt g) [0..<k]" "pl_waveNo l = int k"
    "pl_visited l = settled g k" "\<forall>i<k. layer g i \<noteq> {}"
    unfolding planInv_def by blast
  let ?ds = "concat (map ?rv (pl_current l))"
  have cnt: "count_list ?ds d = card (deps g d \<inter> layer g k)" for d
    by (simp only: k(1) count_released [OF wf])
  have "\<forall>d. int (count_list ?ds d) \<le> pl_inDeg l d"
    unfolding cnt k(2) by (simp add: card_deps_split [of g _ k])
  from release_fold [OF this, of "[]"] obtain ys where
    run: "fold releaseOne ?ds (pl_inDeg l, []) = (\<lambda>d. pl_inDeg l d - int (count_list ?ds d), ys)"
    and ys: "distinct ys" "set ys = {d \<in> set ?ds. pl_inDeg l d = int (count_list ?ds d)}"
    by auto
  have mem: "d \<in> set ?ds \<longleftrightarrow> deps g d \<inter> layer g k \<noteq> {}" for d
    using cnt [of d] count_list_0_iff [of ?ds d] by auto
  have "set ys = layer g (Suc k)"
    unfolding ys(2) next_layer [OF wf, symmetric] cnt k(2) mem
    by (auto simp: card_deps_split [of g _ k])
  then have "sort ys = sorted_list_of_set (layer g (Suc k))"
    using ys(1) by (metis sort_distinct_eq)
  moreover have "(\<lambda>d. pl_inDeg l d - int (count_list ?ds d)) =
      (\<lambda>n. int (card (deps g n - settled g (Suc k))))"
    unfolding cnt k(2) by (simp add: card_deps_split [of g _ k] del: settled.simps)
  moreover have "layer g k \<noteq> {}" using cur k(1) finite_layer [OF wf] by auto
  then have "\<forall>i<Suc k. layer g i \<noteq> {}" using k(6) less_Suc_eq by auto
  ultimately show ?thesis
    unfolding planInv_def using k run finite_layer [OF wf]
    by (intro exI [of _ "Suc k"])
      (simp add: planStep_def fold_fold_concat Let_def waveAt_def settled_Suc del: settled.simps)
qed

section \<open>Termination and the plan\<close>

lemma planInv_visited_finite: "planInv g l \<Longrightarrow> pl_visited l \<subseteq> dg_nodes g"
  using settled_nodes by (auto simp: planInv_def)

lemma planInv_visited_grows:
  assumes wf: "wf_graph g" and inv: "planInv g l" and cur: "pl_current l \<noteq> []"
  shows "pl_visited l \<subset> pl_visited (planStep rv l)"
proof -
  from inv obtain k where k: "pl_current l = sorted_list_of_set (layer g k)" "pl_visited l = settled g k"
    unfolding planInv_def by blast
  have "set (pl_current l) = layer g k" using k(1) finite_layer [OF wf] by simp
  moreover have "layer g k \<noteq> {}" using cur k(1) by force
  ultimately show ?thesis
    using k(2) layer_disjoint_settled [of g k]
    by (auto simp: planStep_def Let_def simp del: settled.simps)
qed

lemma planLoop_returns:
  assumes wf: "wf_graph g"
  shows "\<exists>l. while_option (\<lambda>l. pl_current l \<noteq> []) (planStep (es_rev (scanEdges g))) (planInit g) = Some l"
proof (rule measure_while_option_Some
    [where P = "planInv g" and f = "\<lambda>l. card (dg_nodes g - pl_visited l)"])
  fix l
  assume l: "planInv g l" "pl_current l \<noteq> []"
  let ?l' = "planStep (es_rev (scanEdges g)) l"
  have inv': "planInv g ?l'" by (rule planInv_step [OF wf l])
  have "dg_nodes g - pl_visited ?l' \<subset> dg_nodes g - pl_visited l"
    using planInv_visited_grows [OF wf l, of "es_rev (scanEdges g)"]
      planInv_visited_finite [OF inv'] by blast
  then have "card (dg_nodes g - pl_visited ?l') < card (dg_nodes g - pl_visited l)"
    using wf by (intro psubset_card_mono) (simp_all add: wf_graph_def)
  with inv' show "planInv g ?l' \<and> card (dg_nodes g - pl_visited ?l') < card (dg_nodes g - pl_visited l)"
    by blast
qed (rule planInv_init [OF wf])

lemma PlanWaves_layers:
  assumes wf: "wf_graph g"
  obtains k where
    "PlanWaves g = Some \<lparr>wp_waves = map (waveAt g) [0..<k],
                         wp_cyclic = sorted_list_of_set (dg_nodes g - settled g k)\<rparr>"
    and "layer g k = {}" and "\<forall>i<k. layer g i \<noteq> {}"
proof -
  let ?b = "\<lambda>l. pl_current l \<noteq> []" and ?c = "planStep (es_rev (scanEdges g))"
  obtain l where l: "while_option ?b ?c (planInit g) = Some l"
    using planLoop_returns [OF wf] by blast
  have "planInv g l"
    by (rule while_option_rule [where P = "planInv g", OF _ l planInv_init [OF wf]])
      (rule planInv_step [OF wf])
  then obtain k where k: "pl_current l = sorted_list_of_set (layer g k)"
    "pl_waves l = map (waveAt g) [0..<k]" "pl_visited l = settled g k" "\<forall>i<k. layer g i \<noteq> {}"
    unfolding planInv_def by blast
  have "pl_current l = []" using while_option_stop [OF l] by simp
  then have "layer g k = {}"
    using k(1) finite_layer [OF wf, of k] by (metis set_sorted_list_of_set list.set(1))
  have "sort (filter (\<lambda>n. n \<notin> settled g k) (Nodes g)) = sorted_list_of_set (dg_nodes g - settled g k)"
    by (rule sorted_list_of_set_unique) (use sorted_Nodes [of g] wf in \<open>auto simp: set_Nodes\<close>)
  with l k \<open>layer g k = {}\<close> show ?thesis by (intro that [of k]) (simp_all add: PlanWaves_def)
qed

lemma PlanWaves_SomeD:
  assumes "wf_graph g" and "PlanWaves g = Some p"
  shows "\<exists>k. p = \<lparr>wp_waves = map (waveAt g) [0..<k],
                  wp_cyclic = sorted_list_of_set (dg_nodes g - settled g k)\<rparr> \<and>
             layer g k = {} \<and> (\<forall>i<k. layer g i \<noteq> {})"
  by (rule PlanWaves_layers [OF assms(1)]) (use assms(2) in auto)

text \<open>The nodes left over are those that a dependency cycle reaches.\<close>

lemma settled_downward:
  assumes "n \<in> settled g (Suc k)" and "(m, n) \<in> (depRel g)\<^sup>+"
  shows "m \<in> settled g k"
  using assms(2,1)
proof (induction arbitrary: k rule: trancl_induct)
  case (base n)
  then show ?case by (auto simp: depRel_def)
next
  case (step y z)
  then have "y \<in> settled g k" by (auto simp: depRel_def)
  moreover from this obtain j where "k = Suc j" by (cases k) auto
  ultimately have "m \<in> settled g j" using step.IH by blast
  then show ?case using settled_Suc_mono [of g j] \<open>k = Suc j\<close> by blast
qed

lemma cycle_not_settled: "(m, m) \<in> (depRel g)\<^sup>+ \<Longrightarrow> m \<notin> settled g k"
proof (induction k)
  case (Suc k)
  then show ?case using settled_downward [of m g k m] by blast
qed simp

lemma stuck_has_stuck_dep:
  assumes wf: "wf_graph g" and stable: "layer g k = {}" and n: "n \<in> dg_nodes g - settled g k"
  obtains u where "u \<in> deps g n" "u \<in> dg_nodes g - settled g k"
proof -
  have "n \<notin> settled g (Suc k)" using stable n unfolding settled_Suc by blast
  then obtain u where "u \<in> deps g n" "u \<notin> settled g k" using n by auto
  moreover from this have "u \<in> dg_nodes g" using wf by (auto simp: wf_graph_def deps_def)
  ultimately show ?thesis using that by blast
qed

lemma stuck_reaches_cycle:
  assumes wf: "wf_graph g" and stable: "layer g k = {}" and n: "n \<in> dg_nodes g - settled g k"
  shows "\<exists>m. (m, m) \<in> (depRel g)\<^sup>+ \<and> (m, n) \<in> (depRel g)\<^sup>*"
proof (rule ccontr)
  assume no: "\<not> ?thesis"
  let ?A = "{m \<in> dg_nodes g - settled g k. (m, n) \<in> (depRel g)\<^sup>*}"
  let ?R = "depRel g \<inter> ?A \<times> ?A"
  have "finite ?A" using wf by (simp add: wf_graph_def)
  then have "finite ?R" by simp
  moreover have "acyclic ?R"
  proof (rule acyclicI, intro allI notI)
    fix x assume x: "(x, x) \<in> ?R\<^sup>+"
    then have "(x, x) \<in> (depRel g)\<^sup>+" by (rule trancl_mono) blast
    moreover have "x \<in> ?A" using x by (auto dest: tranclD)
    ultimately show False using no by blast
  qed
  ultimately have "wf ?R" by (rule finite_acyclic_wf)
  moreover have "n \<in> ?A" using n by simp
  ultimately obtain z where z: "z \<in> ?A" "\<And>y. (y, z) \<in> ?R \<Longrightarrow> y \<notin> ?A"
    by (rule wfE_min) blast
  from z(1) obtain u where u: "u \<in> deps g z" "u \<in> dg_nodes g - settled g k"
    using stuck_has_stuck_dep [OF wf stable, of z] by blast
  have "(u, z) \<in> depRel g" using u(1) by (simp add: depRel_def)
  moreover from this have "u \<in> ?A" using z(1) u(2) by (auto intro: converse_rtrancl_into_rtrancl)
  ultimately show False using z by blast
qed

lemma PlanWaves_acyclic:
  assumes "wf_graph g" and "PlanWaves g = Some p" and "acyclic (depRel g)"
  shows "wp_cyclic p = []"
proof -
  obtain k where p: "p = \<lparr>wp_waves = map (waveAt g) [0..<k],
      wp_cyclic = sorted_list_of_set (dg_nodes g - settled g k)\<rparr>" and stable: "layer g k = {}"
    using PlanWaves_SomeD [OF assms(1,2)] by blast
  have "dg_nodes g - settled g k = {}"
    using stuck_reaches_cycle [OF assms(1) stable] assms(3) by (auto simp: acyclic_def)
  with p show ?thesis by (simp only: wave_plan.simps sorted_list_of_set_empty)
qed

section \<open>Properties\<close>

lemma waveAt_products: "wf_graph g \<Longrightarrow> set (wv_products (waveAt g i)) = layer g i"
  by (simp add: waveAt_def finite_layer)

lemma concat_waves:
  assumes "wf_graph g"
  shows "set (concat (map wv_products (map (waveAt g) [0..<k]))) = settled g k"
    and "distinct (concat (map wv_products (map (waveAt g) [0..<k])))"
proof -
  show "set (concat (map wv_products (map (waveAt g) [0..<k]))) = settled g k"
    by (auto simp: waveAt_products [OF assms] settled_layers)
  show "distinct (concat (map wv_products (map (waveAt g) [0..<k])))"
  proof (induction k)
    case (Suc k)
    moreover have "(\<Union>i<k. layer g i) \<inter> layer g k = {}"
      using layer_disjoint_settled [of g k] by (auto simp: settled_layers)
    ultimately show ?case
      by (simp add: waveAt_products [OF assms] atLeast0LessThan) (simp add: waveAt_def)
  qed simp
qed

text \<open>Waves are numbered from zero and none is empty.\<close>

lemma PlanWaves_numbered:
  assumes "wf_graph g" and "PlanWaves g = Some p" and "i < length (wp_waves p)"
  shows "wv_number (wp_waves p ! i) = int i \<and> wv_products (wp_waves p ! i) \<noteq> []"
proof -
  obtain k where k: "p = \<lparr>wp_waves = map (waveAt g) [0..<k],
      wp_cyclic = sorted_list_of_set (dg_nodes g - settled g k)\<rparr>" "\<forall>i<k. layer g i \<noteq> {}"
    using PlanWaves_SomeD [OF assms(1,2)] by blast
  with assms(1,3) show ?thesis by (auto simp: waveAt_def finite_layer)
qed

text \<open>(C18) Planning always returns, and what it returns is exactly the layering of the
  graph: wave \<open>i\<close> is the sorted list of the products whose longest dependency chain has
  \<open>i + 1\<close> nodes, no wave is empty, and \<open>Cyclic\<close> is everything no layer contains.\<close>

theorem PlanWaves_refines_layers:
  assumes "wf_graph g"
  shows "\<exists>k. PlanWaves g = Some \<lparr>wp_waves = map (waveAt g) [0..<k],
                                  wp_cyclic = sorted_list_of_set (dg_nodes g - settled g k)\<rparr> \<and>
             layer g k = {} \<and> (\<forall>i<k. layer g i \<noteq> {})"
  using PlanWaves_layers [OF assms] by metis

theorem PlanWaves_refines_layers_witness:
  "wf_graph (AddEdge NewDependencyGraph 2 1) \<and> PlanWaves (AddEdge NewDependencyGraph 2 1) \<noteq> None"
  using PlanWaves_refines_layers [of "AddEdge NewDependencyGraph 2 1"] by auto

text \<open>(C1) Dispatching the waves in order respects every dependency: each upstream product
  of a product of a wave is in a wave with a smaller number.\<close>

theorem PlanWaves_topological:
  assumes "wf_graph g" and "PlanWaves g = Some p"
    and "w \<in> set (wp_waves p)" and "n \<in> set (wv_products w)" and "u \<in> set (Upstream g n)"
  shows "\<exists>w' \<in> set (wp_waves p). wv_number w' < wv_number w \<and> u \<in> set (wv_products w')"
proof -
  obtain k where p: "wp_waves p = map (waveAt g) [0..<k]"
    using PlanWaves_SomeD [OF assms(1,2)] by auto
  with assms(3) obtain i where i: "i < k" "w = waveAt g i" by auto
  then have "n \<in> layer g i" using assms(4) waveAt_products [OF assms(1)] by simp
  then obtain j where j: "j < i" "u \<in> layer g j"
    using layer_deps assms(5) unfolding deps_def by blast
  show ?thesis
  proof (rule bexI [of _ "waveAt g j"])
    show "waveAt g j \<in> set (wp_waves p)" using i(1) j(1) p by simp
    show "wv_number (waveAt g j) < wv_number w \<and> u \<in> set (wv_products (waveAt g j))"
      using i(2) j waveAt_products [OF assms(1), of j] by (simp add: waveAt_def)
  qed
qed

definition exampleGraph :: dependency_graph where
  "exampleGraph = AddEdge (AddEdge (AddEdge NewDependencyGraph 3 1) 3 2) 2 1"

lemma exampleGraph_wf [simp]: "wf_graph exampleGraph"
  by (simp add: exampleGraph_def)

lemma exampleGraph_plan: "PlanWaves exampleGraph = Some
    \<lparr>wp_waves = [\<lparr>wv_number = 0, wv_products = [1]\<rparr>, \<lparr>wv_number = 1, wv_products = [2]\<rparr>,
                 \<lparr>wv_number = 2, wv_products = [3]\<rparr>], wp_cyclic = []\<rparr>"
proof -
  have nodes: "Nodes exampleGraph = [1, 2, 3]"
    unfolding Nodes_def
    by (rule sorted_list_of_set_unique [symmetric])
      (auto simp: exampleGraph_def NewDependencyGraph_def)
  have up: "Upstream exampleGraph = (\<lambda>n. if n = 3 then [1, 2] else if n = 2 then [1] else [])"
    by (rule ext) (simp add: exampleGraph_def )
  show ?thesis
    by (simp add: PlanWaves_def planInit_def scanEdges_def nodes up scanEdge_def
        while_option_unfold planStep_def releaseOne_def Let_def)
qed

theorem PlanWaves_topological_witness:
  "\<exists>w' \<in> {\<lparr>wv_number = 0, wv_products = [1::int]\<rparr>, \<lparr>wv_number = 1, wv_products = [2]\<rparr>,
           \<lparr>wv_number = 2, wv_products = [3]\<rparr>}. wv_number w' < 2 \<and> 1 \<in> set (wv_products w')"
  using PlanWaves_topological [OF exampleGraph_wf exampleGraph_plan,
      of "\<lparr>wv_number = 2, wv_products = [3]\<rparr>" 3 1]
  by (simp add: exampleGraph_def)

text \<open>Nothing is lost and nothing is planned twice: the waves and \<open>Cyclic\<close> together list
  every node of the graph exactly once.\<close>

theorem PlanWaves_partition:
  assumes "wf_graph g" and "PlanWaves g = Some p"
  shows "distinct (concat (map wv_products (wp_waves p)) @ wp_cyclic p) \<and>
         set (concat (map wv_products (wp_waves p)) @ wp_cyclic p) = dg_nodes g"
proof -
  obtain k where p: "p = \<lparr>wp_waves = map (waveAt g) [0..<k],
      wp_cyclic = sorted_list_of_set (dg_nodes g - settled g k)\<rparr>"
    using PlanWaves_SomeD [OF assms] by blast
  have "finite (dg_nodes g - settled g k)" using assms(1) by (simp add: wf_graph_def)
  then show ?thesis
    using concat_waves [OF assms(1), of k] settled_nodes [of g k] by (auto simp: p simp del: map_map)
qed

theorem PlanWaves_partition_witness:
  "distinct [1::int, 2, 3] \<and> dg_nodes exampleGraph = {1, 2, 3}"
  using PlanWaves_partition [OF exampleGraph_wf exampleGraph_plan] by auto

text \<open>(C2) \<open>Cyclic\<close> is empty, so that the job is planned rather than failed, exactly when the
  graph has no dependency cycle; and it consists of the nodes that some cycle reaches.\<close>

theorem PlanWaves_cyclic:
  assumes "wf_graph g" and "PlanWaves g = Some p"
  shows "(wp_cyclic p = [] \<longleftrightarrow> acyclic (depRel g)) \<and>
         set (wp_cyclic p) = {n \<in> dg_nodes g. \<exists>m. (m, m) \<in> (depRel g)\<^sup>+ \<and> (m, n) \<in> (depRel g)\<^sup>*}"
proof -
  obtain k where p: "p = \<lparr>wp_waves = map (waveAt g) [0..<k],
      wp_cyclic = sorted_list_of_set (dg_nodes g - settled g k)\<rparr>" and stable: "layer g k = {}"
    using PlanWaves_SomeD [OF assms] by blast
  have "finite (dg_nodes g - settled g k)" using assms(1) by (simp add: wf_graph_def)
  then have cyc: "set (wp_cyclic p) = dg_nodes g - settled g k" by (simp add: p)
  have reach: "n \<notin> settled g k" if "(m, m) \<in> (depRel g)\<^sup>+" "(m, n) \<in> (depRel g)\<^sup>*" for m n
  proof
    assume n: "n \<in> settled g k"
    then have n': "n \<in> settled g (Suc k)" using settled_Suc_mono [of g k] by blast
    have "(m, n) \<in> (depRel g)\<^sup>+" using that by (rule trancl_rtrancl_trancl)
    then show False using settled_downward [OF n'] cycle_not_settled [OF that(1)] by blast
  qed
  have nodes: "m \<in> dg_nodes g" if "(m, m) \<in> (depRel g)\<^sup>+" for m
    using tranclD2 [OF that] assms(1) by (auto simp: depRel_def deps_def wf_graph_def)
  have set: "set (wp_cyclic p) =
      {n \<in> dg_nodes g. \<exists>m. (m, m) \<in> (depRel g)\<^sup>+ \<and> (m, n) \<in> (depRel g)\<^sup>*}"
    unfolding cyc using stuck_reaches_cycle [OF assms(1) stable] reach by auto
  have "set (wp_cyclic p) = {} \<longleftrightarrow> acyclic (depRel g)"
    unfolding set acyclic_def using nodes by blast
  then have "wp_cyclic p = [] \<longleftrightarrow> acyclic (depRel g)" by (simp only: set_empty)
  with set show ?thesis by blast
qed

theorem PlanWaves_cyclic_witness: "acyclic (depRel exampleGraph)"
  using PlanWaves_cyclic [OF exampleGraph_wf exampleGraph_plan] by simp

definition downstreamOfCycle :: dependency_graph where
  "downstreamOfCycle = AddEdge (AddEdge NewDependencyGraph 1 1) 2 1"

text \<open>The comment on \<open>PlanWaves\<close> says that unvisited nodes participate in a cycle. A
  product that merely depends on a cyclic one is reported too: with \<open>1 \<rightarrow> 1\<close> and
  \<open>2 \<rightarrow> 1\<close>, product \<open>2\<close> is in \<open>Cyclic\<close> and is on no cycle.\<close>

theorem PlanWaves_reports_downstream_of_cycle:
  "PlanWaves downstreamOfCycle = Some \<lparr>wp_waves = [], wp_cyclic = [1, 2]\<rparr> \<and>
   (2, 2) \<notin> (depRel downstreamOfCycle)\<^sup>+"
proof -
  have nodes: "Nodes downstreamOfCycle = [1, 2]"
    unfolding Nodes_def
    by (rule sorted_list_of_set_unique [symmetric])
      (auto simp: downstreamOfCycle_def NewDependencyGraph_def)
  have up: "Upstream downstreamOfCycle = (\<lambda>n. if n = 2 then [1] else if n = 1 then [1] else [])"
    by (rule ext) (simp add: downstreamOfCycle_def)
  have src: "(2, n) \<notin> depRel downstreamOfCycle" for n
    by (simp add: depRel_def deps_def up)
  have "(2, 2) \<notin> (depRel downstreamOfCycle)\<^sup>+"
  proof
    assume "(2, 2) \<in> (depRel downstreamOfCycle)\<^sup>+"
    from tranclD [OF this] src show False by blast
  qed
  then show ?thesis
    by (simp add: PlanWaves_def planInit_def scanEdges_def nodes up scanEdge_def
        while_option_unfold planStep_def releaseOne_def Let_def)
qed

end
