(* ===== verification/ChunkPacker.thy ===== *)
theory ChunkPacker
  imports WavePlanner
begin

text \<open>
  \<^verbatim>\<open>services/finance-cost-orchestrator/internal/orchestrator/chunk_packer.go\<close>: the waves of
  a plan are cut into chunks of bounded size, numbered through the whole job, and stamped
  with the context of their job.
\<close>

record chunk_spec =
  cs_jobID :: int
  cs_jobCode :: string
  cs_chunkID :: int
  cs_chunkNumber :: int
  cs_waveNo :: int
  cs_period :: string
  cs_calcType :: string
  cs_productIDs :: "int list"
  cs_actor :: string

record packed_wave =
  pw_number :: int
  pw_chunks :: "chunk_spec list"

definition defaultChunkSize :: int where
  "defaultChunkSize = 50"

text \<open>The Go zero value of a \<open>ChunkSpec\<close>, of which the packer sets three fields.\<close>

definition zeroChunkSpec :: chunk_spec where
  "zeroChunkSpec =
     \<lparr>cs_jobID = 0, cs_jobCode = [], cs_chunkID = 0, cs_chunkNumber = 0, cs_waveNo = 0,
      cs_period = [], cs_calcType = [], cs_productIDs = [], cs_actor = []\<rparr>"

definition effectiveChunkSize :: "int \<Rightarrow> int \<Rightarrow> int" where
  "effectiveChunkSize chunkSize maxChunkSize =
     (let sz = (if chunkSize \<le> 0 then defaultChunkSize else chunkSize)
      in if maxChunkSize > 0 \<and> sz > maxChunkSize then maxChunkSize else sz)"

text \<open>
  The loop over one wave from index \<open>i\<close>, with the job-wide chunk counter. A step of zero
  would not end; \<open>effectiveChunkSize\<close> is positive.
\<close>

function packLoop :: "nat \<Rightarrow> wave \<Rightarrow> nat \<Rightarrow> int \<Rightarrow> chunk_spec list \<times> int" where
  "packLoop sz w i counter =
     (if i < length (wv_products w) \<and> 0 < sz then
        let stop = (if i + sz > length (wv_products w) then length (wv_products w) else i + sz);
            counter' = counter + 1;
            c = zeroChunkSpec\<lparr>cs_chunkNumber := counter', cs_waveNo := wv_number w,
                              cs_productIDs := take (stop - i) (drop i (wv_products w))\<rparr>;
            rest = packLoop sz w (i + sz) counter'
        in (c # fst rest, snd rest)
      else ([], counter))"
  by pat_completeness auto
termination
  by (relation "measure (\<lambda>(sz, w, i, counter). length (wv_products w) - i)") auto

declare packLoop.simps [simp del]

fun packWaves :: "nat \<Rightarrow> wave list \<Rightarrow> int \<Rightarrow> packed_wave list" where
  "packWaves sz [] counter = []"
| "packWaves sz (w # ws) counter =
     (let packed = packLoop sz w 0 counter
      in \<lparr>pw_number = wv_number w, pw_chunks = fst packed\<rparr> # packWaves sz ws (snd packed))"

definition PackChunks :: "wave_plan option \<Rightarrow> int \<Rightarrow> int \<Rightarrow> packed_wave list" where
  "PackChunks plan chunkSize maxChunkSize =
     (case plan of
        None \<Rightarrow> []
      | Some p \<Rightarrow> packWaves (nat (effectiveChunkSize chunkSize maxChunkSize)) (wp_waves p) 0)"

definition FillJobContext ::
  "packed_wave list \<Rightarrow> int \<Rightarrow> string \<Rightarrow> string \<Rightarrow> string \<Rightarrow> string \<Rightarrow> packed_wave list" where
  "FillJobContext waves jobID jobCode period actor calcType =
     map (\<lambda>w. w\<lparr>pw_chunks := map (\<lambda>c. c\<lparr>cs_jobID := jobID, cs_jobCode := jobCode,
                 cs_period := period, cs_actor := actor, cs_calcType := calcType\<rparr>) (pw_chunks w)\<rparr>) waves"

lemma effectiveChunkSize_pos: "0 < effectiveChunkSize chunkSize maxChunkSize"
  by (simp add: effectiveChunkSize_def defaultChunkSize_def Let_def)

lemma effectiveChunkSize_max: "0 < m \<Longrightarrow> effectiveChunkSize s m \<le> m"
  by (simp add: effectiveChunkSize_def Let_def)

text \<open>Chunks numbered on from \<open>n\<close>.\<close>

primrec numbered :: "int \<Rightarrow> chunk_spec list \<Rightarrow> bool" where
  "numbered n [] \<longleftrightarrow> True"
| "numbered n (c # cs) \<longleftrightarrow> cs_chunkNumber c = n + 1 \<and> numbered (n + 1) cs"

lemma numbered_append:
  "numbered n (cs @ ds) \<longleftrightarrow> numbered n cs \<and> numbered (n + int (length cs)) ds"
  by (induction cs arbitrary: n) (auto simp: algebra_simps)

lemma numbered_upto: "numbered n cs \<Longrightarrow> map cs_chunkNumber cs = [n + 1..n + int (length cs)]"
proof (induction cs arbitrary: n)
  case (Cons c cs)
  then have "map cs_chunkNumber cs = [n + 1 + 1..n + 1 + int (length cs)]" by (intro Cons.IH) simp
  moreover have "n + 1 + int (length cs) = n + int (length (c # cs))" by simp
  moreover have "[n + 1..n + int (length (c # cs))] = (n + 1) # [n + 1 + 1..n + int (length (c # cs))]"
    by (rule upto_rec1) simp
  ultimately show ?case using Cons.prems by (simp only: numbered.simps list.map)
qed simp

text \<open>One wave: its chunks carry its products, in order, within the size, numbered on.\<close>

lemma packLoop_turn:
  assumes "i < length (wv_products w)" and "0 < sz"
  shows "packLoop sz w i n =
    (zeroChunkSpec\<lparr>cs_chunkNumber := n + 1, cs_waveNo := wv_number w,
       cs_productIDs := take sz (drop i (wv_products w))\<rparr> # fst (packLoop sz w (i + sz) (n + 1)),
     snd (packLoop sz w (i + sz) (n + 1)))"
  using assms by (subst packLoop.simps) (auto simp: Let_def)

lemma packLoop_done: "\<not> i < length (wv_products w) \<Longrightarrow> packLoop sz w i n = ([], n)"
  by (subst packLoop.simps) simp

definition packed_from :: "nat \<Rightarrow> int \<Rightarrow> int list \<Rightarrow> int \<Rightarrow> chunk_spec list \<times> int \<Rightarrow> bool" where
  "packed_from sz num xs n r \<longleftrightarrow>
     concat (map cs_productIDs (fst r)) = xs \<and>
     (\<forall>c \<in> set (fst r). 1 \<le> length (cs_productIDs c) \<and> length (cs_productIDs c) \<le> sz \<and> cs_waveNo c = num) \<and>
     numbered n (fst r) \<and> snd r = n + int (length (fst r))"

lemma packed_from_turn:
  assumes "xs \<noteq> []" and "0 < sz" and "packed_from sz num (drop sz xs) (n + 1) r"
  shows "packed_from sz num xs n
    (zeroChunkSpec\<lparr>cs_chunkNumber := n + 1, cs_waveNo := num, cs_productIDs := take sz xs\<rparr> # fst r, snd r)"
  using assms by (cases xs; cases sz) (auto simp: packed_from_def algebra_simps)

lemma packLoop_spec: "0 < sz \<Longrightarrow> packed_from sz (wv_number w) (drop i (wv_products w)) n (packLoop sz w i n)"
proof (induction sz w i n rule: packLoop.induct)
  case (1 sz w i n)
  show ?case
  proof (cases "i < length (wv_products w)")
    case True
    have "packed_from sz (wv_number w) (drop (i + sz) (wv_products w)) (n + 1) (packLoop sz w (i + sz) (n + 1))"
      using 1 True by simp
    then have "packed_from sz (wv_number w) (drop sz (drop i (wv_products w))) (n + 1)
        (packLoop sz w (i + sz) (n + 1))"
      by (simp add: add.commute)
    with True 1(2) show ?thesis by (simp add: packLoop_turn packed_from_turn)
  qed (simp add: packLoop_done packed_from_def)
qed

lemmas packLoop_packed = packLoop_spec [of _ _ 0, simplified, unfolded packed_from_def]

lemma packWaves_content:
  "0 < sz \<Longrightarrow> map (\<lambda>pw. (pw_number pw, concat (map cs_productIDs (pw_chunks pw)))) (packWaves sz ws n) =
     map (\<lambda>w. (wv_number w, wv_products w)) ws"
  using packLoop_packed by (induction ws arbitrary: n) (auto simp: Let_def)

lemma packWaves_bounds:
  "0 < sz \<Longrightarrow> pw \<in> set (packWaves sz ws n) \<Longrightarrow> c \<in> set (pw_chunks pw) \<Longrightarrow>
     1 \<le> length (cs_productIDs c) \<and> length (cs_productIDs c) \<le> sz \<and> cs_waveNo c = pw_number pw"
  using packLoop_packed by (induction ws arbitrary: n) (auto simp: Let_def)

lemma packWaves_numbered:
  "0 < sz \<Longrightarrow> numbered n (concat (map pw_chunks (packWaves sz ws n)))"
proof (induction ws arbitrary: n)
  case (Cons w ws)
  then show ?case using packLoop_packed [OF Cons.prems, of w n] by (simp add: Let_def numbered_append)
qed simp

text \<open>(C11) Packing keeps the plan: wave by wave the chunks carry exactly the products of the
  wave, in order; every chunk has between one and the effective size of products and the
  number of its wave; and the chunk numbers run \<open>1, 2, \<dots>\<close> through the whole job, so
  that they are unique in it.\<close>

theorem PackChunks_correct:
  "map (\<lambda>pw. (pw_number pw, concat (map cs_productIDs (pw_chunks pw)))) (PackChunks (Some p) s m) =
     map (\<lambda>w. (wv_number w, wv_products w)) (wp_waves p) \<and>
   list_all (\<lambda>pw. list_all (\<lambda>c. length (cs_productIDs c) \<in> {1..nat (effectiveChunkSize s m)} \<and>
                             cs_waveNo c = pw_number pw) (pw_chunks pw)) (PackChunks (Some p) s m) \<and>
   (let chunks = concat (map pw_chunks (PackChunks (Some p) s m))
    in map cs_chunkNumber chunks = [1..int (length chunks)])"
proof -
  have pos: "0 < nat (effectiveChunkSize s m)" using effectiveChunkSize_pos by simp
  have "map cs_chunkNumber (concat (map pw_chunks (PackChunks (Some p) s m))) =
      [0 + 1..0 + int (length (concat (map pw_chunks (PackChunks (Some p) s m))))]"
    by (rule numbered_upto) (simp add: PackChunks_def packWaves_numbered [OF pos])
  then show ?thesis
    using packWaves_content [OF pos] packWaves_bounds [OF pos]
    by (simp add: PackChunks_def list_all_iff Let_def)
qed

lemma FillJobContext_products:
  "map (\<lambda>w. map cs_productIDs (pw_chunks w)) (FillJobContext ws j code per act ct) =
     map (\<lambda>w. map cs_productIDs (pw_chunks w)) ws"
  by (simp add: FillJobContext_def comp_def)

end
