(* ===== verification/DagBuilder.thy ===== *)
theory DagBuilder
  imports WavePlanner
begin

text \<open>
  \<^verbatim>\<open>services/finance-cost-orchestrator/internal/orchestrator/dag_builder.go\<close>: which products
  a calculation job covers. The SQL of the builder is modelled over lists of rows of the
  route and product tables (\<open>sqlQueries\<close>); the traversal is written against the six queries
  as an interface (\<open>dag_queries\<close>), any of which may fail, and is proved to compute the
  products reachable over the RM edges for every source that meets the contract
  \<open>rm_source\<close>, which the SQL is then shown to meet.
\<close>

section \<open>Scope and tables\<close>

datatype job_scope =
  ScopeAll | ScopeFiltered | ScopeSingleProduct | ScopeSingleRoute | ScopeMBBatch
| ScopeOther string

record scope_input =
  si_Scope :: job_scope
  si_ProductSysID :: int
  si_RouteHeadID :: int
  si_ProductTypeIDFilter :: int
  si_Period :: string

record edge =
  e_downstream :: int
  e_upstream :: int

datatype dag_error =
  ProductSysIDRequired | RouteHeadIDRequired | ProductTypeFilterRequired
| ErrMBScopeNotAllowed | UnknownScope job_scope | QueryFailed

record route_head =
  crh_head_id :: int
  crh_product_sys_id :: int
  crh_routing_status :: string
  crh_deleted :: bool

record route_seq =
  crs_seq_id :: int
  crs_head_id :: int
  crs_product_sys_id :: int
  crs_deleted :: bool

record route_rm =
  crm_seq_id :: int
  crm_rm_type :: string
  crm_rm_product_sys_id :: "int option"

record product_master =
  cpm_product_sys_id :: int
  cpm_product_type_id :: int
  cpm_is_active :: bool

record product_type =
  cpt_type_id :: int
  cpt_type_code :: string

record route_db =
  cost_route_head :: "route_head list"
  cost_route_seq :: "route_seq list"
  cost_route_rm :: "route_rm list"
  cost_product_master :: "product_master list"
  cost_product_type :: "product_type list"

definition typeCodeMB :: string where
  "typeCodeMB = ''MB''"

text \<open>The routing status test that the head queries share.\<close>

definition activeHead :: "route_head \<Rightarrow> bool" where
  "activeHead h \<longleftrightarrow>
     (crh_routing_status h = ''COMPLETE'' \<or> crh_routing_status h = ''LOCKED'') \<and> \<not> crh_deleted h"

text \<open>The two predicates appended to the product selections.\<close>

definition excludeMBPredicate :: "route_db \<Rightarrow> int \<Rightarrow> bool" where
  "excludeMBPredicate db p \<longleftrightarrow>
     \<not> list_ex (\<lambda>pm. list_ex (\<lambda>pt. cpt_type_id pt = cpm_product_type_id pm \<and>
          cpm_product_sys_id pm = p \<and> cpt_type_code pt = typeCodeMB) (cost_product_type db))
        (cost_product_master db)"

definition excludeInactivePredicate :: "route_db \<Rightarrow> int \<Rightarrow> bool" where
  "excludeInactivePredicate db p \<longleftrightarrow>
     list_ex (\<lambda>a. cpm_product_sys_id a = p \<and> cpm_is_active a) (cost_product_master db)"

section \<open>The queries\<close>

record dag_queries =
  q_isMBProduct :: "int \<Rightarrow> dag_error + bool"
  q_isMBProductType :: "int \<Rightarrow> dag_error + bool"
  q_productsOfRouteHead :: "int \<Rightarrow> dag_error + int list"
  q_productsByType :: "int \<Rightarrow> dag_error + int list"
  q_allActiveProducts :: "dag_error + int list"
  q_loadProductRMEdges :: "int list \<Rightarrow> dag_error + edge list"

definition allActiveProductsSQL :: "route_db \<Rightarrow> int list" where
  "allActiveProductsSQL db =
     sort (remdups [crh_product_sys_id h. h \<leftarrow> cost_route_head db, activeHead h,
       excludeMBPredicate db (crh_product_sys_id h), excludeInactivePredicate db (crh_product_sys_id h)])"

definition productsByTypeSQL :: "route_db \<Rightarrow> int \<Rightarrow> int list" where
  "productsByTypeSQL db typeID =
     sort (remdups [crh_product_sys_id h. h \<leftarrow> cost_route_head db, pm \<leftarrow> cost_product_master db,
       cpm_product_sys_id pm = crh_product_sys_id h, activeHead h, cpm_product_type_id pm = typeID,
       excludeMBPredicate db (crh_product_sys_id h), excludeInactivePredicate db (crh_product_sys_id h)])"

definition productsOfRouteHeadSQL :: "route_db \<Rightarrow> int \<Rightarrow> int list" where
  "productsOfRouteHeadSQL db headID =
     [crh_product_sys_id h. h \<leftarrow> cost_route_head db, crh_head_id h = headID, \<not> crh_deleted h,
       excludeMBPredicate db (crh_product_sys_id h), excludeInactivePredicate db (crh_product_sys_id h)]"

definition isMBProductSQL :: "route_db \<Rightarrow> int \<Rightarrow> bool" where
  "isMBProductSQL db p \<longleftrightarrow>
     list_ex (\<lambda>pm. list_ex (\<lambda>pt. cpt_type_id pt = cpm_product_type_id pm \<and>
          cpm_product_sys_id pm = p \<and> cpt_type_code pt = typeCodeMB) (cost_product_type db))
        (cost_product_master db)"

definition isMBProductTypeSQL :: "route_db \<Rightarrow> int \<Rightarrow> bool" where
  "isMBProductTypeSQL db typeID \<longleftrightarrow>
     list_ex (\<lambda>pt. cpt_type_id pt = typeID \<and> cpt_type_code pt = typeCodeMB) (cost_product_type db)"

text \<open>The joins and conditions of the edge query; its \<open>= ANY($1)\<close> is the filter below.\<close>

definition activeRMEdges :: "route_db \<Rightarrow> edge list" where
  "activeRMEdges db =
     [\<lparr>e_downstream = crs_product_sys_id s, e_upstream = the (crm_rm_product_sys_id r)\<rparr>.
       h \<leftarrow> cost_route_head db, s \<leftarrow> cost_route_seq db, crs_head_id s = crh_head_id h,
       r \<leftarrow> cost_route_rm db, crm_seq_id r = crs_seq_id s,
       activeHead h, \<not> crs_deleted s,
       crm_rm_type r = ''PRODUCT'', crm_rm_product_sys_id r \<noteq> None,
       list_ex (\<lambda>up. crh_product_sys_id up = the (crm_rm_product_sys_id r) \<and> activeHead up)
         (cost_route_head db)]"

definition loadProductRMEdgesSQL :: "route_db \<Rightarrow> int list \<Rightarrow> edge list" where
  "loadProductRMEdgesSQL db productSysIDs =
     filter (\<lambda>e. e_downstream e \<in> set productSysIDs) (activeRMEdges db)"

definition sqlQueries :: "route_db \<Rightarrow> dag_queries" where
  "sqlQueries db =
     \<lparr>q_isMBProduct = (\<lambda>p. Inr (isMBProductSQL db p)),
      q_isMBProductType = (\<lambda>t. Inr (isMBProductTypeSQL db t)),
      q_productsOfRouteHead = (\<lambda>h. Inr (productsOfRouteHeadSQL db h)),
      q_productsByType = (\<lambda>t. Inr (productsByTypeSQL db t)),
      q_allActiveProducts = Inr (allActiveProductsSQL db),
      q_loadProductRMEdges = (\<lambda>ps. Inr (loadProductRMEdgesSQL db ps))\<rparr>"

section \<open>The initial set\<close>

definition isMBProductType :: "dag_queries \<Rightarrow> int \<Rightarrow> dag_error + bool" where
  "isMBProductType q typeID = (if typeID = 0 then Inr False else q_isMBProductType q typeID)"

definition productsByType :: "dag_queries \<Rightarrow> int \<Rightarrow> dag_error + int list" where
  "productsByType q typeID =
     (if typeID = 0 then Inl ProductTypeFilterRequired else q_productsByType q typeID)"

definition resolveInitialSet :: "dag_queries \<Rightarrow> scope_input \<Rightarrow> dag_error + int list" where
  "resolveInitialSet q inp =
     (case si_Scope inp of
        ScopeSingleProduct \<Rightarrow>
          (if si_ProductSysID inp = 0 then Inl ProductSysIDRequired
           else (case q_isMBProduct q (si_ProductSysID inp) of
             Inl e \<Rightarrow> Inl e
           | Inr isMB \<Rightarrow> (if isMB then Inl ErrMBScopeNotAllowed else Inr [si_ProductSysID inp])))
      | ScopeSingleRoute \<Rightarrow>
          (if si_RouteHeadID inp = 0 then Inl RouteHeadIDRequired
           else q_productsOfRouteHead q (si_RouteHeadID inp))
      | ScopeFiltered \<Rightarrow>
          (case isMBProductType q (si_ProductTypeIDFilter inp) of
             Inl e \<Rightarrow> Inl e
           | Inr isMB \<Rightarrow> if isMB then Inl ErrMBScopeNotAllowed
                        else productsByType q (si_ProductTypeIDFilter inp))
      | ScopeAll \<Rightarrow> q_allActiveProducts q
      | scope \<Rightarrow> Inl (UnknownScope scope))"

section \<open>The traversal\<close>

record build_loop =
  bl_visited :: "int set"
  bl_graph :: dependency_graph
  bl_frontier :: "int list"
  bl_error :: "dag_error option"

definition visitOne ::
  "int \<Rightarrow> int set \<times> dependency_graph \<times> int list \<Rightarrow> int set \<times> dependency_graph \<times> int list" where
  "visitOne pid = (\<lambda>(visited, g, batch).
     if pid \<in> visited then (visited, g, batch)
     else (insert pid visited, AddNode g pid, batch @ [pid]))"

definition mergeEdge ::
  "int set \<Rightarrow> edge \<Rightarrow> dependency_graph \<times> int list \<Rightarrow> dependency_graph \<times> int list" where
  "mergeEdge visited e = (\<lambda>(g, nxt).
     (AddEdge g (e_downstream e) (e_upstream e),
      if e_upstream e \<notin> visited then nxt @ [e_upstream e] else nxt))"

text \<open>An empty batch leaves the loop, which the empty frontier stands for.\<close>

definition buildStep :: "dag_queries \<Rightarrow> build_loop \<Rightarrow> build_loop" where
  "buildStep q l =
     (case fold visitOne (bl_frontier l) (bl_visited l, bl_graph l, []) of
        (visited, g, batch) \<Rightarrow>
          if batch = [] then l\<lparr>bl_visited := visited, bl_graph := g, bl_frontier := []\<rparr>
          else (case q_loadProductRMEdges q batch of
            Inl e \<Rightarrow> l\<lparr>bl_visited := visited, bl_graph := g, bl_error := Some e\<rparr>
          | Inr es \<Rightarrow> (case fold (mergeEdge visited) es (g, []) of
                 (g', nxt) \<Rightarrow> l\<lparr>bl_visited := visited, bl_graph := g', bl_frontier := nxt\<rparr>)))"

definition buildInit :: "int list \<Rightarrow> build_loop" where
  "buildInit initial =
     \<lparr>bl_visited = {}, bl_graph = NewDependencyGraph, bl_frontier = initial, bl_error = None\<rparr>"

definition Build :: "dag_queries \<Rightarrow> scope_input \<Rightarrow> (dag_error + dependency_graph \<times> int list) option" where
  "Build q inp =
     (case resolveInitialSet q inp of
        Inl e \<Rightarrow> Some (Inl e)
      | Inr initial \<Rightarrow>
          if initial = [] then Some (Inr (NewDependencyGraph, []))
          else (case while_option (\<lambda>l. bl_frontier l \<noteq> [] \<and> bl_error l = None) (buildStep q)
                      (buildInit initial) of
            None \<Rightarrow> None
          | Some l \<Rightarrow> (case bl_error l of
                Some e \<Rightarrow> Some (Inl e)
              | None \<Rightarrow> Some (Inr (bl_graph l, Nodes (bl_graph l))))))"

text \<open>
  The contract of the edge query: it returns the edges of one finite relation whose
  downstream product is in the batch. \<open>reach\<close> are the products the traversal must find.
\<close>

locale rm_source =
  fixes q :: dag_queries and R :: "(int \<times> int) set"
  assumes load_edges: "q_loadProductRMEdges q batch = Inr es \<Longrightarrow>
      {(e_downstream e, e_upstream e) | e. e \<in> set es} = {(d, u) \<in> R. d \<in> set batch}"
    and finite_edges: "finite R"
begin

lemma visit_fold:
  assumes "fold visitOne ps (V, g, b) = (V', g', b')"
  shows "V' = V \<union> set ps \<and> dg_nodes g' = dg_nodes g \<union> (set ps - V) \<and> Upstream g' = Upstream g \<and>
    set b' = set b \<union> (set ps - V) \<and> (wf_graph g \<longrightarrow> wf_graph g')"
  using assms
proof (induction ps arbitrary: V g b)
  case (Cons p ps)
  show ?case
  proof (cases "p \<in> V")
    case True
    then show ?thesis using Cons.IH [of V g b] Cons.prems by (auto simp: visitOne_def)
  next
    case False
    then show ?thesis
      using Cons.IH [of "insert p V" "AddNode g p" "b @ [p]"] Cons.prems by (auto simp: visitOne_def)
  qed
qed simp

lemma merge_fold:
  assumes "fold (mergeEdge V) es (g, nx) = (g', nx')"
  shows "dg_nodes g' = dg_nodes g \<union> e_downstream ` set es \<union> e_upstream ` set es \<and>
    (\<forall>d. deps g' d = deps g d \<union> {u. \<exists>e \<in> set es. d = e_downstream e \<and> u = e_upstream e}) \<and>
    set nx' = set nx \<union> (e_upstream ` set es - V) \<and> (wf_graph g \<longrightarrow> wf_graph g')"
  using assms
proof (induction es arbitrary: g nx)
  case (Cons e es)
  let ?g = "AddEdge g (e_downstream e) (e_upstream e)"
  have d: "deps ?g d = deps g d \<union> (if d = e_downstream e then {e_upstream e} else {})" for d
    by (auto simp: deps_def)
  show ?case
    using Cons.IH [of ?g "if e_upstream e \<notin> V then nx @ [e_upstream e] else nx"] Cons.prems
    by (auto simp: mergeEdge_def d split: if_splits)
qed simp

definition reach :: "int list \<Rightarrow> int set" where
  "reach initial = {n. \<exists>i \<in> set initial. (i, n) \<in> R\<^sup>*}"

lemma finite_reach: "finite (reach initial)"
proof (rule finite_subset)
  show "reach initial \<subseteq> set initial \<union> snd ` R"
  proof
    fix n assume "n \<in> reach initial"
    then obtain i where i: "i \<in> set initial" "(i, n) \<in> R\<^sup>*" unfolding reach_def by blast
    from i(2) show "n \<in> set initial \<union> snd ` R"
      by (cases rule: rtrancl.cases) (use i(1) in force)+
  qed
qed (simp add: finite_edges)

lemma reach_step: "d \<in> reach initial \<Longrightarrow> (d, u) \<in> R \<Longrightarrow> u \<in> reach initial"
  by (auto simp: reach_def intro: rtrancl_into_rtrancl)

definition buildInv :: "int list \<Rightarrow> build_loop \<Rightarrow> bool" where
  "buildInv initial l \<longleftrightarrow>
     wf_graph (bl_graph l) \<and> bl_visited l \<subseteq> reach initial \<and>
     (bl_error l = None \<longrightarrow>
        bl_visited l \<subseteq> dg_nodes (bl_graph l) \<and>
        dg_nodes (bl_graph l) \<subseteq> bl_visited l \<union> set (bl_frontier l) \<and>
        set (bl_frontier l) \<subseteq> reach initial \<and>
        set initial \<subseteq> bl_visited l \<union> set (bl_frontier l) \<and>
        (\<forall>d. deps (bl_graph l) d = {u. d \<in> bl_visited l \<and> (d, u) \<in> R}) \<and>
        (\<forall>d u. d \<in> bl_visited l \<longrightarrow> (d, u) \<in> R \<longrightarrow> u \<in> bl_visited l \<union> set (bl_frontier l)))"

lemma buildInv_init: "buildInv initial (buildInit initial)"
  by (auto simp: buildInv_def buildInit_def reach_def deps_def) (simp add: NewDependencyGraph_def)

lemma buildStep_cases:
  assumes "fold visitOne (bl_frontier l) (bl_visited l, bl_graph l, []) = (V, g, b)"
  obtains (stop) "b = []" "buildStep q l = l\<lparr>bl_visited := V, bl_graph := g, bl_frontier := []\<rparr>"
  | (fail) e where "b \<noteq> []" "buildStep q l = l\<lparr>bl_visited := V, bl_graph := g, bl_error := Some e\<rparr>"
  | (more) es g' nxt where "b \<noteq> []" "q_loadProductRMEdges q b = Inr es"
      "fold (mergeEdge V) es (g, []) = (g', nxt)"
      "buildStep q l = l\<lparr>bl_visited := V, bl_graph := g', bl_frontier := nxt\<rparr>"
proof (cases "b = []")
  case True
  then show ?thesis using assms by (intro stop) (simp_all add: buildStep_def)
next
  case False
  show ?thesis
  proof (cases "q_loadProductRMEdges q b")
    case (Inl e)
    then show ?thesis using assms False by (intro fail) (simp_all add: buildStep_def)
  next
    case (Inr es)
    obtain g' nxt where "fold (mergeEdge V) es (g, []) = (g', nxt)"
      by (cases "fold (mergeEdge V) es (g, [])")
    then show ?thesis using assms False Inr by (intro more) (simp_all add: buildStep_def)
  qed
qed

lemma buildInv_step:
  assumes inv: "buildInv initial l" and go: "bl_error l = None"
  shows "buildInv initial (buildStep q l)"
proof -
  obtain V g b where run: "fold visitOne (bl_frontier l) (bl_visited l, bl_graph l, []) = (V, g, b)"
    by (cases "fold visitOne (bl_frontier l) (bl_visited l, bl_graph l, [])") auto
  note v = visit_fold [OF run]
  from inv go have i: "wf_graph (bl_graph l)" "bl_visited l \<subseteq> dg_nodes (bl_graph l)"
    "dg_nodes (bl_graph l) \<subseteq> bl_visited l \<union> set (bl_frontier l)"
    "set (bl_frontier l) \<subseteq> reach initial" "bl_visited l \<subseteq> reach initial"
    "set initial \<subseteq> bl_visited l \<union> set (bl_frontier l)"
    "\<And>d. deps (bl_graph l) d = {u. d \<in> bl_visited l \<and> (d, u) \<in> R}"
    "\<And>d u. d \<in> bl_visited l \<Longrightarrow> (d, u) \<in> R \<Longrightarrow> u \<in> bl_visited l \<union> set (bl_frontier l)"
    by (auto simp: buildInv_def)
  have g: "deps g = deps (bl_graph l)" using v by (simp add: deps_def fun_eq_iff)
  have nodes: "dg_nodes g = V" using v i(2,3) by auto
  from run show ?thesis
  proof (cases rule: buildStep_cases)
    case stop
    then have "V = bl_visited l" using v by auto
    then show ?thesis using stop v i g nodes by (auto simp: buildInv_def)
  next
    case (fail e)
    then show ?thesis using v i by (auto simp: buildInv_def)
  next
    case (more es g' nxt)
    note m = merge_fold [OF more(3)]
    have E: "{(e_downstream e, e_upstream e) | e. e \<in> set es} = {(d, u) \<in> R. d \<in> set b}"
      by (rule load_edges [OF more(2)])
    have up: "e_upstream ` set es = {u. \<exists>d \<in> set b. (d, u) \<in> R}"
      and down: "e_downstream ` set es \<subseteq> set b"
      and row: "{u. \<exists>e \<in> set es. d = e_downstream e \<and> u = e_upstream e} = {u. d \<in> set b \<and> (d, u) \<in> R}" for d
      using E by (auto simp: set_eq_iff image_iff)
    have b: "set b = set (bl_frontier l) - bl_visited l" using v by simp
    have nx: "set nxt = {u. \<exists>d \<in> set b. (d, u) \<in> R} - V" using m up by simp
    have "deps g' d = {u. d \<in> V \<and> (d, u) \<in> R}" for d
      using m g i(7) v row b by auto
    moreover have "dg_nodes g' = V \<union> set nxt"
      using m up down nodes nx b v by auto
    moreover have "set nxt \<subseteq> reach initial"
      using nx b i(4) reach_step by blast
    moreover have "u \<in> V \<union> set nxt" if "d \<in> V" "(d, u) \<in> R" for d u
      using that nx b v i(8) [of d u] by blast
    moreover have "V \<subseteq> reach initial" "set initial \<subseteq> V" "wf_graph g'" using v i m by auto
    ultimately show ?thesis unfolding buildInv_def more(4) by (simp add: subset_iff)
  qed
qed

lemma visited_grows:
  assumes inv: "buildInv initial l" and go: "bl_error l = None"
  shows "bl_visited l \<subseteq> bl_visited (buildStep q l) \<and>
    (bl_frontier (buildStep q l) = [] \<or> bl_visited l \<noteq> bl_visited (buildStep q l))"
proof -
  obtain V g b where run: "fold visitOne (bl_frontier l) (bl_visited l, bl_graph l, []) = (V, g, b)"
    by (cases "fold visitOne (bl_frontier l) (bl_visited l, bl_graph l, [])") auto
  note v = visit_fold [OF run]
  from run show ?thesis
    by (cases rule: buildStep_cases) (use v in \<open>auto simp: set_empty [symmetric] simp del: set_empty\<close>)
qed

lemma build_returns:
  "\<exists>l. while_option (\<lambda>l. bl_frontier l \<noteq> [] \<and> bl_error l = None) (buildStep q) (buildInit initial) = Some l"
proof (rule measure_while_option_Some
    [where P = "buildInv initial"
       and f = "\<lambda>l. card (reach initial - bl_visited l) + (if bl_frontier l = [] then 0 else 1)"])
  fix l
  assume inv: "buildInv initial l" and go: "bl_frontier l \<noteq> [] \<and> bl_error l = None"
  let ?l' = "buildStep q l"
  have inv': "buildInv initial ?l'" using buildInv_step inv go by blast
  have sub: "bl_visited l \<subseteq> bl_visited ?l'" "bl_visited ?l' \<subseteq> reach initial"
    using visited_grows [OF inv] go inv' by (auto simp: buildInv_def)
  have "card (reach initial - bl_visited ?l') < card (reach initial - bl_visited l)"
    if "bl_visited l \<noteq> bl_visited ?l'"
    by (rule psubset_card_mono) (use sub that finite_reach in auto)
  moreover have "card (reach initial - bl_visited ?l') \<le> card (reach initial - bl_visited l)"
    by (rule card_mono) (use sub finite_reach in auto)
  ultimately show "buildInv initial ?l' \<and>
      card (reach initial - bl_visited ?l') + (if bl_frontier ?l' = [] then 0 else 1)
        < card (reach initial - bl_visited l) + (if bl_frontier l = [] then 0 else 1)"
    using inv' visited_grows [OF inv] go by force
qed (rule buildInv_init)

lemma Build_returns: "\<exists>r. Build q inp = Some r"
  using build_returns [of "projr (resolveInitialSet q inp)"]
  by (auto simp: Build_def split: sum.splits option.splits)

lemma Build_reach:
  assumes res: "resolveInitialSet q inp = Inr initial" and run: "Build q inp = Some (Inr (g, ns))"
  shows "ns = sorted_list_of_set (reach initial) \<and> wf_graph g \<and> dg_nodes g = reach initial \<and>
    (\<forall>d. deps g d = {u. d \<in> reach initial \<and> (d, u) \<in> R})"
proof (cases "initial = []")
  case True
  then show ?thesis
    using assms by (auto simp: Build_def reach_def deps_def) (simp add: NewDependencyGraph_def)
next
  case False
  let ?go = "\<lambda>l. bl_frontier l \<noteq> [] \<and> bl_error l = None"
  obtain l where l: "while_option ?go (buildStep q) (buildInit initial) = Some l"
    using build_returns by blast
  have inv: "buildInv initial l"
    by (rule while_option_rule [where P = "buildInv initial", OF _ l buildInv_init])
      (simp add: buildInv_step)
  from run res l False have g: "bl_error l = None" "bl_graph l = g" "ns = Nodes g"
    by (auto simp: Build_def split: option.splits)
  with while_option_stop [OF l] have "bl_frontier l = []" by simp
  with inv g have i: "wf_graph g" "dg_nodes g = bl_visited l" "bl_visited l \<subseteq> reach initial"
    "set initial \<subseteq> bl_visited l" "\<And>d. deps g d = {u. d \<in> bl_visited l \<and> (d, u) \<in> R}"
    "\<And>d u. d \<in> bl_visited l \<Longrightarrow> (d, u) \<in> R \<Longrightarrow> u \<in> bl_visited l"
    by (auto simp: buildInv_def)
  have "n \<in> bl_visited l" if "(m, n) \<in> R\<^sup>*" "m \<in> bl_visited l" for m n
    using that by (induction rule: rtrancl_induct) (auto intro: i(6))
  then have "reach initial = bl_visited l" using i(3,4) by (auto simp: reach_def)
  then show ?thesis using i g by (simp add: Nodes_def)
qed

end

section \<open>The SQL meets the contract\<close>

text \<open>The RM edges of the tables, without the batch restriction of the query.\<close>

definition rmEdges :: "route_db \<Rightarrow> (int \<times> int) set" where
  "rmEdges db = (\<lambda>e. (e_downstream e, e_upstream e)) ` set (activeRMEdges db)"

interpretation sql: rm_source "sqlQueries db" "rmEdges db" for db
proof
  fix batch es
  assume "q_loadProductRMEdges (sqlQueries db) batch = Inr es"
  then have "es = loadProductRMEdgesSQL db batch" by (simp add: sqlQueries_def)
  then show "{(e_downstream e, e_upstream e) | e. e \<in> set es} = {(d, u) \<in> rmEdges db. d \<in> set batch}"
    by (auto simp: rmEdges_def loadProductRMEdgesSQL_def)
qed (simp add: rmEdges_def)

text \<open>Over the tables no query fails, so the traversal ends with a graph.\<close>

lemma Build_total:
  assumes "resolveInitialSet (sqlQueries db) inp = Inr initial"
  shows "\<exists>g ns. Build (sqlQueries db) inp = Some (Inr (g, ns))"
proof -
  obtain r where r: "Build (sqlQueries db) inp = Some r" using sql.Build_returns by blast
  have noerr: "bl_error (buildStep (sqlQueries db) l) = bl_error l" for l
    by (simp add: buildStep_def sqlQueries_def split: prod.splits)
  have "r \<noteq> Inl e" for e
  proof
    assume e: "r = Inl e"
    with r assms obtain l where
      l: "while_option (\<lambda>l. bl_frontier l \<noteq> [] \<and> bl_error l = None) (buildStep (sqlQueries db)) (buildInit initial) = Some l"
      and "bl_error l = Some e"
      by (auto simp: Build_def split: option.splits if_splits)
    moreover have "bl_error l = None"
      by (rule while_option_rule [where P = "\<lambda>l. bl_error l = None", OF _ l])
        (simp_all add: noerr buildInit_def)
    ultimately show False by simp
  qed
  then obtain g ns where "r = Inr (g, ns)" by (cases r) auto
  with r show ?thesis by blast
qed

lemma Build_initial:
  assumes "resolveInitialSet (sqlQueries db) inp = Inr initial"
  shows "\<exists>g. Build (sqlQueries db) inp = Some (Inr (g, sorted_list_of_set (dg_nodes g))) \<and> wf_graph g \<and>
    dg_nodes g = {n. \<exists>i \<in> set initial. (i, n) \<in> (rmEdges db)\<^sup>*} \<and>
    (\<forall>d. deps g d = {u. d \<in> dg_nodes g \<and> (d, u) \<in> rmEdges db})"
proof -
  obtain g ns where g: "Build (sqlQueries db) inp = Some (Inr (g, ns))"
    using Build_total [OF assms] by blast
  from sql.Build_reach [OF assms g] g show ?thesis by (auto simp: sql.reach_def)
qed

text \<open>(C5) The traversal always ends, and a graph it returns has as nodes exactly the products
  reachable from the initial set over the RM edges of the tables, listed in ascending order,
  and as edges exactly the RM edges between them.\<close>

theorem Build_closure:
  assumes "resolveInitialSet (sqlQueries db) inp = Inr initial"
  shows "\<exists>g. Build (sqlQueries db) inp = Some (Inr (g, sorted_list_of_set (dg_nodes g))) \<and> wf_graph g \<and>
    dg_nodes g = {n. \<exists>i \<in> set initial. (i, n) \<in> (rmEdges db)\<^sup>*} \<and>
    (\<forall>d u. u \<in> set (Upstream g d) \<longleftrightarrow> d \<in> dg_nodes g \<and> (d, u) \<in> rmEdges db)"
  using Build_initial [OF assms] by (auto simp: deps_def)

definition exampleRoutes :: route_db where
  "exampleRoutes =
     \<lparr>cost_route_head = [\<lparr>crh_head_id = 10, crh_product_sys_id = 2, crh_routing_status = ''LOCKED'', crh_deleted = False\<rparr>,
                         \<lparr>crh_head_id = 11, crh_product_sys_id = 1, crh_routing_status = ''COMPLETE'', crh_deleted = False\<rparr>],
      cost_route_seq = [\<lparr>crs_seq_id = 20, crs_head_id = 10, crs_product_sys_id = 2, crs_deleted = False\<rparr>],
      cost_route_rm = [\<lparr>crm_seq_id = 20, crm_rm_type = ''PRODUCT'', crm_rm_product_sys_id = Some 1\<rparr>],
      cost_product_master = [\<lparr>cpm_product_sys_id = 2, cpm_product_type_id = 7, cpm_is_active = True\<rparr>,
                             \<lparr>cpm_product_sys_id = 1, cpm_product_type_id = 7, cpm_is_active = False\<rparr>],
      cost_product_type = [\<lparr>cpt_type_id = 7, cpt_type_code = ''POY''\<rparr>]\<rparr>"

definition exampleScope :: scope_input where
  "exampleScope = \<lparr>si_Scope = ScopeAll, si_ProductSysID = 0, si_RouteHeadID = 0,
                   si_ProductTypeIDFilter = 0, si_Period = ''202609''\<rparr>"

lemma exampleScope_initial: "resolveInitialSet (sqlQueries exampleRoutes) exampleScope = Inr [2]"
  by code_simp

theorem Build_closure_witness:
  "resolveInitialSet (sqlQueries exampleRoutes) exampleScope = Inr [2] \<and>
   (\<exists>g. Build (sqlQueries exampleRoutes) exampleScope = Some (Inr (g, sorted_list_of_set (dg_nodes g))))"
  using exampleScope_initial Build_closure [OF exampleScope_initial] by blast

text \<open>A calculation job never targets a Master Batch product, and unless one product was
  named explicitly it targets only products whose master row is active.\<close>

theorem resolveInitialSet_targets:
  assumes "resolveInitialSet (sqlQueries db) inp = Inr ps" and "p \<in> set ps"
  shows "\<not> isMBProductSQL db p \<and>
    (si_Scope inp = ScopeSingleProduct \<and> ps = [si_ProductSysID inp] \<or>
     list_ex (\<lambda>a. cpm_product_sys_id a = p \<and> cpm_is_active a) (cost_product_master db))"
proof -
  have mb: "excludeMBPredicate db p \<longleftrightarrow> \<not> isMBProductSQL db p"
    by (simp add: excludeMBPredicate_def isMBProductSQL_def)
  show ?thesis
    using assms mb
    by (auto simp: resolveInitialSet_def sqlQueries_def isMBProductType_def productsByType_def
        allActiveProductsSQL_def productsByTypeSQL_def productsOfRouteHeadSQL_def
        excludeInactivePredicate_def split: job_scope.splits if_splits)
qed

theorem resolveInitialSet_targets_witness:
  "\<not> isMBProductSQL exampleRoutes 2 \<and>
   list_ex (\<lambda>a. cpm_product_sys_id a = 2 \<and> cpm_is_active a) (cost_product_master exampleRoutes)"
  using resolveInitialSet_targets [OF exampleScope_initial, of 2] by (simp add: exampleScope_def)

end
