(* ===== verification/CalcStore.thy ===== *)
theory CalcStore
  imports Processes ChunkPacker DagBuilder
begin

text \<open>
  The tables and queues the calculation engine shares, and the statements its services
  issue on them: \<^verbatim>\<open>services/finance-cost-orchestrator/internal/orchestrator/repos.go\<close> and
  \<^verbatim>\<open>services/finance-cost-worker/internal/worker/chunk_repo.go\<close>.

  A table is the list of its rows in insertion order. Every statement and every publish is
  one atomic \<open>call\<close>. What a call meets is drawn from the schedule \<open>w_faults\<close>: it is carried
  out, it is refused without effect, or it is carried out but its confirmation is lost, so
  that the code sees an error. Theorems hold for every schedule.
\<close>

section \<open>Rows\<close>

datatype calc_status =
  statusQueued | statusPlanning | statusProcessing | statusSuccess | statusFailed
| statusPartial | statusDispatched | statusPending | statusCancelled | statusSkipped
| statusReady

text \<open>
  The JSON of \<open>cj_product_filter\<close>: text that does not decode into the three selectors, or
  the selectors (zero where absent).
\<close>

datatype filter_json =
  Undecodable
| Selectors (f_product_sys_id: int) (f_route_head_id: int) (f_product_type_id: int)

text \<open>
  \<open>DoesNotReturn\<close> stands for a loop that does not end; the DAG build and the wave planner are
  proved to return, so no run has it.
\<close>

datatype calc_error =
  Unavailable | NoRows | ConstraintViolation | DagFailed dag_error
| GrpcFailed | FinanceRejected | JobIDRequired | JobInvalidStatus | JobNotFound | DoesNotReturn

record cal_job =
  cj_job_id :: int
  cj_job_code :: string
  cj_period :: string
  cj_calculation_type :: string
  cj_scope :: job_scope
  cj_product_filter :: "filter_json option"
  cj_status :: calc_status
  cj_priority :: int
  cj_total_products :: int
  cj_total_chunks :: int
  cj_total_waves :: int
  cj_processed_chunks :: int
  cj_success_count :: int
  cj_failed_count :: int
  cj_blocked_count :: int
  cj_error_summary :: "calc_error option"
  cj_triggered_by :: string
  cj_queued_at :: time
  cj_started_at :: "time option"
  cj_completed_at :: "time option"
  cj_duration_ms :: "int option"
  cj_created_by :: string

record cal_job_chunk =
  cjc_chunk_id :: int
  cjc_job_id :: int
  cjc_chunk_number :: int
  cjc_wave_no :: int
  cjc_product_ids :: "int list"
  cjc_product_count :: int
  cjc_status :: calc_status
  cjc_worker_id :: "string option"
  cjc_dispatched_at :: "time option"
  cjc_started_at :: "time option"
  cjc_completed_at :: "time option"
  cjc_duration_ms :: "int option"
  cjc_success_count :: int
  cjc_failed_count :: int
  cjc_error_message :: "string option"
  cjc_retry_count :: int
  cjc_progress_counted :: bool

record cal_job_product =
  cjp_job_id :: int
  cjp_chunk_id :: "int option"
  cjp_product_sys_id :: int
  cjp_route_head_id :: int
  cjp_wave_no :: int
  cjp_status :: calc_status
  cjp_completed_at :: "time option"

record cst_period_lock =
  cpl_period :: string
  cpl_calc_type :: string
  cpl_unlocked_at :: "time option"

section \<open>Messages and the world\<close>

record chunk_completed_event =
  ev_ChunkID :: int
  ev_JobID :: int
  ev_WaveNo :: int
  ev_Status :: calc_status
  ev_SuccessCount :: int
  ev_FailedCount :: int
  ev_BlockedCount :: int

record job_triggered_event =
  jt_JobID :: int

text \<open>What one call meets, and what a gRPC call to the finance service answers.\<close>

datatype fate = CarriedOut | Refused | Unconfirmed

datatype grpc_reply = TransportError | FinanceError | Processed int int int

text \<open>
  A message body is \<open>None\<close> when it does not parse. A message stays in its queue until it is
  acknowledged, so it may be delivered again meanwhile.
\<close>

record calc_world =
  w_jobs :: "cal_job list"
  w_chunks :: "cal_job_chunk list"
  w_products :: "cal_job_product list"
  w_locks :: "cst_period_lock list"
  w_routes :: route_db
  w_nextJobID :: int
  w_nextChunkID :: int
  w_jobQueue :: "job_triggered_event option list"
  w_chunkQueue :: "chunk_spec option list"
  w_doneQueue :: "chunk_completed_event option list"
  w_deadLetters :: "chunk_spec option list"
  w_jobsTotal :: "(calc_status \<times> (string \<times> job_scope \<times> string) option) list"
  w_skippedLocked :: int
  w_replies :: "grpc_reply list"
  w_now :: time
  w_faults :: "fate list"

type_synonym 'a query = "calc_world \<Rightarrow> (calc_error + 'a) \<times> calc_world"
type_synonym 'a calc_prog = "(calc_world, calc_error, 'a) prog"

definition call :: "'a query \<Rightarrow> 'a calc_prog" where
  "call q = Step (\<lambda>w.
     (case w_faults w of
        [] \<Rightarrow> map_prod Return id (q w)
      | CarriedOut # fs \<Rightarrow> map_prod Return id (q (w\<lparr>w_faults := fs\<rparr>))
      | Refused # fs \<Rightarrow> (fails Unavailable, w\<lparr>w_faults := fs\<rparr>)
      | Unconfirmed # fs \<Rightarrow> (fails Unavailable, snd (q (w\<lparr>w_faults := fs\<rparr>)))))"

text \<open>Statements that only read, and that only write.\<close>

definition reading :: "(calc_world \<Rightarrow> 'a) \<Rightarrow> 'a calc_prog" where
  "reading f = call (\<lambda>w. (Inr (f w), w))"

definition writing :: "(calc_world \<Rightarrow> calc_world) \<Rightarrow> unit calc_prog" where
  "writing f = call (\<lambda>w. (Inr (), f w))"

definition updateWhere :: "('r \<Rightarrow> bool) \<Rightarrow> ('r \<Rightarrow> 'r) \<Rightarrow> 'r list \<Rightarrow> 'r list" where
  "updateWhere c f = map (\<lambda>r. if c r then f r else r)"

definition updateJob :: "int \<Rightarrow> (cal_job \<Rightarrow> cal_job) \<Rightarrow> calc_world \<Rightarrow> calc_world" where
  "updateJob i f w = w\<lparr>w_jobs := updateWhere (\<lambda>j. cj_job_id j = i) f (w_jobs w)\<rparr>"

definition updateChunks ::
  "(cal_job_chunk \<Rightarrow> bool) \<Rightarrow> (cal_job_chunk \<Rightarrow> cal_job_chunk) \<Rightarrow> calc_world \<Rightarrow> calc_world" where
  "updateChunks c f w = w\<lparr>w_chunks := updateWhere c f (w_chunks w)\<rparr>"

section \<open>cal_job\<close>

record job_dto =
  jd_JobID :: int
  jd_JobCode :: string
  jd_Period :: string
  jd_CalcType :: string
  jd_Scope :: job_scope
  jd_Status :: calc_status
  jd_TriggeredBy :: string
  jd_CreatedBy :: string
  jd_ProductSysID :: int
  jd_RouteHeadID :: int
  jd_ProductTypeIDFilter :: int

definition applyFilter :: "job_dto \<Rightarrow> filter_json \<Rightarrow> job_dto" where
  "applyFilter j raw =
     (case raw of
        Undecodable \<Rightarrow> j
      | Selectors p r t \<Rightarrow>
          j\<lparr>jd_ProductSysID := p, jd_RouteHeadID := r, jd_ProductTypeIDFilter := t\<rparr>)"

definition scanJobDTO :: "cal_job \<Rightarrow> job_dto" where
  "scanJobDTO r =
     (let j = \<lparr>jd_JobID = cj_job_id r, jd_JobCode = cj_job_code r, jd_Period = cj_period r,
               jd_CalcType = cj_calculation_type r, jd_Scope = cj_scope r, jd_Status = cj_status r,
               jd_TriggeredBy = cj_triggered_by r, jd_CreatedBy = cj_created_by r,
               jd_ProductSysID = 0, jd_RouteHeadID = 0, jd_ProductTypeIDFilter = 0\<rparr>
      in (case cj_product_filter r of None \<Rightarrow> j | Some raw \<Rightarrow> applyFilter j raw))"

definition findJob :: "int \<Rightarrow> calc_world \<Rightarrow> cal_job option" where
  "findJob i w = find (\<lambda>j. cj_job_id j = i) (w_jobs w)"

text \<open>A \<open>SELECT\<close> by job id: no row is an error.\<close>

definition selectJob :: "int \<Rightarrow> (cal_job \<Rightarrow> 'a) \<Rightarrow> 'a calc_prog" where
  "selectJob i f = call (\<lambda>w. (case findJob i w of None \<Rightarrow> Inl NoRows | Some j \<Rightarrow> Inr (f j), w))"

definition GetByID :: "int \<Rightarrow> job_dto calc_prog" where
  "GetByID i = selectJob i scanJobDTO"

definition UpdateStatus :: "int \<Rightarrow> calc_status \<Rightarrow> unit calc_prog" where
  "UpdateStatus i st = writing (updateJob i (\<lambda>j. j\<lparr>cj_status := st\<rparr>))"

definition MarkFailed :: "int \<Rightarrow> calc_error \<Rightarrow> unit calc_prog" where
  "MarkFailed i e = writing (updateJob i (\<lambda>j. j\<lparr>cj_status := statusFailed, cj_error_summary := Some e\<rparr>))"

definition UpdateTotals :: "int \<Rightarrow> int \<Rightarrow> int \<Rightarrow> int \<Rightarrow> unit calc_prog" where
  "UpdateTotals i products chunks waves =
     writing (updateJob i (\<lambda>j. j\<lparr>cj_total_products := products, cj_total_chunks := chunks,
       cj_total_waves := waves\<rparr>))"

definition IncrementProgress :: "int \<Rightarrow> int \<Rightarrow> int \<Rightarrow> int \<Rightarrow> unit calc_prog" where
  "IncrementProgress i succ fl blocked =
     writing (updateJob i (\<lambda>j. j\<lparr>cj_processed_chunks := cj_processed_chunks j + 1,
       cj_success_count := cj_success_count j + succ, cj_failed_count := cj_failed_count j + fl,
       cj_blocked_count := cj_blocked_count j + blocked\<rparr>))"

definition CompleteJob ::
  "int \<Rightarrow> calc_status \<Rightarrow> int \<Rightarrow> int \<Rightarrow> int \<Rightarrow> int \<Rightarrow> unit calc_prog" where
  "CompleteJob i st succ fl blocked durationMs =
     writing (\<lambda>w. updateJob i (\<lambda>j. j\<lparr>cj_status := st, cj_success_count := succ,
       cj_failed_count := fl, cj_blocked_count := blocked, cj_completed_at := Some (w_now w),
       cj_duration_ms := Some durationMs\<rparr>) w)"

definition MarkStarted :: "int \<Rightarrow> unit calc_prog" where
  "MarkStarted i =
     writing (\<lambda>w. updateJob i (\<lambda>j. j\<lparr>cj_started_at :=
       (case cj_started_at j of None \<Rightarrow> Some (w_now w) | Some t \<Rightarrow> Some t)\<rparr>) w)"

definition GetProgress :: "int \<Rightarrow> (int \<times> int \<times> int \<times> int \<times> int) calc_prog" where
  "GetProgress i = selectJob i (\<lambda>j. (cj_processed_chunks j, cj_total_chunks j,
     cj_success_count j, cj_failed_count j, cj_blocked_count j))"

definition getStartedAt :: "int \<Rightarrow> time calc_prog" where
  "getStartedAt i = selectJob i (\<lambda>j. case cj_started_at j of None \<Rightarrow> cj_queued_at j | Some t \<Rightarrow> t)"

definition getTotalWaves :: "int \<Rightarrow> int calc_prog" where
  "getTotalWaves i =
     reading (\<lambda>w. case findJob i w of None \<Rightarrow> 0 | Some j \<Rightarrow> cj_total_waves j)"

text \<open>
  \<open>generate_cal_job_code()\<close> is a function of the database; the code is an argument here.
\<close>

definition CreateAutoJob ::
  "string \<Rightarrow> string \<Rightarrow> string \<Rightarrow> job_scope \<Rightarrow> string \<Rightarrow> string \<Rightarrow> int calc_prog" where
  "CreateAutoJob code period calcType scope triggeredBy createdBy =
     call (\<lambda>w.
       let j = \<lparr>cj_job_id = w_nextJobID w, cj_job_code = code, cj_period = period,
                cj_calculation_type = calcType, cj_scope = scope, cj_product_filter = None,
                cj_status = statusQueued, cj_priority = 5, cj_total_products = 0,
                cj_total_chunks = 0, cj_total_waves = 0, cj_processed_chunks = 0,
                cj_success_count = 0, cj_failed_count = 0, cj_blocked_count = 0,
                cj_error_summary = None, cj_triggered_by = triggeredBy, cj_queued_at = w_now w,
                cj_started_at = None, cj_completed_at = None, cj_duration_ms = None,
                cj_created_by = createdBy\<rparr>
       in (Inr (w_nextJobID w),
           w\<lparr>w_jobs := w_jobs w @ [j], w_nextJobID := w_nextJobID w + 1\<rparr>))"

definition isPeriodLockedSQL :: "calc_world \<Rightarrow> string \<Rightarrow> string \<Rightarrow> bool" where
  "isPeriodLockedSQL w period calcType \<longleftrightarrow>
     list_ex (\<lambda>l. cpl_period l = period \<and> cpl_calc_type l = calcType \<and> cpl_unlocked_at l = None)
       (w_locks w)"

definition IsPeriodLocked :: "string \<Rightarrow> string \<Rightarrow> bool calc_prog" where
  "IsPeriodLocked period calcType = reading (\<lambda>w. isPeriodLockedSQL w period calcType)"

section \<open>cal_job_chunk\<close>

record chunk_row =
  cr_JobID :: int
  cr_ChunkNumber :: int
  cr_WaveNo :: int
  cr_ProductIDs :: "int list"
  cr_ChunkID :: int

text \<open>The row that one element of a bulk insert becomes, with its generated id.\<close>

definition insertedChunk :: "chunk_row \<Rightarrow> int \<Rightarrow> cal_job_chunk" where
  "insertedChunk r i =
     \<lparr>cjc_chunk_id = i, cjc_job_id = cr_JobID r, cjc_chunk_number = cr_ChunkNumber r,
      cjc_wave_no = cr_WaveNo r, cjc_product_ids = cr_ProductIDs r,
      cjc_product_count = int (length (cr_ProductIDs r)), cjc_status = statusQueued,
      cjc_worker_id = None, cjc_dispatched_at = None, cjc_started_at = None,
      cjc_completed_at = None, cjc_duration_ms = None, cjc_success_count = 0,
      cjc_failed_count = 0, cjc_error_message = None, cjc_retry_count = 0,
      cjc_progress_counted = False\<rparr>"

text \<open>The rows inserted for a list, numbered from the sequence's next value.\<close>

primrec insertedChunks :: "chunk_row list \<Rightarrow> int \<Rightarrow> cal_job_chunk list" where
  "insertedChunks [] i = []"
| "insertedChunks (r # rs) i = insertedChunk r i # insertedChunks rs (i + 1)"

text \<open>The constraint \<open>uk_cjc_job_chunk\<close> on job and chunk number.\<close>

definition chunkKey :: "cal_job_chunk \<Rightarrow> int \<times> int" where
  "chunkKey c = (cjc_job_id c, cjc_chunk_number c)"

definition ChunkBulkInsert :: "chunk_row list \<Rightarrow> chunk_row list calc_prog" where
  "ChunkBulkInsert rows =
     (if rows = [] then ok []
      else call (\<lambda>w.
        let new = insertedChunks rows (w_nextChunkID w)
        in if distinct (map chunkKey (w_chunks w @ new))
           then (Inr (map2 (\<lambda>r c. r\<lparr>cr_ChunkID := cjc_chunk_id c\<rparr>) rows new),
                 w\<lparr>w_chunks := w_chunks w @ new,
                   w_nextChunkID := w_nextChunkID w + int (length rows)\<rparr>)
           else (Inl ConstraintViolation, w)))"

definition MarkRemainingChunksSkipped :: "int \<Rightarrow> int \<Rightarrow> unit calc_prog" where
  "MarkRemainingChunksSkipped jobID fromWave =
     writing (\<lambda>w. updateChunks
       (\<lambda>c. cjc_job_id c = jobID \<and> cjc_wave_no c \<ge> fromWave \<and> cjc_status c = statusQueued)
       (\<lambda>c. c\<lparr>cjc_status := statusFailed, cjc_completed_at := Some (w_now w),
              cjc_error_message := Some ''job cancelled before dispatch''\<rparr>) w)"

definition UpdateDispatched :: "int \<Rightarrow> unit calc_prog" where
  "UpdateDispatched i =
     writing (\<lambda>w. updateChunks (\<lambda>c. cjc_chunk_id c = i)
       (\<lambda>c. c\<lparr>cjc_status := statusDispatched, cjc_dispatched_at := Some (w_now w)\<rparr>) w)"

definition waveCompleted :: "calc_status \<Rightarrow> bool" where
  "waveCompleted st \<longleftrightarrow> st = statusSuccess \<or> st = statusPartial \<or> st = statusFailed"

definition waveRows :: "int \<Rightarrow> int \<Rightarrow> calc_world \<Rightarrow> cal_job_chunk list" where
  "waveRows jobID wave w =
     filter (\<lambda>c. cjc_job_id c = jobID \<and> cjc_wave_no c = wave) (w_chunks w)"

definition waveCounts :: "int \<Rightarrow> int \<Rightarrow> calc_world \<Rightarrow> int \<times> int" where
  "waveCounts jobID wave w =
     (int (length (waveRows jobID wave w)),
      int (length (filter (\<lambda>c. waveCompleted (cjc_status c)) (waveRows jobID wave w))))"

definition CountByJobWave :: "int \<Rightarrow> int \<Rightarrow> (int \<times> int) calc_prog" where
  "CountByJobWave jobID wave = reading (waveCounts jobID wave)"

definition ClaimProgressCount :: "int \<Rightarrow> bool calc_prog" where
  "ClaimProgressCount i =
     call (\<lambda>w.
       let open = (\<lambda>c. cjc_chunk_id c = i \<and> \<not> cjc_progress_counted c);
           n = length (filter open (w_chunks w))
       in (Inr (n > 0), updateChunks open (\<lambda>c. c\<lparr>cjc_progress_counted := True\<rparr>) w))"

record stuck_chunk_row =
  sc_ChunkID :: int
  sc_JobID :: int
  sc_WaveNo :: int
  sc_ProductCount :: int

text \<open>\<open>COALESCE(cjc_started_at, cjc_dispatched_at)\<close>; a comparison with NULL selects nothing.\<close>

definition stuckSince :: "cal_job_chunk \<Rightarrow> time option" where
  "stuckSince c = (case cjc_started_at c of None \<Rightarrow> cjc_dispatched_at c | Some t \<Rightarrow> Some t)"

definition isStuck :: "time \<Rightarrow> duration \<Rightarrow> cal_job_chunk \<Rightarrow> bool" where
  "isStuck now olderThan c \<longleftrightarrow>
     (cjc_status c = statusDispatched \<or> cjc_status c = statusProcessing) \<and>
     (case stuckSince c of
        None \<Rightarrow> False
      | Some t \<Rightarrow> t < now - (olderThan div 1000000000) * 1000000000)"

definition stuckChunks :: "duration \<Rightarrow> calc_world \<Rightarrow> stuck_chunk_row list" where
  "stuckChunks olderThan w =
     map (\<lambda>c. \<lparr>sc_ChunkID = cjc_chunk_id c, sc_JobID = cjc_job_id c,
               sc_WaveNo = cjc_wave_no c, sc_ProductCount = cjc_product_count c\<rparr>)
       (sort_key (\<lambda>c. the (stuckSince c)) (filter (isStuck (w_now w) olderThan) (w_chunks w)))"

definition FindStuckChunks :: "duration \<Rightarrow> stuck_chunk_row list calc_prog" where
  "FindStuckChunks olderThan = reading (stuckChunks olderThan)"

definition MarkChunkFailed :: "int \<Rightarrow> string \<Rightarrow> unit calc_prog" where
  "MarkChunkFailed i msg =
     writing (\<lambda>w. updateChunks
       (\<lambda>c. cjc_chunk_id c = i \<and> (cjc_status c = statusDispatched \<or> cjc_status c = statusProcessing))
       (\<lambda>c. c\<lparr>cjc_status := statusFailed, cjc_completed_at := Some (w_now w),
              cjc_error_message := Some msg\<rparr>) w)"

definition chunksOfWave :: "int \<Rightarrow> int \<Rightarrow> calc_world \<Rightarrow> chunk_row list" where
  "chunksOfWave jobID wave w =
     map (\<lambda>c. \<lparr>cr_JobID = jobID, cr_ChunkNumber = cjc_chunk_number c, cr_WaveNo = wave,
               cr_ProductIDs = cjc_product_ids c, cr_ChunkID = cjc_chunk_id c\<rparr>)
       (sort_key cjc_chunk_number (waveRows jobID wave w))"

definition ListChunksOfWave :: "int \<Rightarrow> int \<Rightarrow> chunk_row list calc_prog" where
  "ListChunksOfWave jobID wave = reading (chunksOfWave jobID wave)"

section \<open>cal_job_product\<close>

record job_product_row =
  jp_JobID :: int
  jp_ProductSysID :: int
  jp_RouteHeadID :: int
  jp_WaveNo :: int
  jp_ChunkID :: int

definition insertedProduct :: "job_product_row \<Rightarrow> cal_job_product" where
  "insertedProduct r =
     \<lparr>cjp_job_id = jp_JobID r, cjp_chunk_id = (if jp_ChunkID r > 0 then Some (jp_ChunkID r) else None),
      cjp_product_sys_id = jp_ProductSysID r, cjp_route_head_id = jp_RouteHeadID r,
      cjp_wave_no = jp_WaveNo r, cjp_status = statusPending,
      cjp_completed_at = None\<rparr>"

text \<open>\<open>ON CONFLICT (cjp_job_id, cjp_product_sys_id) DO NOTHING\<close>, row by row.\<close>

definition insertProduct :: "job_product_row \<Rightarrow> cal_job_product list \<Rightarrow> cal_job_product list" where
  "insertProduct r rows =
     (if list_ex (\<lambda>p. cjp_job_id p = jp_JobID r \<and> cjp_product_sys_id p = jp_ProductSysID r) rows
      then rows else rows @ [insertedProduct r])"

text \<open>
  A route head that is not positive is inserted as NULL, which the NOT NULL column refuses.
\<close>

definition ProductBulkInsert :: "job_product_row list \<Rightarrow> unit calc_prog" where
  "ProductBulkInsert rows =
     (if rows = [] then ok ()
      else call (\<lambda>w.
        if list_ex (\<lambda>r. jp_RouteHeadID r \<le> 0) rows then (Inl ConstraintViolation, w)
        else (Inr (), w\<lparr>w_products := fold insertProduct rows (w_products w)\<rparr>)))"

text \<open>
  The route head of a product: the greatest active head of its own, else the greatest active
  head that has it as a sequence step.
\<close>

definition ownHeads :: "route_db \<Rightarrow> int \<Rightarrow> int list" where
  "ownHeads db p =
     [crh_head_id h. h \<leftarrow> cost_route_head db, activeHead h, crh_product_sys_id h = p]"

definition stepHeads :: "route_db \<Rightarrow> int \<Rightarrow> int list" where
  "stepHeads db p =
     [crs_head_id s. s \<leftarrow> cost_route_seq db, h \<leftarrow> cost_route_head db,
       crh_head_id h = crs_head_id s, activeHead h, crs_product_sys_id s = p]"

definition routeHeadOf :: "route_db \<Rightarrow> int \<Rightarrow> int option" where
  "routeHeadOf db p =
     (if ownHeads db p \<noteq> [] then Some (Max (set (ownHeads db p)))
      else if stepHeads db p \<noteq> [] then Some (Max (set (stepHeads db p)))
      else None)"

definition ResolveProductRouteMap :: "int list \<Rightarrow> (int \<Rightarrow> int option) calc_prog" where
  "ResolveProductRouteMap ids =
     reading (\<lambda>w p. if p \<in> set ids then routeHeadOf (w_routes w) p else None)"

section \<open>Publishing\<close>

definition PublishChunk :: "chunk_spec \<Rightarrow> unit calc_prog" where
  "PublishChunk c = writing (\<lambda>w. w\<lparr>w_chunkQueue := w_chunkQueue w @ [Some c]\<rparr>)"

definition PublishChunkDone :: "chunk_completed_event \<Rightarrow> unit calc_prog" where
  "PublishChunkDone ev = writing (\<lambda>w. w\<lparr>w_doneQueue := w_doneQueue w @ [Some ev]\<rparr>)"

definition PublishJobTriggered :: "int \<Rightarrow> unit calc_prog" where
  "PublishJobTriggered i =
     writing (\<lambda>w. w\<lparr>w_jobQueue := w_jobQueue w @ [Some \<lparr>jt_JobID = i\<rparr>]\<rparr>)"

text \<open>
  Acknowledging removes the delivered message, a negative acknowledgement without requeue
  drops it, or moves it to the dead letters where the queue has an exchange for them; one
  with requeue leaves it in its queue.
\<close>

definition nackRequeue :: "unit calc_prog" where
  "nackRequeue = writing id"

definition ackJob :: "job_triggered_event option \<Rightarrow> unit calc_prog" where
  "ackJob m = writing (\<lambda>w. w\<lparr>w_jobQueue := remove1 m (w_jobQueue w)\<rparr>)"

definition ackDone :: "chunk_completed_event option \<Rightarrow> unit calc_prog" where
  "ackDone m = writing (\<lambda>w. w\<lparr>w_doneQueue := remove1 m (w_doneQueue w)\<rparr>)"

definition ackChunk :: "chunk_spec option \<Rightarrow> unit calc_prog" where
  "ackChunk m = writing (\<lambda>w. w\<lparr>w_chunkQueue := remove1 m (w_chunkQueue w)\<rparr>)"

definition nackChunkDead :: "chunk_spec option \<Rightarrow> unit calc_prog" where
  "nackChunkDead m = writing (\<lambda>w. w\<lparr>w_chunkQueue := remove1 m (w_chunkQueue w),
     w_deadLetters := w_deadLetters w @ [m]\<rparr>)"

section \<open>The statements of the worker\<close>

definition GetStatus :: "int \<Rightarrow> calc_status calc_prog" where
  "GetStatus i =
     call (\<lambda>w. (case find (\<lambda>c. cjc_chunk_id c = i) (w_chunks w) of
                  None \<Rightarrow> Inl NoRows | Some c \<Rightarrow> Inr (cjc_status c), w))"

definition MarkProcessing :: "int \<Rightarrow> string \<Rightarrow> unit calc_prog" where
  "MarkProcessing i workerID =
     writing (\<lambda>w. updateChunks (\<lambda>c. cjc_chunk_id c = i)
       (\<lambda>c. c\<lparr>cjc_status := statusProcessing, cjc_started_at := Some (w_now w),
              cjc_worker_id := Some workerID\<rparr>) w)"

definition MarkCompleted :: "int \<Rightarrow> calc_status \<Rightarrow> int \<Rightarrow> int \<Rightarrow> int \<Rightarrow> unit calc_prog" where
  "MarkCompleted i st succ fl durationMs =
     writing (\<lambda>w. updateChunks (\<lambda>c. cjc_chunk_id c = i)
       (\<lambda>c. c\<lparr>cjc_status := st, cjc_completed_at := Some (w_now w), cjc_success_count := succ,
              cjc_failed_count := fl, cjc_duration_ms := Some durationMs\<rparr>) w)"

definition IncrementRetry :: "int \<Rightarrow> int calc_prog" where
  "IncrementRetry i =
     call (\<lambda>w. let w' = updateChunks (\<lambda>c. cjc_chunk_id c = i)
                  (\<lambda>c. c\<lparr>cjc_retry_count := cjc_retry_count c + 1\<rparr>) w
               in (case find (\<lambda>c. cjc_chunk_id c = i) (w_chunks w') of
                     None \<Rightarrow> Inl NoRows | Some c \<Rightarrow> Inr (cjc_retry_count c), w'))"

end
