(* ===== verification/Coordinator.thy ===== *)
theory Coordinator
  imports CalcStore
begin

text \<open>
  \<^verbatim>\<open>services/finance-cost-orchestrator/internal/orchestrator/coordinator.go\<close> and
  \<^verbatim>\<open>cron.go\<close>: the handlers of the orchestrator as programs over the tables and queues. Log
  and trace calls are left out; a message handler ends with the acknowledgement the code
  sends. A message body is \<open>None\<close> when \<open>json.Unmarshal\<close> rejects it.
\<close>

record orchestrator_config =
  oc_ChunkSize :: int
  oc_MaxChunkSize :: int

section \<open>Planning and dispatch\<close>

text \<open>Counting a metric is no call to the outside and cannot fail.\<close>

definition countJob :: "calc_status \<Rightarrow> (string \<times> job_scope \<times> string) option \<Rightarrow> unit calc_prog" where
  "countJob st labels = Step (\<lambda>w. (ok (), w\<lparr>w_jobsTotal := w_jobsTotal w @ [(st, labels)]\<rparr>))"

definition emitJobTerminal :: "int \<Rightarrow> calc_status \<Rightarrow> unit calc_prog" where
  "emitJobTerminal jobID st =
     continue (GetByID jobID) (\<lambda>r.
       (case r of
          Inl e \<Rightarrow> countJob st None
        | Inr job \<Rightarrow> countJob st (Some (jd_CalcType job, jd_Scope job, jd_TriggeredBy job))))"

text \<open>The DAG build reads one snapshot of the route tables.\<close>

definition buildFrom :: "scope_input \<Rightarrow> calc_world \<Rightarrow> calc_error + dependency_graph \<times> int list" where
  "buildFrom inp w =
     (case Build (sqlQueries (w_routes w)) inp of
        None \<Rightarrow> Inl DoesNotReturn
      | Some (Inl e) \<Rightarrow> Inl (DagFailed e)
      | Some (Inr r) \<Rightarrow> Inr r)"

definition buildDag :: "scope_input \<Rightarrow> (dependency_graph \<times> int list) calc_prog" where
  "buildDag inp = call (\<lambda>w. (buildFrom inp w, w))"

definition chunkRows :: "int \<Rightarrow> packed_wave \<Rightarrow> chunk_row list" where
  "chunkRows jobID wave =
     map (\<lambda>c. \<lparr>cr_JobID = jobID, cr_ChunkNumber = cs_chunkNumber c, cr_WaveNo = cs_waveNo c,
               cr_ProductIDs = cs_productIDs c, cr_ChunkID = 0\<rparr>) (pw_chunks wave)"

definition wireChunkIDs :: "packed_wave \<Rightarrow> chunk_row list \<Rightarrow> packed_wave" where
  "wireChunkIDs wave rows =
     wave\<lparr>pw_chunks := map2 (\<lambda>c r. c\<lparr>cs_chunkID := cr_ChunkID r\<rparr>) (pw_chunks wave) rows\<rparr>"

definition productRows :: "int \<Rightarrow> (int \<Rightarrow> int option) \<Rightarrow> packed_wave \<Rightarrow> job_product_row list" where
  "productRows jobID routeMap wave =
     [\<lparr>jp_JobID = jobID, jp_ProductSysID = pid,
       jp_RouteHeadID = (case routeMap pid of None \<Rightarrow> 0 | Some h \<Rightarrow> h),
       jp_WaveNo = cs_waveNo c, jp_ChunkID = cs_chunkID c\<rparr>.
       c \<leftarrow> pw_chunks wave, pid \<leftarrow> cs_productIDs c]"

text \<open>The result is the number of chunks and the waves with the chunk ids wired in.\<close>

primrec persistWavePlan ::
  "int \<Rightarrow> (int \<Rightarrow> int option) \<Rightarrow> packed_wave list \<Rightarrow> (int \<times> packed_wave list) calc_prog" where
  "persistWavePlan jobID routeMap [] = ok (0, [])"
| "persistWavePlan jobID routeMap (wave # waves) =
     andThen (ChunkBulkInsert (chunkRows jobID wave)) (\<lambda>rows.
     let wired = wireChunkIDs wave rows
     in andThen (ProductBulkInsert (productRows jobID routeMap wired)) (\<lambda>_.
        andThen (persistWavePlan jobID routeMap waves) (\<lambda>(n, rest).
        ok (int (length rows) + n, wired # rest))))"

definition dispatchWave :: "chunk_spec list \<Rightarrow> unit calc_prog" where
  "dispatchWave chunks =
     forEach (\<lambda>c. andThen (PublishChunk c) (\<lambda>_. UpdateDispatched (cs_chunkID c))) chunks"

text \<open>From the packed waves on: persist, record the totals, start, dispatch the first wave.\<close>

definition startFirstWave :: "int \<Rightarrow> int list \<Rightarrow> int \<Rightarrow> int \<times> packed_wave list \<Rightarrow> unit calc_prog" where
  "startFirstWave jobID productIDs totalWaves = (\<lambda>(totalChunks, wired).
     andThen (UpdateTotals jobID (int (length productIDs)) totalChunks totalWaves) (\<lambda>_.
     andThen (MarkStarted jobID) (\<lambda>_.
     andThen (UpdateStatus jobID statusProcessing) (\<lambda>_.
     (case wired of
        [] \<Rightarrow> andThen (emitJobTerminal jobID statusSuccess) (\<lambda>_.
              CompleteJob jobID statusSuccess 0 0 0 0)
      | wave # _ \<Rightarrow> dispatchWave (pw_chunks wave))))))"

definition persistAndDispatch :: "int \<Rightarrow> int list \<Rightarrow> packed_wave list \<Rightarrow> unit calc_prog" where
  "persistAndDispatch jobID productIDs waves =
     andThen (ResolveProductRouteMap productIDs) (\<lambda>routeMap.
     andThen (persistWavePlan jobID routeMap waves)
       (startFirstWave jobID productIDs (int (length waves))))"

definition scopeOf :: "job_dto \<Rightarrow> scope_input" where
  "scopeOf job =
     \<lparr>si_Scope = jd_Scope job, si_ProductSysID = jd_ProductSysID job,
      si_RouteHeadID = jd_RouteHeadID job, si_ProductTypeIDFilter = jd_ProductTypeIDFilter job,
      si_Period = jd_Period job\<rparr>"

text \<open>A cyclic plan fails the job; the planner always returns one of the others.\<close>

definition executePlan ::
  "orchestrator_config \<Rightarrow> int \<Rightarrow> job_dto \<Rightarrow> int list \<Rightarrow> wave_plan option \<Rightarrow> unit calc_prog" where
  "executePlan cfg jobID job productIDs planned =
     (case planned of
        None \<Rightarrow> fails DoesNotReturn
      | Some plan \<Rightarrow>
          if wp_cyclic plan \<noteq> [] then
            andThen (emitJobTerminal jobID statusFailed) (\<lambda>_.
            CompleteJob jobID statusFailed 0 0 (int (length (wp_cyclic plan))) 0)
          else
            persistAndDispatch jobID productIDs
              (FillJobContext (PackChunks (Some plan) (oc_ChunkSize cfg) (oc_MaxChunkSize cfg))
                 jobID (jd_JobCode job) (jd_Period job) (jd_CreatedBy job) (jd_CalcType job)))"

definition planAndDispatch :: "orchestrator_config \<Rightarrow> int \<Rightarrow> unit calc_prog" where
  "planAndDispatch cfg jobID =
     andThen (GetByID jobID) (\<lambda>job.
     if jd_Status job \<noteq> statusQueued then ok ()
     else
       andThen (UpdateStatus jobID statusPlanning) (\<lambda>_.
       andThen (buildDag (scopeOf job)) (\<lambda>(graph, productIDs).
       if productIDs = [] then
         andThen (emitJobTerminal jobID statusSuccess) (\<lambda>_.
         CompleteJob jobID statusSuccess 0 0 0 0)
       else executePlan cfg jobID job productIDs (PlanWaves graph))))"

definition handleJobTriggered :: "orchestrator_config \<Rightarrow> job_triggered_event option \<Rightarrow> unit calc_prog" where
  "handleJobTriggered cfg body =
     (case body of
        None \<Rightarrow> ackJob body
      | Some ev \<Rightarrow>
          continue (planAndDispatch cfg (jt_JobID ev)) (\<lambda>r.
            (case r of
               Inl e \<Rightarrow>
                 andThen (logged (MarkFailed (jt_JobID ev) e)) (\<lambda>_.
                 andThen (emitJobTerminal (jt_JobID ev) statusFailed) (\<lambda>_. ackJob body))
             | Inr _ \<Rightarrow> ackJob body)))"

section \<open>Completion of chunks\<close>

definition respecChunk :: "int \<Rightarrow> job_dto \<Rightarrow> chunk_row \<Rightarrow> chunk_spec" where
  "respecChunk jobID job r =
     \<lparr>cs_jobID = jobID, cs_jobCode = jd_JobCode job, cs_chunkID = cr_ChunkID r,
      cs_chunkNumber = cr_ChunkNumber r, cs_waveNo = cr_WaveNo r, cs_period = jd_Period job,
      cs_calcType = jd_CalcType job, cs_productIDs = cr_ProductIDs r, cs_actor = jd_CreatedBy job\<rparr>"

definition dispatchNextWave :: "int \<Rightarrow> int \<Rightarrow> unit calc_prog" where
  "dispatchNextWave jobID waveNo =
     andThen (GetByID jobID) (\<lambda>job.
     andThen (ListChunksOfWave jobID waveNo) (\<lambda>rows.
     dispatchWave (map (respecChunk jobID job) rows)))"

definition terminalStatus :: "int \<Rightarrow> int \<Rightarrow> int \<Rightarrow> calc_status" where
  "terminalStatus succ fl blocked =
     (if fl = 0 \<and> blocked = 0 \<and> succ > 0 then statusSuccess
      else if succ = 0 then statusFailed
      else statusPartial)"

definition currentTime :: "time calc_prog" where
  "currentTime = Step (\<lambda>w. (ok (w_now w), w))"

definition finalizeJob :: "int \<Rightarrow> unit calc_prog" where
  "finalizeJob jobID =
     andThen (GetProgress jobID) (\<lambda>(_, _, succ, fl, blocked).
     let st = terminalStatus succ fl blocked
     in andThen (getStartedAt jobID) (\<lambda>startedAt.
        andThen currentTime (\<lambda>now.
        let d = milliseconds (timeSub now startedAt);
            duration = (if d < 0 then 0 else d)
        in andThen (emitJobTerminal jobID st) (\<lambda>_.
           CompleteJob jobID st succ fl blocked duration))))"

text \<open>What follows the count: dispatch the next wave or finish once the wave is complete.\<close>

definition advanceWave :: "chunk_completed_event \<Rightarrow> unit calc_prog" where
  "advanceWave ev =
     andThen (CountByJobWave (ev_JobID ev) (ev_WaveNo ev)) (\<lambda>(total, completed).
     if completed < total then ok ()
     else
       andThen (GetByID (ev_JobID ev)) (\<lambda>job.
       if jd_Status job = statusCancelled
       then MarkRemainingChunksSkipped (ev_JobID ev) (ev_WaveNo ev + 1)
       else
         andThen (getTotalWaves (ev_JobID ev)) (\<lambda>totalWaves.
         if ev_WaveNo ev + 1 < totalWaves
         then dispatchNextWave (ev_JobID ev) (ev_WaveNo ev + 1)
         else finalizeJob (ev_JobID ev))))"

definition advanceAfterChunk :: "chunk_completed_event \<Rightarrow> unit calc_prog" where
  "advanceAfterChunk ev =
     andThen (ClaimProgressCount (ev_ChunkID ev)) (\<lambda>counted.
     andThen (if counted
              then IncrementProgress (ev_JobID ev) (ev_SuccessCount ev) (ev_FailedCount ev) (ev_BlockedCount ev)
              else ok ()) (\<lambda>_.
     advanceWave ev))"

text \<open>The completion queue has no dead letter exchange: both refusals drop the message.\<close>

definition handleChunkCompleted :: "bool \<Rightarrow> chunk_completed_event option \<Rightarrow> unit calc_prog" where
  "handleChunkCompleted redelivered body =
     (case body of
        None \<Rightarrow> ackDone body
      | Some ev \<Rightarrow>
          continue (advanceAfterChunk ev) (\<lambda>r.
            (case r of
               Inl e \<Rightarrow> if redelivered then ackDone body else nackRequeue
             | Inr _ \<Rightarrow> ackDone body)))"

section \<open>The sweeper\<close>

definition sweepOne :: "stuck_chunk_row \<Rightarrow> unit calc_prog" where
  "sweepOne sc =
     continue (MarkChunkFailed (sc_ChunkID sc) ''stuck chunk timeout: worker likely crashed'') (\<lambda>r.
       (case r of
          Inl e \<Rightarrow> ok ()
        | Inr _ \<Rightarrow> logged (PublishChunkDone
            \<lparr>ev_ChunkID = sc_ChunkID sc, ev_JobID = sc_JobID sc, ev_WaveNo = sc_WaveNo sc,
             ev_Status = statusFailed, ev_SuccessCount = 0, ev_FailedCount = sc_ProductCount sc,
             ev_BlockedCount = 0\<rparr>)))"

definition doSweep :: "duration \<Rightarrow> unit calc_prog" where
  "doSweep timeout =
     continue (FindStuckChunks timeout) (\<lambda>r.
       (case r of Inl e \<Rightarrow> ok () | Inr stuck \<Rightarrow> forEach sweepOne stuck))"

text \<open>The defaults of the sweeper's timing.\<close>

definition sweepTimeout :: "duration \<Rightarrow> duration" where
  "sweepTimeout t = (if t \<le> 0 then 10 * 60 * 1000000000 else t)"

section \<open>The monthly trigger\<close>

definition cronCalcType :: string where
  "cronCalcType = ''ACTUAL''"

definition cronScope :: job_scope where
  "cronScope = ScopeAll"

definition triggerJob :: "string \<Rightarrow> string \<Rightarrow> bool calc_prog" where
  "triggerJob code period =
     andThen (IsPeriodLocked period cronCalcType) (\<lambda>locked.
     if locked
     then Step (\<lambda>w. (ok False, w\<lparr>w_skippedLocked := w_skippedLocked w + 1\<rparr>))
     else
       andThen (CreateAutoJob code period cronCalcType cronScope ''CRON'' ''system'') (\<lambda>jobID.
       andThen (PublishJobTriggered jobID) (\<lambda>_. ok True)))"

text \<open>\<open>%04d%02d\<close> of the year and month before \<open>now.Date()\<close>.\<close>

definition digitChar :: "int \<Rightarrow> char" where
  "digitChar d = char_of (nat (48 + d))"

fun digits :: "nat \<Rightarrow> string" where
  "digits n = (if n < 10 then [digitChar (int n)] else digits (n div 10) @ [digitChar (int (n mod 10))])"

declare digits.simps [simp del]

definition zeroPad :: "nat \<Rightarrow> nat \<Rightarrow> string" where
  "zeroPad w n = replicate (w - length (digits n)) CHR ''0'' @ digits n"

definition previousMonth :: "nat \<Rightarrow> nat \<Rightarrow> nat \<times> nat" where
  "previousMonth y m = (if m - 1 < 1 then (y - 1, 12) else (y, m - 1))"

definition previousPeriodYYYYMM :: "nat \<Rightarrow> nat \<Rightarrow> string" where
  "previousPeriodYYYYMM y m = (case previousMonth y m of (py, pm) \<Rightarrow> zeroPad 4 py @ zeroPad 2 pm)"

definition fire :: "string \<Rightarrow> nat \<Rightarrow> nat \<Rightarrow> unit calc_prog" where
  "fire code y m = logged (triggerJob code (previousPeriodYYYYMM y m))"

end
