(* ===== verification/Worker.thy ===== *)
theory Worker
  imports CalcStore
begin

text \<open>
  \<^verbatim>\<open>services/finance-cost-worker/internal/worker/processor.go\<close>: the consumer of chunk
  messages. The gRPC call to the finance service is answered from the schedule
  \<open>w_replies\<close>; an empty schedule is a transport error. What the call changes in the cost
  tables is not part of this world.
\<close>

definition maxRetries :: int where
  "maxRetries = 3"

definition isTerminal :: "calc_status \<Rightarrow> bool" where
  "isTerminal st \<longleftrightarrow> st = statusSuccess \<or> st = statusFailed \<or> st = statusPartial"

definition classify :: "int \<Rightarrow> int \<Rightarrow> int \<Rightarrow> calc_status" where
  "classify succ fl blocked =
     (if fl = 0 \<and> blocked = 0 then statusSuccess
      else if succ = 0 then statusFailed
      else statusPartial)"

definition ProcessChunk :: "chunk_spec \<Rightarrow> (int \<times> int \<times> int) calc_prog" where
  "ProcessChunk msg = Step (\<lambda>w.
     (case w_replies w of
        [] \<Rightarrow> (fails GrpcFailed, w)
      | TransportError # rs \<Rightarrow> (fails GrpcFailed, w\<lparr>w_replies := rs\<rparr>)
      | FinanceError # rs \<Rightarrow> (fails FinanceRejected, w\<lparr>w_replies := rs\<rparr>)
      | Processed succ fl blocked # rs \<Rightarrow> (ok (succ, fl, blocked), w\<lparr>w_replies := rs\<rparr>)))"

definition workerTime :: "time calc_prog" where
  "workerTime = Step (\<lambda>w. (ok (w_now w), w))"

definition publishCompletion :: "chunk_spec \<Rightarrow> calc_status \<Rightarrow> int \<Rightarrow> int \<Rightarrow> int \<Rightarrow> unit calc_prog" where
  "publishCompletion msg st succ fl blocked =
     PublishChunkDone
       \<lparr>ev_ChunkID = cs_chunkID msg, ev_JobID = cs_jobID msg, ev_WaveNo = cs_waveNo msg,
        ev_Status = st, ev_SuccessCount = succ, ev_FailedCount = fl, ev_BlockedCount = blocked\<rparr>"

definition handleFailure :: "chunk_spec option \<Rightarrow> chunk_spec \<Rightarrow> unit calc_prog" where
  "handleFailure body msg =
     continue (IncrementRetry (cs_chunkID msg)) (\<lambda>r.
       (case r of
          Inl e \<Rightarrow> nackChunkDead body
        | Inr n \<Rightarrow>
            if n < maxRetries then nackRequeue
            else
              andThen (logged (MarkCompleted (cs_chunkID msg) statusFailed 0
                         (int (length (cs_productIDs msg))) 0)) (\<lambda>_.
              andThen (logged (publishCompletion msg statusFailed 0
                         (int (length (cs_productIDs msg))) 0)) (\<lambda>_.
              nackChunkDead body))))"

definition completeChunk ::
  "chunk_spec option \<Rightarrow> chunk_spec \<Rightarrow> time \<Rightarrow> int \<Rightarrow> int \<Rightarrow> int \<Rightarrow> unit calc_prog" where
  "completeChunk body msg start succ fl blocked =
     andThen workerTime (\<lambda>now.
     let durationMs = milliseconds (timeSub now start);
         st = classify succ fl blocked
     in continue (MarkCompleted (cs_chunkID msg) st succ fl durationMs) (\<lambda>r.
        (case r of
           Inl e \<Rightarrow> nackRequeue
         | Inr _ \<Rightarrow>
             andThen (logged (publishCompletion msg st succ fl blocked)) (\<lambda>_. ackChunk body))))"

definition processChunk :: "string \<Rightarrow> chunk_spec option \<Rightarrow> chunk_spec \<Rightarrow> unit calc_prog" where
  "processChunk workerID body msg =
     andThen workerTime (\<lambda>start.
     continue (MarkProcessing (cs_chunkID msg) workerID) (\<lambda>m.
       (case m of
          Inl e \<Rightarrow> nackRequeue
        | Inr _ \<Rightarrow>
            continue (ProcessChunk msg) (\<lambda>resp.
              (case resp of
                 Inl e \<Rightarrow> handleFailure body msg
               | Inr (succ, fl, blocked) \<Rightarrow> completeChunk body msg start succ fl blocked)))))"

definition handleChunk :: "string \<Rightarrow> chunk_spec option \<Rightarrow> unit calc_prog" where
  "handleChunk workerID body =
     (case body of
        None \<Rightarrow> nackChunkDead body
      | Some msg \<Rightarrow>
          continue (GetStatus (cs_chunkID msg)) (\<lambda>cur.
            (case cur of
               Inl e \<Rightarrow> processChunk workerID body msg
             | Inr st \<Rightarrow>
                 if isTerminal st
                 then andThen (logged (publishCompletion msg st 0 0 0)) (\<lambda>_. ackChunk body)
                 else processChunk workerID body msg)))"

end
