(* ===== verification/CalcSystem.thy ===== *)
theory CalcSystem
  imports Coordinator Worker
begin

text \<open>
  The calculation engine as a whole: any number of coordinators, workers, sweepers, cron
  ticks and cancellations running at once over the tables and queues of \<open>CalcStore\<close>, their
  calls interleaved in any order, with crashes, failed and unconfirmed calls and repeated
  deliveries. The invariant below is shown to be kept by every call of every handler, and
  yields that no chunk is counted twice and that no wave overtakes an earlier one.
\<close>

section \<open>Cancellation\<close>

text \<open>
  \<^verbatim>\<open>services/finance/internal/application/costcalc/cancel_job_handler.go\<close>. The update of
  the finance repository reports a job that no longer exists.
\<close>

definition cancellable :: "calc_status \<Rightarrow> bool" where
  "cancellable st \<longleftrightarrow> st = statusQueued \<or> st = statusPlanning \<or> st = statusProcessing"

definition setJobStatus :: "int \<Rightarrow> calc_status \<Rightarrow> unit calc_prog" where
  "setJobStatus i st = call (\<lambda>w.
     (if findJob i w = None then Inl JobNotFound else Inr (), updateJob i (\<lambda>j. j\<lparr>cj_status := st\<rparr>) w))"

definition MarkSkippedForJob :: "int \<Rightarrow> unit calc_prog" where
  "MarkSkippedForJob i = writing (\<lambda>w. w\<lparr>w_products :=
     updateWhere (\<lambda>p. cjp_job_id p = i \<and> (cjp_status p = statusPending \<or> cjp_status p = statusReady))
       (\<lambda>p. p\<lparr>cjp_status := statusSkipped, cjp_completed_at := Some (w_now w)\<rparr>) (w_products w)\<rparr>)"

definition MarkQueuedAsSkipped :: "int \<Rightarrow> unit calc_prog" where
  "MarkQueuedAsSkipped i = writing (\<lambda>w. updateChunks
     (\<lambda>c. cjc_job_id c = i \<and> cjc_status c = statusQueued)
     (\<lambda>c. c\<lparr>cjc_status := statusSkipped, cjc_completed_at := Some (w_now w),
            cjc_error_message := Some ''job cancelled before dispatch''\<rparr>) w)"

definition cancelJob :: "int \<Rightarrow> unit calc_prog" where
  "cancelJob i =
     (if i \<le> 0 then fails JobIDRequired
      else andThen (GetByID i) (\<lambda>job.
        if \<not> cancellable (jd_Status job) then fails JobInvalidStatus
        else andThen (setJobStatus i statusCancelled) (\<lambda>_.
             andThen (MarkSkippedForJob i) (\<lambda>_.
             logged (MarkQueuedAsSkipped i)))))"

section \<open>The invariant\<close>

definition known :: "calc_world \<Rightarrow> int \<Rightarrow> int \<Rightarrow> int \<Rightarrow> bool" where
  "known w i j v \<longleftrightarrow>
     (\<exists>c \<in> set (w_chunks w). cjc_chunk_id c = i \<and> cjc_job_id c = j \<and> cjc_wave_no c = v)"

definition released :: "calc_world \<Rightarrow> int \<Rightarrow> int \<Rightarrow> bool" where
  "released w j v \<longleftrightarrow>
     (\<exists>c \<in> set (w_chunks w). cjc_job_id c = j \<and> cjc_wave_no c = v) \<and>
     (\<forall>c \<in> set (w_chunks w). cjc_job_id c = j \<longrightarrow> cjc_wave_no c < v \<longrightarrow> cjc_completed_at c \<noteq> None)"

definition doneThrough :: "calc_world \<Rightarrow> int \<Rightarrow> int \<Rightarrow> bool" where
  "doneThrough w j v \<longleftrightarrow>
     (\<exists>c \<in> set (w_chunks w). cjc_job_id c = j \<and> cjc_wave_no c = v) \<and>
     (\<forall>c \<in> set (w_chunks w). cjc_job_id c = j \<longrightarrow> cjc_wave_no c \<le> v \<longrightarrow> cjc_completed_at c \<noteq> None)"

text \<open>What the others may do to a world: chunks stay, and completed waves stay completed.\<close>

definition rely :: "calc_world \<Rightarrow> calc_world \<Rightarrow> bool" where
  "rely w w' \<longleftrightarrow>
     (\<forall>i j v. known w i j v \<longrightarrow> known w' i j v) \<and>
     (\<forall>j v. released w j v \<longrightarrow> released w' j v) \<and>
     (\<forall>j v. doneThrough w j v \<longrightarrow> doneThrough w' j v)"

text \<open>
  A \<open>Count\<close> token is a chunk of the job claimed but not yet folded into its counters. A
  \<open>Planner\<close> token is the right to insert the chunks of the job, all inserted so far having
  smaller wave numbers.
\<close>

datatype token = Count int | Planner int int

definition countedChunks :: "calc_world \<Rightarrow> int \<Rightarrow> int" where
  "countedChunks w j =
     int (length (filter (\<lambda>c. cjc_job_id c = j \<and> cjc_progress_counted c) (w_chunks w)))"

definition inFlight :: "calc_status \<Rightarrow> bool" where
  "inFlight st \<longleftrightarrow> st = statusDispatched \<or> st = statusProcessing"

definition chunkInv :: "calc_world \<Rightarrow> bool" where
  "chunkInv w \<longleftrightarrow>
     distinct (map cjc_chunk_id (w_chunks w)) \<and>
     (\<forall>c \<in> set (w_chunks w).
        cjc_chunk_id c < w_nextChunkID w \<and>
        0 \<le> cjc_wave_no c \<and>
        (waveCompleted (cjc_status c) \<longrightarrow> cjc_completed_at c \<noteq> None) \<and>
        (inFlight (cjc_status c) \<longrightarrow> released w (cjc_job_id c) (cjc_wave_no c)) \<and>
        (\<exists>d \<in> set (w_chunks w). cjc_job_id d = cjc_job_id c \<and> cjc_chunk_number d = 1))"

definition countInv :: "calc_world \<Rightarrow> token multiset \<Rightarrow> bool" where
  "countInv w t \<longleftrightarrow>
     (\<forall>j. int (count t (Count j)) \<le> countedChunks w j) \<and>
     (\<forall>r \<in> set (w_jobs w).
        cj_processed_chunks r + int (count t (Count (cj_job_id r))) \<le> countedChunks w (cj_job_id r))"

fun plannerOf :: "int \<Rightarrow> token \<Rightarrow> bool" where
  "plannerOf j (Planner j' n) \<longleftrightarrow> j = j'"
| "plannerOf j (Count _) \<longleftrightarrow> False"

definition plannerInv :: "calc_world \<Rightarrow> token multiset \<Rightarrow> bool" where
  "plannerInv w t \<longleftrightarrow>
     (\<forall>j. size (filter_mset (plannerOf j) t) \<le> 1) \<and>
     (\<forall>j n. Planner j n \<in># t \<longrightarrow>
        (\<exists>c \<in> set (w_chunks w). cjc_job_id c = j) \<and>
        (\<forall>c \<in> set (w_chunks w). cjc_job_id c = j \<longrightarrow> cjc_wave_no c < n))"

definition chunkOK :: "calc_world \<Rightarrow> int \<Rightarrow> int \<Rightarrow> int \<Rightarrow> bool" where
  "chunkOK w i j v \<longleftrightarrow> known w i j v \<and> released w j v"

definition queueInv :: "calc_world \<Rightarrow> bool" where
  "queueInv w \<longleftrightarrow>
     (\<forall>s. Some s \<in> set (w_chunkQueue w) \<longrightarrow> chunkOK w (cs_chunkID s) (cs_jobID s) (cs_waveNo s)) \<and>
     (\<forall>e. Some e \<in> set (w_doneQueue w) \<longrightarrow> chunkOK w (ev_ChunkID e) (ev_JobID e) (ev_WaveNo e))"

definition engineInv :: "calc_world \<Rightarrow> token multiset \<Rightarrow> bool" where
  "engineInv w t \<longleftrightarrow> chunkInv w \<and> countInv w t \<and> plannerInv w t \<and> queueInv w"

section \<open>Rely and tokens\<close>

lemma rely_refl: "rely w w"
  by (simp add: rely_def)

lemma rely_trans: "rely u v \<Longrightarrow> rely v w \<Longrightarrow> rely u w"
  by (simp add: rely_def)

lemma rely_chunkOK: "rely w w' \<Longrightarrow> chunkOK w i j v \<Longrightarrow> chunkOK w' i j v"
  by (simp add: rely_def chunkOK_def)

lemma engineInv_drop: "engineInv w (k + t) \<Longrightarrow> engineInv w k"
proof -
  assume e: "engineInv w (k + t)"
  have "countInv w k"
    unfolding countInv_def
  proof (intro conjI allI ballI)
    fix j
    from e have "int (count (k + t) (Count j)) \<le> countedChunks w j"
      unfolding engineInv_def countInv_def by blast
    then show "int (count k (Count j)) \<le> countedChunks w j" by simp
  next
    fix r assume "r \<in> set (w_jobs w)"
    with e have "cj_processed_chunks r + int (count (k + t) (Count (cj_job_id r))) \<le> countedChunks w (cj_job_id r)"
      unfolding engineInv_def countInv_def by blast
    then show "cj_processed_chunks r + int (count k (Count (cj_job_id r))) \<le> countedChunks w (cj_job_id r)"
      by simp
  qed
  moreover have "plannerInv w k"
    using e unfolding engineInv_def plannerInv_def
    by (metis add_leD1 filter_union_mset size_union union_iff)
  ultimately show ?thesis using e by (simp add: engineInv_def)
qed

text \<open>Worlds that agree on chunks, jobs and the two queues are interchangeable.\<close>

lemma engineInv_cong:
  assumes "w_chunks w' = w_chunks w" and "w_nextChunkID w' = w_nextChunkID w" and "w_jobs w' = w_jobs w"
    and "set (w_chunkQueue w') \<subseteq> insert None (set (w_chunkQueue w))"
    and "set (w_doneQueue w') \<subseteq> insert None (set (w_doneQueue w))"
  shows "engineInv w t \<Longrightarrow> engineInv w' t"
proof -
  have "\<And>j v. released w' j v = released w j v" "\<And>i j v. known w' i j v = known w i j v"
    and c: "\<And>j. countedChunks w' j = countedChunks w j"
    using assms(1) by (simp_all add: released_def known_def countedChunks_def)
  then show "engineInv w t \<Longrightarrow> engineInv w' t"
    using assms by (fastforce simp: engineInv_def chunkInv_def countInv_def plannerInv_def queueInv_def
        chunkOK_def)
qed

lemma rely_cong: "w_chunks w' = w_chunks w \<Longrightarrow> rely w w'"
  by (simp add: rely_def released_def known_def doneThrough_def)

interpretation engine: rely_guarantee rely engineInv
  by unfold_locales (rule rely_refl, erule (1) rely_trans, erule engineInv_drop)

abbreviation anyEnd :: "'r \<Rightarrow> calc_world \<Rightarrow> token multiset \<Rightarrow> bool" where
  "anyEnd \<equiv> \<lambda>_ _ _. True"

section \<open>Rules for calls\<close>

lemma engineInv_faults [simp]: "engineInv (w\<lparr>w_faults := fs\<rparr>) t = engineInv w t"
  using engineInv_cong [of "w\<lparr>w_faults := fs\<rparr>" w t] engineInv_cong [of w "w\<lparr>w_faults := fs\<rparr>" t]
  by (auto simp: subset_insertI)

lemma rely_faults: "rely w (w\<lparr>w_faults := fs\<rparr>)"
  by (rule rely_cong) simp

text \<open>
  The rule of one call: from any world the others may have reached, the statement keeps the
  invariant with the tokens \<open>t'\<close> it leaves the caller, whether or not its result arrives.
\<close>

lemma safe_call:
  assumes lost: "\<And>w3. rely w w3 \<Longrightarrow> Q (Inl Unavailable) w3 t"
    and carried: "\<And>w0 k. rely w w0 \<Longrightarrow> engineInv w0 (k + t) \<Longrightarrow>
        rely w0 (snd (q w0)) \<and> (\<exists>t'. engineInv (snd (q w0)) (k + t') \<and>
          (\<forall>w3. rely (snd (q w0)) w3 \<longrightarrow> Q (fst (q w0)) w3 t' \<and> Q (Inl Unavailable) w3 t'))"
  shows "safe rely engineInv (call q) Q w t"
  unfolding call_def safe_Step
proof (intro allI impI)
  fix w0 k assume r: "rely w w0" and i: "engineInv w0 (k + t)"
  let ?f = "\<lambda>w. case w_faults w of [] \<Rightarrow> map_prod Return id (q w)
      | CarriedOut # fs \<Rightarrow> map_prod Return id (q (w\<lparr>w_faults := fs\<rparr>))
      | Refused # fs \<Rightarrow> (fails Unavailable, w\<lparr>w_faults := fs\<rparr>)
      | Unconfirmed # fs \<Rightarrow> (fails Unavailable, snd (q (w\<lparr>w_faults := fs\<rparr>)))"
  have onward: "rely w (w0\<lparr>w_faults := fs\<rparr>)" for fs
    using r rely_faults by (rule rely_trans)
  have d: "rely w0 (snd (q w1)) \<and> (\<exists>t'. engineInv (snd (q w1)) (k + t') \<and>
          (\<forall>w3. rely (snd (q w1)) w3 \<longrightarrow> Q (fst (q w1)) w3 t' \<and> Q (Inl Unavailable) w3 t'))"
    if "w1 = w0 \<or> w1 = w0\<lparr>w_faults := fs\<rparr>" for w1 fs
    using that carried [OF r i] carried [OF onward [of fs]] i rely_faults [of w0 fs]
    by (auto intro: rely_trans)
  show "rely w0 (snd (?f w0)) \<and>
      (\<exists>t'. engineInv (snd (?f w0)) (k + t') \<and> safe rely engineInv (fst (?f w0)) Q (snd (?f w0)) t')"
  proof (cases "w_faults w0")
    case Nil
    then show ?thesis using d [of w0] by auto
  next
    case (Cons f fs)
    have l: "\<And>w3. rely (w0\<lparr>w_faults := fs\<rparr>) w3 \<Longrightarrow> Q (Inl Unavailable) w3 t"
      using lost onward rely_trans by blast
    show ?thesis
    proof (cases f)
      case CarriedOut
      then show ?thesis using Cons d [of "w0\<lparr>w_faults := fs\<rparr>" fs] by auto
    next
      case Refused
      then show ?thesis using Cons l i rely_faults by (auto simp: fails_def intro!: exI [of _ t])
    next
      case Unconfirmed
      then show ?thesis using Cons d [of "w0\<lparr>w_faults := fs\<rparr>" fs] by (auto simp: fails_def)
    qed
  qed
qed

text \<open>A statement that only reads: the value was true at some point of the past.\<close>

lemma safe_reads:
  assumes "\<And>w0. snd (q w0) = w0"
  shows "safe rely engineInv (call q)
      (\<lambda>r w3 t'. t' = t \<and> (\<forall>a. r = Inr a \<longrightarrow>
         (\<exists>w0. rely w w0 \<and> rely w0 w3 \<and> engineInv w0 {#} \<and> fst (q w0) = Inr a))) w t"
proof (rule safe_call)
  fix w0 k assume r: "rely w w0" and i: "engineInv w0 (k + t)"
  from i have "engineInv w0 {#}" using engineInv_drop [of w0 "{#}" "k + t"] by simp
  with r i show "rely w0 (snd (q w0)) \<and> (\<exists>t'. engineInv (snd (q w0)) (k + t') \<and>
      (\<forall>w3. rely (snd (q w0)) w3 \<longrightarrow>
        (t' = t \<and> (\<forall>a. fst (q w0) = Inr a \<longrightarrow>
           (\<exists>w0. rely w w0 \<and> rely w0 w3 \<and> engineInv w0 {#} \<and> fst (q w0) = Inr a))) \<and>
        (t' = t \<and> (\<forall>a. Inl Unavailable = Inr a \<longrightarrow>
           (\<exists>w0. rely w w0 \<and> rely w0 w3 \<and> engineInv w0 {#} \<and> fst (q w0) = Inr a)))))"
    using assms rely_refl by auto
qed simp

lemma safe_reading:
  "safe rely engineInv (reading f) (\<lambda>r w3 t'. t' = t \<and> (\<forall>a. r = Inr a \<longrightarrow>
     (\<exists>w0. rely w w0 \<and> rely w0 w3 \<and> engineInv w0 {#} \<and> a = f w0))) w t"
  unfolding reading_def by (rule engine.safe_weaken, rule safe_reads) auto

text \<open>A statement that keeps the invariant and needs no token.\<close>

definition keeps :: "(calc_world \<Rightarrow> bool) \<Rightarrow> 'a query \<Rightarrow> bool" where
  "keeps P q \<longleftrightarrow> (\<forall>w t. P w \<longrightarrow> engineInv w t \<longrightarrow> rely w (snd (q w)) \<and> engineInv (snd (q w)) t)"

lemma safe_keeps:
  assumes "keeps P q" and "\<And>w0. rely w w0 \<Longrightarrow> P w0"
  shows "safe rely engineInv (call q) (\<lambda>r w3 t'. t' = t) w t"
  using assms by (intro safe_call) (auto simp: keeps_def)

lemma safe_then:
  assumes "safe rely engineInv p Q w t"
    and "\<And>a w' t'. rely w w' \<Longrightarrow> Q (Inr a) w' t' \<Longrightarrow> safe rely engineInv (g a) anyEnd w' t'"
  shows "safe rely engineInv (andThen p g) anyEnd w t"
  using assms(1) by (rule engine.safe_andThen) (auto simp: fails_def assms(2))

lemma safe_end: "safe rely engineInv (ok a) anyEnd w t" "safe rely engineInv (fails e) anyEnd w t"
  by (simp_all add: ok_def fails_def)

lemma safe_any: "safe rely engineInv p Q w t \<Longrightarrow> safe rely engineInv p anyEnd w t"
  by (erule engine.safe_weaken) simp

lemma safe_if:
  "(c \<Longrightarrow> safe rely engineInv p Q w t) \<Longrightarrow> (\<not> c \<Longrightarrow> safe rely engineInv q Q w t) \<Longrightarrow>
   safe rely engineInv (if c then p else q) Q w t"
  by simp

lemma safe_logged: "safe rely engineInv p Q w t \<Longrightarrow> safe rely engineInv (logged p) anyEnd w t"
  unfolding logged_def by (erule engine.safe_continue) (rule safe_end)

section \<open>The statements keep the invariant\<close>

lemma keepsI:
  "(\<And>w t. P w \<Longrightarrow> engineInv w t \<Longrightarrow> rely w (snd (q w)) \<and> engineInv (snd (q w)) t) \<Longrightarrow> keeps P q"
  by (simp add: keeps_def)

lemma keeps_cong:
  assumes "\<And>w. w_chunks (snd (q w)) = w_chunks w" "\<And>w. w_nextChunkID (snd (q w)) = w_nextChunkID w"
    and "\<And>w. w_jobs (snd (q w)) = w_jobs w"
    and "\<And>w. set (w_chunkQueue (snd (q w))) \<subseteq> insert None (set (w_chunkQueue w))"
    and "\<And>w. set (w_doneQueue (snd (q w))) \<subseteq> insert None (set (w_doneQueue w))"
  shows "keeps P q"
proof (rule keepsI)
  fix w t assume "engineInv w t"
  then show "rely w (snd (q w)) \<and> engineInv (snd (q w)) t"
    using rely_cong [OF assms(1)] engineInv_cong [OF assms(1-5)] by blast
qed

lemma engineInv_jobs:
  assumes "engineInv w t" and "w_chunks w' = w_chunks w" "w_nextChunkID w' = w_nextChunkID w"
    "w_chunkQueue w' = w_chunkQueue w" "w_doneQueue w' = w_doneQueue w"
    and "\<And>r'. r' \<in> set (w_jobs w') \<Longrightarrow> cj_processed_chunks r' = 0 \<or>
        (\<exists>r \<in> set (w_jobs w). cj_job_id r = cj_job_id r' \<and> cj_processed_chunks r = cj_processed_chunks r')"
  shows "engineInv w' t"
proof -
  have "\<And>j v. released w' j v = released w j v" "\<And>i j v. known w' i j v = known w i j v"
    and "\<And>j. countedChunks w' j = countedChunks w j"
    using assms(2) by (simp_all add: released_def known_def countedChunks_def)
  moreover have "countInv w' t"
    unfolding countInv_def
  proof (intro conjI allI ballI)
    fix r' assume "r' \<in> set (w_jobs w')"
    with assms(6) consider "cj_processed_chunks r' = 0" | r where "r \<in> set (w_jobs w)"
      "cj_job_id r = cj_job_id r'" "cj_processed_chunks r = cj_processed_chunks r'" by blast
    then show "cj_processed_chunks r' + int (count t (Count (cj_job_id r'))) \<le> countedChunks w' (cj_job_id r')"
      using assms(1) calculation(3) by cases (auto simp: engineInv_def countInv_def)
  qed (use assms(1) calculation(3) in \<open>auto simp: engineInv_def countInv_def\<close>)
  ultimately show ?thesis using assms
    by (simp add: engineInv_def chunkInv_def plannerInv_def queueInv_def chunkOK_def)
qed

lemma updateJob_simps [simp]:
  "w_chunks (updateJob i f w) = w_chunks w" "w_nextChunkID (updateJob i f w) = w_nextChunkID w"
  "w_chunkQueue (updateJob i f w) = w_chunkQueue w" "w_doneQueue (updateJob i f w) = w_doneQueue w"
  "w_jobs (updateJob i f w) = updateWhere (\<lambda>j. cj_job_id j = i) f (w_jobs w)"
  by (simp_all add: updateJob_def)

text \<open>Job updates that leave the chunk counter alone.\<close>

lemma engineInv_updateJob:
  assumes "\<And>j. cj_job_id (f j) = cj_job_id j" "\<And>j. cj_processed_chunks (f j) = cj_processed_chunks j"
    and "engineInv w t"
  shows "engineInv (updateJob i f w) t"
  by (rule engineInv_jobs [OF assms(3)]) (auto simp: updateWhere_def assms(1,2))

text \<open>
  Chunk updates that keep a chunk's identity, forget no completion and no count, and put in
  flight only released chunks.
\<close>

definition chunkUpdateOK :: "calc_world \<Rightarrow> (cal_job_chunk \<Rightarrow> bool) \<Rightarrow> (cal_job_chunk \<Rightarrow> cal_job_chunk) \<Rightarrow> bool" where
  "chunkUpdateOK w c f \<longleftrightarrow> (\<forall>r \<in> set (w_chunks w). c r \<longrightarrow>
     cjc_chunk_id (f r) = cjc_chunk_id r \<and> cjc_job_id (f r) = cjc_job_id r \<and>
     cjc_wave_no (f r) = cjc_wave_no r \<and> cjc_chunk_number (f r) = cjc_chunk_number r \<and>
     (cjc_progress_counted r \<longrightarrow> cjc_progress_counted (f r)) \<and>
     (cjc_completed_at r \<noteq> None \<longrightarrow> cjc_completed_at (f r) \<noteq> None) \<and>
     (waveCompleted (cjc_status (f r)) \<longrightarrow> cjc_completed_at (f r) \<noteq> None) \<and>
     (inFlight (cjc_status (f r)) \<longrightarrow> released w (cjc_job_id r) (cjc_wave_no r)))"

lemma updateChunks_simps [simp]:
  "w_jobs (updateChunks c f w) = w_jobs w" "w_nextChunkID (updateChunks c f w) = w_nextChunkID w"
  "w_chunkQueue (updateChunks c f w) = w_chunkQueue w" "w_doneQueue (updateChunks c f w) = w_doneQueue w"
  "w_chunks (updateChunks c f w) = updateWhere c f (w_chunks w)"
  by (simp_all add: updateChunks_def)

definition updated :: "('r \<Rightarrow> bool) \<Rightarrow> ('r \<Rightarrow> 'r) \<Rightarrow> 'r \<Rightarrow> 'r" where
  "updated c f r = (if c r then f r else r)"

lemma updateWhere_updated: "updateWhere c f rs = map (updated c f) rs"
  by (simp add: updateWhere_def updated_def)

lemma updated_same:
  assumes "chunkUpdateOK w c f" and "r \<in> set (w_chunks w)"
  shows "cjc_chunk_id (updated c f r) = cjc_chunk_id r" "cjc_job_id (updated c f r) = cjc_job_id r"
    "cjc_wave_no (updated c f r) = cjc_wave_no r" "cjc_chunk_number (updated c f r) = cjc_chunk_number r"
    "cjc_progress_counted r \<Longrightarrow> cjc_progress_counted (updated c f r)"
    "cjc_completed_at r \<noteq> None \<Longrightarrow> cjc_completed_at (updated c f r) \<noteq> None"
  using assms by (auto simp: chunkUpdateOK_def updated_def)

lemma updateChunks_known:
  assumes "chunkUpdateOK w c f"
  shows "known (updateChunks c f w) i j v = known w i j v"
  by (auto simp: known_def updateWhere_updated updated_same [OF assms])

lemma updateChunks_released:
  assumes "chunkUpdateOK w c f"
  shows "released w j v \<Longrightarrow> released (updateChunks c f w) j v"
    and "doneThrough w j v \<Longrightarrow> doneThrough (updateChunks c f w) j v"
  unfolding released_def doneThrough_def updateChunks_simps updateWhere_updated set_map ball_simps bex_simps
  using updated_same [OF assms] by auto

lemma updateChunks_rely:
  assumes "chunkUpdateOK w c f"
  shows "rely w (updateChunks c f w)"
  by (simp add: rely_def updateChunks_known updateChunks_released assms)

lemma counted_updated:
  "countedChunks (updateChunks c f w) j = int (length (filter (\<lambda>r. cjc_job_id (updated c f r) = j \<and>
     cjc_progress_counted (updated c f r)) (w_chunks w)))"
  by (simp add: countedChunks_def updateWhere_updated filter_map comp_def)

lemma updateChunks_counted:
  assumes "chunkUpdateOK w c f"
  shows "countedChunks w j \<le> countedChunks (updateChunks c f w) j"
  unfolding counted_updated unfolding countedChunks_def of_nat_le_iff
  by (rule length_filter_mono) (simp add: updated_same [OF assms])

lemma engineInv_updateChunks:
  assumes c: "chunkUpdateOK w c f" and e: "engineInv w t"
  shows "engineInv (updateChunks c f w) t"
proof -
  note same = updated_same [OF c]
  from e have ci: "chunkInv w" by (simp add: engineInv_def)
  have "chunkInv (updateChunks c f w)"
    unfolding chunkInv_def
  proof (intro conjI ballI)
    have "map cjc_chunk_id (w_chunks (updateChunks c f w)) = map cjc_chunk_id (w_chunks w)"
      by (simp add: updateWhere_updated same)
    with ci show "distinct (map cjc_chunk_id (w_chunks (updateChunks c f w)))"
      by (simp only: chunkInv_def)
  next
    fix r' assume "r' \<in> set (w_chunks (updateChunks c f w))"
    then obtain r where r: "r \<in> set (w_chunks w)" "r' = updated c f r" by (auto simp: updateWhere_updated)
    have i: "cjc_chunk_id r < w_nextChunkID w" "0 \<le> cjc_wave_no r"
      "waveCompleted (cjc_status r) \<longrightarrow> cjc_completed_at r \<noteq> None"
      "inFlight (cjc_status r) \<longrightarrow> released w (cjc_job_id r) (cjc_wave_no r)"
      "\<exists>d \<in> set (w_chunks w). cjc_job_id d = cjc_job_id r \<and> cjc_chunk_number d = 1"
      using ci r(1) by (auto simp: chunkInv_def)
    show "cjc_chunk_id r' < w_nextChunkID (updateChunks c f w)" "0 \<le> cjc_wave_no r'"
      using i r by (simp_all add: same)
    show "waveCompleted (cjc_status r') \<longrightarrow> cjc_completed_at r' \<noteq> None"
      using i(3) r c by (auto simp: updated_def chunkUpdateOK_def)
    have "inFlight (cjc_status r') \<longrightarrow> released w (cjc_job_id r) (cjc_wave_no r)"
      using i(4) r c by (auto simp: updated_def chunkUpdateOK_def)
    then show "inFlight (cjc_status r') \<longrightarrow> released (updateChunks c f w) (cjc_job_id r') (cjc_wave_no r')"
      using r updateChunks_released(1) [OF c] by (simp add: same)
    show "\<exists>d \<in> set (w_chunks (updateChunks c f w)). cjc_job_id d = cjc_job_id r' \<and> cjc_chunk_number d = 1"
      using i(5) r by (auto simp: updateWhere_updated same)
  qed
  moreover have "plannerInv (updateChunks c f w) t"
    using e unfolding engineInv_def plannerInv_def updateChunks_simps updateWhere_updated set_map
      ball_simps bex_simps by (auto simp: same)
  moreover have "countInv (updateChunks c f w) t"
    using e updateChunks_counted [OF c] unfolding engineInv_def countInv_def updateChunks_simps
    by (meson order_trans)
  ultimately show ?thesis using e updateChunks_released(1) [OF c]
    by (simp add: engineInv_def queueInv_def chunkOK_def updateChunks_known [OF c])
qed

lemma keeps_updateChunks:
  assumes "\<And>w t. P w \<Longrightarrow> engineInv w t \<Longrightarrow> chunkUpdateOK w c (f w)"
    and "\<And>w. snd (q w) = updateChunks c (f w) w"
  shows "keeps P q"
  using assms by (intro keepsI) (simp add: updateChunks_rely engineInv_updateChunks)

text \<open>A claimed chunk raises the number of counted chunks of its job, which pays for the token.\<close>

definition countable :: "int \<Rightarrow> cal_job_chunk \<Rightarrow> bool" where
  "countable i c \<longleftrightarrow> cjc_chunk_id c = i \<and> \<not> cjc_progress_counted c"

definition markCounted :: "cal_job_chunk \<Rightarrow> cal_job_chunk" where
  "markCounted c = c\<lparr>cjc_progress_counted := True\<rparr>"

lemma claimUpdateOK: "chunkInv w \<Longrightarrow> chunkUpdateOK w c markCounted"
  by (auto simp: chunkUpdateOK_def markCounted_def chunkInv_def)

lemma engineInv_claim:
  assumes e: "engineInv w t" and o: "c \<in> set (w_chunks w)" "countable i c"
  shows "engineInv (updateChunks (countable i) markCounted w) (add_mset (Count (cjc_job_id c)) t)"
proof -
  let ?w = "updateChunks (countable i) markCounted w" and ?j = "cjc_job_id c"
  from e have ok: "chunkUpdateOK w (countable i) markCounted"
    by (simp add: engineInv_def claimUpdateOK)
  note same = updated_same [OF ok]
  have less: "countedChunks w ?j < countedChunks ?w ?j"
    unfolding counted_updated unfolding countedChunks_def of_nat_less_iff
  proof (rule length_filter_strict [OF _ o(1)])
    show "cjc_job_id (updated (countable i) markCounted c) = ?j \<and>
        cjc_progress_counted (updated (countable i) markCounted c)"
      using o by (simp add: updated_def markCounted_def)
  qed (use o in \<open>auto simp: same countable_def\<close>)
  have "countInv ?w (add_mset (Count ?j) t)"
    unfolding countInv_def
  proof (intro conjI allI ballI)
    fix j show "int (count (add_mset (Count ?j) t) (Count j)) \<le> countedChunks ?w j"
      using e less updateChunks_counted [OF ok, of j]
      by (cases "j = ?j") (auto simp: engineInv_def countInv_def intro: order_trans dest: spec [of _ j])
  next
    fix r assume "r \<in> set (w_jobs ?w)"
    then have "cj_processed_chunks r + int (count t (Count (cj_job_id r))) \<le> countedChunks w (cj_job_id r)"
      using e by (simp add: engineInv_def countInv_def)
    then show "cj_processed_chunks r + int (count (add_mset (Count ?j) t) (Count (cj_job_id r))) \<le>
        countedChunks ?w (cj_job_id r)"
      using less updateChunks_counted [OF ok, of "cj_job_id r"] by (cases "cj_job_id r = ?j") auto
  qed
  moreover have "engineInv ?w t" by (rule engineInv_updateChunks [OF ok e])
  ultimately show ?thesis by (simp add: engineInv_def plannerInv_def)
qed

lemma engineInv_increment:
  assumes e: "engineInv w (add_mset (Count i) t)"
    and f: "\<And>j. cj_job_id (f j) = cj_job_id j" "\<And>j. cj_processed_chunks (f j) = cj_processed_chunks j + 1"
  shows "engineInv (updateJob i f w) t"
proof -
  let ?w = "updateJob i f w"
  have c: "\<And>j. countedChunks ?w j = countedChunks w j"
    and "\<And>j v. released ?w j v = released w j v" "\<And>i j v. known ?w i j v = known w i j v"
    by (simp_all add: countedChunks_def released_def known_def)
  moreover have "countInv ?w t"
    unfolding countInv_def
  proof (intro conjI allI ballI)
    fix j
    have "int (count (add_mset (Count i) t) (Count j)) \<le> countedChunks w j"
      using e unfolding engineInv_def countInv_def by blast
    then show "int (count t (Count j)) \<le> countedChunks ?w j" unfolding c by (auto split: if_splits)
  next
    fix r' assume "r' \<in> set (w_jobs ?w)"
    then obtain r where r: "r \<in> set (w_jobs w)" "r' = (if cj_job_id r = i then f r else r)"
      by (auto simp: updateWhere_def)
    then have "cj_processed_chunks r + int (count (add_mset (Count i) t) (Count (cj_job_id r))) \<le>
        countedChunks w (cj_job_id r)"
      using e unfolding engineInv_def countInv_def by blast
    then show "cj_processed_chunks r' + int (count t (Count (cj_job_id r'))) \<le> countedChunks ?w (cj_job_id r')"
      unfolding c r(2) by (auto simp: f)
  qed
  moreover have "plannerInv ?w t"
    using e by (simp add: engineInv_def plannerInv_def)
  ultimately show ?thesis using e
    by (simp add: engineInv_def chunkInv_def queueInv_def chunkOK_def)
qed

section \<open>Inserting the chunks of a wave\<close>

lemma insertedChunks_rows: "c \<in> set (insertedChunks rs i) \<Longrightarrow> \<exists>r k. r \<in> set rs \<and> c = insertedChunk r k \<and> i \<le> k \<and> k < i + int (length rs)"
proof (induction rs arbitrary: i)
  case (Cons r rs)
  show ?case
  proof (cases "c = insertedChunk r i")
    case False
    with Cons.prems have "c \<in> set (insertedChunks rs (i + 1))" by simp
    from Cons.IH [OF this] show ?thesis by fastforce
  next
    case True
    then show ?thesis by (intro exI [of _ r] exI [of _ i]) simp
  qed
qed simp

lemma insertedChunks_length [simp]: "length (insertedChunks rs i) = length rs"
  by (induction rs arbitrary: i) auto

lemma insertedChunks_distinct: "distinct (map cjc_chunk_id (insertedChunks rs i))"
proof (induction rs arbitrary: i)
  case (Cons r rs)
  have "i \<notin> cjc_chunk_id ` set (insertedChunks rs (i + 1))"
    by (auto dest!: insertedChunks_rows simp: insertedChunk_def)
  with Cons show ?case by (simp add: insertedChunk_def)
qed simp

lemma insertedChunk_simps [simp]:
  "cjc_chunk_id (insertedChunk r i) = i" "cjc_job_id (insertedChunk r i) = cr_JobID r"
  "cjc_chunk_number (insertedChunk r i) = cr_ChunkNumber r" "cjc_wave_no (insertedChunk r i) = cr_WaveNo r"
  "cjc_status (insertedChunk r i) = statusQueued" "cjc_progress_counted (insertedChunk r i) = False"
  "cjc_product_ids (insertedChunk r i) = cr_ProductIDs r"
  by (simp_all add: insertedChunk_def)

definition withChunks :: "calc_world \<Rightarrow> chunk_row list \<Rightarrow> calc_world" where
  "withChunks w rows = w\<lparr>w_chunks := w_chunks w @ insertedChunks rows (w_nextChunkID w),
     w_nextChunkID := w_nextChunkID w + int (length rows)\<rparr>"

text \<open>
  One wave \<open>v\<close> of job \<open>j\<close>, all earlier chunks of the job being in smaller waves.
\<close>

definition nextWave :: "calc_world \<Rightarrow> chunk_row list \<Rightarrow> int \<Rightarrow> int \<Rightarrow> bool" where
  "nextWave w rows j v \<longleftrightarrow>
     (\<forall>r \<in> set rows. cr_JobID r = j \<and> cr_WaveNo r = v) \<and> 0 \<le> v \<and>
     (\<forall>c \<in> set (w_chunks w). cjc_job_id c = j \<longrightarrow> cjc_wave_no c < v)"

lemma withChunks_new:
  assumes "nextWave w rows j v" and "c \<in> set (w_chunks (withChunks w rows))"
  shows "c \<in> set (w_chunks w) \<or>
    (cjc_job_id c = j \<and> cjc_wave_no c = v \<and> w_nextChunkID w \<le> cjc_chunk_id c \<and>
     cjc_chunk_id c < w_nextChunkID w + int (length rows) \<and> cjc_status c = statusQueued)"
  using assms by (auto simp: withChunks_def nextWave_def dest!: insertedChunks_rows)

lemma withChunks_old: "c \<in> set (w_chunks w) \<Longrightarrow> c \<in> set (w_chunks (withChunks w rows))"
  by (simp add: withChunks_def)

lemma withChunks_released:
  assumes "nextWave w rows j v"
  shows "released w i u \<Longrightarrow> released (withChunks w rows) i u"
    and "doneThrough w i u \<Longrightarrow> doneThrough (withChunks w rows) i u"
proof -
  assume a: "released w i u"
  then obtain c where c: "c \<in> set (w_chunks w)" "cjc_job_id c = i" "cjc_wave_no c = u"
    by (auto simp: released_def)
  then have "i = j \<longrightarrow> u < v" using assms by (auto simp: nextWave_def)
  then show "released (withChunks w rows) i u"
    using a c withChunks_old unfolding released_def by (auto dest!: withChunks_new [OF assms])
next
  assume a: "doneThrough w i u"
  then obtain c where c: "c \<in> set (w_chunks w)" "cjc_job_id c = i" "cjc_wave_no c = u"
    by (auto simp: doneThrough_def)
  then have "i = j \<longrightarrow> u < v" using assms by (auto simp: nextWave_def)
  then show "doneThrough (withChunks w rows) i u"
    using a c withChunks_old unfolding doneThrough_def by (auto dest!: withChunks_new [OF assms])
qed

lemma withChunks_known: "known w i j v \<Longrightarrow> known (withChunks w rows) i j v"
  by (auto simp: known_def withChunks_old)

lemma withChunks_rely: "nextWave w rows j v \<Longrightarrow> rely w (withChunks w rows)"
  by (simp add: rely_def withChunks_known withChunks_released)

lemma withChunks_counted: "countedChunks w j \<le> countedChunks (withChunks w rows) j"
  by (simp add: countedChunks_def withChunks_def)

lemma withChunks_chunkInv:
  assumes n: "nextWave w rows j v" and i: "chunkInv w"
    and one: "\<exists>d \<in> set (w_chunks (withChunks w rows)). cjc_job_id d = j \<and> cjc_chunk_number d = 1"
  shows "chunkInv (withChunks w rows)"
  unfolding chunkInv_def
proof (intro conjI ballI)
  have "cjc_chunk_id ` set (w_chunks w) \<inter> cjc_chunk_id ` set (insertedChunks rows (w_nextChunkID w)) = {}"
    using i by (fastforce simp: chunkInv_def dest!: insertedChunks_rows)
  then show "distinct (map cjc_chunk_id (w_chunks (withChunks w rows)))"
    using i insertedChunks_distinct by (simp add: withChunks_def chunkInv_def)
next
  fix c assume "c \<in> set (w_chunks (withChunks w rows))"
  note new = withChunks_new [OF n this]
  show "cjc_chunk_id c < w_nextChunkID (withChunks w rows)" "0 \<le> cjc_wave_no c"
    "waveCompleted (cjc_status c) \<longrightarrow> cjc_completed_at c \<noteq> None"
    using new i n by (auto simp: chunkInv_def withChunks_def nextWave_def waveCompleted_def)
  show "inFlight (cjc_status c) \<longrightarrow> released (withChunks w rows) (cjc_job_id c) (cjc_wave_no c)"
    using new i withChunks_released(1) [OF n] by (auto simp: chunkInv_def inFlight_def)
  show "\<exists>d \<in> set (w_chunks (withChunks w rows)). cjc_job_id d = cjc_job_id c \<and> cjc_chunk_number d = 1"
    using new i one withChunks_old [of _ w rows] unfolding chunkInv_def by metis
qed

text \<open>The right to insert: held already, or free because the job has no chunk.\<close>

definition mayInsert :: "calc_world \<Rightarrow> token multiset \<Rightarrow> chunk_row list \<Rightarrow> int \<Rightarrow> int \<Rightarrow> bool" where
  "mayInsert w t rows j v \<longleftrightarrow>
     (\<exists>n. t = {#Planner j n#} \<and> n \<le> v) \<or>
     (t = {#} \<and> rows \<noteq> [] \<and> cr_ChunkNumber (hd rows) = 1 \<and>
       (\<forall>c \<in> set (w_chunks w). cjc_job_id c \<noteq> j))"

lemma planner_member:
  assumes "plannerInv w t" and "Planner j n \<in># t"
  shows "\<exists>c \<in> set (w_chunks w). cjc_job_id c = j" "c \<in> set (w_chunks w) \<Longrightarrow> cjc_job_id c = j \<Longrightarrow> cjc_wave_no c < n"
  using assms by (auto simp: plannerInv_def)

lemma other_planner:
  assumes p: "plannerInv w (k + t)" and m: "mayInsert w t rows j v" and i: "Planner i n \<in># k"
  shows "i \<noteq> j"
proof
  assume "i = j"
  with i have "Planner i n \<in># filter_mset (plannerOf j) k" by simp
  then obtain X where X: "filter_mset (plannerOf j) k = add_mset (Planner i n) X"
    by (rule mset_add)
  have "size (filter_mset (plannerOf j) (k + t)) \<le> 1" using p by (simp add: plannerInv_def)
  then have "size (filter_mset (plannerOf j) t) = 0" by (simp add: X)
  with m have "t = {#}" unfolding mayInsert_def by (elim disjE exE conjE) simp_all
  with m p i \<open>i = j\<close> show False by (auto simp: mayInsert_def dest!: planner_member(1))
qed

lemma planner_insert:
  assumes p: "plannerInv w (k + t)" and m: "mayInsert w t rows j v" and r: "rows \<noteq> []"
    and n: "nextWave w rows j v"
  shows "plannerInv (withChunks w rows) (k + {#Planner j (v + 1)#})"
  unfolding plannerInv_def
proof (intro conjI allI impI)
  fix i
  have "size (filter_mset (plannerOf i) (k + t)) \<le> 1" using p by (simp add: plannerInv_def)
  moreover have "filter_mset (plannerOf j) k = {#}"
  proof -
    have "\<not> plannerOf j x" if "x \<in># k" for x
      using that other_planner [OF p m] by (cases x) auto
    then show ?thesis by (intro multiset_eqI) (auto simp flip: not_in_iff)
  qed
  ultimately show "size (filter_mset (plannerOf i) (k + {#Planner j (v + 1)#})) \<le> 1"
    by (cases "i = j") auto
next
  fix i b assume "Planner i b \<in># k + {#Planner j (v + 1)#}"
  then consider (old) "Planner i b \<in># k" | (new) "i = j" "b = v + 1" by auto
  then have "(\<exists>c \<in> set (w_chunks (withChunks w rows)). cjc_job_id c = i) \<and>
      (\<forall>c \<in> set (w_chunks (withChunks w rows)). cjc_job_id c = i \<longrightarrow> cjc_wave_no c < b)"
  proof cases
    case old
    then have "i \<noteq> j" by (rule other_planner [OF p m])
    moreover from old have "Planner i b \<in># k + t" by simp
    ultimately show ?thesis using planner_member [OF p] withChunks_new [OF n] withChunks_old by metis
  next
    case new
    obtain r rs where rs: "rows = r # rs" using r by (cases rows) auto
    have "insertedChunk r (w_nextChunkID w) \<in> set (w_chunks (withChunks w rows))"
      by (simp add: withChunks_def rs)
    moreover have "cjc_job_id (insertedChunk r (w_nextChunkID w)) = j" using n rs by (simp add: nextWave_def)
    moreover have "cjc_wave_no c < v + 1" if "c \<in> set (w_chunks (withChunks w rows))" "cjc_job_id c = j" for c
      using withChunks_new [OF n that(1)] that(2) n by (auto simp: nextWave_def)
    ultimately show ?thesis using new by blast
  qed
  then show "\<exists>c \<in> set (w_chunks (withChunks w rows)). cjc_job_id c = i"
    "\<forall>c \<in> set (w_chunks (withChunks w rows)). cjc_job_id c = i \<longrightarrow> cjc_wave_no c < b" by blast+
qed

lemma engineInv_insert:
  assumes e: "engineInv w (k + t)" and m: "mayInsert w t rows j v" and r: "rows \<noteq> []"
    and n: "nextWave w rows j v"
  shows "engineInv (withChunks w rows) (k + {#Planner j (v + 1)#})"
proof -
  have p: "plannerInv w (k + t)" using e by (simp add: engineInv_def)
  have "\<exists>d \<in> set (w_chunks (withChunks w rows)). cjc_job_id d = j \<and> cjc_chunk_number d = 1"
  proof (cases "t = {#}")
    case True
    obtain q qs where q: "rows = q # qs" using r by (cases rows) auto
    have "insertedChunk q (w_nextChunkID w) \<in> set (w_chunks (withChunks w rows))"
      by (simp add: withChunks_def q)
    then show ?thesis
      by (rule bexI [rotated]) (use m n True q in \<open>auto simp: mayInsert_def nextWave_def\<close>)
  next
    case False
    with m obtain b where "t = {#Planner j b#}" by (auto simp: mayInsert_def)
    then have "Planner j b \<in># k + t" by simp
    from planner_member(1) [OF p this] e show ?thesis
      using withChunks_old unfolding engineInv_def chunkInv_def by metis
  qed
  then have "chunkInv (withChunks w rows)"
    using e n by (intro withChunks_chunkInv) (auto simp: engineInv_def)
  moreover have "countInv (withChunks w rows) (k + {#Planner j (v + 1)#})"
  proof -
    have "count t (Count i) = 0" for i using m by (auto simp: mayInsert_def)
    moreover have "w_jobs (withChunks w rows) = w_jobs w" by (simp add: withChunks_def)
    ultimately show ?thesis using e withChunks_counted [of w _ rows]
      unfolding engineInv_def countInv_def by (auto intro: order_trans)
  qed
  moreover have "queueInv (withChunks w rows)"
    using e withChunks_known withChunks_released(1) [OF n]
    by (auto simp: engineInv_def queueInv_def chunkOK_def withChunks_def)
  ultimately show ?thesis using planner_insert [OF p m r n] by (simp add: engineInv_def)
qed

definition insertTurn :: "token multiset \<Rightarrow> int \<Rightarrow> int \<Rightarrow> int \<Rightarrow> bool" where
  "insertTurn t j firstNumber v \<longleftrightarrow> (\<exists>n. t = {#Planner j n#} \<and> n \<le> v) \<or> (t = {#} \<and> firstNumber = 1)"

text \<open>
  The unique constraint on chunk numbers is what keeps a second planner of the same job out:
  its first insert repeats number 1.
\<close>

lemma insertTurn_mayInsert:
  assumes i: "chunkInv w" and u: "distinct (map chunkKey (w_chunks w @ insertedChunks rows k))"
    and rows: "rows = r # rs" "cr_JobID r = j" and t: "insertTurn t j (cr_ChunkNumber r) v"
  shows "mayInsert w t rows j v"
proof (cases "t = {#}")
  case True
  have "(j, 1) \<notin> chunkKey ` set (w_chunks w)"
    using u rows t True by (auto simp: insertTurn_def chunkKey_def insertedChunk_def)
  then have "\<not> (cjc_job_id d = j \<and> cjc_chunk_number d = 1)" if "d \<in> set (w_chunks w)" for d
    using that by (auto simp: chunkKey_def image_iff)
  moreover have "\<exists>d \<in> set (w_chunks w). cjc_job_id d = j \<and> cjc_chunk_number d = 1"
    if "c \<in> set (w_chunks w)" "cjc_job_id c = j" for c
    using i that unfolding chunkInv_def by blast
  ultimately have "\<forall>c \<in> set (w_chunks w). cjc_job_id c \<noteq> j"
    by blast
  with True t rows show ?thesis by (auto simp: mayInsert_def insertTurn_def)
next
  case False
  with t show ?thesis by (auto simp: mayInsert_def insertTurn_def)
qed

lemma insertTurn_nextWave:
  assumes e: "engineInv w (k + t)" and m: "mayInsert w t rows j v"
    and "\<forall>r \<in> set rows. cr_JobID r = j \<and> cr_WaveNo r = v" "0 \<le> v"
  shows "nextWave w rows j v"
proof -
  have "cjc_wave_no c < v" if c: "c \<in> set (w_chunks w)" "cjc_job_id c = j" for c
  proof (cases "t = {#}")
    case True
    with m c show ?thesis by (auto simp: mayInsert_def)
  next
    case False
    with m obtain n where n: "t = {#Planner j n#}" "n \<le> v" by (auto simp: mayInsert_def)
    then have "Planner j n \<in># k + t" by simp
    moreover have "plannerInv w (k + t)" using e by (simp add: engineInv_def)
    ultimately show ?thesis using planner_member(2) [of w "k + t" j n c] c n(2) by simp
  qed
  with assms(3,4) show ?thesis by (auto simp: nextWave_def)
qed

lemma map2_chunkIDs:
  "length new = length rows \<Longrightarrow> r \<in> set (map2 (\<lambda>r c. r\<lparr>cr_ChunkID := cjc_chunk_id c\<rparr>) rows new) \<Longrightarrow>
   \<exists>c \<in> set new. cr_ChunkID r = cjc_chunk_id c"
  by (auto dest: set_zip_rightD)

lemma rely_known: "rely w w' \<Longrightarrow> known w i j v \<Longrightarrow> known w' i j v"
  by (simp add: rely_def)

lemma withChunks_knows:
  assumes "nextWave w rows j v"
    and "r \<in> set (map2 (\<lambda>r c. r\<lparr>cr_ChunkID := cjc_chunk_id c\<rparr>) rows (insertedChunks rows (w_nextChunkID w)))"
  shows "known (withChunks w rows) (cr_ChunkID r) j v"
proof -
  from map2_chunkIDs [OF _ assms(2)] obtain c where c: "cr_ChunkID r = cjc_chunk_id c"
    "c \<in> set (insertedChunks rows (w_nextChunkID w))" by auto
  from insertedChunks_rows [OF c(2)] assms(1) have "cjc_job_id c = j \<and> cjc_wave_no c = v"
    by (auto simp: nextWave_def)
  moreover have "c \<in> set (w_chunks (withChunks w rows))" using c(2) by (simp add: withChunks_def)
  ultimately show ?thesis using c(1) by (auto simp: known_def)
qed

lemma safe_ChunkBulkInsert:
  assumes rows: "\<forall>r \<in> set rows. cr_JobID r = j \<and> cr_WaveNo r = v" "rows \<noteq> []" "0 \<le> v"
    and t: "insertTurn t j (cr_ChunkNumber (hd rows)) v"
  shows "safe rely engineInv (ChunkBulkInsert rows)
    (\<lambda>r w3 t'. \<forall>rs. r = Inr rs \<longrightarrow> t' = {#Planner j (v + 1)#} \<and> length rs = length rows \<and>
       (\<forall>r \<in> set rs. known w3 (cr_ChunkID r) j v)) w t"
proof -
  obtain r rs where rs: "rows = r # rs" "cr_JobID r = j" using rows by (cases rows) auto
  let ?q = "\<lambda>w. let new = insertedChunks rows (w_nextChunkID w)
        in if distinct (map chunkKey (w_chunks w @ new))
           then (Inr (map2 (\<lambda>r c. r\<lparr>cr_ChunkID := cjc_chunk_id c\<rparr>) rows new), withChunks w rows)
           else (Inl ConstraintViolation, w)"
  have "ChunkBulkInsert rows = call ?q"
    using rows(2) unfolding ChunkBulkInsert_def withChunks_def Let_def by simp
  moreover have "safe rely engineInv (call ?q)
    (\<lambda>r w3 t'. \<forall>rs. r = Inr rs \<longrightarrow> t' = {#Planner j (v + 1)#} \<and> length rs = length rows \<and>
       (\<forall>r \<in> set rs. known w3 (cr_ChunkID r) j v)) w t"
  proof (rule safe_call)
    fix w0 k assume i: "engineInv w0 (k + t)"
    show "rely w0 (snd (?q w0)) \<and> (\<exists>t'. engineInv (snd (?q w0)) (k + t') \<and>
        (\<forall>w3. rely (snd (?q w0)) w3 \<longrightarrow>
          (\<forall>rs. fst (?q w0) = Inr rs \<longrightarrow> t' = {#Planner j (v + 1)#} \<and> length rs = length rows \<and>
            (\<forall>r \<in> set rs. known w3 (cr_ChunkID r) j v)) \<and>
          (\<forall>rs. Inl Unavailable = Inr rs \<longrightarrow> t' = {#Planner j (v + 1)#} \<and> length rs = length rows \<and>
            (\<forall>r \<in> set rs. known w3 (cr_ChunkID r) j v))))"
    proof (cases "distinct (map chunkKey (w_chunks w0 @ insertedChunks rows (w_nextChunkID w0)))")
      case True
      have m: "mayInsert w0 t rows j v"
        using i t rs by (intro insertTurn_mayInsert [OF _ True]) (auto simp: engineInv_def)
      have n: "nextWave w0 rows j v" by (rule insertTurn_nextWave [OF i m rows(1,3)])
      have q: "?q w0 = (Inr (map2 (\<lambda>r c. r\<lparr>cr_ChunkID := cjc_chunk_id c\<rparr>) rows
          (insertedChunks rows (w_nextChunkID w0))), withChunks w0 rows)"
        using True by (simp add: Let_def)
      show ?thesis unfolding q
        using withChunks_rely [OF n] engineInv_insert [OF i m rows(2) n] withChunks_knows [OF n] rely_known
        by (auto intro!: exI [of _ "{#Planner j (v + 1)#}"] simp del: set_map)
    next
      case False
      then show ?thesis using i rely_refl by (auto simp: Let_def)
    qed
  qed simp
  ultimately show ?thesis by simp
qed

section \<open>Dispatching chunks\<close>

lemma safe_forEach:
  assumes "\<And>x w t. x \<in> set xs \<Longrightarrow> P x w \<Longrightarrow> safe rely engineInv (f x) anyEnd w t"
    and "\<And>x w w'. P x w \<Longrightarrow> rely w w' \<Longrightarrow> P x w'"
    and "\<forall>x \<in> set xs. P x w"
  shows "safe rely engineInv (forEach f xs) anyEnd w t"
  using assms(1,3)
proof (induction xs arbitrary: w t)
  case Nil
  then show ?case by (simp add: safe_end)
next
  case (Cons y ys w t)
  have "safe rely engineInv (f y) anyEnd w t" using Cons.prems by simp
  then show ?case unfolding forEach.simps
  proof (rule safe_then)
    fix a w' t' assume "rely w w'"
    with Cons.prems(2) assms(2) have "\<forall>x \<in> set ys. P x w'" by auto
    then show "safe rely engineInv (forEach f ys) anyEnd w' t'"
      using Cons.prems(1) by (intro Cons.IH) auto
  qed
qed

definition publishable :: "chunk_spec \<Rightarrow> calc_world \<Rightarrow> bool" where
  "publishable c w \<longleftrightarrow> known w (cs_chunkID c) (cs_jobID c) (cs_waveNo c) \<and>
     (cs_waveNo c = 0 \<or> released w (cs_jobID c) (cs_waveNo c))"

lemma publishable_later: "publishable c w \<Longrightarrow> rely w w' \<Longrightarrow> publishable c w'"
  by (auto simp: publishable_def rely_def)

lemma publishable_chunkOK:
  "publishable c w \<Longrightarrow> chunkInv w \<Longrightarrow> chunkOK w (cs_chunkID c) (cs_jobID c) (cs_waveNo c)"
  by (force simp: publishable_def chunkOK_def known_def released_def chunkInv_def)

lemma known_unique:
  assumes "chunkInv w" "known w i j v" "c \<in> set (w_chunks w)" "cjc_chunk_id c = i"
  shows "cjc_job_id c = j \<and> cjc_wave_no c = v"
proof -
  from assms(2) obtain d where d: "d \<in> set (w_chunks w)" "cjc_chunk_id d = i" "cjc_job_id d = j" "cjc_wave_no d = v"
    by (auto simp: known_def)
  have "distinct (map cjc_chunk_id (w_chunks w))" using assms(1) by (simp add: chunkInv_def)
  with d(1,2) assms(3,4) have "c = d" by (auto simp: distinct_map inj_on_def)
  with d show ?thesis by simp
qed

lemma engineInv_message:
  assumes e: "engineInv w t" and "w_chunks w' = w_chunks w" "w_nextChunkID w' = w_nextChunkID w"
    "w_jobs w' = w_jobs w"
    and c: "\<And>s. Some s \<in> set (w_chunkQueue w') \<Longrightarrow>
        Some s \<in> set (w_chunkQueue w) \<or> chunkOK w (cs_chunkID s) (cs_jobID s) (cs_waveNo s)"
    and d: "\<And>v. Some v \<in> set (w_doneQueue w') \<Longrightarrow>
        Some v \<in> set (w_doneQueue w) \<or> chunkOK w (ev_ChunkID v) (ev_JobID v) (ev_WaveNo v)"
  shows "engineInv w' t"
proof -
  have s: "\<And>i j v. chunkOK w' i j v = chunkOK w i j v" "\<And>j v. released w' j v = released w j v"
    "\<And>j. countedChunks w' j = countedChunks w j"
    using assms(2) by (simp_all add: released_def known_def countedChunks_def chunkOK_def)
  have "queueInv w'" unfolding queueInv_def s using e c d unfolding engineInv_def queueInv_def by blast
  with e assms(2-4) show ?thesis
    by (simp add: engineInv_def chunkInv_def countInv_def plannerInv_def s)
qed

lemma keeps_PublishChunk:
  "keeps (publishable c) (\<lambda>w. (Inr (), w\<lparr>w_chunkQueue := w_chunkQueue w @ [Some c]\<rparr>))"
proof (rule keepsI)
  fix w t assume p: "publishable c w" and e: "engineInv w t"
  then have "chunkOK w (cs_chunkID c) (cs_jobID c) (cs_waveNo c)"
    by (intro publishable_chunkOK) (auto simp: engineInv_def)
  then have "engineInv (w\<lparr>w_chunkQueue := w_chunkQueue w @ [Some c]\<rparr>) t"
    by (intro engineInv_message [OF e]) auto
  then show "rely w (snd (Inr (), w\<lparr>w_chunkQueue := w_chunkQueue w @ [Some c]\<rparr>)) \<and>
      engineInv (snd (Inr (), w\<lparr>w_chunkQueue := w_chunkQueue w @ [Some c]\<rparr>)) t"
    by (simp add: rely_cong)
qed

definition doneOK :: "chunk_completed_event \<Rightarrow> calc_world \<Rightarrow> bool" where
  "doneOK v w \<longleftrightarrow> chunkOK w (ev_ChunkID v) (ev_JobID v) (ev_WaveNo v)"

lemma doneOK_later: "doneOK v w \<Longrightarrow> rely w w' \<Longrightarrow> doneOK v w'"
  by (auto simp: doneOK_def intro: rely_chunkOK)

lemma keeps_PublishChunkDone:
  "keeps (doneOK v) (\<lambda>w. (Inr (), w\<lparr>w_doneQueue := w_doneQueue w @ [Some v]\<rparr>))"
proof (rule keepsI)
  fix w t assume p: "doneOK v w" and e: "engineInv w t"
  then have "engineInv (w\<lparr>w_doneQueue := w_doneQueue w @ [Some v]\<rparr>) t"
    by (intro engineInv_message [OF e]) (auto simp: doneOK_def)
  then show "rely w (snd (Inr (), w\<lparr>w_doneQueue := w_doneQueue w @ [Some v]\<rparr>)) \<and>
      engineInv (snd (Inr (), w\<lparr>w_doneQueue := w_doneQueue w @ [Some v]\<rparr>)) t"
    by (simp add: rely_cong)
qed

text \<open>The statements of a chunk that has been released: dispatch, processing, completion.\<close>

lemma keeps_chunk:
  assumes "\<And>w c. snd (q w) = updateChunks (\<lambda>c. cjc_chunk_id c = i) (f w) w"
    and "\<And>w c. cjc_chunk_id (f w c) = cjc_chunk_id c \<and> cjc_job_id (f w c) = cjc_job_id c \<and>
       cjc_wave_no (f w c) = cjc_wave_no c \<and> cjc_chunk_number (f w c) = cjc_chunk_number c \<and>
       cjc_progress_counted (f w c) = cjc_progress_counted c"
    and "\<And>w c. cjc_completed_at c \<noteq> None \<Longrightarrow> cjc_completed_at (f w c) \<noteq> None"
    and "\<And>w c. waveCompleted (cjc_status (f w c)) \<Longrightarrow>
       cjc_completed_at (f w c) \<noteq> None \<or> cjc_status (f w c) = cjc_status c \<and> cjc_completed_at (f w c) = cjc_completed_at c"
  shows "keeps (\<lambda>w. chunkInv w \<longrightarrow> chunkOK w i j v) q"
proof (rule keeps_updateChunks [OF _ assms(1)])
  fix w t assume p: "chunkInv w \<longrightarrow> chunkOK w i j v" and e: "engineInv w t"
  then have ci: "chunkInv w" and k: "known w i j v" and r: "released w j v"
    by (auto simp: engineInv_def chunkOK_def)
  have "cjc_completed_at (f w c) \<noteq> None"
    if c: "c \<in> set (w_chunks w)" and s: "waveCompleted (cjc_status (f w c))" for c
  proof (cases "cjc_completed_at c = None")
    case True
    with c ci have "\<not> waveCompleted (cjc_status c)" by (auto simp: chunkInv_def)
    with assms(4) [OF s] s show ?thesis by auto
  qed (rule assms(3))
  then show "chunkUpdateOK w (\<lambda>c. cjc_chunk_id c = i) (f w)"
    using known_unique [OF ci k] r assms(2,3) by (auto simp: chunkUpdateOK_def)
qed

section \<open>Quiet programs\<close>

text \<open>Programs that are safe whatever the tokens, and leave them alone.\<close>

definition quiet :: "'a calc_prog \<Rightarrow> bool" where
  "quiet p \<longleftrightarrow> (\<forall>w t. safe rely engineInv p (\<lambda>r w' t'. t' = t) w t)"

named_theorems quiet_intro \<open>rules that show a program quiet\<close>

lemma quiet_call: "keeps (\<lambda>_. True) q \<Longrightarrow> quiet (call q)"
  unfolding quiet_def by (blast intro: safe_keeps)

lemma quiet_reading [quiet_intro]: "quiet (reading f)"
  unfolding reading_def by (rule quiet_call, rule keeps_cong) auto

lemma quiet_selectJob [quiet_intro]: "quiet (selectJob i f)"
  unfolding selectJob_def by (rule quiet_call, rule keeps_cong) auto

lemma quiet_updateJob:
  assumes "\<And>w j. cj_job_id (f w j) = cj_job_id j" "\<And>w j. cj_processed_chunks (f w j) = cj_processed_chunks j"
  shows "quiet (writing (\<lambda>w. updateJob i (f w) w))"
  unfolding writing_def
  by (intro quiet_call keepsI) (simp add: rely_cong engineInv_updateJob assms)

lemma quiet_Return [quiet_intro]: "quiet (Return r)" "quiet (ok a)" "quiet (fails e)"
  by (simp_all add: quiet_def ok_def fails_def)

lemma quiet_Step:
  assumes "\<And>w t. engineInv w t \<Longrightarrow> rely w (f w) \<and> engineInv (f w) t" and "\<And>w. quiet (p w)"
  shows "quiet (Step (\<lambda>w. (p w, f w)))"
  using assms unfolding quiet_def safe_Step by fastforce

lemma quiet_continue [quiet_intro]:
  "quiet p \<Longrightarrow> (\<And>r. quiet (g r)) \<Longrightarrow> quiet (continue p g)"
  unfolding quiet_def by (blast intro: engine.safe_continue)

lemma quiet_andThen [quiet_intro]:
  "quiet p \<Longrightarrow> (\<And>a. quiet (g a)) \<Longrightarrow> quiet (andThen p g)"
  unfolding andThen_def by (rule quiet_continue) (auto intro: quiet_intro split: sum.split)

lemma quiet_logged [quiet_intro]: "quiet p \<Longrightarrow> quiet (logged p)"
  unfolding logged_def by (intro quiet_intro)

lemma quiet_sum [quiet_intro]:
  "(\<And>e. r = Inl e \<Longrightarrow> quiet (f e)) \<Longrightarrow> (\<And>a. r = Inr a \<Longrightarrow> quiet (g a)) \<Longrightarrow>
   quiet (case r of Inl e \<Rightarrow> f e | Inr a \<Rightarrow> g a)"
  by (cases r) auto

lemma quiet_if [quiet_intro]: "(c \<Longrightarrow> quiet p) \<Longrightarrow> (\<not> c \<Longrightarrow> quiet q) \<Longrightarrow> quiet (if c then p else q)"
  by simp

lemma quiet_safe: "quiet p \<Longrightarrow> safe rely engineInv p anyEnd w t"
  unfolding quiet_def by (rule safe_any) (drule spec, erule spec)

lemma quiet_then:
  assumes "quiet p" and "\<And>a w'. rely w w' \<Longrightarrow> safe rely engineInv (g a) anyEnd w' t"
  shows "safe rely engineInv (andThen p g) anyEnd w t"
proof (rule safe_then)
  show "safe rely engineInv p (\<lambda>r w' t'. t' = t) w t" using assms(1) by (simp add: quiet_def)
qed (simp add: assms(2))

lemma quiet_writing:
  "(\<And>w. w_chunks (f w) = w_chunks w) \<Longrightarrow> (\<And>w. w_nextChunkID (f w) = w_nextChunkID w) \<Longrightarrow>
   (\<And>w. w_jobs (f w) = w_jobs w) \<Longrightarrow>
   (\<And>w. set (w_chunkQueue (f w)) \<subseteq> set (w_chunkQueue w)) \<Longrightarrow>
   (\<And>w. set (w_doneQueue (f w)) \<subseteq> set (w_doneQueue w)) \<Longrightarrow> quiet (writing f)"
  unfolding writing_def by (rule quiet_call, rule keeps_cong) (auto simp: subset_insertI2)

lemma quiet_statements [quiet_intro]:
  "quiet (GetByID i)" "quiet (UpdateStatus i st)" "quiet (MarkFailed i e)" "quiet (UpdateTotals i a b c)"
  "quiet (CompleteJob i st succ fl bl d)" "quiet (MarkStarted i)" "quiet (GetProgress i)"
  "quiet (getStartedAt i)" "quiet (getTotalWaves i)" "quiet (IsPeriodLocked p ct)"
  "quiet (CountByJobWave i v)" "quiet (FindStuckChunks d)" "quiet (ListChunksOfWave i v)"
  "quiet (ResolveProductRouteMap ids)"
  by (simp_all add: GetByID_def GetProgress_def getStartedAt_def getTotalWaves_def IsPeriodLocked_def
      CountByJobWave_def FindStuckChunks_def ListChunksOfWave_def ResolveProductRouteMap_def
      UpdateStatus_def MarkFailed_def UpdateTotals_def CompleteJob_def MarkStarted_def
      quiet_reading quiet_selectJob quiet_updateJob)

lemma quiet_acks [quiet_intro]:
  "quiet nackRequeue" "quiet (ackJob m)" "quiet (ackDone d)" "quiet (ackChunk c)" "quiet (nackChunkDead c)"
  "quiet (PublishJobTriggered i)" "quiet (MarkSkippedForJob i)"
  unfolding nackRequeue_def ackJob_def ackDone_def ackChunk_def nackChunkDead_def
    PublishJobTriggered_def MarkSkippedForJob_def
  by (rule quiet_writing; auto dest: notin_set_remove1 set_remove1_subset [THEN subsetD])+

text \<open>Chunk statements that need no right: they complete chunks, or leave the status alone.\<close>

lemma quiet_updateChunks:
  assumes "\<And>w. snd (q w) = updateChunks (c w) (f w) w"
    and "\<And>w. chunkInv w \<Longrightarrow> chunkUpdateOK w (c w) (f w)"
  shows "quiet (call q)"
proof (intro quiet_call keepsI)
  fix w t assume e: "engineInv w t"
  then have "chunkUpdateOK w (c w) (f w)" by (intro assms(2)) (simp add: engineInv_def)
  with e show "rely w (snd (q w)) \<and> engineInv (snd (q w)) t"
    unfolding assms(1) by (blast intro: updateChunks_rely engineInv_updateChunks)
qed

lemma quiet_chunkStatements [quiet_intro]:
  "quiet (MarkRemainingChunksSkipped i v)" "quiet (MarkChunkFailed i msg)" "quiet (MarkQueuedAsSkipped i)"
  "quiet (IncrementRetry i)"
  unfolding MarkRemainingChunksSkipped_def MarkChunkFailed_def MarkQueuedAsSkipped_def IncrementRetry_def
    writing_def
  by (rule quiet_updateChunks; (simp add: Let_def; fail)?;
      auto simp: chunkUpdateOK_def inFlight_def chunkInv_def waveCompleted_def)+

lemma quiet_MarkCompleted: "\<not> inFlight st \<Longrightarrow> quiet (MarkCompleted i st a b d)"
  unfolding MarkCompleted_def writing_def
  by (rule quiet_updateChunks, simp, auto simp: chunkUpdateOK_def inFlight_def)

lemma quiet_CreateAutoJob [quiet_intro]: "quiet (CreateAutoJob code p ct sc tr cr)"
  unfolding CreateAutoJob_def
proof (intro quiet_call keepsI, unfold Let_def snd_conv, intro conjI)
  fix w t assume e: "engineInv w t"
  show "rely w (w\<lparr>w_jobs := w_jobs w @ [x], w_nextJobID := n\<rparr>)" for x n by (rule rely_cong) simp
  show "engineInv (w\<lparr>w_jobs := w_jobs w @ [\<lparr>cj_job_id = w_nextJobID w, cj_job_code = code, cj_period = p,
       cj_calculation_type = ct, cj_scope = sc, cj_product_filter = None, cj_status = statusQueued,
       cj_priority = 5, cj_total_products = 0, cj_total_chunks = 0, cj_total_waves = 0,
       cj_processed_chunks = 0, cj_success_count = 0, cj_failed_count = 0, cj_blocked_count = 0,
       cj_error_summary = None, cj_triggered_by = tr, cj_queued_at = w_now w, cj_started_at = None,
       cj_completed_at = None, cj_duration_ms = None, cj_created_by = cr\<rparr>],
       w_nextJobID := w_nextJobID w + 1\<rparr>) t"
    by (rule engineInv_jobs [OF e]) auto
qed

lemma quiet_ProductBulkInsert [quiet_intro]: "quiet (ProductBulkInsert rows)"
  unfolding ProductBulkInsert_def
  by (intro quiet_intro quiet_call keeps_cong) auto

lemma quiet_buildDag [quiet_intro]: "quiet (buildDag inp)"
  unfolding buildDag_def by (intro quiet_call keeps_cong) auto

lemma quiet_countJob [quiet_intro]: "quiet (countJob st l)"
  unfolding countJob_def
  by (intro quiet_Step quiet_intro) (auto intro!: rely_cong intro: engineInv_cong)

lemma quiet_emitJobTerminal [quiet_intro]: "quiet (emitJobTerminal i st)"
  unfolding emitJobTerminal_def by (intro quiet_intro)

lemma quiet_times [quiet_intro]: "quiet currentTime" "quiet workerTime"
  unfolding currentTime_def workerTime_def by (intro quiet_Step quiet_intro; simp add: rely_refl)+

lemma quiet_prod [quiet_intro]: "(\<And>a b. quiet (f a b)) \<Longrightarrow> quiet (case x of (a, b) \<Rightarrow> f a b)"
  by (cases x) simp

lemma quiet_finalizeJob [quiet_intro]: "quiet (finalizeJob i)"
  unfolding finalizeJob_def Let_def by (intro quiet_intro)

lemma quiet_triggerJob [quiet_intro]: "quiet (triggerJob code p)"
  unfolding triggerJob_def
  by (intro quiet_intro quiet_Step) (auto intro!: rely_cong intro: engineInv_cong)

lemma quiet_fire: "quiet (fire code y m)"
  unfolding fire_def by (intro quiet_intro)

lemma quiet_setJobStatus [quiet_intro]: "quiet (setJobStatus i st)"
  unfolding setJobStatus_def
  by (intro quiet_call keepsI) (simp add: rely_cong engineInv_updateJob)

lemma quiet_cancelJob: "quiet (cancelJob i)"
  unfolding cancelJob_def by (intro quiet_intro)

lemma quiet_ProcessChunk [quiet_intro]: "quiet (ProcessChunk msg)"
proof -
  have "quiet (Step (\<lambda>w. (fst (f w), snd (f w))))"
    if "\<And>w. quiet (fst (f w))" "\<And>w. snd (f w) = w \<or> snd (f w) = w\<lparr>w_replies := tl (w_replies w)\<rparr>"
    for f :: "calc_world \<Rightarrow> (int \<times> int \<times> int) calc_prog \<times> calc_world"
  proof (rule quiet_Step [OF _ that(1)])
    fix w t assume e: "engineInv w t"
    then have "engineInv (w\<lparr>w_replies := tl (w_replies w)\<rparr>) t" by (rule engineInv_cong [rotated -1]) auto
    moreover have "rely w (w\<lparr>w_replies := tl (w_replies w)\<rparr>)" by (rule rely_cong) simp
    ultimately show "rely w (snd (f w)) \<and> engineInv (snd (f w)) t"
      using that(2) [of w] e rely_refl by auto
  qed
  from this [of "\<lambda>w. case w_replies w of
        [] \<Rightarrow> (fails GrpcFailed, w)
      | TransportError # rs \<Rightarrow> (fails GrpcFailed, w\<lparr>w_replies := rs\<rparr>)
      | FinanceError # rs \<Rightarrow> (fails FinanceRejected, w\<lparr>w_replies := rs\<rparr>)
      | Processed succ fl blocked # rs \<Rightarrow> (ok (succ, fl, blocked), w\<lparr>w_replies := rs\<rparr>)"]
  show ?thesis unfolding ProcessChunk_def
    by (simp add: quiet_intro split: list.split grpc_reply.split)
qed

section \<open>The handlers are safe\<close>

lemma safe_needing:
  assumes "keeps P q" and "P w" and "\<And>w0. rely w w0 \<Longrightarrow> P w \<Longrightarrow> P w0"
  shows "safe rely engineInv (call q) anyEnd w t"
  by (rule safe_any, rule safe_keeps [OF assms(1)]) (rule assms(3) [OF _ assms(2)])

lemma keeps_weaken: "keeps P q \<Longrightarrow> (\<And>w. Q w \<Longrightarrow> P w) \<Longrightarrow> keeps Q q"
  by (simp add: keeps_def)

lemma keeps_UpdateDispatched:
  "keeps (\<lambda>w. chunkInv w \<longrightarrow> chunkOK w i j v) (\<lambda>w. (Inr (), updateChunks (\<lambda>c. cjc_chunk_id c = i)
     (\<lambda>c. c\<lparr>cjc_status := statusDispatched, cjc_dispatched_at := Some (w_now w)\<rparr>) w))"
  by (rule keeps_chunk [where f = "\<lambda>w c. c\<lparr>cjc_status := statusDispatched, cjc_dispatched_at := Some (w_now w)\<rparr>"])
    (simp_all add: waveCompleted_def)

lemma keeps_dispatch_publishable:
  "keeps (publishable c) (\<lambda>w. (Inr (), updateChunks (\<lambda>d. cjc_chunk_id d = cs_chunkID c)
     (\<lambda>c. c\<lparr>cjc_status := statusDispatched, cjc_dispatched_at := Some (w_now w)\<rparr>) w))"
  by (rule keeps_weaken [OF keeps_UpdateDispatched]) (auto intro: publishable_chunkOK)

lemma keeps_MarkProcessing:
  "keeps (\<lambda>w. chunkInv w \<longrightarrow> chunkOK w i j v) (\<lambda>w. (Inr (), updateChunks (\<lambda>c. cjc_chunk_id c = i)
     (\<lambda>c. c\<lparr>cjc_status := statusProcessing, cjc_started_at := Some (w_now w), cjc_worker_id := Some wid\<rparr>) w))"
  by (rule keeps_chunk [where f = "\<lambda>w c. c\<lparr>cjc_status := statusProcessing, cjc_started_at := Some (w_now w),
        cjc_worker_id := Some wid\<rparr>"])
    (simp_all add: waveCompleted_def)

lemma safe_dispatchWave:
  assumes "\<forall>c \<in> set chunks. publishable c w"
  shows "safe rely engineInv (dispatchWave chunks) anyEnd w t"
  unfolding dispatchWave_def
proof (rule safe_forEach [where P = publishable, OF _ publishable_later assms])
  fix c w t assume p: "publishable c w"
  show "safe rely engineInv (andThen (PublishChunk c) (\<lambda>_. UpdateDispatched (cs_chunkID c))) anyEnd w t"
  proof (rule safe_then)
    show "safe rely engineInv (PublishChunk c) anyEnd w t"
      unfolding PublishChunk_def writing_def
      by (rule safe_needing [OF keeps_PublishChunk p]) (erule publishable_later)
    fix w' t' assume "rely w w'"
    with p have "publishable c w'" by (rule publishable_later)
    then show "safe rely engineInv (UpdateDispatched (cs_chunkID c)) anyEnd w' t'"
      unfolding UpdateDispatched_def writing_def
      by (rule safe_needing [OF keeps_dispatch_publishable]) (erule publishable_later)
  qed
qed

lemma safe_PublishChunkDone:
  "doneOK v w \<Longrightarrow> safe rely engineInv (PublishChunkDone v) anyEnd w t"
  unfolding PublishChunkDone_def writing_def
  by (rule safe_needing [OF keeps_PublishChunkDone]) (auto intro: doneOK_later)

lemma chunksOfWave_publishable:
  assumes "doneThrough w0 i u" and "rely w0 w" and "r \<in> set (chunksOfWave i (u + 1) w0)"
  shows "publishable (respecChunk i job r) w"
proof -
  from assms(3) obtain c where c: "c \<in> set (w_chunks w0)" "cjc_job_id c = i" "cjc_wave_no c = u + 1"
    and r: "cr_ChunkID r = cjc_chunk_id c" "cr_WaveNo r = u + 1"
    by (auto simp: chunksOfWave_def waveRows_def)
  have "released w0 i (u + 1)" using c assms(1) by (auto simp: released_def doneThrough_def)
  moreover have "known w0 (cjc_chunk_id c) i (u + 1)" using c by (auto simp: known_def)
  ultimately show ?thesis using assms(2) r by (simp add: rely_def publishable_def respecChunk_def)
qed

lemma safe_dispatchNextWave:
  assumes "doneThrough w i u"
  shows "safe rely engineInv (dispatchNextWave i (u + 1)) anyEnd w t"
  unfolding dispatchNextWave_def
proof (rule quiet_then)
  fix job w1 assume "rely w w1"
  with assms have d1: "doneThrough w1 i u" by (simp add: rely_def)
  show "safe rely engineInv (andThen (ListChunksOfWave i (u + 1)) (\<lambda>rows.
      dispatchWave (map (respecChunk i job) rows))) anyEnd w1 t"
    unfolding ListChunksOfWave_def
  proof (rule safe_then [OF safe_reading])
    fix rows w3 t'
    assume "t' = t \<and> (\<forall>a. Inr rows = (Inr a :: calc_error + _) \<longrightarrow>
      (\<exists>w0. rely w1 w0 \<and> rely w0 w3 \<and> engineInv w0 {#} \<and> a = chunksOfWave i (u + 1) w0))"
    then obtain w0 where w0: "rely w1 w0" "rely w0 w3" "rows = chunksOfWave i (u + 1) w0" by auto
    from d1 w0(1) have d0: "doneThrough w0 i u" by (simp add: rely_def)
    show "safe rely engineInv (dispatchWave (map (respecChunk i job) rows)) anyEnd w3 t'"
      using chunksOfWave_publishable [OF d0 w0(2)] w0(3) by (intro safe_dispatchWave) auto
  qed
qed (intro quiet_intro)

lemma ClaimProgressCount_countable:
  "ClaimProgressCount i = call (\<lambda>w. (Inr (length (filter (countable i) (w_chunks w)) > 0),
     updateChunks (countable i) markCounted w))"
  unfolding ClaimProgressCount_def Let_def countable_def markCounted_def by simp

lemma safe_claim:
  assumes "known w i j v"
  shows "safe rely engineInv (ClaimProgressCount i) (\<lambda>r w' t'. r = Inr True \<longrightarrow> t' = {#Count j#}) w {#}"
  unfolding ClaimProgressCount_countable
proof (rule safe_call)
  fix w0 k assume r: "rely w w0" and e: "engineInv w0 (k + {#})"
  let ?w = "updateChunks (countable i) markCounted w0"
  have ci: "chunkInv w0" using e by (simp add: engineInv_def)
  have ok: "chunkUpdateOK w0 (countable i) markCounted" by (rule claimUpdateOK [OF ci])
  have "\<exists>t'. engineInv ?w (k + t') \<and> (0 < length (filter (countable i) (w_chunks w0)) \<longrightarrow> t' = {#Count j#})"
  proof (cases "filter (countable i) (w_chunks w0) = []")
    case True
    then show ?thesis using engineInv_updateChunks [OF ok e] by (auto intro!: exI [of _ "{#}"])
  next
    case False
    then obtain c where c: "c \<in> set (w_chunks w0)" "countable i c" by (auto simp: filter_empty_conv)
    then have "cjc_job_id c = j"
      using known_unique [OF ci rely_known [OF r assms]] by (simp add: countable_def)
    with engineInv_claim [OF e c] show ?thesis by (auto intro!: exI [of _ "{#Count j#}"])
  qed
  then show "rely w0 (snd (Inr (0 < length (filter (countable i) (w_chunks w0))) :: calc_error + bool, ?w)) \<and>
      (\<exists>t'. engineInv (snd (Inr (0 < length (filter (countable i) (w_chunks w0))) :: calc_error + bool, ?w)) (k + t') \<and>
        (\<forall>w3. rely (snd (Inr (0 < length (filter (countable i) (w_chunks w0))) :: calc_error + bool, ?w)) w3 \<longrightarrow>
          (fst (Inr (0 < length (filter (countable i) (w_chunks w0))) :: calc_error + bool, ?w) = Inr True \<longrightarrow> t' = {#Count j#}) \<and>
          (Inl Unavailable = (Inr True :: calc_error + bool) \<longrightarrow> t' = {#Count j#})))"
    using updateChunks_rely [OF ok] by auto
qed simp

lemma safe_IncrementProgress:
  "safe rely engineInv (IncrementProgress i a b c) anyEnd w {#Count i#}"
  unfolding IncrementProgress_def writing_def
proof (rule safe_call)
  fix w0 k assume e: "engineInv w0 (k + {#Count i#})"
  let ?f = "\<lambda>j. j\<lparr>cj_processed_chunks := cj_processed_chunks j + 1,
       cj_success_count := cj_success_count j + a, cj_failed_count := cj_failed_count j + b,
       cj_blocked_count := cj_blocked_count j + c\<rparr>"
  have "engineInv (updateJob i ?f w0) (k + {#})"
    using e by (simp add: engineInv_increment)
  moreover have "rely w0 (updateJob i ?f w0)" by (rule rely_cong) simp
  ultimately show "rely w0 (snd (Inr () :: calc_error + unit, updateJob i ?f w0)) \<and>
      (\<exists>t'. engineInv (snd (Inr () :: calc_error + unit, updateJob i ?f w0)) (k + t') \<and>
        (\<forall>w3. rely (snd (Inr () :: calc_error + unit, updateJob i ?f w0)) w3 \<longrightarrow> True \<and> True))"
    unfolding snd_conv by blast
qed simp

lemma wave_done:
  assumes e: "engineInv w t" and d: "chunkOK w i j v"
    and c: "\<not> snd (waveCounts j v w) < fst (waveCounts j v w)"
  shows "doneThrough w j v"
proof -
  have "waveCompleted (cjc_status x)" if "x \<in> set (waveRows j v w)" for x
    using c length_filter_less [OF that, of "\<lambda>c. waveCompleted (cjc_status c)"]
    by (auto simp: waveCounts_def)
  then have "cjc_completed_at x \<noteq> None" if "x \<in> set (w_chunks w)" "cjc_job_id x = j" "cjc_wave_no x = v" for x
    using that e by (auto simp: engineInv_def chunkInv_def waveRows_def)
  moreover have "cjc_completed_at x \<noteq> None" if "x \<in> set (w_chunks w)" "cjc_job_id x = j" "cjc_wave_no x < v" for x
    using that d unfolding chunkOK_def released_def by blast
  ultimately show ?thesis using d unfolding doneThrough_def chunkOK_def released_def order_le_less by blast
qed

lemma safe_advanceWave:
  assumes d: "doneOK ev w"
  shows "safe rely engineInv (advanceWave ev) anyEnd w t"
  unfolding advanceWave_def CountByJobWave_def
proof (rule safe_then [OF safe_reading])
  fix n w3 t'
  assume "t' = t \<and> (\<forall>a. Inr n = (Inr a :: calc_error + _) \<longrightarrow> (\<exists>w0. rely w w0 \<and> rely w0 w3 \<and>
      engineInv w0 {#} \<and> a = waveCounts (ev_JobID ev) (ev_WaveNo ev) w0))"
  then obtain w0 where w0: "rely w w0" "rely w0 w3" "engineInv w0 {#}"
    "n = waveCounts (ev_JobID ev) (ev_WaveNo ev) w0" by auto
  have "doneThrough w' (ev_JobID ev) (ev_WaveNo ev)" if "\<not> snd n < fst n" "rely w3 w'" for w'
  proof -
    have "doneThrough w0 (ev_JobID ev) (ev_WaveNo ev)"
      using doneOK_later [OF d w0(1)] that(1) w0(4)
      by (intro wave_done [OF w0(3), of "ev_ChunkID ev"]) (auto simp: doneOK_def)
    with rely_trans [OF w0(2) that(2)] show ?thesis by (simp add: rely_def)
  qed
  then have dispatch: "safe rely engineInv (dispatchNextWave (ev_JobID ev) (ev_WaveNo ev + 1)) anyEnd w' t'"
    if "\<not> snd n < fst n" "rely w3 w'" for w'
    using that by (intro safe_dispatchNextWave)
  show "safe rely engineInv (case n of (tot, completed) \<Rightarrow>
     (if completed < tot then ok ()
      else andThen (GetByID (ev_JobID ev)) (\<lambda>job.
       if jd_Status job = statusCancelled
       then MarkRemainingChunksSkipped (ev_JobID ev) (ev_WaveNo ev + 1)
       else andThen (getTotalWaves (ev_JobID ev)) (\<lambda>totalWaves.
         if ev_WaveNo ev + 1 < totalWaves
         then dispatchNextWave (ev_JobID ev) (ev_WaveNo ev + 1)
         else finalizeJob (ev_JobID ev))))) anyEnd w3 t'"
    unfolding split_beta
  proof (intro safe_if safe_end quiet_then quiet_statements)
    fix a w' assume "\<not> snd n < fst n" "rely w3 w'"
    then show "safe rely engineInv (dispatchNextWave (ev_JobID ev) (ev_WaveNo ev + 1)) anyEnd w'' t'"
      if "rely w' w''" for w'' using that by (blast intro: dispatch rely_trans)
  qed (intro quiet_safe quiet_intro)+
qed

lemma safe_advanceAfterChunk:
  assumes d: "doneOK ev w"
  shows "safe rely engineInv (advanceAfterChunk ev) anyEnd w {#}"
  unfolding advanceAfterChunk_def
proof (rule safe_then)
  show "safe rely engineInv (ClaimProgressCount (ev_ChunkID ev))
      (\<lambda>r w' t'. r = Inr True \<longrightarrow> t' = {#Count (ev_JobID ev)#}) w {#}"
    using d by (intro safe_claim) (auto simp: doneOK_def chunkOK_def)
next
  fix counted w' t'
  assume r: "rely w w'" and t': "(Inr counted :: calc_error + bool) = Inr True \<longrightarrow> t' = {#Count (ev_JobID ev)#}"
  have inc: "safe rely engineInv (if counted
      then IncrementProgress (ev_JobID ev) (ev_SuccessCount ev) (ev_FailedCount ev) (ev_BlockedCount ev)
      else ok ()) anyEnd w' t'"
    using t' safe_IncrementProgress safe_end by auto
  show "safe rely engineInv (andThen (if counted
      then IncrementProgress (ev_JobID ev) (ev_SuccessCount ev) (ev_FailedCount ev) (ev_BlockedCount ev)
      else ok ()) (\<lambda>_. advanceWave ev)) anyEnd w' t'"
    by (rule safe_then [OF inc])
      (blast intro: safe_advanceWave doneOK_later [OF d] rely_trans [OF r])
qed

lemma safe_continue_quiet:
  assumes "safe rely engineInv p anyEnd w t" and "\<And>r. quiet (g r)"
  shows "safe rely engineInv (continue p g) anyEnd w t"
  by (rule engine.safe_continue [OF assms(1)]) (rule quiet_safe [OF assms(2)])

lemma safe_handleChunkCompleted:
  assumes "\<And>ev. body = Some ev \<Longrightarrow> doneOK ev w"
  shows "safe rely engineInv (handleChunkCompleted redelivered body) anyEnd w {#}"
proof (cases body)
  case None
  then show ?thesis by (simp add: handleChunkCompleted_def quiet_safe quiet_acks)
next
  case (Some ev)
  have "safe rely engineInv (continue (advanceAfterChunk ev) (\<lambda>r. case r of
        Inl e \<Rightarrow> if redelivered then ackDone body else nackRequeue | Inr _ \<Rightarrow> ackDone body)) anyEnd w {#}"
    by (rule safe_continue_quiet [OF safe_advanceAfterChunk [OF assms [OF Some]]]) (intro quiet_intro)
  then show ?thesis unfolding handleChunkCompleted_def Some by (simp only: option.case)
qed

section \<open>The sweeper and the worker\<close>

definition stuckOK :: "stuck_chunk_row \<Rightarrow> calc_world \<Rightarrow> bool" where
  "stuckOK sc w \<longleftrightarrow> chunkOK w (sc_ChunkID sc) (sc_JobID sc) (sc_WaveNo sc)"

lemma stuckOK_later: "stuckOK sc w \<Longrightarrow> rely w w' \<Longrightarrow> stuckOK sc w'"
  by (auto simp: stuckOK_def intro: rely_chunkOK)

lemma stuckChunks_OK: "engineInv w t \<Longrightarrow> sc \<in> set (stuckChunks d w) \<Longrightarrow> stuckOK sc w"
  by (auto simp: engineInv_def chunkInv_def isStuck_def inFlight_def stuckOK_def chunkOK_def known_def
      stuckChunks_def)

lemma safe_sweepOne:
  assumes "stuckOK sc w"
  shows "safe rely engineInv (sweepOne sc) anyEnd w t"
  unfolding sweepOne_def
proof (rule engine.safe_continue)
  show "safe rely engineInv (MarkChunkFailed (sc_ChunkID sc) ''stuck chunk timeout: worker likely crashed'') anyEnd w t"
    by (rule quiet_safe) (intro quiet_intro)
  fix r :: "calc_error + unit" and w' t' assume "rely w w'"
  with assms have "stuckOK sc w'" by (rule stuckOK_later)
  then show "safe rely engineInv (case r of Inl e \<Rightarrow> ok ()
        | Inr _ \<Rightarrow> logged (PublishChunkDone
            \<lparr>ev_ChunkID = sc_ChunkID sc, ev_JobID = sc_JobID sc, ev_WaveNo = sc_WaveNo sc,
             ev_Status = statusFailed, ev_SuccessCount = 0, ev_FailedCount = sc_ProductCount sc,
             ev_BlockedCount = 0\<rparr>)) anyEnd w' t'"
    by (auto split: sum.split simp: doneOK_def stuckOK_def
        intro!: safe_end safe_logged safe_PublishChunkDone)
qed

lemma safe_doSweep: "safe rely engineInv (doSweep d) anyEnd w t"
  unfolding doSweep_def FindStuckChunks_def
proof (rule engine.safe_continue [OF safe_reading])
  fix r :: "calc_error + stuck_chunk_row list" and w3 t'
  assume "t' = t \<and> (\<forall>a. r = Inr a \<longrightarrow> (\<exists>w0. rely w w0 \<and> rely w0 w3 \<and> engineInv w0 {#} \<and> a = stuckChunks d w0))"
  then have "\<forall>sc \<in> set a. stuckOK sc w3" if "r = Inr a" for a
    using that by (blast intro: stuckOK_later stuckChunks_OK)
  then show "safe rely engineInv (case r of Inl e \<Rightarrow> ok () | Inr stuck \<Rightarrow> forEach sweepOne stuck) anyEnd w3 t'"
    by (auto split: sum.split intro!: safe_end
        safe_forEach [where P = stuckOK, OF safe_sweepOne stuckOK_later])
qed

definition specOK :: "chunk_spec \<Rightarrow> calc_world \<Rightarrow> bool" where
  "specOK c w \<longleftrightarrow> chunkOK w (cs_chunkID c) (cs_jobID c) (cs_waveNo c)"

lemma specOK_later: "specOK c w \<Longrightarrow> rely w w' \<Longrightarrow> specOK c w'"
  by (auto simp: specOK_def intro: rely_chunkOK)

lemma safe_publishCompletion:
  "specOK c w \<Longrightarrow> safe rely engineInv (publishCompletion c st a b d) anyEnd w t"
  unfolding publishCompletion_def
  by (rule safe_PublishChunkDone) (simp add: doneOK_def specOK_def)

lemma safe_publish_then:
  assumes "specOK c w" and "quiet q"
  shows "safe rely engineInv (andThen (logged (publishCompletion c st a b d)) (\<lambda>_. q)) anyEnd w t"
  by (rule safe_then [OF safe_logged [OF safe_publishCompletion [OF assms(1)]]]) (rule quiet_safe [OF assms(2)])

lemma notInFlight [simp]: "\<not> inFlight statusFailed" "\<not> inFlight (classify a b c)"
  by (simp_all add: inFlight_def classify_def)

lemma quiet_continue_then:
  assumes "quiet p" and "\<And>r w'. rely w w' \<Longrightarrow> safe rely engineInv (g r) anyEnd w' t"
  shows "safe rely engineInv (continue p g) anyEnd w t"
proof (rule engine.safe_continue)
  show "safe rely engineInv p (\<lambda>r w' t'. t' = t) w t" using assms(1) by (simp add: quiet_def)
qed (simp add: assms(2))

lemma safe_sum:
  "(\<And>e. r = Inl e \<Longrightarrow> safe rely engineInv (f e) Q w t) \<Longrightarrow>
   (\<And>a. r = Inr a \<Longrightarrow> safe rely engineInv (g a) Q w t) \<Longrightarrow>
   safe rely engineInv (case r of Inl e \<Rightarrow> f e | Inr a \<Rightarrow> g a) Q w t"
  by (cases r) auto

lemma safe_handleFailure:
  assumes "specOK c w"
  shows "safe rely engineInv (handleFailure body c) anyEnd w t"
  unfolding handleFailure_def
proof (rule quiet_continue_then)
  fix r :: "calc_error + int" and w' assume "rely w w'"
  with assms have c: "specOK c w'" by (rule specOK_later)
  show "safe rely engineInv (case r of Inl e \<Rightarrow> nackChunkDead body
        | Inr n \<Rightarrow> if n < maxRetries then nackRequeue
            else andThen (logged (MarkCompleted (cs_chunkID c) statusFailed 0 (int (length (cs_productIDs c))) 0))
             (\<lambda>_. andThen (logged (publishCompletion c statusFailed 0 (int (length (cs_productIDs c))) 0))
             (\<lambda>_. nackChunkDead body))) anyEnd w' t"
    by (intro safe_sum safe_if quiet_then safe_publish_then specOK_later [OF c] quiet_logged
        quiet_MarkCompleted notInFlight quiet_safe quiet_acks)
qed (intro quiet_intro)

lemma safe_completeChunk:
  assumes "specOK c w"
  shows "safe rely engineInv (completeChunk body c start a b d) anyEnd w t"
  unfolding completeChunk_def Let_def
proof (rule quiet_then)
  fix now w' assume "rely w w'"
  with assms have c: "specOK c w'" by (rule specOK_later)
  show "safe rely engineInv (continue (MarkCompleted (cs_chunkID c) (classify a b d) a b
      (milliseconds (timeSub now start))) (\<lambda>r. case r of Inl e \<Rightarrow> nackRequeue
      | Inr _ \<Rightarrow> andThen (logged (publishCompletion c (classify a b d) a b d)) (\<lambda>_. ackChunk body))) anyEnd w' t"
    by (intro quiet_continue_then quiet_MarkCompleted notInFlight safe_sum safe_publish_then
        specOK_later [OF c] quiet_safe quiet_acks)
qed (intro quiet_intro)

lemma safe_processChunk:
  assumes "specOK c w"
  shows "safe rely engineInv (processChunk wid body c) anyEnd w t"
  unfolding processChunk_def
proof (rule quiet_then)
  fix start w1 assume "rely w w1"
  with assms have c1: "specOK c w1" by (rule specOK_later)
  have "safe rely engineInv (MarkProcessing (cs_chunkID c) wid) anyEnd w1 t"
    unfolding MarkProcessing_def writing_def
    by (rule safe_needing [OF keeps_MarkProcessing, of _ _ "cs_jobID c" "cs_waveNo c"])
      (use c1 in \<open>auto simp: specOK_def intro: rely_chunkOK\<close>)
  then show "safe rely engineInv (continue (MarkProcessing (cs_chunkID c) wid) (\<lambda>m. case m of
          Inl e \<Rightarrow> nackRequeue
        | Inr _ \<Rightarrow> continue (ProcessChunk c) (\<lambda>resp. case resp of
              Inl e \<Rightarrow> handleFailure body c
            | Inr (succ, fl, blocked) \<Rightarrow> completeChunk body c start succ fl blocked))) anyEnd w1 t"
  proof (rule engine.safe_continue)
    fix m :: "calc_error + unit" and w2 t2 assume "rely w1 w2"
    with c1 have c2: "specOK c w2" by (rule specOK_later)
    show "safe rely engineInv (case m of Inl e \<Rightarrow> nackRequeue
        | Inr _ \<Rightarrow> continue (ProcessChunk c) (\<lambda>resp. case resp of
              Inl e \<Rightarrow> handleFailure body c
            | Inr (succ, fl, blocked) \<Rightarrow> completeChunk body c start succ fl blocked)) anyEnd w2 t2"
    proof (rule safe_sum)
      show "safe rely engineInv nackRequeue anyEnd w2 t2" by (intro quiet_safe quiet_acks)
      show "safe rely engineInv (continue (ProcessChunk c) (\<lambda>resp. case resp of
              Inl e \<Rightarrow> handleFailure body c
            | Inr (succ, fl, blocked) \<Rightarrow> completeChunk body c start succ fl blocked)) anyEnd w2 t2"
        by (rule quiet_continue_then [OF quiet_ProcessChunk])
          (auto split: sum.split prod.split intro!: safe_handleFailure safe_completeChunk specOK_later [OF c2])
    qed
  qed
qed (intro quiet_intro)

lemma quiet_GetStatus [quiet_intro]: "quiet (GetStatus i)"
  unfolding GetStatus_def by (intro quiet_call keeps_cong) auto

lemma safe_handleChunk:
  assumes "\<And>c. body = Some c \<Longrightarrow> specOK c w"
  shows "safe rely engineInv (handleChunk wid body) anyEnd w t"
proof (cases body)
  case None
  then show ?thesis by (simp add: handleChunk_def quiet_safe quiet_acks)
next
  case (Some c)
  have "safe rely engineInv (continue (GetStatus (cs_chunkID c)) (\<lambda>cur. case cur of
      Inl e \<Rightarrow> processChunk wid body c
    | Inr st \<Rightarrow> if isTerminal st then andThen (logged (publishCompletion c st 0 0 0)) (\<lambda>_. ackChunk body)
        else processChunk wid body c)) anyEnd w t"
    by (intro quiet_continue_then quiet_GetStatus safe_sum safe_if safe_processChunk safe_publish_then
        specOK_later [OF assms [OF Some]] quiet_acks)
  then show ?thesis unfolding handleChunk_def Some by (simp only: option.case)
qed

end
