(* ===== verification/CalcEngine.thy ===== *)
theory CalcEngine
  imports CalcSystem
begin

text \<open>
  The planner's handler is safe too, so that the locale \<open>protocol\<close> is met by the whole
  engine; its properties over all reachable states; and the functional behaviour of the
  handlers run alone.
\<close>

section \<open>The waves the planner persists\<close>

primrec wavesFrom :: "int \<Rightarrow> int \<Rightarrow> packed_wave list \<Rightarrow> bool" where
  "wavesFrom j v [] \<longleftrightarrow> True"
| "wavesFrom j v (w # ws) \<longleftrightarrow>
     pw_chunks w \<noteq> [] \<and> (\<forall>c \<in> set (pw_chunks w). cs_jobID c = j \<and> cs_waveNo c = v) \<and>
     wavesFrom j (v + 1) ws"

definition firstNumber :: "packed_wave list \<Rightarrow> int" where
  "firstNumber ws = (case ws of [] \<Rightarrow> 1 | w # _ \<Rightarrow> cs_chunkNumber (hd (pw_chunks w)))"

lemma packLoop_nonempty:
  assumes "0 < sz" and "wv_products w \<noteq> []" shows "fst (packLoop sz w 0 n) \<noteq> []"
  using packLoop_turn [of 0 w sz n] assms by simp

lemma packWaves_from:
  assumes "0 < sz" and "\<And>i. i < length ws \<Longrightarrow> wv_number (ws ! i) = v + int i \<and> wv_products (ws ! i) \<noteq> []"
  shows "wavesFrom j v (FillJobContext (packWaves sz ws n) j code per act ct)"
  using assms(2)
proof (induction ws arbitrary: v n)
  case (Cons w ws)
  have w: "wv_number w = v" "wv_products w \<noteq> []" using Cons.prems [of 0] by simp_all
  have "wavesFrom j (v + 1) (FillJobContext (packWaves sz ws (snd (packLoop sz w 0 n))) j code per act ct)"
    by (rule Cons.IH) (use Cons.prems [of "Suc i" for i] in \<open>auto simp: algebra_simps\<close>)
  then show ?case
    using w packLoop_nonempty [OF assms(1) w(2)] packLoop_packed [OF assms(1), of w n]
    by (auto simp: FillJobContext_def Let_def)
qed (simp add: FillJobContext_def)

lemma packWaves_first:
  assumes "0 < sz" and "\<And>i. i < length ws \<Longrightarrow> wv_products (ws ! i) \<noteq> []"
  shows "firstNumber (FillJobContext (packWaves sz ws 0) j code per act ct) = 1"
proof (cases ws)
  case (Cons w ws')
  have "fst (packLoop sz w 0 0) \<noteq> []" using packLoop_nonempty [OF assms(1)] assms(2) [of 0] Cons by simp
  then obtain c cs where c: "fst (packLoop sz w 0 0) = c # cs" by (cases "fst (packLoop sz w 0 0)") auto
  with packLoop_packed [OF assms(1), of w 0] have "cs_chunkNumber c = 1" by simp
  with c Cons show ?thesis by (simp add: FillJobContext_def Let_def firstNumber_def)
qed (simp add: FillJobContext_def firstNumber_def)

lemma planned_waves:
  assumes "wf_graph g" and "PlanWaves g = Some p"
  shows "wavesFrom j 0 (FillJobContext (PackChunks (Some p) s m) j code per act ct)"
    and "firstNumber (FillJobContext (PackChunks (Some p) s m) j code per act ct) = 1"
  using PlanWaves_numbered [OF assms] effectiveChunkSize_pos
  by (auto simp: PackChunks_def intro!: packWaves_from packWaves_first)

section \<open>Persisting them\<close>

lemma chunkRows_rows:
  assumes "\<forall>c \<in> set (pw_chunks w). cs_jobID c = j \<and> cs_waveNo c = v"
  shows "\<forall>r \<in> set (chunkRows j w). cr_JobID r = j \<and> cr_WaveNo r = v"
  using assms by (auto simp: chunkRows_def)

lemma wireChunkIDs_chunks:
  assumes "length rs = length (pw_chunks w)"
    and "\<forall>c \<in> set (pw_chunks w). cs_jobID c = j \<and> cs_waveNo c = v"
    and "\<forall>r \<in> set rs. known w' (cr_ChunkID r) j v" and "c \<in> set (pw_chunks (wireChunkIDs w rs))"
  shows "cs_jobID c = j \<and> cs_waveNo c = v \<and> known w' (cs_chunkID c) j v"
proof -
  from assms(4) obtain d r where c: "c = d\<lparr>cs_chunkID := cr_ChunkID r\<rparr>" and z: "(d, r) \<in> set (zip (pw_chunks w) rs)"
    by (auto simp: wireChunkIDs_def)
  from set_zip_leftD [OF z] set_zip_rightD [OF z] assms(2,3) c show ?thesis by auto
qed

definition wiredOK :: "int \<Rightarrow> int \<Rightarrow> packed_wave list \<Rightarrow> calc_world \<Rightarrow> bool" where
  "wiredOK j v ws w \<longleftrightarrow> (case ws of [] \<Rightarrow> True | wave # _ \<Rightarrow>
     \<forall>c \<in> set (pw_chunks wave). cs_jobID c = j \<and> cs_waveNo c = v \<and> known w (cs_chunkID c) j v)"

lemma wiredOK_later: "wiredOK j v ws w \<Longrightarrow> rely w w' \<Longrightarrow> wiredOK j v ws w'"
  by (auto simp: wiredOK_def rely_def split: list.splits)

lemma safe_persistWavePlan:
  assumes "wavesFrom j v waves" and "0 \<le> v" and "waves \<noteq> [] \<longrightarrow> insertTurn t j (firstNumber waves) v"
  shows "safe rely engineInv (persistWavePlan j m waves)
    (\<lambda>r w' t'. \<forall>n ws. r = Inr (n, ws) \<longrightarrow> wiredOK j v ws w') w t"
  using assms
proof (induction waves arbitrary: v w t)
  case Nil
  then show ?case by (simp add: ok_def wiredOK_def)
next
  case (Cons wave waves v w t)
  let ?Q = "\<lambda>r w' t'. \<forall>n ws. r = Inr (n, ws) \<longrightarrow> wiredOK j v ws w'"
  have wave: "\<forall>c \<in> set (pw_chunks wave). cs_jobID c = j \<and> cs_waveNo c = v" "pw_chunks wave \<noteq> []"
    and rest: "wavesFrom j (v + 1) waves" using Cons.prems(1) by auto
  have ins: "safe rely engineInv (ChunkBulkInsert (chunkRows j wave))
    (\<lambda>r w3 t'. \<forall>rs. r = Inr rs \<longrightarrow> t' = {#Planner j (v + 1)#} \<and> length rs = length (chunkRows j wave) \<and>
       (\<forall>r \<in> set rs. known w3 (cr_ChunkID r) j v)) w t"
    using Cons.prems(2,3) wave(2)
    by (intro safe_ChunkBulkInsert chunkRows_rows [OF wave(1)])
      (auto simp: chunkRows_def firstNumber_def hd_map)
  show ?case unfolding persistWavePlan.simps Let_def
  proof (rule engine.safe_andThen [OF ins])
    fix rs :: "chunk_row list" and w1 t1
    assume a: "\<forall>rs'. Inr rs = (Inr rs' :: calc_error + _) \<longrightarrow> t1 = {#Planner j (v + 1)#} \<and>
       length rs' = length (chunkRows j wave) \<and> (\<forall>r \<in> set rs'. known w1 (cr_ChunkID r) j v)"
    then have t1: "t1 = {#Planner j (v + 1)#}" and rs: "length rs = length (pw_chunks wave)"
      "\<forall>r \<in> set rs. known w1 (cr_ChunkID r) j v" by (auto simp: chunkRows_def)
    let ?wired = "wireChunkIDs wave rs"
    have ok1: "wiredOK j v (?wired # ws) w1" for ws
      using wireChunkIDs_chunks [OF rs(1) wave(1) rs(2)] by (simp add: wiredOK_def)
    have prod: "safe rely engineInv (ProductBulkInsert (productRows j m ?wired)) (\<lambda>r w' t'. t' = t1) w1 t1"
      using quiet_ProductBulkInsert by (simp add: quiet_def)
    show "safe rely engineInv (andThen (ProductBulkInsert (productRows j m ?wired)) (\<lambda>_.
        andThen (persistWavePlan j m waves) (\<lambda>(n, rest). ok (int (length rs) + n, ?wired # rest)))) ?Q w1 t1"
    proof (rule engine.safe_andThen [OF prod])
      fix u w2 t2 assume r2: "rely w1 w2" and "t2 = t1"
      then have turn: "waves \<noteq> [] \<longrightarrow> insertTurn t2 j (firstNumber waves) (v + 1)"
        using t1 by (simp add: insertTurn_def)
      have ih: "safe rely engineInv (persistWavePlan j m waves)
          (\<lambda>r w' t'. \<forall>n ws. r = Inr (n, ws) \<longrightarrow> wiredOK j (v + 1) ws w') w2 t2"
        using Cons.prems(2) by (intro Cons.IH rest turn) simp
      show "safe rely engineInv (andThen (persistWavePlan j m waves) (\<lambda>(n, rest).
          ok (int (length rs) + n, ?wired # rest))) ?Q w2 t2"
      proof (rule engine.safe_andThen [OF ih])
        fix a w3 t3 assume "rely w2 w3"
        then have r3: "rely w1 w3" using r2 by (rule rely_trans [rotated])
        show "safe rely engineInv (case a of (n, rest) \<Rightarrow> ok (int (length rs) + n, ?wired # rest)) ?Q w3 t3"
          unfolding ok_def split_beta safe.simps
          by (auto intro!: wiredOK_later [OF ok1] intro: rely_trans [OF r3])
      qed (simp add: fails_def)
    qed (simp add: fails_def)
  qed (simp add: fails_def)
qed

section \<open>The planner is safe\<close>

lemma Build_wf:
  assumes "Build (sqlQueries db) inp = Some (Inr (g, ns))"
  shows "wf_graph g"
proof -
  obtain initial where "resolveInitialSet (sqlQueries db) inp = Inr initial"
    using assms by (auto simp: Build_def split: sum.splits)
  from sql.Build_reach [OF this assms] show ?thesis by simp
qed

lemma buildFrom_wf: "buildFrom inp w = Inr (g, ns) \<Longrightarrow> wf_graph g"
  by (auto simp: buildFrom_def split: option.splits sum.splits dest: Build_wf)

lemma safe_buildDag:
  "safe rely engineInv (buildDag inp) (\<lambda>r w' t'. t' = t \<and> (\<forall>g ns. r = Inr (g, ns) \<longrightarrow> wf_graph g)) w t"
  unfolding buildDag_def
  by (rule engine.safe_weaken, rule safe_reads) (auto dest: buildFrom_wf)

lemma safe_complete:
  "safe rely engineInv (andThen (emitJobTerminal j st) (\<lambda>_. CompleteJob j st' a b c d)) anyEnd w t"
  by (intro quiet_safe quiet_intro)

lemma safe_startFirstWave:
  assumes "wiredOK j 0 (snd a) w"
  shows "safe rely engineInv (startFirstWave j ids n a) anyEnd w t"
proof -
  have "safe rely engineInv (case snd a of
        [] \<Rightarrow> andThen (emitJobTerminal j statusSuccess) (\<lambda>_. CompleteJob j statusSuccess 0 0 0 0)
      | wave # _ \<Rightarrow> dispatchWave (pw_chunks wave)) anyEnd w' t" if "rely w w'" for w'
  proof (cases "snd a")
    case Nil
    then show ?thesis by (simp add: safe_complete)
  next
    case (Cons wave ws)
    have "\<forall>c \<in> set (pw_chunks wave). publishable c w'"
      using wiredOK_later [OF assms that] by (simp add: Cons wiredOK_def publishable_def)
    then show ?thesis by (simp add: Cons safe_dispatchWave)
  qed
  then show ?thesis
    unfolding startFirstWave_def split_beta by (intro quiet_then quiet_statements) (blast intro: rely_trans)
qed

lemma safe_persistAndDispatch:
  assumes "wavesFrom j 0 waves" and "firstNumber waves = 1"
  shows "safe rely engineInv (persistAndDispatch j ids waves) anyEnd w {#}"
  unfolding persistAndDispatch_def
proof (rule quiet_then)
  fix m w1
  have "safe rely engineInv (persistWavePlan j m waves)
      (\<lambda>r w' t'. \<forall>n ws. r = Inr (n, ws) \<longrightarrow> wiredOK j 0 ws w') w1 {#}"
    using assms by (intro safe_persistWavePlan) (auto simp: insertTurn_def)
  then show "safe rely engineInv (andThen (persistWavePlan j m waves)
       (startFirstWave j ids (int (length waves)))) anyEnd w1 {#}"
    by (rule safe_then) (auto intro!: safe_startFirstWave)
qed (intro quiet_intro)

lemma safe_executePlan:
  assumes "wf_graph g"
  shows "safe rely engineInv (executePlan cfg j job ids (PlanWaves g)) anyEnd w {#}"
  unfolding executePlan_def using planned_waves [OF assms]
  by (auto split: option.split intro!: safe_end safe_persistAndDispatch safe_complete)

lemma safe_planAndDispatch: "safe rely engineInv (planAndDispatch cfg j) anyEnd w {#}"
  unfolding planAndDispatch_def
  apply (rule quiet_then [OF quiet_statements(1)], rule safe_if, rule safe_end)
  apply (rule quiet_then [OF quiet_statements(2)], rule safe_then [OF safe_buildDag])
  apply (auto intro!: safe_executePlan safe_complete)
  done

lemma safe_handleJobTriggered: "safe rely engineInv (handleJobTriggered cfg body) anyEnd w {#}"
proof (cases body)
  case None
  then show ?thesis by (simp add: handleJobTriggered_def quiet_safe quiet_acks)
next
  case (Some ev)
  have "safe rely engineInv (continue (planAndDispatch cfg (jt_JobID ev)) (\<lambda>r. case r of
      Inl e \<Rightarrow> andThen (logged (MarkFailed (jt_JobID ev) e)) (\<lambda>_.
               andThen (emitJobTerminal (jt_JobID ev) statusFailed) (\<lambda>_. ackJob body))
    | Inr _ \<Rightarrow> ackJob body)) anyEnd w {#}"
    by (rule safe_continue_quiet [OF safe_planAndDispatch]) (intro quiet_intro)
  then show ?thesis unfolding handleJobTriggered_def Some by (simp only: option.case)
qed

section \<open>The engine as a pool\<close>

text \<open>Which handlers may start: one for any message waiting, the timers, a cancellation.\<close>

inductive engineStarts :: "calc_world \<Rightarrow> unit calc_prog \<Rightarrow> bool" where
  startPlanner: "m \<in> set (w_jobQueue w) \<Longrightarrow> engineStarts w (handleJobTriggered cfg m)"
| startWorker: "m \<in> set (w_chunkQueue w) \<Longrightarrow> engineStarts w (handleChunk wid m)"
| startAdvance: "m \<in> set (w_doneQueue w) \<Longrightarrow> engineStarts w (handleChunkCompleted red m)"
| startSweep: "engineStarts w (doSweep d)"
| startCron: "engineStarts w (fire code y m)"
| startCancel: "engineStarts w (cancelJob j)"

text \<open>
  What the surroundings may do: time passes, faults and gRPC replies are scheduled, routes
  and period locks are edited, the finance service inserts jobs with zero counters and
  triggers jobs, messages expire, and malformed messages arrive.
\<close>

definition engineEnv :: "calc_world \<Rightarrow> calc_world \<Rightarrow> bool" where
  "engineEnv w w' \<longleftrightarrow>
     w_chunks w' = w_chunks w \<and> w_nextChunkID w' = w_nextChunkID w \<and>
     set (w_chunkQueue w') \<subseteq> insert None (set (w_chunkQueue w)) \<and>
     set (w_doneQueue w') \<subseteq> insert None (set (w_doneQueue w)) \<and>
     (\<exists>new. w_jobs w' = w_jobs w @ new \<and> (\<forall>j \<in> set new. cj_processed_chunks j = 0))"

lemma engineEnv_ok:
  assumes "engineEnv w w'" and "engineInv w t"
  shows "rely w w' \<and> engineInv w' t"
proof -
  let ?w = "w\<lparr>w_jobs := w_jobs w'\<rparr>"
  have "engineInv ?w t"
    by (rule engineInv_jobs [OF assms(2)]) (use assms(1) in \<open>auto simp: engineEnv_def\<close>)
  then have "engineInv w' t"
    by (rule engineInv_cong [rotated -1]) (use assms(1) in \<open>auto simp: engineEnv_def\<close>)
  moreover have "rely w w'" using assms(1) by (intro rely_cong) (simp add: engineEnv_def)
  ultimately show ?thesis by simp
qed

lemma engineStarts_safe:
  assumes "engineStarts w p" and "engineInv w t"
  shows "safe rely engineInv p anyEnd w {#}"
proof -
  have "queueInv w" using assms(2) by (simp add: engineInv_def)
  then have spec: "specOK c w" if "Some c \<in> set (w_chunkQueue w)" for c
    using that by (simp add: queueInv_def specOK_def)
  have event: "doneOK ev w" if "Some ev \<in> set (w_doneQueue w)" for ev
    using that \<open>queueInv w\<close> by (simp add: queueInv_def doneOK_def)
  from assms(1) show ?thesis
    by cases (auto intro!: safe_handleJobTriggered safe_handleChunk safe_handleChunkCompleted safe_doSweep
        quiet_safe [OF quiet_fire] quiet_safe [OF quiet_cancelJob] spec event)
qed

interpretation calc: protocol rely engineInv engineStarts engineEnv
  by unfold_locales (blast intro: engineStarts_safe dest: engineEnv_ok)+

text \<open>Worlds in which no job has run yet, and the states the engine reaches from them.\<close>

definition freshWorld :: "calc_world \<Rightarrow> bool" where
  "freshWorld w \<longleftrightarrow> w_chunks w = [] \<and> (\<forall>j \<in> set (w_jobs w). cj_processed_chunks j = 0) \<and>
     set (w_chunkQueue w) \<subseteq> {None} \<and> set (w_doneQueue w) \<subseteq> {None}"

definition engineReaches :: "calc_world \<Rightarrow> calc_world \<Rightarrow> bool" where
  "engineReaches w0 w \<longleftrightarrow> (\<exists>ps. (poolStep engineStarts engineEnv)\<^sup>*\<^sup>* (w0, []) (w, ps))"

lemma freshWorld_inv: "freshWorld w \<Longrightarrow> engineInv w {#}"
  by (auto simp: freshWorld_def engineInv_def chunkInv_def countInv_def countedChunks_def plannerInv_def
      queueInv_def)

lemma engineReaches_inv: "freshWorld w0 \<Longrightarrow> engineReaches w0 w \<Longrightarrow> engineInv w {#}"
  unfolding engineReaches_def by (blast intro: calc.reachable_invariant freshWorld_inv)

lemma engineReaches_start: "engineReaches w w"
  by (auto simp: engineReaches_def)

lemma engineReaches_handler:
  assumes "engineReaches w0 w" and "engineStarts w p"
  shows "engineReaches w0 (snd (run p w))"
  using assms pool_handler [of engineStarts w p engineEnv] unfolding engineReaches_def
  by (blast intro: rtranclp_trans)

lemma engineReaches_env:
  assumes "engineReaches w0 w" and "engineEnv w w'"
  shows "engineReaches w0 w'"
  using assms poolEnv [of engineEnv w w' engineStarts] unfolding engineReaches_def
  by (blast intro: rtranclp.rtrancl_into_rtrancl)

section \<open>No chunk is counted twice\<close>

text \<open>(C3) However the handlers of any number of coordinators, workers and sweepers are
  interleaved, with crashes, failed or unconfirmed calls and repeated deliveries of every
  message, the processed-chunk counter of a job never exceeds the number of its chunks whose
  completion was claimed, hence never the number of its chunks.\<close>

theorem processed_never_exceeds_chunks:
  assumes "freshWorld w0" and "engineReaches w0 w" and "j \<in> set (w_jobs w)"
  shows "cj_processed_chunks j \<le> countedChunks w (cj_job_id j) \<and>
    countedChunks w (cj_job_id j) \<le> int (length (filter (\<lambda>c. cjc_job_id c = cj_job_id j) (w_chunks w)))"
proof
  have "countInv w {#}" using engineReaches_inv [OF assms(1,2)] by (simp add: engineInv_def)
  with assms(3) show "cj_processed_chunks j \<le> countedChunks w (cj_job_id j)"
    by (auto simp: countInv_def)
  show "countedChunks w (cj_job_id j) \<le> int (length (filter (\<lambda>c. cjc_job_id c = cj_job_id j) (w_chunks w)))"
    unfolding countedChunks_def of_nat_le_iff by (rule length_filter_mono) simp
qed

text \<open>A job over the two products of \<open>exampleRoutes\<close>, one depending on the other.\<close>

definition exampleJob :: cal_job where
  "exampleJob = \<lparr>cj_job_id = 1, cj_job_code = ''JOB-202609-0001'', cj_period = ''202609'',
     cj_calculation_type = ''ACTUAL'', cj_scope = ScopeAll, cj_product_filter = None,
     cj_status = statusQueued, cj_priority = 5, cj_total_products = 0, cj_total_chunks = 0,
     cj_total_waves = 0, cj_processed_chunks = 0, cj_success_count = 0, cj_failed_count = 0,
     cj_blocked_count = 0, cj_error_summary = None, cj_triggered_by = ''CRON'', cj_queued_at = 0,
     cj_started_at = None, cj_completed_at = None, cj_duration_ms = None, cj_created_by = ''system''\<rparr>"

definition exampleWorld :: calc_world where
  "exampleWorld = \<lparr>w_jobs = [exampleJob], w_chunks = [], w_products = [], w_locks = [],
     w_routes = exampleRoutes, w_nextJobID = 2, w_nextChunkID = 1,
     w_jobQueue = [Some \<lparr>jt_JobID = 1\<rparr>], w_chunkQueue = [], w_doneQueue = [], w_deadLetters = [],
     w_jobsTotal = [], w_skippedLocked = 0, w_replies = [Processed 1 0 0, Processed 1 0 0],
     w_now = 1000000000, w_faults = []\<rparr>"

definition exampleConfig :: orchestrator_config where
  "exampleConfig = \<lparr>oc_ChunkSize = 50, oc_MaxChunkSize = 200\<rparr>"

text \<open>The handlers that take the next message of each queue, and two rounds of them.\<close>

definition planNext :: "calc_world \<Rightarrow> calc_world" where
  "planNext w = snd (run (handleJobTriggered exampleConfig (hd (w_jobQueue w))) w)"

definition workNext :: "calc_world \<Rightarrow> calc_world" where
  "workNext w = snd (run (handleChunk ''w1'' (hd (w_chunkQueue w))) w)"

definition advanceNext :: "calc_world \<Rightarrow> calc_world" where
  "advanceNext w = snd (run (handleChunkCompleted False (hd (w_doneQueue w))) w)"

definition afterFirstWave :: calc_world where
  "afterFirstWave = advanceNext (workNext (planNext exampleWorld))"

lemma planNext_reaches:
  "engineReaches w0 w \<Longrightarrow> w_jobQueue w \<noteq> [] \<Longrightarrow> engineReaches w0 (planNext w)"
  unfolding planNext_def by (rule engineReaches_handler) (simp_all add: startPlanner)

lemma workNext_reaches:
  "engineReaches w0 w \<Longrightarrow> w_chunkQueue w \<noteq> [] \<Longrightarrow> engineReaches w0 (workNext w)"
  unfolding workNext_def by (rule engineReaches_handler) (simp_all add: startWorker)

lemma advanceNext_reaches:
  "engineReaches w0 w \<Longrightarrow> w_doneQueue w \<noteq> [] \<Longrightarrow> engineReaches w0 (advanceNext w)"
  unfolding advanceNext_def by (rule engineReaches_handler) (simp_all add: startAdvance)

lemma exampleWorld_fresh: "freshWorld exampleWorld"
  by (simp add: freshWorld_def exampleWorld_def exampleJob_def)

lemma exampleQueues:
  "w_jobQueue exampleWorld \<noteq> []" "w_chunkQueue (planNext exampleWorld) \<noteq> []"
  "w_doneQueue (workNext (planNext exampleWorld)) \<noteq> []"
  by code_simp+

lemma afterFirstWave_reached: "engineReaches exampleWorld afterFirstWave"
  unfolding afterFirstWave_def
  by (intro advanceNext_reaches workNext_reaches planNext_reaches engineReaches_start exampleQueues)

lemma afterFirstWave_job: "map cj_processed_chunks (w_jobs afterFirstWave) = [1]"
  by code_simp

theorem processed_never_exceeds_chunks_witness:
  "\<exists>j \<in> set (w_jobs afterFirstWave). cj_processed_chunks j = 1 \<and> 1 \<le> countedChunks afterFirstWave (cj_job_id j)"
proof -
  obtain j where j: "j \<in> set (w_jobs afterFirstWave)" "cj_processed_chunks j = 1"
    using afterFirstWave_job by (cases "w_jobs afterFirstWave") auto
  with processed_never_exceeds_chunks [OF exampleWorld_fresh afterFirstWave_reached j(1)] show ?thesis by auto
qed

section \<open>No wave overtakes an earlier one\<close>

text \<open>A wave of a job is out when a message of it waits for a worker or a chunk of it is in flight.\<close>

definition waveOut :: "calc_world \<Rightarrow> int \<Rightarrow> int \<Rightarrow> bool" where
  "waveOut w j v \<longleftrightarrow>
     (\<exists>m \<in> set (w_chunkQueue w). (case m of None \<Rightarrow> False | Some s \<Rightarrow> cs_jobID s = j \<and> cs_waveNo s = v)) \<or>
     (\<exists>c \<in> set (w_chunks w). cjc_job_id c = j \<and> cjc_wave_no c = v \<and> inFlight (cjc_status c))"

lemma waveOut_released: "engineInv w t \<Longrightarrow> waveOut w j v \<Longrightarrow> released w j v"
  by (auto simp: waveOut_def engineInv_def queueInv_def chunkInv_def chunkOK_def split: option.splits)


lemma afterFirstWave_out: "waveOut afterFirstWave 1 1"
  by code_simp

lemma afterFirstWave_chunks:
  "map (\<lambda>c. (cjc_job_id c, cjc_wave_no c)) (w_chunks afterFirstWave) = [(1, 0), (1, 1)]"
  by code_simp


text \<open>(C23) In every reachable state chunk ids are unique, and every message between the
  coordinator and the workers names an existing chunk with its own job and wave.\<close>

theorem messages_name_chunks:
  assumes "freshWorld w0" and "engineReaches w0 w"
  shows "distinct (map cjc_chunk_id (w_chunks w)) \<and>
    (\<forall>m \<in> set (w_chunkQueue w). case m of None \<Rightarrow> True
       | Some s \<Rightarrow> known w (cs_chunkID s) (cs_jobID s) (cs_waveNo s)) \<and>
    (\<forall>m \<in> set (w_doneQueue w). case m of None \<Rightarrow> True
       | Some e \<Rightarrow> known w (ev_ChunkID e) (ev_JobID e) (ev_WaveNo e))"
  using engineReaches_inv [OF assms]
  by (auto simp: engineInv_def chunkInv_def queueInv_def chunkOK_def split: option.split)

theorem messages_name_chunks_witness:
  "distinct (map cjc_chunk_id (w_chunks afterFirstWave))"
  using messages_name_chunks [OF exampleWorld_fresh afterFirstWave_reached] by blast

section \<open>Cancelled jobs\<close>

lemma triple_call:
  assumes "\<And>w fs. P w \<Longrightarrow> P (w\<lparr>w_faults := fs\<rparr>)"
    and "\<And>w. P w \<Longrightarrow> Q (fst (q w)) (snd (q w)) \<and> Q (Inl Unavailable) (snd (q w)) \<and> Q (Inl Unavailable) w"
  shows "triple P (call q) Q"
proof (rule tripleI)
  fix w assume "P w"
  with assms show "Q (fst (run (call q) w)) (snd (run (call q) w))"
    by (auto simp: call_def fails_def map_prod_def split: list.split fate.split prod.split)
      (metis fst_conv snd_conv)+
qed

lemma findJob_updateJob:
  assumes "\<And>j. cj_job_id (f j) = cj_job_id j"
  shows "findJob i (updateJob k f w) = (if k = i then map_option f (findJob i w) else findJob i w)"
proof -
  have "find (\<lambda>j. cj_job_id j = i) (map (\<lambda>r. if cj_job_id r = k then f r else r) js) =
      (if k = i then map_option f (find (\<lambda>j. cj_job_id j = i) js) else find (\<lambda>j. cj_job_id j = i) js)" for js
    by (induction js) (auto simp: assms)
  then show ?thesis by (simp add: findJob_def updateWhere_def)
qed

lemma findJob_faults [simp]: "findJob i (w\<lparr>w_faults := fs\<rparr>) = findJob i w"
  by (simp add: findJob_def)

definition cancelledWith :: "int \<Rightarrow> time option \<Rightarrow> chunk_spec option list \<Rightarrow> calc_world \<Rightarrow> bool" where
  "cancelledWith i ca q w \<longleftrightarrow> w_chunkQueue w = q \<and>
     (\<exists>j. findJob i w = Some j \<and> cj_status j = statusCancelled \<and> cj_completed_at j = ca)"

lemma cancelledWith_cong:
  "w_chunkQueue w' = w_chunkQueue w \<Longrightarrow> w_jobs w' = w_jobs w \<Longrightarrow> cancelledWith i ca q w \<Longrightarrow> cancelledWith i ca q w'"
  by (simp add: cancelledWith_def findJob_def)

lemma triple_cancelled:
  assumes "\<And>w. w_chunkQueue (snd (qu w)) = w_chunkQueue w" and "\<And>w. w_jobs (snd (qu w)) = w_jobs w"
  shows "triple (cancelledWith i ca q) (call qu) (\<lambda>_. cancelledWith i ca q)"
  by (rule triple_call) (auto intro: cancelledWith_cong simp: assms)

lemma triple_reading_cancelled: "triple (cancelledWith i ca q) (reading f) (\<lambda>_. cancelledWith i ca q)"
  unfolding reading_def by (rule triple_cancelled) simp_all

lemma triple_increment:
  "triple (cancelledWith i ca q) (IncrementProgress k a b c) (\<lambda>_. cancelledWith i ca q)"
  unfolding IncrementProgress_def writing_def
  by (rule triple_call) (auto simp: cancelledWith_def findJob_updateJob)

lemma triple_GetByID_cancelled:
  "triple (cancelledWith i ca q) (GetByID i)
     (\<lambda>r w. cancelledWith i ca q w \<and> (\<forall>d. r = Inr d \<longrightarrow> jd_Status d = statusCancelled))"
  unfolding GetByID_def selectJob_def
  by (rule triple_call)
    (auto simp: cancelledWith_def findJob_def scanJobDTO_def applyFilter_def Let_def split: option.splits filter_json.split)

lemma triple_advance_cancelled:
  "triple (cancelledWith (ev_JobID ev) ca q) (advanceAfterChunk ev) (\<lambda>_. cancelledWith (ev_JobID ev) ca q)"
proof -
  let ?P = "cancelledWith (ev_JobID ev) ca q"
  have wave: "triple ?P (advanceWave ev) (\<lambda>_. ?P)"
    unfolding advanceWave_def CountByJobWave_def
  proof (rule triple_andThen [OF triple_reading_cancelled])
    fix n :: "int \<times> int"
    show "triple ?P (case n of (tot, completed) \<Rightarrow> (if completed < tot then ok ()
      else andThen (GetByID (ev_JobID ev)) (\<lambda>job. if jd_Status job = statusCancelled
       then MarkRemainingChunksSkipped (ev_JobID ev) (ev_WaveNo ev + 1)
       else andThen (getTotalWaves (ev_JobID ev)) (\<lambda>totalWaves. if ev_WaveNo ev + 1 < totalWaves
         then dispatchNextWave (ev_JobID ev) (ev_WaveNo ev + 1)
         else finalizeJob (ev_JobID ev))))) (\<lambda>_. ?P)"
      unfolding split_beta
    proof (intro triple_intro triple_andThen [OF triple_GetByID_cancelled])
      fix job :: job_dto
      show "triple (\<lambda>w. ?P w \<and> (\<forall>d. Inr job = (Inr d :: calc_error + _) \<longrightarrow> jd_Status d = statusCancelled))
        (MarkRemainingChunksSkipped (ev_JobID ev) (ev_WaveNo ev + 1)) (\<lambda>_. ?P)"
        unfolding MarkRemainingChunksSkipped_def writing_def
        by (rule triple_call) (auto intro: cancelledWith_cong)
    qed (auto simp: triple_def)
  qed
  show ?thesis
    unfolding advanceAfterChunk_def ClaimProgressCount_def Let_def
    by (rule triple_andThen [OF triple_cancelled], simp, simp,
        rule triple_andThen [where Q = "\<lambda>_. ?P"])
      (auto intro!: triple_if triple_increment triple_ok wave)
qed

text \<open>(C13) A completion that arrives for a cancelled job dispatches nothing and does not
  overwrite the cancellation, whatever calls fail.\<close>

theorem cancelled_job_stays_cancelled:
  assumes "findJob (ev_JobID ev) w = Some j" and "cj_status j = statusCancelled"
  shows "\<exists>j'. w_chunkQueue (snd (run (handleChunkCompleted redelivered (Some ev)) w)) = w_chunkQueue w \<and>
    findJob (ev_JobID ev) (snd (run (handleChunkCompleted redelivered (Some ev)) w)) = Some j' \<and>
    cj_status j' = statusCancelled \<and> cj_completed_at j' = cj_completed_at j"
proof -
  let ?P = "cancelledWith (ev_JobID ev) (cj_completed_at j) (w_chunkQueue w)"
  have "triple ?P (handleChunkCompleted redelivered (Some ev)) (\<lambda>_. ?P)"
    unfolding handleChunkCompleted_def option.case
    by (rule triple_continue [OF triple_advance_cancelled])
      (auto simp: ackDone_def nackRequeue_def writing_def split: sum.split intro!: triple_cancelled)
  moreover have "?P w" using assms by (simp add: cancelledWith_def)
  ultimately have "?P (snd (run (handleChunkCompleted redelivered (Some ev)) w))" by (rule tripleD)
  then show ?thesis by (auto simp: cancelledWith_def)
qed

definition cancelledWorld :: calc_world where
  "cancelledWorld = updateJob 1 (\<lambda>j. j\<lparr>cj_status := statusCancelled\<rparr>) (workNext (planNext exampleWorld))"

definition firstReport :: chunk_completed_event where
  "firstReport = \<lparr>ev_ChunkID = 1, ev_JobID = 1, ev_WaveNo = 0, ev_Status = statusSuccess,
     ev_SuccessCount = 1, ev_FailedCount = 0, ev_BlockedCount = 0\<rparr>"

lemma cancelledWorld_job:
  "map_option cj_status (findJob (ev_JobID firstReport) cancelledWorld) = Some statusCancelled"
  "w_chunkQueue cancelledWorld = []" "w_doneQueue cancelledWorld = [Some firstReport]"
  by code_simp+

theorem cancelled_job_stays_cancelled_witness:
  "w_chunkQueue (advanceNext cancelledWorld) = [] \<and>
   map_option cj_status (findJob (ev_JobID firstReport) (advanceNext cancelledWorld)) = Some statusCancelled"
proof -
  obtain j where j: "findJob (ev_JobID firstReport) cancelledWorld = Some j" "cj_status j = statusCancelled"
    using cancelledWorld_job(1) by auto
  have "advanceNext cancelledWorld = snd (run (handleChunkCompleted False (Some firstReport)) cancelledWorld)"
    by (simp add: advanceNext_def cancelledWorld_job(3))
  with cancelled_job_stays_cancelled [OF j, of False] show ?thesis
    by (auto simp: cancelledWorld_job(2))
qed

end
