(* ===== verification/CalcBehaviour.thy ===== *)
theory CalcBehaviour
  imports CalcEngine
begin

text \<open>
  What the handlers of the calculation engine compute when they run alone: planning a job
  end to end, the retries of the worker, the outcome of a job, the monthly trigger; and two
  runs with lost calls that the services do not recover from.
\<close>

section \<open>Planning a job\<close>

lemma run_call [simp]: "w_faults w = [] \<Longrightarrow> run (call q) w = q w"
  by (cases "q w") (simp add: call_def map_prod_def)

lemma run_reading [simp]: "w_faults w = [] \<Longrightarrow> run (reading f) w = (Inr (f w), w)"
  by (simp add: reading_def)

lemma run_writing [simp]: "w_faults w = [] \<Longrightarrow> run (writing f) w = (Inr (), f w)"
  by (simp add: writing_def)

text \<open>The waves with consecutive chunk ids wired in from \<open>i\<close> on.\<close>

primrec wireSpecs :: "chunk_spec list \<Rightarrow> int \<Rightarrow> chunk_spec list" where
  "wireSpecs [] i = []"
| "wireSpecs (c # cs) i = c\<lparr>cs_chunkID := i\<rparr> # wireSpecs cs (i + 1)"

primrec wireWaves :: "packed_wave list \<Rightarrow> int \<Rightarrow> packed_wave list" where
  "wireWaves [] i = []"
| "wireWaves (w # ws) i =
     w\<lparr>pw_chunks := wireSpecs (pw_chunks w) i\<rparr> # wireWaves ws (i + int (length (pw_chunks w)))"

definition allRows :: "int \<Rightarrow> packed_wave list \<Rightarrow> chunk_row list" where
  "allRows j ws = concat (map (chunkRows j) ws)"

lemma wired_rows:
  "map2 (\<lambda>c r. c\<lparr>cs_chunkID := cr_ChunkID r\<rparr>) cs
     (map2 (\<lambda>r c. r\<lparr>cr_ChunkID := cjc_chunk_id c\<rparr>) (map f cs) (insertedChunks (map f cs) i)) = wireSpecs cs i"
  by (induction cs arbitrary: i) auto

lemma insertedChunks_append:
  "insertedChunks (xs @ ys) i = insertedChunks xs i @ insertedChunks ys (i + int (length xs))"
  by (induction xs arbitrary: i) (auto simp: algebra_simps)

lemma insertedChunks_keys:
  "map chunkKey (insertedChunks rs i) = map (\<lambda>r. (cr_JobID r, cr_ChunkNumber r)) rs"
  by (induction rs arbitrary: i) (auto simp: chunkKey_def)

lemma run_ChunkBulkInsert:
  assumes "w_faults w = []" and "pw_chunks wave \<noteq> []"
    and "distinct (map chunkKey (w_chunks w) @ map (\<lambda>r. (cr_JobID r, cr_ChunkNumber r)) (chunkRows j wave))"
  shows "\<exists>rs. run (ChunkBulkInsert (chunkRows j wave)) w = (Inr rs, withChunks w (chunkRows j wave)) \<and>
    wireChunkIDs wave rs = wave\<lparr>pw_chunks := wireSpecs (pw_chunks wave) (w_nextChunkID w)\<rparr> \<and>
    length rs = length (pw_chunks wave)"
proof -
  have d: "distinct (map chunkKey (w_chunks w @ insertedChunks (chunkRows j wave) (w_nextChunkID w)))"
    using assms(3) by (simp only: map_append insertedChunks_keys)
  have ne: "chunkRows j wave \<noteq> []" using assms(2) by (simp add: chunkRows_def)
  let ?rs = "map2 (\<lambda>r c. r\<lparr>cr_ChunkID := cjc_chunk_id c\<rparr>) (chunkRows j wave)
      (insertedChunks (chunkRows j wave) (w_nextChunkID w))"
  have "run (ChunkBulkInsert (chunkRows j wave)) w = (Inr ?rs, withChunks w (chunkRows j wave))"
    using d ne assms(1) by (simp only: ChunkBulkInsert_def Let_def if_False if_True run_call withChunks_def)
  moreover have "wireChunkIDs wave ?rs = wave\<lparr>pw_chunks := wireSpecs (pw_chunks wave) (w_nextChunkID w)\<rparr>"
    by (simp add: wireChunkIDs_def chunkRows_def wired_rows)
  moreover have "length ?rs = length (pw_chunks wave)" by (simp add: chunkRows_def)
  ultimately show ?thesis by blast
qed

lemma run_ProductBulkInsert:
  assumes "w_faults w = []" and "\<forall>r \<in> set rows. 0 < jp_RouteHeadID r"
  shows "run (ProductBulkInsert rows) w = (Inr (), w\<lparr>w_products := fold insertProduct rows (w_products w)\<rparr>)"
proof -
  have "\<not> list_ex (\<lambda>r. jp_RouteHeadID r \<le> 0) rows" using assms(2) by (auto simp: list_ex_iff)
  with assms(1) show ?thesis by (auto simp: ProductBulkInsert_def)
qed

definition routed :: "(int \<Rightarrow> int option) \<Rightarrow> packed_wave \<Rightarrow> bool" where
  "routed m wave \<longleftrightarrow> (\<forall>c \<in> set (pw_chunks wave). \<forall>p \<in> set (cs_productIDs c). \<exists>h. m p = Some h \<and> 0 < h)"

lemma wireSpecs_member: "c \<in> set (wireSpecs cs i) \<Longrightarrow> \<exists>d \<in> set cs. \<exists>k. c = d\<lparr>cs_chunkID := k\<rparr>"
  by (induction cs arbitrary: i) auto

lemma routed_productRows:
  assumes "routed m wave"
  shows "\<forall>r \<in> set (productRows j m (wave\<lparr>pw_chunks := wireSpecs (pw_chunks wave) i\<rparr>)). 0 < jp_RouteHeadID r"
  using assms by (fastforce simp: routed_def productRows_def dest!: wireSpecs_member)

lemma run_persistWavePlan:
  assumes "w_faults w = []" and "\<forall>wave \<in> set waves. pw_chunks wave \<noteq> [] \<and> routed m wave"
    and "distinct (map chunkKey (w_chunks w) @ map (\<lambda>r. (cr_JobID r, cr_ChunkNumber r)) (allRows j waves))"
  shows "\<exists>ps. run (persistWavePlan j m waves) w =
    (Inr (int (length (allRows j waves)), wireWaves waves (w_nextChunkID w)),
     (withChunks w (allRows j waves))\<lparr>w_products := ps\<rparr>)"
  using assms
proof (induction waves arbitrary: w)
  case Nil
  then show ?case by (auto simp: allRows_def withChunks_def intro!: exI [of _ "w_products w"])
next
  case (Cons wave waves)
  have rows: "allRows j (wave # waves) = chunkRows j wave @ allRows j waves" by (simp add: allRows_def)
  have len: "length (chunkRows j wave) = length (pw_chunks wave)" by (simp add: chunkRows_def)
  obtain rs where ins: "run (ChunkBulkInsert (chunkRows j wave)) w = (Inr rs, withChunks w (chunkRows j wave))"
    and wired: "wireChunkIDs wave rs = wave\<lparr>pw_chunks := wireSpecs (pw_chunks wave) (w_nextChunkID w)\<rparr>"
    and lrs: "length rs = length (pw_chunks wave)"
  proof -
    have "distinct (map chunkKey (w_chunks w) @ map (\<lambda>r. (cr_JobID r, cr_ChunkNumber r)) (chunkRows j wave))"
      using Cons.prems(3) unfolding rows map_append distinct_append set_append by blast
    with Cons.prems(1,2) show ?thesis using that run_ChunkBulkInsert [of w wave j] by auto
  qed
  let ?w1 = "withChunks w (chunkRows j wave)"
  let ?ps = "fold insertProduct (productRows j m (wireChunkIDs wave rs)) (w_products ?w1)"
  let ?w2 = "?w1\<lparr>w_products := ?ps\<rparr>"
  have prod: "run (ProductBulkInsert (productRows j m (wireChunkIDs wave rs))) ?w1 = (Inr (), ?w2)"
    using Cons.prems(1,2) routed_productRows [of m wave j] unfolding wired
    by (intro run_ProductBulkInsert) (simp_all add: withChunks_def)
  have chunks2: "w_chunks ?w2 = w_chunks w @ insertedChunks (chunkRows j wave) (w_nextChunkID w)"
    "w_nextChunkID ?w2 = w_nextChunkID w + int (length (pw_chunks wave))"
    by (simp_all add: withChunks_def len)
  have "\<exists>ps. run (persistWavePlan j m waves) ?w2 =
      (Inr (int (length (allRows j waves)), wireWaves waves (w_nextChunkID ?w2)),
       (withChunks ?w2 (allRows j waves))\<lparr>w_products := ps\<rparr>)"
    using Cons.prems unfolding rows by (intro Cons.IH) (simp_all add: chunks2 insertedChunks_keys withChunks_def)
  then obtain ps where rest: "run (persistWavePlan j m waves) ?w2 =
      (Inr (int (length (allRows j waves)), wireWaves waves (w_nextChunkID ?w2)),
       (withChunks ?w2 (allRows j waves))\<lparr>w_products := ps\<rparr>)" by blast
  have "(withChunks ?w2 (allRows j waves))\<lparr>w_products := ps\<rparr> =
      (withChunks w (allRows j (wave # waves)))\<lparr>w_products := ps\<rparr>"
    by (simp add: withChunks_def rows insertedChunks_append)
  then show ?case
    by (intro exI [of _ ps]) (simp add: run_andThen ins prod [unfolded wired] rest [unfolded wired] Let_def lrs len wired
        chunks2 [unfolded wired] rows)
qed

text \<open>What dispatching leaves alone, and what it queues.\<close>

definition chunkFacts :: "calc_world \<Rightarrow> (int \<times> int \<times> int \<times> int \<times> int list) list" where
  "chunkFacts w = map (\<lambda>c. (cjc_chunk_id c, cjc_job_id c, cjc_chunk_number c, cjc_wave_no c, cjc_product_ids c)) (w_chunks w)"

lemma chunkFacts_update:
  "(\<And>c. cjc_chunk_id (f c) = cjc_chunk_id c \<and> cjc_job_id (f c) = cjc_job_id c \<and>
     cjc_chunk_number (f c) = cjc_chunk_number c \<and> cjc_wave_no (f c) = cjc_wave_no c \<and>
     cjc_product_ids (f c) = cjc_product_ids c) \<Longrightarrow> chunkFacts (updateChunks P f w) = chunkFacts w"
  by (simp add: chunkFacts_def updateWhere_def)

lemma run_dispatchWave:
  assumes "w_faults w = []"
  shows "\<exists>w'. run (dispatchWave cs) w = (Inr (), w') \<and> w_chunkQueue w' = w_chunkQueue w @ map Some cs \<and>
    chunkFacts w' = chunkFacts w \<and> w_jobs w' = w_jobs w"
  using assms unfolding dispatchWave_def
proof (induction cs arbitrary: w)
  case (Cons c cs)
  let ?w1 = "w\<lparr>w_chunkQueue := w_chunkQueue w @ [Some c]\<rparr>"
  let ?w2 = "updateChunks (\<lambda>d. cjc_chunk_id d = cs_chunkID c)
       (\<lambda>c. c\<lparr>cjc_status := statusDispatched, cjc_dispatched_at := Some (w_now ?w1)\<rparr>) ?w1"
  have "w_faults ?w2 = []" using Cons.prems by (simp add: updateChunks_def)
  from Cons.IH [OF this] obtain w' where "run (forEach (\<lambda>c. andThen (PublishChunk c) (\<lambda>_. UpdateDispatched (cs_chunkID c))) cs) ?w2 =
      (Inr (), w')" "w_chunkQueue w' = w_chunkQueue ?w2 @ map Some cs" "chunkFacts w' = chunkFacts ?w2"
    "w_jobs w' = w_jobs ?w2" by blast
  moreover have "chunkFacts ?w2 = chunkFacts w" by (subst chunkFacts_update) (simp_all add: chunkFacts_def)
  ultimately show ?case using Cons.prems
    by (simp add: run_andThen PublishChunk_def UpdateDispatched_def)
qed simp

lemma run_startFirstWave:
  assumes "w_faults w = []" and "findJob j w = Some r"
  shows "\<exists>w' r'. run (startFirstWave j ids n (k, wave # ws)) w = (Inr (), w') \<and>
    w_chunkQueue w' = w_chunkQueue w @ map Some (pw_chunks wave) \<and> chunkFacts w' = chunkFacts w \<and>
    findJob j w' = Some r' \<and> cj_status r' = statusProcessing \<and> cj_started_at r' \<noteq> None \<and>
    cj_total_products r' = int (length ids) \<and> cj_total_chunks r' = k \<and> cj_total_waves r' = n"
proof -
  let ?w1 = "updateJob j (\<lambda>j. j\<lparr>cj_total_products := int (length ids), cj_total_chunks := k, cj_total_waves := n\<rparr>) w"
  let ?w2 = "updateJob j (\<lambda>j. j\<lparr>cj_started_at := (case cj_started_at j of None \<Rightarrow> Some (w_now ?w1) | Some t \<Rightarrow> Some t)\<rparr>) ?w1"
  let ?w3 = "updateJob j (\<lambda>j. j\<lparr>cj_status := statusProcessing\<rparr>) ?w2"
  have f: "w_faults ?w1 = []" "w_faults ?w2 = []" "w_faults ?w3 = []"
    using assms(1) by (simp_all add: updateJob_def)
  obtain w' where "run (dispatchWave (pw_chunks wave)) ?w3 = (Inr (), w')"
    "w_chunkQueue w' = w_chunkQueue ?w3 @ map Some (pw_chunks wave)" "chunkFacts w' = chunkFacts ?w3"
    and jobs: "w_jobs w' = w_jobs ?w3"
    using run_dispatchWave [OF f(3)] by blast
  moreover have "findJob j w' = findJob j ?w3" using jobs by (simp add: findJob_def)
  moreover have "chunkFacts ?w3 = chunkFacts w" by (simp add: chunkFacts_def)
  ultimately show ?thesis using assms f
    by (auto simp: startFirstWave_def run_andThen UpdateTotals_def MarkStarted_def UpdateStatus_def
        findJob_updateJob split: option.split)
qed

text \<open>The chunks of a plan: its products once each, dependencies in smaller waves.\<close>

definition planSpecs :: "wave_plan \<Rightarrow> int \<Rightarrow> int \<Rightarrow> chunk_spec list" where
  "planSpecs p s m = concat (map pw_chunks (PackChunks (Some p) s m))"

lemma packed_content:
  "map (\<lambda>pw. (pw_number pw, concat (map cs_productIDs (pw_chunks pw)))) (PackChunks (Some p) s m) =
   map (\<lambda>w. (wv_number w, wv_products w)) (wp_waves p)"
  using effectiveChunkSize_pos by (simp add: PackChunks_def packWaves_content)

lemma packed_wave_of:
  assumes "pw \<in> set (PackChunks (Some p) s m)"
  shows "\<exists>w \<in> set (wp_waves p). pw_number pw = wv_number w \<and> concat (map cs_productIDs (pw_chunks pw)) = wv_products w"
proof -
  have "(pw_number pw, concat (map cs_productIDs (pw_chunks pw))) \<in> set (map (\<lambda>w. (wv_number w, wv_products w)) (wp_waves p))"
    unfolding packed_content [of p s m, symmetric] using assms by auto
  then show ?thesis by auto
qed

lemma wave_packed:
  assumes "w \<in> set (wp_waves p)"
  shows "\<exists>pw \<in> set (PackChunks (Some p) s m). pw_number pw = wv_number w \<and> concat (map cs_productIDs (pw_chunks pw)) = wv_products w"
proof -
  have "(wv_number w, wv_products w) \<in> set (map (\<lambda>pw. (pw_number pw, concat (map cs_productIDs (pw_chunks pw)))) (PackChunks (Some p) s m))"
    unfolding packed_content using assms by auto
  then show ?thesis by auto
qed

lemma chunk_wave:
  "pw \<in> set (PackChunks (Some p) s m) \<Longrightarrow> c \<in> set (pw_chunks pw) \<Longrightarrow> cs_waveNo c = pw_number pw"
  using packWaves_bounds [of "nat (effectiveChunkSize s m)"] effectiveChunkSize_pos [of s m]
  by (auto simp: PackChunks_def)

lemma planSpecs_products:
  assumes "wf_graph g" and "PlanWaves g = Some p" and "wp_cyclic p = []"
  shows "distinct (concat (map cs_productIDs (planSpecs p s m))) \<and>
    set (concat (map cs_productIDs (planSpecs p s m))) = dg_nodes g"
proof -
  have "concat (map cs_productIDs (planSpecs p s m)) =
      concat (map snd (map (\<lambda>pw. (pw_number pw, concat (map cs_productIDs (pw_chunks pw)))) (PackChunks (Some p) s m)))"
    by (simp add: planSpecs_def concat_map_concat comp_def)
  also have "\<dots> = concat (map wv_products (wp_waves p))" unfolding packed_content by (simp add: comp_def)
  finally have e: "concat (map cs_productIDs (planSpecs p s m)) = concat (map wv_products (wp_waves p))" .
  obtain k where k: "p = \<lparr>wp_waves = map (waveAt g) [0..<k],
      wp_cyclic = sorted_list_of_set (dg_nodes g - settled g k)\<rparr>"
    using PlanWaves_SomeD [OF assms(1,2)] by blast
  have "finite (dg_nodes g - settled g k)" using assms(1) by (simp add: wf_graph_def)
  with assms(3) k have "settled g k = dg_nodes g" using settled_nodes [of g k] by auto
  moreover have "wp_waves p = map (waveAt g) [0..<k]" using k by simp
  ultimately show ?thesis using concat_waves [OF assms(1), of k] unfolding e by simp
qed

lemma planSpecs_upstream:
  assumes "wf_graph g" and "PlanWaves g = Some p" and "c \<in> set (planSpecs p s m)"
    and "n \<in> set (cs_productIDs c)" and "u \<in> deps g n"
  shows "\<exists>d \<in> set (planSpecs p s m). u \<in> set (cs_productIDs d) \<and> cs_waveNo d < cs_waveNo c"
proof -
  obtain k where k: "p = \<lparr>wp_waves = map (waveAt g) [0..<k],
      wp_cyclic = sorted_list_of_set (dg_nodes g - settled g k)\<rparr>"
    using PlanWaves_SomeD [OF assms(1,2)] by blast
  obtain pw where pw: "pw \<in> set (PackChunks (Some p) s m)" "c \<in> set (pw_chunks pw)"
    using assms(3) by (auto simp: planSpecs_def)
  obtain i where i: "i < k" "pw_number pw = wv_number (waveAt g i)"
    "concat (map cs_productIDs (pw_chunks pw)) = wv_products (waveAt g i)"
    using packed_wave_of [OF pw(1)] k by auto
  have "n \<in> set (concat (map cs_productIDs (pw_chunks pw)))" using pw(2) assms(4) by auto
  with i(3) have "n \<in> layer g i" by (simp add: waveAt_products [OF assms(1)])
  then obtain j where j: "j < i" "u \<in> layer g j" using layer_deps assms(5) by blast
  have "waveAt g j \<in> set (wp_waves p)" using i(1) j(1) k by simp
  from wave_packed [OF this] obtain pw' where pw': "pw' \<in> set (PackChunks (Some p) s m)"
    "pw_number pw' = wv_number (waveAt g j)" "concat (map cs_productIDs (pw_chunks pw')) = wv_products (waveAt g j)" by blast
  have "u \<in> set (concat (map cs_productIDs (pw_chunks pw')))"
    using j(2) pw'(3) by (simp add: waveAt_products [OF assms(1)])
  then obtain d where d: "d \<in> set (pw_chunks pw')" "u \<in> set (cs_productIDs d)" by auto
  have "cs_waveNo d < cs_waveNo c"
    using chunk_wave [OF pw] chunk_wave [OF pw'(1) d(1)] i(2) pw'(2) j(1) by (simp add: waveAt_def)
  moreover have "d \<in> set (planSpecs p s m)" using pw'(1) d(1) by (auto simp: planSpecs_def)
  ultimately show ?thesis using d(2) by blast
qed

definition jobChunks :: "int \<Rightarrow> calc_world \<Rightarrow> (int \<times> int \<times> int list) list" where
  "jobChunks j w = map (\<lambda>c. (cjc_chunk_number c, cjc_wave_no c, cjc_product_ids c))
     (filter (\<lambda>c. cjc_job_id c = j) (w_chunks w))"

definition specFacts :: "chunk_spec list \<Rightarrow> (int \<times> int \<times> int list) list" where
  "specFacts cs = map (\<lambda>c. (cs_chunkNumber c, cs_waveNo c, cs_productIDs c)) cs"

lemma jobChunks_facts: "chunkFacts w' = chunkFacts w \<Longrightarrow> jobChunks j w' = jobChunks j w"
proof -
  have "jobChunks j w = map (\<lambda>(i, k, f). f) (filter (\<lambda>(i, k, f). k = j) (chunkFacts w))" for w
    unfolding jobChunks_def chunkFacts_def by (induction "w_chunks w") (auto simp: filter_map comp_def)
  then show "chunkFacts w' = chunkFacts w \<Longrightarrow> jobChunks j w' = jobChunks j w" by simp
qed

lemma jobChunks_insert:
  assumes "\<forall>c \<in> set (w_chunks w). cjc_job_id c \<noteq> j" and "\<forall>r \<in> set rows. cr_JobID r = j"
  shows "jobChunks j (withChunks w rows) = map (\<lambda>r. (cr_ChunkNumber r, cr_WaveNo r, cr_ProductIDs r)) rows"
proof -
  have "map (\<lambda>c. (cjc_chunk_number c, cjc_wave_no c, cjc_product_ids c)) (insertedChunks rows i) =
      map (\<lambda>r. (cr_ChunkNumber r, cr_WaveNo r, cr_ProductIDs r)) rows" for i
    by (induction rows arbitrary: i) auto
  moreover have "filter (\<lambda>c. cjc_job_id c = j) (insertedChunks rows i) = insertedChunks rows i" for i
    using assms(2) by (auto simp: filter_id_conv dest!: insertedChunks_rows)
  moreover have "filter (\<lambda>c. cjc_job_id c = j) (w_chunks w) = []" using assms(1) by (simp add: filter_empty_conv)
  ultimately show ?thesis by (simp add: jobChunks_def withChunks_def)
qed

lemma specFacts_fill:
  "map (\<lambda>r. (cr_ChunkNumber r, cr_WaveNo r, cr_ProductIDs r)) (allRows i (FillJobContext ws j code per act ct)) =
   specFacts (concat (map pw_chunks ws))"
  by (simp add: allRows_def chunkRows_def FillJobContext_def specFacts_def map_concat comp_def)

lemma specFacts_wire: "specFacts (wireSpecs cs i) = specFacts cs"
  by (induction cs arbitrary: i) (auto simp: specFacts_def)

lemma allRows_job: "\<forall>r \<in> set (allRows j ws). cr_JobID r = j"
  by (auto simp: allRows_def chunkRows_def)

lemma planned_keys:
  "distinct (map (\<lambda>r. (cr_JobID r, cr_ChunkNumber r)) (allRows j (FillJobContext (PackChunks (Some p) s m) j code per act ct)))"
proof -
  let ?rows = "allRows j (FillJobContext (PackChunks (Some p) s m) j code per act ct)"
  have pos: "0 < nat (effectiveChunkSize s m)" using effectiveChunkSize_pos by simp
  have "map cr_ChunkNumber ?rows = map fst (map (\<lambda>r. (cr_ChunkNumber r, cr_WaveNo r, cr_ProductIDs r)) ?rows)"
    by (simp add: comp_def)
  also have "\<dots> = map cs_chunkNumber (planSpecs p s m)"
    unfolding specFacts_fill by (simp add: specFacts_def planSpecs_def comp_def)
  also have "\<dots> = [0 + 1..0 + int (length (planSpecs p s m))]"
    unfolding planSpecs_def by (rule numbered_upto) (simp add: PackChunks_def packWaves_numbered [OF pos])
  finally have "distinct (map cr_ChunkNumber ?rows)" by simp
  then show ?thesis by (auto simp: distinct_map inj_on_def)
qed

lemma planned_routed:
  assumes "wf_graph g" and "PlanWaves g = Some p" and "wp_cyclic p = []"
    and "\<forall>n \<in> dg_nodes g. \<exists>h. m n = Some h \<and> 0 < h"
  shows "\<forall>wave \<in> set (FillJobContext (PackChunks (Some p) s mx) j code per act ct). routed m wave"
proof -
  have "set (cs_productIDs c) \<subseteq> dg_nodes g" if "pw \<in> set (PackChunks (Some p) s mx)" "c \<in> set (pw_chunks pw)" for pw c
    using planSpecs_products [OF assms(1-3), of s mx] that by (auto simp: planSpecs_def)
  with assms(4) show ?thesis by (fastforce simp: routed_def FillJobContext_def)
qed

lemma wavesFrom_nonempty: "wavesFrom j v ws \<Longrightarrow> w \<in> set ws \<Longrightarrow> pw_chunks w \<noteq> []"
  by (induction ws arbitrary: v) auto

text \<open>Planning with an acyclic plan, run alone without faults.\<close>

lemma run_persistAndDispatch:
  assumes f: "w_faults w = []" and r: "findJob j w = Some r"
    and free: "\<forall>c \<in> set (w_chunks w). cjc_job_id c \<noteq> j" and keys: "distinct (map chunkKey (w_chunks w))"
    and g: "wf_graph g" "PlanWaves g = Some p" "wp_cyclic p = []" "wp_waves p \<noteq> []" "set ids = dg_nodes g"
    and heads: "\<forall>n \<in> set ids. \<exists>h. routeHeadOf (w_routes w) n = Some h \<and> 0 < h"
  shows "\<exists>w' r' new. run (persistAndDispatch j ids (FillJobContext (PackChunks (Some p) s m) j code per act ct)) w = (Inr (), w') \<and>
    jobChunks j w' = specFacts (planSpecs p s m) \<and>
    w_chunkQueue w' = w_chunkQueue w @ map Some new \<and>
    specFacts new = specFacts (pw_chunks (hd (PackChunks (Some p) s m))) \<and>
    findJob j w' = Some r' \<and> cj_status r' = statusProcessing \<and> cj_started_at r' \<noteq> None \<and>
    cj_total_products r' = int (length ids) \<and> cj_total_chunks r' = int (length (planSpecs p s m)) \<and>
    cj_total_waves r' = int (length (wp_waves p))"
proof -
  let ?ws = "FillJobContext (PackChunks (Some p) s m) j code per act ct"
  let ?m = "\<lambda>p. if p \<in> set ids then routeHeadOf (w_routes w) p else None"
  have len: "length ?ws = length (wp_waves p)"
    using arg_cong [OF packed_content [of p s m], of length] by (simp add: FillJobContext_def)
  have waves: "\<forall>wave \<in> set ?ws. pw_chunks wave \<noteq> [] \<and> routed ?m wave"
    using wavesFrom_nonempty [OF planned_waves(1) [OF g(1,2)]] planned_routed [OF g(1-3), of ?m] heads g(5) by auto
  have d: "distinct (map chunkKey (w_chunks w) @ map (\<lambda>r. (cr_JobID r, cr_ChunkNumber r)) (allRows j ?ws))"
    using keys planned_keys [of j p s m code per act ct] free allRows_job [of j ?ws] by (auto simp: chunkKey_def)
  obtain ps where persist: "run (persistWavePlan j ?m ?ws) w =
    (Inr (int (length (allRows j ?ws)), wireWaves ?ws (w_nextChunkID w)),
     (withChunks w (allRows j ?ws))\<lparr>w_products := ps\<rparr>)"
    using run_persistWavePlan [OF f waves d] by blast
  let ?w1 = "(withChunks w (allRows j ?ws))\<lparr>w_products := ps\<rparr>"
  obtain pw pws where pws: "PackChunks (Some p) s m = pw # pws"
    using len g(4) by (cases "PackChunks (Some p) s m") (auto simp: FillJobContext_def)
  obtain first rest where ws: "?ws = first # rest" and fc: "specFacts (pw_chunks first) = specFacts (pw_chunks pw)"
    by (simp add: pws FillJobContext_def specFacts_def)
  let ?new = "wireSpecs (pw_chunks first) (w_nextChunkID w)"
  have f1: "w_faults ?w1 = []" and r1: "findJob j ?w1 = Some r"
    using f r by (simp_all add: withChunks_def findJob_def)
  have n: "int (length (allRows j ?ws)) = int (length (planSpecs p s m))"
    using arg_cong [OF specFacts_fill [of j "PackChunks (Some p) s m" j code per act ct], of length]
    by (simp add: specFacts_def planSpecs_def)
  obtain w' r' where start: "run (startFirstWave j ids (int (length ?ws)) (int (length (allRows j ?ws)),
        first\<lparr>pw_chunks := ?new\<rparr> # wireWaves rest (w_nextChunkID w + int (length (pw_chunks first))))) ?w1 = (Inr (), w')"
    and w': "w_chunkQueue w' = w_chunkQueue ?w1 @ map Some ?new" "chunkFacts w' = chunkFacts ?w1"
    and r': "findJob j w' = Some r'" "cj_status r' = statusProcessing" "cj_started_at r' \<noteq> None"
    "cj_total_products r' = int (length ids)" "cj_total_chunks r' = int (length (allRows j ?ws))"
    "cj_total_waves r' = int (length ?ws)"
    using run_startFirstWave [OF f1 r1, of ids "int (length ?ws)" "int (length (allRows j ?ws))"
        "first\<lparr>pw_chunks := ?new\<rparr>"] by fastforce
  have "jobChunks j w' = jobChunks j (withChunks w (allRows j ?ws))"
    using jobChunks_facts [OF w'(2)] by (simp add: jobChunks_def)
  also have "\<dots> = specFacts (planSpecs p s m)"
    unfolding jobChunks_insert [OF free allRows_job] specFacts_fill planSpecs_def ..
  finally have chunks: "jobChunks j w' = specFacts (planSpecs p s m)" .
  have "run (persistAndDispatch j ids ?ws) w = (Inr (), w')"
    using persist start f unfolding ws
    by (simp add: persistAndDispatch_def run_andThen ResolveProductRouteMap_def)
  moreover have "w_chunkQueue ?w1 = w_chunkQueue w" by (simp add: withChunks_def)
  moreover have "specFacts ?new = specFacts (pw_chunks (hd (PackChunks (Some p) s m)))"
    by (simp add: specFacts_wire fc pws)
  ultimately show ?thesis using chunks w'(1) r' unfolding n len
    by (intro exI [of _ w'] exI [of _ r'] exI [of _ ?new]) simp
qed

lemma wavesFrom_ge: "wavesFrom j v ws \<Longrightarrow> c \<in> set (concat (map pw_chunks ws)) \<Longrightarrow> v \<le> cs_waveNo c"
  by (induction ws arbitrary: v) fastforce+

lemma firstWave_chunks:
  assumes "wavesFrom j v (w # ws)"
  shows "filter (\<lambda>c. cs_waveNo c = v) (concat (map pw_chunks (w # ws))) = pw_chunks w"
proof -
  have "filter (\<lambda>c. cs_waveNo c = v) (pw_chunks w) = pw_chunks w" using assms by (simp add: filter_id_conv)
  moreover have "filter (\<lambda>c. cs_waveNo c = v) (concat (map pw_chunks ws)) = []"
    using assms wavesFrom_ge [of j "v + 1" ws] by (fastforce simp: filter_empty_conv)
  ultimately show ?thesis by simp
qed

lemma specFacts_firstWave:
  assumes "wf_graph g" and "PlanWaves g = Some p" and "PackChunks (Some p) s m = pw # pws"
  shows "specFacts (pw_chunks pw) = filter (\<lambda>(m, v, ps). v = 0) (specFacts (planSpecs p s m))"
proof -
  let ?fill = "\<lambda>ws. FillJobContext ws 0 [] [] [] []"
  obtain fw fws where fw: "?fill (pw # pws) = fw # fws" by (simp add: FillJobContext_def)
  have "wavesFrom 0 0 (?fill (pw # pws))" using planned_waves(1) [OF assms(1,2)] assms(3) by metis
  then have "filter (\<lambda>c. cs_waveNo c = 0) (concat (map pw_chunks (?fill (pw # pws)))) = pw_chunks (hd (?fill (pw # pws)))"
    unfolding fw list.sel by (rule firstWave_chunks)
  then have "specFacts (filter (\<lambda>c. cs_waveNo c = 0) (concat (map pw_chunks (?fill (pw # pws))))) =
      specFacts (pw_chunks (hd (?fill (pw # pws))))" by simp
  moreover have "specFacts (filter (\<lambda>c. cs_waveNo c = 0) cs) = filter (\<lambda>(m, v, ps). v = 0) (specFacts cs)" for cs
    by (simp add: specFacts_def filter_map comp_def)
  moreover have "specFacts (concat (map pw_chunks (?fill ws))) = specFacts (concat (map pw_chunks ws))" for ws
    by (simp add: specFacts_def FillJobContext_def map_concat comp_def)
  moreover have "specFacts (pw_chunks (hd (?fill (pw # pws)))) = specFacts (pw_chunks pw)"
    by (simp add: specFacts_def FillJobContext_def comp_def)
  ultimately show ?thesis by (simp add: planSpecs_def assms(3))
qed

text \<open>The products a job with the given initial set needs.\<close>

definition needed :: "route_db \<Rightarrow> int list \<Rightarrow> int set" where
  "needed db initial = {n. \<exists>i \<in> set initial. (i, n) \<in> (rmEdges db)\<^sup>*}"

lemma run_planAndDispatch:
  assumes f: "w_faults w = []" and r: "findJob j w = Some r" "cj_status r = statusQueued"
    and free: "\<forall>c \<in> set (w_chunks w). cjc_job_id c \<noteq> j" and keys: "distinct (map chunkKey (w_chunks w))"
    and g: "Build (sqlQueries (w_routes w)) (scopeOf (scanJobDTO r)) = Some (Inr (g, ids))" "wf_graph g"
      "ids \<noteq> []" "set ids = dg_nodes g" "PlanWaves g = Some p" "wp_cyclic p = []"
    and heads: "\<forall>n \<in> set ids. \<exists>h. routeHeadOf (w_routes w) n = Some h \<and> 0 < h"
  shows "\<exists>w' r' new s m. run (planAndDispatch cfg j) w = (Inr (), w') \<and>
    jobChunks j w' = specFacts (planSpecs p s m) \<and> w_chunkQueue w' = w_chunkQueue w @ map Some new \<and>
    specFacts new = filter (\<lambda>(m, v, ps). v = 0) (jobChunks j w') \<and>
    findJob j w' = Some r' \<and> cj_status r' = statusProcessing \<and>
    cj_total_chunks r' = int (length (jobChunks j w'))"
proof -
  let ?w1 = "updateJob j (\<lambda>j. j\<lparr>cj_status := statusPlanning\<rparr>) w"
  let ?job = "scanJobDTO r"
  have st: "jd_Status ?job = statusQueued"
    using r(2) by (auto simp: scanJobDTO_def applyFilter_def Let_def split: option.split filter_json.split)
  have f1: "w_faults ?w1 = []" using f by (simp add: updateJob_def)
  have r1: "findJob j ?w1 = Some (r\<lparr>cj_status := statusPlanning\<rparr>)" using r by (simp add: findJob_updateJob)
  have routes: "w_routes ?w1 = w_routes w" by (simp add: updateJob_def)
  have ne: "wp_waves p \<noteq> []"
  proof
    assume "wp_waves p = []"
    then have "planSpecs p 0 0 = []" using packed_content [of p 0 0] by (simp add: planSpecs_def)
    then have "dg_nodes g = {}" using planSpecs_products [OF g(2,5,6), of 0 0] by simp
    with g(3,4) show False by simp
  qed
  let ?s = "oc_ChunkSize cfg" and ?m = "oc_MaxChunkSize cfg"
  obtain w' r' new where p: "run (persistAndDispatch j ids (FillJobContext (PackChunks (Some p) ?s ?m) j
      (jd_JobCode ?job) (jd_Period ?job) (jd_CreatedBy ?job) (jd_CalcType ?job))) ?w1 = (Inr (), w')"
    "jobChunks j w' = specFacts (planSpecs p ?s ?m)" "w_chunkQueue w' = w_chunkQueue ?w1 @ map Some new"
    "specFacts new = specFacts (pw_chunks (hd (PackChunks (Some p) ?s ?m)))"
    "findJob j w' = Some r'" "cj_status r' = statusProcessing"
    "cj_total_chunks r' = int (length (planSpecs p ?s ?m))"
    using run_persistAndDispatch [OF f1 r1 _ _ g(2,5,6) ne g(4), of ?s ?m "jd_JobCode ?job" "jd_Period ?job"
        "jd_CreatedBy ?job" "jd_CalcType ?job"] free keys heads routes by auto
  have "PackChunks (Some p) ?s ?m \<noteq> []" using packed_content [of p ?s ?m] ne by auto
  then obtain pw pws where "PackChunks (Some p) ?s ?m = pw # pws" by (cases "PackChunks (Some p) ?s ?m") auto
  with specFacts_firstWave [OF g(2,5)] p(2,4) have "specFacts new = filter (\<lambda>(m, v, ps). v = 0) (jobChunks j w')"
    by simp
  moreover have "run (planAndDispatch cfg j) w = (Inr (), w')"
    using f f1 r(1) st g(1,3,5,6) p(1) routes
    by (simp add: planAndDispatch_def run_andThen GetByID_def selectJob_def UpdateStatus_def buildDag_def
        buildFrom_def executePlan_def)
  ultimately show ?thesis using p(2,3,5-7)
    by (intro exI [of _ w'] exI [of _ r'] exI [of _ new] exI [of _ ?s] exI [of _ ?m]) (simp add: specFacts_def)
qed

lemma planning_plans:
  assumes "w_faults w = []" and "findJob j w = Some r" and "cj_status r = statusQueued"
    and "\<forall>c \<in> set (w_chunks w). cjc_job_id c \<noteq> j" and "distinct (map chunkKey (w_chunks w))"
    and "resolveInitialSet (sqlQueries (w_routes w)) (scopeOf (scanJobDTO r)) = Inr initial" and "initial \<noteq> []"
    and "acyclic (rmEdges (w_routes w))"
    and "\<forall>n \<in> needed (w_routes w) initial. \<exists>h. routeHeadOf (w_routes w) n = Some h \<and> 0 < h"
  shows "\<exists>w' r' new. run (planAndDispatch cfg j) w = (Inr (), w') \<and>
    distinct (concat (map (\<lambda>(m, v, ps). ps) (jobChunks j w'))) \<and>
    set (concat (map (\<lambda>(m, v, ps). ps) (jobChunks j w'))) = needed (w_routes w) initial \<and>
    (\<forall>(m, v, ps) \<in> set (jobChunks j w'). \<forall>n \<in> set ps. \<forall>u \<in> {u. (n, u) \<in> rmEdges (w_routes w)}.
       \<exists>(m', v', ps') \<in> set (jobChunks j w'). v' < v \<and> u \<in> set ps') \<and>
    w_chunkQueue w' = w_chunkQueue w @ map Some new \<and>
    specFacts new = filter (\<lambda>(m, v, ps). v = 0) (jobChunks j w') \<and>
    findJob j w' = Some r' \<and> cj_status r' = statusProcessing \<and>
    cj_total_chunks r' = int (length (jobChunks j w'))"
proof -
  obtain g where g: "Build (sqlQueries (w_routes w)) (scopeOf (scanJobDTO r)) = Some (Inr (g, sorted_list_of_set (dg_nodes g)))"
    "wf_graph g" "dg_nodes g = needed (w_routes w) initial"
    "\<And>d. deps g d = {u. d \<in> dg_nodes g \<and> (d, u) \<in> rmEdges (w_routes w)}"
    using Build_initial [OF assms(6)] unfolding needed_def by blast
  obtain p where p: "PlanWaves g = Some p" using PlanWaves_layers [OF g(2)] by blast
  have "depRel g \<subseteq> (rmEdges (w_routes w))\<inverse>" using g(4) by (auto simp: depRel_def)
  then have cyc: "wp_cyclic p = []"
    using assms(8) by (intro PlanWaves_acyclic [OF g(2) p]) (auto intro: acyclic_subset)
  have fin: "finite (dg_nodes g)" using g(2) by (simp add: wf_graph_def)
  obtain i rest where "initial = i # rest" using assms(7) by (cases initial) auto
  then have "i \<in> dg_nodes g" by (auto simp: g(3) needed_def)
  with fin have ids: "sorted_list_of_set (dg_nodes g) \<noteq> []" "set (sorted_list_of_set (dg_nodes g)) = dg_nodes g" by auto
  obtain w' r' new s m where w': "run (planAndDispatch cfg j) w = (Inr (), w')"
    "jobChunks j w' = specFacts (planSpecs p s m)" "w_chunkQueue w' = w_chunkQueue w @ map Some new"
    "specFacts new = filter (\<lambda>(m, v, ps). v = 0) (jobChunks j w')"
    "findJob j w' = Some r'" "cj_status r' = statusProcessing" "cj_total_chunks r' = int (length (jobChunks j w'))"
    using run_planAndDispatch [OF assms(1-5) g(1,2) ids p cyc] assms(9) ids(2) g(3) by metis
  have pids: "concat (map (\<lambda>(m, v, ps). ps) (jobChunks j w')) = concat (map cs_productIDs (planSpecs p s m))"
    by (simp add: w'(2) specFacts_def comp_def)
  have up: "\<exists>(m', v', ps') \<in> set (jobChunks j w'). v' < v \<and> u \<in> set ps'"
    if "(k, v, ps) \<in> set (jobChunks j w')" "n \<in> set ps" "(n, u) \<in> rmEdges (w_routes w)" for k v ps n u
  proof -
    from that(1) obtain c where c: "c \<in> set (planSpecs p s m)" "v = cs_waveNo c" "ps = cs_productIDs c"
      by (auto simp: w'(2) specFacts_def)
    have "n \<in> dg_nodes g" using planSpecs_products [OF g(2) p cyc, of s m] c(1,3) that(2) by auto
    then have "u \<in> deps g n" using that(3) by (simp add: g(4))
    from planSpecs_upstream [OF g(2) p c(1) _ this] that(2) c(2,3) show ?thesis
      by (fastforce simp: w'(2) specFacts_def)
  qed
  have products: "distinct (concat (map (\<lambda>(m, v, ps). ps) (jobChunks j w')))"
    "set (concat (map (\<lambda>(m, v, ps). ps) (jobChunks j w'))) = needed (w_routes w) initial"
    unfolding pids using planSpecs_products [OF g(2) p cyc, of s m] g(3) by simp_all
  have "\<forall>(m, v, ps) \<in> set (jobChunks j w'). \<forall>n \<in> set ps. \<forall>u \<in> {u. (n, u) \<in> rmEdges (w_routes w)}.
      \<exists>(m', v', ps') \<in> set (jobChunks j w'). v' < v \<and> u \<in> set ps'"
    by (intro ballI, clarify) (rule up)
  with products w' show ?thesis by blast
qed

text \<open>(C8) Planning a queued job whose dependency graph is acyclic succeeds: the chunks it
  persists carry every product the job needs exactly once, every direct dependency of a
  product is in a chunk of a strictly smaller wave, exactly the chunks of the first wave are
  handed to the workers, and the job is \<open>PROCESSING\<close> with the number of its chunks.\<close>

theorem planning_respects_dependencies:
  assumes "w_faults w = []" and "findJob j w = Some r" and "cj_status r = statusQueued"
    and "\<forall>c \<in> set (w_chunks w). cjc_job_id c \<noteq> j" and "distinct (map chunkKey (w_chunks w))"
    and "resolveInitialSet (sqlQueries (w_routes w)) (scopeOf (scanJobDTO r)) = Inr initial" and "initial \<noteq> []"
    and "acyclic (rmEdges (w_routes w))"
    and "\<forall>n \<in> needed (w_routes w) initial. \<exists>h. routeHeadOf (w_routes w) n = Some h \<and> 0 < h"
  shows "\<exists>w' r' new. run (planAndDispatch cfg j) w = (Inr (), w') \<and>
    distinct (concat (map (\<lambda>(m, v, ps). ps) (jobChunks j w'))) \<and>
    set (concat (map (\<lambda>(m, v, ps). ps) (jobChunks j w'))) = needed (w_routes w) initial \<and>
    (\<forall>(m, v, ps) \<in> set (jobChunks j w'). \<forall>n \<in> set ps. \<forall>u \<in> {u. (n, u) \<in> rmEdges (w_routes w)}.
       \<exists>(m', v', ps') \<in> set (jobChunks j w'). v' < v \<and> u \<in> set ps') \<and>
    w_chunkQueue w' = w_chunkQueue w @ map Some new \<and>
    specFacts new = filter (\<lambda>(m, v, ps). v = 0) (jobChunks j w') \<and>
    findJob j w' = Some r' \<and> cj_status r' = statusProcessing \<and>
    cj_total_chunks r' = int (length (jobChunks j w'))"
  by (rule planning_plans [OF assms])

lemma exampleEdges: "rmEdges exampleRoutes = {(2, 1)}"
  by code_simp

lemma exampleNeeded: "n \<in> needed exampleRoutes [2] \<Longrightarrow> n = 1 \<or> n = 2"
proof -
  assume "n \<in> needed exampleRoutes [2]"
  then have "(2, n) \<in> {(2, 1)}\<^sup>*" by (simp add: needed_def exampleEdges)
  then show ?thesis by (induction rule: rtrancl_induct) auto
qed

lemma exampleHeads: "routeHeadOf exampleRoutes 1 = Some 11" "routeHeadOf exampleRoutes 2 = Some 10"
  by code_simp+

theorem planning_respects_dependencies_witness:
  "\<exists>w'. run (planAndDispatch exampleConfig 1) exampleWorld = (Inr (), w') \<and>
     set (concat (map (\<lambda>(m, v, ps). ps) (jobChunks 1 w'))) = needed exampleRoutes [2]"
proof -
  have w: "w_faults exampleWorld = []" "findJob 1 exampleWorld = Some exampleJob" "w_chunks exampleWorld = []"
    "w_routes exampleWorld = exampleRoutes" "cj_status exampleJob = statusQueued"
    by (simp_all add: exampleWorld_def findJob_def exampleJob_def)
  have i: "resolveInitialSet (sqlQueries (w_routes exampleWorld)) (scopeOf (scanJobDTO exampleJob)) = Inr [2]"
    by code_simp
  have a: "acyclic (rmEdges (w_routes exampleWorld))"
    unfolding w(4) exampleEdges by (simp add: wf_acyclic)
  have h: "\<forall>n \<in> needed (w_routes exampleWorld) [2]. \<exists>h. routeHeadOf (w_routes exampleWorld) n = Some h \<and> 0 < h"
    unfolding w(4) using exampleNeeded exampleHeads by fastforce
  from planning_respects_dependencies [OF w(1,2,5) _ _ i _ a h, of exampleConfig] show ?thesis
    unfolding w(4) by (auto simp: w(3))
qed

section \<open>The outcome of a job\<close>

text \<open>The worker's verdict on a chunk and the coordinator's verdict on a job are the same
  function of the counts, except that a chunk with nothing to do succeeds while a job whose
  counters are all zero fails.\<close>

theorem classify_terminalStatus:
  assumes "0 \<le> succ" and "0 \<le> fl" and "0 \<le> blocked"
  shows "classify succ fl blocked = terminalStatus succ fl blocked \<longleftrightarrow> \<not> (succ = 0 \<and> fl = 0 \<and> blocked = 0)"
  using assms by (auto simp: classify_def terminalStatus_def)

theorem classify_terminalStatus_witness:
  "classify 3 1 0 = terminalStatus 3 1 0 \<and> classify 0 0 0 \<noteq> terminalStatus 0 0 0"
  using classify_terminalStatus [of 3 1 0] classify_terminalStatus [of 0 0 0] by simp

section \<open>The retries of the worker\<close>

definition findChunk :: "int \<Rightarrow> calc_world \<Rightarrow> cal_job_chunk option" where
  "findChunk i w = find (\<lambda>c. cjc_chunk_id c = i) (w_chunks w)"

lemma findChunk_update:
  assumes "\<And>c. cjc_chunk_id (f c) = cjc_chunk_id c"
  shows "findChunk i (updateChunks (\<lambda>c. cjc_chunk_id c = k) f w) = (if k = i then map_option f (findChunk i w) else findChunk i w)"
proof -
  have "find (\<lambda>c. cjc_chunk_id c = i) (map (\<lambda>r. if cjc_chunk_id r = k then f r else r) cs) =
      (if k = i then map_option f (find (\<lambda>c. cjc_chunk_id c = i) cs) else find (\<lambda>c. cjc_chunk_id c = i) cs)" for cs
    by (induction cs) (auto simp: assms)
  then show ?thesis by (simp add: findChunk_def updateWhere_def)
qed

lemma updateChunks_more [simp]:
  "w_faults (updateChunks c f w) = w_faults w" "w_replies (updateChunks c f w) = w_replies w"
  "w_deadLetters (updateChunks c f w) = w_deadLetters w" "w_now (updateChunks c f w) = w_now w"
  by (simp_all add: updateChunks_def)

lemma findChunk_queues [simp]:
  "findChunk i (w\<lparr>w_doneQueue := q\<rparr>) = findChunk i w" "findChunk i (w\<lparr>w_chunkQueue := cq\<rparr>) = findChunk i w"
  "findChunk i (w\<lparr>w_deadLetters := dl\<rparr>) = findChunk i w"
  by (simp_all add: findChunk_def)

text \<open>One delivery of a message whose calculation fails.\<close>

lemma run_handleChunk_failing:
  assumes "w_faults w = []" and "w_replies w = []"
    and "findChunk (cs_chunkID c) w = Some r" and "\<not> isTerminal (cjc_status r)"
  shows "\<exists>w' r'. run (handleChunk wid (Some c)) w = (Inr (), w') \<and> w_faults w' = [] \<and> w_replies w' = [] \<and>
    findChunk (cs_chunkID c) w' = Some r' \<and> cjc_retry_count r' = cjc_retry_count r + 1 \<and>
    (if cjc_retry_count r + 1 < 3
     then cjc_status r' = statusProcessing \<and> w_chunkQueue w' = w_chunkQueue w \<and> w_doneQueue w' = w_doneQueue w
     else cjc_status r' = statusFailed \<and> cjc_failed_count r' = int (length (cs_productIDs c)) \<and>
       w_chunkQueue w' = remove1 (Some c) (w_chunkQueue w) \<and>
       w_doneQueue w' = w_doneQueue w @ [Some \<lparr>ev_ChunkID = cs_chunkID c, ev_JobID = cs_jobID c,
         ev_WaveNo = cs_waveNo c, ev_Status = statusFailed, ev_SuccessCount = 0,
         ev_FailedCount = int (length (cs_productIDs c)), ev_BlockedCount = 0\<rparr>])"
  using assms
  by (simp add: handleChunk_def GetStatus_def processChunk_def workerTime_def MarkProcessing_def
      ProcessChunk_def handleFailure_def IncrementRetry_def Let_def run_andThen maxRetries_def MarkCompleted_def
      publishCompletion_def PublishChunkDone_def nackRequeue_def nackChunkDead_def
      findChunk_update flip: findChunk_def)


definition onlyChunk :: chunk_spec where
  "onlyChunk = \<lparr>cs_jobID = 1, cs_jobCode = [], cs_chunkID = 1, cs_chunkNumber = 1, cs_waveNo = 0,
     cs_period = ''202609'', cs_calcType = ''ACTUAL'', cs_productIDs = [1], cs_actor = []\<rparr>"

definition noReplies :: calc_world where
  "noReplies = (planNext exampleWorld)\<lparr>w_replies := []\<rparr>"

lemma noReplies_chunk:
  "w_faults noReplies = []" "w_replies noReplies = []"
  "map_option (\<lambda>c. (isTerminal (cjc_status c), cjc_retry_count c)) (findChunk (cs_chunkID onlyChunk) noReplies) = Some (False, 0)"
  by code_simp+


section \<open>The monthly trigger\<close>

definition nothingTriggered :: "calc_world \<Rightarrow> calc_world \<Rightarrow> bool" where
  "nothingTriggered w w' \<longleftrightarrow> w_jobs w' = w_jobs w \<and> w_jobQueue w' = w_jobQueue w"

lemma triple_IsPeriodLocked:
  "triple (\<lambda>w. nothingTriggered w0 w \<and> w_locks w = w_locks w0) (IsPeriodLocked p ct)
     (\<lambda>r w. nothingTriggered w0 w \<and> w_locks w = w_locks w0 \<and> (\<forall>b. r = Inr b \<longrightarrow> b = isPeriodLockedSQL w0 p ct))"
  unfolding IsPeriodLocked_def reading_def
  by (rule triple_call) (auto simp: nothingTriggered_def isPeriodLockedSQL_def)

text \<open>(C26) The cron trigger fails closed: when the period is locked, and also when the lock
  cannot be checked, it inserts no job and triggers nothing, whatever calls fail.\<close>

theorem locked_period_triggers_nothing:
  assumes "isPeriodLockedSQL w period cronCalcType \<or> (\<exists>fs. w_faults w = Refused # fs)"
  shows "w_jobs (snd (run (triggerJob code period) w)) = w_jobs w \<and>
    w_jobQueue (snd (run (triggerJob code period) w)) = w_jobQueue w \<and>
    fst (run (triggerJob code period) w) \<noteq> Inr True"
proof (cases "isPeriodLockedSQL w period cronCalcType")
  case True
  have "triple (\<lambda>v. nothingTriggered w v \<and> w_locks v = w_locks w) (triggerJob code period)
      (\<lambda>r v. nothingTriggered w v \<and> r \<noteq> Inr True)"
    unfolding triggerJob_def
    by (rule triple_andThen [OF triple_IsPeriodLocked])
      (auto simp: True triple_def nothingTriggered_def)
  from tripleD [OF this, of w] show ?thesis by (simp add: nothingTriggered_def)
next
  case False
  with assms obtain fs where "w_faults w = Refused # fs" by blast
  then show ?thesis
    by (simp add: triggerJob_def IsPeriodLocked_def reading_def run_andThen call_def)
qed

definition lockedWorld :: calc_world where
  "lockedWorld = exampleWorld\<lparr>w_locks := [\<lparr>cpl_period = ''202608'', cpl_calc_type = ''ACTUAL'', cpl_unlocked_at = None\<rparr>]\<rparr>"

theorem locked_period_triggers_nothing_witness:
  "w_jobs (snd (run (triggerJob ''J'' ''202608'') lockedWorld)) = [exampleJob]"
proof -
  have "isPeriodLockedSQL lockedWorld ''202608'' cronCalcType"
    by (simp add: isPeriodLockedSQL_def lockedWorld_def cronCalcType_def)
  then show ?thesis
    using locked_period_triggers_nothing [of lockedWorld "''202608''" "''J''"]
    by (simp add: lockedWorld_def exampleWorld_def)
qed

end
