(* ===== verification/CalcFaults.thy ===== *)
theory CalcFaults
  imports CalcBehaviour
begin

text \<open>
  The sweeper, the monthly trigger, and two schedules of failures that the engine does not
  recover from: a completion report that is lost after the chunk is recorded, and a progress
  update that fails after the chunk is claimed.
\<close>

section \<open>The sweeper\<close>

definition sweptChunk :: "time \<Rightarrow> cal_job_chunk \<Rightarrow> cal_job_chunk" where
  "sweptChunk now c = c\<lparr>cjc_status := statusFailed, cjc_completed_at := Some now,
     cjc_error_message := Some ''stuck chunk timeout: worker likely crashed''\<rparr>"

definition sweptReport :: "stuck_chunk_row \<Rightarrow> chunk_completed_event" where
  "sweptReport sc = \<lparr>ev_ChunkID = sc_ChunkID sc, ev_JobID = sc_JobID sc, ev_WaveNo = sc_WaveNo sc,
     ev_Status = statusFailed, ev_SuccessCount = 0, ev_FailedCount = sc_ProductCount sc,
     ev_BlockedCount = 0\<rparr>"

definition sweepIds :: "time \<Rightarrow> int set \<Rightarrow> cal_job_chunk \<Rightarrow> cal_job_chunk" where
  "sweepIds now is c = (if cjc_chunk_id c \<in> is \<and> (cjc_status c = statusDispatched \<or> cjc_status c = statusProcessing)
     then sweptChunk now c else c)"

lemma sweepIds_insert: "sweepIds now is (sweepIds now {i} c) = sweepIds now (insert i is) c"
  by (auto simp: sweepIds_def sweptChunk_def)

lemma sweepIds_none [simp]: "sweepIds now {} = (\<lambda>c. c)"
  by (rule ext) (simp add: sweepIds_def)

lemma run_sweepOne:
  assumes "w_faults w = []"
  shows "run (sweepOne sc) w = (Inr (), w\<lparr>w_chunks := map (sweepIds (w_now w) {sc_ChunkID sc}) (w_chunks w),
     w_doneQueue := w_doneQueue w @ [Some (sweptReport sc)]\<rparr>)"
  using assms unfolding sweepIds_def sweptChunk_def sweptReport_def
  by (simp add: sweepOne_def MarkChunkFailed_def PublishChunkDone_def updateChunks_def updateWhere_def)

lemma run_forEach_sweepOne:
  assumes "w_faults w = []"
  shows "run (forEach sweepOne scs) w = (Inr (), w\<lparr>w_chunks := map (sweepIds (w_now w) (sc_ChunkID ` set scs)) (w_chunks w),
     w_doneQueue := w_doneQueue w @ map (Some \<circ> sweptReport) scs\<rparr>)"
  using assms
proof (induction scs arbitrary: w)
  case (Cons sc scs)
  then show ?case
    by (simp add: run_andThen run_sweepOne sweepIds_insert comp_def)
qed simp

lemma stuckChunks_ids: "sc_ChunkID ` set (stuckChunks d w) = cjc_chunk_id ` set (filter (isStuck (w_now w) d) (w_chunks w))"
  by (auto simp: stuckChunks_def image_image)

text \<open>(C25) A sweep without failures marks exactly the chunks that are dispatched or processing
  since before the cut-off as \<open>FAILED\<close>, leaves every other chunk as it is, reports each swept
  chunk to the coordinator with all its products failed, and leaves no stuck chunk behind.\<close>

theorem doSweep_recovers_stuck_chunks:
  assumes "w_faults w = []" and "distinct (map cjc_chunk_id (w_chunks w))"
  shows "\<exists>w'. run (doSweep d) w = (Inr (), w') \<and>
    w_chunks w' = map (\<lambda>c. if isStuck (w_now w) d c then sweptChunk (w_now w) c else c) (w_chunks w) \<and>
    w_doneQueue w' = w_doneQueue w @ map (Some \<circ> sweptReport) (stuckChunks d w) \<and>
    w_jobs w' = w_jobs w \<and> w_chunkQueue w' = w_chunkQueue w \<and> stuckChunks d w' = []"
proof -
  let ?ids = "sc_ChunkID ` set (stuckChunks d w)"
  let ?w' = "w\<lparr>w_chunks := map (sweepIds (w_now w) ?ids) (w_chunks w),
     w_doneQueue := w_doneQueue w @ map (Some \<circ> sweptReport) (stuckChunks d w)\<rparr>"
  have r: "run (doSweep d) w = (Inr (), ?w')"
    using assms(1) run_forEach_sweepOne [OF assms(1)] by (simp add: doSweep_def FindStuckChunks_def)
  have s: "sweepIds (w_now w) ?ids c = (if isStuck (w_now w) d c then sweptChunk (w_now w) c else c)"
    if "c \<in> set (w_chunks w)" for c
    using that assms(2) unfolding stuckChunks_ids
    by (auto simp: sweepIds_def isStuck_def distinct_map inj_on_def)
  have "\<not> isStuck now d (sweptChunk now' c)" for now now' c
    by (simp add: isStuck_def sweptChunk_def)
  then have "filter (isStuck (w_now w) d) (map (sweepIds (w_now w) ?ids) (w_chunks w)) = []"
    using s by (auto simp: filter_empty_conv)
  then have "stuckChunks d ?w' = []" by (simp add: stuckChunks_def [of d ?w'])
  with r s show ?thesis by (intro exI [of _ ?w']) simp
qed

definition crashedWorld :: calc_world where
  "crashedWorld = (planNext exampleWorld)\<lparr>w_now := 3600 * 1000000000\<rparr>"

lemma crashedWorld_facts: "w_faults crashedWorld = []" "distinct (map cjc_chunk_id (w_chunks crashedWorld))"
  "map (isStuck (w_now crashedWorld) (sweepTimeout 0)) (w_chunks crashedWorld) = [True, False]"
  by code_simp+

theorem doSweep_recovers_stuck_chunks_witness:
  "\<exists>w'. run (doSweep (sweepTimeout 0)) crashedWorld = (Inr (), w') \<and>
    map cjc_status (w_chunks w') = [statusFailed, statusQueued]"
proof -
  have "map (\<lambda>c. cjc_status (if isStuck (w_now crashedWorld) (sweepTimeout 0) c then sweptChunk (w_now crashedWorld) c else c))
      (w_chunks crashedWorld) = [statusFailed, statusQueued]" by code_simp
  then show ?thesis
    using doSweep_recovers_stuck_chunks [OF crashedWorld_facts(1,2), of "sweepTimeout 0"] by (auto simp: comp_def)
qed

section \<open>Two losses\<close>

text \<open>The worker's calls for one chunk are: status, processing, completed, publish, acknowledge.\<close>

definition lostReport :: calc_world where
  "lostReport = workNext ((planNext exampleWorld)\<lparr>w_faults := [CarriedOut, CarriedOut, CarriedOut, Refused, CarriedOut]\<rparr>)"

lemma engineEnv_faults: "engineEnv w (w\<lparr>w_faults := fs\<rparr>)"
  by (auto simp: engineEnv_def)

lemma lostReport_reached: "engineReaches exampleWorld lostReport"
proof -
  let ?w = "planNext exampleWorld"
  have "engineReaches exampleWorld (?w\<lparr>w_faults := [CarriedOut, CarriedOut, CarriedOut, Refused, CarriedOut]\<rparr>)"
    by (rule engineReaches_env [OF planNext_reaches [OF engineReaches_start exampleQueues(1)]])
      (rule engineEnv_faults)
  moreover have "w_chunkQueue (?w\<lparr>w_faults := fs\<rparr>) \<noteq> []" for fs using exampleQueues(2) by simp
  ultimately show ?thesis unfolding lostReport_def by (rule workNext_reaches)
qed

lemma lostReport_facts:
  "w_faults lostReport = []" "map cjc_status (w_chunks lostReport) = [statusSuccess, statusQueued]"
  "w_chunkQueue lostReport = []" "w_doneQueue lostReport = []" "w_jobQueue lostReport = []"
  "map cj_status (w_jobs lostReport) = [statusProcessing]"
  by code_simp+


text \<open>The coordinator's first calls for a completion are the claim and the counter update.\<close>

definition lostCount :: calc_world where
  "lostCount = advanceNext (workNext (advanceNext (advanceNext
     ((workNext (planNext exampleWorld))\<lparr>w_faults := [CarriedOut, Refused]\<rparr>))))"

text \<open>When the counter update fails after the claim, the redelivered completion skips it: the
  job finishes as \<open>SUCCESS\<close> with both chunks completed and counts one chunk and one product.\<close>

theorem lost_count_is_never_repaired:
  "engineReaches exampleWorld lostCount \<and>
   map (\<lambda>j. (cj_status j, cj_total_chunks j, cj_processed_chunks j, cj_total_products j, cj_success_count j)) (w_jobs lostCount)
     = [(statusSuccess, 2, 1, 2, 1)] \<and>
   map cjc_status (w_chunks lostCount) = [statusSuccess, statusSuccess] \<and>
   w_jobQueue lostCount = [] \<and> w_chunkQueue lostCount = [] \<and> w_doneQueue lostCount = []"
proof -
  let ?w = "(workNext (planNext exampleWorld))\<lparr>w_faults := [CarriedOut, Refused]\<rparr>"
  have q: "w_doneQueue ?w \<noteq> []" "w_doneQueue (advanceNext ?w) \<noteq> []" "w_chunkQueue (advanceNext (advanceNext ?w)) \<noteq> []"
    "w_doneQueue (workNext (advanceNext (advanceNext ?w))) \<noteq> []" by code_simp+
  have "engineReaches exampleWorld ?w"
    by (rule engineReaches_env [OF workNext_reaches [OF planNext_reaches [OF engineReaches_start]]])
      (simp_all add: engineEnv_faults exampleQueues)
  then have "engineReaches exampleWorld lostCount"
    unfolding lostCount_def by (intro advanceNext_reaches workNext_reaches q)
  moreover have "map (\<lambda>j. (cj_status j, cj_total_chunks j, cj_processed_chunks j, cj_total_products j, cj_success_count j)) (w_jobs lostCount)
     = [(statusSuccess, 2, 1, 2, 1)]" "map cjc_status (w_chunks lostCount) = [statusSuccess, statusSuccess]"
    "w_jobQueue lostCount = []" "w_chunkQueue lostCount = []" "w_doneQueue lostCount = []" by code_simp+
  ultimately show ?thesis by simp
qed

section \<open>The monthly trigger\<close>

fun digitsValue :: "nat \<Rightarrow> string \<Rightarrow> nat" where
  "digitsValue a [] = a"
| "digitsValue a (c # cs) = digitsValue (10 * a + (of_char c - 48)) cs"

lemma digitsValue_append: "digitsValue a (xs @ ys) = digitsValue (digitsValue a xs) ys"
  by (induction xs arbitrary: a) auto

lemma digitsValue_zeros: "digitsValue 0 (replicate k CHR ''0'') = 0"
  by (induction k) auto

lemma digitsValue_digits: "digitsValue 0 (digits n) = n"
proof (induction n rule: digits.induct)
  case (1 n)
  show ?case
  proof (cases "n < 10")
    case False
    then have "digitsValue 0 (digits n) = digitsValue (n div 10) [digitChar (int (n mod 10))]"
      using 1 by (subst digits.simps) (simp add: digitsValue_append)
    then show ?thesis by (simp add: digitChar_def of_char_of nat_add_distrib take_bit_eq_mod)
  qed (subst digits.simps, simp add: digitChar_def of_char_of nat_add_distrib take_bit_eq_mod)
qed

lemma length_digits: "n < 10 ^ k \<Longrightarrow> 0 < k \<Longrightarrow> length (digits n) \<le> k"
proof (induction n arbitrary: k rule: digits.induct)
  case (1 n)
  show ?case
  proof (cases "n < 10")
    case False
    with 1(2,3) have "0 < k - 1" by (cases k; cases "k - 1") auto
    moreover have "n div 10 < 10 ^ (k - 1)" using 1(2,3) by (cases k) (auto simp: less_mult_imp_div_less mult.commute)
    ultimately show ?thesis using 1(1) [OF False] 1(3) False by (subst digits.simps) fastforce
  qed (use 1(3) in \<open>subst digits.simps, simp\<close>)
qed

lemma zeroPad_correct:
  assumes "n < 10 ^ k" and "0 < k"
  shows "length (zeroPad k n) = k \<and> digitsValue 0 (zeroPad k n) = n"
  using length_digits [OF assms]
  by (simp add: zeroPad_def digitsValue_append digitsValue_zeros digitsValue_digits)

text \<open>The period the trigger runs for is six characters \<open>YYYYMM\<close> that read back as the
  month before the current one, January going back to December of the year before.\<close>

theorem previousPeriodYYYYMM_is_previous_month:
  assumes "1 \<le> y" and "y \<le> 9999" and "1 \<le> m" and "m \<le> 12"
  shows "let p = previousPeriodYYYYMM y m; year = digitsValue 0 (take 4 p); month = digitsValue 0 (drop 4 p)
    in length p = 6 \<and> 1 \<le> month \<and> month \<le> 12 \<and> 12 * year + month + 1 = 12 * y + m"
proof -
  obtain py pm where p: "previousMonth y m = (py, pm)" by (cases "previousMonth y m")
  then have b: "py < 10 ^ 4" "pm < 10 ^ 2" "1 \<le> pm" "pm \<le> 12" "12 * py + pm + 1 = 12 * y + m"
    using assms by (auto simp: previousMonth_def split: if_splits)
  have z: "length (zeroPad 4 py) = 4" "digitsValue 0 (zeroPad 4 py) = py"
    "length (zeroPad 2 pm) = 2" "digitsValue 0 (zeroPad 2 pm) = pm"
    using zeroPad_correct [OF b(1)] zeroPad_correct [OF b(2)] by simp_all
  show ?thesis using b(3-5) by (simp add: previousPeriodYYYYMM_def p z Let_def)
qed

theorem previousPeriodYYYYMM_is_previous_month_witness:
  "digitsValue 0 (take 4 (previousPeriodYYYYMM 2026 1)) = 2025 \<and>
   digitsValue 0 (drop 4 (previousPeriodYYYYMM 2026 1)) = 12"
proof -
  let ?p = "previousPeriodYYYYMM 2026 1"
  have "1 \<le> digitsValue 0 (drop 4 ?p) \<and> digitsValue 0 (drop 4 ?p) \<le> 12 \<and>
      12 * digitsValue 0 (take 4 ?p) + digitsValue 0 (drop 4 ?p) + 1 = 12 * 2026 + 1"
    using previousPeriodYYYYMM_is_previous_month [of 2026 1] by (simp add: Let_def)
  then show ?thesis by presburger
qed

end
