(* ===== verification/CostRoute.thy ===== *)
theory CostRoute
  imports Prelude Complex_Main
begin

text \<open>
  \<^verbatim>\<open>services/finance/internal/domain/costroute\<close>: the routing graph of a product and the
  ratios of its raw material lines (\<^verbatim>\<open>types.go\<close>, \<^verbatim>\<open>rm_ratio.go\<close>).

  A \<open>float64\<close> is a value of a type \<open>'f\<close> of which only the operations are known: \<open>'f\<close> ranges
  over HOL's arithmetic classes without axioms (\<open>zero\<close>, \<open>one\<close>, \<open>plus\<close>, \<open>minus\<close>, \<open>times\<close>,
  \<open>inverse\<close>, \<open>ord\<close>), so no law of addition or order is used unless a theorem assumes it,
  and every result holds of IEEE double arithmetic. The comparison \<open>x == y\<close> of floats is
  \<open>x \<le> y \<and> y \<le> x\<close>, which is false for NaN and true for the two zeros.
\<close>

section \<open>Floats and maps\<close>

definition floatEq :: "'f::ord \<Rightarrow> 'f \<Rightarrow> bool" where
  "floatEq x y \<longleftrightarrow> x \<le> y \<and> y \<le> x"

definition mapGet :: "('k \<Rightarrow> ('f::zero) option) \<Rightarrow> 'k \<Rightarrow> 'f" where
  "mapGet m k = (case m k of None \<Rightarrow> 0 | Some v \<Rightarrow> v)"

text \<open>\<open>strings.ToUpper\<close> and \<open>strings.EqualFold\<close>, as they act on ASCII letters.\<close>

definition toUpperChar :: "char \<Rightarrow> char" where
  "toUpperChar c = (if 97 \<le> (of_char c :: nat) \<and> (of_char c :: nat) \<le> 122 then char_of (of_char c - 32 :: nat) else c)"

definition toUpper :: "string \<Rightarrow> string" where
  "toUpper = map toUpperChar"

definition equalFold :: "string \<Rightarrow> string \<Rightarrow> bool" where
  "equalFold s t \<longleftrightarrow> toUpper s = toUpper t"

section \<open>The routing graph\<close>

definition RmTypeProduct :: string where "RmTypeProduct = ''PRODUCT''"

definition RmTypeItem :: string where "RmTypeItem = ''ITEM''"

definition RmTypeGroup :: string where "RmTypeGroup = ''GROUP''"

lemma rmTypes_distinct [simp]:
  "RmTypeProduct \<noteq> RmTypeItem" "RmTypeProduct \<noteq> RmTypeGroup" "RmTypeItem \<noteq> RmTypeGroup"
  "RmTypeItem \<noteq> RmTypeProduct" "RmTypeGroup \<noteq> RmTypeProduct" "RmTypeGroup \<noteq> RmTypeItem"
  by (simp_all add: RmTypeProduct_def RmTypeItem_def RmTypeGroup_def)

text \<open>
  A note says which input of a line was missing; the constructors are the code's message
  templates, whose texts differ, and no note is \<open>None\<close>.
\<close>

datatype ratio_note =
  NoUpstreamDenier int | GroupHasNoDenier string | SpandexDraftMissing string | TotalDenierZero int

datatype ratio_source = NoSource | RatioSourceDenier | RatioSourceInput

text \<open>The fields of a raw material line that are only displayed are left out.\<close>

record 'f rm =
  rm_RmType :: string
  rm_RmProductSysID :: int
  rm_RmItemCode :: string
  rm_RmGroupCode :: string
  rm_RouteRmShadeCode :: string
  rm_RouteRmRatio :: 'f
  rm_EffectiveRatio :: 'f
  rm_ComputedRatio :: 'f
  rm_RatioSource :: ratio_source
  rm_Denier :: 'f
  rm_RatioNote :: "ratio_note option"
  rm_DenierOverridden :: bool

record 'f seq =
  sq_ProductSysID :: int
  sq_RouteLevel :: int
  sq_Rms :: "'f rm option list"
  sq_RMRatioMode :: string

record route_head =
  hd_HeadID :: int
  hd_ProductSysID :: int
  hd_RMRatioMode :: string

record 'f graph =
  gr_Head :: "route_head option"
  gr_Seqs :: "'f seq option list"

section \<open>Ratios of one sequence\<close>

definition RMRatioModeInput :: string where "RMRatioModeInput = ''INPUT''"

definition RMRatioModeDenier :: string where "RMRatioModeDenier = ''DENIER''"

definition IsDenierMode :: "string \<Rightarrow> bool" where
  "IsDenierMode mode \<longleftrightarrow> equalFold (trimSpace mode) RMRatioModeDenier"

definition NormalizedRMRatioMode :: "string \<Rightarrow> string" where
  "NormalizedRMRatioMode mode = (if IsDenierMode mode then RMRatioModeDenier else RMRatioModeInput)"

record 'f ratio_source_data =
  rs_Mode :: string
  rs_UpstreamDenier :: "int \<Rightarrow> 'f option"
  rs_GroupDenier :: "string \<Rightarrow> 'f option"
  rs_GroupUseDraft :: "string \<Rightarrow> bool"
  rs_SpandexDraft :: 'f
  rs_ProductDenierOverride :: "int \<Rightarrow> 'f option"
  rs_GroupDenierOverride :: "string \<Rightarrow> 'f option"

record 'f line_ratio =
  lr_Ratio :: 'f
  lr_Denier :: 'f
  lr_Source :: ratio_source
  lr_Note :: "ratio_note option"
  lr_Overridden :: bool

text \<open>A nil line yields the zero value.\<close>

definition zeroLine :: "('f::zero) line_ratio" where
  "zeroLine = \<lparr>lr_Ratio = 0, lr_Denier = 0, lr_Source = NoSource, lr_Note = None, lr_Overridden = False\<rparr>"

definition inputRatios :: "('f::zero) seq \<Rightarrow> 'f line_ratio list" where
  "inputRatios seq =
     map (\<lambda>rm. case rm of None \<Rightarrow> zeroLine | Some r \<Rightarrow> zeroLine\<lparr>lr_Ratio := rm_RouteRmRatio r\<rparr>) (sq_Rms seq)"

definition addNote :: "ratio_note option \<Rightarrow> ratio_note list \<Rightarrow> ratio_note list" where
  "addNote msg ns = (case msg of None \<Rightarrow> ns | Some m \<Rightarrow> if m \<in> set ns then ns else ns @ [m])"

definition lineOverride :: "('f::{zero,ord}) rm \<Rightarrow> 'f ratio_source_data \<Rightarrow> 'f option" where
  "lineOverride rm src =
     (if rm_RmType rm = RmTypeProduct then
        let v = mapGet (rs_ProductDenierOverride src) (rm_RmProductSysID rm) in if 0 < v then Some v else None
      else if rm_RmType rm = RmTypeGroup then
        let v = mapGet (rs_GroupDenierOverride src) (rm_RmGroupCode rm) in if 0 < v then Some v else None
      else None)"

text \<open>The denier of a line and the note, or \<open>None\<close> when it is no denier line.\<close>

definition masterLineDenier ::
  "('f::{zero,inverse,ord}) rm \<Rightarrow> 'f ratio_source_data \<Rightarrow> ('f \<times> ratio_note option) option" where
  "masterLineDenier rm src =
     (if rm_RmType rm = RmTypeProduct then
        let v = mapGet (rs_UpstreamDenier src) (rm_RmProductSysID rm)
        in if v \<le> 0 then Some (0, Some (NoUpstreamDenier (rm_RmProductSysID rm))) else Some (v, None)
      else if rm_RmType rm = RmTypeGroup then
        (case rs_GroupDenier src (rm_RmGroupCode rm) of
           None \<Rightarrow> None
         | Some headDenier \<Rightarrow>
             if headDenier \<le> 0 then Some (0, Some (GroupHasNoDenier (rm_RmGroupCode rm)))
             else if \<not> rs_GroupUseDraft src (rm_RmGroupCode rm) then Some (headDenier, None)
             else if rs_SpandexDraft src \<le> 0 then Some (0, Some (SpandexDraftMissing (rm_RmGroupCode rm)))
             else Some (headDenier / rs_SpandexDraft src, None))
      else None)"

definition lineDenier ::
  "('f::{zero,inverse,ord}) rm \<Rightarrow> 'f ratio_source_data \<Rightarrow> ('f \<times> ratio_note option \<times> bool) option" where
  "lineDenier rm src =
     (case lineOverride rm src of
        Some v \<Rightarrow> Some (v, None, True)
      | None \<Rightarrow> map_option (\<lambda>(d, msg). (d, msg, False)) (masterLineDenier rm src))"

text \<open>The first loop: the lines, the sum of the deniers so far, and the notes.\<close>

definition ratioLine :: "('f::{zero,inverse,ord}) ratio_source_data \<Rightarrow> 'f rm option \<Rightarrow> 'f line_ratio" where
  "ratioLine src rm =
     (case rm of
        None \<Rightarrow> zeroLine
      | Some r \<Rightarrow> (case lineDenier r src of
          None \<Rightarrow> zeroLine\<lparr>lr_Ratio := rm_RouteRmRatio r, lr_Source := RatioSourceInput\<rparr>
        | Some (d, msg, overridden) \<Rightarrow>
            \<lparr>lr_Ratio = 0, lr_Denier = d, lr_Source = RatioSourceDenier, lr_Note = msg, lr_Overridden = overridden\<rparr>))"

definition ratioStep ::
  "('f::{zero,plus,inverse,ord}) ratio_source_data \<Rightarrow> 'f rm option
     \<Rightarrow> 'f line_ratio list \<times> 'f \<times> ratio_note list \<Rightarrow> 'f line_ratio list \<times> 'f \<times> ratio_note list" where
  "ratioStep src rm = (\<lambda>(out, tot, notes).
     let l = ratioLine src rm
     in if lr_Source l = RatioSourceDenier then (out @ [l], tot + lr_Denier l, addNote (lr_Note l) notes)
        else (out @ [l], tot, notes))"

text \<open>The second loop runs over the denier lines only.\<close>

definition onDenierLines :: "('f line_ratio \<Rightarrow> 'f line_ratio) \<Rightarrow> 'f line_ratio list \<Rightarrow> 'f line_ratio list" where
  "onDenierLines f = map (\<lambda>l. if lr_Source l = RatioSourceDenier then f l else l)"

definition ComputeSeqRMRatios ::
  "('f::{zero,plus,inverse,ord}) seq option \<Rightarrow> 'f ratio_source_data \<Rightarrow> 'f line_ratio list \<times> ratio_note list" where
  "ComputeSeqRMRatios sq src =
     (case sq of
        None \<Rightarrow> ([], [])
      | Some seq \<Rightarrow>
          if \<not> IsDenierMode (rs_Mode src) then (inputRatios seq, [])
          else (case fold (ratioStep src) (sq_Rms seq) ([], 0, []) of
            (out, tot, notes) \<Rightarrow>
              if \<not> list_ex (\<lambda>l. lr_Source l = RatioSourceDenier) out then (out, notes)
              else if tot \<le> 0 then
                let msg = Some (TotalDenierZero (sq_RouteLevel seq))
                in (onDenierLines (\<lambda>l. if lr_Note l = None then l\<lparr>lr_Note := msg\<rparr> else l) out, addNote msg notes)
              else (onDenierLines (\<lambda>l. l\<lparr>lr_Ratio := lr_Denier l / tot\<rparr>) out, notes)))"

section \<open>Annotating a graph\<close>

record 'f denier_overrides =
  do_Product :: "int \<Rightarrow> 'f option"
  do_Group :: "string \<Rightarrow> 'f option"

definition noOverrides :: "'f denier_overrides" where
  "noOverrides = \<lparr>do_Product = (\<lambda>_. None), do_Group = (\<lambda>_. None)\<rparr>"

record 'f ratio_sources =
  ra_Modes :: "int \<Rightarrow> string"
  ra_UpstreamDenier :: "int \<Rightarrow> 'f option"
  ra_GroupDenier :: "string \<Rightarrow> 'f option"
  ra_GroupUseDraft :: "string \<Rightarrow> bool"
  ra_SpandexDraft :: "int \<Rightarrow> 'f option"
  ra_Overrides :: "int \<Rightarrow> 'f denier_overrides option"

definition overridesOf :: "'f ratio_sources \<Rightarrow> int \<Rightarrow> 'f denier_overrides" where
  "overridesOf src p = (case ra_Overrides src p of None \<Rightarrow> noOverrides | Some r \<Rightarrow> r)"

definition seqRatioSource :: "('f::zero) ratio_sources \<Rightarrow> 'f seq \<Rightarrow> 'f ratio_source_data" where
  "seqRatioSource src seq =
     \<lparr>rs_Mode = NormalizedRMRatioMode (ra_Modes src (sq_ProductSysID seq)),
      rs_UpstreamDenier = ra_UpstreamDenier src, rs_GroupDenier = ra_GroupDenier src,
      rs_GroupUseDraft = ra_GroupUseDraft src,
      rs_SpandexDraft = mapGet (ra_SpandexDraft src) (sq_ProductSysID seq),
      rs_ProductDenierOverride = do_Product (overridesOf src (sq_ProductSysID seq)),
      rs_GroupDenierOverride = do_Group (overridesOf src (sq_ProductSysID seq))\<rparr>"

definition annotateRm :: "'f rm option \<Rightarrow> 'f line_ratio \<Rightarrow> 'f rm option" where
  "annotateRm rm l =
     map_option (\<lambda>r. r\<lparr>rm_ComputedRatio := lr_Ratio l, rm_RatioSource := lr_Source l,
       rm_Denier := lr_Denier l, rm_RatioNote := lr_Note l, rm_DenierOverridden := lr_Overridden l,
       rm_EffectiveRatio := (if lr_Source l = RatioSourceDenier then lr_Ratio l else rm_EffectiveRatio r)\<rparr>) rm"

definition annotateSeq :: "('f::{zero,plus,inverse,ord}) ratio_sources \<Rightarrow> 'f seq \<Rightarrow> 'f seq" where
  "annotateSeq src seq =
     (let stamped = seq\<lparr>sq_RMRatioMode := NormalizedRMRatioMode (ra_Modes src (sq_ProductSysID seq))\<rparr>
      in stamped\<lparr>sq_Rms := map2 annotateRm (sq_Rms seq) (fst (ComputeSeqRMRatios (Some stamped) (seqRatioSource src seq)))\<rparr>)"

definition AnnotateRMRatios :: "('f::{zero,plus,inverse,ord}) ratio_sources \<Rightarrow> 'f graph \<Rightarrow> 'f graph" where
  "AnnotateRMRatios src g = g\<lparr>
     gr_Head := map_option (\<lambda>h. h\<lparr>hd_RMRatioMode := NormalizedRMRatioMode (ra_Modes src (hd_ProductSysID h))\<rparr>) (gr_Head g),
     gr_Seqs := map (map_option (annotateSeq src)) (gr_Seqs g)\<rparr>"

text \<open>What annotating needs loaded.\<close>

definition insertKey :: "'k \<Rightarrow> 'k list \<Rightarrow> 'k list" where
  "insertKey k ks = (if k \<in> set ks then ks else ks @ [k])"

definition rmKeys :: "'f rm option \<Rightarrow> int list \<times> string list \<Rightarrow> int list \<times> string list" where
  "rmKeys rm = (\<lambda>(ups, grps).
     (case rm of
        None \<Rightarrow> (ups, grps)
      | Some r \<Rightarrow>
          if rm_RmType r = RmTypeProduct then (insertKey (rm_RmProductSysID r) ups, grps)
          else if rm_RmType r = RmTypeGroup \<and> rm_RmGroupCode r \<noteq> [] then (ups, insertKey (rm_RmGroupCode r) grps)
          else (ups, grps)))"

definition seqKeys ::
  "(int \<Rightarrow> string) \<Rightarrow> 'f seq option \<Rightarrow> int list \<times> string list \<times> int list \<Rightarrow> int list \<times> string list \<times> int list" where
  "seqKeys modes sq = (\<lambda>(ups, grps, prods).
     (case sq of
        None \<Rightarrow> (ups, grps, prods)
      | Some seq \<Rightarrow>
          if \<not> IsDenierMode (modes (sq_ProductSysID seq)) then (ups, grps, prods)
          else (case fold rmKeys (sq_Rms seq) (ups, grps) of
            (ups', grps') \<Rightarrow> (ups', grps', insertKey (sq_ProductSysID seq) prods))))"

definition DenierInputKeys :: "(int \<Rightarrow> string) \<Rightarrow> 'f graph \<Rightarrow> int list \<times> string list \<times> int list" where
  "DenierInputKeys modes g = fold (seqKeys modes) (gr_Seqs g) ([], [], [])"

section \<open>What the ratios are\<close>

definition denierLines :: "('f::{zero,inverse,ord}) ratio_source_data \<Rightarrow> 'f rm option list \<Rightarrow> 'f line_ratio list" where
  "denierLines src rms = filter (\<lambda>l. lr_Source l = RatioSourceDenier) (map (ratioLine src) rms)"

definition totalDenier :: "('f::{zero,plus,inverse,ord}) ratio_source_data \<Rightarrow> 'f rm option list \<Rightarrow> 'f" where
  "totalDenier src rms = fold (\<lambda>l t. t + lr_Denier l) (denierLines src rms) 0"

lemma fold_ratioStep:
  "fold (ratioStep src) rms (out, t, ns) =
   (out @ map (ratioLine src) rms, fold (\<lambda>l t. t + lr_Denier l) (denierLines src rms) t,
    fold (\<lambda>l. addNote (lr_Note l)) (denierLines src rms) ns)"
  by (induction rms arbitrary: out t ns) (auto simp: ratioStep_def denierLines_def Let_def)

lemma list_ex_denier:
  "list_ex (\<lambda>l. lr_Source l = RatioSourceDenier) (map (ratioLine src) rms) \<longleftrightarrow> denierLines src rms \<noteq> []"
  by (auto simp: denierLines_def filter_empty_conv list_ex_iff)

text \<open>The line that the computation yields for one raw material line.\<close>

definition resolvedLine :: "('f::{zero,plus,inverse,ord}) ratio_source_data \<Rightarrow> int \<Rightarrow> 'f \<Rightarrow> 'f rm option \<Rightarrow> 'f line_ratio" where
  "resolvedLine src level tot rm =
     (let l = ratioLine src rm
      in if lr_Source l \<noteq> RatioSourceDenier then l
         else if tot \<le> 0 then (if lr_Note l = None then l\<lparr>lr_Note := Some (TotalDenierZero level)\<rparr> else l)
         else l\<lparr>lr_Ratio := lr_Denier l / tot\<rparr>)"

lemma ComputeSeqRMRatios_lines:
  assumes "IsDenierMode (rs_Mode src)"
  shows "fst (ComputeSeqRMRatios (Some seq) src) =
    map (resolvedLine src (sq_RouteLevel seq) (totalDenier src (sq_Rms seq))) (sq_Rms seq)"
proof (cases "denierLines src (sq_Rms seq) = []")
  case True
  then have "lr_Source (ratioLine src rm) \<noteq> RatioSourceDenier" if "rm \<in> set (sq_Rms seq)" for rm
    using that by (auto simp: denierLines_def filter_empty_conv)
  with True show ?thesis using assms
    by (auto simp: ComputeSeqRMRatios_def fold_ratioStep list_ex_denier resolvedLine_def)
next
  case False
  then show ?thesis using assms
    by (auto simp: ComputeSeqRMRatios_def fold_ratioStep list_ex_denier resolvedLine_def
        onDenierLines_def totalDenier_def Let_def)
qed

text \<open>In \<open>DENIER\<close> mode the lines are aligned with the raw materials: a line with a denier
  gets its share of the sum of the deniers, in the order of the lines, or ratio 0 when that
  sum is not positive; every other line keeps the ratio entered on the route; a positive
  override of the product replaces the denier of the master data.\<close>

theorem ComputeSeqRMRatios_shares:
  assumes "IsDenierMode (rs_Mode src)" and "i < length (sq_Rms seq)" and "sq_Rms seq ! i = Some r"
  shows "length (fst (ComputeSeqRMRatios (Some seq) src)) = length (sq_Rms seq) \<and>
    (let l = fst (ComputeSeqRMRatios (Some seq) src) ! i; tot = totalDenier src (sq_Rms seq)
     in case lineOverride r src of
          Some v \<Rightarrow> lr_Denier l = v \<and> lr_Overridden l \<and> lr_Ratio l = (if tot \<le> 0 then 0 else v / tot)
        | None \<Rightarrow> (case masterLineDenier r src of
            Some (d, msg) \<Rightarrow> lr_Denier l = d \<and> \<not> lr_Overridden l \<and> lr_Ratio l = (if tot \<le> 0 then 0 else d / tot)
          | None \<Rightarrow> lr_Ratio l = rm_RouteRmRatio r \<and> lr_Source l = RatioSourceInput))"
  using assms
  by (simp add: ComputeSeqRMRatios_lines resolvedLine_def Let_def ratioLine_def lineDenier_def zeroLine_def
      split: option.split prod.split)

definition exampleRm :: "string \<Rightarrow> int \<Rightarrow> string \<Rightarrow> 'f \<Rightarrow> ('f::zero) rm" where
  "exampleRm t p g r = \<lparr>rm_RmType = t, rm_RmProductSysID = p, rm_RmItemCode = [], rm_RmGroupCode = g,
     rm_RouteRmShadeCode = [], rm_RouteRmRatio = r, rm_EffectiveRatio = r, rm_ComputedRatio = 0,
     rm_RatioSource = NoSource, rm_Denier = 0, rm_RatioNote = None, rm_DenierOverridden = False\<rparr>"

definition exampleSeq :: "rat seq" where
  "exampleSeq = \<lparr>sq_ProductSysID = 1, sq_RouteLevel = 1,
     sq_Rms = [Some (exampleRm RmTypeProduct 7 [] 1), Some (exampleRm RmTypeGroup 0 ''SPX'' 1), Some (exampleRm RmTypeItem 0 [] (1/2))],
     sq_RMRatioMode = []\<rparr>"

definition exampleSources :: "rat ratio_source_data" where
  "exampleSources = \<lparr>rs_Mode = '' denier '', rs_UpstreamDenier = [7 \<mapsto> 60], rs_GroupDenier = [''SPX'' \<mapsto> 40],
     rs_GroupUseDraft = (\<lambda>g. g = ''SPX''), rs_SpandexDraft = 2, rs_ProductDenierOverride = (\<lambda>_. None),
     rs_GroupDenierOverride = (\<lambda>_. None)\<rparr>"

lemma exampleSources_mode: "IsDenierMode (rs_Mode exampleSources)"
  by code_simp

lemma exampleSeq_lines:
  "exampleRm RmTypeProduct 7 [] (1::rat) \<in> set (List.map_filter id (sq_Rms exampleSeq))"
  "sq_Rms exampleSeq ! 0 = Some (exampleRm RmTypeProduct 7 [] 1)" "length (sq_Rms exampleSeq) = 3"
  by (simp_all add: exampleSeq_def map_filter_def)

lemma example_total: "totalDenier exampleSources (sq_Rms exampleSeq) = 80"
  by (simp add: totalDenier_def denierLines_def exampleSeq_def exampleSources_def ratioLine_def lineDenier_def
      lineOverride_def masterLineDenier_def mapGet_def exampleRm_def zeroLine_def)

theorem ComputeSeqRMRatios_shares_witness:
  "lr_Ratio (fst (ComputeSeqRMRatios (Some exampleSeq) exampleSources) ! 0) = 3 / 4"
proof -
  let ?r = "exampleRm RmTypeProduct 7 [] (1::rat)"
  have "lineOverride ?r exampleSources = None" "masterLineDenier ?r exampleSources = Some (60, None)"
    by (simp_all add: lineOverride_def masterLineDenier_def exampleRm_def exampleSources_def mapGet_def)
  then show ?thesis
    using ComputeSeqRMRatios_shares [OF exampleSources_mode _ exampleSeq_lines(2)] example_total
    by (simp add: exampleSeq_lines(3) Let_def)
qed

section \<open>Under exact arithmetic the shares add up\<close>

lemma sum_shares: "(\<Sum>l\<leftarrow>ls. lr_Denier l / (t::'f::field)) = (\<Sum>l\<leftarrow>ls. lr_Denier l) / t"
  by (induction ls) (simp_all add: add_divide_distrib)

lemma fold_add_sum: "fold (\<lambda>l t. t + f l) ls (a::'f::comm_monoid_add) = a + (\<Sum>l\<leftarrow>ls. f l)"
  by (induction ls arbitrary: a) (simp_all add: add.assoc)

lemma lineDenier_nonneg:
  "lineDenier r src = Some (d, msg, ov) \<Longrightarrow> 0 \<le> (d :: 'f::linordered_field)"
  by (auto simp: lineDenier_def lineOverride_def masterLineDenier_def Let_def split: if_splits option.splits)

lemma denierLines_nonneg: "l \<in> set (denierLines src rms) \<Longrightarrow> 0 \<le> (lr_Denier l :: 'f::linordered_field)"
  by (auto simp: denierLines_def ratioLine_def zeroLine_def dest: lineDenier_nonneg split: option.splits)

lemma denier_of_resolved:
  "filter (\<lambda>l. lr_Source l = RatioSourceDenier) (map (resolvedLine src lv tot) rms) =
   map (\<lambda>l. if tot \<le> 0 then (if lr_Note l = None then l\<lparr>lr_Note := Some (TotalDenierZero lv)\<rparr> else l)
            else l\<lparr>lr_Ratio := lr_Denier l / tot\<rparr>) (denierLines src rms)"
  by (induction rms) (auto simp: denierLines_def resolvedLine_def Let_def)

lemma denierLines_ratio: "l \<in> set (denierLines src rms) \<Longrightarrow> lr_Ratio l = 0"
  by (auto simp: denierLines_def ratioLine_def zeroLine_def split: option.splits)

text \<open>Over an ordered field, where addition is exact, the shares of the denier lines are not
  negative, and they add up to 1 unless every denier is 0, when they are all 0.\<close>

theorem ComputeSeqRMRatios_sum:
  fixes src :: "('f::linordered_field) ratio_source_data"
  assumes "IsDenierMode (rs_Mode src)"
  shows "let shares = filter (\<lambda>l. lr_Source l = RatioSourceDenier) (fst (ComputeSeqRMRatios (Some seq) src))
    in (\<forall>l \<in> set shares. 0 \<le> lr_Ratio l) \<and>
       (\<Sum>l\<leftarrow>shares. lr_Ratio l) = (if \<forall>l \<in> set shares. lr_Denier l = 0 then 0 else 1)"
proof -
  let ?ls = "denierLines src (sq_Rms seq)" and ?t = "totalDenier src (sq_Rms seq)"
  let ?shares = "filter (\<lambda>l. lr_Source l = RatioSourceDenier) (fst (ComputeSeqRMRatios (Some seq) src))"
  have t: "?t = (\<Sum>l\<leftarrow>?ls. lr_Denier l)" by (simp add: totalDenier_def fold_add_sum)
  have nn: "0 \<le> lr_Denier l" if "l \<in> set ?ls" for l using that by (rule denierLines_nonneg)
  have t0: "0 \<le> ?t" unfolding t by (rule sum_list_nonneg) (auto simp: nn)
  have shares: "?shares = map (\<lambda>l. if ?t \<le> 0 then (if lr_Note l = None then l\<lparr>lr_Note := Some (TotalDenierZero (sq_RouteLevel seq))\<rparr> else l)
      else l\<lparr>lr_Ratio := lr_Denier l / ?t\<rparr>) ?ls"
    unfolding ComputeSeqRMRatios_lines [OF assms] by (rule denier_of_resolved)
  show ?thesis
  proof (cases "?t \<le> 0")
    case True
    with t0 have "(\<Sum>l\<leftarrow>?ls. lr_Denier l) = 0" unfolding t by simp
    then have z: "\<forall>l \<in> set ?ls. lr_Denier l = 0"
      using sum_list_nonneg_eq_0_iff [of "map lr_Denier ?ls"] nn by auto
    have "lr_Ratio l = 0 \<and> lr_Denier l = 0" if "l \<in> set ?shares" for l
      using that z denierLines_ratio [of _ src "sq_Rms seq"] True unfolding shares by (auto split: if_splits)
    then show ?thesis unfolding Let_def by (auto intro!: sum_list_nonneg_eq_0_iff [THEN iffD2])
  next
    case False
    then have "\<exists>l \<in> set ?ls. lr_Denier l \<noteq> 0"
      unfolding t by (metis (no_types, lifting) dual_order.refl map_cong map_replicate_const sum_list_0)
    with False nn t0 show ?thesis
      unfolding Let_def shares by (simp add: comp_def sum_shares t [symmetric])
  qed
qed

theorem ComputeSeqRMRatios_sum_witness:
  "(\<Sum>l\<leftarrow>filter (\<lambda>l. lr_Source l = RatioSourceDenier) (fst (ComputeSeqRMRatios (Some exampleSeq) exampleSources)). lr_Ratio l) \<in> {0, 1}"
  using ComputeSeqRMRatios_sum [OF exampleSources_mode, of exampleSeq] by (simp add: Let_def)

section \<open>The keys an annotation reads\<close>

text \<open>The sources cut down to the keys that are loaded for a graph.\<close>

definition restrictSources :: "int list \<times> string list \<times> int list \<Rightarrow> 'f ratio_sources \<Rightarrow> 'f ratio_sources" where
  "restrictSources keys src = (case keys of (ups, grps, prods) \<Rightarrow> src\<lparr>
     ra_UpstreamDenier := (ra_UpstreamDenier src) |` set ups,
     ra_GroupDenier := (ra_GroupDenier src) |` set grps,
     ra_GroupUseDraft := (\<lambda>g. g \<in> set grps \<and> ra_GroupUseDraft src g),
     ra_SpandexDraft := (ra_SpandexDraft src) |` set prods\<rparr>)"

lemma set_insertKey [simp]: "set (insertKey k ks) = insert k (set ks)"
  by (auto simp: insertKey_def)

lemma distinct_insertKey [simp]: "distinct (insertKey k ks) = distinct ks"
  by (simp add: insertKey_def)

definition rmUpstream :: "'f rm option \<Rightarrow> int set" where
  "rmUpstream rm = {rm_RmProductSysID r |r. rm = Some r \<and> rm_RmType r = RmTypeProduct}"

definition rmGroups :: "'f rm option \<Rightarrow> string set" where
  "rmGroups rm = {rm_RmGroupCode r |r. rm = Some r \<and> rm_RmType r = RmTypeGroup \<and> rm_RmGroupCode r \<noteq> []}"

lemma rmKeys_sets:
  "set (fst (rmKeys rm k)) = set (fst k) \<union> rmUpstream rm"
  "set (snd (rmKeys rm k)) = set (snd k) \<union> rmGroups rm"
  by (auto simp: rmKeys_def rmUpstream_def rmGroups_def split: option.splits prod.splits if_splits)

lemma fold_rmKeys_sets:
  "set (fst (fold rmKeys rms k)) = set (fst k) \<union> \<Union> (rmUpstream ` set rms)"
  "set (snd (fold rmKeys rms k)) = set (snd k) \<union> \<Union> (rmGroups ` set rms)"
  by (induction rms arbitrary: k) (auto simp: rmKeys_sets)

definition keysOK :: "(int \<Rightarrow> string) \<Rightarrow> int list \<times> string list \<times> int list \<Rightarrow> 'f seq option \<Rightarrow> bool" where
  "keysOK modes keys sq = (case keys of (ups, grps, prods) \<Rightarrow>
     (\<forall>seq. sq = Some seq \<longrightarrow> IsDenierMode (modes (sq_ProductSysID seq)) \<longrightarrow>
        sq_ProductSysID seq \<in> set prods \<and>
        (\<forall>rm \<in> set (sq_Rms seq). rmUpstream rm \<subseteq> set ups \<and> rmGroups rm \<subseteq> set grps)))"

lemma seqKeys_mono:
  assumes "keysOK modes k sq" shows "keysOK modes (seqKeys modes sq' k) sq"
  using assms by (force simp: keysOK_def seqKeys_def fold_rmKeys_sets [of _ "(a, b)" for a b, simplified]
      split: option.splits prod.splits dest: arg_cong [of _ _ fst] arg_cong [of _ _ snd])

lemma seqKeys_OK: "keysOK modes (seqKeys modes sq k) sq"
proof (cases sq)
  case (Some seq)
  obtain ups grps prods where k: "k = (ups, grps, prods)" by (cases k)
  obtain ups' grps' where f: "fold rmKeys (sq_Rms seq) (ups, grps) = (ups', grps')" by force
  have "set ups' = set ups \<union> \<Union> (rmUpstream ` set (sq_Rms seq))" "set grps' = set grps \<union> \<Union> (rmGroups ` set (sq_Rms seq))"
    using fold_rmKeys_sets [of "sq_Rms seq" "(ups, grps)"] by (simp_all add: f)
  with Some k f show ?thesis by (auto simp: keysOK_def seqKeys_def)
qed (simp add: keysOK_def split: prod.split)

lemma fold_seqKeys_mono: "keysOK modes k sq \<Longrightarrow> keysOK modes (fold (seqKeys modes) sqs k) sq"
  by (induction sqs arbitrary: k) (simp_all add: seqKeys_mono)

lemma fold_seqKeys_OK: "sq \<in> set sqs \<Longrightarrow> keysOK modes (fold (seqKeys modes) sqs k) sq"
proof (induction sqs arbitrary: k)
  case (Cons a sqs)
  then show ?case by (cases "sq = a") (simp_all add: fold_seqKeys_mono seqKeys_OK)
qed simp

lemma IsDenierMode_normalized: "IsDenierMode (NormalizedRMRatioMode m) = IsDenierMode m"
proof -
  have "IsDenierMode RMRatioModeDenier" "\<not> IsDenierMode RMRatioModeInput" by code_simp+
  then show ?thesis by (simp add: NormalizedRMRatioMode_def)
qed

lemma ComputeSeqRMRatios_cong:
  assumes "rs_Mode src' = rs_Mode src" and "\<And>rm. rm \<in> set (sq_Rms seq) \<Longrightarrow> ratioLine src' rm = ratioLine src rm"
  shows "ComputeSeqRMRatios (Some seq) src' = ComputeSeqRMRatios (Some seq) src"
proof -
  have "ratioStep src' rm = ratioStep src rm" if "rm \<in> set (sq_Rms seq)" for rm
    using assms(2) [OF that] by (simp add: ratioStep_def fun_eq_iff)
  then have "fold (ratioStep src') (sq_Rms seq) a = fold (ratioStep src) (sq_Rms seq) a" for a
    by (intro fold_cong) simp_all
  with assms(1) show ?thesis by (simp add: ComputeSeqRMRatios_def)
qed

lemma annotateSeq_restrict:
  fixes src :: "('f::{zero,plus,inverse,ord}) ratio_sources"
  assumes "keysOK (ra_Modes src) keys (Some seq)" and "ra_GroupDenier src [] = None"
  shows "annotateSeq (restrictSources keys src) seq = annotateSeq src seq"
proof -
  obtain ups grps prods where k: "keys = (ups, grps, prods)" by (cases keys)
  have same: "overridesOf (restrictSources keys src) = overridesOf src" "ra_Modes (restrictSources keys src) = ra_Modes src"
    by (auto simp: k restrictSources_def overridesOf_def)
  let ?s' = "seqRatioSource (restrictSources keys src) seq" and ?s = "seqRatioSource src seq"
  let ?stamped = "seq\<lparr>sq_RMRatioMode := NormalizedRMRatioMode (ra_Modes src (sq_ProductSysID seq))\<rparr>"
  have "ComputeSeqRMRatios (Some ?stamped) ?s' = ComputeSeqRMRatios (Some ?stamped) ?s"
  proof (cases "IsDenierMode (ra_Modes src (sq_ProductSysID seq))")
    case True
    with assms(1) have keys: "sq_ProductSysID seq \<in> set prods"
      "\<And>rm. rm \<in> set (sq_Rms seq) \<Longrightarrow> rmUpstream rm \<subseteq> set ups \<and> rmGroups rm \<subseteq> set grps"
      by (auto simp: keysOK_def k)
    have "ratioLine ?s' rm = ratioLine ?s rm" if rm: "rm \<in> set (sq_Rms seq)" for rm
    proof (cases rm)
      case (Some r)
      have up: "rm_RmProductSysID r \<in> set ups" if "rm_RmType r = RmTypeProduct"
        using keys(2) [OF rm] Some that by (auto simp: rmUpstream_def)
      have grp: "rm_RmGroupCode r \<in> set grps \<or> rm_RmGroupCode r = []" if "rm_RmType r = RmTypeGroup"
        using keys(2) [OF rm] Some that by (auto simp: rmGroups_def)
      have "lineOverride r ?s' = lineOverride r ?s" by (simp add: lineOverride_def seqRatioSource_def same)
      moreover have "masterLineDenier r ?s' = masterLineDenier r ?s"
        using up grp keys(1) assms(2)
        by (cases "rm_RmGroupCode r = []")
          (simp_all add: masterLineDenier_def seqRatioSource_def mapGet_def restrictSources_def k restrict_map_def
            cong: if_cong option.case_cong)
      ultimately show ?thesis by (simp add: Some ratioLine_def lineDenier_def cong: option.case_cong)
    qed (simp add: ratioLine_def)
    then show ?thesis by (intro ComputeSeqRMRatios_cong) (simp_all add: seqRatioSource_def same)
  next
    case False
    then show ?thesis by (simp add: ComputeSeqRMRatios_def seqRatioSource_def same IsDenierMode_normalized)
  qed
  then show ?thesis by (simp add: annotateSeq_def same Let_def)
qed

text \<open>The keys listed for loading are enough: annotating a graph from sources cut down to the
  listed upstream products, RM groups and \<open>DENIER\<close> products gives the same annotation as the
  full sources, when no RM group has an empty code.\<close>

theorem DenierInputKeys_sufficient:
  fixes src :: "('f::{zero,plus,inverse,ord}) ratio_sources"
  assumes "ra_GroupDenier src [] = None"
  shows "AnnotateRMRatios (restrictSources (DenierInputKeys (ra_Modes src) g) src) g = AnnotateRMRatios src g"
proof -
  let ?keys = "DenierInputKeys (ra_Modes src) g"
  have "annotateSeq (restrictSources ?keys src) seq = annotateSeq src seq" if "Some seq \<in> set (gr_Seqs g)" for seq
    using fold_seqKeys_OK [OF that, of "ra_Modes src"] assms
    by (intro annotateSeq_restrict) (simp_all add: DenierInputKeys_def)
  then have "map_option (annotateSeq (restrictSources ?keys src)) sq = map_option (annotateSeq src) sq"
    if "sq \<in> set (gr_Seqs g)" for sq
    using that by (cases sq) auto
  moreover have "ra_Modes (restrictSources ?keys src) = ra_Modes src"
    by (simp add: restrictSources_def split: prod.split)
  ultimately show ?thesis by (simp add: AnnotateRMRatios_def)
qed

definition exampleGraph :: "rat graph" where
  "exampleGraph = \<lparr>gr_Head = None, gr_Seqs = [Some exampleSeq, None]\<rparr>"

definition exampleRatioSources :: "rat ratio_sources" where
  "exampleRatioSources = \<lparr>ra_Modes = (\<lambda>_. ''DENIER''), ra_UpstreamDenier = [7 \<mapsto> 60, 8 \<mapsto> 5],
     ra_GroupDenier = [''SPX'' \<mapsto> 40, ''POY'' \<mapsto> 1], ra_GroupUseDraft = (\<lambda>_. True), ra_SpandexDraft = [1 \<mapsto> 2],
     ra_Overrides = (\<lambda>_. None)\<rparr>"

theorem DenierInputKeys_sufficient_witness:
  "AnnotateRMRatios (restrictSources ([7], [''SPX''], [1]) exampleRatioSources) exampleGraph =
   AnnotateRMRatios exampleRatioSources exampleGraph"
proof -
  have "DenierInputKeys (ra_Modes exampleRatioSources) exampleGraph = ([7], [''SPX''], [1])"
  proof -
    have "IsDenierMode ''DENIER''" by code_simp
    then show ?thesis
      by (simp add: DenierInputKeys_def exampleGraph_def exampleSeq_def exampleRatioSources_def seqKeys_def
          rmKeys_def insertKey_def exampleRm_def)
  qed
  then show ?thesis
    using DenierInputKeys_sufficient [of exampleRatioSources exampleGraph] by (simp add: exampleRatioSources_def)
qed

end
