(* ===== verification/PeriodLock.thy ===== *)
theory PeriodLock
  imports CostRoute
begin

text \<open>
  The cost freeze of a period: the aggregate
  (\<^verbatim>\<open>services/finance/internal/domain/periodlock/entity.go\<close>), its table
  (\<^verbatim>\<open>services/finance/internal/infrastructure/postgres/period_lock_repository.go\<close>) and the two
  handlers (\<^verbatim>\<open>services/finance/internal/application/periodlock\<close>). A lock is one row per
  period and calculation type; it is in force while its unlock time is null.

  A transaction that asks for the state of a lock holds it until it ends (\<open>FOR SHARE\<close> on the row,
  \<open>EXCLUSIVE\<close> on the table while locking), so each of them is one step on the tables. Audit
  events are left out.
\<close>

section \<open>The aggregate\<close>

datatype lock_error =
  LockErrInvalidPeriod | LockErrInvalidCalcType | LockErrUserRequired | LockErrReasonRequired
| ErrAlreadyLocked | ErrNotLocked | ErrUnlockPostedPeriod | ErrOverrideReasonTooShort
| ErrUnlockBatchLocked | ErrAdjProbeNotConfigured | ErrOverrideNotAllowed | AdjProbeFailed

definition calcTypeActual :: string where "calcTypeActual = ''ACTUAL''"

definition overrideMinReasonLen :: nat where "overrideMinReasonLen = 10"

definition maxUserLen :: nat where "maxUserLen = 64"

text \<open>\<open>^[0-9]{4}(0[1-9]|1[0-2])$\<close>\<close>

definition periodRe :: "string \<Rightarrow> bool" where
  "periodRe s = (case s of
     [y1, y2, y3, y4, m1, m2] \<Rightarrow>
       isDigit y1 \<and> isDigit y2 \<and> isDigit y3 \<and> isDigit y4 \<and>
       (m1 = CHR ''0'' \<and> m2 \<in> set ''123456789'' \<or> m1 = CHR ''1'' \<and> m2 \<in> set ''012'')
   | _ \<Rightarrow> False)"

definition ValidatePeriod :: "string \<Rightarrow> lock_error + unit" where
  "ValidatePeriod period = (if periodRe period then Inr () else Inl LockErrInvalidPeriod)"

definition ValidateCalcType :: "string \<Rightarrow> lock_error + unit" where
  "ValidateCalcType calcType = (if calcType \<noteq> calcTypeActual then Inl LockErrInvalidCalcType else Inr ())"

record period_lock =
  pl_period :: string
  pl_calcType :: string
  pl_lockedAt :: time
  pl_lockedBy :: string
  pl_reason :: string
  pl_erpBatchID :: "int option"
  pl_unlockedAt :: "time option"
  pl_unlockedBy :: string
  pl_unlockReason :: string
  pl_unlockOverride :: bool

definition tryLock :: "lock_error + 'a \<Rightarrow> ('a \<Rightarrow> lock_error + 'b) \<Rightarrow> lock_error + 'b" where
  "tryLock r k = (case r of Inl e \<Rightarrow> Inl e | Inr v \<Rightarrow> k v)"

lemma tryLock_Inr: "tryLock r k = Inr v \<longleftrightarrow> (\<exists>u. r = Inr u \<and> k u = Inr v)"
  by (cases r) (simp_all add: tryLock_def)

definition validateActor :: "string \<Rightarrow> string \<Rightarrow> lock_error + (string \<times> string)" where
  "validateActor user reason =
     (let user = trimSpace user; reason = trimSpace reason
      in if user = [] then Inl LockErrUserRequired
         else
           let user = (if maxUserLen < length user then take maxUserLen user else user)
           in if reason = [] then Inl LockErrReasonRequired else Inr (user, reason))"

definition NewPeriodLock :: "string \<Rightarrow> string \<Rightarrow> string \<Rightarrow> string \<Rightarrow> time \<Rightarrow> lock_error + period_lock" where
  "NewPeriodLock period calcType user reason now =
     tryLock (ValidatePeriod period) (\<lambda>_. tryLock (ValidateCalcType calcType) (\<lambda>_.
       tryLock (validateActor user reason) (\<lambda>(user, reason). Inr
         \<lparr>pl_period = period, pl_calcType = calcType, pl_lockedAt = now, pl_lockedBy = user,
          pl_reason = reason, pl_erpBatchID = None, pl_unlockedAt = None, pl_unlockedBy = [],
          pl_unlockReason = [], pl_unlockOverride = False\<rparr>)))"

definition IsLocked :: "period_lock \<Rightarrow> bool" where
  "IsLocked l \<longleftrightarrow> pl_unlockedAt l = None"

definition Lock :: "period_lock \<Rightarrow> string \<Rightarrow> string \<Rightarrow> time \<Rightarrow> lock_error + period_lock" where
  "Lock l user reason now =
     (if IsLocked l then Inl ErrAlreadyLocked
      else tryLock (validateActor user reason) (\<lambda>(user, reason). Inr
        (l\<lparr>pl_lockedAt := now, pl_lockedBy := user, pl_reason := reason, pl_erpBatchID := None,
           pl_unlockedAt := None, pl_unlockedBy := [], pl_unlockReason := []\<rparr>)))"

definition Unlock :: "period_lock \<Rightarrow> string \<Rightarrow> string \<Rightarrow> bool \<Rightarrow> time \<Rightarrow> lock_error + period_lock" where
  "Unlock l user reason adjPosted now =
     (if \<not> IsLocked l then Inl ErrNotLocked
      else tryLock (validateActor user reason) (\<lambda>(user, reason).
        if adjPosted then Inl ErrUnlockPostedPeriod
        else Inr (l\<lparr>pl_unlockedAt := Some now, pl_unlockedBy := user, pl_unlockReason := reason,
                    pl_unlockOverride := False\<rparr>)))"

definition UnlockOverridePosted :: "period_lock \<Rightarrow> string \<Rightarrow> string \<Rightarrow> time \<Rightarrow> lock_error + period_lock" where
  "UnlockOverridePosted l user reason now =
     (if \<not> IsLocked l then Inl ErrNotLocked
      else tryLock (validateActor user reason) (\<lambda>(user, reason).
        if length reason < overrideMinReasonLen then Inl ErrOverrideReasonTooShort
        else Inr (l\<lparr>pl_unlockedAt := Some now, pl_unlockedBy := user, pl_unlockReason := reason,
                    pl_unlockOverride := True\<rparr>)))"

section \<open>The tables\<close>

record erp_batch =
  eb_period :: string
  eb_mode :: string
  eb_status :: string
  eb_needsRepush :: bool

text \<open>The lock rows by period and calculation type, and the batches of the ERP integration.\<close>

record lock_tables =
  lt_locks :: "string \<times> string \<Rightarrow> period_lock option"
  lt_batches :: "erp_batch list"

definition IsPeriodLockedRow :: "lock_tables \<Rightarrow> string \<Rightarrow> string \<Rightarrow> bool" where
  "IsPeriodLockedRow db period calcType =
     (case lt_locks db (period, calcType) of None \<Rightarrow> False | Some l \<Rightarrow> pl_unlockedAt l = None)"

definition HasLockedErpBatch :: "lock_tables \<Rightarrow> string \<Rightarrow> bool" where
  "HasLockedErpBatch db period = list_ex (\<lambda>b. eb_period b = period \<and> eb_status b = ''LOCKED'') (lt_batches db)"

text \<open>\<open>INSERT ... ON CONFLICT DO UPDATE ... WHERE cpl_unlocked_at IS NOT NULL\<close>\<close>

definition repoLock :: "period_lock \<Rightarrow> lock_tables \<Rightarrow> (lock_error + unit) \<times> lock_tables" where
  "repoLock l db =
     (if \<not> IsLocked l then (Inl ErrNotLocked, db)
      else
        let key = (pl_period l, pl_calcType l);
            write = (\<lambda>row. (Inr (), db\<lparr>lt_locks := (lt_locks db)(key \<mapsto> row)\<rparr>))
        in case lt_locks db key of
             None \<Rightarrow> write (l\<lparr>pl_erpBatchID := None, pl_unlockedAt := None, pl_unlockedBy := [], pl_unlockReason := [],
                         pl_unlockOverride := False\<rparr>)
           | Some old \<Rightarrow>
               if pl_unlockedAt old = None then (Inl ErrAlreadyLocked, db)
               else write (old\<lparr>pl_lockedAt := pl_lockedAt l, pl_lockedBy := pl_lockedBy l, pl_reason := pl_reason l,
                               pl_erpBatchID := None, pl_unlockedAt := None, pl_unlockedBy := [], pl_unlockReason := []\<rparr>))"

definition mustRepush :: "string \<Rightarrow> erp_batch \<Rightarrow> bool" where
  "mustRepush period b \<longleftrightarrow> eb_period b = period \<and> eb_mode b = ''LIVE'' \<and>
     eb_status b \<in> set [''PUSHED'', ''VALUATED'', ''RECONCILED''] \<and> \<not> eb_needsRepush b"

definition flagRepush :: "string \<Rightarrow> erp_batch list \<Rightarrow> nat \<times> erp_batch list" where
  "flagRepush period bs =
     (length (filter (mustRepush period) bs),
      map (\<lambda>b. if mustRepush period b then b\<lparr>eb_needsRepush := True\<rparr> else b) bs)"

definition repoUnlock :: "period_lock \<Rightarrow> lock_tables \<Rightarrow> (lock_error + nat) \<times> lock_tables" where
  "repoUnlock l db =
     (let key = (pl_period l, pl_calcType l)
      in case pl_unlockedAt l of
           None \<Rightarrow> (Inl ErrNotLocked, db)
         | Some t \<Rightarrow> (case lt_locks db key of
             None \<Rightarrow> (Inl ErrNotLocked, db)
           | Some old \<Rightarrow>
               if pl_unlockedAt old \<noteq> None then (Inl ErrNotLocked, db)
               else (case flagRepush (pl_period l) (lt_batches db) of (n, bs) \<Rightarrow>
                 (Inr n, db\<lparr>lt_locks := (lt_locks db)(key \<mapsto> old\<lparr>pl_unlockedAt := Some t,
                            pl_unlockedBy := pl_unlockedBy l, pl_unlockReason := pl_unlockReason l\<rparr>),
                            lt_batches := bs\<rparr>))))"

section \<open>The handlers\<close>

record lock_command =
  lk_Period :: string
  lk_CalcType :: string
  lk_User :: string
  lk_Reason :: string

definition lockedCalcType :: "string \<Rightarrow> string" where
  "lockedCalcType calcType = (if calcType = [] then calcTypeActual else calcType)"

definition LockHandle :: "lock_command \<Rightarrow> time \<Rightarrow> lock_tables \<Rightarrow> (lock_error + period_lock) \<times> lock_tables" where
  "LockHandle cmd now db =
     (case NewPeriodLock (lk_Period cmd) (lockedCalcType (lk_CalcType cmd)) (lk_User cmd) (lk_Reason cmd) now of
        Inl e \<Rightarrow> (Inl e, db)
      | Inr lock \<Rightarrow>
          if (case lt_locks db (pl_period lock, pl_calcType lock) of None \<Rightarrow> False | Some before \<Rightarrow> IsLocked before)
          then (Inl ErrAlreadyLocked, db)
          else (case repoLock lock db of
              (Inl e, db') \<Rightarrow> (Inl e, db')
            | (Inr _, db') \<Rightarrow> (Inr lock, db')))"

record unlock_command =
  uk_Period :: string
  uk_CalcType :: string
  uk_User :: string
  uk_Reason :: string
  uk_OverridePosted :: bool
  uk_IsSuperAdmin :: bool

definition applyUnlock :: "period_lock \<Rightarrow> unlock_command \<Rightarrow> bool \<Rightarrow> time \<Rightarrow> lock_error + period_lock" where
  "applyUnlock lock cmd posted now =
     (if posted \<and> uk_OverridePosted cmd then
        (if \<not> uk_IsSuperAdmin cmd then Inl ErrOverrideNotAllowed
         else UnlockOverridePosted lock (uk_User cmd) (uk_Reason cmd) now)
      else Unlock lock (uk_User cmd) (uk_Reason cmd) posted now)"

text \<open>
  The probe of the ERP tells whether the adjustment of a period is posted; it may be absent, and
  it may fail.
\<close>

type_synonym adj_probe = "string \<Rightarrow> bool option"

definition UnlockHandle ::
  "adj_probe option \<Rightarrow> unlock_command \<Rightarrow> time \<Rightarrow> lock_tables \<Rightarrow> (lock_error + (period_lock \<times> nat)) \<times> lock_tables" where
  "UnlockHandle probe cmd now db =
     (let calcType = lockedCalcType (uk_CalcType cmd)
      in case tryLock (ValidatePeriod (uk_Period cmd)) (\<lambda>_. tryLock (ValidateCalcType calcType) (\<lambda>_.
           case lt_locks db (uk_Period cmd, calcType) of
             None \<Rightarrow> Inl ErrNotLocked
           | Some lock \<Rightarrow>
               if \<not> IsLocked lock then Inl ErrNotLocked
               else if HasLockedErpBatch db (uk_Period cmd) then Inl ErrUnlockBatchLocked
               else (case probe of
                   None \<Rightarrow> Inl ErrAdjProbeNotConfigured
                 | Some isAdjPosted \<Rightarrow> (case isAdjPosted (uk_Period cmd) of
                     None \<Rightarrow> Inl AdjProbeFailed
                   | Some posted \<Rightarrow> applyUnlock lock cmd posted now)))) of
           Inl e \<Rightarrow> (Inl e, db)
         | Inr lock \<Rightarrow> (case repoUnlock lock db of
             (Inl e, db') \<Rightarrow> (Inl e, db')
           | (Inr flagged, db') \<Rightarrow> (Inr (lock, flagged), db')))"

section \<open>What locking and unlocking promise\<close>

text \<open>The rows are stored under their own key.\<close>

definition keyedLocks :: "lock_tables \<Rightarrow> bool" where
  "keyedLocks db \<longleftrightarrow> (\<forall>p c l. lt_locks db (p, c) = Some l \<longrightarrow> pl_period l = p \<and> pl_calcType l = c)"

lemma repoLock_keyed: "keyedLocks db \<Longrightarrow> keyedLocks (snd (repoLock l db))"
  by (auto simp: keyedLocks_def repoLock_def Let_def split: option.split)

lemma repoUnlock_keyed: "keyedLocks db \<Longrightarrow> keyedLocks (snd (repoUnlock l db))"
  by (auto simp: keyedLocks_def repoUnlock_def flagRepush_def Let_def split: option.splits)

lemma LockHandle_db: "snd (LockHandle cmd now db) = db \<or> (\<exists>l. snd (LockHandle cmd now db) = snd (repoLock l db))"
proof (cases "NewPeriodLock (lk_Period cmd) (lockedCalcType (lk_CalcType cmd)) (lk_User cmd) (lk_Reason cmd) now")
  case (Inr l)
  have "snd (LockHandle cmd now db) = db \<or> snd (LockHandle cmd now db) = snd (repoLock l db)"
    by (cases "repoLock l db") (simp add: LockHandle_def Inr split: sum.split)
  then show ?thesis by blast
qed (simp add: LockHandle_def)

lemma UnlockHandle_db: "snd (UnlockHandle probe cmd now db) = db \<or> (\<exists>l. snd (UnlockHandle probe cmd now db) = snd (repoUnlock l db))"
proof -
  have "snd (case r of Inl e \<Rightarrow> (Inl e, db) | Inr lock \<Rightarrow> (case repoUnlock lock db of
      (Inl e, db') \<Rightarrow> (Inl e, db') | (Inr flagged, db') \<Rightarrow> (Inr (lock, flagged), db'))) = db \<or>
    (\<exists>l. snd (case r of Inl e \<Rightarrow> (Inl e, db) | Inr lock \<Rightarrow> (case repoUnlock lock db of
      (Inl e, db') \<Rightarrow> (Inl e, db') | (Inr flagged, db') \<Rightarrow> (Inr (lock, flagged), db'))) = snd (repoUnlock l db))"
    for r :: "lock_error + period_lock"
  proof (cases r)
    case (Inr l)
    then show ?thesis by (intro disjI2 exI [of _ l]) (cases "repoUnlock l db", simp split: sum.split)
  qed simp
  then show ?thesis unfolding UnlockHandle_def Let_def by blast
qed

lemma LockHandle_keyed: "keyedLocks db \<Longrightarrow> keyedLocks (snd (LockHandle cmd now db))"
  using LockHandle_db [of cmd now db] by (auto intro: repoLock_keyed)

lemma UnlockHandle_keyed: "keyedLocks db \<Longrightarrow> keyedLocks (snd (UnlockHandle probe cmd now db))"
  using UnlockHandle_db [of probe cmd now db] by (auto intro: repoUnlock_keyed)

lemma LockHandle_locks:
  assumes "LockHandle cmd now db = (Inr l, db')"
  shows "pl_calcType l = calcTypeActual \<and> pl_period l = lk_Period cmd \<and> \<not> IsPeriodLockedRow db (pl_period l) (pl_calcType l) \<and>
    IsPeriodLockedRow db' (pl_period l) (pl_calcType l)"
proof -
  from assms have new: "NewPeriodLock (lk_Period cmd) (lockedCalcType (lk_CalcType cmd)) (lk_User cmd) (lk_Reason cmd) now = Inr l"
    and repo: "repoLock l db = (Inr (), db')"
    by (auto simp: LockHandle_def split: sum.splits if_splits prod.splits option.splits)
  from new have "pl_calcType l = calcTypeActual" "pl_period l = lk_Period cmd"
    by (auto simp: NewPeriodLock_def tryLock_Inr ValidateCalcType_def split: if_splits)
  moreover from repo have "\<not> IsPeriodLockedRow db (pl_period l) (pl_calcType l)"
    by (auto simp: repoLock_def Let_def IsPeriodLockedRow_def split: if_splits option.splits)
  moreover from repo have "IsPeriodLockedRow db' (pl_period l) (pl_calcType l)"
    by (auto simp: repoLock_def Let_def IsPeriodLockedRow_def split: if_splits option.splits)
  ultimately show ?thesis by simp
qed

lemma applyUnlock_Inr:
  assumes "applyUnlock lock cmd posted now = Inr l"
  shows "IsLocked lock \<and> \<not> IsLocked l \<and> pl_period l = pl_period lock \<and> pl_calcType l = pl_calcType lock \<and>
    (posted \<longrightarrow> uk_OverridePosted cmd \<and> uk_IsSuperAdmin cmd \<and> overrideMinReasonLen \<le> length (trimSpace (uk_Reason cmd)))"
  using assms
  by (auto simp: applyUnlock_def Unlock_def UnlockOverridePosted_def tryLock_Inr IsLocked_def validateActor_def Let_def
      split: if_splits)

lemma UnlockHandle_Inr:
  assumes "UnlockHandle probe cmd now db = (Inr (l, n), db')"
  obtains lock isAdjPosted posted where "lockedCalcType (uk_CalcType cmd) = calcTypeActual"
    "lt_locks db (uk_Period cmd, calcTypeActual) = Some lock" "IsLocked lock" "\<not> HasLockedErpBatch db (uk_Period cmd)"
    "probe = Some isAdjPosted" "isAdjPosted (uk_Period cmd) = Some posted" "applyUnlock lock cmd posted now = Inr l"
    "repoUnlock l db = (Inr n, db')"
proof -
  let ?ct = "lockedCalcType (uk_CalcType cmd)"
  from assms have v: "ValidateCalcType ?ct = Inr ()" and repo: "repoUnlock l db = (Inr n, db')"
    and r: "(case lt_locks db (uk_Period cmd, ?ct) of
             None \<Rightarrow> Inl ErrNotLocked
           | Some lock \<Rightarrow>
               if \<not> IsLocked lock then Inl ErrNotLocked
               else if HasLockedErpBatch db (uk_Period cmd) then Inl ErrUnlockBatchLocked
               else (case probe of
                   None \<Rightarrow> Inl ErrAdjProbeNotConfigured
                 | Some isAdjPosted \<Rightarrow> (case isAdjPosted (uk_Period cmd) of
                     None \<Rightarrow> Inl AdjProbeFailed
                   | Some posted \<Rightarrow> applyUnlock lock cmd posted now))) = Inr l"
    by (auto simp: UnlockHandle_def Let_def tryLock_Inr split: sum.splits prod.splits)
  from v have ct: "?ct = calcTypeActual" by (simp add: ValidateCalcType_def split: if_splits)
  show thesis
    using r unfolding ct by (auto split: option.splits if_splits intro: that [OF ct _ _ _ _ _ _ repo])
qed

text \<open>Releasing a freeze: a successful unlock was of a period that was frozen, with no ERP batch
  locked and the adjustment probed; a posted adjustment was overridden by a super administrator with a
  reason of ten characters. It leaves the period open, touches no other lock, and flags every live
  batch that was pushed, valued or reconciled for another push.\<close>

theorem unlock_is_guarded:
  assumes "keyedLocks db" "UnlockHandle probe cmd now db = (Inr (l, n), db')"
  shows "IsPeriodLockedRow db (uk_Period cmd) calcTypeActual \<and> \<not> HasLockedErpBatch db (uk_Period cmd) \<and>
    (\<exists>isAdjPosted posted. probe = Some isAdjPosted \<and> isAdjPosted (uk_Period cmd) = Some posted \<and>
       (posted \<longrightarrow> uk_OverridePosted cmd \<and> uk_IsSuperAdmin cmd \<and> 10 \<le> length (trimSpace (uk_Reason cmd)))) \<and>
    \<not> IsPeriodLockedRow db' (uk_Period cmd) calcTypeActual \<and>
    (\<forall>key. key \<noteq> (uk_Period cmd, calcTypeActual) \<longrightarrow> lt_locks db' key = lt_locks db key) \<and>
    n = length (filter (mustRepush (uk_Period cmd)) (lt_batches db)) \<and>
    \<not> list_ex (mustRepush (uk_Period cmd)) (lt_batches db')"
  using assms(2)
proof (cases rule: UnlockHandle_Inr)
  case (1 lock isAdjPosted posted)
  have key: "pl_period l = uk_Period cmd" "pl_calcType l = calcTypeActual"
    using applyUnlock_Inr [OF 1(7)] assms(1) 1(2) by (auto simp: keyedLocks_def)
  have unl: "\<not> IsLocked l" using applyUnlock_Inr [OF 1(7)] by simp
  then obtain t where t: "pl_unlockedAt l = Some t" by (auto simp: IsLocked_def)
  have db': "n = fst (flagRepush (uk_Period cmd) (lt_batches db))" "db' = db\<lparr>lt_locks := (lt_locks db)((uk_Period cmd, calcTypeActual) \<mapsto>
      lock\<lparr>pl_unlockedAt := Some t, pl_unlockedBy := pl_unlockedBy l, pl_unlockReason := pl_unlockReason l\<rparr>),
      lt_batches := snd (flagRepush (uk_Period cmd) (lt_batches db))\<rparr>"
    using 1(2,3,8) t key by (auto simp: repoUnlock_def IsLocked_def split: prod.splits)
  have "\<not> list_ex (mustRepush (uk_Period cmd)) (snd (flagRepush (uk_Period cmd) (lt_batches db)))"
    by (auto simp: flagRepush_def list_ex_iff mustRepush_def)
  moreover have "IsPeriodLockedRow db (uk_Period cmd) calcTypeActual" using 1(2,3) by (simp add: IsPeriodLockedRow_def IsLocked_def)
  moreover have "\<exists>isAdjPosted posted. probe = Some isAdjPosted \<and> isAdjPosted (uk_Period cmd) = Some posted \<and>
       (posted \<longrightarrow> uk_OverridePosted cmd \<and> uk_IsSuperAdmin cmd \<and> 10 \<le> length (trimSpace (uk_Reason cmd)))"
    using 1(5,6) applyUnlock_Inr [OF 1(7)] by (auto simp: overrideMinReasonLen_def)
  ultimately show ?thesis using 1(4) by (simp add: db' IsPeriodLockedRow_def flagRepush_def)
qed

definition exampleLocks :: lock_tables where
  "exampleLocks = \<lparr>lt_locks = [(''202609'', ''ACTUAL'') \<mapsto> \<lparr>pl_period = ''202609'', pl_calcType = ''ACTUAL'', pl_lockedAt = 1,
     pl_lockedBy = ''finance'', pl_reason = ''month end'', pl_erpBatchID = None, pl_unlockedAt = None, pl_unlockedBy = [],
     pl_unlockReason = [], pl_unlockOverride = False\<rparr>],
     lt_batches = [\<lparr>eb_period = ''202609'', eb_mode = ''LIVE'', eb_status = ''PUSHED'', eb_needsRepush = False\<rparr>]\<rparr>"

definition exampleUnlock :: unlock_command where
  "exampleUnlock = \<lparr>uk_Period = ''202609'', uk_CalcType = [], uk_User = ''admin'', uk_Reason = ''wrong rates pushed'',
     uk_OverridePosted = True, uk_IsSuperAdmin = True\<rparr>"

theorem unlock_is_guarded_witness:
  "\<exists>l db'. UnlockHandle (Some (\<lambda>_. Some True)) exampleUnlock 5 exampleLocks = (Inr (l, 1), db') \<and>
     \<not> IsPeriodLockedRow db' ''202609'' ''ACTUAL''"
proof -
  have "case UnlockHandle (Some (\<lambda>_. Some True)) exampleUnlock 5 exampleLocks of (Inr (_, n), _) \<Rightarrow> n = 1 | _ \<Rightarrow> False"
    by code_simp
  then obtain l db' where u: "UnlockHandle (Some (\<lambda>_. Some True)) exampleUnlock 5 exampleLocks = (Inr (l, 1), db')"
    by (auto split: prod.splits sum.splits)
  have "keyedLocks exampleLocks" by (simp add: keyedLocks_def exampleLocks_def)
  from unlock_is_guarded [OF this u] u show ?thesis by (auto simp: exampleUnlock_def calcTypeActual_def)
qed

end
