(* ===== verification/KahnQueue.thy ===== *)
theory KahnQueue
  imports Prelude
begin

text \<open>
  The queue both topological sorts of the finance service run: \<open>topoSortFormulas\<close> in
  \<^verbatim>\<open>services/finance/internal/application/costcalc/loader.go\<close> over the positions of formulas and
  \<open>topoSortMBHeads\<close> in \<^verbatim>\<open>services/finance/internal/application/mbbatch/dag.go\<close> over the ids of master
  batch heads. The locale states what they need of a graph: its nodes are listed once and its edges,
  from a producer to its consumer, stay among them. In it the queue empties; it places every node exactly
  when the graph is acyclic, each after its producers.
\<close>

section \<open>The queue\<close>

definition addEdge :: "'k \<times> 'k \<Rightarrow> ('k \<Rightarrow> int) \<times> ('k \<Rightarrow> 'k list) \<Rightarrow> ('k \<Rightarrow> int) \<times> ('k \<Rightarrow> 'k list)" where
  "addEdge e = (\<lambda>(inDegree, adj).
     (inDegree(snd e := inDegree (snd e) + 1), adj(fst e := adj (fst e) @ [snd e])))"

definition relax :: "'k \<Rightarrow> ('k \<Rightarrow> int) \<times> 'k list \<Rightarrow> ('k \<Rightarrow> int) \<times> 'k list" where
  "relax next = (\<lambda>(inDegree, queue).
     let d = inDegree next - 1 in (inDegree(next := d), if d = 0 then queue @ [next] else queue))"

text \<open>One round: the state is the queue, the degrees and the nodes placed so far.\<close>

definition placeNext ::
  "('k \<Rightarrow> 'k list) \<Rightarrow> 'k list \<times> ('k \<Rightarrow> int) \<times> 'k list \<Rightarrow> 'k list \<times> ('k \<Rightarrow> int) \<times> 'k list" where
  "placeNext adj = (\<lambda>(queue, inDegree, placed).
     (case fold relax (adj (hd queue)) (inDegree, tl queue) of
        (inDegree', queue') \<Rightarrow> (queue', inDegree', placed @ [hd queue])))"

definition placeNodes ::
  "'k list \<Rightarrow> ('k \<Rightarrow> int) \<times> ('k \<Rightarrow> 'k list) \<Rightarrow> ('k list \<times> ('k \<Rightarrow> int) \<times> 'k list) option" where
  "placeNodes nodes = (\<lambda>(inDegree, adj).
     while_option (\<lambda>(queue, _, _). queue \<noteq> []) (placeNext adj) (filter (\<lambda>i. inDegree i = 0) nodes, inDegree, []))"

section \<open>Degrees\<close>

lemma fold_addEdge:
  "fold addEdge es (deg, adj) =
     (\<lambda>i. deg i + int (length (filter (\<lambda>e. snd e = i) es)), \<lambda>d. adj d @ map snd (filter (\<lambda>e. fst e = d) es))"
  by (induction es arbitrary: deg adj) (auto simp: addEdge_def fun_eq_iff)

definition degrees :: "('k \<times> 'k) list \<Rightarrow> ('k \<Rightarrow> int) \<times> ('k \<Rightarrow> 'k list)" where
  "degrees es = (\<lambda>i. int (length (filter (\<lambda>e. snd e = i) es)), \<lambda>d. map snd (filter (\<lambda>e. fst e = d) es))"

lemma fold_addEdge_degrees: "fold addEdge es (\<lambda>_. 0, \<lambda>_. []) = degrees es"
  by (simp add: fold_addEdge degrees_def)

lemma fold_relax:
  assumes "\<And>i. int (count_list js i) \<le> deg i"
  shows "\<exists>new. fold relax js (deg, q) = (\<lambda>i. deg i - int (count_list js i), q @ new) \<and> distinct new \<and>
    set new = {i \<in> set js. deg i = int (count_list js i)}"
  using assms
proof (induction js arbitrary: deg q)
  case (Cons x js)
  let ?deg = "deg(x := deg x - 1)"
  let ?q = "if deg x - 1 = 0 then q @ [x] else q"
  have "int (count_list js i) \<le> ?deg i" for i using Cons.prems [of i] by auto
  from Cons.IH [OF this, of ?q] obtain new where new: "fold relax js (?deg, ?q) = (\<lambda>i. ?deg i - int (count_list js i), ?q @ new)"
    "distinct new" "set new = {i \<in> set js. ?deg i = int (count_list js i)}" by blast
  have "fold relax (x # js) (deg, q) = fold relax js (?deg, ?q)" by (simp add: relax_def Let_def)
  also note new(1)
  also have "(\<lambda>i. ?deg i - int (count_list js i)) = (\<lambda>i. deg i - int (count_list (x # js) i))" by auto
  finally have e: "fold relax (x # js) (deg, q) = (\<lambda>i. deg i - int (count_list (x # js) i), ?q @ new)" .
  show ?case
  proof (cases "deg x - 1 = 0")
    case True
    then have "x \<notin> set js" using Cons.prems [of x] by (auto simp: count_list_0_iff [symmetric])
    with True e new show ?thesis
      by (intro exI [of _ "x # new"]) (auto simp: count_list_0_iff)
  next
    case False
    have notin: "x \<notin> set js \<Longrightarrow> count_list js x = 0" by (rule count_notin)
    have mem: "x \<in> set js" if "deg x = int (count_list (x # js) x)"
    proof (rule ccontr)
      assume "x \<notin> set js"
      with notin that have "deg x = 1" by simp
      with False show False by simp
    qed
    have "set new = {i \<in> set (x # js). deg i = int (count_list (x # js) i)}"
      unfolding new(3) using mem by auto
    with False e new(2) show ?thesis by (intro exI [of _ new]) simp
  qed
qed auto

definition openEdges :: "('k \<times> 'k) list \<Rightarrow> 'k list \<Rightarrow> 'k \<Rightarrow> ('k \<times> 'k) list" where
  "openEdges edges placed i = filter (\<lambda>e. snd e = i \<and> fst e \<notin> set placed) edges"

definition queueOK :: "'k list \<Rightarrow> ('k \<times> 'k) list \<Rightarrow> 'k list \<times> ('k \<Rightarrow> int) \<times> 'k list \<Rightarrow> bool" where
  "queueOK nodes edges s \<longleftrightarrow> (case s of (queue, deg, placed) \<Rightarrow>
     distinct (placed @ queue) \<and>
     (\<forall>i. deg i = int (length (openEdges edges placed i))) \<and>
     (\<forall>i. i \<in> set (placed @ queue) \<longleftrightarrow> i \<in> set nodes \<and> openEdges edges placed i = []) \<and>
     (\<forall>k < length placed. \<forall>d. (d, placed ! k) \<in> set edges \<longrightarrow> d \<in> set (take k placed)))"

lemma openEdges_Nil_iff: "openEdges edges placed i = [] \<longleftrightarrow> (\<forall>d. (d, i) \<in> set edges \<longrightarrow> d \<in> set placed)"
  by (auto simp: openEdges_def filter_empty_conv)

lemma openEdges_split:
  assumes "n \<notin> set placed"
  shows "length (openEdges es placed i) =
    length (openEdges es (placed @ [n]) i) + count_list (map snd (filter (\<lambda>e. fst e = n) es)) i"
  using assms by (induction es) (auto simp: openEdges_def)

section \<open>The graph\<close>

locale kahn_graph =
  fixes nodes :: "'k list" and edges :: "('k \<times> 'k) list"
  assumes distinct_nodes: "distinct nodes"
    and edge_nodes: "(d, i) \<in> set edges \<Longrightarrow> d \<in> set nodes \<and> i \<in> set nodes"
begin

lemma queueOK_init: "queueOK nodes edges (filter (\<lambda>i. fst (degrees edges) i = 0) nodes, fst (degrees edges), [])"
  using distinct_nodes by (auto simp: queueOK_def degrees_def openEdges_def)

lemma queueOK_step:
  assumes inv: "queueOK nodes edges (queue, deg, placed)" and "queue \<noteq> []"
  shows "queueOK nodes edges (placeNext (snd (degrees edges)) (queue, deg, placed))" (is "queueOK _ _ (placeNext ?adj _)")
proof -
  obtain n qs where q: "queue = n # qs" using assms(2) by (cases queue) auto
  have n: "n \<notin> set placed" "n \<notin> set qs" "n \<in> set nodes" "openEdges edges placed n = []"
    using inv by (auto simp: queueOK_def q)
  have adjn: "?adj n = map snd (filter (\<lambda>e. fst e = n) edges)" by (simp add: degrees_def)
  have deg: "deg i = int (length (openEdges edges placed i))" for i using inv by (simp add: queueOK_def)
  have split: "length (openEdges edges placed i) = length (openEdges edges (placed @ [n]) i) + count_list (?adj n) i" for i
    unfolding adjn by (rule openEdges_split [OF n(1)])
  have "int (count_list (?adj n) i) \<le> deg i" for i unfolding deg split by simp
  from fold_relax [OF this, of qs] obtain new where
    new: "fold relax (?adj n) (deg, qs) = (\<lambda>i. deg i - int (count_list (?adj n) i), qs @ new)"
    "distinct new" "set new = {i \<in> set (?adj n). deg i = int (count_list (?adj n) i)}" by blast
  have step: "placeNext ?adj (queue, deg, placed) =
      (qs @ new, \<lambda>i. int (length (openEdges edges (placed @ [n]) i)), placed @ [n])"
    by (auto simp: placeNext_def q new(1) deg split)
  have newE: "i \<in> set new \<longleftrightarrow> i \<in> set nodes \<and> openEdges edges placed i \<noteq> [] \<and> openEdges edges (placed @ [n]) i = []" for i
  proof -
    have "i \<in> set (?adj n) \<longleftrightarrow> 0 < count_list (?adj n) i" by (metis bot_nat_0.not_eq_extremum count_list_0_iff)
    moreover have "i \<in> set (?adj n) \<Longrightarrow> i \<in> set nodes" unfolding adjn by (auto dest: edge_nodes)
    moreover have "openEdges edges xs i = [] \<longleftrightarrow> length (openEdges edges xs i) = 0" for xs by simp
    ultimately show ?thesis unfolding new(3) deg using split [of i] by auto
  qed
  have "openEdges edges (placed @ [n]) i = []" if "openEdges edges placed i = []" for i
    using that by (auto simp: openEdges_Nil_iff)
  then have mem: "i \<in> set ((placed @ [n]) @ qs @ new) \<longleftrightarrow> i \<in> set nodes \<and> openEdges edges (placed @ [n]) i = []" for i
    using inv newE [of i] by (auto simp: queueOK_def q)
  have "distinct ((placed @ [n]) @ qs @ new)"
    using inv newE new(2) by (auto simp: queueOK_def q)
  moreover have "\<forall>k < length (placed @ [n]). \<forall>d. (d, (placed @ [n]) ! k) \<in> set edges \<longrightarrow> d \<in> set (take k (placed @ [n]))"
    using inv n(4) by (auto simp: queueOK_def nth_append openEdges_Nil_iff less_Suc_eq)
  ultimately show ?thesis unfolding step using mem by (simp add: queueOK_def)
qed

lemma queueOK_length: "queueOK nodes edges (queue, deg, placed) \<Longrightarrow> length placed + length queue \<le> length nodes"
proof -
  assume inv: "queueOK nodes edges (queue, deg, placed)"
  then have "set (placed @ queue) \<subseteq> set nodes" "distinct (placed @ queue)" by (auto simp: queueOK_def)
  then have "length (placed @ queue) \<le> length nodes"
    using distinct_nodes by (metis List.finite_set card_mono distinct_card)
  then show ?thesis by simp
qed

text \<open>The queue empties, and what is left unplaced depends on a cycle.\<close>

lemma place_total: "\<exists>deg placed. placeNodes nodes (degrees edges) = Some ([], deg, placed) \<and> queueOK nodes edges ([], deg, placed)"
proof -
  let ?next = "placeNext (snd (degrees edges))"
  let ?b = "\<lambda>(queue, _, _). queue \<noteq> []" and ?s = "(filter (\<lambda>i. fst (degrees edges) i = 0) nodes, fst (degrees edges), [])"
  have "\<exists>t. while_option ?b ?next ?s = Some t"
  proof (rule measure_while_option_Some [where P = "queueOK nodes edges" and f = "\<lambda>(_, _, placed). length nodes - length placed"])
    fix s assume s: "queueOK nodes edges s" "?b s"
    then obtain queue deg placed where e: "s = (queue, deg, placed)" "queue \<noteq> []" by (cases s) auto
    have ok: "queueOK nodes edges (?next s)" using queueOK_step [OF _ e(2)] s(1) e(1) by simp
    obtain q' d' where n: "?next s = (q', d', placed @ [hd queue])"
      by (cases "fold relax (snd (degrees edges) (hd queue)) (deg, tl queue)") (auto simp: e placeNext_def)
    have "length placed + length queue \<le> length nodes" using queueOK_length s(1) e(1) by blast
    moreover have "0 < length queue" using e(2) by simp
    ultimately have "length placed < length nodes" by linarith
    with ok show "queueOK nodes edges (?next s) \<and>
        (\<lambda>(_, _, placed). length nodes - length placed) (?next s) < (\<lambda>(_, _, placed). length nodes - length placed) s"
      by (simp add: n) (simp add: e)
  qed (rule queueOK_init)
  then obtain t where t: "while_option ?b ?next ?s = Some t" by blast
  have "queueOK nodes edges t"
    by (rule while_option_rule [where P = "queueOK nodes edges", OF _ t queueOK_init]) (auto dest: queueOK_step)
  moreover have "\<not> ?b t" using while_option_stop [OF t] .
  ultimately show ?thesis using t by (cases t) (auto simp: placeNodes_def split: prod.split)
qed

lemma placed_all_acyclic:
  assumes "queueOK nodes edges ([], deg, placed)" and "length placed = length nodes"
  shows "acyclic (set edges)"
proof -
  define pos where "pos i = (THE k. k < length placed \<and> placed ! k = i)" for i
  have "distinct placed" using assms(1) by (simp add: queueOK_def)
  then have pos: "pos (placed ! k) = k" if "k < length placed" for k
    unfolding pos_def using that by (intro the_equality) (auto simp: nth_eq_iff_index_eq)
  have "set placed \<subseteq> set nodes" using assms(1) by (auto simp: queueOK_def)
  moreover have "card (set placed) = card (set nodes)"
    using \<open>distinct placed\<close> distinct_nodes assms(2) by (simp add: distinct_card)
  ultimately have all: "set placed = set nodes" by (intro card_subset_eq) auto
  have less: "pos d < pos i" if "(d, i) \<in> set edges" for d i
  proof -
    have "i \<in> set placed" using that all edge_nodes by auto
    then obtain k where k: "k < length placed" "placed ! k = i" by (auto simp: in_set_conv_nth)
    then have "d \<in> set (take k placed)" using assms(1) that by (auto simp: queueOK_def)
    then obtain m where "m < k" "placed ! m = d" by (auto simp: in_set_conv_nth)
    with k pos show ?thesis by (metis less_trans)
  qed
  show ?thesis
  proof (rule acyclicI, rule allI, rule notI)
    fix x assume "(x, x) \<in> (set edges)\<^sup>+"
    moreover have "(x, y) \<in> (set edges)\<^sup>+ \<Longrightarrow> pos x < pos y" for x y
      by (induction rule: trancl_induct) (auto dest: less)
    ultimately show False by blast
  qed
qed

lemma acyclic_placed_all:
  assumes inv: "queueOK nodes edges ([], deg, placed)" and ac: "acyclic (set edges)"
  shows "length placed = length nodes"
proof -
  have sub: "set placed \<subseteq> set nodes" "distinct placed" using inv by (auto simp: queueOK_def)
  have "set nodes \<subseteq> set placed"
  proof (rule ccontr)
    assume "\<not> set nodes \<subseteq> set placed"
    then obtain x where x: "x \<in> set nodes - set placed" by blast
    have "wf (set edges)" using ac by (intro finite_acyclic_wf) simp_all
    from wfE_min [OF this x] obtain z where z: "z \<in> set nodes - set placed"
      "\<And>y. (y, z) \<in> set edges \<Longrightarrow> y \<notin> set nodes - set placed" by blast
    have "\<forall>d. (d, z) \<in> set edges \<longrightarrow> d \<in> set placed" using z(2) edge_nodes by auto
    then have "openEdges edges placed z = []" by (simp add: openEdges_Nil_iff)
    with z(1) inv show False by (auto simp: queueOK_def)
  qed
  with sub have "set placed = set nodes" by blast
  with sub(2) distinct_nodes show ?thesis by (metis distinct_card)
qed

lemma placed_permutation:
  assumes "queueOK nodes edges ([], deg, placed)" "length placed = length nodes"
  shows "mset placed = mset nodes"
proof -
  have "set placed \<subseteq> set nodes" "distinct placed" using assms(1) by (auto simp: queueOK_def)
  moreover from this assms(2) distinct_nodes have "set placed = set nodes"
    by (metis card_subset_eq distinct_card List.finite_set)
  ultimately show ?thesis using distinct_nodes by (simp add: set_eq_iff_mset_eq_distinct)
qed

end

end
