(* ===== verification/FormulaOrder.thy ===== *)
theory FormulaOrder
  imports CostRoute KahnQueue "HOL-Library.List_Lexorder" "HOL-Library.Char_ord"
begin

text \<open>
  \<^verbatim>\<open>services/finance/internal/application/costcalc\<close>: the formulas of a product
  (\<^verbatim>\<open>formula.go\<close>) and their evaluation order (\<open>topoSortFormulas\<close> and
  \<open>missingConstantInputs\<close> in \<^verbatim>\<open>loader.go\<close>). The order is a queue over the formulas whose
  producers are all placed; it is shown to end on every list, to put every producer before
  its consumers, and to fail exactly on a cyclic list.
\<close>

section \<open>Formulas\<close>

record formula =
  fm_FormulaCode :: string
  fm_FormulaName :: string
  fm_FormulaType :: string
  fm_Expression :: string
  fm_ResultParamCode :: string
  fm_InputParamCodes :: "string list"
  fm_SortOrder :: int

section \<open>The order of evaluation\<close>

text \<open>The first formula that produces a code.\<close>

definition byResult :: "formula list \<Rightarrow> string \<Rightarrow> nat option" where
  "byResult fs code = find (\<lambda>i. fm_ResultParamCode (fs ! i) = code) [0..<length fs]"

text \<open>The edges in the order the loops find them: producer and consumer.\<close>

definition edgesInto :: "formula list \<Rightarrow> nat \<Rightarrow> (nat \<times> nat) list" where
  "edgesInto fs i =
     concat (map (\<lambda>code. case byResult fs code of
       None \<Rightarrow> [] | Some d \<Rightarrow> if d = i then [] else [(d, i)]) (fm_InputParamCodes (fs ! i)))"

definition adjacency :: "formula list \<Rightarrow> (nat \<Rightarrow> int) \<times> (nat \<Rightarrow> nat list)" where
  "adjacency fs = fold (\<lambda>i. fold addEdge (edgesInto fs i)) [0..<length fs] (\<lambda>_. 0, \<lambda>_. [])"

text \<open>The queue of \<open>KahnQueue\<close> over the positions of the formulas.\<close>

definition placeAll :: "formula list \<Rightarrow> (nat list \<times> (nat \<Rightarrow> int) \<times> nat list) option" where
  "placeAll fs = placeNodes [0..<length fs] (adjacency fs)"

datatype order_error = ErrCycleDetected | OrderDoesNotReturn

definition topoSortFormulas :: "formula list \<Rightarrow> order_error + formula list" where
  "topoSortFormulas fs =
     (if fs = [] then Inr fs
      else (case placeAll fs of
        None \<Rightarrow> Inl OrderDoesNotReturn
      | Some (_, _, placed) \<Rightarrow>
          if length placed \<noteq> length fs then Inl ErrCycleDetected
          else Inr (map2 (\<lambda>k n. (fs ! n)\<lparr>fm_SortOrder := int k\<rparr>) [0..<length placed] placed)))"

section \<open>The edges\<close>

definition formulaEdges :: "formula list \<Rightarrow> (nat \<times> nat) list" where
  "formulaEdges fs = concat (map (edgesInto fs) [0..<length fs])"

lemma byResult_SomeD: "byResult fs code = Some d \<Longrightarrow> d < length fs \<and> fm_ResultParamCode (fs ! d) = code"
  by (auto simp: byResult_def find_Some_iff)

lemma edgesInto_iff:
  "(d, j) \<in> set (edgesInto fs i) \<longleftrightarrow>
     j = i \<and> d \<noteq> i \<and> (\<exists>code \<in> set (fm_InputParamCodes (fs ! i)). byResult fs code = Some d)"
proof -
  have "(d, j) \<in> set (case byResult fs code of None \<Rightarrow> [] | Some d' \<Rightarrow> if d' = i then [] else [(d', i)]) \<longleftrightarrow>
      j = i \<and> d \<noteq> i \<and> byResult fs code = Some d" for code
    by (cases "byResult fs code") auto
  then show ?thesis unfolding edgesInto_def by (simp only: set_concat set_map image_image UN_iff) blast
qed

lemma formulaEdges_iff:
  "(d, i) \<in> set (formulaEdges fs) \<longleftrightarrow>
     i < length fs \<and> d \<noteq> i \<and> (\<exists>code \<in> set (fm_InputParamCodes (fs ! i)). byResult fs code = Some d)"
  by (auto simp: formulaEdges_def edgesInto_iff)

lemma formulaEdges_bound: "(d, i) \<in> set (formulaEdges fs) \<Longrightarrow> d < length fs \<and> i < length fs"
  by (auto simp: formulaEdges_iff dest: byResult_SomeD)

lemma adjacency_edges: "adjacency fs = degrees (formulaEdges fs)"
  by (simp add: adjacency_def formulaEdges_def fold_fold_concat fold_addEdge_degrees)

interpretation formulas: kahn_graph "[0..<length fs]" "formulaEdges fs" for fs
  by unfold_locales (auto dest: formulaEdges_bound)

text \<open>\<open>f\<close> reads what \<open>p\<close> produces: \<open>p\<close> is the first formula for one of the inputs of \<open>f\<close>.\<close>

definition dependsOn :: "formula list \<Rightarrow> (nat \<times> nat) set" where
  "dependsOn fs = set (formulaEdges fs)"

definition placedOK :: "formula list \<Rightarrow> nat list \<Rightarrow> bool" where
  "placedOK fs placed \<longleftrightarrow> distinct placed \<and> set placed \<subseteq> {..<length fs} \<and>
     (\<forall>k < length placed. \<forall>d. (d, placed ! k) \<in> set (formulaEdges fs) \<longrightarrow> d \<in> set (take k placed)) \<and>
     (length placed = length fs \<longleftrightarrow> acyclic (dependsOn fs)) \<and>
     (length placed = length fs \<longrightarrow> mset placed = mset [0..<length fs])"

lemma placeAll_total: "\<exists>deg placed. placeAll fs = Some ([], deg, placed) \<and> placedOK fs placed"
proof -
  obtain deg placed where p: "placeAll fs = Some ([], deg, placed)" "queueOK [0..<length fs] (formulaEdges fs) ([], deg, placed)"
    unfolding placeAll_def adjacency_edges using formulas.place_total by blast
  have "placedOK fs placed"
    using p(2) formulas.placed_all_acyclic [OF p(2)] formulas.acyclic_placed_all [OF p(2)] formulas.placed_permutation [OF p(2)]
    by (auto simp: placedOK_def dependsOn_def queueOK_def)
  with p(1) show ?thesis by blast
qed

lemma ordered_permutation:
  assumes "placedOK fs placed" "length placed = length fs"
  shows "mset (map (\<lambda>n. fs ! n) placed) = mset fs"
proof -
  have "mset placed = mset [0..<length fs]" using assms by (simp add: placedOK_def)
  then have "mset (map (\<lambda>n. fs ! n) placed) = mset (map (\<lambda>n. fs ! n) [0..<length fs])" by simp
  then show ?thesis by (simp add: map_nth)
qed

definition asLoaded :: "formula \<Rightarrow> formula" where
  "asLoaded f = f\<lparr>fm_SortOrder := 0\<rparr>"

lemma map_asLoaded_numbered:
  "length ks = length ns \<Longrightarrow> map asLoaded (map2 (\<lambda>k n. (g n)\<lparr>fm_SortOrder := int k\<rparr>) ks ns) = map (\<lambda>n. asLoaded (g n)) ns"
  by (induction ks ns rule: list_induct2) (auto simp: asLoaded_def)

lemma topoSortFormulas_total:
  assumes "acyclic (dependsOn fs)"
  shows "\<exists>out. topoSortFormulas fs = Inr out"
proof -
  obtain deg placed where p: "placeAll fs = Some ([], deg, placed)" "placedOK fs placed"
    using placeAll_total by blast
  show ?thesis using p assms by (auto simp: topoSortFormulas_def placedOK_def)
qed

lemma byResult_distinct:
  assumes "distinct (map fm_ResultParamCode fs)" "n < length fs"
  shows "byResult fs (fm_ResultParamCode (fs ! n)) = Some n"
  unfolding byResult_def find_Some_iff
  by (rule exI [of _ n]) (use assms in \<open>auto simp: distinct_conv_nth\<close>)

text \<open>When no two formulas produce the same code, a producer stands before its consumers.\<close>

lemma topoSort_producers_first:
  assumes sorted: "topoSortFormulas fs = Inr out" and dist: "distinct (map fm_ResultParamCode fs)"
    and ij: "i < length out" "j < length out" "fm_ResultParamCode (out ! j) \<in> set (fm_InputParamCodes (out ! i))"
  shows "j \<le> i"
proof (rule ccontr)
  assume "\<not> j \<le> i"
  from sorted ij(1) have ne: "fs \<noteq> []" by (auto simp: topoSortFormulas_def)
  obtain deg placed where p: "placeAll fs = Some ([], deg, placed)" "placedOK fs placed"
    using placeAll_total by blast
  from sorted ne p(1) have len: "length placed = length fs"
    and out: "out = map2 (\<lambda>k n. (fs ! n)\<lparr>fm_SortOrder := int k\<rparr>) [0..<length placed] placed"
    by (auto simp: topoSortFormulas_def split: if_splits)
  have bound: "placed ! k < length fs" if "k < length placed" for k
    using p(2) nth_mem [OF that] lessThan_iff unfolding placedOK_def by (metis subsetD)
  have dp: "distinct placed" using p(2) by (simp add: placedOK_def)
  have i: "i < length placed" and j: "j < length placed" using ij(1,2) out by simp_all
  have "fm_ResultParamCode (fs ! (placed ! j)) \<in> set (fm_InputParamCodes (fs ! (placed ! i)))"
    using ij(3) i j unfolding out by simp
  moreover have "byResult fs (fm_ResultParamCode (fs ! (placed ! j))) = Some (placed ! j)"
    using byResult_distinct [OF dist bound [OF j]] .
  moreover have "placed ! j \<noteq> placed ! i" using dp i j \<open>\<not> j \<le> i\<close> by (simp add: nth_eq_iff_index_eq)
  ultimately have "(placed ! j, placed ! i) \<in> set (formulaEdges fs)"
    using bound [OF i] by (auto simp: formulaEdges_iff)
  then have "placed ! j \<in> set (take i placed)" using p(2) i by (simp add: placedOK_def)
  then obtain k where "k < i" "placed ! k = placed ! j" by (auto simp: in_set_conv_nth)
  with dp i j \<open>\<not> j \<le> i\<close> show False by (simp add: nth_eq_iff_index_eq)
qed

lemma topoSort_results:
  assumes "topoSortFormulas fs = Inr out" "distinct (map fm_ResultParamCode fs)"
  shows "distinct (map fm_ResultParamCode out)"
proof (cases "fs = []")
  case False
  obtain deg placed where p: "placeAll fs = Some ([], deg, placed)" "placedOK fs placed"
    using placeAll_total by blast
  from assms(1) False p(1) have out: "out = map2 (\<lambda>k n. (fs ! n)\<lparr>fm_SortOrder := int k\<rparr>) [0..<length placed] placed"
    by (auto simp: topoSortFormulas_def split: if_splits)
  have "map fm_ResultParamCode out = map (\<lambda>n. fm_ResultParamCode (fs ! n)) placed"
    unfolding out by (rule nth_equalityI) simp_all
  moreover have "distinct placed" "set placed \<subseteq> {..<length fs}" using p(2) by (auto simp: placedOK_def)
  ultimately show ?thesis using assms(2) by (auto simp: distinct_map distinct_conv_nth inj_on_def subset_iff)
qed (use assms in \<open>simp add: topoSortFormulas_def\<close>)

text \<open>(C15) The evaluation order: sorting always returns; it fails exactly when the formulas depend
  on each other in a cycle; otherwise the result has the same formulas, numbered by
  position, and a formula that reads the result of another comes after the first formula
  that produces it.\<close>

theorem topoSortFormulas_correct:
  "case topoSortFormulas fs of
     Inl e \<Rightarrow> e = ErrCycleDetected \<and> \<not> acyclic (dependsOn fs)
   | Inr out \<Rightarrow> acyclic (dependsOn fs) \<and> mset (map asLoaded out) = mset (map asLoaded fs) \<and>
       (fs \<noteq> [] \<longrightarrow> map fm_SortOrder out = map int [0..<length fs]) \<and>
       (\<exists>placed. map asLoaded out = map (\<lambda>n. asLoaded (fs ! n)) placed \<and> distinct placed \<and>
          (\<forall>k < length placed. \<forall>d. (d, placed ! k) \<in> dependsOn fs \<longrightarrow> d \<in> set (take k placed)))"
proof (cases "fs = []")
  case True
  have "acyclic (dependsOn [])" by (simp add: dependsOn_def formulaEdges_def acyclic_def)
  with True show ?thesis by (simp add: topoSortFormulas_def)
next
  case False
  obtain deg placed where p: "placeAll fs = Some ([], deg, placed)" "placedOK fs placed"
    using placeAll_total by blast
  show ?thesis
  proof (cases "length placed = length fs")
    case True
    let ?out = "map2 (\<lambda>k n. (fs ! n)\<lparr>fm_SortOrder := int k\<rparr>) [0..<length placed] placed"
    have l: "map asLoaded ?out = map (\<lambda>n. asLoaded (fs ! n)) placed" by (rule map_asLoaded_numbered) simp
    have "mset (map (\<lambda>n. asLoaded (fs ! n)) placed) = image_mset asLoaded (mset (map (\<lambda>n. fs ! n) placed))"
      by (simp add: comp_def image_mset.compositionality)
    then have "mset (map asLoaded ?out) = mset (map asLoaded fs)"
      unfolding l ordered_permutation [OF p(2) True] by simp
    moreover have "map fm_SortOrder ?out = map int [0..<length fs]"
      by (rule nth_equalityI) (simp_all add: True)
    moreover have "\<exists>pl. map asLoaded ?out = map (\<lambda>n. asLoaded (fs ! n)) pl \<and> distinct pl \<and>
          (\<forall>k < length pl. \<forall>d. (d, pl ! k) \<in> dependsOn fs \<longrightarrow> d \<in> set (take k pl))"
      by (rule exI [of _ placed], intro conjI) (use p(2) l in \<open>simp_all add: placedOK_def dependsOn_def\<close>)
    moreover have "acyclic (dependsOn fs)" using p(2) True by (simp add: placedOK_def)
    moreover have "topoSortFormulas fs = Inr ?out" using False True p(1) by (simp add: topoSortFormulas_def)
    ultimately show ?thesis by (simp only: sum.case) simp
  next
    case notAll: False
    then have "\<not> acyclic (dependsOn fs)" using p(2) by (simp add: placedOK_def)
    with notAll False p(1) show ?thesis by (simp add: topoSortFormulas_def)
  qed
qed

section \<open>Constants loaded on demand\<close>

definition produced :: "formula list \<Rightarrow> string set" where
  "produced fs = fm_ResultParamCode ` set fs"

definition missingCode :: "(string \<Rightarrow> bool) \<Rightarrow> formula list \<Rightarrow> string \<Rightarrow> string list \<Rightarrow> string list" where
  "missingCode attached fs code missing =
     (if code \<in> produced fs \<or> attached code \<or> code \<in> set missing then missing else missing @ [code])"

definition missingConstantInputs :: "formula list \<Rightarrow> (string \<Rightarrow> bool) \<Rightarrow> string list" where
  "missingConstantInputs fs attached =
     sort (fold (\<lambda>f. fold (missingCode attached fs) (fm_InputParamCodes f)) fs [])"

text \<open>The candidate constants of one product, appended in the order of the missing codes.\<close>

definition appendConstants :: "(string \<Rightarrow> formula option) \<Rightarrow> string list \<Rightarrow> formula list \<Rightarrow> formula list" where
  "appendConstants constByResult missing fs =
     fold (\<lambda>code acc. case constByResult code of
       None \<Rightarrow> acc | Some cf \<Rightarrow> acc @ [cf\<lparr>fm_SortOrder := int (length acc)\<rparr>]) missing fs"

lemma fold_missingCode:
  assumes "distinct ms"
  shows "distinct (fold (missingCode attached fs) codes ms) \<and>
    set (fold (missingCode attached fs) codes ms) = set ms \<union> {c \<in> set codes. c \<notin> produced fs \<and> \<not> attached c}"
  using assms
proof (induction codes arbitrary: ms)
  case (Cons c codes)
  have "distinct (missingCode attached fs c ms)" using Cons.prems by (auto simp: missingCode_def)
  from Cons.IH [OF this] show ?case by (auto simp: missingCode_def)
qed simp

text \<open>The constants to load are listed in order, each once: exactly the inputs of the formulas
  that no formula produces and that are not attached to the product.\<close>

theorem missingConstantInputs_exact:
  "sorted (missingConstantInputs fs attached) \<and> distinct (missingConstantInputs fs attached) \<and>
   set (missingConstantInputs fs attached) =
     {c. (\<exists>f \<in> set fs. c \<in> set (fm_InputParamCodes f)) \<and> c \<notin> produced fs \<and> \<not> attached c}"
  using fold_missingCode [of "[]" attached fs "concat (map fm_InputParamCodes fs)"]
  by (auto simp: missingConstantInputs_def fold_fold_concat)

section \<open>The terminal formula\<close>

text \<open>The producer of a code in the map built over all formulas, where the last one stays.\<close>

definition lastProducer :: "formula list \<Rightarrow> string \<Rightarrow> formula option" where
  "lastProducer fs code = find (\<lambda>f. fm_ResultParamCode f = code) (rev fs)"

text \<open>
  The greatest depth of some codes, and the memo table. The recursion of the code has no
  guard against a code that is its own ancestor; not returning is \<open>None\<close>.
\<close>

partial_function (option) maxDepth ::
  "formula list \<Rightarrow> string list \<Rightarrow> int \<Rightarrow> (string \<Rightarrow> int option) \<Rightarrow> (int \<times> (string \<Rightarrow> int option)) option" where
  "maxDepth fs codes m cache =
     (case codes of
        [] \<Rightarrow> Some (m, cache)
      | x # xs \<Rightarrow> (case cache x of
          Some d \<Rightarrow> maxDepth fs xs (max m d) cache
        | None \<Rightarrow> (case lastProducer fs x of
            None \<Rightarrow> maxDepth fs xs (max m 0) (cache(x \<mapsto> 0))
          | Some f \<Rightarrow> Option.bind (maxDepth fs (fm_InputParamCodes f) 0 cache) (\<lambda>(p, cache').
              maxDepth fs xs (max m (p + 1)) (cache'(x \<mapsto> p + 1))))))"

declare maxDepth.simps [code]

definition computeDepth :: "formula list \<Rightarrow> string \<Rightarrow> (string \<Rightarrow> int option) \<Rightarrow> (int \<times> (string \<Rightarrow> int option)) option" where
  "computeDepth fs code cache = maxDepth fs [code] 0 cache"

definition terminalFormulas :: "formula list \<Rightarrow> formula list" where
  "terminalFormulas fs = filter (\<lambda>f. \<not> list_ex (\<lambda>g. fm_ResultParamCode f \<in> set (fm_InputParamCodes g)) fs) fs"

fun pickDeepest ::
  "formula list \<Rightarrow> formula \<Rightarrow> int \<Rightarrow> formula list \<Rightarrow> (string \<Rightarrow> int option) \<Rightarrow> formula option" where
  "pickDeepest fs best bestDepth [] cache = Some best"
| "pickDeepest fs best bestDepth (t # ts) cache =
     Option.bind (computeDepth fs (fm_ResultParamCode t) cache) (\<lambda>(d, cache').
       if d > bestDepth \<or> (d = bestDepth \<and> fm_FormulaCode t < fm_FormulaCode best)
       then pickDeepest fs t d ts cache' else pickDeepest fs best bestDepth ts cache')"

text \<open>The left side is the error of a set without a terminal; \<open>None\<close> is not returning.\<close>

definition findTerminalFormula :: "formula list \<Rightarrow> (unit + formula) option" where
  "findTerminalFormula fs =
     (case terminalFormulas fs of
        [] \<Rightarrow> Some (Inl ())
      | [t] \<Rightarrow> Some (Inr t)
      | t # ts \<Rightarrow> Option.bind (computeDepth fs (fm_ResultParamCode t) Map.empty) (\<lambda>(d, cache).
          map_option Inr (pickDeepest fs t d ts cache)))"

section \<open>Depths\<close>

definition codeDep :: "formula list \<Rightarrow> (string \<times> string) set" where
  "codeDep fs = {(c, fm_ResultParamCode f) |c f. f \<in> set fs \<and> c \<in> set (fm_InputParamCodes f)}"

definition isDepth :: "formula list \<Rightarrow> (string \<Rightarrow> int) \<Rightarrow> bool" where
  "isDepth fs h \<longleftrightarrow> (\<forall>x. h x = (case lastProducer fs x of
     None \<Rightarrow> 0 | Some f \<Rightarrow> fold max (map h (fm_InputParamCodes f)) 0 + 1))"

lemma lastProducer_SomeD: "lastProducer fs x = Some f \<Longrightarrow> f \<in> set fs \<and> fm_ResultParamCode f = x"
  by (auto simp: lastProducer_def find_Some_iff) (metis nth_mem set_rev length_rev)

lemma codeDep_UN: "codeDep fs = (\<Union>f \<in> set fs. (\<lambda>c. (c, fm_ResultParamCode f)) ` set (fm_InputParamCodes f))"
  by (auto simp: codeDep_def)

lemma finite_codeDep: "finite (codeDep fs)"
  by (simp add: codeDep_UN)

lemma isDepth_exists:
  assumes "acyclic (codeDep fs)"
  shows "\<exists>h. isDepth fs h"
proof -
  have wf: "wf (codeDep fs)" using finite_codeDep assms by (rule finite_acyclic_wf)
  let ?F = "\<lambda>h x. case lastProducer fs x of None \<Rightarrow> 0 | Some f \<Rightarrow> fold max (map h (fm_InputParamCodes f)) 0 + (1::int)"
  have "wfrec (codeDep fs) ?F x = ?F (wfrec (codeDep fs) ?F) x" for x
  proof -
    have "?F (cut (wfrec (codeDep fs) ?F) (codeDep fs) x) x = ?F (wfrec (codeDep fs) ?F) x"
    proof (cases "lastProducer fs x")
      case (Some f)
      then have "f \<in> set fs" "fm_ResultParamCode f = x" using lastProducer_SomeD by blast+
      then have "map (cut (wfrec (codeDep fs) ?F) (codeDep fs) x) (fm_InputParamCodes f) =
          map (wfrec (codeDep fs) ?F) (fm_InputParamCodes f)"
        by (intro map_cong refl cut_apply) (use \<open>f \<in> set fs\<close> \<open>fm_ResultParamCode f = x\<close> in \<open>force simp: codeDep_def\<close>)
      with Some show ?thesis by (simp only: option.case)
    qed simp
    then show ?thesis by (subst wfrec [OF wf]) simp
  qed
  then have "isDepth fs (wfrec (codeDep fs) ?F)" by (simp add: isDepth_def)
  then show ?thesis by blast
qed

definition soundCache :: "(string \<Rightarrow> int) \<Rightarrow> (string \<Rightarrow> int option) \<Rightarrow> bool" where
  "soundCache h cache \<longleftrightarrow> (\<forall>x d. cache x = Some d \<longrightarrow> d = h x)"

definition depthsComputed :: "formula list \<Rightarrow> (string \<Rightarrow> int) \<Rightarrow> string list \<Rightarrow> bool" where
  "depthsComputed fs h codes \<longleftrightarrow> (\<forall>m cache. soundCache h cache \<longrightarrow>
     (\<exists>cache'. soundCache h cache' \<and> maxDepth fs codes m cache = Some (fold max (map h codes) m, cache')))"

lemma depthsComputed_list:
  assumes "isDepth fs h"
    and "\<And>x f. x \<in> set codes \<Longrightarrow> lastProducer fs x = Some f \<Longrightarrow> depthsComputed fs h (fm_InputParamCodes f)"
  shows "depthsComputed fs h codes"
  using assms(2)
proof (induction codes)
  case Nil
  show ?case by (simp add: depthsComputed_def maxDepth.simps)
next
  case (Cons x xs)
  have IH: "depthsComputed fs h xs" by (rule Cons.IH) (use Cons.prems in auto)
  have h: "h x = (case lastProducer fs x of None \<Rightarrow> 0 | Some f \<Rightarrow> fold max (map h (fm_InputParamCodes f)) 0 + 1)"
    using assms(1) by (simp add: isDepth_def)
  show ?case unfolding depthsComputed_def
  proof (intro allI impI)
    fix m cache assume c: "soundCache h cache"
    show "\<exists>cache'. soundCache h cache' \<and> maxDepth fs (x # xs) m cache = Some (fold max (map h (x # xs)) m, cache')"
    proof (cases "cache x")
      case (Some d)
      then have "d = h x" using c by (simp add: soundCache_def)
      then show ?thesis using IH c Some unfolding depthsComputed_def
        by (subst maxDepth.simps) (simp add: max.commute)
    next
      case none: None
      show ?thesis
      proof (cases "lastProducer fs x")
        case None
        then have "soundCache h (cache(x \<mapsto> 0))" using c h by (simp add: soundCache_def)
        then show ?thesis using IH none None h unfolding depthsComputed_def
          by (subst maxDepth.simps) (simp add: max.commute)
      next
        case (Some f)
        from Cons.prems [OF _ Some] c obtain c1 where c1: "soundCache h c1"
          "maxDepth fs (fm_InputParamCodes f) 0 cache = Some (fold max (map h (fm_InputParamCodes f)) 0, c1)"
          unfolding depthsComputed_def by auto
        have hx: "fold max (map h (fm_InputParamCodes f)) 0 + 1 = h x" using h Some by simp
        have "soundCache h (c1(x \<mapsto> h x))" using c1(1) by (simp add: soundCache_def)
        then show ?thesis using IH none Some c1(2) hx unfolding depthsComputed_def
          by (subst maxDepth.simps) (simp add: max.commute)
      qed
    qed
  qed
qed

lemma depthsComputed_all:
  assumes "acyclic (codeDep fs)" and "isDepth fs h"
  shows "depthsComputed fs h codes"
proof -
  have wf: "wf (codeDep fs)" using finite_codeDep assms(1) by (rule finite_acyclic_wf)
  have *: "\<forall>f. lastProducer fs x = Some f \<longrightarrow> depthsComputed fs h (fm_InputParamCodes f)" for x
  proof (induction x rule: wf_induct_rule [OF wf])
    case (1 x)
    show ?case
    proof (intro allI impI)
      fix f assume "lastProducer fs x = Some f"
      then have f: "f \<in> set fs" "fm_ResultParamCode f = x" using lastProducer_SomeD by blast+
      show "depthsComputed fs h (fm_InputParamCodes f)"
      proof (rule depthsComputed_list [OF assms(2)])
        fix y g assume y: "y \<in> set (fm_InputParamCodes f)" "lastProducer fs y = Some g"
        have "(y, x) \<in> codeDep fs" unfolding codeDep_def using f y(1) by blast
        with 1 y(2) show "depthsComputed fs h (fm_InputParamCodes g)" by blast
      qed
    qed
  qed
  show ?thesis
  proof (rule depthsComputed_list [OF assms(2)])
    fix x f assume "lastProducer fs x = Some f"
    with * [of x] show "depthsComputed fs h (fm_InputParamCodes f)" by simp
  qed
qed

lemma computeDepth_depth:
  assumes "acyclic (codeDep fs)" and "isDepth fs h" and "soundCache h cache"
  shows "\<exists>cache'. soundCache h cache' \<and> computeDepth fs code cache = Some (h code, cache')"
proof -
  have "0 \<le> fold max (map h cs) (m::int)" if "0 \<le> m" for cs m
    using that by (induction cs arbitrary: m) (auto simp: max_def)
  then have "0 \<le> h code"
    using spec [OF assms(2) [unfolded isDepth_def], of code] by (cases "lastProducer fs code") auto
  moreover obtain cache' where "soundCache h cache'" "maxDepth fs [code] 0 cache = Some (fold max (map h [code]) 0, cache')"
    using depthsComputed_all [OF assms(1,2), of "[code]"] assms(3) unfolding depthsComputed_def by blast
  ultimately show ?thesis by (auto simp: computeDepth_def max_def)
qed

section \<open>The deepest terminal\<close>

text \<open>Deeper, or as deep with a code that is not greater.\<close>

definition preferred :: "(string \<Rightarrow> int) \<Rightarrow> formula \<Rightarrow> formula \<Rightarrow> bool" where
  "preferred h b t \<longleftrightarrow> h (fm_ResultParamCode t) < h (fm_ResultParamCode b) \<or>
     (h (fm_ResultParamCode t) = h (fm_ResultParamCode b) \<and> fm_FormulaCode b \<le> fm_FormulaCode t)"

lemma preferred_trans: "preferred h a b \<Longrightarrow> preferred h b c \<Longrightarrow> preferred h a c"
  by (auto simp: preferred_def)

lemma preferred_refl [simp]: "preferred h b b"
  by (simp add: preferred_def)

lemma pickDeepest_preferred:
  assumes "acyclic (codeDep fs)" and "isDepth fs h" and "soundCache h cache"
  shows "\<exists>b \<in> set (best # ts). pickDeepest fs best (h (fm_ResultParamCode best)) ts cache = Some b \<and>
    (\<forall>t \<in> set (best # ts). preferred h b t)"
  using assms(3)
proof (induction ts arbitrary: best cache)
  case (Cons t ts)
  obtain cache' where c: "soundCache h cache'" "computeDepth fs (fm_ResultParamCode t) cache = Some (h (fm_ResultParamCode t), cache')"
    using computeDepth_depth [OF assms(1,2) Cons.prems] by blast
  let ?win = "h (fm_ResultParamCode best) < h (fm_ResultParamCode t) \<or>
    (h (fm_ResultParamCode t) = h (fm_ResultParamCode best) \<and> fm_FormulaCode t < fm_FormulaCode best)"
  let ?next = "if ?win then t else best"
  have less: "preferred h ?next t" "preferred h ?next best" by (auto simp: preferred_def)
  obtain b where b: "b \<in> set (?next # ts)" "pickDeepest fs ?next (h (fm_ResultParamCode ?next)) ts cache' = Some b"
    "\<forall>t \<in> set (?next # ts). preferred h b t"
    using Cons.IH [OF c(1), of ?next] by blast
  have "pickDeepest fs best (h (fm_ResultParamCode best)) (t # ts) cache = Some b"
    using b(2) by (auto simp: c(2) split: if_splits)
  moreover have "preferred h b t" "preferred h b best" using b(3) less preferred_trans by (auto split: if_splits)
  moreover have "b \<in> set (best # t # ts)" using b(1) by (auto split: if_splits)
  ultimately show ?case using b(3) by auto
qed simp

lemma terminal_exists:
  assumes "acyclic (codeDep fs)" and "fs \<noteq> []"
  shows "terminalFormulas fs \<noteq> []"
proof -
  have wf: "wf ((codeDep fs)\<inverse>)" using finite_codeDep assms(1) by (rule finite_acyclic_wf_converse)
  have "fm_ResultParamCode (hd fs) \<in> fm_ResultParamCode ` set fs" using assms(2) by simp
  from wfE_min [OF wf this] obtain z where z: "z \<in> fm_ResultParamCode ` set fs"
    "\<And>y. (y, z) \<in> (codeDep fs)\<inverse> \<Longrightarrow> y \<notin> fm_ResultParamCode ` set fs" by blast
  then obtain f where f: "f \<in> set fs" "z = fm_ResultParamCode f" by blast
  have "z \<notin> set (fm_InputParamCodes g)" if "g \<in> set fs" for g
    using z(2) [of "fm_ResultParamCode g"] that by (auto simp: codeDep_def)
  with f have "f \<in> set (terminalFormulas fs)" by (auto simp: terminalFormulas_def list_ex_iff)
  then show ?thesis by auto
qed

text \<open>When no code is its own ancestor, the search for the terminal formula returns: it
  reports an empty set only for no formulas, and otherwise picks a formula whose result no
  formula reads, of greatest depth, and among those of smallest code.\<close>

theorem findTerminalFormula_deepest:
  assumes "acyclic (codeDep fs)"
  shows "\<exists>h. isDepth fs h \<and> (case findTerminalFormula fs of
      None \<Rightarrow> False
    | Some (Inl _) \<Rightarrow> fs = []
    | Some (Inr b) \<Rightarrow> b \<in> set (terminalFormulas fs) \<and> (\<forall>t \<in> set (terminalFormulas fs). preferred h b t))"
proof -
  obtain h where h: "isDepth fs h" using isDepth_exists [OF assms] by blast
  have "case findTerminalFormula fs of None \<Rightarrow> False | Some (Inl _) \<Rightarrow> fs = []
    | Some (Inr b) \<Rightarrow> b \<in> set (terminalFormulas fs) \<and> (\<forall>t \<in> set (terminalFormulas fs). preferred h b t)"
  proof (cases "terminalFormulas fs")
    case Nil
    then show ?thesis using terminal_exists [OF assms] by (auto simp: findTerminalFormula_def)
  next
    case (Cons t ts)
    have "soundCache h Map.empty" by (simp add: soundCache_def)
    then obtain cache where c: "soundCache h cache"
      "computeDepth fs (fm_ResultParamCode t) Map.empty = Some (h (fm_ResultParamCode t), cache)"
      using computeDepth_depth [OF assms h] by blast
    obtain b where "b \<in> set (t # ts)" "pickDeepest fs t (h (fm_ResultParamCode t)) ts cache = Some b"
      "\<forall>t \<in> set (t # ts). preferred h b t"
      using pickDeepest_preferred [OF assms h c(1), of t ts] by blast
    then show ?thesis using Cons c(2) by (cases ts) (auto simp: findTerminalFormula_def)
  qed
  with h show ?thesis by blast
qed

definition exampleFormula :: "string \<Rightarrow> string \<Rightarrow> string list \<Rightarrow> formula" where
  "exampleFormula code res inputs = \<lparr>fm_FormulaCode = code, fm_FormulaName = [], fm_FormulaType = ''CALCULATION'',
     fm_Expression = [], fm_ResultParamCode = res, fm_InputParamCodes = inputs, fm_SortOrder = 0\<rparr>"

definition exampleChain :: "formula list" where
  "exampleChain = [exampleFormula ''F1'' ''A'' [''X''], exampleFormula ''F2'' ''B'' [''A''], exampleFormula ''F3'' ''C'' []]"

theorem topoSortFormulas_correct_witness:
  "\<exists>out. topoSortFormulas exampleChain = Inr out \<and> acyclic (dependsOn exampleChain) \<and>
     map fm_SortOrder out = [0, 1, 2]"
proof -
  have "case topoSortFormulas exampleChain of Inl _ \<Rightarrow> False | Inr _ \<Rightarrow> True" by code_simp
  then obtain out where out: "topoSortFormulas exampleChain = Inr out" by (auto split: sum.splits)
  have "map int [0..<length exampleChain] = [0, 1, 2]" "exampleChain \<noteq> []"
    by (simp_all add: exampleChain_def upt_rec)
  then show ?thesis using topoSortFormulas_correct [of exampleChain] out by simp
qed

theorem findTerminalFormula_deepest_witness:
  "\<exists>b. findTerminalFormula exampleChain = Some (Inr b) \<and> b \<in> set (terminalFormulas exampleChain)"
proof -
  have "codeDep exampleChain = {(''X'', ''A''), (''A'', ''B'')}"
    by (auto simp: codeDep_UN exampleChain_def exampleFormula_def)
  then have "codeDep exampleChain \<subseteq> measure (\<lambda>c. if c = ''X'' then 0 else if c = ''A'' then 1 else 2)" by simp
  then have "acyclic (codeDep exampleChain)" by (rule wf_acyclic [OF wf_subset [OF wf_measure]])
  from findTerminalFormula_deepest [OF this] obtain h where h: "case findTerminalFormula exampleChain of
      None \<Rightarrow> False | Some (Inl _) \<Rightarrow> exampleChain = []
    | Some (Inr b) \<Rightarrow> b \<in> set (terminalFormulas exampleChain) \<and> (\<forall>t \<in> set (terminalFormulas exampleChain). preferred h b t)"
    by blast
  have ne: "exampleChain \<noteq> []" by (simp add: exampleChain_def)
  show ?thesis
  proof (cases "findTerminalFormula exampleChain")
    case None
    with h show ?thesis by simp
  next
    case (Some r)
    with h ne show ?thesis by (cases r) auto
  qed
qed

text \<open>A code that a formula both reads and produces is never given a depth.\<close>

lemma maxDepth_self_reference:
  assumes f: "lastProducer fs x = Some f" "x \<in> set (fm_InputParamCodes f)"
    and r: "maxDepth fs codes m cache = Some r"
  shows "cache x = None \<longrightarrow> x \<notin> set codes \<and> snd r x = None"
proof -
  have "fs = fs \<longrightarrow> cache x = None \<longrightarrow> x \<notin> set codes \<and> snd r x = None"
  proof (rule maxDepth.raw_induct [where P = "\<lambda>gs codes m cache r. gs = fs \<longrightarrow> cache x = None \<longrightarrow> x \<notin> set codes \<and> snd r x = None", OF _ r])
    fix md gs cs k c s
    assume IH: "\<And>gs cs k c s. md gs cs k c = Some s \<Longrightarrow> gs = fs \<longrightarrow> c x = None \<longrightarrow> x \<notin> set cs \<and> snd s x = None"
      and eq: "(case cs of [] \<Rightarrow> Some (k, c)
        | y # ys \<Rightarrow> (case c y of Some d \<Rightarrow> md gs ys (max k d) c
          | None \<Rightarrow> (case lastProducer gs y of None \<Rightarrow> md gs ys (max k 0) (c(y \<mapsto> 0))
            | Some f \<Rightarrow> Option.bind (md gs (fm_InputParamCodes f) 0 c) (\<lambda>(p, c'). md gs ys (max k (p + 1)) (c'(y \<mapsto> p + 1)))))) = Some s"
    show "gs = fs \<longrightarrow> c x = None \<longrightarrow> x \<notin> set cs \<and> snd s x = None"
    proof (intro impI)
      assume g: "gs = fs" and none: "c x = None"
      show "x \<notin> set cs \<and> snd s x = None"
      proof (cases cs)
        case Nil
        with eq none show ?thesis by auto
      next
        case (Cons y ys)
        show ?thesis
        proof (cases "c y")
          case (Some d)
          with none have "y \<noteq> x" by auto
          with eq Cons Some IH [of gs ys "max k d" c s] g none show ?thesis by simp
        next
          case cy: None
          show ?thesis
          proof (cases "lastProducer fs y")
            case None
            with f(1) have "y \<noteq> x" by auto
            with eq Cons cy None IH [of gs ys "max k 0" "c(y \<mapsto> 0)" s] g none show ?thesis by simp
          next
            case (Some h)
            then obtain p c' where b: "md fs (fm_InputParamCodes h) 0 c = Some (p, c')"
              "md fs ys (max k (p + 1)) (c'(y \<mapsto> p + 1)) = Some s"
              using eq Cons cy g by (auto simp: bind_eq_Some_conv)
            have "x \<notin> set (fm_InputParamCodes h)" "c' x = None" using IH [OF b(1)] none by auto
            moreover from this(1) f Some have "y \<noteq> x" by auto
            ultimately show ?thesis using IH [OF b(2)] Cons by simp
          qed
        qed
      qed
    qed
  qed
  then show ?thesis by simp
qed

definition selfReference :: "formula list" where
  "selfReference = [exampleFormula ''F1'' ''A'' [''A''], exampleFormula ''F2'' ''B'' [''A''], exampleFormula ''F3'' ''C'' []]"

text \<open>The guard is missing: on a formula that reads its own result, beside two terminal
  formulas, the order of evaluation is found but the search for the terminal formula does not
  return.\<close>

theorem findTerminalFormula_diverges:
  "(\<exists>out. topoSortFormulas selfReference = Inr out) \<and> findTerminalFormula selfReference = None"
proof
  have "formulaEdges selfReference = [(0, 1)]" by code_simp
  then have "dependsOn selfReference \<subseteq> less_than" by (simp add: dependsOn_def)
  then have "acyclic (dependsOn selfReference)" by (rule wf_acyclic [OF wf_subset [OF wf_less_than]])
  then show "\<exists>out. topoSortFormulas selfReference = Inr out"
    using topoSortFormulas_total [of selfReference] by blast
  let ?f = "exampleFormula ''F1'' ''A'' [''A'']" and ?g = "exampleFormula ''F2'' ''B'' [''A'']"
  have self: "lastProducer selfReference ''A'' = Some ?f" "''A'' \<in> set (fm_InputParamCodes ?f)"
    by (simp_all add: lastProducer_def selfReference_def exampleFormula_def)
  have none: "maxDepth selfReference [''A''] 0 Map.empty = None"
    using maxDepth_self_reference [OF self, of "[''A'']" 0 Map.empty]
    by (cases "maxDepth selfReference [''A''] 0 Map.empty") auto
  have "lastProducer selfReference ''B'' = Some ?g" by (simp add: lastProducer_def selfReference_def exampleFormula_def)
  then have "computeDepth selfReference ''B'' Map.empty = None"
    unfolding computeDepth_def by (subst maxDepth.simps) (simp add: none exampleFormula_def)
  moreover have "terminalFormulas selfReference = [?g, exampleFormula ''F3'' ''C'' []]"
    by (simp add: terminalFormulas_def selfReference_def exampleFormula_def)
  ultimately show "findTerminalFormula selfReference = None"
    by (simp add: findTerminalFormula_def exampleFormula_def)
qed

end
