(* ===== verification/RMCascade.thy ===== *)
theory RMCascade
  imports CostRoute
begin

text \<open>
  The cascades that pick the rate of an RM group
  (\<^verbatim>\<open>services/finance/internal/application/costcalc/loader.go\<close>, \<^verbatim>\<open>compute.go\<close>,
  \<^verbatim>\<open>services/finance/internal/domain/rmcost/valuation_cascade.go\<close>): the configuration text is
  parsed into an order of rate tokens, the tokens name rates of a cost row, and the first
  positive rate wins.
\<close>

section \<open>Splitting text\<close>

text \<open>\<open>strings.Split\<close> at one byte, and \<open>strings.SplitN(s, sep, 2)\<close>.\<close>

fun splitOn :: "char \<Rightarrow> string \<Rightarrow> string list" where
  "splitOn sep [] = [[]]"
| "splitOn sep (c # cs) =
     (if c = sep then [] # splitOn sep cs
      else (case splitOn sep cs of [] \<Rightarrow> [[c]] | w # ws \<Rightarrow> (c # w) # ws))"

definition splitTwo :: "char \<Rightarrow> string \<Rightarrow> string list" where
  "splitTwo sep s = (if sep \<in> set s then [takeWhile (\<lambda>c. c \<noteq> sep) s, tl (dropWhile (\<lambda>c. c \<noteq> sep) s)] else [s])"

fun joinWith :: "char \<Rightarrow> string list \<Rightarrow> string" where
  "joinWith sep [] = []"
| "joinWith sep [w] = w"
| "joinWith sep (w # ws) = w @ sep # joinWith sep ws"

lemma splitOn_ne [simp]: "splitOn sep s \<noteq> []"
  by (induction s) (auto split: list.split)

lemma splitOn_word: "sep \<notin> set w \<Longrightarrow> splitOn sep w = [w]"
  by (induction w) auto

lemma splitOn_sep: "sep \<notin> set w \<Longrightarrow> splitOn sep (w @ sep # s) = w # splitOn sep s"
  by (induction w) auto

lemma splitOn_joinWith:
  "ws \<noteq> [] \<Longrightarrow> \<forall>w \<in> set ws. sep \<notin> set w \<Longrightarrow> splitOn sep (joinWith sep ws) = ws"
  by (induction sep ws rule: joinWith.induct) (auto simp: splitOn_word splitOn_sep)

section \<open>The configured orders\<close>

definition DefaultRMRateOrder :: "string list" where
  "DefaultRMRateOrder = [''CR'', ''SR'', ''PR'']"

definition validRMRateTokens :: "string list" where
  "validRMRateTokens = [''CR'', ''SR'', ''PR'']"

text \<open>The loop both parsers run over the parts: reject an unknown or repeated token.\<close>

fun parseTokens :: "string list \<Rightarrow> string list \<Rightarrow> string list \<Rightarrow> string list option" where
  "parseTokens valid [] order = Some order"
| "parseTokens valid (p # ps) order =
     (let tok = toUpper (trimSpace p)
      in if tok \<notin> set valid \<or> tok \<in> set order then None else parseTokens valid ps (order @ [tok]))"

definition ParseRMRateOrder :: "string \<Rightarrow> string list option" where
  "ParseRMRateOrder expr =
     (let e = trimSpace expr in if e = [] then None else parseTokens validRMRateTokens (splitOn CHR '','' e) [])"

definition DefaultRMLandedOrderActual :: "string list" where
  "DefaultRMLandedOrderActual = [''CL'', ''SL'', ''FL'', ''PP'']"

definition DefaultRMLandedOrderForecast :: "string list" where
  "DefaultRMLandedOrderForecast = [''SP'', ''PP'', ''FP'']"

definition validRMLandedTokensByCalcType :: "string \<Rightarrow> string list option" where
  "validRMLandedTokensByCalcType =
     [''ACTUAL'' \<mapsto> [''CL'', ''SL'', ''FL'', ''PP''], ''FORECAST'' \<mapsto> [''SP'', ''PP'', ''FP''],
      ''SELLING'' \<mapsto> [''SP'', ''PP'', ''FP'']]"

definition parseRMLandedSection :: "string \<Rightarrow> (string \<times> string list) option" where
  "parseRMLandedSection section =
     (let s = trimSpace section
      in if s = [] then None
         else (case splitTwo CHR '':'' s of
           [l, r] \<Rightarrow> (let calcType = toUpper (trimSpace l)
             in case validRMLandedTokensByCalcType calcType of
                  None \<Rightarrow> None
                | Some valid \<Rightarrow> (case parseTokens valid (splitOn CHR '','' r) [] of
                    None \<Rightarrow> None
                  | Some order \<Rightarrow> if order = [] then None else Some (calcType, order)))
         | _ \<Rightarrow> None))"

definition ParseRMLandedOrder :: "string \<Rightarrow> string \<Rightarrow> string list option" where
  "ParseRMLandedOrder expr =
     (let e = trimSpace expr
      in if e = [] then Map.empty
         else fold (\<lambda>section result. case parseRMLandedSection section of
             None \<Rightarrow> result | Some (calcType, order) \<Rightarrow> result(calcType \<mapsto> order)) (splitOn CHR '';'' e) Map.empty)"

definition rmLandedOrderForCalcType :: "(string \<Rightarrow> string list option) \<Rightarrow> string \<Rightarrow> string list" where
  "rmLandedOrderForCalcType cfg calcType =
     (case cfg calcType of
        Some order \<Rightarrow> order
      | None \<Rightarrow> if calcType = ''ACTUAL'' then DefaultRMLandedOrderActual else DefaultRMLandedOrderForecast)"

section \<open>Rates and candidates\<close>

record 'f rm_cost_rates =
  rr_CostVal :: 'f
  rr_CrRate :: 'f
  rr_SrRate :: 'f
  rr_PrRate :: 'f
  rr_ClRate :: 'f
  rr_SlRate :: 'f
  rr_FlRate :: 'f
  rr_SpRate :: 'f
  rr_PpRate :: 'f
  rr_FpRate :: 'f

definition rmRateCandidates :: "string list \<Rightarrow> 'f rm_cost_rates \<Rightarrow> ('f \<times> string) list" where
  "rmRateCandidates order rates =
     concat (map (\<lambda>tok.
       if tok = ''CR'' then [(rr_CrRate rates, ''CR'')]
       else if tok = ''SR'' then [(rr_SrRate rates, ''SR'')]
       else if tok = ''PR'' then [(rr_PrRate rates, ''PR'')]
       else []) (if order = [] then DefaultRMRateOrder else order))"

definition rmLandedCandidates :: "string list \<Rightarrow> 'f rm_cost_rates \<Rightarrow> ('f \<times> string) list" where
  "rmLandedCandidates order rates =
     concat (map (\<lambda>tok.
       if tok = ''CL'' then [(rr_ClRate rates, ''CL'')]
       else if tok = ''SL'' then [(rr_SlRate rates, ''SL'')]
       else if tok = ''FL'' then [(rr_FlRate rates, ''FL'')]
       else if tok = ''SP'' then [(rr_SpRate rates, ''SP'')]
       else if tok = ''PP'' then [(rr_PpRate rates, ''PP'')]
       else if tok = ''FP'' then [(rr_FpRate rates, ''FP'')]
       else []) order)"

definition FirstNonZeroWithLabel :: "(('f::{zero,ord}) \<times> string) list \<Rightarrow> 'f \<times> string" where
  "FirstNonZeroWithLabel candidates =
     (case find (\<lambda>c. 0 < fst c) candidates of
        Some c \<Rightarrow> c
      | None \<Rightarrow> if candidates = [] then (0, []) else (0, snd (last candidates)))"

section \<open>Parsing\<close>

lemma parseTokens_Some:
  "parseTokens valid ps order = Some out \<Longrightarrow>
     out = order @ map (\<lambda>p. toUpper (trimSpace p)) ps \<and> set (map (\<lambda>p. toUpper (trimSpace p)) ps) \<subseteq> set valid"
  by (induction valid ps order rule: parseTokens.induct) (auto simp: Let_def split: if_splits)

lemma parseTokens_distinct: "parseTokens valid ps order = Some out \<Longrightarrow> distinct order \<Longrightarrow> distinct out"
  by (induction valid ps order rule: parseTokens.induct) (simp_all add: Let_def split: if_splits)

lemma parseTokens_words:
  assumes "\<forall>w \<in> set ws. toUpper (trimSpace w) = w" and "distinct (order @ ws)" and "set ws \<subseteq> set valid"
  shows "parseTokens valid ws order = Some (order @ ws)"
  using assms by (induction ws arbitrary: order) (auto simp: Let_def)

lemma rate_tokens_fixed: "\<forall>w \<in> set validRMRateTokens. toUpper (trimSpace w) = w \<and> CHR '','' \<notin> set w"
  by code_simp

text \<open>Only valid configurations are accepted: what the parser returns is not empty, has no
  token twice and only the tokens \<open>CR\<close>, \<open>SR\<close> and \<open>PR\<close>.\<close>

theorem ParseRMRateOrder_valid:
  assumes "ParseRMRateOrder expr = Some order"
  shows "order \<noteq> [] \<and> distinct order \<and> set order \<subseteq> {''CR'', ''SR'', ''PR''}"
proof -
  have "trimSpace expr \<noteq> []" and p: "parseTokens validRMRateTokens (splitOn CHR '','' (trimSpace expr)) [] = Some order"
    using assms by (auto simp: ParseRMRateOrder_def Let_def split: if_splits)
  have "order = map (\<lambda>p. toUpper (trimSpace p)) (splitOn CHR '','' (trimSpace expr))"
    "set order \<subseteq> set validRMRateTokens" "distinct order"
    using parseTokens_Some [OF p] parseTokens_distinct [OF p] by simp_all
  then show ?thesis by (simp add: validRMRateTokens_def)
qed

theorem ParseRMRateOrder_valid_witness:
  "\<exists>order. ParseRMRateOrder '' sr , cr '' = Some order \<and> distinct order"
proof -
  have "ParseRMRateOrder '' sr , cr '' = Some [''SR'', ''CR'']" by code_simp
  with ParseRMRateOrder_valid [OF this] show ?thesis by blast
qed

lemma trim_first: "c \<notin> hd ` set spaceRunes \<Longrightarrow> trimLeft spaceRunes (c # s) = c # s"
  by (subst trimLeft.simps) (simp add: startsWith_def spaceRunes_def)

lemma trim_last: "c \<notin> last ` set spaceRunes \<Longrightarrow> trimLeft (map rev spaceRunes) (c # s) = c # s"
  by (subst trimLeft.simps) (simp add: startsWith_def spaceRunes_def)

lemma trimSpace_plain:
  assumes "s \<noteq> []" and "hd s \<notin> hd ` set spaceRunes" and "last s \<notin> last ` set spaceRunes"
  shows "trimSpace s = s"
proof -
  have "trimLeft spaceRunes s = s" using assms(1,2) trim_first by (cases s) auto
  moreover have "trimLeft (map rev spaceRunes) (rev s) = rev s"
  proof (cases "rev s")
    case (Cons c cs)
    then have "last s = c" by (metis last_rev list.sel(1) rev_rev_ident)
    with assms(3) trim_last Cons show ?thesis by simp
  qed (use assms(1) in simp)
  ultimately show ?thesis by (simp add: trimSpace_def)
qed

lemma joinWith_ends:
  "ws \<noteq> [] \<Longrightarrow> \<forall>w \<in> set ws. w \<noteq> [] \<Longrightarrow>
     joinWith sep ws \<noteq> [] \<and> hd (joinWith sep ws) = hd (hd ws) \<and> last (joinWith sep ws) = last (last ws)"
  by (induction sep ws rule: joinWith.induct) auto

text \<open>Writing an order and parsing it again: the tokens of an order without repetitions,
  joined by commas, parse to the same order.\<close>

theorem ParseRMRateOrder_roundtrip:
  assumes "order \<noteq> []" and "distinct order" and "set order \<subseteq> {''CR'', ''SR'', ''PR''}"
  shows "ParseRMRateOrder (joinWith CHR '','' order) = Some order"
proof -
  have sub: "set order \<subseteq> set validRMRateTokens" using assms(3) by (simp add: validRMRateTokens_def)
  have ends: "\<forall>w \<in> set validRMRateTokens. w \<noteq> [] \<and> hd w \<notin> hd ` set spaceRunes \<and> last w \<notin> last ` set spaceRunes"
    by code_simp
  have j: "joinWith CHR '','' order \<noteq> []" "hd (joinWith CHR '','' order) = hd (hd order)"
    "last (joinWith CHR '','' order) = last (last order)"
    using joinWith_ends [OF assms(1), of "CHR '',''"] ends sub by auto
  have "hd order \<in> set validRMRateTokens" "last order \<in> set validRMRateTokens" using sub assms(1) by auto
  then have "trimSpace (joinWith CHR '','' order) = joinWith CHR '','' order"
    using ends j by (intro trimSpace_plain) auto
  moreover have "splitOn CHR '','' (joinWith CHR '','' order) = order"
    using rate_tokens_fixed sub assms(1) by (intro splitOn_joinWith) auto
  moreover have "parseTokens validRMRateTokens order [] = Some ([] @ order)"
    using rate_tokens_fixed sub assms(2) by (intro parseTokens_words) auto
  ultimately show ?thesis using j(1) by (simp add: ParseRMRateOrder_def)
qed

theorem ParseRMRateOrder_roundtrip_witness:
  "ParseRMRateOrder ''PR,CR'' = Some [''PR'', ''CR'']"
  using ParseRMRateOrder_roundtrip [of "[''PR'', ''CR'']"] by simp

text \<open>What every resolved landed order looks like, whatever the configuration text.\<close>

definition landedTokens :: "string \<Rightarrow> string set" where
  "landedTokens calcType = (if calcType = ''ACTUAL'' then {''CL'', ''SL'', ''FL'', ''PP''} else {''SP'', ''PP'', ''FP''})"

lemma parseRMLandedSection_SomeD:
  assumes "parseRMLandedSection s = Some (ct, order)"
  shows "order \<noteq> [] \<and> distinct order \<and> set order \<subseteq> landedTokens ct"
proof -
  obtain l r valid where "validRMLandedTokensByCalcType ct = Some valid" and p: "parseTokens valid (splitOn CHR '','' r) [] = Some order"
    and ne: "order \<noteq> []"
    using assms by (auto simp: parseRMLandedSection_def Let_def split: if_splits list.splits option.splits)
  moreover from this(1) have "set valid = landedTokens ct"
    by (auto simp: validRMLandedTokensByCalcType_def landedTokens_def split: if_splits)
  ultimately show ?thesis using parseTokens_Some [OF p] parseTokens_distinct [OF p] by simp
qed

definition landedConfigOK :: "(string \<Rightarrow> string list option) \<Rightarrow> bool" where
  "landedConfigOK cfg \<longleftrightarrow>
     (\<forall>ct order. cfg ct = Some order \<longrightarrow> order \<noteq> [] \<and> distinct order \<and> set order \<subseteq> landedTokens ct)"

text \<open>A configuration text never breaks the landed cost: whatever it contains, the order used
  for a calculation type is not empty, has no token twice and only tokens of that type.\<close>

theorem landed_order_always_valid:
  "let order = rmLandedOrderForCalcType (ParseRMLandedOrder expr) ct
   in order \<noteq> [] \<and> distinct order \<and> set order \<subseteq> landedTokens ct"
proof -
  have step: "landedConfigOK (case parseRMLandedSection s of
      None \<Rightarrow> cfg | Some (calcType, order) \<Rightarrow> cfg(calcType \<mapsto> order))" if "landedConfigOK cfg" for s cfg
    using that by (auto simp: landedConfigOK_def split: option.split dest: parseRMLandedSection_SomeD)
  have "landedConfigOK (fold (\<lambda>section result. case parseRMLandedSection section of
      None \<Rightarrow> result | Some (calcType, order) \<Rightarrow> result(calcType \<mapsto> order)) ss cfg)" if "landedConfigOK cfg" for ss cfg
    using that by (induction ss arbitrary: cfg) (simp_all add: step)
  moreover have "landedConfigOK Map.empty" by (simp add: landedConfigOK_def)
  ultimately have ok: "landedConfigOK (ParseRMLandedOrder expr)"
    by (simp add: ParseRMLandedOrder_def Let_def)
  show ?thesis
  proof (cases "ParseRMLandedOrder expr ct")
    case None
    then show ?thesis
      by (simp add: rmLandedOrderForCalcType_def DefaultRMLandedOrderActual_def DefaultRMLandedOrderForecast_def landedTokens_def)
  next
    case (Some order)
    with ok have "order \<noteq> [] \<and> distinct order \<and> set order \<subseteq> landedTokens ct" unfolding landedConfigOK_def by blast
    with Some show ?thesis by (simp add: rmLandedOrderForCalcType_def)
  qed
qed

section \<open>The rate picked\<close>

text \<open>The cascade takes the first positive candidate, and yields 0 when none is positive.\<close>

theorem FirstNonZeroWithLabel_first:
  "(\<exists>pre v l post. cs = pre @ (v, l) # post \<and> (\<forall>c \<in> set pre. \<not> 0 < fst c) \<and> 0 < v \<and> FirstNonZeroWithLabel cs = (v, l)) \<or>
   ((\<forall>c \<in> set cs. \<not> 0 < fst c) \<and> fst (FirstNonZeroWithLabel cs) = (0::'f::{zero,ord}))"
proof (cases "find (\<lambda>c. 0 < fst c) cs")
  case None
  then have "\<forall>c \<in> set cs. \<not> 0 < fst c" by (auto simp: find_None_iff)
  moreover have "fst (FirstNonZeroWithLabel cs) = 0" using None by (simp add: FirstNonZeroWithLabel_def)
  ultimately show ?thesis by blast
next
  case (Some c)
  then obtain i where "i < length cs" "0 < fst (cs ! i)" "c = cs ! i" "\<forall>j < i. \<not> 0 < fst (cs ! j)"
    by (auto simp: find_Some_iff)
  then have "cs = take i cs @ c # drop (Suc i) cs" "\<forall>d \<in> set (take i cs). \<not> 0 < fst d" "0 < fst c"
    by (simp_all add: id_take_nth_drop) (force simp: in_set_conv_nth)
  moreover have "FirstNonZeroWithLabel cs = c" using Some by (simp add: FirstNonZeroWithLabel_def)
  ultimately show ?thesis by (metis prod.collapse)
qed

end
