(* ===== verification/ComputeInputs.thy ===== *)
theory ComputeInputs
  imports FormulaOrder RMCascade
begin

text \<open>
  \<^verbatim>\<open>services/finance/internal/application/costcalc/compute.go\<close> and the files it calls: what
  the calculation of one product reads, the evaluation scope it starts from, and the
  values the engine injects (\<^verbatim>\<open>oil_rate.go\<close>, \<^verbatim>\<open>vb_loss_inheritance.go\<close>,
  \<^verbatim>\<open>conversion_inheritance.go\<close>, \<^verbatim>\<open>compute_rm_ratio.go\<close>, \<^verbatim>\<open>tx_weight.go\<close>,
  \<^verbatim>\<open>calculated_param_formula_guard.go\<close>).

  The expression language \<^verbatim>\<open>expr-lang\<close> is not under \<^verbatim>\<open>src/\<close>: a record of functions stands for
  it. The scope is a map whose values are numbers or one of the two built-in functions the
  engine puts there. A Go map is a function to options. Log, trace and metric calls are left
  out, and so is the SHA-256 hash of the input.
\<close>

section \<open>Results\<close>

definition tryThen :: "'e + 'a \<Rightarrow> ('a \<Rightarrow> 'e + 'b) \<Rightarrow> 'e + 'b" where
  "tryThen r k = (case r of Inl e \<Rightarrow> Inl e | Inr v \<Rightarrow> k v)"

lemma tryThen_simps [simp]: "tryThen (Inl e) k = Inl e" "tryThen (Inr v) k = k v"
  by (simp_all add: tryThen_def)

lemma tryThen_Inr: "tryThen r k = Inr v \<longleftrightarrow> (\<exists>u. r = Inr u \<and> k u = Inr v)"
  by (cases r) auto

text \<open>
  The sentinel errors of \<^verbatim>\<open>services/finance/internal/domain/costcalc/errors.go\<close> that a
  calculation can end with. \<open>SearchDoesNotReturn\<close> stands for the unbounded recursion of the
  search for the terminal formula.
\<close>

datatype compute_error =
  RouteIsNil | EvalCacheIsNil
| ErrMissingCAPPValue | ErrMissingRMCost string | ErrMissingUpstreamCost int
| ErrMissingMBCost string | ErrMissingSuperbaCost | ErrFormulaEval string
| ErrMissingFinalCostFormula | ErrFormulaTypeNotImplemented string
| ErrCalculatedParamNoFormula "string list" | UnknownRMType string | SearchDoesNotReturn

section \<open>Scope\<close>

record 'f tx_weight_rule =
  tw_Mode :: string
  tw_Value :: 'f

datatype 'f scope_value = Num 'f | MarketingFn "string \<Rightarrow> 'f option" | TxWeightFn "string \<Rightarrow> 'f tx_weight_rule option"

type_synonym 'f scope = "string \<Rightarrow> 'f scope_value option"

text \<open>An argument of a built-in function.\<close>

datatype 'f builtin_arg = StringArg string | FloatArg 'f | OtherArg

definition scopeFloat :: "'f scope \<Rightarrow> string \<Rightarrow> 'f option" where
  "scopeFloat scope key = (case scope key of Some (Num v) \<Rightarrow> Some v | _ \<Rightarrow> None)"

text \<open>What evaluating an expression yields before it is converted to a number.\<close>

datatype 'f expr_value = RunFails | FloatValue 'f | IntValue int | NoNumber

record 'f expr_lang =
  xl_compiles :: "string \<Rightarrow> bool"
  xl_run :: "string \<Rightarrow> 'f scope \<Rightarrow> (string \<Rightarrow> 'f builtin_arg list \<Rightarrow> 'f) \<Rightarrow> 'f expr_value"
  xl_ofInt :: "int \<Rightarrow> 'f"
  xl_maxFloat :: 'f

section \<open>Inputs\<close>

definition CalcTypeActual :: string where "CalcTypeActual = ''ACTUAL''"

record oil_input =
  oi_Class :: string
  oi_TypeCode :: string
  oi_GroupCode :: string
  oi_DefaultGroup :: string
  oi_Allowed :: "string list"

record 'f superba_cost =
  su_ShadeCode :: string
  su_Found :: bool
  su_OldValue :: 'f

record 'f vb_loss_inheritance =
  vb_ProductTypeCode :: string
  vb_UpstreamTypeCodes :: "int \<Rightarrow> string option"
  vb_UpstreamParamSnapshots :: "int \<Rightarrow> (string \<Rightarrow> 'f option) option"

record 'f compute_input =
  ci_ProductSysID :: int
  ci_CalcType :: string
  ci_Route :: "'f graph option"
  ci_CAPP :: "string \<Rightarrow> 'f option"
  ci_Formulas :: "formula list"
  ci_RMCosts :: "string \<Rightarrow> 'f rm_cost_rates option"
  ci_UpstreamCosts :: "int \<Rightarrow> 'f option"
  ci_EvalCache :: "'f expr_lang option"
  ci_SellingSnapshot :: "string \<Rightarrow> 'f option"
  ci_MBCosts :: "string \<Rightarrow> 'f option"
  ci_SpinFixedCost :: "string \<Rightarrow> 'f option"
  ci_CalculatedParams :: "string list"
  ci_RMRateOrder :: "string list"
  ci_RMLandedOrder :: "string \<Rightarrow> string list option"
  ci_Oil :: "oil_input option"
  ci_Superba :: "'f superba_cost option"
  ci_TxWeight :: "string \<Rightarrow> 'f tx_weight_rule option"
  ci_VBLoss :: "'f vb_loss_inheritance option"
  ci_RMRatioMode :: string
  ci_RMGroupDenier :: "string \<Rightarrow> 'f option"
  ci_RMGroupUseDraft :: "string \<Rightarrow> bool"
  ci_UpstreamDenier :: "int \<Rightarrow> 'f option"
  ci_RMDenierOverride :: "'f denier_overrides"
  ci_UpstreamSnapshots :: "(int \<Rightarrow> (string \<Rightarrow> 'f option) option) option"

section \<open>Keys\<close>

definition ScopeKeyCostRMTotal :: string where "ScopeKeyCostRMTotal = ''COST_RM_TOTAL''"
definition ScopeKeyFinalCost :: string where "ScopeKeyFinalCost = ''COST_STAGE_OUT''"
definition ScopeKeyConversion :: string where "ScopeKeyConversion = ''COST_CONVERSION''"
definition ScopeKeyIsPTY :: string where "ScopeKeyIsPTY = ''IS_PTY''"
definition ScopeKeyIsPOY :: string where "ScopeKeyIsPOY = ''IS_POY''"
definition ScopeKeyIsSuperba :: string where "ScopeKeyIsSuperba = ''IS_SUPERBA''"
definition ScopeKeyIsActual :: string where "ScopeKeyIsActual = ''IS_ACTUAL''"
definition ScopeKeyOilRate :: string where "ScopeKeyOilRate = ''OIL_RATE''"
definition ScopeKeyOPU :: string where "ScopeKeyOPU = ''OPU''"
definition ScopeKeySuperbaMBCost :: string where "ScopeKeySuperbaMBCost = ''SUPERBA_MB_COST''"
definition ScopeKeySuperbaMBCostMissing :: string where "ScopeKeySuperbaMBCostMissing = ''SUPERBA_MB_COST_MISSING''"
definition paramUpstreamTotalCapConv :: string where "paramUpstreamTotalCapConv = ''UPSTREAM_TOTAL_CAP_CONV''"
definition paramTotalCapConv :: string where "paramTotalCapConv = ''TOTAL_CAP_CONV''"
definition txWeightFuncName :: string where "txWeightFuncName = ''tx_weight''"
definition marketingFuncName :: string where "marketingFuncName = ''marketing_result''"

definition vbLossParamCodes :: "string list" where
  "vbLossParamCodes = [''VOLUME_BUCKET_1_LOSS'', ''VOLUME_BUCKET_2_LOSS'', ''VOLUME_BUCKET_3_LOSS'',
     ''VOLUME_BUCKET_4_LOSS'', ''VOLUME_BUCKET_5_LOSS'']"

definition FormulaTypeRMLookup :: string where "FormulaTypeRMLookup = ''RM_LOOKUP''"
definition FormulaTypeMBCostLookup :: string where "FormulaTypeMBCostLookup = ''MB_COST_LOOKUP''"

definition formulaTypesNeedingGoImpl :: "string list" where
  "formulaTypesNeedingGoImpl = [''MB_XSECTION_LOOKUP'', ''LOOKUP'', ''SQL_QUERY'']"

definition rmLandedOrderFormulaCode :: string where "rmLandedOrderFormulaCode = ''F_YARN_RM_LANDED''"

definition manualInputOnlyParams :: "string list" where "manualInputOnlyParams = [''AX_WT'']"

section \<open>The initial scope\<close>

text \<open>
  The working state is the scope and the set of keys that hold a placeholder instead of a
  real value.
\<close>

type_synonym 'f work = "'f scope \<times> string set"

definition putReal :: "string \<Rightarrow> 'f \<Rightarrow> 'f work \<Rightarrow> 'f work" where
  "putReal k v = (\<lambda>(scope, zeroFilled). (scope(k \<mapsto> Num v), zeroFilled - {k}))"

definition prefillCode :: "string \<Rightarrow> ('f::zero) work \<Rightarrow> 'f work" where
  "prefillCode code = (\<lambda>(scope, zeroFilled).
     if scope code = None then (scope(code \<mapsto> Num 0), insert code zeroFilled) else (scope, zeroFilled))"

definition prefillFormula :: "formula \<Rightarrow> ('f::zero) work \<Rightarrow> 'f work" where
  "prefillFormula f w =
     (if fm_FormulaType f = FormulaTypeRMLookup then w
      else prefillCode (fm_ResultParamCode f) (fold prefillCode (fm_InputParamCodes f) w))"

definition injectSpinFixedCost :: "(string \<Rightarrow> 'f option) \<Rightarrow> 'f work \<Rightarrow> 'f work" where
  "injectSpinFixedCost pool = (\<lambda>(scope, zeroFilled).
     ((\<lambda>k. case pool k of Some v \<Rightarrow> Some (Num v) | None \<Rightarrow> scope k), {k \<in> zeroFilled. pool k = None}))"

definition flag :: "bool \<Rightarrow> 'f::{zero,one}" where
  "flag b = (if b then 1 else 0)"

definition injectProductClassFlags :: "oil_input option \<Rightarrow> ('f::{zero,one}) work \<Rightarrow> 'f work" where
  "injectProductClassFlags oil w =
     (let cls = (case oil of None \<Rightarrow> [] | Some i \<Rightarrow> oi_Class i)
      in putReal ScopeKeyIsSuperba (flag (cls = ''SUPERBA''))
          (putReal ScopeKeyIsPOY (flag (cls = ''POY'')) (putReal ScopeKeyIsPTY (flag (cls = ''PTY'')) w)))"

definition injectCalcTypeFlags :: "string \<Rightarrow> ('f::{zero,one}) work \<Rightarrow> 'f work" where
  "injectCalcTypeFlags calcType = putReal ScopeKeyIsActual (flag (calcType = CalcTypeActual))"

definition injectMarketingResult :: "(string \<Rightarrow> 'f option) \<Rightarrow> 'f work \<Rightarrow> 'f work" where
  "injectMarketingResult snap = (\<lambda>(scope, zeroFilled). (scope(marketingFuncName \<mapsto> MarketingFn snap), zeroFilled))"

definition injectTxWeight :: "(string \<Rightarrow> 'f tx_weight_rule option) \<Rightarrow> 'f work \<Rightarrow> 'f work" where
  "injectTxWeight rules = (\<lambda>(scope, zeroFilled). (scope(txWeightFuncName \<mapsto> TxWeightFn rules), zeroFilled))"

definition buildInitialScope :: "('f::{zero,one}) compute_input \<Rightarrow> 'f work" where
  "buildInitialScope inp =
     injectTxWeight (ci_TxWeight inp) (injectMarketingResult (ci_SellingSnapshot inp)
       (injectCalcTypeFlags (ci_CalcType inp) (injectProductClassFlags (ci_Oil inp)
         (injectSpinFixedCost (ci_SpinFixedCost inp)
           (fold prefillFormula (ci_Formulas inp) (\<lambda>k. map_option Num (ci_CAPP inp k), {}))))))"

section \<open>The built-in functions\<close>

text \<open>
  \<open>marketing_result(product, code, period)\<close>: the snapshot, except for manual inputs, then the
  number in scope, then 0. \<open>tx_weight(grade, weight, fallback)\<close>: the rule of the grade, then
  the fallback.
\<close>

definition marketingResult :: "'f scope \<Rightarrow> (string \<Rightarrow> 'f option) \<Rightarrow> 'f builtin_arg list \<Rightarrow> 'f::zero" where
  "marketingResult scope snap args =
     (case args of
        _ # StringArg code # _ \<Rightarrow>
          if snap code \<noteq> None \<and> code \<notin> set manualInputOnlyParams then the (snap code)
          else (case scopeFloat scope code of Some v \<Rightarrow> v | None \<Rightarrow> 0)
      | _ \<Rightarrow> 0)"

definition applyMode :: "string \<Rightarrow> 'f \<Rightarrow> 'f \<Rightarrow> 'f::{minus,times}" where
  "applyMode m axWt value =
     (if m = ''LESS_BY'' then axWt - value
      else if m = ''MULTIPLY'' then axWt * value
      else if m = ''FIXED'' then value else axWt)"

definition argFloat :: "'f builtin_arg \<Rightarrow> 'f option" where
  "argFloat a = (case a of FloatArg v \<Rightarrow> Some v | _ \<Rightarrow> None)"

definition txWeight :: "(string \<Rightarrow> 'f tx_weight_rule option) \<Rightarrow> 'f builtin_arg list \<Rightarrow> 'f::{zero,minus,times}" where
  "txWeight rules args =
     (let fallback = (if length args \<ge> 3 then (case argFloat (args ! 2) of Some v \<Rightarrow> v | None \<Rightarrow> 0) else 0)
      in case args of
           StringArg grade # a # _ \<Rightarrow>
             (case rules (toUpper (trimSpace grade)) of
                None \<Rightarrow> fallback
              | Some rule \<Rightarrow> (case argFloat a of
                    None \<Rightarrow> fallback | Some axWt \<Rightarrow> applyMode (tw_Mode rule) axWt (tw_Value rule)))
         | _ \<Rightarrow> fallback)"

definition callBuiltin :: "'f scope \<Rightarrow> string \<Rightarrow> 'f builtin_arg list \<Rightarrow> 'f::{zero,minus,times}" where
  "callBuiltin scope name args =
     (case scope name of
        Some (MarketingFn snap) \<Rightarrow> marketingResult scope snap args
      | Some (TxWeightFn rules) \<Rightarrow> txWeight rules args
      | _ \<Rightarrow> 0)"

section \<open>Upstream lines\<close>

text \<open>A raw material line is named by its position in the route, as the code names it by its pointer.\<close>

type_synonym line_key = "nat \<times> nat"

text \<open>The lines of the sequences that produce the target product: level, position and line.\<close>

definition seqLines :: "nat \<Rightarrow> 'f seq \<Rightarrow> (int \<times> line_key \<times> 'f rm) list" where
  "seqLines i seq =
     List.map_filter (\<lambda>(j, rm). map_option (\<lambda>r. (sq_RouteLevel seq, (i, j), r)) rm) (enumerate 0 (sq_Rms seq))"

definition ownLines :: "int \<Rightarrow> 'f graph \<Rightarrow> (int \<times> line_key \<times> 'f rm) list" where
  "ownLines pid g =
     concat (map (\<lambda>(i, sq). case sq of
       None \<Rightarrow> []
     | Some seq \<Rightarrow> if sq_ProductSysID seq \<noteq> pid then [] else seqLines i seq) (enumerate 0 (gr_Seqs g)))"

definition upstreamProductRMs :: "'f compute_input \<Rightarrow> (line_key \<times> 'f rm) list" where
  "upstreamProductRMs inp =
     (case ci_Route inp of
        None \<Rightarrow> []
      | Some g \<Rightarrow> map snd (filter (\<lambda>(_, _, rm). rm_RmType rm = RmTypeProduct) (ownLines (ci_ProductSysID inp) g)))"

definition isMBUpstream :: "(int \<Rightarrow> string option) \<Rightarrow> 'f rm \<Rightarrow> bool" where
  "isMBUpstream codes rm \<longleftrightarrow>
     equalFold (trimSpace (case codes (rm_RmProductSysID rm) of None \<Rightarrow> [] | Some c \<Rightarrow> c)) ''MB''"

section \<open>VB loss of later stages\<close>

text \<open>Every bucket is summed over the lines in order, alongside the sum of the ratios.\<close>

definition weightedVBLoss ::
  "'f vb_loss_inheritance \<Rightarrow> 'f rm list \<Rightarrow> string \<Rightarrow> 'f::{zero,plus,times}" where
  "weightedVBLoss vb rms code =
     fold (\<lambda>rm acc. case vb_UpstreamParamSnapshots vb (rm_RmProductSysID rm) of
         None \<Rightarrow> acc
       | Some snap \<Rightarrow> (case snap code of None \<Rightarrow> acc | Some v \<Rightarrow> acc + v * rm_RouteRmRatio rm)) rms 0"

definition inheritedVBLossValues ::
  "'f compute_input \<Rightarrow> 'f vb_loss_inheritance \<Rightarrow> ('f::{zero,plus,times,inverse,ord}) list" where
  "inheritedVBLossValues inp vb =
     (let rms = filter (\<lambda>rm. \<not> isMBUpstream (vb_UpstreamTypeCodes vb) rm) (map snd (upstreamProductRMs inp));
          totalRatio = fold (\<lambda>rm acc. acc + rm_RouteRmRatio rm) rms 0
      in if floatEq totalRatio 0 then map (\<lambda>_. 0) vbLossParamCodes
         else map (\<lambda>code. weightedVBLoss vb rms code / totalRatio) vbLossParamCodes)"

text \<open>The result has the params whose formulas are skipped.\<close>

definition applyInheritedVBLoss ::
  "('f::{zero,plus,times,inverse,ord}) compute_input \<Rightarrow> 'f work \<Rightarrow> 'f work \<times> string list" where
  "applyInheritedVBLoss inp w =
     (case ci_VBLoss inp of
        None \<Rightarrow> (w, [])
      | Some vb \<Rightarrow>
          let typeCode = toUpper (trimSpace (vb_ProductTypeCode vb))
          in if typeCode = [] \<or> typeCode = ''POY'' \<or> typeCode = ''MB'' then (w, [])
             else (fold (\<lambda>(code, v). putReal code v) (zip vbLossParamCodes (inheritedVBLossValues inp vb)) w,
                   vbLossParamCodes))"

section \<open>Ratios of the raw materials\<close>

record 'f denier_line =
  dl_denier :: 'f
  dl_ratio :: 'f
  dl_group :: bool
  dl_overridden :: bool

record 'f ratio_plan =
  rp_lines :: "line_key \<Rightarrow> 'f denier_line option"
  rp_notes :: "ratio_note list"

definition ratioSourceData :: "('f::zero) compute_input \<Rightarrow> 'f ratio_source_data" where
  "ratioSourceData inp =
     \<lparr>rs_Mode = ci_RMRatioMode inp, rs_UpstreamDenier = ci_UpstreamDenier inp,
      rs_GroupDenier = ci_RMGroupDenier inp, rs_GroupUseDraft = ci_RMGroupUseDraft inp,
      rs_SpandexDraft = mapGet (ci_CAPP inp) ''SPANDEX_DRAFT'',
      rs_ProductDenierOverride = do_Product (ci_RMDenierOverride inp),
      rs_GroupDenierOverride = do_Group (ci_RMDenierOverride inp)\<rparr>"

text \<open>The denier lines of one sequence, entered into the plan.\<close>

definition planSeqLine :: "nat \<Rightarrow> nat \<times> 'f rm option \<times> 'f line_ratio \<Rightarrow> 'f ratio_plan \<Rightarrow> 'f ratio_plan" where
  "planSeqLine i = (\<lambda>(j, rm, l) plan.
     (case rm of
        None \<Rightarrow> plan
      | Some r \<Rightarrow>
          if lr_Source l \<noteq> RatioSourceDenier then plan
          else plan\<lparr>rp_lines := (rp_lines plan)((i, j) \<mapsto>
            \<lparr>dl_denier = lr_Denier l, dl_ratio = lr_Ratio l, dl_group = (rm_RmType r = RmTypeGroup),
             dl_overridden = lr_Overridden l\<rparr>)\<rparr>))"

definition planSeq ::
  "('f::{zero,plus,inverse,ord}) compute_input \<Rightarrow> nat \<times> 'f seq option \<Rightarrow> 'f ratio_plan \<Rightarrow> 'f ratio_plan" where
  "planSeq inp = (\<lambda>(i, sq) plan.
     (case sq of
        None \<Rightarrow> plan
      | Some seq \<Rightarrow>
          if sq_ProductSysID seq \<noteq> ci_ProductSysID inp then plan
          else (case ComputeSeqRMRatios sq (ratioSourceData inp) of
            (lines, notes) \<Rightarrow>
              let plan' = fold (planSeqLine i) (enumerate 0 (zip (sq_Rms seq) lines)) plan
              in plan'\<lparr>rp_notes := fold (\<lambda>n. addNote (Some n)) notes (rp_notes plan')\<rparr>)))"

definition planRMRatios :: "('f::{zero,plus,inverse,ord}) compute_input \<Rightarrow> 'f ratio_plan option" where
  "planRMRatios inp =
     (case ci_Route inp of
        None \<Rightarrow> None
      | Some g \<Rightarrow>
          if \<not> IsDenierMode (ci_RMRatioMode inp) then None
          else Some (fold (planSeq inp) (enumerate 0 (gr_Seqs g)) \<lparr>rp_lines = Map.empty, rp_notes = []\<rparr>))"

definition effectiveRatio :: "'f ratio_plan option \<Rightarrow> line_key \<Rightarrow> 'f rm \<Rightarrow> 'f" where
  "effectiveRatio plan key rm =
     (case plan of
        None \<Rightarrow> rm_RouteRmRatio rm
      | Some p \<Rightarrow> (case rp_lines p key of Some l \<Rightarrow> dl_ratio l | None \<Rightarrow> rm_RouteRmRatio rm))"

section \<open>Conversion of the upstream stages\<close>

definition formulasConsume :: "formula list \<Rightarrow> string \<Rightarrow> bool" where
  "formulasConsume fs code \<longleftrightarrow> list_ex (\<lambda>f. code \<in> set (fm_InputParamCodes f)) fs"

definition applyUpstreamTotalCapConv ::
  "('f::{zero,plus,times}) compute_input \<Rightarrow> 'f ratio_plan option \<Rightarrow> 'f work \<Rightarrow> 'f work" where
  "applyUpstreamTotalCapConv inp plan w =
     (if \<not> formulasConsume (ci_Formulas inp) paramUpstreamTotalCapConv then w
      else
        let typeCodes = (case ci_VBLoss inp of None \<Rightarrow> (\<lambda>_. None) | Some vb \<Rightarrow> vb_UpstreamTypeCodes vb);
            snapshots = (case ci_UpstreamSnapshots inp of
                Some s \<Rightarrow> s
              | None \<Rightarrow> (case ci_VBLoss inp of None \<Rightarrow> (\<lambda>_. None) | Some vb \<Rightarrow> vb_UpstreamParamSnapshots vb))
        in putReal paramUpstreamTotalCapConv
             (fold (\<lambda>(key, rm) total.
                if isMBUpstream typeCodes rm then total
                else (case snapshots (rm_RmProductSysID rm) of
                  None \<Rightarrow> total
                | Some snap \<Rightarrow> (case snap paramTotalCapConv of
                    None \<Rightarrow> total | Some v \<Rightarrow> total + v * effectiveRatio plan key rm)))
              (upstreamProductRMs inp) 0) w)"

section \<open>Oil rate and superba cost\<close>

definition resolveOilRate :: "('f::{zero,ord}) compute_input \<Rightarrow> compute_error + ('f \<times> string) option" where
  "resolveOilRate inp =
     (case ci_Oil inp of
        None \<Rightarrow> Inr None
      | Some oil \<Rightarrow>
          let stored = trimSpace (oi_GroupCode oil);
              code = (if stored = [] then trimSpace (oi_DefaultGroup oil) else stored)
          in if code = [] then Inl (ErrMissingRMCost [])
             else if oi_Allowed oil \<noteq> [] \<and> code \<notin> set (oi_Allowed oil) then Inl (ErrMissingRMCost code)
             else (case ci_RMCosts inp (code @ ''|'') of
               None \<Rightarrow> Inl (ErrMissingRMCost code)
             | Some rates \<Rightarrow>
                 let (rate, label) = FirstNonZeroWithLabel (rmRateCandidates (ci_RMRateOrder inp) rates)
                 in if rate \<le> 0 then Inl (ErrMissingRMCost code) else Inr (Some (rate, label))))"

definition hasPositiveOPU :: "(string \<Rightarrow> ('f::{zero,ord}) option) \<Rightarrow> bool" where
  "hasPositiveOPU capp = (case capp ScopeKeyOPU of None \<Rightarrow> False | Some opu \<Rightarrow> 0 < opu)"

text \<open>The note names the product type whose oil rate was skipped.\<close>

definition applyOilRate :: "('f::{zero,ord}) compute_input \<Rightarrow> 'f work \<Rightarrow> compute_error + 'f work \<times> string option" where
  "applyOilRate inp w =
     (case ci_Oil inp of
        None \<Rightarrow> Inr (w, None)
      | Some oil \<Rightarrow>
          if \<not> hasPositiveOPU (ci_CAPP inp) then Inr (putReal ScopeKeyOilRate 0 w, Some (oi_TypeCode oil))
          else tryThen (resolveOilRate inp) (\<lambda>r. case r of
            None \<Rightarrow> Inr (w, None) | Some (rate, _) \<Rightarrow> Inr (putReal ScopeKeyOilRate rate w, None)))"

definition applySuperbaMBCost :: "('f::{zero,one}) compute_input \<Rightarrow> 'f work \<Rightarrow> 'f work" where
  "applySuperbaMBCost inp = (\<lambda>(scope, zeroFilled).
     if (case ci_Oil inp of None \<Rightarrow> True | Some oil \<Rightarrow> oi_Class oil \<noteq> ''SUPERBA'')
     then (scope(ScopeKeySuperbaMBCost \<mapsto> Num 0), insert ScopeKeySuperbaMBCost zeroFilled)
     else (case ci_Superba inp of
       Some s \<Rightarrow>
         if su_Found s then putReal ScopeKeySuperbaMBCost (su_OldValue s) (scope, zeroFilled)
         else (scope(ScopeKeySuperbaMBCost \<mapsto> Num 0, ScopeKeySuperbaMBCostMissing \<mapsto> Num 1), zeroFilled - {ScopeKeySuperbaMBCost})
     | None \<Rightarrow> (scope(ScopeKeySuperbaMBCost \<mapsto> Num 0, ScopeKeySuperbaMBCostMissing \<mapsto> Num 1), zeroFilled - {ScopeKeySuperbaMBCost})))"

section \<open>The guard on calculated params\<close>

definition rejectCalculatedParamsWithoutFormula ::
  "string list \<Rightarrow> formula list \<Rightarrow> string set \<Rightarrow> compute_error + unit" where
  "rejectCalculatedParamsWithoutFormula calculated fs zeroFilled =
     (let offenders = filter (\<lambda>code. code \<notin> produced fs \<and> code \<in> zeroFilled) calculated
      in if offenders = [] then Inr () else Inl (ErrCalculatedParamNoFormula (sort offenders)))"

end
