(* ===== verification/Compute.thy ===== *)
theory Compute
  imports ComputeInputs
begin

text \<open>
  The calculation of one product: \<open>ComputeProduct\<close> in
  \<^verbatim>\<open>services/finance/internal/application/costcalc/compute.go\<close>, the raw material costs it
  sums, the formulas it evaluates with \<^verbatim>\<open>evaluator/evaluator.go\<close>, and what it stores. The
  theorems say which values the stored snapshot may hold, that a stored cost never rests on a
  missing price, what the trace records, and how the cost of the raw materials is made up.
\<close>

section \<open>The evaluator\<close>

datatype non_finite_kind = NonFiniteNone | NonFiniteNaN | NonFinitePosInf | NonFiniteNegInf

text \<open>
  A float is not a number when it does not equal itself, and infinite when it is beyond the
  largest finite float.
\<close>


definition classifyNonFinite :: "('f::{zero,minus,ord}) expr_lang \<Rightarrow> 'f \<Rightarrow> non_finite_kind" where
  "classifyNonFinite L v =
     (if \<not> floatEq v v then NonFiniteNaN
      else if xl_maxFloat L < v then NonFinitePosInf
      else if v < 0 - xl_maxFloat L then NonFiniteNegInf
      else NonFiniteNone)"

definition forbiddenPrefixes :: "string list" where
  "forbiddenPrefixes = [''os.'', ''exec.'', ''file.'', ''syscall.'', ''io.'', ''net.'', ''http.'', ''runtime.'', ''reflect.'']"

definition containsText :: "string \<Rightarrow> string \<Rightarrow> bool" where
  "containsText s w \<longleftrightarrow> list_ex (\<lambda>i. startsWith (drop i s) w) [0..<Suc (length s)]"

definition preCheck :: "string \<Rightarrow> bool" where
  "preCheck expression \<longleftrightarrow> \<not> list_ex (containsText expression) forbiddenPrefixes"

record evaluator =
  ev_formulaCode :: string
  ev_expression :: string

definition Compile :: "'f expr_lang \<Rightarrow> string \<Rightarrow> string \<Rightarrow> evaluator option" where
  "Compile L formulaCode expression =
     (if preCheck expression \<and> xl_compiles L expression
      then Some \<lparr>ev_formulaCode = formulaCode, ev_expression = expression\<rparr> else None)"

text \<open>The cache of compiled expressions; a failed compilation is not stored.\<close>

type_synonym eval_cache = "string \<Rightarrow> evaluator option"

definition cacheKey :: "string \<Rightarrow> string \<Rightarrow> string" where
  "cacheKey formulaCode expression = formulaCode @ CHR ''|'' # expression"

definition GetOrCompile :: "'f expr_lang \<Rightarrow> string \<Rightarrow> string \<Rightarrow> eval_cache \<Rightarrow> evaluator option \<times> eval_cache" where
  "GetOrCompile L formulaCode expression c =
     (case c (cacheKey formulaCode expression) of
        Some ev \<Rightarrow> (Some ev, c)
      | None \<Rightarrow> (case Compile L formulaCode expression of
          None \<Rightarrow> (None, c)
        | Some ev \<Rightarrow> (Some ev, c(cacheKey formulaCode expression \<mapsto> ev))))"

text \<open>A result that is not finite becomes 0, with its kind beside it.\<close>

definition finiteOrZero :: "('f::{zero,minus,ord}) expr_lang \<Rightarrow> 'f \<Rightarrow> 'f \<times> non_finite_kind" where
  "finiteOrZero L v = (case classifyNonFinite L v of NonFiniteNone \<Rightarrow> (v, NonFiniteNone) | kind \<Rightarrow> (0, kind))"

definition RunWithDiag ::
  "('f::{zero,minus,times,ord}) expr_lang \<Rightarrow> evaluator \<Rightarrow> 'f scope \<Rightarrow> ('f \<times> non_finite_kind) option" where
  "RunWithDiag L ev scope =
     (case xl_run L (ev_expression ev) scope (callBuiltin scope) of
        FloatValue v \<Rightarrow> Some (finiteOrZero L v)
      | IntValue n \<Rightarrow> Some (finiteOrZero L (xl_ofInt L n))
      | RunFails \<Rightarrow> None
      | NoNumber \<Rightarrow> None)"

section \<open>Formulas\<close>

record 'f formula_trace =
  tr_FormulaCode :: string
  tr_Expression :: string
  tr_Inputs :: "string \<Rightarrow> 'f option"
  tr_ResultParamCode :: string
  tr_Output :: 'f
  tr_NonFinite :: non_finite_kind

definition pickFormulaInputs :: "formula \<Rightarrow> 'f scope \<Rightarrow> string \<Rightarrow> 'f option" where
  "pickFormulaInputs f scope =
     (\<lambda>code. if code \<in> set (fm_InputParamCodes f) then scopeFloat scope code else None)"

text \<open>Every step records code, expression and result param of its formula.\<close>

definition traceOf :: "formula \<Rightarrow> (string \<Rightarrow> 'f option) \<Rightarrow> 'f \<Rightarrow> non_finite_kind \<Rightarrow> 'f formula_trace" where
  "traceOf f inputs out kind =
     \<lparr>tr_FormulaCode = fm_FormulaCode f, tr_Expression = fm_Expression f, tr_Inputs = inputs,
      tr_ResultParamCode = fm_ResultParamCode f, tr_Output = out, tr_NonFinite = kind\<rparr>"

definition evalOneFormula ::
  "('f::{zero,minus,times,ord}) expr_lang \<Rightarrow> formula \<Rightarrow> 'f scope \<Rightarrow> 'f formula_trace option" where
  "evalOneFormula L f scope =
     (case Compile L (fm_FormulaCode f) (fm_Expression f) of
        None \<Rightarrow> None
      | Some ev \<Rightarrow> (case RunWithDiag L ev scope of
          None \<Rightarrow> None
        | Some (out, kind) \<Rightarrow> Some (traceOf f (pickFormulaInputs f scope) out kind)))"

definition snapshotValue :: "formula \<Rightarrow> 'f scope \<Rightarrow> 'f::zero" where
  "snapshotValue f scope =
     (case scopeFloat scope (case fm_InputParamCodes f of code # _ \<Rightarrow> code | [] \<Rightarrow> fm_ResultParamCode f) of
        Some v \<Rightarrow> v | None \<Rightarrow> 0)"

definition evalSnapshotFormula :: "formula \<Rightarrow> ('f::zero) scope \<Rightarrow> 'f formula_trace" where
  "evalSnapshotFormula f scope = traceOf f Map.empty (snapshotValue f scope) NonFiniteNone"

definition evalSingleFormulaStep ::
  "('f::{zero,minus,times,ord}) expr_lang \<Rightarrow> 'f \<Rightarrow> 'f \<Rightarrow> (string \<Rightarrow> 'f option) \<Rightarrow> string \<Rightarrow>
     formula \<Rightarrow> 'f scope \<Rightarrow> compute_error + 'f formula_trace" where
  "evalSingleFormulaStep L totalRM landedRM mbCosts calcType f scope =
     (if fm_FormulaType f = ''SNAPSHOT'' then Inr (evalSnapshotFormula f scope)
      else if fm_FormulaType f = FormulaTypeRMLookup then
        (if fm_FormulaCode f = rmLandedOrderFormulaCode
         then Inr (traceOf f [''COST_RM_LANDED_TOTAL'' \<mapsto> landedRM] landedRM NonFiniteNone)
         else Inr (traceOf f [''COST_RM_TOTAL'' \<mapsto> totalRM] totalRM NonFiniteNone))
      else if fm_FormulaType f = FormulaTypeMBCostLookup then
        (case mbCosts calcType of
           None \<Rightarrow> Inl (ErrMissingMBCost (fm_FormulaCode f))
         | Some v \<Rightarrow> Inr (traceOf f Map.empty v NonFiniteNone))
      else if fm_FormulaType f \<in> set formulaTypesNeedingGoImpl then
        Inl (ErrFormulaTypeNotImplemented (fm_FormulaCode f))
      else (case evalOneFormula L f scope of
          None \<Rightarrow> Inl (ErrFormulaEval (fm_FormulaCode f))
        | Some t \<Rightarrow> Inr t))"

definition inheritedVBLossExpression :: string where
  "inheritedVBLossExpression = ''inherited: ratio-weighted average of direct upstream PRODUCT RMs' snapshot value (VB loss is computed at POY only)''"

definition inheritedFormulaTrace :: "formula \<Rightarrow> 'f scope \<Rightarrow> ('f::zero) formula_trace" where
  "inheritedFormulaTrace f scope =
     (traceOf f Map.empty (case scopeFloat scope (fm_ResultParamCode f) of Some v \<Rightarrow> v | None \<Rightarrow> 0) NonFiniteNone)
       \<lparr>tr_Expression := inheritedVBLossExpression\<rparr>"

text \<open>The step is an argument; the skipped params keep their value in scope.\<close>

fun evalFormulaChain ::
  "(formula \<Rightarrow> ('f::zero) scope \<Rightarrow> compute_error + 'f formula_trace) \<Rightarrow> string list \<Rightarrow> formula list \<Rightarrow> 'f work \<Rightarrow>
     compute_error + 'f work \<times> 'f formula_trace list" where
  "evalFormulaChain step inherited [] w = Inr (w, [])"
| "evalFormulaChain step inherited (f # fs) w =
     (if fm_ResultParamCode f \<in> set inherited
      then tryThen (evalFormulaChain step inherited fs w)
        (\<lambda>(w', ts). Inr (w', inheritedFormulaTrace f (fst w) # ts))
      else tryThen (step f (fst w)) (\<lambda>t.
        tryThen (evalFormulaChain step inherited fs (putReal (fm_ResultParamCode f) (tr_Output t) w))
          (\<lambda>(w', ts). Inr (w', t # ts))))"

section \<open>Raw material cost\<close>

definition resolveUpstreamProductCost :: "'f compute_input \<Rightarrow> 'f rm \<Rightarrow> compute_error + 'f" where
  "resolveUpstreamProductCost inp rm =
     (case ci_UpstreamCosts inp (rm_RmProductSysID rm) of
        None \<Rightarrow> Inl (ErrMissingUpstreamCost (rm_RmProductSysID rm)) | Some cost \<Rightarrow> Inr cost)"

definition resolveItemCostVal :: "'f compute_input \<Rightarrow> 'f rm \<Rightarrow> compute_error + 'f" where
  "resolveItemCostVal inp rm =
     (case ci_RMCosts inp (rm_RmItemCode rm @ ''|'') of
        None \<Rightarrow> Inl (ErrMissingRMCost (rm_RmItemCode rm)) | Some rates \<Rightarrow> Inr (rr_CostVal rates))"

definition resolveDenierGroupCost :: "'f compute_input \<Rightarrow> 'f rm \<Rightarrow> compute_error + 'f" where
  "resolveDenierGroupCost inp rm =
     (case ci_RMCosts inp (rm_RmGroupCode rm @ ''|'') of
        None \<Rightarrow> Inl (ErrMissingRMCost (rm_RmGroupCode rm)) | Some rates \<Rightarrow> Inr (rr_CostVal rates))"

definition resolveRMUnitCost :: "('f::{zero,ord}) compute_input \<Rightarrow> 'f rm \<Rightarrow> compute_error + 'f" where
  "resolveRMUnitCost inp rm =
     (if rm_RmType rm = RmTypeProduct then resolveUpstreamProductCost inp rm
      else if rm_RmType rm = RmTypeItem then resolveItemCostVal inp rm
      else if rm_RmType rm = RmTypeGroup then
        (case ci_RMCosts inp (rm_RmGroupCode rm @ ''|'') of
           None \<Rightarrow> Inl (ErrMissingRMCost (rm_RmGroupCode rm))
         | Some rates \<Rightarrow> Inr (fst (FirstNonZeroWithLabel (rmRateCandidates (ci_RMRateOrder inp) rates))))
      else Inl (UnknownRMType (rm_RmType rm)))"

definition resolveRMLandedCost :: "('f::{zero,ord}) compute_input \<Rightarrow> 'f rm \<Rightarrow> compute_error + 'f" where
  "resolveRMLandedCost inp rm =
     (if rm_RmType rm = RmTypeProduct then resolveUpstreamProductCost inp rm
      else if rm_RmType rm = RmTypeItem then resolveItemCostVal inp rm
      else if rm_RmType rm = RmTypeGroup then
        (case ci_RMCosts inp (rm_RmGroupCode rm @ ''|'') of
           None \<Rightarrow> Inl (ErrMissingRMCost (rm_RmGroupCode rm))
         | Some rates \<Rightarrow> Inr (fst (FirstNonZeroWithLabel
             (rmLandedCandidates (rmLandedOrderForCalcType (ci_RMLandedOrder inp) (ci_CalcType inp)) rates))))
      else Inl (UnknownRMType (rm_RmType rm)))"

datatype denier_source = NoDenierSource | DenierSourceMaster | DenierSourceOverride

text \<open>Unit cost, ratio, denier and the two annotations of a line.\<close>

definition lineUnitAndRatio ::
  "('f::zero) compute_input \<Rightarrow> 'f ratio_plan option \<Rightarrow> ('f compute_input \<Rightarrow> 'f rm \<Rightarrow> compute_error + 'f) \<Rightarrow>
     line_key \<Rightarrow> 'f rm \<Rightarrow> compute_error + 'f \<times> 'f \<times> 'f \<times> ratio_source \<times> denier_source" where
  "lineUnitAndRatio inp plan resolve key rm =
     (case plan of
        None \<Rightarrow> tryThen (resolve inp rm) (\<lambda>unit. Inr (unit, rm_RouteRmRatio rm, 0, NoSource, NoDenierSource))
      | Some p \<Rightarrow> (case rp_lines p key of
          None \<Rightarrow> tryThen (resolve inp rm) (\<lambda>unit. Inr (unit, rm_RouteRmRatio rm, 0, RatioSourceInput, NoDenierSource))
        | Some l \<Rightarrow>
            tryThen (if dl_group l then resolveDenierGroupCost inp rm else resolve inp rm) (\<lambda>unit.
              Inr (unit, dl_ratio l, dl_denier l, RatioSourceDenier,
                   if dl_overridden l then DenierSourceOverride else DenierSourceMaster))))"

datatype ref_code = ProductRef int | CodeRef string

definition rmRefCode :: "'f rm \<Rightarrow> ref_code" where
  "rmRefCode rm =
     (if rm_RmType rm = RmTypeProduct then ProductRef (rm_RmProductSysID rm)
      else if rm_RmType rm = RmTypeItem then CodeRef (rm_RmItemCode rm)
      else if rm_RmType rm = RmTypeGroup then CodeRef (rm_RmGroupCode rm)
      else CodeRef [])"

record 'f rm_cost_detail =
  rd_RouteLevel :: int
  rd_RMType :: string
  rd_RefCode :: ref_code
  rd_ShadeCode :: string
  rd_UnitCost :: 'f
  rd_Ratio :: 'f
  rd_Contribution :: 'f
  rd_Denier :: 'f
  rd_RatioSource :: ratio_source
  rd_DenierSource :: denier_source

text \<open>The sums per level, in the order the levels are first met.\<close>

fun addLevel :: "int \<Rightarrow> 'f \<Rightarrow> (int \<times> 'f) list \<Rightarrow> (int \<times> ('f::{zero,plus})) list" where
  "addLevel l c [] = [(l, 0 + c)]"
| "addLevel l c ((k, v) # m) = (if k = l then (k, v + c) # m else (k, v) # addLevel l c m)"

type_synonym 'f rm_totals = "'f \<times> 'f rm_cost_detail list \<times> (int \<times> 'f) list"

definition lineDetail ::
  "('f::{zero,times}) compute_input \<Rightarrow> 'f ratio_plan option \<Rightarrow> ('f compute_input \<Rightarrow> 'f rm \<Rightarrow> compute_error + 'f) \<Rightarrow>
     int \<times> line_key \<times> 'f rm \<Rightarrow> compute_error + 'f rm_cost_detail" where
  "lineDetail inp plan resolve = (\<lambda>(level, key, rm).
     tryThen (lineUnitAndRatio inp plan resolve key rm) (\<lambda>(unit, ratio, denier, source, denierSource).
       Inr \<lparr>rd_RouteLevel = level, rd_RMType = rm_RmType rm, rd_RefCode = rmRefCode rm,
            rd_ShadeCode = rm_RouteRmShadeCode rm, rd_UnitCost = unit, rd_Ratio = ratio,
            rd_Contribution = unit * ratio, rd_Denier = denier, rd_RatioSource = source,
            rd_DenierSource = denierSource\<rparr>))"

fun aggregateLines ::
  "('x \<Rightarrow> compute_error + ('f::{zero,plus}) rm_cost_detail) \<Rightarrow> 'x list \<Rightarrow> 'f rm_totals \<Rightarrow>
     compute_error + 'f rm_totals" where
  "aggregateLines detailOf [] acc = Inr acc"
| "aggregateLines detailOf (x # xs) (totalRM, detail, byLevel) =
     tryThen (detailOf x) (\<lambda>d. aggregateLines detailOf xs
       (totalRM + rd_Contribution d, detail @ [d], addLevel (rd_RouteLevel d) (rd_Contribution d) byLevel))"

definition aggregateRMCost ::
  "('f::{zero,plus,times}) compute_input \<Rightarrow> 'f graph \<Rightarrow> 'f ratio_plan option \<Rightarrow>
     ('f compute_input \<Rightarrow> 'f rm \<Rightarrow> compute_error + 'f) \<Rightarrow> compute_error + 'f rm_totals" where
  "aggregateRMCost inp route plan resolve =
     aggregateLines (lineDetail inp plan resolve) (ownLines (ci_ProductSysID inp) route) (0, [], [])"

section \<open>Cost by level\<close>

record 'f level_contribution =
  lc_ProductSysID :: int
  lc_Level :: int
  lc_RMCost :: 'f
  lc_Conversion :: 'f

definition upstreamLevel ::
  "int \<Rightarrow> (int \<Rightarrow> 'f option) \<Rightarrow> 'f seq option \<Rightarrow> ('f::zero) level_contribution list \<times> int set \<Rightarrow>
     'f level_contribution list \<times> int set" where
  "upstreamLevel fgProductID upstreamCosts sq = (\<lambda>(out, seen).
     (case sq of
        None \<Rightarrow> (out, seen)
      | Some seq \<Rightarrow>
          if sq_ProductSysID seq = fgProductID \<or> sq_RouteLevel seq \<in> seen then (out, seen)
          else (out @ [\<lparr>lc_ProductSysID = sq_ProductSysID seq, lc_Level = sq_RouteLevel seq,
                        lc_RMCost = mapGet upstreamCosts (sq_ProductSysID seq), lc_Conversion = 0\<rparr>],
                insert (sq_RouteLevel seq) seen)))"

definition buildCostByLevel ::
  "(int \<times> ('f::zero)) list \<Rightarrow> 'f \<Rightarrow> 'f graph option \<Rightarrow> int \<Rightarrow> (int \<Rightarrow> 'f option) \<Rightarrow> 'f level_contribution list" where
  "buildCostByLevel byLevel totalConv route fgProductID upstreamCosts =
     (let own = map (\<lambda>(l, c). \<lparr>lc_ProductSysID = fgProductID, lc_Level = l, lc_RMCost = c, lc_Conversion = totalConv\<rparr>) byLevel
      in sort_key lc_Level (fst (fold (upstreamLevel fgProductID upstreamCosts)
           (case route of None \<Rightarrow> [] | Some g \<Rightarrow> gr_Seqs g) (own, fst ` set byLevel))))"

section \<open>Final cost\<close>

definition auxiliaryResultParams :: "string list" where
  "auxiliaryResultParams = [''OIL_COST'', ''OIL_GAIN'', ''OIL_GAIN_POY_DEFAULT'']"

definition informationalResultParams :: "string list" where
  "informationalResultParams = [''CAP_CONV_STAGE'', ''DEL_CONV_STAGE'', paramTotalCapConv, ''TOTAL_DEL_CONV'']"

definition excludeInformationalFormulas :: "formula list \<Rightarrow> formula list" where
  "excludeInformationalFormulas fs = filter (\<lambda>f. fm_ResultParamCode f \<notin> set informationalResultParams) fs"

definition resolveFinalCost :: "formula list \<Rightarrow> ('f::zero) scope \<Rightarrow> 'f \<Rightarrow> compute_error + 'f" where
  "resolveFinalCost fs scope totalRM =
     (if fs = [] then Inr totalRM
      else
        let candidates = excludeInformationalFormulas fs
        in if candidates = [] then Inl ErrMissingFinalCostFormula
           else (case findTerminalFormula candidates of
               None \<Rightarrow> Inl SearchDoesNotReturn
             | Some (Inl _) \<Rightarrow> Inl (ErrFormulaEval [])
             | Some (Inr terminal) \<Rightarrow>
                 if fm_ResultParamCode terminal \<in> set auxiliaryResultParams then Inl ErrMissingFinalCostFormula
                 else Inr (case scopeFloat scope (fm_ResultParamCode terminal) of Some v \<Rightarrow> v | None \<Rightarrow> 0)))"

section \<open>The calculation\<close>

text \<open>A note on the oil rate, or a note of the ratio plan.\<close>

datatype compute_note = RatioNote ratio_note | OilNote string

definition notesOrNil :: "'f ratio_plan option \<Rightarrow> compute_note list" where
  "notesOrNil plan = (case plan of None \<Rightarrow> [] | Some p \<Rightarrow> map RatioNote (rp_notes p))"

definition appendNote :: "compute_note list \<Rightarrow> string option \<Rightarrow> compute_note list" where
  "appendNote notes note = (case note of None \<Rightarrow> notes | Some t \<Rightarrow> notes @ [OilNote t])"

record 'f compute_output =
  co_CostPerUnit :: 'f
  co_TotalRMCost :: 'f
  co_TotalConversion :: 'f
  co_TotalCost :: 'f
  co_RMCostDetail :: "'f rm_cost_detail list"
  co_ParamSnapshot :: "string \<Rightarrow> 'f option"
  co_FormulaTrace :: "'f formula_trace list"
  co_CostByLevel :: "'f level_contribution list"
  co_Notes :: "compute_note list"

definition scopeSnapshot :: "'f work \<Rightarrow> string \<Rightarrow> 'f option" where
  "scopeSnapshot = (\<lambda>(scope, zeroFilled) k. if k \<in> zeroFilled then None else scopeFloat scope k)"

text \<open>Everything before the raw materials: the scope, the ratio plan, the skipped params, the oil note.\<close>

definition prepareScope ::
  "('f::{zero,one,plus,times,inverse,ord}) compute_input \<Rightarrow>
     compute_error + 'f work \<times> 'f ratio_plan option \<times> string list \<times> string option" where
  "prepareScope inp =
     (let plan = planRMRatios inp;
          (w1, inherited) = applyInheritedVBLoss inp (buildInitialScope inp);
          w2 = applyUpstreamTotalCapConv inp plan w1
      in tryThen (applyOilRate inp w2) (\<lambda>(w3, oilNote).
           let w4 = applySuperbaMBCost inp w3
           in tryThen (rejectCalculatedParamsWithoutFormula (ci_CalculatedParams inp) (ci_Formulas inp) (snd w4))
                (\<lambda>_. Inr (w4, plan, inherited, oilNote))))"

definition finalCostOf :: "formula list \<Rightarrow> ('f::zero) scope \<Rightarrow> 'f \<Rightarrow> compute_error + 'f" where
  "finalCostOf fs scope totalRM =
     (case scopeFloat scope ScopeKeyFinalCost of Some v \<Rightarrow> Inr v | None \<Rightarrow> resolveFinalCost fs scope totalRM)"

definition conversionOf :: "('f::{zero,minus,ord}) scope \<Rightarrow> 'f \<Rightarrow> 'f \<Rightarrow> 'f" where
  "conversionOf scope finalCost totalRM =
     (let conv = (case scopeFloat scope ScopeKeyConversion of Some v \<Rightarrow> v | None \<Rightarrow> 0)
      in if floatEq conv 0 \<and> totalRM < finalCost then finalCost - totalRM else conv)"

definition computeWith ::
  "('f::{zero,one,plus,minus,times,inverse,ord}) compute_input \<Rightarrow> 'f graph \<Rightarrow> 'f expr_lang \<Rightarrow>
     'f work \<times> 'f ratio_plan option \<times> string list \<times> string option \<Rightarrow> compute_error + 'f compute_output" where
  "computeWith inp route L = (\<lambda>(w, plan, inherited, oilNote).
     tryThen (aggregateRMCost inp route plan resolveRMUnitCost) (\<lambda>(totalRM, detail, byLevel).
     tryThen (aggregateRMCost inp route plan resolveRMLandedCost) (\<lambda>(landedRM, _, _).
     tryThen (evalFormulaChain (evalSingleFormulaStep L totalRM landedRM (ci_MBCosts inp) (ci_CalcType inp))
                inherited (ci_Formulas inp) (putReal ScopeKeyCostRMTotal totalRM w)) (\<lambda>(w', trace).
     tryThen (finalCostOf (ci_Formulas inp) (fst w') totalRM) (\<lambda>finalCost.
       let conv = conversionOf (fst w') finalCost totalRM
       in Inr \<lparr>co_CostPerUnit = finalCost, co_TotalRMCost = totalRM, co_TotalConversion = conv,
               co_TotalCost = finalCost, co_RMCostDetail = detail, co_ParamSnapshot = scopeSnapshot w',
               co_FormulaTrace = trace,
               co_CostByLevel = buildCostByLevel byLevel conv (ci_Route inp) (ci_ProductSysID inp) (ci_UpstreamCosts inp),
               co_Notes = appendNote (notesOrNil plan) oilNote\<rparr>)))))"

definition ComputeProduct ::
  "('f::{zero,one,plus,minus,times,inverse,ord}) compute_input \<Rightarrow> compute_error + 'f compute_output" where
  "ComputeProduct inp =
     (case ci_Route inp of
        None \<Rightarrow> Inl RouteIsNil
      | Some route \<Rightarrow> (case ci_EvalCache inp of
          None \<Rightarrow> Inl EvalCacheIsNil
        | Some L \<Rightarrow> tryThen (prepareScope inp) (computeWith inp route L)))"

section \<open>Where the values of a snapshot come from\<close>

text \<open>The keys the engine itself gives a value.\<close>

definition engineKeys :: "string list" where
  "engineKeys = [ScopeKeyIsPTY, ScopeKeyIsPOY, ScopeKeyIsSuperba, ScopeKeyIsActual, ScopeKeyOilRate,
     ScopeKeySuperbaMBCost, ScopeKeySuperbaMBCostMissing, paramUpstreamTotalCapConv] @ vbLossParamCodes"

lemma putReal_simps [simp]:
  "fst (putReal k v w) = (fst w)(k \<mapsto> Num v)" "snd (putReal k v w) = snd w - {k}"
  by (simp_all add: putReal_def split: prod.split)

definition functionKeys :: "string list" where
  "functionKeys = [marketingFuncName, txWeightFuncName]"

definition realValues :: "(string \<Rightarrow> 'f scope_value \<Rightarrow> bool) \<Rightarrow> 'f work \<Rightarrow> bool" where
  "realValues P w \<longleftrightarrow> (\<forall>k x. fst w k = Some x \<longrightarrow> k \<notin> snd w \<longrightarrow> P k x)"

lemma realValuesD: "realValues P w \<Longrightarrow> fst w k = Some x \<Longrightarrow> k \<notin> snd w \<Longrightarrow> P k x"
  by (simp add: realValues_def)

lemma realValues_mono: "realValues P w \<Longrightarrow> (\<And>k v. P k v \<Longrightarrow> Q k v) \<Longrightarrow> realValues Q w"
  by (auto simp: realValues_def)

lemma realValues_putReal: "realValues P w \<Longrightarrow> P k (Num v) \<Longrightarrow> realValues P (putReal k v w)"
  by (auto simp: realValues_def)

lemma realValues_prefillCode: "realValues P w \<Longrightarrow> realValues P (prefillCode code w)"
  by (cases w) (auto simp: realValues_def prefillCode_def)

lemma realValues_fold: "realValues P w \<Longrightarrow> (\<And>x w. x \<in> set xs \<Longrightarrow> realValues P w \<Longrightarrow> realValues P (f x w)) \<Longrightarrow>
  realValues P (fold f xs w)"
  by (induction xs arbitrary: w) auto

lemma realValues_prefillFormula: "realValues P w \<Longrightarrow> realValues P (prefillFormula f w)"
  by (auto simp: prefillFormula_def intro!: realValues_prefillCode realValues_fold)

lemma realValues_injectSpinFixedCost:
  "realValues P w \<Longrightarrow> (\<And>k v. pool k = Some v \<Longrightarrow> P k (Num v)) \<Longrightarrow> realValues P (injectSpinFixedCost pool w)"
  by (cases w) (auto simp: realValues_def injectSpinFixedCost_def split: option.splits)

lemma realValues_injectFunctions:
  "realValues P w \<Longrightarrow> P marketingFuncName (MarketingFn snap) \<Longrightarrow> realValues P (injectMarketingResult snap w)"
  "realValues P w \<Longrightarrow> P txWeightFuncName (TxWeightFn rules) \<Longrightarrow> realValues P (injectTxWeight rules w)"
  by (cases w; auto simp: realValues_def injectMarketingResult_def injectTxWeight_def)+

definition inputValue :: "'f compute_input \<Rightarrow> string \<Rightarrow> 'f scope_value \<Rightarrow> bool" where
  "inputValue inp k x \<longleftrightarrow> (case x of
     Num v \<Rightarrow> ci_CAPP inp k = Some v \<or> ci_SpinFixedCost inp k = Some v \<or> k \<in> set engineKeys
   | _ \<Rightarrow> k \<in> set functionKeys)"

lemma inputValue_engine: "k \<in> set engineKeys \<Longrightarrow> inputValue inp k (Num v)"
  by (simp add: inputValue_def)

lemma inputValue_functions:
  "inputValue inp marketingFuncName (MarketingFn snap)" "inputValue inp txWeightFuncName (TxWeightFn rules)"
  by (simp_all add: inputValue_def functionKeys_def)

lemma engineKeys_members [simp]:
  "ScopeKeyIsPTY \<in> set engineKeys" "ScopeKeyIsPOY \<in> set engineKeys" "ScopeKeyIsSuperba \<in> set engineKeys"
  "ScopeKeyIsActual \<in> set engineKeys" "ScopeKeyOilRate \<in> set engineKeys" "ScopeKeySuperbaMBCost \<in> set engineKeys"
  "ScopeKeySuperbaMBCostMissing \<in> set engineKeys" "paramUpstreamTotalCapConv \<in> set engineKeys"
  "set vbLossParamCodes \<subseteq> set engineKeys"
  by (auto simp: engineKeys_def)

lemma realValues_buildInitialScope: "realValues (inputValue inp) (buildInitialScope inp)"
proof -
  have "realValues (inputValue inp) (\<lambda>k. map_option Num (ci_CAPP inp k), {})"
    by (auto simp: realValues_def inputValue_def)
  then have "realValues (inputValue inp)
      (injectSpinFixedCost (ci_SpinFixedCost inp) (fold prefillFormula (ci_Formulas inp) (\<lambda>k. map_option Num (ci_CAPP inp k), {})))"
    by (intro realValues_injectSpinFixedCost realValues_fold realValues_prefillFormula) (auto simp: inputValue_def)
  then show ?thesis
    unfolding buildInitialScope_def injectCalcTypeFlags_def injectProductClassFlags_def Let_def
    by (intro realValues_injectFunctions realValues_putReal inputValue_engine inputValue_functions engineKeys_members)
qed

lemma realValues_applyInheritedVBLoss:
  assumes "realValues (inputValue inp) w"
  shows "realValues (inputValue inp) (fst (applyInheritedVBLoss inp w))"
proof -
  have "realValues (inputValue inp) (fold (\<lambda>(code, v). putReal code v) (zip vbLossParamCodes vs) w)" for vs
  proof (intro realValues_fold assms)
    fix x and w' :: "'a work" assume "x \<in> set (zip vbLossParamCodes vs)" "realValues (inputValue inp) w'"
    moreover obtain c v where "x = (c, v)" by (cases x)
    ultimately show "realValues (inputValue inp) ((case x of (code, v) \<Rightarrow> putReal code v) w')"
      using engineKeys_members(9) set_zip_leftD [of c v vbLossParamCodes vs]
      by (simp add: realValues_putReal inputValue_engine subset_iff)
  qed
  with assms show ?thesis by (simp add: applyInheritedVBLoss_def Let_def split: option.split)
qed

lemma realValues_applyUpstreamTotalCapConv:
  "realValues (inputValue inp) w \<Longrightarrow> realValues (inputValue inp) (applyUpstreamTotalCapConv inp plan w)"
  by (auto simp: applyUpstreamTotalCapConv_def Let_def intro!: realValues_putReal inputValue_engine)

lemma applyOilRate_work:
  "applyOilRate inp w = Inr (w', n) \<Longrightarrow> w' = w \<or> (\<exists>v. w' = putReal ScopeKeyOilRate v w)"
  unfolding applyOilRate_def by (auto simp: tryThen_Inr split: option.splits if_splits prod.splits)

lemma applySuperbaMBCost_real:
  "k \<noteq> ScopeKeySuperbaMBCost \<Longrightarrow> k \<noteq> ScopeKeySuperbaMBCostMissing \<Longrightarrow>
     fst (applySuperbaMBCost inp w) k = fst w k \<and> (k \<in> snd (applySuperbaMBCost inp w) \<longleftrightarrow> k \<in> snd w)"
  by (cases w) (auto simp: applySuperbaMBCost_def split: option.split)

lemma applySuperbaMBCost_values:
  assumes "fst (applySuperbaMBCost inp w) k = Some x"
  shows "fst w k = Some x \<and> (k \<in> snd (applySuperbaMBCost inp w) \<longleftrightarrow> k \<in> snd w) \<or> k \<in> set engineKeys \<and> (\<exists>v. x = Num v)"
proof (cases "k = ScopeKeySuperbaMBCost")
  case True
  have "\<exists>v. fst (applySuperbaMBCost inp w) ScopeKeySuperbaMBCost = Some (Num v)"
    by (cases w) (auto simp: applySuperbaMBCost_def ScopeKeySuperbaMBCost_def ScopeKeySuperbaMBCostMissing_def split: option.split)
  with assms True show ?thesis by auto
next
  case False
  then show ?thesis
    using assms by (cases w) (auto simp: applySuperbaMBCost_def split: option.splits if_splits)
qed

lemma realValues_applySuperbaMBCost:
  assumes "realValues (inputValue inp) w"
  shows "realValues (inputValue inp) (applySuperbaMBCost inp w)"
  unfolding realValues_def
proof (intro allI impI)
  fix k x assume kx: "fst (applySuperbaMBCost inp w) k = Some x" "k \<notin> snd (applySuperbaMBCost inp w)"
  from applySuperbaMBCost_values [OF kx(1)] kx(2) assms show "inputValue inp k x"
    by (auto intro: inputValue_engine dest: realValuesD)
qed

lemma prepareScope_cases:
  assumes "prepareScope inp = Inr (w, plan, inherited, note)"
  obtains w3 where "plan = planRMRatios inp"
    "applyOilRate inp (applyUpstreamTotalCapConv inp plan (fst (applyInheritedVBLoss inp (buildInitialScope inp)))) = Inr (w3, note)"
    "inherited = snd (applyInheritedVBLoss inp (buildInitialScope inp))"
    "w = applySuperbaMBCost inp w3"
    "rejectCalculatedParamsWithoutFormula (ci_CalculatedParams inp) (ci_Formulas inp) (snd w) = Inr ()"
  using assms unfolding prepareScope_def Let_def
  by (cases "applyInheritedVBLoss inp (buildInitialScope inp)") (auto simp: tryThen_Inr)

lemma prepareScope_real:
  assumes "prepareScope inp = Inr (w, plan, inherited, note)"
  shows "realValues (inputValue inp) w"
  using assms
proof (cases rule: prepareScope_cases)
  case (1 w3)
  have "realValues (inputValue inp) (applyUpstreamTotalCapConv inp plan (fst (applyInheritedVBLoss inp (buildInitialScope inp))))"
    by (intro realValues_applyUpstreamTotalCapConv realValues_applyInheritedVBLoss realValues_buildInitialScope)
  then have "realValues (inputValue inp) w3"
    using applyOilRate_work [OF 1(2)] by (auto intro!: realValues_putReal inputValue_engine)
  then show ?thesis using 1(4) by (simp add: realValues_applySuperbaMBCost)
qed

section \<open>The chain of formulas\<close>

lemma traceOf_fields [simp]:
  "tr_FormulaCode (traceOf f inputs out kind) = fm_FormulaCode f"
  "tr_ResultParamCode (traceOf f inputs out kind) = fm_ResultParamCode f"
  "tr_Output (traceOf f inputs out kind) = out" "tr_NonFinite (traceOf f inputs out kind) = kind"
  by (simp_all add: traceOf_def)

lemma inheritedFormulaTrace_fields [simp]:
  "tr_FormulaCode (inheritedFormulaTrace f scope) = fm_FormulaCode f"
  "tr_ResultParamCode (inheritedFormulaTrace f scope) = fm_ResultParamCode f"
  "tr_NonFinite (inheritedFormulaTrace f scope) = NonFiniteNone"
  by (simp_all add: inheritedFormulaTrace_def)

lemma evalOneFormula_fields:
  "evalOneFormula L f scope = Some t \<Longrightarrow> tr_FormulaCode t = fm_FormulaCode f \<and> tr_ResultParamCode t = fm_ResultParamCode f"
  by (auto simp: evalOneFormula_def split: option.splits prod.splits)

definition keepsNames :: "(formula \<Rightarrow> 'f scope \<Rightarrow> compute_error + 'f formula_trace) \<Rightarrow> bool" where
  "keepsNames step \<longleftrightarrow> (\<forall>f s t. step f s = Inr t \<longrightarrow>
     tr_FormulaCode t = fm_FormulaCode f \<and> tr_ResultParamCode t = fm_ResultParamCode f)"

lemma evalSingleFormulaStep_names: "keepsNames (evalSingleFormulaStep L totalRM landedRM mbCosts calcType)"
  unfolding keepsNames_def evalSingleFormulaStep_def evalSnapshotFormula_def
  by (auto dest: evalOneFormula_fields split: if_splits option.splits)

lemma evalFormulaChain_Cons:
  assumes "evalFormulaChain step inherited (f # fs) w = Inr (w', ts)"
  obtains (skipped) ts' where "fm_ResultParamCode f \<in> set inherited" "ts = inheritedFormulaTrace f (fst w) # ts'"
      "evalFormulaChain step inherited fs w = Inr (w', ts')"
  | (evaluated) t ts' where "fm_ResultParamCode f \<notin> set inherited" "ts = t # ts'" "step f (fst w) = Inr t"
      "evalFormulaChain step inherited fs (putReal (fm_ResultParamCode f) (tr_Output t) w) = Inr (w', ts')"
  using assms by (auto simp: tryThen_Inr split: if_splits)

lemma chain_names:
  assumes "keepsNames step" "evalFormulaChain step inherited fs w = Inr (w', ts)"
  shows "map tr_FormulaCode ts = map fm_FormulaCode fs \<and> map tr_ResultParamCode ts = map fm_ResultParamCode fs"
  using assms(2)
proof (induction fs arbitrary: w ts)
  case (Cons f fs)
  from Cons.prems show ?case
    by (cases rule: evalFormulaChain_Cons) (use Cons.IH assms(1) in \<open>auto simp: keepsNames_def\<close>)
qed simp

lemma chain_real:
  assumes "keepsNames step" "evalFormulaChain step inherited fs w = Inr (w', ts)" "realValues P w"
  shows "realValues (\<lambda>k x. P k x \<or> (\<exists>t \<in> set ts. tr_ResultParamCode t = k \<and> Num (tr_Output t) = x)) w'"
  using assms(2,3)
proof (induction fs arbitrary: w ts P)
  case (Cons f fs)
  from Cons.prems(1) show ?case
  proof (cases rule: evalFormulaChain_Cons)
    case (skipped ts')
    from Cons.IH [OF skipped(3) Cons.prems(2)] show ?thesis by (rule realValues_mono) (auto simp: skipped(2))
  next
    case (evaluated t ts')
    let ?P = "\<lambda>k v. P k v \<or> (k = fm_ResultParamCode f \<and> v = Num (tr_Output t))"
    have "realValues ?P (putReal (fm_ResultParamCode f) (tr_Output t) w)"
      by (rule realValues_putReal) (use Cons.prems(2) in \<open>auto intro: realValues_mono\<close>)
    from Cons.IH [OF evaluated(4) this] show ?thesis
      by (rule realValues_mono) (use assms(1) evaluated in \<open>auto simp: keepsNames_def\<close>)
  qed
qed simp

lemma chain_keeps:
  assumes "evalFormulaChain step inherited fs w = Inr (w', ts)"
    "k \<in> set inherited \<or> k \<notin> fm_ResultParamCode ` set fs"
  shows "fst w' k = fst w k \<and> (k \<in> snd w' \<longleftrightarrow> k \<in> snd w)"
  using assms
proof (induction fs arbitrary: w ts)
  case (Cons f fs)
  from Cons.prems(1) show ?case
  proof (cases rule: evalFormulaChain_Cons)
    case (skipped ts')
    show ?thesis using Cons.IH [OF skipped(3)] Cons.prems(2) by auto
  next
    case (evaluated t ts')
    then show ?thesis using Cons.IH [OF evaluated(4)] Cons.prems(2) by auto
  qed
qed simp

lemma chain_last:
  assumes "evalFormulaChain step inherited fs w = Inr (w', ts)" "i < length fs"
    "fm_ResultParamCode (fs ! i) \<notin> set inherited" "\<forall>j. i < j \<and> j < length fs \<longrightarrow> fm_ResultParamCode (fs ! j) \<noteq> fm_ResultParamCode (fs ! i)"
  shows "fst w' (fm_ResultParamCode (fs ! i)) = Some (Num (tr_Output (ts ! i))) \<and> fm_ResultParamCode (fs ! i) \<notin> snd w'"
  using assms
proof (induction fs arbitrary: w ts i)
  case (Cons f fs)
  have later: "\<forall>j. i' < j \<and> j < length fs \<longrightarrow> fm_ResultParamCode (fs ! j) \<noteq> fm_ResultParamCode (fs ! i')"
    if "i = Suc i'" for i'
  proof (intro allI impI)
    fix j assume "i' < j \<and> j < length fs"
    then show "fm_ResultParamCode (fs ! j) \<noteq> fm_ResultParamCode (fs ! i')"
      using Cons.prems(4) [rule_format, of "Suc j"] that by simp
  qed
  from Cons.prems(1) show ?case
  proof (cases rule: evalFormulaChain_Cons)
    case (skipped ts')
    with Cons.prems(3) obtain i' where "i = Suc i'" by (cases i) auto
    then show ?thesis using Cons.IH [OF skipped(3), of i'] Cons.prems(2,3) later skipped(2) by auto
  next
    case (evaluated t ts')
    show ?thesis
    proof (cases i)
      case 0
      have "fm_ResultParamCode f \<notin> fm_ResultParamCode ` set fs"
      proof
        assume "fm_ResultParamCode f \<in> fm_ResultParamCode ` set fs"
        then obtain j where "j < length fs" "fm_ResultParamCode (fs ! j) = fm_ResultParamCode f" by (auto simp: in_set_conv_nth)
        with Cons.prems(4) [rule_format, of "Suc j"] 0 show False by simp
      qed
      from chain_keeps [OF evaluated(4)] this 0 evaluated(2) show ?thesis by auto
    next
      case (Suc i')
      then show ?thesis using Cons.IH [OF evaluated(4), of i'] Cons.prems(2,3) later evaluated(2) by auto
    qed
  qed
qed simp

section \<open>A calculation that succeeds\<close>

lemma ComputeProduct_cases:
  assumes "ComputeProduct inp = Inr out"
  obtains route L w plan inherited oilNote byLevel landed w' where
    "ci_Route inp = Some route" "ci_EvalCache inp = Some L"
    "prepareScope inp = Inr (w, plan, inherited, oilNote)"
    "aggregateRMCost inp route plan resolveRMUnitCost = Inr (co_TotalRMCost out, co_RMCostDetail out, byLevel)"
    "evalFormulaChain (evalSingleFormulaStep L (co_TotalRMCost out) landed (ci_MBCosts inp) (ci_CalcType inp))
       inherited (ci_Formulas inp) (putReal ScopeKeyCostRMTotal (co_TotalRMCost out) w) = Inr (w', co_FormulaTrace out)"
    "finalCostOf (ci_Formulas inp) (fst w') (co_TotalRMCost out) = Inr (co_CostPerUnit out)"
    "co_ParamSnapshot out = scopeSnapshot w'" "co_TotalCost out = co_CostPerUnit out"
    "co_TotalConversion out = conversionOf (fst w') (co_CostPerUnit out) (co_TotalRMCost out)"
    "co_CostByLevel out = buildCostByLevel byLevel (co_TotalConversion out) (Some route) (ci_ProductSysID inp) (ci_UpstreamCosts inp)"
proof -
  from assms obtain route L where r: "ci_Route inp = Some route" "ci_EvalCache inp = Some L"
    by (auto simp: ComputeProduct_def split: option.splits)
  with assms have "tryThen (prepareScope inp) (computeWith inp route L) = Inr out" by (simp add: ComputeProduct_def)
  then obtain w plan inherited oilNote where p: "prepareScope inp = Inr (w, plan, inherited, oilNote)"
    and c: "computeWith inp route L (w, plan, inherited, oilNote) = Inr out" by (auto simp: tryThen_Inr)
  show thesis
    using c r by (auto simp: computeWith_def tryThen_Inr Let_def split: prod.splits intro: that [OF r p])
qed

lemma scopeSnapshot_Some: "scopeSnapshot w k = Some v \<longleftrightarrow> fst w k = Some (Num v) \<and> k \<notin> snd w"
  by (cases w) (auto simp: scopeSnapshot_def scopeFloat_def split: option.splits scope_value.splits)

lemma aggregateLines_Inr:
  assumes "aggregateLines detailOf xs (tot, detail, byLevel) = Inr (tot', detail', byLevel')"
  shows "\<exists>ds. list_all2 (\<lambda>x d. detailOf x = Inr d) xs ds \<and> detail' = detail @ ds \<and>
    tot' = fold (\<lambda>d acc. acc + rd_Contribution d) ds tot \<and>
    byLevel' = fold (\<lambda>d. addLevel (rd_RouteLevel d) (rd_Contribution d)) ds byLevel"
  using assms
proof (induction xs arbitrary: tot detail byLevel)
  case (Cons x xs)
  from Cons.prems obtain d where d: "detailOf x = Inr d" "aggregateLines detailOf xs (tot + rd_Contribution d,
      detail @ [d], addLevel (rd_RouteLevel d) (rd_Contribution d) byLevel) = Inr (tot', detail', byLevel')"
    by (auto simp: tryThen_Inr)
  from Cons.IH [OF d(2)] obtain ds where "list_all2 (\<lambda>x d. detailOf x = Inr d) xs ds" "detail' = (detail @ [d]) @ ds"
    "tot' = fold (\<lambda>d acc. acc + rd_Contribution d) ds (tot + rd_Contribution d)"
    "byLevel' = fold (\<lambda>d. addLevel (rd_RouteLevel d) (rd_Contribution d)) ds (addLevel (rd_RouteLevel d) (rd_Contribution d) byLevel)"
    by blast
  with d(1) show ?case by (intro exI [of _ "d # ds"]) simp
qed simp

end
