(* ===== verification/CostLedger.thy ===== *)
theory CostLedger
  imports PeriodLock Compute
begin

text \<open>
  The stored cost results: the aggregate
  (\<^verbatim>\<open>services/finance/internal/domain/costcalc/entity_result.go\<close>), the statements on
  \<^verbatim>\<open>cst_product_cost\<close> (\<^verbatim>\<open>services/finance/internal/infrastructure/postgres/cost_result_repository.go\<close>),
  the two manual transitions (\<^verbatim>\<open>verify_cost_handler.go\<close>, \<^verbatim>\<open>approve_cost_handler.go\<close> with
  \<^verbatim>\<open>mb_cost_row_guard.go\<close>) and the push of master batch costs
  (\<^verbatim>\<open>services/finance/internal/application/mbpush/execute_handler.go\<close>).

  A transaction takes the row locks of what it updates and share-locks the period lock it reads, so it
  is one step on the tables; only the insertion of a first row can race with another one, and
  \<open>tryUpsert\<close> takes what the others committed before its insertion as an argument. Database failures
  other than the violated unique index, the unit of measure, the input hash and the time of the
  calculation are left out; a JSON column holds the value it encodes.
\<close>

section \<open>Results\<close>

datatype result_status = ResultStatusCalculated | ResultStatusVerified | ResultStatusApproved | ResultStatusSuperseded

record 'f result =
  re_id :: int
  re_productSysID :: int
  re_period :: string
  re_calcType :: string
  re_routeHeadID :: int
  re_version :: int
  re_costPerUnit :: 'f
  re_totalRMCost :: 'f
  re_totalConv :: 'f
  re_totalCost :: 'f
  re_currency :: string
  re_costByLevel :: "'f level_contribution list"
  re_rmCostDetail :: "'f rm_cost_detail list"
  re_paramSnapshot :: "string \<Rightarrow> 'f option"
  re_formulaTrace :: "'f formula_trace list"
  re_status :: result_status
  re_jobID :: int
  re_calculatedBy :: string
  re_verifiedAt :: "time option"
  re_verifiedBy :: string
  re_approvedAt :: "time option"
  re_approvedBy :: string
  re_captiveCost :: 'f
  re_deliveryCost :: 'f
  re_vbDelCost :: "'f list"

definition ResultCurrencyFor :: "string \<Rightarrow> string" where
  "ResultCurrencyFor calcType = (if calcType = CalcTypeActual then ''USD'' else ''IDR'')"

definition NewResult ::
  "int \<Rightarrow> string \<Rightarrow> string \<Rightarrow> int \<Rightarrow> 'f compute_output \<Rightarrow> int \<Rightarrow> string \<Rightarrow> 'f \<Rightarrow> 'f \<Rightarrow> 'f list \<Rightarrow> 'f result" where
  "NewResult productSysID period calcType routeHeadID out jobID calculatedBy captive delivery vb =
     \<lparr>re_id = 0, re_productSysID = productSysID, re_period = period, re_calcType = calcType,
      re_routeHeadID = routeHeadID, re_version = 1, re_costPerUnit = co_CostPerUnit out,
      re_totalRMCost = co_TotalRMCost out, re_totalConv = co_TotalConversion out,
      re_totalCost = co_TotalCost out, re_currency = ResultCurrencyFor calcType,
      re_costByLevel = co_CostByLevel out, re_rmCostDetail = co_RMCostDetail out,
      re_paramSnapshot = co_ParamSnapshot out, re_formulaTrace = co_FormulaTrace out,
      re_status = ResultStatusCalculated, re_jobID = jobID, re_calculatedBy = calculatedBy,
      re_verifiedAt = None, re_verifiedBy = [], re_approvedAt = None, re_approvedBy = [],
      re_captiveCost = captive, re_deliveryCost = delivery, re_vbDelCost = vb\<rparr>"

datatype ledger_error =
  CostInvalidStatus | CostNotFound | PeriodIsLocked | UniqueViolation | CostIDNotPositive | ActorRequired
| MBCostNotManuallyTransitionable | GuardFailed | PushLogPeriodRequired

text \<open>The transitions of the aggregate, with the instant they take from the clock.\<close>

definition MarkVerifiedEntity :: "'f result \<Rightarrow> string \<Rightarrow> time \<Rightarrow> ledger_error + 'f result" where
  "MarkVerifiedEntity r actor now =
     (if re_status r \<noteq> ResultStatusCalculated then Inl CostInvalidStatus
      else Inr (r\<lparr>re_status := ResultStatusVerified, re_verifiedAt := Some now, re_verifiedBy := actor\<rparr>))"

definition MarkApprovedEntity :: "'f result \<Rightarrow> string \<Rightarrow> time \<Rightarrow> ledger_error + 'f result" where
  "MarkApprovedEntity r actor now =
     (if re_status r \<noteq> ResultStatusVerified then Inl CostInvalidStatus
      else Inr (r\<lparr>re_status := ResultStatusApproved, re_verifiedAt := Some now, re_verifiedBy := actor,
                  re_approvedAt := Some now, re_approvedBy := actor\<rparr>))"

definition VariancePctOrNil :: "'f \<Rightarrow> 'f \<Rightarrow> ('f::{zero,one,plus,minus,times,inverse,ord}) option" where
  "VariancePctOrNil prevTotal newTotal =
     (if floatEq prevTotal 0 then None
      else
        let ten = 1 + 1 + 1 + 1 + 1 + 1 + 1 + 1 + 1 + 1
        in Some (((newTotal - prevTotal) / prevTotal) * (ten * ten)))"

section \<open>The table\<close>

text \<open>\<open>lg_mbCost\<close> is \<^verbatim>\<open>cst_mb_cost\<close>: head, period and cost type to value and source row.\<close>

record 'f ledger =
  lg_rows :: "'f result list"
  lg_nextID :: int
  lg_tables :: lock_tables
  lg_mbCost :: "string \<times> string \<times> string \<Rightarrow> ('f \<times> int) option"

type_synonym row_key = "int \<times> string \<times> string"

definition rowKey :: "'f result \<Rightarrow> row_key" where
  "rowKey r = (re_productSysID r, re_period r, re_calcType r)"

definition isActive :: "row_key \<Rightarrow> 'f result \<Rightarrow> bool" where
  "isActive key r \<longleftrightarrow> rowKey r = key \<and> re_status r \<noteq> ResultStatusSuperseded"

text \<open>\<open>safeconv.IntToInt32\<close> caps at the bounds of the 32-bit column.\<close>

definition intToInt32 :: "int \<Rightarrow> int" where
  "intToInt32 v = (if v > 2147483647 then 2147483647 else if v < - 2147483648 then - 2147483648 else v)"

text \<open>The period lock of an ACTUAL row.\<close>

definition keyLocked :: "row_key \<Rightarrow> 'f ledger \<Rightarrow> bool" where
  "keyLocked key lg = (case key of (_, period, calcType) \<Rightarrow>
     calcType = CalcTypeActual \<and> IsPeriodLockedRow (lg_tables lg) period calcType)"

text \<open>The previous version, total and id (all 0 when there is no row), and the ids of the rows updated.\<close>

definition supersedePrevious ::
  "row_key \<Rightarrow> ('f::zero) ledger \<Rightarrow> ledger_error + ((int \<times> 'f \<times> int) \<times> int list)" where
  "supersedePrevious key lg =
     (if keyLocked key lg then Inl PeriodIsLocked
      else (case filter (isActive key) (lg_rows lg) of
          [] \<Rightarrow> Inr ((0, 0, 0), [])
        | r # rs \<Rightarrow> Inr ((re_version r, re_totalCost r, re_id r), map re_id (r # rs))))"

definition markSuperseded :: "int list \<Rightarrow> 'f ledger \<Rightarrow> 'f ledger" where
  "markSuperseded ids lg = lg\<lparr>lg_rows :=
     map (\<lambda>r. if re_id r \<in> set ids then r\<lparr>re_status := ResultStatusSuperseded\<rparr> else r) (lg_rows lg)\<rparr>"

definition insertNewResult :: "'f result \<Rightarrow> int \<Rightarrow> 'f ledger \<Rightarrow> ledger_error + (int \<times> 'f ledger)" where
  "insertNewResult r version lg =
     (if list_ex (isActive (rowKey r)) (lg_rows lg) then Inl UniqueViolation
      else Inr (lg_nextID lg, lg\<lparr>lg_rows := lg_rows lg @ [r\<lparr>re_id := lg_nextID lg, re_version := intToInt32 version\<rparr>],
                                 lg_nextID := lg_nextID lg + 1\<rparr>))"

type_synonym 'f upserted = "int \<times> int \<times> 'f \<times> int"

text \<open>
  One attempt. \<open>others\<close> is what other transactions commit between the statement that supersedes and the
  insertion; when the insertion fails, their rows stay and ours are rolled back.
\<close>

definition tryUpsert ::
  "('f ledger \<Rightarrow> 'f ledger) \<Rightarrow> 'f result \<Rightarrow> ('f::zero) ledger \<Rightarrow> (ledger_error + 'f upserted) \<times> 'f ledger" where
  "tryUpsert others r lg =
     (case supersedePrevious (rowKey r) lg of
        Inl e \<Rightarrow> (Inl e, lg)
      | Inr ((prevVersion, prevTotal, prevCostID), ids) \<Rightarrow>
          (case insertNewResult r (prevVersion + 1) (markSuperseded ids (others lg)) of
             Inl e \<Rightarrow> (Inl e, others lg)
           | Inr (newCostID, lg') \<Rightarrow> (Inr (newCostID, prevVersion, prevTotal, prevCostID), lg')))"

definition upsertMaxRetries :: nat where "upsertMaxRetries = 3"

fun upsertLoop ::
  "nat \<Rightarrow> (nat \<Rightarrow> 'f ledger \<Rightarrow> 'f ledger) \<Rightarrow> 'f result \<Rightarrow> ('f::zero) ledger \<Rightarrow> (ledger_error + 'f upserted) \<times> 'f ledger" where
  "upsertLoop 0 others r lg = (Inl UniqueViolation, lg)"
| "upsertLoop (Suc n) others r lg =
     (case tryUpsert (others n) r lg of
        (Inl UniqueViolation, lg') \<Rightarrow> upsertLoop n others r lg'
      | res \<Rightarrow> res)"

definition UpsertWithSupersede ::
  "(nat \<Rightarrow> 'f ledger \<Rightarrow> 'f ledger) \<Rightarrow> 'f result \<Rightarrow> ('f::zero) ledger \<Rightarrow> (ledger_error + 'f upserted) \<times> 'f ledger" where
  "UpsertWithSupersede others r lg = upsertLoop upsertMaxRetries others r lg"

definition GetActive :: "row_key \<Rightarrow> 'f ledger \<Rightarrow> ledger_error + 'f result" where
  "GetActive key lg = (case find (isActive key) (lg_rows lg) of None \<Rightarrow> Inl CostNotFound | Some r \<Rightarrow> Inr r)"

definition GetResultByID :: "int \<Rightarrow> 'f ledger \<Rightarrow> ledger_error + 'f result" where
  "GetResultByID costID lg = (case find (\<lambda>r. re_id r = costID) (lg_rows lg) of None \<Rightarrow> Inl CostNotFound | Some r \<Rightarrow> Inr r)"

section \<open>Transitions of a stored row\<close>

text \<open>A guarded UPDATE: no row affected is an invalid status.\<close>

definition transitionStatus ::
  "int \<Rightarrow> result_status \<Rightarrow> ('f result \<Rightarrow> 'f result) \<Rightarrow> 'f ledger \<Rightarrow> (ledger_error + unit) \<times> 'f ledger" where
  "transitionStatus costID fromStatus change lg =
     (if list_ex (\<lambda>r. re_id r = costID \<and> re_status r = fromStatus) (lg_rows lg)
      then (Inr (), lg\<lparr>lg_rows := map (\<lambda>r. if re_id r = costID \<and> re_status r = fromStatus then change r else r) (lg_rows lg)\<rparr>)
      else (Inl CostInvalidStatus, lg))"

definition guardCostRowPeriodLock :: "int \<Rightarrow> 'f ledger \<Rightarrow> ledger_error + unit" where
  "guardCostRowPeriodLock costID lg =
     (case GetResultByID costID lg of
        Inl _ \<Rightarrow> Inr ()
      | Inr r \<Rightarrow> if keyLocked (rowKey r) lg then Inl PeriodIsLocked else Inr ())"

definition verified :: "string \<Rightarrow> time \<Rightarrow> 'f result \<Rightarrow> 'f result" where
  "verified actor now r = r\<lparr>re_status := ResultStatusVerified, re_verifiedAt := Some now, re_verifiedBy := actor\<rparr>"

definition approved :: "string \<Rightarrow> time \<Rightarrow> 'f result \<Rightarrow> 'f result" where
  "approved actor now r = r\<lparr>re_status := ResultStatusApproved, re_verifiedAt := Some now, re_verifiedBy := actor,
     re_approvedAt := Some now, re_approvedBy := actor\<rparr>"

definition MarkVerified :: "int \<Rightarrow> string \<Rightarrow> time \<Rightarrow> 'f ledger \<Rightarrow> (ledger_error + unit) \<times> 'f ledger" where
  "MarkVerified costID actor now lg =
     (case guardCostRowPeriodLock costID lg of
        Inl e \<Rightarrow> (Inl e, lg)
      | Inr _ \<Rightarrow> transitionStatus costID ResultStatusCalculated (verified actor now) lg)"

definition MarkApproved :: "int \<Rightarrow> string \<Rightarrow> time \<Rightarrow> 'f ledger \<Rightarrow> (ledger_error + unit) \<times> 'f ledger" where
  "MarkApproved costID actor now lg =
     (case guardCostRowPeriodLock costID lg of
        Inl e \<Rightarrow> (Inl e, lg)
      | Inr _ \<Rightarrow> transitionStatus costID ResultStatusVerified (approved actor now) lg)"

definition MarkApprovedFromCalculatedTx :: "int \<Rightarrow> string \<Rightarrow> time \<Rightarrow> 'f ledger \<Rightarrow> (ledger_error + unit) \<times> 'f ledger" where
  "MarkApprovedFromCalculatedTx costID actor now lg =
     transitionStatus costID ResultStatusCalculated (approved actor now) lg"

section \<open>Verifying and approving\<close>

text \<open>
  A guard may be left out. \<open>IsMBCostRow\<close> is a query outside this table; it may fail. The handlers' own
  lock check reads the lock without holding it, so it is taken from an earlier state of the tables.
\<close>

definition rejectMBCostRow :: "(int \<Rightarrow> bool option) option \<Rightarrow> int \<Rightarrow> ledger_error + unit" where
  "rejectMBCostRow guard costID =
     (case guard of
        None \<Rightarrow> Inr ()
      | Some isMBCostRow \<Rightarrow> (case isMBCostRow costID of
          None \<Rightarrow> Inl GuardFailed
        | Some isMB \<Rightarrow> if isMB then Inl MBCostNotManuallyTransitionable else Inr ()))"

definition CheckPeriodUnlocked :: "bool \<Rightarrow> lock_tables \<Rightarrow> string \<Rightarrow> string \<Rightarrow> ledger_error + unit" where
  "CheckPeriodUnlocked wired db period calcType =
     (if \<not> wired \<or> calcType \<noteq> CalcTypeActual then Inr ()
      else if IsPeriodLockedRow db period calcType then Inl PeriodIsLocked else Inr ())"

definition rejectLockedCostRow :: "bool \<Rightarrow> 'f ledger \<Rightarrow> int \<Rightarrow> ledger_error + unit" where
  "rejectLockedCostRow wired lg costID =
     (if \<not> wired then Inr ()
      else (case GetResultByID costID lg of
          Inl _ \<Rightarrow> Inr ()
        | Inr r \<Rightarrow> CheckPeriodUnlocked wired (lg_tables lg) (re_period r) (re_calcType r)))"

text \<open>Both handlers: the checks in order, on the state \<open>earlier\<close>, then the transition.\<close>

definition manualTransition ::
  "(int \<Rightarrow> bool option) option \<Rightarrow> bool \<Rightarrow> 'f ledger \<Rightarrow> int \<Rightarrow> string \<Rightarrow>
     ('f ledger \<Rightarrow> (ledger_error + unit) \<times> 'f ledger) \<Rightarrow> 'f ledger \<Rightarrow> (ledger_error + unit) \<times> 'f ledger" where
  "manualTransition mbGuard wired earlier costID actor transition lg =
     (if costID \<le> 0 then (Inl CostIDNotPositive, lg)
      else if actor = [] then (Inl ActorRequired, lg)
      else (case rejectMBCostRow mbGuard costID of
          Inl e \<Rightarrow> (Inl e, lg)
        | Inr _ \<Rightarrow> (case rejectLockedCostRow wired earlier costID of
            Inl e \<Rightarrow> (Inl e, lg)
          | Inr _ \<Rightarrow> transition lg)))"

definition VerifyCostHandle where
  "VerifyCostHandle mbGuard wired earlier costID actor now lg =
     manualTransition mbGuard wired earlier costID actor (MarkVerified costID actor now) lg"

definition ApproveCostHandle where
  "ApproveCostHandle mbGuard wired earlier costID actor now lg =
     manualTransition mbGuard wired earlier costID actor (MarkApproved costID actor now) lg"

section \<open>Pushing master batch costs\<close>

record mb_head_candidate =
  mh_MBHID :: string
  mh_CostProductID :: int

datatype push_error = NotValidated | NoCalculatedCost string | PushFailed ledger_error

record execute_result =
  px_MBCount :: int
  px_RowCount :: int
  px_Errors :: "(string \<times> push_error) list"

definition GetActiveCalculatedTx :: "row_key \<Rightarrow> 'f ledger \<Rightarrow> 'f result option" where
  "GetActiveCalculatedTx key lg =
     (case GetActive key lg of
        Inl _ \<Rightarrow> None
      | Inr r \<Rightarrow> if re_status r \<noteq> ResultStatusCalculated then None else Some r)"

definition upsertMBCost :: "string \<Rightarrow> string \<Rightarrow> string \<Rightarrow> 'f \<Rightarrow> int \<Rightarrow> 'f ledger \<Rightarrow> 'f ledger" where
  "upsertMBCost mbhID period costType v costID lg =
     lg\<lparr>lg_mbCost := (lg_mbCost lg)((mbhID, period, costType) \<mapsto> (v, costID))\<rparr>"

definition pushOneType ::
  "mb_head_candidate \<Rightarrow> string \<Rightarrow> string \<Rightarrow> time \<Rightarrow> string \<Rightarrow> 'f ledger \<Rightarrow> (push_error + unit) \<times> 'f ledger" where
  "pushOneType c period actor now costType lg =
     (case GetActiveCalculatedTx (mh_CostProductID c, period, costType) lg of
        None \<Rightarrow> (Inl (NoCalculatedCost costType), lg)
      | Some r \<Rightarrow>
          (case MarkApprovedFromCalculatedTx (re_id r) actor now
                  (upsertMBCost (mh_MBHID c) period costType (re_costPerUnit r) (re_id r) lg) of
             (Inl e, lg') \<Rightarrow> (Inl (PushFailed e), lg')
           | (Inr _, lg') \<Rightarrow> (Inr (), lg')))"

fun pushTypes ::
  "mb_head_candidate \<Rightarrow> string \<Rightarrow> string \<Rightarrow> time \<Rightarrow> string list \<Rightarrow> 'f ledger \<Rightarrow> (push_error + unit) \<times> 'f ledger" where
  "pushTypes c period actor now [] lg = (Inr (), lg)"
| "pushTypes c period actor now (t # ts) lg =
     (case pushOneType c period actor now t lg of
        (Inl e, lg') \<Rightarrow> (Inl e, lg')
      | (Inr _, lg') \<Rightarrow> pushTypes c period actor now ts lg')"

definition pushOneMBInner where
  "pushOneMBInner c period actor now lg = pushTypes c period actor now [''ACTUAL'', ''SELLING'', ''FORECAST''] lg"

text \<open>The savepoint: an error leaves the rows as they were.\<close>

definition pushOneMB ::
  "mb_head_candidate \<Rightarrow> string \<Rightarrow> string \<Rightarrow> time \<Rightarrow> 'f ledger \<Rightarrow> (push_error + unit) \<times> 'f ledger" where
  "pushOneMB c period actor now lg =
     (case pushOneMBInner c period actor now lg of
        (Inl e, _) \<Rightarrow> (Inl e, lg) | (Inr _, lg') \<Rightarrow> (Inr (), lg'))"

definition pushHead ::
  "(string \<Rightarrow> mb_head_candidate option) \<Rightarrow> string \<Rightarrow> string \<Rightarrow> time \<Rightarrow> string \<Rightarrow>
     execute_result \<times> 'f ledger \<Rightarrow> execute_result \<times> 'f ledger" where
  "pushHead byID period actor now mbhID = (\<lambda>(result, lg).
     (case byID mbhID of
        None \<Rightarrow> (result\<lparr>px_Errors := px_Errors result @ [(mbhID, NotValidated)]\<rparr>, lg)
      | Some c \<Rightarrow> (case pushOneMB c period actor now lg of
          (Inl e, lg') \<Rightarrow> (result\<lparr>px_Errors := px_Errors result @ [(mbhID, e)]\<rparr>, lg')
        | (Inr _, lg') \<Rightarrow> (result\<lparr>px_MBCount := px_MBCount result + 1, px_RowCount := px_RowCount result + 3\<rparr>, lg'))))"

definition checkLockInTx :: "bool \<Rightarrow> string \<Rightarrow> 'f ledger \<Rightarrow> ledger_error + unit" where
  "checkLockInTx wired period lg =
     (if \<not> wired then Inr ()
      else if IsPeriodLockedRow (lg_tables lg) period CalcTypeActual then Inl PeriodIsLocked else Inr ())"

definition executeBatch ::
  "bool \<Rightarrow> (string \<Rightarrow> mb_head_candidate option) \<Rightarrow> string list \<Rightarrow> string \<Rightarrow> string \<Rightarrow> time \<Rightarrow> 'f ledger \<Rightarrow>
     (ledger_error + execute_result) \<times> 'f ledger" where
  "executeBatch wired byID mbhIDs period actor now lg =
     (case checkLockInTx wired period lg of
        Inl e \<Rightarrow> (Inl e, lg)
      | Inr _ \<Rightarrow>
          let (result, lg') = fold (pushHead byID period actor now) mbhIDs
                (\<lparr>px_MBCount = 0, px_RowCount = 0, px_Errors = []\<rparr>, lg)
          in if px_MBCount result = 0 then (Inr result, lg')
             else if period = [] then (Inl PushLogPeriodRequired, lg)
             else (Inr result, lg'))"

definition ExecutePush ::
  "bool \<Rightarrow> lock_tables \<Rightarrow> mb_head_candidate list \<Rightarrow> string list \<Rightarrow> string \<Rightarrow> string \<Rightarrow> time \<Rightarrow> 'f ledger \<Rightarrow>
     (ledger_error + execute_result) \<times> 'f ledger" where
  "ExecutePush wired earlier candidates mbhIDs period actor now lg =
     (case CheckPeriodUnlocked wired earlier period CalcTypeActual of
        Inl e \<Rightarrow> (Inl e, lg)
      | Inr _ \<Rightarrow> executeBatch wired (map_of (rev (map (\<lambda>c. (mh_MBHID c, c)) candidates))) mbhIDs period actor now lg)"

section \<open>Steps of the tables\<close>

text \<open>
  What the services do to the tables, one transaction at a time. A result that is stored is a new one;
  the push handler is wired with the period lock, as its service wires it.
\<close>

inductive ledger_step :: "('f::zero) ledger \<Rightarrow> 'f ledger \<Rightarrow> bool" where
  Upsert: "re_status r = ResultStatusCalculated \<Longrightarrow> ledger_step lg (snd (tryUpsert id r lg))"
| Verify: "ledger_step lg (snd (VerifyCostHandle mbGuard wired earlier costID actor now lg))"
| Approve: "ledger_step lg (snd (ApproveCostHandle mbGuard wired earlier costID actor now lg))"
| Push: "ledger_step lg (snd (ExecutePush True earlier candidates mbhIDs period actor now lg))"
| LockPeriod: "ledger_step lg (lg\<lparr>lg_tables := snd (LockHandle cmd now (lg_tables lg))\<rparr>)"
| UnlockPeriod: "ledger_step lg (lg\<lparr>lg_tables := snd (UnlockHandle probe ucmd now (lg_tables lg))\<rparr>)"

definition emptyLedger :: "'f ledger" where
  "emptyLedger = \<lparr>lg_rows = [], lg_nextID = 1, lg_tables = \<lparr>lt_locks = Map.empty, lt_batches = []\<rparr>, lg_mbCost = Map.empty\<rparr>"

end
