(* ===== verification/FinanceStore.thy ===== *)
theory FinanceStore
  imports CostLedger
begin

text \<open>
  The finance service's side of a calculation job: the aggregates of
  \<^verbatim>\<open>services/finance/internal/domain/costcalc\<close> (\<^verbatim>\<open>entity_job.go\<close>,
  \<^verbatim>\<open>entity_chunk.go\<close>, \<^verbatim>\<open>entity_product.go\<close>) and the statements of their repositories
  (\<^verbatim>\<open>services/finance/internal/infrastructure/postgres\<close>).

  A statement that reaches the database succeeds unless it affects no row or violates a
  constraint. A column that is null and a Go zero value (0, the empty string) are the same value,
  as the code writes one for the other with \<open>NULLIF\<close> and \<open>COALESCE\<close>. An instant read from the clock
  of the program or the database is an argument.
\<close>

section \<open>Errors\<close>

text \<open>\<open>QueryFailed\<close> names the loader query that failed.\<close>

datatype load_query =
  LoadRoutes | LoadCAPP | LoadFormulas | LoadOil | LoadSuperba | LoadRMCosts | LoadUpstreamCostsQ | LoadUpstreamSnapshotsQ
| LoadMBSet | LoadCalculated | LoadSpin | LoadTxWeight | LoadModes | LoadGroupDeniers | LoadUpstreamDeniers
| LoadOverrides

datatype finance_error =
  ErrJobNotFound | ErrJobInvalidStatus | ErrInvalidPeriod | ErrMissingSpinFixedCost | QueryFailed load_query
| StoreFailed ledger_error | CalcFailed compute_error | DuplicateJobProduct | NoItemsToInsert
| TriggerPeriodLocked | ErrProductRequired | ErrScopeNotYetSupported | ErrMBNotCalcJobEligible | MBCheckFailed
| PublishFailed | JobIDNotPositive

definition tryFin :: "(finance_error + 'a) \<times> 's \<Rightarrow> ('a \<Rightarrow> 's \<Rightarrow> (finance_error + 'b) \<times> 's) \<Rightarrow> (finance_error + 'b) \<times> 's" where
  "tryFin r k = (case r of (Inl e, s) \<Rightarrow> (Inl e, s) | (Inr v, s) \<Rightarrow> k v s)"

lemma tryFin_simps [simp]: "tryFin (Inl e, s) k = (Inl e, s)" "tryFin (Inr v, s) k = k v s"
  by (simp_all add: tryFin_def)

section \<open>The job\<close>

datatype job_status =
  JobStatusQueued | JobStatusPlanning | JobStatusProcessing | JobStatusSuccess | JobStatusPartialFailed
| JobStatusFailed | JobStatusCancelled

datatype calc_scope = ScopeAll | ScopeFiltered | ScopeSingleProduct | ScopeSingleRoute | ScopeMBBatch

text \<open>
  The column \<open>cj_product_filter\<close>: the bytes the caller gave, or the JSON object with the selectors of the scope.
\<close>

datatype product_filter =
  GivenFilter string
| ScopeSelectors (sel_product_sys_id: int) (sel_route_head_id: int) (sel_product_type_id_filter: int)

record job =
  jb_id :: int
  jb_period :: string
  jb_calcType :: string
  jb_scope :: calc_scope
  jb_productFilter :: "product_filter option"
  jb_status :: job_status
  jb_priority :: int
  jb_totalProducts :: int
  jb_totalChunks :: int
  jb_totalWaves :: int
  jb_processedChunks :: int
  jb_successCount :: int
  jb_failedCount :: int
  jb_blockedCount :: int
  jb_triggeredBy :: string
  jb_queuedAt :: time
  jb_startedAt :: "time option"
  jb_completedAt :: "time option"
  jb_durationMs :: int
  jb_createdBy :: string

definition NewJob ::
  "string \<Rightarrow> string \<Rightarrow> calc_scope \<Rightarrow> product_filter option \<Rightarrow> string \<Rightarrow> string \<Rightarrow> time \<Rightarrow> finance_error + job" where
  "NewJob period calcType scope pfilter triggeredBy createdBy now =
     (if length period \<noteq> 6 then Inl ErrInvalidPeriod
      else Inr \<lparr>jb_id = 0, jb_period = period, jb_calcType = calcType, jb_scope = scope, jb_productFilter = pfilter,
        jb_status = JobStatusQueued, jb_priority = 5, jb_totalProducts = 0, jb_totalChunks = 0, jb_totalWaves = 0,
        jb_processedChunks = 0, jb_successCount = 0, jb_failedCount = 0, jb_blockedCount = 0,
        jb_triggeredBy = triggeredBy, jb_queuedAt = now, jb_startedAt = None, jb_completedAt = None,
        jb_durationMs = 0, jb_createdBy = createdBy\<rparr>)"

definition JobMarkPlanning :: "job \<Rightarrow> finance_error + job" where
  "JobMarkPlanning j = (if jb_status j \<noteq> JobStatusQueued then Inl ErrJobInvalidStatus else Inr (j\<lparr>jb_status := JobStatusPlanning\<rparr>))"

definition JobMarkProcessing :: "job \<Rightarrow> time \<Rightarrow> finance_error + job" where
  "JobMarkProcessing j now =
     (if jb_status j \<noteq> JobStatusPlanning \<and> jb_status j \<noteq> JobStatusQueued then Inl ErrJobInvalidStatus
      else Inr (j\<lparr>jb_status := JobStatusProcessing, jb_startedAt := Some now\<rparr>))"

definition SetTotals :: "job \<Rightarrow> int \<Rightarrow> int \<Rightarrow> int \<Rightarrow> job" where
  "SetTotals j products chunks waves = j\<lparr>jb_totalProducts := products, jb_totalChunks := chunks, jb_totalWaves := waves\<rparr>"

text \<open>The end of a job, and its duration if it has started.\<close>

definition endedAt :: "time \<Rightarrow> job \<Rightarrow> job" where
  "endedAt now j = j\<lparr>jb_completedAt := Some now, jb_durationMs :=
     (case jb_startedAt j of None \<Rightarrow> jb_durationMs j | Some t \<Rightarrow> milliseconds (timeSub now t))\<rparr>"

definition JobMarkComplete :: "job \<Rightarrow> int \<Rightarrow> int \<Rightarrow> int \<Rightarrow> time \<Rightarrow> finance_error + job" where
  "JobMarkComplete j succ fl blocked now =
     (if jb_status j \<noteq> JobStatusProcessing then Inl ErrJobInvalidStatus
      else Inr (endedAt now (j\<lparr>jb_successCount := succ, jb_failedCount := fl, jb_blockedCount := blocked, jb_status :=
        (if fl = 0 \<and> blocked = 0 then JobStatusSuccess
         else if succ = 0 then JobStatusFailed else JobStatusPartialFailed)\<rparr>)))"

definition Cancel :: "job \<Rightarrow> time \<Rightarrow> finance_error + job" where
  "Cancel j now =
     (case jb_status j of
        JobStatusQueued \<Rightarrow> Inr (endedAt now (j\<lparr>jb_status := JobStatusCancelled\<rparr>))
      | JobStatusPlanning \<Rightarrow> Inr (endedAt now (j\<lparr>jb_status := JobStatusCancelled\<rparr>))
      | JobStatusProcessing \<Rightarrow> Inr (endedAt now (j\<lparr>jb_status := JobStatusCancelled\<rparr>))
      | _ \<Rightarrow> Inl ErrJobInvalidStatus)"

section \<open>The chunk\<close>

datatype chunk_status =
  ChunkStatusQueued | ChunkStatusDispatched | ChunkStatusProcessing | ChunkStatusSuccess | ChunkStatusPartialFailed
| ChunkStatusFailed | ChunkStatusSkipped

record chunk =
  ck_id :: int
  ck_jobID :: int
  ck_chunkNumber :: int
  ck_waveNo :: int
  ck_productIDs :: "int list"
  ck_status :: chunk_status
  ck_workerID :: string
  ck_dispatchedAt :: "time option"
  ck_startedAt :: "time option"
  ck_completedAt :: "time option"
  ck_durationMs :: int
  ck_successCount :: int
  ck_failedCount :: int
  ck_errorMessage :: string
  ck_retryCount :: int
  ck_maxRetries :: int

definition NewChunk :: "int \<Rightarrow> int \<Rightarrow> int \<Rightarrow> int list \<Rightarrow> chunk" where
  "NewChunk jobID chunkNumber waveNo productIDs =
     \<lparr>ck_id = 0, ck_jobID = jobID, ck_chunkNumber = chunkNumber, ck_waveNo = waveNo, ck_productIDs = productIDs,
      ck_status = ChunkStatusQueued, ck_workerID = [], ck_dispatchedAt = None, ck_startedAt = None, ck_completedAt = None,
      ck_durationMs = 0, ck_successCount = 0, ck_failedCount = 0, ck_errorMessage = [], ck_retryCount = 0, ck_maxRetries = 3\<rparr>"

definition Dispatch :: "chunk \<Rightarrow> time \<Rightarrow> chunk" where
  "Dispatch c now = c\<lparr>ck_status := ChunkStatusDispatched, ck_dispatchedAt := Some now\<rparr>"

definition Start :: "chunk \<Rightarrow> string \<Rightarrow> time \<Rightarrow> chunk" where
  "Start c workerID now = c\<lparr>ck_status := ChunkStatusProcessing, ck_workerID := workerID, ck_startedAt := Some now\<rparr>"

definition Complete :: "chunk \<Rightarrow> int \<Rightarrow> int \<Rightarrow> string \<Rightarrow> time \<Rightarrow> chunk" where
  "Complete c succ fl errMsg now =
     c\<lparr>ck_successCount := succ, ck_failedCount := fl, ck_errorMessage := errMsg,
       ck_status := (if fl = 0 then ChunkStatusSuccess else if succ = 0 then ChunkStatusFailed else ChunkStatusPartialFailed),
       ck_completedAt := Some now,
       ck_durationMs := (case ck_startedAt c of None \<Rightarrow> ck_durationMs c | Some t \<Rightarrow> milliseconds (timeSub now t))\<rparr>"

definition IncRetry :: "chunk \<Rightarrow> int \<times> chunk" where
  "IncRetry c = (ck_retryCount c + 1, c\<lparr>ck_retryCount := ck_retryCount c + 1\<rparr>)"

section \<open>The product of a job\<close>

datatype job_product_status =
  JobProductStatusPending | JobProductStatusReady | JobProductStatusCalculating | JobProductStatusSuccess
| JobProductStatusFailed | JobProductStatusBlocked | JobProductStatusSkipped

text \<open>What the calculation log holds: nothing, the trace of a success, or the error.\<close>

datatype 'f calc_log = NoLog | TraceLog "'f compute_output" string | ErrorLog finance_error

record 'f job_product =
  jp_jobID :: int
  jp_chunkID :: int
  jp_productSysID :: int
  jp_routeHeadID :: int
  jp_waveNo :: int
  jp_status :: job_product_status
  jp_blockReason :: string
  jp_completedAt :: "time option"
  jp_durationMs :: int
  jp_costID :: int
  jp_errorMessage :: "finance_error option"
  jp_calculationLog :: "'f calc_log"

definition NewJobProduct :: "int \<Rightarrow> int \<Rightarrow> int \<Rightarrow> int \<Rightarrow> 'f job_product" where
  "NewJobProduct jobID productSysID routeHeadID waveNo =
     \<lparr>jp_jobID = jobID, jp_chunkID = 0, jp_productSysID = productSysID, jp_routeHeadID = routeHeadID, jp_waveNo = waveNo,
      jp_status = JobProductStatusPending, jp_blockReason = [], jp_completedAt = None, jp_durationMs = 0, jp_costID = 0,
      jp_errorMessage = None, jp_calculationLog = NoLog\<rparr>"

section \<open>The tables\<close>

record 'f audit_entry =
  ah_ProductSysID :: int
  ah_Period :: string
  ah_CalcType :: string
  ah_OldCostID :: int
  ah_NewCostID :: int
  ah_OldTotal :: 'f
  ah_NewTotal :: 'f
  ah_VariancePct :: "'f option"
  ah_NewJobID :: int
  ah_ChangedBy :: string

record 'f finance =
  fi_ledger :: "'f ledger"
  fi_jobs :: "job list"
  fi_chunks :: "chunk list"
  fi_products :: "'f job_product list"
  fi_history :: "'f audit_entry list"
  fi_nextJobID :: int
  fi_nextChunkID :: int
  fi_triggered :: "int list"

definition jobCreate :: "job \<Rightarrow> 'f finance \<Rightarrow> job \<times> 'f finance" where
  "jobCreate j fin = (let j' = j\<lparr>jb_id := fi_nextJobID fin\<rparr>
     in (j', fin\<lparr>fi_jobs := fi_jobs fin @ [j'\<lparr>jb_startedAt := None, jb_completedAt := None, jb_durationMs := 0\<rparr>],
                 fi_nextJobID := fi_nextJobID fin + 1\<rparr>))"

definition jobGetByID :: "int \<Rightarrow> 'f finance \<Rightarrow> finance_error + job" where
  "jobGetByID i fin = (case find (\<lambda>j. jb_id j = i) (fi_jobs fin) of None \<Rightarrow> Inl ErrJobNotFound | Some j \<Rightarrow> Inr j)"

definition jobExecUpdate :: "int \<Rightarrow> (job \<Rightarrow> job) \<Rightarrow> 'f finance \<Rightarrow> (finance_error + unit) \<times> 'f finance" where
  "jobExecUpdate i f fin =
     (if list_ex (\<lambda>j. jb_id j = i) (fi_jobs fin)
      then (Inr (), fin\<lparr>fi_jobs := map (\<lambda>j. if jb_id j = i then f j else j) (fi_jobs fin)\<rparr>)
      else (Inl ErrJobNotFound, fin))"

definition jobUpdateStatus :: "int \<Rightarrow> job_status \<Rightarrow> 'f finance \<Rightarrow> (finance_error + unit) \<times> 'f finance" where
  "jobUpdateStatus i st = jobExecUpdate i (\<lambda>j. j\<lparr>jb_status := st\<rparr>)"

definition jobUpdateTotals :: "int \<Rightarrow> int \<Rightarrow> int \<Rightarrow> int \<Rightarrow> 'f finance \<Rightarrow> (finance_error + unit) \<times> 'f finance" where
  "jobUpdateTotals i products chunks waves = jobExecUpdate i (\<lambda>j. j\<lparr>jb_totalProducts := intToInt32 products,
     jb_totalChunks := intToInt32 chunks, jb_totalWaves := intToInt32 waves\<rparr>)"

definition jobUpdateProgress :: "int \<Rightarrow> int \<Rightarrow> int \<Rightarrow> int \<Rightarrow> int \<Rightarrow> 'f finance \<Rightarrow> (finance_error + unit) \<times> 'f finance" where
  "jobUpdateProgress i processed succ fl blocked = jobExecUpdate i (\<lambda>j. j\<lparr>jb_processedChunks := intToInt32 processed,
     jb_successCount := intToInt32 succ, jb_failedCount := intToInt32 fl, jb_blockedCount := intToInt32 blocked\<rparr>)"

definition jobUpdateCompletion ::
  "int \<Rightarrow> job_status \<Rightarrow> int \<Rightarrow> int \<Rightarrow> int \<Rightarrow> int \<Rightarrow> time \<Rightarrow> 'f finance \<Rightarrow> (finance_error + unit) \<times> 'f finance" where
  "jobUpdateCompletion i st succ fl blocked durationMs now = jobExecUpdate i (\<lambda>j. j\<lparr>jb_status := st,
     jb_successCount := intToInt32 succ, jb_failedCount := intToInt32 fl, jb_blockedCount := intToInt32 blocked,
     jb_completedAt := Some now, jb_durationMs := durationMs\<rparr>)"

definition chunkCreate :: "chunk \<Rightarrow> 'f finance \<Rightarrow> chunk \<times> 'f finance" where
  "chunkCreate c fin = (let c' = c\<lparr>ck_id := fi_nextChunkID fin\<rparr>
     in (c', fin\<lparr>fi_chunks := fi_chunks fin @ [c'], fi_nextChunkID := fi_nextChunkID fin + 1\<rparr>))"

definition chunkExecUpdate :: "int \<Rightarrow> (chunk \<Rightarrow> chunk) \<Rightarrow> 'f finance \<Rightarrow> (finance_error + unit) \<times> 'f finance" where
  "chunkExecUpdate i f fin =
     (if list_ex (\<lambda>c. ck_id c = i) (fi_chunks fin)
      then (Inr (), fin\<lparr>fi_chunks := map (\<lambda>c. if ck_id c = i then f c else c) (fi_chunks fin)\<rparr>)
      else (Inl ErrJobNotFound, fin))"

definition chunkUpdateStatus ::
  "int \<Rightarrow> chunk_status \<Rightarrow> string \<Rightarrow> time \<Rightarrow> 'f finance \<Rightarrow> (finance_error + unit) \<times> 'f finance" where
  "chunkUpdateStatus i st workerID now = chunkExecUpdate i (\<lambda>c. c\<lparr>ck_status := st, ck_workerID := workerID,
     ck_dispatchedAt := (if st = ChunkStatusDispatched then Some now else ck_dispatchedAt c),
     ck_startedAt := (if st = ChunkStatusProcessing then Some now else ck_startedAt c)\<rparr>)"

definition chunkUpdateResult ::
  "int \<Rightarrow> chunk_status \<Rightarrow> int \<Rightarrow> int \<Rightarrow> int \<Rightarrow> string \<Rightarrow> time \<Rightarrow> 'f finance \<Rightarrow> (finance_error + unit) \<times> 'f finance" where
  "chunkUpdateResult i st succ fl durationMs errMsg now = chunkExecUpdate i (\<lambda>c. c\<lparr>ck_status := st,
     ck_successCount := intToInt32 succ, ck_failedCount := intToInt32 fl, ck_durationMs := intToInt32 durationMs,
     ck_errorMessage := errMsg, ck_completedAt := Some now\<rparr>)"

definition chunkIncrementRetry :: "int \<Rightarrow> 'f finance \<Rightarrow> (finance_error + int) \<times> 'f finance" where
  "chunkIncrementRetry i fin =
     (case find (\<lambda>c. ck_id c = i) (fi_chunks fin) of
        None \<Rightarrow> (Inl ErrJobNotFound, fin)
      | Some c \<Rightarrow> (Inr (ck_retryCount c + 1),
          fin\<lparr>fi_chunks := map (\<lambda>c. if ck_id c = i then c\<lparr>ck_retryCount := ck_retryCount c + 1\<rparr> else c) (fi_chunks fin)\<rparr>))"

text \<open>The constraint \<open>uk_cjp_job_product\<close> on job and product. A nil item is not inserted.\<close>

definition productKey :: "'f job_product \<Rightarrow> int \<times> int" where
  "productKey p = (jp_jobID p, jp_productSysID p)"

definition BulkCreate :: "'f job_product option list \<Rightarrow> 'f finance \<Rightarrow> (finance_error + unit) \<times> 'f finance" where
  "BulkCreate items fin =
     (let new = map (\<lambda>p. (NewJobProduct (jp_jobID p) (jp_productSysID p) (jp_routeHeadID p) (intToInt32 (jp_waveNo p)))
                  \<lparr>jp_status := jp_status p\<rparr>) (List.map_filter id items)
      in if items = [] then (Inr (), fin)
         else if new = [] then (Inl NoItemsToInsert, fin)
         else if distinct (map productKey (fi_products fin @ new)) then (Inr (), fin\<lparr>fi_products := fi_products fin @ new\<rparr>)
         else (Inl DuplicateJobProduct, fin))"

definition execJobProductUpdate ::
  "int \<Rightarrow> int \<Rightarrow> ('f job_product \<Rightarrow> 'f job_product) \<Rightarrow> 'f finance \<Rightarrow> (finance_error + unit) \<times> 'f finance" where
  "execJobProductUpdate jobID pid f fin =
     (if list_ex (\<lambda>p. productKey p = (jobID, pid)) (fi_products fin)
      then (Inr (), fin\<lparr>fi_products := map (\<lambda>p. if productKey p = (jobID, pid) then f p else p) (fi_products fin)\<rparr>)
      else (Inl ErrJobNotFound, fin))"

definition AssignChunk :: "int \<Rightarrow> int \<Rightarrow> int \<Rightarrow> 'f finance \<Rightarrow> (finance_error + unit) \<times> 'f finance" where
  "AssignChunk jobID pid chunkID = execJobProductUpdate jobID pid (\<lambda>p. p\<lparr>jp_chunkID := chunkID\<rparr>)"

definition MarkProductSuccess ::
  "int \<Rightarrow> int \<Rightarrow> int \<Rightarrow> int \<Rightarrow> 'f calc_log \<Rightarrow> time \<Rightarrow> 'f finance \<Rightarrow> (finance_error + unit) \<times> 'f finance" where
  "MarkProductSuccess jobID pid costID durationMs entry now = execJobProductUpdate jobID pid (\<lambda>p. p\<lparr>jp_status := JobProductStatusSuccess,
     jp_costID := costID, jp_durationMs := intToInt32 durationMs, jp_calculationLog := entry, jp_completedAt := Some now\<rparr>)"

definition MarkProductFailed ::
  "int \<Rightarrow> int \<Rightarrow> finance_error \<Rightarrow> 'f calc_log \<Rightarrow> time \<Rightarrow> 'f finance \<Rightarrow> (finance_error + unit) \<times> 'f finance" where
  "MarkProductFailed jobID pid err entry now = execJobProductUpdate jobID pid (\<lambda>p. p\<lparr>jp_status := JobProductStatusFailed,
     jp_errorMessage := Some err, jp_calculationLog := entry, jp_completedAt := Some now\<rparr>)"

definition MarkProductBlocked ::
  "int \<Rightarrow> int \<Rightarrow> string \<Rightarrow> 'f calc_log \<Rightarrow> time \<Rightarrow> 'f finance \<Rightarrow> (finance_error + unit) \<times> 'f finance" where
  "MarkProductBlocked jobID pid reason entry now = execJobProductUpdate jobID pid (\<lambda>p. p\<lparr>jp_status := JobProductStatusBlocked,
     jp_blockReason := reason, jp_calculationLog := entry, jp_completedAt := Some now\<rparr>)"

definition writeHistory :: "'f audit_entry \<Rightarrow> 'f finance \<Rightarrow> 'f finance" where
  "writeHistory e fin = fin\<lparr>fi_history := fi_history fin @ [e]\<rparr>"

end
