(* ===== verification/FinanceChunk.thy ===== *)
theory FinanceChunk
  imports FinanceStore
begin

text \<open>
  \<^verbatim>\<open>services/finance/internal/application/costcalc/process_chunk.go\<close>: the chunk of products
  that the finance service calculates on a worker's call. It loads what the products need in bulk,
  calculates one product after the other and stores each result, so that a product that is blocked or
  fails does not stop the others.

  The loader's queries on master data are functions of the service; the three queries on
  \<^verbatim>\<open>cst_product_cost\<close> (\<^verbatim>\<open>loader.go\<close>, \<^verbatim>\<open>loader_vb_loss.go\<close>) read the table of results.
  A loaded map is a function; where the code ranges over a map, the order of the
  iteration is that of a list. The metrics, the log lines and the audit events are left out.
\<close>

section \<open>What a chunk refers to\<close>

text \<open>All raw material lines of the routes, and the distinct keys some of them have, in order.\<close>

definition allRms :: "'f graph list \<Rightarrow> 'f rm list" where
  "allRms gs = concat (map (\<lambda>g. concat (map (\<lambda>sq. case sq of
     None \<Rightarrow> [] | Some s \<Rightarrow> List.map_filter id (sq_Rms s)) (gr_Seqs g))) gs)"

definition addUnseen :: "'k \<Rightarrow> 'k list \<Rightarrow> 'k list" where
  "addUnseen k out = (if k \<in> set out then out else out @ [k])"

definition rmReferenceCode :: "'f rm \<Rightarrow> string" where
  "rmReferenceCode rm =
     (if rm_RmType rm = RmTypeItem then rm_RmItemCode rm
      else if rm_RmType rm = RmTypeGroup then rm_RmGroupCode rm else [])"

definition collectRMCodes :: "'f graph list \<Rightarrow> string list" where
  "collectRMCodes gs = fold (\<lambda>rm out. if rmReferenceCode rm = [] then out else addUnseen (rmReferenceCode rm) out) (allRms gs) []"

definition collectGroupCodes :: "'f graph list \<Rightarrow> string list" where
  "collectGroupCodes gs = fold (\<lambda>rm out.
     if rm_RmType rm \<noteq> RmTypeGroup \<or> rm_RmGroupCode rm = [] then out else addUnseen (rm_RmGroupCode rm) out) (allRms gs) []"

definition collectUpstreamProducts :: "'f graph list \<Rightarrow> int list" where
  "collectUpstreamProducts gs = fold (\<lambda>rm out.
     if rm_RmType rm \<noteq> RmTypeProduct then out else addUnseen (rm_RmProductSysID rm) out) (allRms gs) []"

text \<open>\<open>slices.Sort\<close> orders the codes by their bytes.\<close>

fun insertCode :: "string \<Rightarrow> string list \<Rightarrow> string list" where
  "insertCode c [] = [c]"
| "insertCode c (d # ds) = (if bytesLess d c then d # insertCode c ds else c # d # ds)"

definition oilGroupCodes :: "oil_input list \<Rightarrow> string list \<Rightarrow> string list" where
  "oilGroupCodes oil existing =
     (let add = (\<lambda>c extra. let code = trimSpace c
            in if code = [] \<or> code \<in> set existing then extra else addUnseen code extra)
      in existing @ foldr insertCode (fold (\<lambda>i extra. add (oi_DefaultGroup i) (add (oi_GroupCode i) extra)) oil []) [])"

definition denierModeProducts :: "int list \<Rightarrow> (int \<Rightarrow> string) \<Rightarrow> int list" where
  "denierModeProducts products modes = filter (\<lambda>pid. IsDenierMode (modes pid)) products"

section \<open>Loading\<close>

record 'f spin_pool =
  sp_Period :: string
  sp_Values :: "string \<Rightarrow> 'f option"

text \<open>A query answers \<open>None\<close> when it fails. \<open>ld_TxWeight\<close> is a capability the loader may lack.\<close>

record 'f product_loader =
  ld_Routes :: "int list \<Rightarrow> (int \<times> 'f graph) list option"
  ld_CAPP :: "int list \<Rightarrow> (int \<Rightarrow> string \<Rightarrow> 'f option) option"
  ld_Formulas :: "int list \<Rightarrow> (int \<Rightarrow> formula list) option"
  ld_OilContext :: "int list \<Rightarrow> (int \<times> oil_input) list option"
  ld_SuperbaCost :: "int list \<Rightarrow> (int \<Rightarrow> 'f superba_cost option) option"
  ld_RMCosts :: "string list \<Rightarrow> string \<Rightarrow> string \<Rightarrow> (string \<Rightarrow> 'f rm_cost_rates option) option"
  ld_MasterTypes :: "int \<Rightarrow> string option"
  ld_CalculatedParams :: "int list \<Rightarrow> (int \<Rightarrow> string list) option"
  ld_SpinFixedCost :: "string \<Rightarrow> 'f spin_pool option"
  ld_TxWeight :: "(int list \<Rightarrow> (int \<Rightarrow> string \<Rightarrow> 'f tx_weight_rule option) option) option"
  ld_RMRatioModes :: "int list \<Rightarrow> (int \<Rightarrow> string) option"
  ld_RMGroupDeniers :: "string list \<Rightarrow> ((string \<Rightarrow> 'f option) \<times> (string \<Rightarrow> bool)) option"
  ld_UpstreamDeniers :: "int list \<Rightarrow> (int \<Rightarrow> 'f option) option"
  ld_RMDenierOverrides :: "int list \<Rightarrow> (int \<Rightarrow> 'f denier_overrides) option"

text \<open>
  The optional parts: the guard on master batch products, and the two readers of an order, each with
  the expression it finds in \<^verbatim>\<open>mst_formula\<close>, if any; and the publisher of a triggered job, which says
  whether it could publish.
\<close>

record 'f calc_service =
  sv_loader :: "'f product_loader"
  sv_cache :: "'f expr_lang option"
  sv_mbProductGuard :: "(int list \<Rightarrow> (int \<Rightarrow> bool) option) option"
  sv_rmRateOrderLoader :: "string option option"
  sv_rmLandedOrderLoader :: "string option option"
  sv_jobTriggerPub :: "(int \<Rightarrow> bool) option"

definition LoadRMRateOrder :: "string option \<Rightarrow> string list" where
  "LoadRMRateOrder expr = (case expr of None \<Rightarrow> DefaultRMRateOrder
     | Some e \<Rightarrow> (case ParseRMRateOrder e of None \<Rightarrow> DefaultRMRateOrder | Some order \<Rightarrow> order))"

definition loadRMRateOrder :: "'f calc_service \<Rightarrow> string list" where
  "loadRMRateOrder sv = (case sv_rmRateOrderLoader sv of None \<Rightarrow> DefaultRMRateOrder | Some expr \<Rightarrow> LoadRMRateOrder expr)"

definition LoadRMLandedOrder :: "string option \<Rightarrow> string \<Rightarrow> string list option" where
  "LoadRMLandedOrder expr = (case expr of None \<Rightarrow> Map.empty | Some e \<Rightarrow> ParseRMLandedOrder e)"

definition loadRMLandedOrder :: "'f calc_service \<Rightarrow> string \<Rightarrow> string list option" where
  "loadRMLandedOrder sv = (case sv_rmLandedOrderLoader sv of None \<Rightarrow> Map.empty | Some expr \<Rightarrow> LoadRMLandedOrder expr)"

text \<open>The queries on the results. The active row of a product, period and type is unique.\<close>

definition LoadUpstreamCosts ::
  "(int \<Rightarrow> string option) \<Rightarrow> int list \<Rightarrow> string \<Rightarrow> string \<Rightarrow> 'f ledger \<Rightarrow> (int \<Rightarrow> 'f option) option" where
  "LoadUpstreamCosts types ids period calcType lg =
     (if ids = [] then Some (\<lambda>_. None)
      else if period = [] \<or> calcType = [] then None
      else Some (\<lambda>pid. if pid \<notin> set ids then None else (case types pid of
          None \<Rightarrow> None
        | Some t \<Rightarrow> (case GetActive (pid, period, calcType) lg of
            Inl _ \<Rightarrow> None
          | Inr r \<Rightarrow> Some (if t = ''MB'' then re_costPerUnit r else re_captiveCost r)))))"

definition LoadUpstreamParamSnapshots ::
  "int list \<Rightarrow> string \<Rightarrow> string \<Rightarrow> 'f ledger \<Rightarrow> (int \<Rightarrow> (string \<Rightarrow> 'f option) option) option" where
  "LoadUpstreamParamSnapshots ids period calcType lg =
     (if ids = [] then Some (\<lambda>_. None)
      else if period = [] \<or> calcType = [] then None
      else Some (\<lambda>pid. if pid \<notin> set ids then None else (case GetActive (pid, period, calcType) lg of
          Inl _ \<Rightarrow> None | Inr r \<Rightarrow> Some (re_paramSnapshot r))))"

definition LoadProductTypeCodes :: "(int \<Rightarrow> string option) \<Rightarrow> int list \<Rightarrow> int \<Rightarrow> string option" where
  "LoadProductTypeCodes types ids pid = (if pid \<in> set ids then map_option trimSpace (types pid) else None)"

definition LoadSellingSnapshots :: "int list \<Rightarrow> string \<Rightarrow> 'f ledger \<Rightarrow> int \<Rightarrow> string \<Rightarrow> 'f option" where
  "LoadSellingSnapshots ids period lg pid =
     (if period = [] \<or> pid \<notin> set ids then Map.empty
      else (case GetActive (pid, period, ''SELLING'') lg of Inl _ \<Rightarrow> Map.empty | Inr r \<Rightarrow> re_paramSnapshot r))"

record chunk_input =
  pi_JobID :: int
  pi_ChunkID :: int
  pi_Period :: string
  pi_CalcType :: string
  pi_Products :: "int list"
  pi_Actor :: string

record 'f loaded_bundle =
  lb_routes :: "int \<Rightarrow> 'f graph option"
  lb_capp :: "int \<Rightarrow> string \<Rightarrow> 'f option"
  lb_formulas :: "int \<Rightarrow> formula list"
  lb_rmCosts :: "string \<Rightarrow> 'f rm_cost_rates option"
  lb_upstreamCosts :: "int \<Rightarrow> 'f option"
  lb_sellingSnapshots :: "int \<Rightarrow> string \<Rightarrow> 'f option"
  lb_spinPool :: "'f spin_pool"
  lb_mbProducts :: "int \<Rightarrow> bool"
  lb_calculatedParams :: "int \<Rightarrow> string list"
  lb_rmRateOrder :: "string list"
  lb_rmLandedOrder :: "string \<Rightarrow> string list option"
  lb_oil :: "int \<Rightarrow> oil_input option"
  lb_superba :: "int \<Rightarrow> 'f superba_cost option"
  lb_txWeight :: "int \<Rightarrow> string \<Rightarrow> 'f tx_weight_rule option"
  lb_typeCodes :: "int \<Rightarrow> string option"
  lb_upstreamSnapshots :: "int \<Rightarrow> (string \<Rightarrow> 'f option) option"
  lb_rmRatioModes :: "int \<Rightarrow> string"
  lb_rmGroupDeniers :: "string \<Rightarrow> 'f option"
  lb_rmGroupUseDraft :: "string \<Rightarrow> bool"
  lb_upstreamDeniers :: "int \<Rightarrow> 'f option"
  lb_rmDenierOverrides :: "int \<Rightarrow> 'f denier_overrides"

definition loadQuery :: "load_query \<Rightarrow> 'a option \<Rightarrow> finance_error + 'a" where
  "loadQuery q r = (case r of None \<Rightarrow> Inl (QueryFailed q) | Some v \<Rightarrow> Inr v)"

definition loadMBProductSet :: "'f calc_service \<Rightarrow> int list \<Rightarrow> finance_error + (int \<Rightarrow> bool)" where
  "loadMBProductSet sv products =
     (case sv_mbProductGuard sv of None \<Rightarrow> Inr (\<lambda>_. False) | Some guard \<Rightarrow> loadQuery LoadMBSet (guard products))"

definition loadSpinPool :: "'f calc_service \<Rightarrow> string \<Rightarrow> finance_error + 'f spin_pool" where
  "loadSpinPool sv period =
     tryThen (loadQuery LoadSpin (ld_SpinFixedCost (sv_loader sv) period)) (\<lambda>pool.
       if sp_Period pool = [] then Inl ErrMissingSpinFixedCost else Inr pool)"

definition loadTxWeightRules :: "'f calc_service \<Rightarrow> int list \<Rightarrow> finance_error + (int \<Rightarrow> string \<Rightarrow> 'f tx_weight_rule option)" where
  "loadTxWeightRules sv products =
     (case ld_TxWeight (sv_loader sv) of None \<Rightarrow> Inr (\<lambda>_ _. None) | Some load \<Rightarrow> loadQuery LoadTxWeight (load products))"

definition loadOilAndSuperba ::
  "'f calc_service \<Rightarrow> int list \<Rightarrow> finance_error + (int \<times> oil_input) list \<times> (int \<Rightarrow> 'f superba_cost option)" where
  "loadOilAndSuperba sv products =
     tryThen (loadQuery LoadOil (ld_OilContext (sv_loader sv) products)) (\<lambda>oil.
     tryThen (loadQuery LoadSuperba (ld_SuperbaCost (sv_loader sv) products)) (\<lambda>superba. Inr (oil, superba)))"

definition loadVBLossInputs ::
  "'f calc_service \<Rightarrow> chunk_input \<Rightarrow> int list \<Rightarrow> 'f ledger \<Rightarrow>
     finance_error + (int \<Rightarrow> string option) \<times> (int \<Rightarrow> (string \<Rightarrow> 'f option) option)" where
  "loadVBLossInputs sv inp upstreamIDs lg =
     tryThen (loadQuery LoadUpstreamSnapshotsQ (LoadUpstreamParamSnapshots upstreamIDs (pi_Period inp) (pi_CalcType inp) lg)) (\<lambda>snaps.
       Inr (LoadProductTypeCodes (ld_MasterTypes (sv_loader sv)) (pi_Products inp @ upstreamIDs), snaps))"

definition loadRMRatioInputs ::
  "'f calc_service \<Rightarrow> int list \<Rightarrow> 'f graph list \<Rightarrow> 'f loaded_bundle \<Rightarrow> finance_error + 'f loaded_bundle" where
  "loadRMRatioInputs sv products gs b =
     (let ld = sv_loader sv in
      tryThen (loadQuery LoadModes (ld_RMRatioModes ld products)) (\<lambda>modes.
      tryThen (loadQuery LoadGroupDeniers (ld_RMGroupDeniers ld (collectGroupCodes gs))) (\<lambda>(deniers, useDraft).
      tryThen (loadQuery LoadUpstreamDeniers (ld_UpstreamDeniers ld (collectUpstreamProducts gs))) (\<lambda>upstreamDeniers.
        let b' = b\<lparr>lb_rmRatioModes := modes, lb_rmGroupDeniers := deniers, lb_rmGroupUseDraft := useDraft,
                   lb_upstreamDeniers := upstreamDeniers\<rparr>;
            denierProducts = denierModeProducts products modes
        in if denierProducts = [] then Inr b'
           else tryThen (loadQuery LoadOverrides (ld_RMDenierOverrides ld denierProducts)) (\<lambda>ovr.
             Inr (b'\<lparr>lb_rmDenierOverrides := ovr\<rparr>))))))"

definition bulkLoad :: "'f calc_service \<Rightarrow> chunk_input \<Rightarrow> 'f ledger \<Rightarrow> finance_error + 'f loaded_bundle" where
  "bulkLoad sv inp lg =
     (let ld = sv_loader sv; products = pi_Products inp; period = pi_Period inp; calcType = pi_CalcType inp in
      tryThen (loadQuery LoadRoutes (ld_Routes ld products)) (\<lambda>routes.
      let gs = map snd routes; upstreamIDs = collectUpstreamProducts gs in
      tryThen (loadQuery LoadCAPP (ld_CAPP ld products)) (\<lambda>capp.
      tryThen (loadQuery LoadFormulas (ld_Formulas ld products)) (\<lambda>fs.
      tryThen (loadOilAndSuperba sv products) (\<lambda>(oil, superba).
      tryThen (loadQuery LoadRMCosts (ld_RMCosts ld (oilGroupCodes (map snd oil) (collectRMCodes gs)) period calcType)) (\<lambda>rmCosts.
      tryThen (loadQuery LoadUpstreamCostsQ (LoadUpstreamCosts (ld_MasterTypes ld) upstreamIDs period calcType lg)) (\<lambda>upstreamCosts.
      tryThen (loadVBLossInputs sv inp upstreamIDs lg) (\<lambda>(typeCodes, snaps).
      tryThen (loadMBProductSet sv products) (\<lambda>mb.
      tryThen (loadQuery LoadCalculated (ld_CalculatedParams ld products)) (\<lambda>calculated.
      tryThen (loadSpinPool sv period) (\<lambda>pool.
      tryThen (loadTxWeightRules sv products) (\<lambda>tx.
        loadRMRatioInputs sv products gs
          \<lparr>lb_routes = map_of routes, lb_capp = capp, lb_formulas = fs, lb_rmCosts = rmCosts,
           lb_upstreamCosts = upstreamCosts, lb_sellingSnapshots = LoadSellingSnapshots products period lg,
           lb_spinPool = pool, lb_mbProducts = mb, lb_calculatedParams = calculated,
           lb_rmRateOrder = loadRMRateOrder sv, lb_rmLandedOrder = loadRMLandedOrder sv,
           lb_oil = map_of oil, lb_superba = superba, lb_txWeight = tx, lb_typeCodes = typeCodes,
           lb_upstreamSnapshots = snaps, lb_rmRatioModes = (\<lambda>_. []), lb_rmGroupDeniers = Map.empty,
           lb_rmGroupUseDraft = (\<lambda>_. False), lb_upstreamDeniers = Map.empty,
           lb_rmDenierOverrides = (\<lambda>_. noOverrides)\<rparr>))))))))))))"

section \<open>One product\<close>

datatype product_outcome = productOutcomeSuccess | productOutcomeBlocked | productOutcomeFailed

definition blockReasonMissingRoute :: string where "blockReasonMissingRoute = ''MISSING_ROUTE''"
definition blockReasonMBOwnedByBatch :: string where "blockReasonMBOwnedByBatch = ''MB_OWNED_BY_MB_BATCH''"

text \<open>The reason a calculation error blocks its product with; the others fail it.\<close>

definition blockReason :: "compute_error \<Rightarrow> string option" where
  "blockReason e = (case e of
     ErrMissingCAPPValue \<Rightarrow> Some ''MISSING_CAPP_VALUE''
   | ErrMissingRMCost _ \<Rightarrow> Some ''MISSING_RM_COST''
   | ErrMissingUpstreamCost _ \<Rightarrow> Some ''MISSING_UPSTREAM_COST''
   | ErrMissingMBCost _ \<Rightarrow> Some ''MISSING_MB_COST''
   | ErrMissingSuperbaCost \<Rightarrow> Some ''MISSING_SUPERBA_COST''
   | ErrFormulaEval _ \<Rightarrow> Some ''FORMULA_ERROR''
   | _ \<Rightarrow> None)"

definition recordComputeError ::
  "chunk_input \<Rightarrow> int \<Rightarrow> compute_error \<Rightarrow> time \<Rightarrow> 'f finance \<Rightarrow> product_outcome \<times> 'f finance" where
  "recordComputeError inp pid err now fin =
     (case blockReason err of
        Some reason \<Rightarrow> (productOutcomeBlocked, snd (MarkProductBlocked (pi_JobID inp) pid reason (ErrorLog (CalcFailed err)) now fin))
      | None \<Rightarrow> (productOutcomeFailed, snd (MarkProductFailed (pi_JobID inp) pid (CalcFailed err) (ErrorLog (CalcFailed err)) now fin)))"

text \<open>The captive cost, the delivery cost and the five bucket costs of a snapshot.\<close>

definition snapKeysVolumeBucketDelCost :: "string list" where
  "snapKeysVolumeBucketDelCost = [''VOLUME_BUCKET_1_DEL_COST'', ''VOLUME_BUCKET_2_DEL_COST'', ''VOLUME_BUCKET_3_DEL_COST'',
     ''VOLUME_BUCKET_4_DEL_COST'', ''VOLUME_BUCKET_5_DEL_COST'']"

definition extractCaptiveDeliveryCosts :: "(string \<Rightarrow> ('f::zero) option) \<Rightarrow> 'f \<times> 'f \<times> 'f list" where
  "extractCaptiveDeliveryCosts snap =
     (mapGet snap ''CAPTIVE_COST_QLTY_LOSS'', mapGet snap ''DELIVERY_COST_QLTY_LOSS'',
      map (mapGet snap) snapKeysVolumeBucketDelCost)"

definition writeRecomputeAudit ::
  "chunk_input \<Rightarrow> int \<Rightarrow> int \<Rightarrow> 'f \<Rightarrow> int \<Rightarrow> 'f \<Rightarrow> ('f::{zero,one,plus,minus,times,inverse,ord}) finance \<Rightarrow> 'f finance" where
  "writeRecomputeAudit inp pid newID prevTotal prevID newTotal =
     writeHistory \<lparr>ah_ProductSysID = pid, ah_Period = pi_Period inp, ah_CalcType = pi_CalcType inp, ah_OldCostID = prevID,
       ah_NewCostID = newID, ah_OldTotal = prevTotal, ah_NewTotal = newTotal,
       ah_VariancePct = VariancePctOrNil prevTotal newTotal, ah_NewJobID = pi_JobID inp, ah_ChangedBy = pi_Actor inp\<rparr>"

definition resultOf :: "chunk_input \<Rightarrow> int \<Rightarrow> int \<Rightarrow> ('f::zero) compute_output \<Rightarrow> 'f result" where
  "resultOf inp pid headID out =
     (let (captive, delivery, vb) = extractCaptiveDeliveryCosts (co_ParamSnapshot out)
      in NewResult pid (pi_Period inp) (pi_CalcType inp) headID out (pi_JobID inp) (pi_Actor inp) captive delivery vb)"

text \<open>\<open>others\<close> is what other transactions commit in the middle of the attempts to store, as in \<open>tryUpsert\<close>.\<close>

definition persistResult ::
  "(nat \<Rightarrow> 'f ledger \<Rightarrow> 'f ledger) \<Rightarrow> chunk_input \<Rightarrow> int \<Rightarrow> int \<Rightarrow> 'f compute_output \<Rightarrow> string \<Rightarrow> time \<Rightarrow>
     ('f::{zero,one,plus,minus,times,inverse,ord}) finance \<Rightarrow> (finance_error + unit) \<times> 'f finance" where
  "persistResult others inp pid headID out poolPeriod now fin =
     (case UpsertWithSupersede others (resultOf inp pid headID out) (fi_ledger fin) of
        (Inl e, lg) \<Rightarrow> (Inl (StoreFailed e), fin\<lparr>fi_ledger := lg\<rparr>)
      | (Inr (newID, _, prevTotal, prevID), lg) \<Rightarrow>
          let fin1 = fin\<lparr>fi_ledger := lg\<rparr>;
              fin2 = (if prevID \<noteq> 0 then writeRecomputeAudit inp pid newID prevTotal prevID (co_CostPerUnit out) fin1 else fin1)
          in MarkProductSuccess (pi_JobID inp) pid newID 0 (TraceLog out poolPeriod) now fin2)"

definition computeInputOf :: "'f calc_service \<Rightarrow> chunk_input \<Rightarrow> int \<Rightarrow> 'f graph \<Rightarrow> 'f loaded_bundle \<Rightarrow> 'f compute_input" where
  "computeInputOf sv inp pid route b =
     \<lparr>ci_ProductSysID = pid, ci_CalcType = pi_CalcType inp, ci_Route = Some route, ci_CAPP = lb_capp b pid,
      ci_Formulas = lb_formulas b pid, ci_RMCosts = lb_rmCosts b, ci_UpstreamCosts = lb_upstreamCosts b,
      ci_EvalCache = sv_cache sv, ci_SellingSnapshot = lb_sellingSnapshots b pid, ci_MBCosts = Map.empty,
      ci_SpinFixedCost = sp_Values (lb_spinPool b), ci_CalculatedParams = lb_calculatedParams b pid,
      ci_RMRateOrder = lb_rmRateOrder b, ci_RMLandedOrder = lb_rmLandedOrder b, ci_Oil = lb_oil b pid,
      ci_Superba = lb_superba b pid, ci_TxWeight = lb_txWeight b pid,
      ci_VBLoss = Some \<lparr>vb_ProductTypeCode = (case lb_typeCodes b pid of None \<Rightarrow> [] | Some t \<Rightarrow> t),
        vb_UpstreamTypeCodes = lb_typeCodes b, vb_UpstreamParamSnapshots = lb_upstreamSnapshots b\<rparr>,
      ci_RMRatioMode = lb_rmRatioModes b pid, ci_RMGroupDenier = lb_rmGroupDeniers b,
      ci_RMGroupUseDraft = lb_rmGroupUseDraft b, ci_UpstreamDenier = lb_upstreamDeniers b,
      ci_RMDenierOverride = lb_rmDenierOverrides b pid, ci_UpstreamSnapshots = Some (lb_upstreamSnapshots b)\<rparr>"

text \<open>The route of a product with its head, if there is one.\<close>

definition headedRoute :: "'f loaded_bundle \<Rightarrow> int \<Rightarrow> ('f graph \<times> route_head) option" where
  "headedRoute b pid = (case lb_routes b pid of None \<Rightarrow> None
     | Some g \<Rightarrow> (case gr_Head g of None \<Rightarrow> None | Some h \<Rightarrow> Some (g, h)))"

definition computeOne ::
  "'f calc_service \<Rightarrow> (nat \<Rightarrow> 'f ledger \<Rightarrow> 'f ledger) \<Rightarrow> chunk_input \<Rightarrow> 'f loaded_bundle \<Rightarrow> int \<Rightarrow> time \<Rightarrow>
     ('f::{zero,one,plus,minus,times,inverse,ord}) finance \<Rightarrow> product_outcome \<times> 'f finance" where
  "computeOne sv others inp b pid now fin =
     (if lb_mbProducts b pid then
        (productOutcomeBlocked, snd (MarkProductBlocked (pi_JobID inp) pid blockReasonMBOwnedByBatch NoLog now fin))
      else (case headedRoute b pid of
          None \<Rightarrow> (productOutcomeBlocked, snd (MarkProductBlocked (pi_JobID inp) pid blockReasonMissingRoute NoLog now fin))
        | Some (route, head) \<Rightarrow> (case ComputeProduct (computeInputOf sv inp pid route b) of
            Inl err \<Rightarrow> recordComputeError inp pid err now fin
          | Inr out \<Rightarrow> (case persistResult others inp pid (hd_HeadID head) out (sp_Period (lb_spinPool b)) now fin of
              (Inl e, fin') \<Rightarrow> (productOutcomeFailed, snd (MarkProductFailed (pi_JobID inp) pid e (ErrorLog e) now fin'))
            | (Inr _, fin') \<Rightarrow> (productOutcomeSuccess, fin')))))"

section \<open>The chunk\<close>

record chunk_output =
  po_Success :: int
  po_Failed :: int
  po_Blocked :: int

definition noOutput :: chunk_output where "noOutput = \<lparr>po_Success = 0, po_Failed = 0, po_Blocked = 0\<rparr>"

definition finalChunkStatus :: "chunk_output \<Rightarrow> chunk_status" where
  "finalChunkStatus out =
     (if po_Failed out = 0 \<and> po_Blocked out = 0 then ChunkStatusSuccess
      else if po_Success out = 0 then ChunkStatusFailed else ChunkStatusPartialFailed)"

definition tally :: "product_outcome \<Rightarrow> chunk_output \<Rightarrow> chunk_output" where
  "tally r out = (case r of
     productOutcomeSuccess \<Rightarrow> out\<lparr>po_Success := po_Success out + 1\<rparr>
   | productOutcomeBlocked \<Rightarrow> out\<lparr>po_Blocked := po_Blocked out + 1\<rparr>
   | productOutcomeFailed \<Rightarrow> out\<lparr>po_Failed := po_Failed out + 1\<rparr>)"

definition processProduct where
  "processProduct sv others inp b now pid = (\<lambda>(out, fin).
     (case computeOne sv (others pid) inp b pid now fin of (r, fin') \<Rightarrow> (tally r out, fin')))"

definition ServiceProcessChunk ::
  "'f calc_service \<Rightarrow> (int \<Rightarrow> nat \<Rightarrow> 'f ledger \<Rightarrow> 'f ledger) \<Rightarrow> chunk_input \<Rightarrow> time \<Rightarrow>
     ('f::{zero,one,plus,minus,times,inverse,ord}) finance \<Rightarrow> (finance_error + chunk_output) \<times> 'f finance" where
  "ServiceProcessChunk sv others inp now fin =
     (if pi_Products inp = [] then (Inr noOutput, fin)
      else tryFin (if pi_ChunkID inp \<noteq> 0 then chunkUpdateStatus (pi_ChunkID inp) ChunkStatusProcessing ''inline'' now fin
                   else (Inr (), fin)) (\<lambda>_ fin1.
        case bulkLoad sv inp (fi_ledger fin1) of
          Inl e \<Rightarrow> (Inl e, fin1)
        | Inr b \<Rightarrow> (case fold (processProduct sv others inp b now) (pi_Products inp) (noOutput, fin1) of
            (out, fin2) \<Rightarrow>
              tryFin (if pi_ChunkID inp \<noteq> 0
                      then chunkUpdateResult (pi_ChunkID inp) (finalChunkStatus out) (po_Success out) (po_Failed out) 0 [] now fin2
                      else (Inr (), fin2)) (\<lambda>_ fin3. (Inr out, fin3)))))"

end
