(* ===== verification/FinanceTrigger.thy ===== *)
theory FinanceTrigger
  imports FinanceChunk
begin

text \<open>
  \<^verbatim>\<open>services/finance/internal/application/costcalc/trigger_handler.go\<close>: the trigger of a
  calculation. It checks the period lock and the master batch rule before it writes anything, hands the
  job to the orchestrator when a publisher is configured, and otherwise calculates a single product
  inline: a job, a chunk and a job product row, the chunk, and the verdict on the job.

  The statements are not in one transaction: what was written before an error stays. \<open>now\<close> is the
  clock when the job starts, \<open>later\<close> when its chunk ends. The audit events are left out, but for the
  event type of a completed job.
\<close>

section \<open>The guards\<close>

record trigger_command =
  tc_Period :: string
  tc_CalcType :: string
  tc_Scope :: calc_scope
  tc_ProductSysID :: int
  tc_RouteHeadID :: int
  tc_ProductTypeIDFilter :: int
  tc_TriggeredBy :: string
  tc_Actor :: string
  tc_Filter :: string

text \<open>Whether a product, or a product type, is master batch; \<open>None\<close> when the query fails.\<close>

record mb_type_checker =
  IsMBProduct :: "int \<Rightarrow> bool option"
  IsMBProductType :: "int \<Rightarrow> bool option"

record 'f trigger_handler =
  th_svc :: "'f calc_service"
  th_mbGuard :: "mb_type_checker option"
  th_periodLock :: bool

definition rejectMB :: "bool option \<Rightarrow> finance_error + unit" where
  "rejectMB isMB = (case isMB of
     None \<Rightarrow> Inl MBCheckFailed
   | Some mb \<Rightarrow> if mb then Inl ErrMBNotCalcJobEligible else Inr ())"

definition rejectMBScope :: "'f trigger_handler \<Rightarrow> trigger_command \<Rightarrow> finance_error + unit" where
  "rejectMBScope h cmd =
     (case th_mbGuard h of
        None \<Rightarrow> Inr ()
      | Some guard \<Rightarrow> (case tc_Scope cmd of
          ScopeSingleProduct \<Rightarrow>
            if tc_ProductSysID cmd = 0 then Inr () else rejectMB (IsMBProduct guard (tc_ProductSysID cmd))
        | ScopeFiltered \<Rightarrow>
            if tc_ProductTypeIDFilter cmd = 0 then Inr () else rejectMB (IsMBProductType guard (tc_ProductTypeIDFilter cmd))
        | _ \<Rightarrow> Inr ()))"

definition preflight :: "'f trigger_handler \<Rightarrow> trigger_command \<Rightarrow> 'f finance \<Rightarrow> finance_error + unit" where
  "preflight h cmd fin =
     (case CheckPeriodUnlocked (th_periodLock h) (lg_tables (fi_ledger fin)) (tc_Period cmd) (tc_CalcType cmd) of
        Inl _ \<Rightarrow> Inl TriggerPeriodLocked
      | Inr _ \<Rightarrow> rejectMBScope h cmd)"

section \<open>Handing over to the orchestrator\<close>

definition givenFilter :: "string \<Rightarrow> product_filter option" where
  "givenFilter bytes = (if bytes = [] then None else Some (GivenFilter bytes))"

definition buildScopeFilter :: "trigger_command \<Rightarrow> product_filter option" where
  "buildScopeFilter cmd =
     (if tc_Filter cmd \<noteq> [] then givenFilter (tc_Filter cmd)
      else Some (ScopeSelectors (tc_ProductSysID cmd) (tc_RouteHeadID cmd) (tc_ProductTypeIDFilter cmd)))"

definition dispatchToOrchestrator ::
  "'f trigger_handler \<Rightarrow> trigger_command \<Rightarrow> time \<Rightarrow> 'f finance \<Rightarrow> (finance_error + job) \<times> 'f finance" where
  "dispatchToOrchestrator h cmd now fin =
     (case sv_jobTriggerPub (th_svc h) of
        None \<Rightarrow> (Inl ErrScopeNotYetSupported, fin)
      | Some publish \<Rightarrow> (case NewJob (tc_Period cmd) (tc_CalcType cmd) (tc_Scope cmd) (buildScopeFilter cmd)
                             (tc_TriggeredBy cmd) (tc_Actor cmd) now of
          Inl e \<Rightarrow> (Inl e, fin)
        | Inr new \<Rightarrow> (case jobCreate new fin of (job, fin1) \<Rightarrow>
            if publish (jb_id job) then (Inr job, fin1\<lparr>fi_triggered := fi_triggered fin1 @ [jb_id job]\<rparr>)
            else (Inl PublishFailed, snd (jobUpdateStatus (jb_id job) JobStatusFailed fin1)))))"

section \<open>The inline path\<close>

definition resolveRouteHead :: "'f trigger_handler \<Rightarrow> int \<Rightarrow> finance_error + int option" where
  "resolveRouteHead h pid =
     (case ld_Routes (sv_loader (th_svc h)) [pid] of
        None \<Rightarrow> Inl (QueryFailed LoadRoutes)
      | Some routes \<Rightarrow> (case map_of routes pid of
          None \<Rightarrow> Inr None
        | Some g \<Rightarrow> Inr (map_option hd_HeadID (gr_Head g))))"

text \<open>A transition of the aggregate, and the statement that stores its status.\<close>

definition markAndStore ::
  "finance_error + job \<Rightarrow> 'f finance \<Rightarrow> (finance_error + job) \<times> 'f finance" where
  "markAndStore marked fin = tryFin (marked, fin) (\<lambda>job fin.
     tryFin (jobUpdateStatus (jb_id job) (jb_status job) fin) (\<lambda>_ fin. (Inr job, fin)))"

definition storeCompletion ::
  "int \<Rightarrow> int \<Rightarrow> int \<Rightarrow> job \<Rightarrow> time \<Rightarrow> 'f finance \<Rightarrow> (finance_error + job) \<times> 'f finance" where
  "storeCompletion succ fl blocked job later fin =
     tryFin (JobMarkComplete job succ fl blocked later, fin) (\<lambda>job fin.
     tryFin (jobUpdateCompletion (jb_id job) (jb_status job) succ fl blocked (jb_durationMs job) later fin)
       (\<lambda>_ fin. (Inr job, fin)))"

definition finalizeMissingRoute ::
  "job \<Rightarrow> time \<Rightarrow> time \<Rightarrow> 'f finance \<Rightarrow> (finance_error + job) \<times> 'f finance" where
  "finalizeMissingRoute job now later fin =
     tryFin (markAndStore (JobMarkPlanning job) fin) (\<lambda>job fin.
     tryFin (markAndStore (JobMarkProcessing job now) fin) (\<lambda>job fin.
       storeCompletion 0 0 1 job later fin))"

definition planJob :: "job \<Rightarrow> 'f finance \<Rightarrow> (finance_error + job) \<times> 'f finance" where
  "planJob job fin =
     tryFin (markAndStore (JobMarkPlanning job) fin) (\<lambda>job fin.
       let job = SetTotals job 1 1 1
       in tryFin (jobUpdateTotals (jb_id job) 1 1 1 fin) (\<lambda>_ fin. (Inr job, fin)))"

definition seedChunkAndProduct ::
  "job \<Rightarrow> trigger_command \<Rightarrow> int \<Rightarrow> 'f finance \<Rightarrow> (finance_error + chunk) \<times> 'f finance" where
  "seedChunkAndProduct job cmd routeHeadID fin =
     (case chunkCreate (NewChunk (jb_id job) 1 0 [tc_ProductSysID cmd]) fin of (chunk, fin) \<Rightarrow>
        tryFin (BulkCreate [Some (NewJobProduct (jb_id job) (tc_ProductSysID cmd) routeHeadID 0)] fin) (\<lambda>_ fin.
        tryFin (AssignChunk (jb_id job) (tc_ProductSysID cmd) (ck_id chunk) fin) (\<lambda>_ fin. (Inr chunk, fin))))"

definition completeJob ::
  "job \<Rightarrow> chunk_output \<Rightarrow> time \<Rightarrow> 'f finance \<Rightarrow> (finance_error + job) \<times> 'f finance" where
  "completeJob job out later fin = storeCompletion (po_Success out) (po_Failed out) (po_Blocked out) job later fin"

definition inlineChunk :: "trigger_command \<Rightarrow> job \<Rightarrow> chunk \<Rightarrow> chunk_input" where
  "inlineChunk cmd job chunk =
     \<lparr>pi_JobID = jb_id job, pi_ChunkID = ck_id chunk, pi_Period = tc_Period cmd, pi_CalcType = tc_CalcType cmd,
      pi_Products = [tc_ProductSysID cmd], pi_Actor = tc_Actor cmd\<rparr>"

definition calculateInline ::
  "'f trigger_handler \<Rightarrow> (int \<Rightarrow> nat \<Rightarrow> 'f ledger \<Rightarrow> 'f ledger) \<Rightarrow> trigger_command \<Rightarrow> int \<Rightarrow> job \<Rightarrow> time \<Rightarrow> time \<Rightarrow>
     ('f::{zero,one,plus,minus,times,inverse,ord}) finance \<Rightarrow> (finance_error + job) \<times> 'f finance" where
  "calculateInline h others cmd routeHeadID job now later fin =
     tryFin (planJob job fin) (\<lambda>job fin.
     tryFin (seedChunkAndProduct job cmd routeHeadID fin) (\<lambda>chunk fin.
     tryFin (markAndStore (JobMarkProcessing job now) fin) (\<lambda>job fin.
     tryFin (ServiceProcessChunk (th_svc h) others (inlineChunk cmd job chunk) later fin) (\<lambda>out fin.
       completeJob job out later fin))))"

definition TriggerInline ::
  "'f trigger_handler \<Rightarrow> (int \<Rightarrow> nat \<Rightarrow> 'f ledger \<Rightarrow> 'f ledger) \<Rightarrow> trigger_command \<Rightarrow> time \<Rightarrow> time \<Rightarrow>
     ('f::{zero,one,plus,minus,times,inverse,ord}) finance \<Rightarrow> (finance_error + job) \<times> 'f finance" where
  "TriggerInline h others cmd now later fin =
     (case NewJob (tc_Period cmd) (tc_CalcType cmd) (tc_Scope cmd) (givenFilter (tc_Filter cmd))
             (tc_TriggeredBy cmd) (tc_Actor cmd) now of
        Inl e \<Rightarrow> (Inl e, fin)
      | Inr new \<Rightarrow> (case jobCreate new fin of (job, fin1) \<Rightarrow>
          (case resolveRouteHead h (tc_ProductSysID cmd) of
             Inl e \<Rightarrow> (Inl e, fin1)
           | Inr None \<Rightarrow> finalizeMissingRoute job now later fin1
           | Inr (Some routeHeadID) \<Rightarrow> calculateInline h others cmd routeHeadID job now later fin1)))"

definition TriggerHandle ::
  "'f trigger_handler \<Rightarrow> (int \<Rightarrow> nat \<Rightarrow> 'f ledger \<Rightarrow> 'f ledger) \<Rightarrow> trigger_command \<Rightarrow> time \<Rightarrow> time \<Rightarrow>
     ('f::{zero,one,plus,minus,times,inverse,ord}) finance \<Rightarrow> (finance_error + job) \<times> 'f finance" where
  "TriggerHandle h others cmd now later fin =
     (case preflight h cmd fin of
        Inl e \<Rightarrow> (Inl e, fin)
      | Inr _ \<Rightarrow>
          if tc_Scope cmd \<noteq> ScopeSingleProduct then dispatchToOrchestrator h cmd now fin
          else if tc_ProductSysID cmd = 0 then (Inl ErrProductRequired, fin)
          else if sv_jobTriggerPub (th_svc h) \<noteq> None then dispatchToOrchestrator h cmd now fin
          else TriggerInline h others cmd now later fin)"

definition jobCompletionEvent :: "job_status \<Rightarrow> string" where
  "jobCompletionEvent st = (case st of
     JobStatusSuccess \<Rightarrow> ''COST_CALC_JOB_SUCCESS''
   | JobStatusPartialFailed \<Rightarrow> ''COST_CALC_JOB_PARTIAL_FAILED''
   | JobStatusFailed \<Rightarrow> ''COST_CALC_JOB_FAILED''
   | _ \<Rightarrow> ''COST_CALC_JOB_COMPLETED'')"

end
