(* ===== verification/ComputeFacts.thy ===== *)
theory ComputeFacts
  imports Compute
begin

text \<open>
  What a calculation promises (\<^verbatim>\<open>services/finance/internal/application/costcalc/compute.go\<close>):
  where the values of the stored snapshot come from, how the cost of the raw materials is made
  up, what the trace records, and which values the formulas may not overwrite. The example at
  the start, a yarn stage fed by one upstream product and one item, serves the witnesses.
\<close>

section \<open>An example\<close>

definition exampleLanguage :: "rat expr_lang" where
  "exampleLanguage = \<lparr>xl_compiles = (\<lambda>_. True),
     xl_run = (\<lambda>e scope _. let get = (\<lambda>k. case scopeFloat scope k of Some v \<Rightarrow> v | None \<Rightarrow> 0) in
       if e = ''BASE * 3'' then FloatValue (get ''BASE'' * 3)
       else if e = ''COST_RM_TOTAL + CONV'' then FloatValue (get ScopeKeyCostRMTotal + get ''CONV'')
       else NoNumber),
     xl_ofInt = of_int, xl_maxFloat = 1000000\<rparr>"

definition computeFormula :: "int \<Rightarrow> string \<Rightarrow> string \<Rightarrow> string \<Rightarrow> string list \<Rightarrow> formula" where
  "computeFormula n code expr result inputs = \<lparr>fm_FormulaCode = code, fm_FormulaName = code,
     fm_FormulaType = ''CALCULATION'', fm_Expression = expr, fm_ResultParamCode = result,
     fm_InputParamCodes = inputs, fm_SortOrder = n\<rparr>"

definition exampleFormulas :: "formula list" where
  "exampleFormulas =
     [computeFormula 0 ''F_VB'' ''0'' ''VOLUME_BUCKET_1_LOSS'' [],
      computeFormula 1 ''F_CONV'' ''BASE * 3'' ''CONV'' [''BASE''],
      computeFormula 2 ''F_OUT'' ''COST_RM_TOTAL + CONV'' ''COST_STAGE_OUT'' [''COST_RM_TOTAL'', ''CONV'']]"

definition exampleRoute :: "rat graph" where
  "exampleRoute = \<lparr>gr_Head = Some \<lparr>hd_HeadID = 9, hd_ProductSysID = 1, hd_RMRatioMode = []\<rparr>,
     gr_Seqs = [Some \<lparr>sq_ProductSysID = 1, sq_RouteLevel = 1,
       sq_Rms = [Some (exampleRm RmTypeProduct 7 [] (3/4)),
                 Some ((exampleRm RmTypeItem 0 [] (1/4))\<lparr>rm_RmItemCode := ''IT''\<rparr>)],
       sq_RMRatioMode = []\<rparr>]\<rparr>"

definition exampleInput :: "rat compute_input" where
  "exampleInput = \<lparr>ci_ProductSysID = 1, ci_CalcType = CalcTypeActual, ci_Route = Some exampleRoute,
     ci_CAPP = [''BASE'' \<mapsto> 2], ci_Formulas = exampleFormulas,
     ci_RMCosts = [''IT|'' \<mapsto> \<lparr>rr_CostVal = 8, rr_CrRate = 0, rr_SrRate = 0, rr_PrRate = 0, rr_ClRate = 0,
       rr_SlRate = 0, rr_FlRate = 0, rr_SpRate = 0, rr_PpRate = 0, rr_FpRate = 0\<rparr>],
     ci_UpstreamCosts = [7 \<mapsto> 4], ci_EvalCache = Some exampleLanguage, ci_SellingSnapshot = Map.empty,
     ci_MBCosts = Map.empty, ci_SpinFixedCost = [''SPIN_POY_PRODUCTION'' \<mapsto> 100],
     ci_CalculatedParams = [''CONV''], ci_RMRateOrder = [], ci_RMLandedOrder = Map.empty, ci_Oil = None,
     ci_Superba = None, ci_TxWeight = Map.empty,
     ci_VBLoss = Some \<lparr>vb_ProductTypeCode = ''FDY'', vb_UpstreamTypeCodes = [7 \<mapsto> ''POY''],
       vb_UpstreamParamSnapshots = [7 \<mapsto> [''VOLUME_BUCKET_1_LOSS'' \<mapsto> 5]]\<rparr>,
     ci_RMRatioMode = [], ci_RMGroupDenier = Map.empty, ci_RMGroupUseDraft = (\<lambda>_. False),
     ci_UpstreamDenier = Map.empty, ci_RMDenierOverride = noOverrides, ci_UpstreamSnapshots = None\<rparr>"

definition isInr :: "'e + 'a \<Rightarrow> bool" where
  "isInr r = (case r of Inr _ \<Rightarrow> True | Inl _ \<Rightarrow> False)"

lemma isInrE: "isInr r \<Longrightarrow> \<exists>v. r = Inr v"
  by (cases r) (simp_all add: isInr_def)

lemma example_succeeds: "isInr (ComputeProduct exampleInput)"
  by code_simp

lemma exampleRoute_lines:
  "ownLines 1 exampleRoute = [(1, (0, 0), exampleRm RmTypeProduct 7 [] (3/4)),
     (1, (0, 1), (exampleRm RmTypeItem 0 [] (1/4))\<lparr>rm_RmItemCode := ''IT''\<rparr>)]"
  by (simp add: ownLines_def exampleRoute_def seqLines_def map_filter_def)

section \<open>The snapshot\<close>

lemma ComputeProduct_real:
  assumes "ComputeProduct inp = Inr out" "co_ParamSnapshot out k = Some v"
  shows "inputValue inp k (Num v) \<or> k = ScopeKeyCostRMTotal \<and> v = co_TotalRMCost out \<or>
    (\<exists>t \<in> set (co_FormulaTrace out). tr_ResultParamCode t = k \<and> tr_Output t = v)"
  using assms(1)
proof (cases rule: ComputeProduct_cases)
  case (1 route L w plan inherited oilNote byLevel landed w')
  let ?P = "\<lambda>k x. inputValue inp k x \<or> k = ScopeKeyCostRMTotal \<and> x = Num (co_TotalRMCost out)"
  have "realValues ?P (putReal ScopeKeyCostRMTotal (co_TotalRMCost out) w)"
    using prepareScope_real [OF 1(3)] by (intro realValues_putReal) (auto intro: realValues_mono)
  from chain_real [OF evalSingleFormulaStep_names 1(5) this]
  have "realValues (\<lambda>k x. ?P k x \<or> (\<exists>t \<in> set (co_FormulaTrace out). tr_ResultParamCode t = k \<and> Num (tr_Output t) = x)) w'" .
  moreover have "fst w' k = Some (Num v)" "k \<notin> snd w'" using assms(2) 1(7) by (simp_all add: scopeSnapshot_Some)
  ultimately show ?thesis by (auto dest: realValuesD)
qed

text \<open>(C24) A stored snapshot never holds a placeholder: every value in it was given to the product
  (its params, the spin pool of the period), was set by the engine under one of its own keys, is the
  raw material total, or is the output of a formula of the trace.\<close>

theorem snapshot_has_no_placeholder:
  assumes "ComputeProduct inp = Inr out" "co_ParamSnapshot out k = Some v"
  shows "ci_CAPP inp k = Some v \<or> ci_SpinFixedCost inp k = Some v \<or> k \<in> set engineKeys \<or>
    k = ScopeKeyCostRMTotal \<and> v = co_TotalRMCost out \<or>
    (\<exists>t \<in> set (co_FormulaTrace out). tr_ResultParamCode t = k \<and> tr_Output t = v)"
  using ComputeProduct_real [OF assms] by (auto simp: inputValue_def)

definition outputOf :: "compute_error + 'f compute_output \<Rightarrow> 'f compute_output option" where
  "outputOf r = (case r of Inr out \<Rightarrow> Some out | Inl _ \<Rightarrow> None)"

lemma outputOf_Some: "outputOf r = Some out \<longleftrightarrow> r = Inr out"
  by (cases r) (simp_all add: outputOf_def)

lemma example_output:
  "map_option co_CostPerUnit (outputOf (ComputeProduct exampleInput)) = Some 11"
  "map_option co_TotalRMCost (outputOf (ComputeProduct exampleInput)) = Some 5"
  "map_option (\<lambda>out. co_ParamSnapshot out ''CONV'') (outputOf (ComputeProduct exampleInput)) = Some (Some 6)"
  "map_option (\<lambda>out. map tr_ResultParamCode (co_FormulaTrace out)) (outputOf (ComputeProduct exampleInput)) =
     Some [''VOLUME_BUCKET_1_LOSS'', ''CONV'', ''COST_STAGE_OUT'']"
  "map_option (\<lambda>out. map lc_Level (co_CostByLevel out)) (outputOf (ComputeProduct exampleInput)) = Some [1]"
  by code_simp+

lemma example_run:
  "\<exists>out. ComputeProduct exampleInput = Inr out \<and> co_CostPerUnit out = 11 \<and> co_TotalRMCost out = 5 \<and>
     co_ParamSnapshot out ''CONV'' = Some 6 \<and>
     map tr_ResultParamCode (co_FormulaTrace out) = [''VOLUME_BUCKET_1_LOSS'', ''CONV'', ''COST_STAGE_OUT'']"
  using example_output by (auto simp: outputOf_Some)

theorem snapshot_has_no_placeholder_witness:
  "\<exists>out. ComputeProduct exampleInput = Inr out \<and>
     (\<exists>t \<in> set (co_FormulaTrace out). tr_ResultParamCode t = ''CONV'' \<and> tr_Output t = 6)"
proof -
  obtain out where out: "ComputeProduct exampleInput = Inr out" "co_ParamSnapshot out ''CONV'' = Some 6"
    using example_run by blast
  have "ci_CAPP exampleInput ''CONV'' = None" "ci_SpinFixedCost exampleInput ''CONV'' = None"
    by (simp_all add: exampleInput_def)
  moreover have "''CONV'' \<notin> set engineKeys" "''CONV'' \<noteq> ScopeKeyCostRMTotal" by code_simp+
  ultimately show ?thesis using snapshot_has_no_placeholder [OF out] out(1) by auto
qed

section \<open>Calculated params\<close>

definition consumedBy :: "formula list \<Rightarrow> string \<Rightarrow> bool" where
  "consumedBy fs code \<longleftrightarrow> (\<exists>f \<in> set fs. fm_FormulaType f \<noteq> FormulaTypeRMLookup \<and> code \<in> set (fm_InputParamCodes f))"

text \<open>A code the chain reads is in scope, as a real value or as a placeholder.\<close>

definition settled :: "string \<Rightarrow> 'f work \<Rightarrow> bool" where
  "settled k w \<longleftrightarrow> fst w k \<noteq> None"

lemma settled_prefillCode: "settled k w \<or> code = k \<Longrightarrow> settled k (prefillCode code w)"
  by (cases w) (auto simp: settled_def prefillCode_def)

lemma settled_fold_prefillCode: "settled k w \<or> k \<in> set codes \<Longrightarrow> settled k (fold prefillCode codes w)"
proof (induction codes arbitrary: w)
  case (Cons c codes)
  from Cons.prems have "settled k (prefillCode c w) \<or> k \<in> set codes" by (auto intro: settled_prefillCode)
  from Cons.IH [OF this] show ?case by simp
qed simp

lemma settled_prefillFormula:
  "settled k w \<or> (fm_FormulaType f \<noteq> FormulaTypeRMLookup \<and> k \<in> set (fm_InputParamCodes f)) \<Longrightarrow>
     settled k (prefillFormula f w)"
  by (auto simp: prefillFormula_def intro: settled_prefillCode settled_fold_prefillCode)

lemma settled_prefill: "settled k w \<or> consumedBy fs k \<Longrightarrow> settled k (fold prefillFormula fs w)"
proof (induction fs arbitrary: w)
  case (Cons f fs)
  from Cons.prems have "settled k (prefillFormula f w) \<or> consumedBy fs k"
    by (auto simp: consumedBy_def intro: settled_prefillFormula)
  from Cons.IH [OF this] show ?case by simp
qed (simp add: consumedBy_def)

lemma settled_putReal: "settled k w \<Longrightarrow> settled k (putReal c v w)"
  by (auto simp: settled_def)

lemma settled_fold: "settled k w \<Longrightarrow> (\<And>x w. settled k w \<Longrightarrow> settled k (f x w)) \<Longrightarrow> settled k (fold f xs w)"
  by (induction xs arbitrary: w) auto

lemma settled_injections:
  "settled k w \<Longrightarrow> settled k (injectSpinFixedCost pool w)"
  "settled k w \<Longrightarrow> settled k (injectMarketingResult snap w)"
  "settled k w \<Longrightarrow> settled k (injectTxWeight rules w)"
  "settled k w \<Longrightarrow> settled k (applySuperbaMBCost inp w)"
  "settled k w \<Longrightarrow> settled k (applyUpstreamTotalCapConv inp plan w)"
  "settled k w \<Longrightarrow> settled k (fst (applyInheritedVBLoss inp w))"
proof -
  assume w: "settled k w"
  obtain a b where ab: "w = (a, b)" by (cases w)
  show "settled k (injectSpinFixedCost pool w)" using w
    by (simp add: ab settled_def injectSpinFixedCost_def split: option.split)
  show "settled k (injectMarketingResult snap w)" using w
    by (simp add: ab settled_def injectMarketingResult_def)
  show "settled k (injectTxWeight rules w)" using w
    by (simp add: ab settled_def injectTxWeight_def)
  show "settled k (applySuperbaMBCost inp w)" using w
    by (cases w) (auto simp: settled_def applySuperbaMBCost_def split: option.split)
  show "settled k (applyUpstreamTotalCapConv inp plan w)" using w
    by (auto simp: applyUpstreamTotalCapConv_def Let_def intro!: settled_putReal)
  have "settled k (fold (\<lambda>(code, v). putReal code v) cvs w)" for cvs
    using w by (rule settled_fold) (auto intro!: settled_putReal)
  then show "settled k (fst (applyInheritedVBLoss inp w))" using w
    by (simp add: applyInheritedVBLoss_def Let_def split: option.split)
qed

lemma prepareScope_settled:
  assumes "prepareScope inp = Inr (w, plan, inherited, note)" "consumedBy (ci_Formulas inp) k"
  shows "settled k w"
  using assms(1)
proof (cases rule: prepareScope_cases)
  case (1 w3)
  let ?w = "applyUpstreamTotalCapConv inp plan (fst (applyInheritedVBLoss inp (buildInitialScope inp)))"
  have "settled k (buildInitialScope inp)"
    using settled_prefill [OF disjI2 [OF assms(2)]]
    unfolding buildInitialScope_def injectCalcTypeFlags_def injectProductClassFlags_def Let_def
    by (intro settled_injections settled_putReal)
  then have "settled k ?w" by (intro settled_injections)
  then have "settled k w3" using applyOilRate_work [OF 1(2)] by (elim disjE exE) (simp_all add: settled_putReal)
  then show ?thesis using 1(4) by (simp add: settled_injections)
qed

lemma rejectCalculatedParams_Inr:
  assumes "rejectCalculatedParamsWithoutFormula calculated fs zeroFilled = Inr ()" "code \<in> set calculated"
  shows "code \<in> produced fs \<or> code \<notin> zeroFilled"
proof -
  have "filter (\<lambda>code. code \<notin> produced fs \<and> code \<in> zeroFilled) calculated = []"
    using assms(1) by (auto simp: rejectCalculatedParamsWithoutFormula_def Let_def split: if_splits)
  with assms(2) show ?thesis by (auto simp: filter_empty_conv)
qed

text \<open>(C28) A calculation that succeeds read no calculated param that nothing produces: every such
  param a formula consumes has a formula that produces it, or a value of the product, of the spin
  pool or of the engine.\<close>

theorem consumed_calculated_params_are_real:
  assumes "ComputeProduct inp = Inr out" "code \<in> set (ci_CalculatedParams inp)" "consumedBy (ci_Formulas inp) code"
  shows "(\<exists>f \<in> set (ci_Formulas inp). fm_ResultParamCode f = code) \<or> ci_CAPP inp code \<noteq> None \<or>
    ci_SpinFixedCost inp code \<noteq> None \<or> code \<in> set (engineKeys @ functionKeys)"
  using assms(1)
proof (cases rule: ComputeProduct_cases)
  case (1 route L w plan inherited oilNote byLevel landed w')
  from 1(3) have "rejectCalculatedParamsWithoutFormula (ci_CalculatedParams inp) (ci_Formulas inp) (snd w) = Inr ()"
    by (rule prepareScope_cases)
  from rejectCalculatedParams_Inr [OF this assms(2)] show ?thesis
  proof
    assume "code \<in> produced (ci_Formulas inp)"
    then show ?thesis by (auto simp: produced_def)
  next
    assume "code \<notin> snd w"
    moreover obtain x where "fst w code = Some x"
      using prepareScope_settled [OF 1(3) assms(3)] by (auto simp: settled_def)
    ultimately have "inputValue inp code x" using prepareScope_real [OF 1(3)] by (simp add: realValuesD)
    then show ?thesis by (auto simp: inputValue_def split: scope_value.splits)
  qed
qed

theorem consumed_calculated_params_are_real_witness:
  "\<exists>f \<in> set exampleFormulas. fm_ResultParamCode f = ''CONV''"
proof -
  obtain out where "ComputeProduct exampleInput = Inr out" using example_run by blast
  moreover have "''CONV'' \<in> set (ci_CalculatedParams exampleInput)" by (simp add: exampleInput_def)
  moreover have "consumedBy (ci_Formulas exampleInput) ''CONV''"
    by (simp add: consumedBy_def exampleInput_def exampleFormulas_def computeFormula_def FormulaTypeRMLookup_def)
  moreover have "ci_CAPP exampleInput ''CONV'' = None" "ci_SpinFixedCost exampleInput ''CONV'' = None"
    "ci_Formulas exampleInput = exampleFormulas" by (simp_all add: exampleInput_def)
  moreover have "''CONV'' \<notin> set (engineKeys @ functionKeys)" by code_simp
  ultimately show ?thesis using consumed_calculated_params_are_real [of exampleInput _ "''CONV''"] by auto
qed

section \<open>Inherited losses\<close>

lemma fold_putReal_other:
  "c \<notin> set ks \<Longrightarrow> length vs = length ks \<Longrightarrow>
     fst (fold (\<lambda>(c, v). putReal c v) (zip ks vs) w) c = fst w c \<and>
     (c \<in> snd (fold (\<lambda>(c, v). putReal c v) (zip ks vs) w) \<longleftrightarrow> c \<in> snd w)"
proof (induction ks arbitrary: vs w)
  case (Cons k ks)
  then obtain v vs' where "vs = v # vs'" "length vs' = length ks" by (cases vs) auto
  then show ?case using Cons.IH [of vs' "putReal k v w"] Cons.prems(1) by simp
qed simp

lemma fold_putReal_nth:
  "distinct ks \<Longrightarrow> length vs = length ks \<Longrightarrow> i < length ks \<Longrightarrow>
     fst (fold (\<lambda>(c, v). putReal c v) (zip ks vs) w) (ks ! i) = Some (Num (vs ! i)) \<and>
     ks ! i \<notin> snd (fold (\<lambda>(c, v). putReal c v) (zip ks vs) w)"
proof (induction ks arbitrary: vs w i)
  case (Cons k ks)
  then obtain v vs' where vs: "vs = v # vs'" "length vs' = length ks" by (cases vs) auto
  show ?case
  proof (cases i)
    case 0
    then show ?thesis using fold_putReal_other [of k ks vs' "putReal k v w"] vs Cons.prems(1) by simp
  next
    case (Suc i')
    then show ?thesis using Cons.IH [of vs' i' "putReal k v w"] vs Cons.prems by simp
  qed
qed simp

lemma inheritedVBLossValues_length: "length (inheritedVBLossValues inp vb) = length vbLossParamCodes"
  by (simp add: inheritedVBLossValues_def Let_def)

lemma vbLossParamCodes_distinct: "distinct vbLossParamCodes"
  by code_simp

lemma vbLossParamCodes_own:
  "c \<in> set vbLossParamCodes \<Longrightarrow> c \<notin> {paramUpstreamTotalCapConv, ScopeKeyOilRate, ScopeKeySuperbaMBCost,
     ScopeKeySuperbaMBCostMissing, ScopeKeyCostRMTotal}"
  by (auto simp: vbLossParamCodes_def paramUpstreamTotalCapConv_def ScopeKeyOilRate_def ScopeKeySuperbaMBCost_def
      ScopeKeySuperbaMBCostMissing_def ScopeKeyCostRMTotal_def)

lemma applyInheritedVBLoss_value:
  assumes "i < length (snd (applyInheritedVBLoss inp w))"
  shows "snd (applyInheritedVBLoss inp w) = vbLossParamCodes \<and> (\<exists>vb. ci_VBLoss inp = Some vb \<and>
    fst (fst (applyInheritedVBLoss inp w)) (vbLossParamCodes ! i) = Some (Num (inheritedVBLossValues inp vb ! i)) \<and>
    vbLossParamCodes ! i \<notin> snd (fst (applyInheritedVBLoss inp w)))"
proof -
  obtain vb where vb: "ci_VBLoss inp = Some vb" using assms by (auto simp: applyInheritedVBLoss_def split: option.splits)
  show ?thesis
    using assms fold_putReal_nth [OF vbLossParamCodes_distinct inheritedVBLossValues_length [of inp vb], of i w]
    by (simp add: applyInheritedVBLoss_def vb Let_def split: if_splits)
qed

text \<open>The steps after the inheritance leave its params alone.\<close>

lemma prepareScope_keeps:
  assumes "prepareScope inp = Inr (w, plan, inherited, note)" "c \<in> set vbLossParamCodes"
  shows "fst w c = fst (fst (applyInheritedVBLoss inp (buildInitialScope inp))) c \<and>
    (c \<in> snd w \<longleftrightarrow> c \<in> snd (fst (applyInheritedVBLoss inp (buildInitialScope inp))))"
  using assms(1)
proof (cases rule: prepareScope_cases)
  case (1 w3)
  let ?w = "fst (applyInheritedVBLoss inp (buildInitialScope inp))"
  have own: "c \<noteq> paramUpstreamTotalCapConv" "c \<noteq> ScopeKeyOilRate" "c \<noteq> ScopeKeySuperbaMBCost" "c \<noteq> ScopeKeySuperbaMBCostMissing"
    using vbLossParamCodes_own [OF assms(2)] by simp_all
  have "fst (applyUpstreamTotalCapConv inp plan ?w) c = fst ?w c \<and>
    (c \<in> snd (applyUpstreamTotalCapConv inp plan ?w) \<longleftrightarrow> c \<in> snd ?w)"
    using own(1) by (simp add: applyUpstreamTotalCapConv_def Let_def)
  moreover have "fst w3 c = fst (applyUpstreamTotalCapConv inp plan ?w) c \<and>
    (c \<in> snd w3 \<longleftrightarrow> c \<in> snd (applyUpstreamTotalCapConv inp plan ?w))"
    using applyOilRate_work [OF 1(2)] own(2) by auto
  ultimately show ?thesis using applySuperbaMBCost_real [OF own(3,4), of inp w3] 1(4) by simp
qed

lemma inherited_in_scope:
  assumes "prepareScope inp = Inr (w, plan, inherited, note)" "i < length inherited"
  shows "inherited = vbLossParamCodes \<and> (\<exists>vb. ci_VBLoss inp = Some vb \<and>
    fst w (vbLossParamCodes ! i) = Some (Num (inheritedVBLossValues inp vb ! i)) \<and> vbLossParamCodes ! i \<notin> snd w)"
proof -
  from assms(1) have inh: "inherited = snd (applyInheritedVBLoss inp (buildInitialScope inp))"
    by (rule prepareScope_cases)
  with applyInheritedVBLoss_value [of i inp "buildInitialScope inp"] assms(2) have "inherited = vbLossParamCodes"
    "\<exists>vb. ci_VBLoss inp = Some vb \<and>
      fst (fst (applyInheritedVBLoss inp (buildInitialScope inp))) (vbLossParamCodes ! i) = Some (Num (inheritedVBLossValues inp vb ! i)) \<and>
      vbLossParamCodes ! i \<notin> snd (fst (applyInheritedVBLoss inp (buildInitialScope inp)))" by auto
  moreover have "vbLossParamCodes ! i \<in> set vbLossParamCodes" using assms(2) calculation(1) by simp
  ultimately show ?thesis using prepareScope_keeps [OF assms(1)] by simp
qed

text \<open>A stage after POY keeps the volume bucket losses of its upstream products: each bucket of
  the snapshot is the ratio-weighted average of the upstream snapshots, although the product's own
  formulas for the buckets are among the formulas evaluated after it.\<close>

theorem inherited_loss_survives_formulas:
  assumes "ComputeProduct inp = Inr out" "ci_VBLoss inp = Some vb"
    "toUpper (trimSpace (vb_ProductTypeCode vb)) \<notin> {[], ''POY'', ''MB''}" "i < length vbLossParamCodes"
  shows "co_ParamSnapshot out (vbLossParamCodes ! i) = Some (inheritedVBLossValues inp vb ! i)"
  using assms(1)
proof (cases rule: ComputeProduct_cases)
  case (1 route L w plan inherited oilNote byLevel landed w')
  have "snd (applyInheritedVBLoss inp w0) = vbLossParamCodes" for w0
    using assms(2,3) by (simp add: applyInheritedVBLoss_def Let_def)
  moreover from 1(3) have "inherited = snd (applyInheritedVBLoss inp (buildInitialScope inp))" by (rule prepareScope_cases)
  ultimately have inh: "inherited = vbLossParamCodes" by simp
  with inherited_in_scope [OF 1(3), of i] assms(2,4)
  have w: "fst w (vbLossParamCodes ! i) = Some (Num (inheritedVBLossValues inp vb ! i))" "vbLossParamCodes ! i \<notin> snd w" by simp_all
  have "vbLossParamCodes ! i \<noteq> ScopeKeyCostRMTotal" using vbLossParamCodes_own [OF nth_mem [OF assms(4)]] by simp
  with w chain_keeps [OF 1(5), of "vbLossParamCodes ! i"] inh assms(4)
  show ?thesis unfolding 1(7) scopeSnapshot_Some by simp
qed

theorem inherited_loss_survives_formulas_witness:
  "\<exists>out. ComputeProduct exampleInput = Inr out \<and> co_ParamSnapshot out ''VOLUME_BUCKET_1_LOSS'' = Some 5"
proof -
  obtain out where "ComputeProduct exampleInput = Inr out" using example_run by blast
  moreover obtain vb where vb: "ci_VBLoss exampleInput = Some vb" "vb_ProductTypeCode vb = ''FDY''"
    by (simp add: exampleInput_def)
  moreover have "toUpper (trimSpace ''FDY'') \<notin> {[], ''POY'', ''MB''}" by code_simp
  moreover have "0 < length vbLossParamCodes" "vbLossParamCodes ! 0 = ''VOLUME_BUCKET_1_LOSS''"
    by (simp_all add: vbLossParamCodes_def)
  moreover have "map_option (\<lambda>vb. inheritedVBLossValues exampleInput vb ! 0) (ci_VBLoss exampleInput) = Some 5" by code_simp
  ultimately show ?thesis using inherited_loss_survives_formulas [of exampleInput out vb 0] by auto
qed

section \<open>What a formula reads\<close>

lemma chain_split:
  assumes "evalFormulaChain step inherited (xs @ ys) w = Inr (w', ts)"
  shows "\<exists>w1 ts1 ts2. evalFormulaChain step inherited xs w = Inr (w1, ts1) \<and>
    evalFormulaChain step inherited ys w1 = Inr (w', ts2) \<and> ts = ts1 @ ts2 \<and> length ts1 = length xs"
  using assms
proof (induction xs arbitrary: w ts)
  case (Cons x xs)
  from Cons.prems have "evalFormulaChain step inherited (x # (xs @ ys)) w = Inr (w', ts)" by simp
  then show ?case
  proof (cases rule: evalFormulaChain_Cons)
    case (skipped ts')
    from Cons.IH [OF skipped(3)] obtain w1 ts1 ts2 where
      "evalFormulaChain step inherited xs w = Inr (w1, ts1)" "evalFormulaChain step inherited ys w1 = Inr (w', ts2)"
      "ts' = ts1 @ ts2" "length ts1 = length xs" by blast
    with skipped(1,2) show ?thesis
      by (intro exI [of _ w1] exI [of _ "inheritedFormulaTrace x (fst w) # ts1"] exI [of _ ts2]) simp
  next
    case (evaluated t ts')
    from Cons.IH [OF evaluated(4)] obtain w1 ts1 ts2 where
      "evalFormulaChain step inherited xs (putReal (fm_ResultParamCode x) (tr_Output t) w) = Inr (w1, ts1)"
      "evalFormulaChain step inherited ys w1 = Inr (w', ts2)" "ts' = ts1 @ ts2" "length ts1 = length xs" by blast
    with evaluated(1-3) show ?thesis
      by (intro exI [of _ w1] exI [of _ "t # ts1"] exI [of _ ts2]) simp
  qed
qed simp

text \<open>The run stopped before formula \<open>i\<close>.\<close>

lemma chain_at:
  assumes "evalFormulaChain step inherited fs w = Inr (w', ts)" "i < length fs"
  obtains w1 where "evalFormulaChain step inherited (take i fs) w = Inr (w1, take i ts)"
    "fm_ResultParamCode (fs ! i) \<in> set inherited \<Longrightarrow> ts ! i = inheritedFormulaTrace (fs ! i) (fst w1)"
    "fm_ResultParamCode (fs ! i) \<notin> set inherited \<Longrightarrow> step (fs ! i) (fst w1) = Inr (ts ! i)"
    "length ts = length fs"
proof -
  have fs: "fs = take i fs @ (fs ! i # drop (Suc i) fs)" using assms(2) by (simp add: id_take_nth_drop)
  from assms(1) have "evalFormulaChain step inherited (take i fs @ (fs ! i # drop (Suc i) fs)) w = Inr (w', ts)"
    by (subst (asm) fs)
  from chain_split [OF this] assms(2) obtain w1 ts1 ts2 where r: "evalFormulaChain step inherited (take i fs) w = Inr (w1, ts1)"
    "evalFormulaChain step inherited (fs ! i # drop (Suc i) fs) w1 = Inr (w', ts2)" "ts = ts1 @ ts2" "length ts1 = i"
    by auto
  have len: "length ts = length fs" using chain_split [of step inherited fs "[]" w w' ts] assms(1) by auto
  from r(2) show thesis
    by (cases rule: evalFormulaChain_Cons) (use r len in \<open>auto intro!: that [of w1]\<close>)
qed

definition inheritedSet :: "string list \<Rightarrow> 'f work \<Rightarrow> bool" where
  "inheritedSet inherited w \<longleftrightarrow> (\<forall>k \<in> set inherited. \<exists>v. fst w k = Some (Num v) \<and> k \<notin> snd w)"

lemma chain_value:
  assumes run: "evalFormulaChain step inherited fs w = Inr (w', ts)" and inh: "inheritedSet inherited w"
    and dist: "distinct (map fm_ResultParamCode fs)" and j: "j < length fs"
  shows "fst w' (fm_ResultParamCode (fs ! j)) = Some (Num (tr_Output (ts ! j))) \<and> fm_ResultParamCode (fs ! j) \<notin> snd w'"
proof (cases "fm_ResultParamCode (fs ! j) \<in> set inherited")
  case True
  with inh obtain v where v: "fst w (fm_ResultParamCode (fs ! j)) = Some (Num v)" "fm_ResultParamCode (fs ! j) \<notin> snd w"
    by (auto simp: inheritedSet_def)
  obtain w1 where w1: "evalFormulaChain step inherited (take j fs) w = Inr (w1, take j ts)"
    "ts ! j = inheritedFormulaTrace (fs ! j) (fst w1)" by (rule chain_at [OF run j]) (use True in auto)
  have "fst w1 (fm_ResultParamCode (fs ! j)) = Some (Num v)"
    using chain_keeps [OF w1(1)] True v(1) by auto
  then have "tr_Output (ts ! j) = v" unfolding w1(2) by (simp add: inheritedFormulaTrace_def scopeFloat_def)
  then show ?thesis using chain_keeps [OF run] True v by auto
next
  case False
  have "fm_ResultParamCode (fs ! k) \<noteq> fm_ResultParamCode (fs ! j)" if "j < k" "k < length fs" for k
    using dist that j by (auto simp: distinct_conv_nth)
  with chain_last [OF run j False] show ?thesis by blast
qed

lemma chain_reads:
  assumes run: "evalFormulaChain step inherited fs w = Inr (w', ts)" and inh: "inheritedSet inherited w"
    and dist: "distinct (map fm_ResultParamCode fs)" and ji: "j < i" "i < length fs"
    and own: "fm_ResultParamCode (fs ! i) \<notin> set inherited"
  obtains w1 :: "('f::zero) work" where "step (fs ! i) (fst w1) = Inr (ts ! i)"
    "fst w1 (fm_ResultParamCode (fs ! j)) = Some (Num (tr_Output (ts ! j)))"
proof -
  obtain w1 where w1: "evalFormulaChain step inherited (take i fs) w = Inr (w1, take i ts)"
    "step (fs ! i) (fst w1) = Inr (ts ! i)" by (rule chain_at [OF run ji(2)]) (use own in auto)
  have "distinct (map fm_ResultParamCode (take i fs))" using dist by (simp add: take_map [symmetric])
  from chain_value [OF w1(1) inh this, of j] ji show thesis by (intro that [OF w1(2)]) simp
qed

definition expressionFormula :: "formula \<Rightarrow> bool" where
  "expressionFormula f \<longleftrightarrow> fm_FormulaType f \<notin> {''SNAPSHOT'', FormulaTypeRMLookup, FormulaTypeMBCostLookup}"

lemma evalSingleFormulaStep_inputs:
  assumes "evalSingleFormulaStep L tot landed mb ct f scope = Inr t" "expressionFormula f"
  shows "tr_Inputs t = pickFormulaInputs f scope"
proof -
  from assms have "evalOneFormula L f scope = Some t"
    unfolding evalSingleFormulaStep_def expressionFormula_def by (auto split: if_splits option.splits)
  then show ?thesis by (auto simp: evalOneFormula_def traceOf_def split: option.splits prod.splits)
qed

lemma ComputeProduct_inheritedSet:
  assumes "prepareScope inp = Inr (w, plan, inherited, oilNote)"
  shows "inheritedSet inherited (putReal ScopeKeyCostRMTotal v w)"
  unfolding inheritedSet_def
proof
  fix k assume "k \<in> set inherited"
  then obtain i where i: "i < length inherited" "inherited ! i = k" by (auto simp: in_set_conv_nth)
  from inherited_in_scope [OF assms i(1)] i obtain x where "k \<in> set vbLossParamCodes" "fst w k = Some (Num x)" "k \<notin> snd w"
    by auto
  then show "\<exists>x. fst (putReal ScopeKeyCostRMTotal v w) k = Some (Num x) \<and> k \<notin> snd (putReal ScopeKeyCostRMTotal v w)"
    using vbLossParamCodes_own [of k] by simp
qed

text \<open>(C21) Formulas in evaluation order read finished values: when the formulas come from the
  topological sort and no two produce the same code, an expression that reads the result of another
  formula is evaluated on the very value that formula leaves in the stored snapshot.\<close>

theorem formulas_read_final_values:
  assumes "ComputeProduct inp = Inr out"
    and "topoSortFormulas fs = Inr (ci_Formulas inp)" "distinct (map fm_ResultParamCode fs)"
    and "i < length (ci_Formulas inp)" "j < length (ci_Formulas inp)" "i \<noteq> j"
    and "expressionFormula (ci_Formulas inp ! i)" "fm_ResultParamCode (ci_Formulas inp ! i) \<notin> set vbLossParamCodes"
    and "fm_ResultParamCode (ci_Formulas inp ! j) \<in> set (fm_InputParamCodes (ci_Formulas inp ! i))"
  shows "tr_Inputs (co_FormulaTrace out ! i) (fm_ResultParamCode (ci_Formulas inp ! j)) =
    co_ParamSnapshot out (fm_ResultParamCode (ci_Formulas inp ! j)) \<and>
    co_ParamSnapshot out (fm_ResultParamCode (ci_Formulas inp ! j)) = Some (tr_Output (co_FormulaTrace out ! j))"
  using assms(1)
proof (cases rule: ComputeProduct_cases)
  case (1 route L w plan inherited oilNote byLevel landed w')
  have "j \<le> i" using topoSort_producers_first [OF assms(2,3,4,5,9)] .
  with assms(6) have ji: "j < i" by simp
  have dist: "distinct (map fm_ResultParamCode (ci_Formulas inp))" using topoSort_results [OF assms(2,3)] .
  have inh: "inheritedSet inherited (putReal ScopeKeyCostRMTotal (co_TotalRMCost out) w)"
    using ComputeProduct_inheritedSet [OF 1(3)] .
  have "set inherited \<subseteq> set vbLossParamCodes" using inherited_in_scope [OF 1(3)] by (cases inherited) fastforce+
  with assms(8) have own: "fm_ResultParamCode (ci_Formulas inp ! i) \<notin> set inherited" by blast
  obtain w1 :: "'a work" where w1: "evalSingleFormulaStep L (co_TotalRMCost out) landed (ci_MBCosts inp) (ci_CalcType inp)
      (ci_Formulas inp ! i) (fst w1) = Inr (co_FormulaTrace out ! i)"
    "fst w1 (fm_ResultParamCode (ci_Formulas inp ! j)) = Some (Num (tr_Output (co_FormulaTrace out ! j)))"
    using chain_reads [OF 1(5) inh dist ji assms(4) own] .
  have "tr_Inputs (co_FormulaTrace out ! i) (fm_ResultParamCode (ci_Formulas inp ! j)) = Some (tr_Output (co_FormulaTrace out ! j))"
    using evalSingleFormulaStep_inputs [OF w1(1) assms(7)] assms(9) w1(2) by (simp add: pickFormulaInputs_def scopeFloat_def)
  moreover have "co_ParamSnapshot out (fm_ResultParamCode (ci_Formulas inp ! j)) = Some (tr_Output (co_FormulaTrace out ! j))"
    using chain_value [OF 1(5) inh dist assms(5)] unfolding 1(7) scopeSnapshot_Some .
  ultimately show ?thesis by simp
qed

theorem formulas_read_final_values_witness:
  "\<exists>out. ComputeProduct exampleInput = Inr out \<and>
     tr_Inputs (co_FormulaTrace out ! 2) ''CONV'' = Some (tr_Output (co_FormulaTrace out ! 1))"
proof -
  obtain out where out: "ComputeProduct exampleInput = Inr out" using example_run by blast
  have "ci_Formulas exampleInput = exampleFormulas" by (simp add: exampleInput_def)
  moreover have "topoSortFormulas exampleFormulas = Inr exampleFormulas" by code_simp
  moreover have "distinct (map fm_ResultParamCode exampleFormulas)" "expressionFormula (exampleFormulas ! 2)"
    "fm_ResultParamCode (exampleFormulas ! 2) \<notin> set vbLossParamCodes" by code_simp+
  moreover have "length exampleFormulas = 3" "fm_ResultParamCode (exampleFormulas ! 1) = ''CONV''"
    "''CONV'' \<in> set (fm_InputParamCodes (exampleFormulas ! 2))"
    by (simp_all add: exampleFormulas_def computeFormula_def)
  ultimately show ?thesis using formulas_read_final_values [OF out, of exampleFormulas 2 1] out by simp
qed

section \<open>The cost of the raw materials\<close>

text \<open>The denier lines of a plan stand for lines of the route, and know whether they are groups.\<close>

definition planOf :: "'f graph \<Rightarrow> 'f ratio_plan \<Rightarrow> bool" where
  "planOf g p \<longleftrightarrow> (\<forall>i j l. rp_lines p (i, j) = Some l \<longrightarrow> (\<exists>seq r. gr_Seqs g ! i = Some seq \<and>
     sq_Rms seq ! j = Some r \<and> dl_group l = (rm_RmType r = RmTypeGroup)))"

lemma planOf_fold: "planOf g p \<Longrightarrow> (\<And>x p. x \<in> set xs \<Longrightarrow> planOf g p \<Longrightarrow> planOf g (f x p)) \<Longrightarrow> planOf g (fold f xs p)"
  by (induction xs arbitrary: p) auto

lemma planOf_planSeqLine:
  assumes "planOf g p" "gr_Seqs g ! i = Some seq" "sq_Rms seq ! j = rm"
  shows "planOf g (planSeqLine i (j, rm, l) p)"
  using assms by (auto simp: planOf_def planSeqLine_def split: option.split)

lemma planOf_planSeq:
  assumes "planOf g p" "gr_Seqs g ! i = sq"
  shows "planOf g (planSeq inp (i, sq) p)"
proof (cases sq)
  case None
  with assms show ?thesis by (simp add: planSeq_def)
next
  case (Some seq)
  obtain lines ns where ln: "ComputeSeqRMRatios (Some seq) (ratioSourceData inp) = (lines, ns)" by fastforce
  have "planOf g (fold (planSeqLine i) (enumerate 0 (zip (sq_Rms seq) lines)) p)"
  proof (rule planOf_fold [OF assms(1)])
    fix x p' assume x: "x \<in> set (enumerate 0 (zip (sq_Rms seq) lines))" and p': "planOf g p'"
    obtain j rm l where jl: "x = (j, rm, l)" by (cases x)
    with x have "sq_Rms seq ! j = rm" by (auto simp: in_set_enumerate_eq)
    with p' show "planOf g (planSeqLine i x p')" unfolding jl using assms(2) Some by (intro planOf_planSeqLine) auto
  qed
  then have "planOf g (fold (planSeqLine i) (enumerate 0 (zip (sq_Rms seq) lines)) p\<lparr>rp_notes := ns\<rparr>)" for ns
    by (simp add: planOf_def)
  with assms(1) show ?thesis by (simp add: planSeq_def Some ln Let_def)
qed

lemma planRMRatios_planOf:
  assumes "planRMRatios inp = Some p" "ci_Route inp = Some g"
  shows "planOf g p"
proof -
  have "p = fold (planSeq inp) (enumerate 0 (gr_Seqs g)) \<lparr>rp_lines = Map.empty, rp_notes = []\<rparr>"
    using assms by (simp add: planRMRatios_def split: if_splits)
  moreover have "planOf g (fold (planSeq inp) (enumerate 0 (gr_Seqs g)) \<lparr>rp_lines = Map.empty, rp_notes = []\<rparr>)"
  proof (rule planOf_fold)
    show "planOf g \<lparr>rp_lines = Map.empty, rp_notes = []\<rparr>" by (simp add: planOf_def)
    fix x p' assume x: "x \<in> set (enumerate 0 (gr_Seqs g))" "planOf g p'"
    obtain i sq where "x = (i, sq)" by fastforce
    with x show "planOf g (planSeq inp x p')" by (auto simp: in_set_enumerate_eq intro!: planOf_planSeq)
  qed
  ultimately show ?thesis by simp
qed

lemma ownLines_at:
  assumes "(level, (i, j), rm) \<in> set (ownLines pid g)"
  shows "\<exists>seq. gr_Seqs g ! i = Some seq \<and> sq_Rms seq ! j = Some rm \<and> sq_ProductSysID seq = pid \<and> sq_RouteLevel seq = level"
proof -
  from assms obtain i' sq where i': "(i', sq) \<in> set (enumerate 0 (gr_Seqs g))"
    "(level, (i, j), rm) \<in> set (case sq of None \<Rightarrow> [] | Some seq \<Rightarrow> if sq_ProductSysID seq \<noteq> pid then [] else seqLines i' seq)"
    by (auto simp: ownLines_def)
  then obtain seq where seq: "sq = Some seq" "sq_ProductSysID seq = pid" "(level, (i, j), rm) \<in> set (seqLines i' seq)"
    by (auto split: option.splits if_splits)
  from seq(3) obtain rm' where "(j, rm') \<in> set (enumerate 0 (sq_Rms seq))" "rm' = Some rm" "i' = i" "level = sq_RouteLevel seq"
    by (auto simp: seqLines_def map_filter_def)
  with i'(1) seq(1,2) show ?thesis by (auto simp: in_set_enumerate_eq)
qed

text \<open>What a line of the detail says of its line of the route.\<close>

definition pricedLine ::
  "('f::{zero,times,ord}) compute_input \<Rightarrow> 'f ratio_plan option \<Rightarrow> int \<times> line_key \<times> 'f rm \<Rightarrow> 'f rm_cost_detail \<Rightarrow> bool" where
  "pricedLine inp plan = (\<lambda>(level, key, rm) d.
     rd_RouteLevel d = level \<and> rd_RefCode d = rmRefCode rm \<and> rd_Ratio d = effectiveRatio plan key rm \<and>
     rd_Contribution d = rd_UnitCost d * rd_Ratio d \<and>
     (rm_RmType rm = RmTypeProduct \<and> ci_UpstreamCosts inp (rm_RmProductSysID rm) = Some (rd_UnitCost d) \<or>
      rm_RmType rm = RmTypeItem \<and> map_option rr_CostVal (ci_RMCosts inp (rm_RmItemCode rm @ ''|'')) = Some (rd_UnitCost d) \<or>
      rm_RmType rm = RmTypeGroup \<and> (\<exists>rates. ci_RMCosts inp (rm_RmGroupCode rm @ ''|'') = Some rates \<and>
        rd_UnitCost d = (if rd_RatioSource d = RatioSourceDenier then rr_CostVal rates
          else fst (FirstNonZeroWithLabel (rmRateCandidates (ci_RMRateOrder inp) rates))))))"

lemma resolveRMUnitCost_Inr:
  assumes "resolveRMUnitCost inp rm = Inr u"
  shows "rm_RmType rm = RmTypeProduct \<and> ci_UpstreamCosts inp (rm_RmProductSysID rm) = Some u \<or>
    rm_RmType rm = RmTypeItem \<and> map_option rr_CostVal (ci_RMCosts inp (rm_RmItemCode rm @ ''|'')) = Some u \<or>
    rm_RmType rm = RmTypeGroup \<and> (\<exists>rates. ci_RMCosts inp (rm_RmGroupCode rm @ ''|'') = Some rates \<and>
      u = fst (FirstNonZeroWithLabel (rmRateCandidates (ci_RMRateOrder inp) rates)))"
  using assms unfolding resolveRMUnitCost_def resolveUpstreamProductCost_def resolveItemCostVal_def
  by (simp split: if_splits option.splits)

lemma lineDetail_priced:
  assumes "lineDetail inp plan resolveRMUnitCost (level, key, rm) = Inr d"
    and "\<And>p l. plan = Some p \<Longrightarrow> rp_lines p key = Some l \<Longrightarrow> dl_group l = (rm_RmType rm = RmTypeGroup)"
  shows "pricedLine inp plan (level, key, rm) d"
proof -
  from assms(1) obtain u ratio dn src dsrc where u: "lineUnitAndRatio inp plan resolveRMUnitCost key rm = Inr (u, ratio, dn, src, dsrc)"
    and d: "d = \<lparr>rd_RouteLevel = level, rd_RMType = rm_RmType rm, rd_RefCode = rmRefCode rm,
      rd_ShadeCode = rm_RouteRmShadeCode rm, rd_UnitCost = u, rd_Ratio = ratio, rd_Contribution = u * ratio,
      rd_Denier = dn, rd_RatioSource = src, rd_DenierSource = dsrc\<rparr>"
    by (auto simp: lineDetail_def tryThen_Inr)
  show ?thesis
  proof (cases "\<exists>p l. plan = Some p \<and> rp_lines p key = Some l")
    case False
    with u have "resolveRMUnitCost inp rm = Inr u" "ratio = rm_RouteRmRatio rm" "src \<noteq> RatioSourceDenier"
      "effectiveRatio plan key rm = rm_RouteRmRatio rm"
      by (auto simp: lineUnitAndRatio_def effectiveRatio_def tryThen_Inr split: option.splits)
    with resolveRMUnitCost_Inr [of inp rm u] show ?thesis by (auto simp: pricedLine_def d)
  next
    case True
    then obtain p l where pl: "plan = Some p" "rp_lines p key = Some l" by blast
    with u have r: "(if dl_group l then resolveDenierGroupCost inp rm else resolveRMUnitCost inp rm) = Inr u"
      "ratio = dl_ratio l" "src = RatioSourceDenier" "effectiveRatio plan key rm = dl_ratio l"
      by (auto simp: lineUnitAndRatio_def effectiveRatio_def tryThen_Inr)
    show ?thesis
    proof (cases "dl_group l")
      case True
      with r(1) obtain rates where "ci_RMCosts inp (rm_RmGroupCode rm @ ''|'') = Some rates" "u = rr_CostVal rates"
        by (auto simp: resolveDenierGroupCost_def split: option.splits)
      with r True assms(2) [OF pl] show ?thesis by (auto simp: pricedLine_def d)
    next
      case False
      with r(1) resolveRMUnitCost_Inr [of inp rm u] assms(2) [OF pl] r show ?thesis by (auto simp: pricedLine_def d)
    qed
  qed
qed

lemma ComputeProduct_priced:
  assumes "ComputeProduct inp = Inr out" "ci_Route inp = Some route"
  shows "co_TotalRMCost out = fold (\<lambda>d acc. acc + rd_Contribution d) (co_RMCostDetail out) 0 \<and>
    list_all2 (pricedLine inp (planRMRatios inp)) (ownLines (ci_ProductSysID inp) route) (co_RMCostDetail out)"
  using assms(1)
proof (cases rule: ComputeProduct_cases)
  case (1 route' L w plan inherited oilNote byLevel landed w')
  have route: "route' = route" using 1(1) assms(2) by simp
  have plan: "plan = planRMRatios inp" using 1(3) by (rule prepareScope_cases)
  from aggregateLines_Inr [OF 1(4) [unfolded aggregateRMCost_def]]
  have agg: "list_all2 (\<lambda>x d. lineDetail inp plan resolveRMUnitCost x = Inr d) (ownLines (ci_ProductSysID inp) route) (co_RMCostDetail out)"
    "co_TotalRMCost out = fold (\<lambda>d acc. acc + rd_Contribution d) (co_RMCostDetail out) 0"
    unfolding route by auto
  have "pricedLine inp plan x d" if x: "x \<in> set (ownLines (ci_ProductSysID inp) route)"
    and d: "lineDetail inp plan resolveRMUnitCost x = Inr d" for x d
  proof -
    obtain level i j rm where xs: "x = (level, (i, j), rm)" by (metis prod.exhaust)
    have "dl_group l = (rm_RmType rm = RmTypeGroup)" if "plan = Some p" "rp_lines p (i, j) = Some l" for p l
      using ownLines_at [OF x [unfolded xs]] planRMRatios_planOf [OF _ assms(2), of p] that plan
      by (fastforce simp: planOf_def)
    with d show ?thesis unfolding xs by (rule lineDetail_priced)
  qed
  with agg(1) have "list_all2 (pricedLine inp plan) (ownLines (ci_ProductSysID inp) route) (co_RMCostDetail out)"
    by (auto elim!: list.rel_mono_strong)
  with agg(2) plan show ?thesis by simp
qed

text \<open>(C17) The raw material cost of a stored result: it is the sum, in route order, of the
  contributions of the detail lines; there is one detail line per raw material of the product's own
  sequences; and each was priced from a row that exists, at unit cost times effective ratio. A
  material without a price therefore never enters a stored cost.\<close>

theorem material_cost_adds_up:
  assumes "ComputeProduct inp = Inr out" "ci_Route inp = Some route"
  shows "co_TotalRMCost out = fold (\<lambda>d acc. acc + rd_Contribution d) (co_RMCostDetail out) 0 \<and>
    list_all2 (pricedLine inp (planRMRatios inp)) (ownLines (ci_ProductSysID inp) route) (co_RMCostDetail out)"
  by (rule ComputeProduct_priced [OF assms])

theorem material_cost_adds_up_witness:
  "\<exists>out. ComputeProduct exampleInput = Inr out \<and> length (co_RMCostDetail out) = 2 \<and>
     fold (\<lambda>d acc. acc + rd_Contribution d) (co_RMCostDetail out) 0 = 5"
proof -
  obtain out where out: "ComputeProduct exampleInput = Inr out" "co_TotalRMCost out = 5" using example_run by blast
  have "ci_Route exampleInput = Some exampleRoute" "ci_ProductSysID exampleInput = 1" by (simp_all add: exampleInput_def)
  with material_cost_adds_up [OF out(1), of exampleRoute] out exampleRoute_lines show ?thesis
    by (auto dest: list_all2_lengthD)
qed

section \<open>The trace\<close>

lemma finiteOrZero_kind: "snd (finiteOrZero L v) \<noteq> NonFiniteNone \<Longrightarrow> fst (finiteOrZero L v) = 0"
  by (cases "classifyNonFinite L v") (simp_all add: finiteOrZero_def)

lemma finiteOrZero_finite:
  "snd (finiteOrZero L v) = NonFiniteNone \<Longrightarrow> fst (finiteOrZero L v) = v \<and> classifyNonFinite L v = NonFiniteNone"
  by (simp add: finiteOrZero_def split: non_finite_kind.splits)

text \<open>A marked output is 0; an unmarked output of an expression is a finite number.\<close>

definition honestOutput :: "('f::{zero,minus,ord}) expr_lang \<Rightarrow> formula \<Rightarrow> 'f formula_trace \<Rightarrow> bool" where
  "honestOutput L f t \<longleftrightarrow> (tr_NonFinite t \<noteq> NonFiniteNone \<longrightarrow> tr_Output t = 0) \<and>
     (expressionFormula f \<longrightarrow> tr_NonFinite t = NonFiniteNone \<longrightarrow> classifyNonFinite L (tr_Output t) = NonFiniteNone)"

lemma RunWithDiag_finiteOrZero: "RunWithDiag L ev scope = Some r \<Longrightarrow> \<exists>v. r = finiteOrZero L v"
  by (auto simp: RunWithDiag_def split: expr_value.splits)

lemma evalOneFormula_honest:
  assumes "evalOneFormula L f scope = Some t"
  shows "honestOutput L f t"
proof -
  from assms obtain ev out kind where r: "RunWithDiag L ev scope = Some (out, kind)"
    "t = traceOf f (pickFormulaInputs f scope) out kind" by (auto simp: evalOneFormula_def split: option.splits)
  from RunWithDiag_finiteOrZero [OF r(1)] obtain v where "(out, kind) = finiteOrZero L v" by blast
  then have "out = fst (finiteOrZero L v)" "kind = snd (finiteOrZero L v)" by (metis fst_conv, metis snd_conv)
  then show ?thesis using finiteOrZero_kind [of L v] finiteOrZero_finite [of L v] by (auto simp: honestOutput_def r(2))
qed

lemma evalSingleFormulaStep_honest:
  assumes "evalSingleFormulaStep L tot landed mb ct f scope = Inr t"
  shows "honestOutput L f t"
proof (cases "expressionFormula f")
  case True
  with assms have "evalOneFormula L f scope = Some t"
    unfolding evalSingleFormulaStep_def expressionFormula_def by (auto split: if_splits option.splits)
  then show ?thesis by (rule evalOneFormula_honest)
next
  case False
  with assms have "tr_NonFinite t = NonFiniteNone"
    unfolding evalSingleFormulaStep_def expressionFormula_def evalSnapshotFormula_def
    by (auto split: if_splits option.splits)
  with False show ?thesis by (simp add: honestOutput_def)
qed

text \<open>The trace of a stored result has one entry per formula, in evaluation order and under the
  formula's own code and result param. A result that was not a number or not finite is recorded as
  0 with its kind beside it; every expression without such a mark left a finite number.\<close>

theorem trace_follows_formulas:
  assumes "ComputeProduct inp = Inr out" "ci_EvalCache inp = Some L"
  shows "map tr_FormulaCode (co_FormulaTrace out) = map fm_FormulaCode (ci_Formulas inp) \<and>
    map tr_ResultParamCode (co_FormulaTrace out) = map fm_ResultParamCode (ci_Formulas inp) \<and>
    (\<forall>i < length (ci_Formulas inp). fm_ResultParamCode (ci_Formulas inp ! i) \<notin> set vbLossParamCodes \<longrightarrow>
       honestOutput L (ci_Formulas inp ! i) (co_FormulaTrace out ! i))"
  using assms(1)
proof (cases rule: ComputeProduct_cases)
  case (1 route L' w plan inherited oilNote byLevel landed w')
  have L: "L' = L" using 1(2) assms(2) by simp
  have "set inherited \<subseteq> set vbLossParamCodes" using inherited_in_scope [OF 1(3)] by (cases inherited) fastforce+
  then have "honestOutput L (ci_Formulas inp ! i) (co_FormulaTrace out ! i)"
    if "i < length (ci_Formulas inp)" "fm_ResultParamCode (ci_Formulas inp ! i) \<notin> set vbLossParamCodes" for i
    using chain_at [OF 1(5) that(1)] that(2) evalSingleFormulaStep_honest L by (metis subsetD)
  with chain_names [OF evalSingleFormulaStep_names 1(5)] show ?thesis by blast
qed

theorem trace_follows_formulas_witness:
  "\<exists>out. ComputeProduct exampleInput = Inr out \<and> map tr_FormulaCode (co_FormulaTrace out) = [''F_VB'', ''F_CONV'', ''F_OUT'']"
proof -
  obtain out where out: "ComputeProduct exampleInput = Inr out" using example_run by blast
  have "ci_EvalCache exampleInput = Some exampleLanguage"
    "map fm_FormulaCode (ci_Formulas exampleInput) = [''F_VB'', ''F_CONV'', ''F_OUT'']"
    by (simp_all add: exampleInput_def exampleFormulas_def computeFormula_def)
  with trace_follows_formulas [OF out] out show ?thesis by auto
qed

section \<open>Cost by level\<close>

lemma addLevel_keys:
  "map fst (addLevel l c m) = (if l \<in> fst ` set m then map fst m else map fst m @ [l])"
  by (induction l c m rule: addLevel.induct) auto

lemma fold_addLevel_keys:
  "distinct (map fst m) \<Longrightarrow>
     distinct (map fst (fold (\<lambda>d. addLevel (f d) (g d)) ds m)) \<and>
     fst ` set (fold (\<lambda>d. addLevel (f d) (g d)) ds m) = fst ` set m \<union> f ` set ds"
proof (induction ds arbitrary: m)
  case (Cons d ds)
  have "distinct (map fst (addLevel (f d) (g d) m))" "fst ` set (addLevel (f d) (g d) m) = insert (f d) (fst ` set m)"
    using Cons.prems addLevel_keys [of "f d" "g d" m] by (auto simp: image_set simp del: set_map list.set_map split: if_splits)
  with Cons.IH [of "addLevel (f d) (g d) m"] show ?case by auto
qed simp

definition levelsSeen :: "'f level_contribution list \<times> int set \<Rightarrow> bool" where
  "levelsSeen s \<longleftrightarrow> distinct (map lc_Level (fst s)) \<and> snd s = lc_Level ` set (fst s)"

lemma upstreamLevel_seen:
  assumes "levelsSeen s"
  shows "levelsSeen (upstreamLevel fg up sq s) \<and> snd (upstreamLevel fg up sq s) =
    snd s \<union> (case sq of None \<Rightarrow> {} | Some seq \<Rightarrow> if sq_ProductSysID seq = fg then {} else {sq_RouteLevel seq})"
  using assms by (cases s) (auto simp: levelsSeen_def upstreamLevel_def split: option.split)

lemma fold_upstreamLevel:
  "levelsSeen s \<Longrightarrow> levelsSeen (fold (upstreamLevel fg up) sqs s) \<and>
     snd (fold (upstreamLevel fg up) sqs s) =
       snd s \<union> {sq_RouteLevel seq |seq. Some seq \<in> set sqs \<and> sq_ProductSysID seq \<noteq> fg}"
proof (induction sqs arbitrary: s)
  case (Cons sq sqs)
  from Cons.IH [of "upstreamLevel fg up sq s"] upstreamLevel_seen [OF Cons.prems, of fg up sq]
  show ?case by (cases sq) auto
qed simp

lemma buildCostByLevel_levels:
  assumes "distinct (map fst byLevel)"
  shows "sorted_wrt (<) (map lc_Level (buildCostByLevel byLevel conv (Some route) fg up)) \<and>
    lc_Level ` set (buildCostByLevel byLevel conv (Some route) fg up) =
      fst ` set byLevel \<union> {sq_RouteLevel seq |seq. Some seq \<in> set (gr_Seqs route) \<and> sq_ProductSysID seq \<noteq> fg}"
proof -
  define own where "own = map (\<lambda>(l, c). \<lparr>lc_ProductSysID = fg, lc_Level = l, lc_RMCost = c, lc_Conversion = conv\<rparr>) byLevel"
  define r where "r = fold (upstreamLevel fg up) (gr_Seqs route) (own, fst ` set byLevel)"
  have levels: "map lc_Level own = map fst byLevel" by (auto simp: own_def)
  then have "lc_Level ` set own = fst ` set byLevel" by (metis list.set_map)
  with levels assms have "levelsSeen (own, fst ` set byLevel)" by (simp add: levelsSeen_def)
  from fold_upstreamLevel [OF this, of fg up "gr_Seqs route"]
  have r: "distinct (map lc_Level (fst r))" "lc_Level ` set (fst r) = fst ` set byLevel \<union>
      {sq_RouteLevel seq |seq. Some seq \<in> set (gr_Seqs route) \<and> sq_ProductSysID seq \<noteq> fg}"
    unfolding levelsSeen_def r_def [symmetric] snd_conv by (blast, metis)
  have b: "buildCostByLevel byLevel conv (Some route) fg up = sort_key lc_Level (fst r)"
    by (simp add: buildCostByLevel_def r_def own_def)
  have "distinct (map lc_Level (sort_key lc_Level (fst r)))"
    using r(1) by (simp add: distinct_map)
  then have "sorted_wrt (<) (map lc_Level (sort_key lc_Level (fst r)))"
    using sorted_sort_key [of lc_Level "fst r"] by (simp add: strict_sorted_iff)
  with r(2) b show ?thesis by simp
qed

text \<open>The breakdown by level has one entry per level, in ascending order: the levels at which the
  product's own sequences have raw materials, and the levels of the other sequences of its route.\<close>

theorem cost_by_level_levels:
  assumes "ComputeProduct inp = Inr out" "ci_Route inp = Some route"
  shows "sorted_wrt (<) (map lc_Level (co_CostByLevel out)) \<and>
    lc_Level ` set (co_CostByLevel out) = rd_RouteLevel ` set (co_RMCostDetail out) \<union>
      {sq_RouteLevel seq |seq. Some seq \<in> set (gr_Seqs route) \<and> sq_ProductSysID seq \<noteq> ci_ProductSysID inp}"
  using assms(1)
proof (cases rule: ComputeProduct_cases)
  case (1 route' L w plan inherited oilNote byLevel landed w')
  have route: "route' = route" using 1(1) assms(2) by simp
  from aggregateLines_Inr [OF 1(4) [unfolded aggregateRMCost_def]]
  have "byLevel = fold (\<lambda>d. addLevel (rd_RouteLevel d) (rd_Contribution d)) (co_RMCostDetail out) []" by auto
  with fold_addLevel_keys [of "[]" rd_RouteLevel rd_Contribution "co_RMCostDetail out"]
  have "distinct (map fst byLevel)" "fst ` set byLevel = rd_RouteLevel ` set (co_RMCostDetail out)" by simp_all
  with buildCostByLevel_levels [of byLevel "co_TotalConversion out" route "ci_ProductSysID inp" "ci_UpstreamCosts inp"] 1(10) route
  show ?thesis by simp
qed

theorem cost_by_level_levels_witness:
  "\<exists>out. ComputeProduct exampleInput = Inr out \<and> sorted_wrt (<) (map lc_Level (co_CostByLevel out))"
  using example_run cost_by_level_levels [of exampleInput _ exampleRoute] by (auto simp: exampleInput_def)

section \<open>A final cost that is a placeholder\<close>

text \<open>A formula that reads the final cost, in a set where no formula produces it.\<close>

definition exampleReadsFinal :: "rat compute_input" where
  "exampleReadsFinal = exampleInput\<lparr>ci_Formulas :=
     [computeFormula 0 ''F_CONV'' ''BASE * 3'' ''CONV'' [''BASE'', ''COST_STAGE_OUT'']]\<rparr>"

theorem final_cost_from_placeholder:
  "\<exists>out. ComputeProduct exampleReadsFinal = Inr out \<and> co_CostPerUnit out = 0 \<and>
     co_TotalRMCost out = 5 \<and> co_ParamSnapshot out ''COST_STAGE_OUT'' = None"
proof -
  have "map_option (\<lambda>out. (co_CostPerUnit out, co_TotalRMCost out, co_ParamSnapshot out ''COST_STAGE_OUT''))
      (outputOf (ComputeProduct exampleReadsFinal)) = Some (0, 5, None)" by code_simp
  then show ?thesis by (auto simp: outputOf_Some)
qed

section \<open>The cache of compiled expressions\<close>

definition cacheOK :: "'f expr_lang \<Rightarrow> eval_cache \<Rightarrow> bool" where
  "cacheOK L c \<longleftrightarrow> (\<forall>key ev. c key = Some ev \<longrightarrow>
     (\<exists>code e. CHR ''|'' \<notin> set code \<and> key = cacheKey code e \<and> Compile L code e = Some ev))"

lemma cacheKey_inj: "CHR ''|'' \<notin> set a \<Longrightarrow> CHR ''|'' \<notin> set b \<Longrightarrow> cacheKey a e = cacheKey b f \<longleftrightarrow> a = b \<and> e = f"
  unfolding cacheKey_def by (auto simp: append_eq_append_conv2 Cons_eq_append_conv append_eq_Cons_conv)

lemma GetOrCompile_transparent:
  assumes "cacheOK L c" "CHR ''|'' \<notin> set code" "GetOrCompile L code e c = (r, c')"
  shows "r = Compile L code e \<and> cacheOK L c'"
proof (cases "c (cacheKey code e)")
  case (Some ev)
  then obtain code' e' where ce: "CHR ''|'' \<notin> set code'" "cacheKey code e = cacheKey code' e'" "Compile L code' e' = Some ev"
    using assms(1) unfolding cacheOK_def by metis
  then have "code' = code \<and> e' = e" using cacheKey_inj [OF assms(2), of code'] by simp
  with ce Some assms show ?thesis by (simp add: GetOrCompile_def)
next
  case None
  then have g: "GetOrCompile L code e c = (case Compile L code e of None \<Rightarrow> (None, c) | Some ev \<Rightarrow> (Some ev, c(cacheKey code e \<mapsto> ev)))"
    by (simp add: GetOrCompile_def)
  show ?thesis
  proof (cases "Compile L code e")
    case (Some ev)
    then have "cacheOK L (c(cacheKey code e \<mapsto> ev))" using assms(1,2) unfolding cacheOK_def by (metis fun_upd_apply option.inject)
    with Some g assms(3) show ?thesis by simp
  qed (use g assms in simp)
qed

end
