(* ===== verification/LedgerFacts.thy ===== *)
theory LedgerFacts
  imports CostLedger
begin

text \<open>
  What the table of cost results keeps through every sequence of its transactions: one active row per
  product, period and calculation type, the versions in a row, rows that are never rewritten, and the
  freeze of a locked period. At the end, the insertion that races with another one.
\<close>

section \<open>The invariant\<close>

definition keyRows :: "row_key \<Rightarrow> 'f ledger \<Rightarrow> 'f result list" where
  "keyRows key lg = filter (\<lambda>r. rowKey r = key) (lg_rows lg)"

text \<open>The rows of a key, oldest first: numbered from 1, and only the last one active.\<close>

definition keyOK :: "'f result list \<Rightarrow> bool" where
  "keyOK rs \<longleftrightarrow> map re_version rs = map (\<lambda>i. intToInt32 (int i + 1)) [0..<length rs] \<and>
     (\<forall>r \<in> set (butlast rs). re_status r = ResultStatusSuperseded) \<and>
     (rs \<noteq> [] \<longrightarrow> re_status (last rs) \<noteq> ResultStatusSuperseded)"

definition ledgerOK :: "'f ledger \<Rightarrow> bool" where
  "ledgerOK lg \<longleftrightarrow> distinct (map re_id (lg_rows lg)) \<and> (\<forall>r \<in> set (lg_rows lg). re_id r < lg_nextID lg) \<and>
     (\<forall>key. keyOK (keyRows key lg))"

lemma rowKey_updates [simp]:
  "rowKey (r\<lparr>re_status := st\<rparr>) = rowKey r"
  "rowKey (r\<lparr>re_id := i, re_version := v\<rparr>) = rowKey r"
  by (simp_all add: rowKey_def)

lemma filter_map_same: "(\<And>x. P (f x) = P x) \<Longrightarrow> filter P (map f xs) = map f (filter P xs)"
  by (induction xs) simp_all

lemma ledgerOK_empty: "ledgerOK emptyLedger"
  by (simp add: ledgerOK_def emptyLedger_def keyRows_def keyOK_def)

lemma ledgerOK_key: "ledgerOK lg \<Longrightarrow> keyOK (keyRows key lg)"
  unfolding ledgerOK_def by blast

lemma ledgerOK_ids: "ledgerOK lg \<Longrightarrow> distinct (map re_id (lg_rows lg)) \<and> (\<forall>r \<in> set (lg_rows lg). re_id r < lg_nextID lg)"
  unfolding ledgerOK_def by blast

lemma ledgerOK_cong:
  "lg_rows lg' = lg_rows lg \<Longrightarrow> lg_nextID lg' = lg_nextID lg \<Longrightarrow> ledgerOK lg' = ledgerOK lg"
  by (simp add: ledgerOK_def keyRows_def)

text \<open>A change of rows that keeps what identifies them.\<close>

definition keepsRow :: "('f result \<Rightarrow> 'f result) \<Rightarrow> 'f result \<Rightarrow> bool" where
  "keepsRow f r \<longleftrightarrow> re_id (f r) = re_id r \<and> rowKey (f r) = rowKey r \<and> re_version (f r) = re_version r"

lemma keyRows_map:
  assumes "\<forall>r \<in> set (lg_rows lg). keepsRow f r"
  shows "keyRows key (lg\<lparr>lg_rows := map f (lg_rows lg)\<rparr>) = map f (keyRows key lg)"
  using assms unfolding keyRows_def by (simp add: filter_map comp_def keepsRow_def cong: filter_cong)

lemma ledgerOK_map:
  assumes "ledgerOK lg" "\<forall>r \<in> set (lg_rows lg). keepsRow f r \<and>
    (re_status (f r) = ResultStatusSuperseded \<longleftrightarrow> re_status r = ResultStatusSuperseded)"
  shows "ledgerOK (lg\<lparr>lg_rows := map f (lg_rows lg)\<rparr>)"
proof -
  have ids: "map re_id (map f (lg_rows lg)) = map re_id (lg_rows lg)"
    using assms(2) by (auto simp: keepsRow_def)
  have "keyOK (map f (keyRows key lg))" for key
  proof -
    have ok: "keyOK (keyRows key lg)" by (rule ledgerOK_key [OF assms(1)])
    have sub: "set (keyRows key lg) \<subseteq> set (lg_rows lg)" by (auto simp: keyRows_def)
    have versions: "map re_version (map f (keyRows key lg)) = map re_version (keyRows key lg)"
      using assms(2) sub by (auto simp: keepsRow_def)
    have "\<forall>r \<in> set (butlast (map f (keyRows key lg))). re_status r = ResultStatusSuperseded"
      using ok assms(2) sub by (auto simp: keyOK_def map_butlast [symmetric] dest: in_set_butlastD)
    moreover have "keyRows key lg \<noteq> [] \<longrightarrow> re_status (last (map f (keyRows key lg))) \<noteq> ResultStatusSuperseded"
      using ok assms(2) sub by (auto simp: keyOK_def last_map subset_iff)
    ultimately show ?thesis using ok unfolding keyOK_def versions by simp
  qed
  moreover have "keyRows key (lg\<lparr>lg_rows := map f (lg_rows lg)\<rparr>) = map f (keyRows key lg)" for key
    using assms(2) by (intro keyRows_map) blast
  moreover have "\<forall>r \<in> set (map f (lg_rows lg)). re_id r < lg_nextID lg"
    using assms by (auto simp: ledgerOK_def keepsRow_def)
  moreover have "distinct (map re_id (map f (lg_rows lg)))" unfolding ids using ledgerOK_ids [OF assms(1)] by blast
  ultimately show ?thesis by (simp add: ledgerOK_def)
qed

section \<open>Storing a result\<close>

lemma activeRows:
  assumes "ledgerOK lg"
  shows "filter (isActive key) (lg_rows lg) = (if keyRows key lg = [] then [] else [last (keyRows key lg)])"
proof -
  have eq: "filter (isActive key) (lg_rows lg) = filter (\<lambda>r. re_status r \<noteq> ResultStatusSuperseded) (keyRows key lg)"
    unfolding keyRows_def filter_filter by (rule filter_cong) (auto simp: isActive_def)
  have ok: "keyOK (keyRows key lg)" by (rule ledgerOK_key [OF assms])
  show ?thesis
  proof (cases "keyRows key lg" rule: rev_cases)
    case (snoc rs r)
    with ok show ?thesis unfolding eq by (auto simp: keyOK_def filter_empty_conv)
  qed (simp add: eq)
qed

lemma intToInt32_step: "0 \<le> n \<Longrightarrow> intToInt32 (intToInt32 n + 1) = intToInt32 (n + 1)"
  by (simp add: intToInt32_def)

lemma keyOK_snoc:
  assumes "keyOK rs" "re_version r = intToInt32 (int (length rs) + 1)" "re_status r \<noteq> ResultStatusSuperseded"
  shows "keyOK (map (\<lambda>r. r\<lparr>re_status := ResultStatusSuperseded\<rparr>) rs @ [r])"
  using assms by (simp add: keyOK_def comp_def)

text \<open>A storing transaction alone: the outcome, with the rows it leaves.\<close>

lemma tryUpsert_alone:
  assumes ok: "ledgerOK lg" and unlocked: "\<not> keyLocked (rowKey r) lg"
  defines "rs \<equiv> keyRows (rowKey r) lg"
  shows "tryUpsert id r lg =
    (Inr (lg_nextID lg, if rs = [] then 0 else re_version (last rs), if rs = [] then 0 else re_totalCost (last rs),
          if rs = [] then 0 else re_id (last rs)),
     lg\<lparr>lg_rows := map (\<lambda>x. if rowKey x = rowKey r then x\<lparr>re_status := ResultStatusSuperseded\<rparr> else x) (lg_rows lg) @
          [r\<lparr>re_id := lg_nextID lg, re_version := intToInt32 (int (length rs) + 1)\<rparr>],
        lg_nextID := lg_nextID lg + 1\<rparr>)"
proof -
  let ?key = "rowKey r"
  let ?f = "\<lambda>x. if rowKey x = ?key then x\<lparr>re_status := ResultStatusSuperseded\<rparr> else x"
  have okk: "keyOK rs" unfolding rs_def by (rule ledgerOK_key [OF ok])
  have act: "filter (isActive ?key) (lg_rows lg) = (if rs = [] then [] else [last rs])"
    unfolding rs_def by (rule activeRows [OF ok])
  have sub: "set rs \<subseteq> set (lg_rows lg)" and keyed: "x \<in> set rs \<longleftrightarrow> x \<in> set (lg_rows lg) \<and> rowKey x = ?key" for x
    by (auto simp: rs_def keyRows_def)
  have inj: "x = y" if "x \<in> set (lg_rows lg)" "y \<in> set (lg_rows lg)" "re_id x = re_id y" for x y
    using ok that by (auto simp: ledgerOK_def distinct_map inj_on_def)
  define ids where "ids = (if rs = [] then [] else [re_id (last rs)])"
  have mark: "(if re_id x \<in> set ids then x\<lparr>re_status := ResultStatusSuperseded\<rparr> else x) = ?f x"
    if x: "x \<in> set (lg_rows lg)" for x
  proof (cases "rowKey x = ?key")
    case True
    with x have xr: "x \<in> set rs" by (simp add: keyed)
    then have ne: "rs \<noteq> []" by auto
    show ?thesis
    proof (cases "x = last rs")
      case False
      with xr ne have "x \<in> set (butlast rs)" by (metis append_butlast_last_id rotate1.simps(2) set_rotate1 set_ConsD)
      with okk have "re_status x = ResultStatusSuperseded" by (simp add: keyOK_def)
      then have "x\<lparr>re_status := ResultStatusSuperseded\<rparr> = x" by simp
      then show ?thesis by simp
    next
      case eq: True
      from True show ?thesis unfolding eq by (simp add: ids_def ne)
    qed
  next
    case False
    have "re_id x \<notin> set ids"
    proof
      assume "re_id x \<in> set ids"
      then have ne: "rs \<noteq> []" and eq: "re_id x = re_id (last rs)" by (auto simp: ids_def split: if_splits)
      from ne have "last rs \<in> set rs" by simp
      with eq x sub have "x = last rs" by (auto intro: inj)
      with \<open>last rs \<in> set rs\<close> False show False by (simp add: keyed)
    qed
    with False show ?thesis by simp
  qed
  then have marked: "markSuperseded ids lg = lg\<lparr>lg_rows := map ?f (lg_rows lg)\<rparr>"
    by (simp add: markSuperseded_def cong: map_cong)
  have none: "\<not> list_ex (isActive ?key) (map ?f (lg_rows lg))"
    by (auto simp: list_ex_iff isActive_def rowKey_def)
  have sup: "supersedePrevious ?key lg = Inr ((if rs = [] then 0 else re_version (last rs),
      if rs = [] then 0 else re_totalCost (last rs), if rs = [] then 0 else re_id (last rs)), ids)"
    using unlocked by (simp add: supersedePrevious_def act ids_def)
  have "intToInt32 ((if rs = [] then 0 else re_version (last rs)) + 1) = intToInt32 (int (length rs) + 1)"
  proof (cases rs rule: rev_cases)
    case (snoc rs' x)
    then have "re_version x = intToInt32 (int (length rs') + 1)" using okk by (simp add: keyOK_def)
    with snoc show ?thesis by (simp add: intToInt32_step)
  qed simp
  then show ?thesis
    using none by (simp add: tryUpsert_def sup marked insertNewResult_def)
qed

lemma tryUpsert_locked: "keyLocked (rowKey r) lg \<Longrightarrow> tryUpsert others r lg = (Inl PeriodIsLocked, lg)"
  by (simp add: tryUpsert_def supersedePrevious_def)

lemma tryUpsert_OK:
  assumes ok: "ledgerOK lg" and new: "re_status r = ResultStatusCalculated"
  shows "ledgerOK (snd (tryUpsert id r lg))"
proof (cases "keyLocked (rowKey r) lg")
  case True
  with ok show ?thesis by (simp add: tryUpsert_locked)
next
  case False
  let ?key = "rowKey r"
  let ?f = "\<lambda>x. if rowKey x = ?key then x\<lparr>re_status := ResultStatusSuperseded\<rparr> else x"
  let ?new = "r\<lparr>re_id := lg_nextID lg, re_version := intToInt32 (int (length (keyRows ?key lg)) + 1)\<rparr>"
  let ?lg = "lg\<lparr>lg_rows := map ?f (lg_rows lg) @ [?new], lg_nextID := lg_nextID lg + 1\<rparr>"
  have snd: "snd (tryUpsert id r lg) = ?lg" by (simp add: tryUpsert_alone [OF ok False])
  have "re_id (?f x) = re_id x" for x :: "'a result" by simp
  then have ids: "map re_id (map ?f (lg_rows lg)) = map re_id (lg_rows lg)" by simp
  have old: "set (map re_id (lg_rows lg)) = re_id ` set (lg_rows lg)" by simp
  have "lg_nextID lg \<notin> re_id ` set (lg_rows lg)" using ledgerOK_ids [OF ok] by auto
  then have "distinct (map re_id (map ?f (lg_rows lg)) @ [lg_nextID lg])"
    unfolding ids distinct_append old using ledgerOK_ids [OF ok] by simp
  then have "distinct (map re_id (lg_rows ?lg))" by simp
  moreover have "\<forall>x \<in> set (lg_rows ?lg). re_id x < lg_nextID ?lg"
  proof
    fix x assume "x \<in> set (lg_rows ?lg)"
    then have "x \<in> ?f ` set (lg_rows lg) \<or> x = ?new" by auto
    then have "re_id x \<in> re_id ` set (lg_rows lg) \<or> re_id x = lg_nextID lg" by fastforce
    with ledgerOK_ids [OF ok] show "re_id x < lg_nextID ?lg" by auto
  qed
  moreover have "keyOK (keyRows key ?lg)" for key
  proof (cases "key = ?key")
    case True
    have "filter (\<lambda>x. rowKey x = ?key) (map ?f (lg_rows lg)) = map ?f (keyRows ?key lg)"
      unfolding keyRows_def by (rule filter_map_same) simp
    also have "\<dots> = map (\<lambda>x. x\<lparr>re_status := ResultStatusSuperseded\<rparr>) (keyRows ?key lg)"
      by (rule map_cong) (simp_all add: keyRows_def)
    finally have "keyRows ?key ?lg = map (\<lambda>x. x\<lparr>re_status := ResultStatusSuperseded\<rparr>) (keyRows ?key lg) @ [?new]"
      unfolding keyRows_def [of _ ?lg] by simp
    moreover have "keyOK (keyRows ?key lg)" by (rule ledgerOK_key [OF ok])
    ultimately show ?thesis using True new by (simp add: keyOK_snoc)
  next
    case False
    have "filter (\<lambda>x. rowKey x = key) (map ?f (lg_rows lg)) = map ?f (keyRows key lg)"
      unfolding keyRows_def by (rule filter_map_same) simp
    also have "\<dots> = keyRows key lg"
      by (rule map_idI) (use False in \<open>auto simp: keyRows_def\<close>)
    finally have "keyRows key ?lg = keyRows key lg" using False unfolding keyRows_def [of _ ?lg] by auto
    with ledgerOK_key [OF ok] show ?thesis by simp
  qed
  ultimately show ?thesis unfolding snd ledgerOK_def by blast
qed

section \<open>The other transactions\<close>

lemma transitionStatus_map:
  "\<exists>f. snd (transitionStatus costID st change lg) = lg\<lparr>lg_rows := map f (lg_rows lg)\<rparr> \<and>
     (\<forall>r. f r = r \<or> re_id r = costID \<and> re_status r = st \<and> f r = change r)"
proof (cases "list_ex (\<lambda>r. re_id r = costID \<and> re_status r = st) (lg_rows lg)")
  case True
  then show ?thesis
    by (intro exI [of _ "\<lambda>r. if re_id r = costID \<and> re_status r = st then change r else r"]) (auto simp: transitionStatus_def)
next
  case False
  then show ?thesis by (intro exI [of _ "\<lambda>r. r"]) (simp add: transitionStatus_def)
qed

lemma transitionStatus_OK:
  assumes "ledgerOK lg" "st \<noteq> ResultStatusSuperseded"
    "\<And>r. keepsRow change r \<and> re_status (change r) \<noteq> ResultStatusSuperseded"
  shows "ledgerOK (snd (transitionStatus costID st change lg))"
proof -
  obtain f where f: "snd (transitionStatus costID st change lg) = lg\<lparr>lg_rows := map f (lg_rows lg)\<rparr>"
    and alt: "\<And>r. f r = r \<or> re_id r = costID \<and> re_status r = st \<and> f r = change r"
    using transitionStatus_map by blast
  have "keepsRow f r \<and> (re_status (f r) = ResultStatusSuperseded \<longleftrightarrow> re_status r = ResultStatusSuperseded)" for r
    using alt [of r] assms(2) assms(3) [of r] by (auto simp: keepsRow_def)
  then show ?thesis unfolding f by (intro ledgerOK_map assms(1)) blast
qed

lemma keepsRow_verified: "keepsRow (verified actor now) r \<and> re_status (verified actor now r) \<noteq> ResultStatusSuperseded"
  by (simp add: keepsRow_def verified_def rowKey_def)

lemma keepsRow_approved: "keepsRow (approved actor now) r \<and> re_status (approved actor now r) \<noteq> ResultStatusSuperseded"
  by (simp add: keepsRow_def approved_def rowKey_def)

lemma marked_OK:
  "ledgerOK lg \<Longrightarrow> ledgerOK (snd (transitionStatus costID ResultStatusCalculated (verified actor now) lg))"
  "ledgerOK lg \<Longrightarrow> ledgerOK (snd (transitionStatus costID ResultStatusVerified (approved actor now) lg))"
  "ledgerOK lg \<Longrightarrow> ledgerOK (snd (transitionStatus costID ResultStatusCalculated (approved actor now) lg))"
  by (erule transitionStatus_OK, simp, rule keepsRow_verified keepsRow_approved)+

text \<open>What the manual handlers do to the table: nothing, or one guarded transition.\<close>

lemma MarkVerified_cases:
  "snd (MarkVerified costID actor now lg) = lg \<or>
   guardCostRowPeriodLock costID lg = Inr () \<and>
   snd (MarkVerified costID actor now lg) = snd (transitionStatus costID ResultStatusCalculated (verified actor now) lg)"
  by (cases "guardCostRowPeriodLock costID lg") (simp_all add: MarkVerified_def)

lemma MarkApproved_cases:
  "snd (MarkApproved costID actor now lg) = lg \<or>
   guardCostRowPeriodLock costID lg = Inr () \<and>
   snd (MarkApproved costID actor now lg) = snd (transitionStatus costID ResultStatusVerified (approved actor now) lg)"
  by (cases "guardCostRowPeriodLock costID lg") (simp_all add: MarkApproved_def)

lemma manualTransition_cases:
  "snd (manualTransition mbGuard wired earlier costID actor transition lg) = lg \<or>
   snd (manualTransition mbGuard wired earlier costID actor transition lg) = snd (transition lg)"
  by (cases "rejectMBCostRow mbGuard costID"; cases "rejectLockedCostRow wired earlier costID")
    (simp_all add: manualTransition_def)

section \<open>Laws of the transactions\<close>

text \<open>
  A reflexive and transitive relation that every push of one master batch and type has: the batch, with
  its savepoint per head and its lock check, then has it too. \<open>P\<close> says which periods may be pushed.
\<close>

locale push_law =
  fixes R :: "('f::zero) ledger \<Rightarrow> 'f ledger \<Rightarrow> bool"
    and P :: "string \<Rightarrow> bool"
  assumes R_refl: "R lg lg"
    and R_trans: "R a b \<Longrightarrow> R b c \<Longrightarrow> R a c"
    and R_push: "P period \<Longrightarrow> R lg (snd (pushOneType h period actor now t lg))"
begin

lemma types_rel:
  assumes "P period" shows "R lg (snd (pushTypes c period actor now ts lg))"
proof (induction ts arbitrary: lg)
  case (Cons t ts)
  show ?case
  proof (cases "pushOneType c period actor now t lg")
    case (Pair res lg')
    then have "R lg lg'" using R_push [OF assms, of lg c actor now t] by simp
    with Pair Cons.IH [of lg'] show ?thesis by (cases res) (auto intro: R_trans)
  qed
qed (simp add: R_refl)

lemma head_rel:
  assumes "P period" shows "R lg (snd (pushHead byID period actor now mbhID (result, lg)))"
proof (cases "byID mbhID")
  case (Some c)
  have types: "R lg (snd (pushOneMBInner c period actor now lg))"
    unfolding pushOneMBInner_def by (rule types_rel [OF assms])
  have "R lg (snd (pushOneMB c period actor now lg))"
  proof (cases "pushOneMBInner c period actor now lg")
    case (Pair res lg')
    with types R_refl show ?thesis by (cases res) (simp_all add: pushOneMB_def)
  qed
  then show ?thesis
    by (cases "pushOneMB c period actor now lg"; cases "fst (pushOneMB c period actor now lg)")
      (simp_all add: pushHead_def Some)
qed (simp add: pushHead_def R_refl)

lemma heads_rel:
  assumes "P period" shows "R lg (snd (fold (pushHead byID period actor now) mbhIDs (result, lg)))"
proof (induction mbhIDs arbitrary: result lg)
  case (Cons m ms)
  obtain result' lg' where step: "pushHead byID period actor now m (result, lg) = (result', lg')"
    by (cases "pushHead byID period actor now m (result, lg)")
  with head_rel [OF assms, of lg byID actor now m result] have "R lg lg'" by simp
  with Cons.IH [of lg' result'] step show ?case by (auto intro: R_trans)
qed (simp add: R_refl)

lemma batch_rel:
  assumes "\<not> IsPeriodLockedRow (lg_tables lg) period CalcTypeActual \<Longrightarrow> P period"
  shows "R lg (snd (ExecutePush True earlier candidates mbhIDs period actor now lg))"
proof -
  have "R lg (snd (executeBatch True byID mbhIDs period actor now lg))" for byID
  proof (cases "IsPeriodLockedRow (lg_tables lg) period CalcTypeActual")
    case True
    then show ?thesis by (simp add: executeBatch_def checkLockInTx_def R_refl)
  next
    case False
    from heads_rel [OF assms [OF this]]
    have *: "R lg (snd (fold (pushHead byID period actor now) mbhIDs (\<lparr>px_MBCount = 0, px_RowCount = 0, px_Errors = []\<rparr>, lg)))" .
    have "R lg (snd (let (result, lg') = p in if px_MBCount result = 0 then (Inr result, lg')
        else if period = [] then (Inl PushLogPeriodRequired, lg) else (Inr result, lg')))"
      if "R lg (snd p)" for p
      using that R_refl by (cases p) simp
    with * False show ?thesis unfolding executeBatch_def checkLockInTx_def by simp
  qed
  then show ?thesis
    by (cases "CheckPeriodUnlocked True earlier period CalcTypeActual") (simp_all add: ExecutePush_def R_refl)
qed

end

text \<open>
  With a law for the insertion of a version, for each guarded transition and for the lock tables, every
  transaction has the relation, from states where \<open>C\<close> holds.
\<close>

locale ledger_law = push_law R P for R :: "('f::zero) ledger \<Rightarrow> 'f ledger \<Rightarrow> bool" and P :: "string \<Rightarrow> bool" +
  fixes C :: "'f ledger \<Rightarrow> bool"
  assumes R_upsert: "C lg \<Longrightarrow> re_status r = ResultStatusCalculated \<Longrightarrow> R lg (snd (tryUpsert id r lg))"
    and R_verify: "C lg \<Longrightarrow> guardCostRowPeriodLock costID lg = Inr () \<Longrightarrow>
      R lg (snd (transitionStatus costID ResultStatusCalculated (verified actor now) lg))"
    and R_approve: "C lg \<Longrightarrow> guardCostRowPeriodLock costID lg = Inr () \<Longrightarrow>
      R lg (snd (transitionStatus costID ResultStatusVerified (approved actor now) lg))"
    and R_tables: "R lg (lg\<lparr>lg_tables := lt\<rparr>)"
    and C_unlocked: "C lg \<Longrightarrow> \<not> IsPeriodLockedRow (lg_tables lg) period CalcTypeActual \<Longrightarrow> P period"
begin

lemma one_step:
  assumes "ledger_step lg lg'" "C lg" shows "R lg lg'"
  using assms
proof (induction rule: ledger_step.induct)
  case (Verify lg mbGuard wired earlier costID actor now)
  then show ?case
    unfolding VerifyCostHandle_def
    using manualTransition_cases [of mbGuard wired earlier costID actor "MarkVerified costID actor now" lg]
      MarkVerified_cases [of costID actor now lg] by (metis R_refl R_verify)
next
  case (Approve lg mbGuard wired earlier costID actor now)
  then show ?case
    unfolding ApproveCostHandle_def
    using manualTransition_cases [of mbGuard wired earlier costID actor "MarkApproved costID actor now" lg]
      MarkApproved_cases [of costID actor now lg] by (metis R_refl R_approve)
qed (simp_all add: R_upsert R_tables batch_rel C_unlocked)

lemma all_steps: "(\<lambda>a b. ledger_step a b \<and> C a)\<^sup>*\<^sup>* lg lg' \<Longrightarrow> R lg lg'"
  by (induction rule: rtranclp_induct) (auto intro: R_refl R_trans one_step)

end

text \<open>What one push does: nothing, or it publishes the cost of the active row and approves the row.\<close>

lemma pushOneType_cases:
  "snd (pushOneType c period actor now t lg) = lg \<or>
   (\<exists>r. GetActiveCalculatedTx (mh_CostProductID c, period, t) lg = Some r \<and>
      snd (pushOneType c period actor now t lg) =
        snd (transitionStatus (re_id r) ResultStatusCalculated (approved actor now)
          (upsertMBCost (mh_MBHID c) period t (re_costPerUnit r) (re_id r) lg)))"
proof (cases "GetActiveCalculatedTx (mh_CostProductID c, period, t) lg")
  case (Some r)
  obtain res lg' where "transitionStatus (re_id r) ResultStatusCalculated (approved actor now)
      (upsertMBCost (mh_MBHID c) period t (re_costPerUnit r) (re_id r) lg) = (res, lg')"
    by (cases "transitionStatus (re_id r) ResultStatusCalculated (approved actor now)
      (upsertMBCost (mh_MBHID c) period t (re_costPerUnit r) (re_id r) lg)") blast
  with Some show ?thesis
    by (cases res) (simp_all add: pushOneType_def MarkApprovedFromCalculatedTx_def)
qed (simp add: pushOneType_def)

lemma GetActiveCalculatedTx_Some:
  assumes "GetActiveCalculatedTx key lg = Some r"
  shows "r \<in> set (lg_rows lg) \<and> rowKey r = key \<and> re_status r = ResultStatusCalculated"
proof (cases "find (isActive key) (lg_rows lg)")
  case None
  with assms show ?thesis by (simp add: GetActiveCalculatedTx_def GetActive_def)
next
  case (Some r')
  with assms have "r' = r" "re_status r = ResultStatusCalculated"
    by (auto simp: GetActiveCalculatedTx_def GetActive_def split: if_splits)
  with Some show ?thesis by (auto simp: find_Some_iff isActive_def)
qed

lemma pushOneType_OK:
  assumes ok: "ledgerOK lg" shows "ledgerOK (snd (pushOneType c period actor now t lg))"
proof -
  from ok have published: "ledgerOK (upsertMBCost h p t v i lg)" for h p t v i
    by (subst ledgerOK_cong [of _ lg]) (simp_all add: upsertMBCost_def)
  with ok pushOneType_cases [of c period actor now t lg] show ?thesis
    using marked_OK(3) [OF published] by metis
qed

interpretation wellFormed: ledger_law "\<lambda>lg lg'. ledgerOK lg \<longrightarrow> ledgerOK lg'" "\<lambda>_. True" "\<lambda>_. True"
proof unfold_locales
  fix lg :: "'a ledger" and lt
  show "ledgerOK lg \<longrightarrow> ledgerOK (lg\<lparr>lg_tables := lt\<rparr>)" by (subst (2) ledgerOK_cong [of _ lg]) simp_all
qed (auto intro: pushOneType_OK tryUpsert_OK marked_OK)

lemma ledger_step_OK: "ledger_step lg lg' \<Longrightarrow> ledgerOK lg \<Longrightarrow> ledgerOK lg'"
  using wellFormed.one_step by blast

lemma ledger_steps_OK: "ledger_step\<^sup>*\<^sup>* lg lg' \<Longrightarrow> ledgerOK lg \<Longrightarrow> ledgerOK lg'"
  using wellFormed.all_steps [of lg lg'] by simp

text \<open>What the invariant says of the statements that read the table.\<close>

lemma GetActive_last:
  assumes "ledgerOK lg"
  shows "GetActive key lg = (if keyRows key lg = [] then Inl CostNotFound else Inr (last (keyRows key lg)))"
proof -
  have "find P xs = (case filter P xs of [] \<Rightarrow> None | x # _ \<Rightarrow> Some x)" for P and xs :: "'a result list"
    by (induction xs) simp_all
  then show ?thesis
    using activeRows [OF assms, of key] by (simp add: GetActive_def)
qed

section \<open>Rows are never rewritten\<close>

text \<open>What a row may still change: its status, upwards, and who verified or approved it.\<close>

definition statusRank :: "result_status \<Rightarrow> nat" where
  "statusRank s = (case s of ResultStatusCalculated \<Rightarrow> 0 | ResultStatusVerified \<Rightarrow> 1 | ResultStatusApproved \<Rightarrow> 2
     | ResultStatusSuperseded \<Rightarrow> 3)"

definition figuresOf :: "'f result \<Rightarrow> 'f result" where
  "figuresOf r = r\<lparr>re_status := ResultStatusCalculated, re_verifiedAt := None, re_verifiedBy := [],
     re_approvedAt := None, re_approvedBy := []\<rparr>"

definition evolves :: "'f result \<Rightarrow> 'f result \<Rightarrow> bool" where
  "evolves r r' \<longleftrightarrow> figuresOf r' = figuresOf r \<and> statusRank (re_status r) \<le> statusRank (re_status r')"

definition extendsRows :: "'f result list \<Rightarrow> 'f result list \<Rightarrow> bool" where
  "extendsRows rs rs' \<longleftrightarrow> length rs \<le> length rs' \<and> (\<forall>i < length rs. evolves (rs ! i) (rs' ! i))"

lemma evolves_refl [simp]: "evolves r r"
  by (simp add: evolves_def)

lemma evolves_trans: "evolves a b \<Longrightarrow> evolves b c \<Longrightarrow> evolves a c"
  by (auto simp: evolves_def)

lemma evolves_superseded [simp]: "evolves r (r\<lparr>re_status := ResultStatusSuperseded\<rparr>)"
  by (simp add: evolves_def figuresOf_def statusRank_def split: result_status.split)

lemma evolves_verified: "re_status r = ResultStatusCalculated \<Longrightarrow> evolves r (verified actor now r)"
  by (simp add: evolves_def figuresOf_def statusRank_def verified_def)

lemma evolves_approved:
  "re_status r = ResultStatusCalculated \<or> re_status r = ResultStatusVerified \<Longrightarrow> evolves r (approved actor now r)"
  by (auto simp: evolves_def figuresOf_def statusRank_def approved_def)

lemma extendsRows_refl [simp]: "extendsRows rs rs"
  by (simp add: extendsRows_def)

lemma extendsRows_trans: "extendsRows as bs \<Longrightarrow> extendsRows bs cs \<Longrightarrow> extendsRows as cs"
  unfolding extendsRows_def by (meson evolves_trans le_trans less_le_trans)

lemma extendsRows_map: "\<forall>r \<in> set rs. evolves r (f r) \<Longrightarrow> extendsRows rs (map f rs @ extra)"
  by (auto simp: extendsRows_def nth_append)

lemma transitionStatus_extends:
  fixes lg :: "'f ledger"
  assumes "\<And>r :: 'f result. re_status r = st \<Longrightarrow> evolves r (change r)"
  shows "extendsRows (lg_rows lg) (lg_rows (snd (transitionStatus costID st change lg)))"
proof -
  obtain f where f: "snd (transitionStatus costID st change lg) = lg\<lparr>lg_rows := map f (lg_rows lg)\<rparr>"
    and alt: "\<And>r. f r = r \<or> re_id r = costID \<and> re_status r = st \<and> f r = change r"
    using transitionStatus_map by blast
  have "evolves r (f r)" for r using alt [of r] assms [of r] by auto
  then show ?thesis using extendsRows_map [of "lg_rows lg" f "[]"] by (simp add: f)
qed

lemma verified_extends:
  "extendsRows (lg_rows lg) (lg_rows (snd (transitionStatus costID ResultStatusCalculated (verified actor now) lg)))"
  by (rule transitionStatus_extends) (rule evolves_verified)

lemma approved_extends:
  "st = ResultStatusCalculated \<or> st = ResultStatusVerified \<Longrightarrow>
   extendsRows (lg_rows lg) (lg_rows (snd (transitionStatus costID st (approved actor now) lg)))"
  by (rule transitionStatus_extends) (simp add: evolves_approved)

lemma tryUpsert_extends: "extendsRows (lg_rows lg) (lg_rows (snd (tryUpsert id r lg)))"
proof (cases "supersedePrevious (rowKey r) lg")
  case (Inr res)
  obtain pv pt pid ids where res: "res = ((pv, pt, pid), ids)" by (metis prod.exhaust)
  have marked: "extendsRows (lg_rows lg) (lg_rows (markSuperseded ids lg) @ extra)" for extra
    unfolding markSuperseded_def by (simp add: extendsRows_map)
  show ?thesis
    using marked by (simp add: tryUpsert_def Inr res insertNewResult_def)
qed (simp add: tryUpsert_def)

lemma pushOneType_extends: "extendsRows (lg_rows lg) (lg_rows (snd (pushOneType c period actor now t lg)))"
proof -
  have "lg_rows (upsertMBCost h p t v i lg) = lg_rows lg" for h p t v i by (simp add: upsertMBCost_def)
  then show ?thesis
    using pushOneType_cases [of c period actor now t lg] approved_extends [of ResultStatusCalculated]
    by (metis extendsRows_refl)
qed

interpretation appendOnly: ledger_law "\<lambda>lg lg'. extendsRows (lg_rows lg) (lg_rows lg')" "\<lambda>_. True" "\<lambda>_. True"
  by unfold_locales
    (auto intro: extendsRows_trans pushOneType_extends tryUpsert_extends verified_extends approved_extends)

lemma ledger_step_extends: "ledger_step lg lg' \<Longrightarrow> extendsRows (lg_rows lg) (lg_rows lg')"
  by (rule appendOnly.one_step) simp_all

text \<open>(C6) The table of cost results keeps one active row per product, period and calculation type,
  through every sequence of storing, verifying, approving, pushing, locking and unlocking: its rows
  are numbered 1, 2, 3, ... (up to the 32-bit bound of the column), all but the last are superseded,
  and the last one is what reading the active row returns. Row ids are never used twice.\<close>

theorem ledger_rows_well_formed:
  assumes "ledger_step\<^sup>*\<^sup>* emptyLedger lg"
  shows "map re_version (keyRows key lg) = map (\<lambda>i. intToInt32 (int i + 1)) [0..<length (keyRows key lg)] \<and>
    filter (isActive key) (lg_rows lg) = (if keyRows key lg = [] then [] else [last (keyRows key lg)]) \<and>
    GetActive key lg = (if keyRows key lg = [] then Inl CostNotFound else Inr (last (keyRows key lg))) \<and>
    distinct (map re_id (lg_rows lg))"
proof -
  have ok: "ledgerOK lg" using ledger_steps_OK [OF assms ledgerOK_empty] .
  show ?thesis
    using ledgerOK_key [OF ok, of key] activeRows [OF ok, of key] GetActive_last [OF ok, of key] ledgerOK_ids [OF ok]
    unfolding keyOK_def by blast
qed

text \<open>(C22) The stored figures are never rewritten: along every sequence of transactions the table only
  grows, and a row that is there keeps its id, version, key, costs, details, snapshot and trace; only
  its status advances (calculated, verified, approved, superseded) with who verified or approved it.\<close>

theorem ledger_is_append_only:
  assumes "ledger_step\<^sup>*\<^sup>* lg lg'" "i < length (lg_rows lg)"
  shows "i < length (lg_rows lg') \<and> figuresOf (lg_rows lg' ! i) = figuresOf (lg_rows lg ! i) \<and>
    statusRank (re_status (lg_rows lg ! i)) \<le> statusRank (re_status (lg_rows lg' ! i))"
proof -
  from assms(1) have "extendsRows (lg_rows lg) (lg_rows lg')" using appendOnly.all_steps [of lg lg'] by simp
  with assms(2) show ?thesis by (simp add: extendsRows_def evolves_def)
qed

section \<open>A locked period\<close>

definition actualRows :: "string \<Rightarrow> 'f ledger \<Rightarrow> 'f result list" where
  "actualRows period lg = filter (\<lambda>r. re_period r = period \<and> re_calcType r = CalcTypeActual) (lg_rows lg)"

definition samePeriod :: "string \<Rightarrow> 'f ledger \<Rightarrow> 'f ledger \<Rightarrow> bool" where
  "samePeriod period lg lg' \<longleftrightarrow> actualRows period lg' = actualRows period lg \<and>
     (\<forall>h t. lg_mbCost lg' (h, period, t) = lg_mbCost lg (h, period, t))"

lemma samePeriod_refl [simp]: "samePeriod period lg lg"
  by (simp add: samePeriod_def)

lemma samePeriod_trans: "samePeriod p a b \<Longrightarrow> samePeriod p b c \<Longrightarrow> samePeriod p a c"
  by (simp add: samePeriod_def)

lemma samePeriod_same [simp]:
  "lg_rows lg' = lg_rows lg \<Longrightarrow> lg_mbCost lg' = lg_mbCost lg \<Longrightarrow> samePeriod p lg lg'"
  by (simp add: samePeriod_def actualRows_def)

lemma actualRows_map:
  assumes "\<forall>r \<in> set (lg_rows lg). f r = r \<or>
    (rowKey (f r) = rowKey r \<and> \<not> (re_period r = period \<and> re_calcType r = CalcTypeActual))"
  shows "actualRows period (lg\<lparr>lg_rows := map f (lg_rows lg)\<rparr>) = actualRows period lg"
proof -
  have "filter (\<lambda>r. re_period r = period \<and> re_calcType r = CalcTypeActual) (map f rs) =
      filter (\<lambda>r. re_period r = period \<and> re_calcType r = CalcTypeActual) rs"
    if "\<forall>r \<in> set rs. f r = r \<or> (rowKey (f r) = rowKey r \<and> \<not> (re_period r = period \<and> re_calcType r = CalcTypeActual))" for rs
    using that
  proof (induction rs)
    case (Cons r rs)
    then show ?case by (cases "f r = r") (simp_all add: rowKey_def)
  qed simp
  then show ?thesis using assms by (simp add: actualRows_def)
qed

text \<open>A transition of a row that is not an actual row of the period.\<close>

lemma transitionStatus_samePeriod:
  assumes ok: "ledgerOK lg" and r: "r \<in> set (lg_rows lg)" "re_id r = costID"
    and other: "\<not> (re_period r = period \<and> re_calcType r = CalcTypeActual)"
    and keeps: "\<And>r. keepsRow change r"
  shows "samePeriod period lg (snd (transitionStatus costID st change lg))"
proof -
  obtain f where f: "snd (transitionStatus costID st change lg) = lg\<lparr>lg_rows := map f (lg_rows lg)\<rparr>"
    and alt: "\<And>r. f r = r \<or> re_id r = costID \<and> re_status r = st \<and> f r = change r"
    using transitionStatus_map by blast
  have "f x = x \<or> (rowKey (f x) = rowKey x \<and> \<not> (re_period x = period \<and> re_calcType x = CalcTypeActual))"
    if x: "x \<in> set (lg_rows lg)" for x
  proof (cases "f x = x")
    case False
    with alt [of x] have "re_id x = re_id r" "f x = change x" using r by auto
    moreover from this x r ledgerOK_ids [OF ok] have "x = r" by (auto simp: distinct_map inj_on_def)
    ultimately show ?thesis using keeps [of x] other by (simp add: keepsRow_def)
  qed simp
  then show ?thesis unfolding f samePeriod_def by (simp add: actualRows_map)
qed

lemma transitionStatus_absent:
  assumes "GetResultByID costID lg = Inl e"
  shows "snd (transitionStatus costID st change lg) = lg"
proof -
  have "re_id r \<noteq> costID" if "r \<in> set (lg_rows lg)" for r
    using assms that by (auto simp: GetResultByID_def find_None_iff split: option.splits)
  then show ?thesis by (auto simp: transitionStatus_def list_ex_iff)
qed

lemma guarded_samePeriod:
  assumes ok: "ledgerOK lg" and locked: "IsPeriodLockedRow (lg_tables lg) period CalcTypeActual"
    and guard: "guardCostRowPeriodLock costID lg = Inr ()" and keeps: "\<And>r. keepsRow change r"
  shows "samePeriod period lg (snd (transitionStatus costID st change lg))"
proof (cases "GetResultByID costID lg")
  case (Inl e)
  then show ?thesis by (simp add: transitionStatus_absent)
next
  case (Inr r)
  then have r: "r \<in> set (lg_rows lg)" "re_id r = costID" by (auto simp: GetResultByID_def find_Some_iff split: option.splits)
  have "\<not> (re_period r = period \<and> re_calcType r = CalcTypeActual)"
    using guard locked by (auto simp: guardCostRowPeriodLock_def Inr keyLocked_def rowKey_def split: if_splits)
  then show ?thesis by (rule transitionStatus_samePeriod [OF ok r _ keeps])
qed

lemma tryUpsert_samePeriod:
  assumes ok: "ledgerOK lg" and locked: "IsPeriodLockedRow (lg_tables lg) period CalcTypeActual"
  shows "samePeriod period lg (snd (tryUpsert id r lg))"
proof (cases "keyLocked (rowKey r) lg")
  case False
  let ?f = "\<lambda>x. if rowKey x = rowKey r then x\<lparr>re_status := ResultStatusSuperseded\<rparr> else x"
  have other: "\<not> (re_period r = period \<and> re_calcType r = CalcTypeActual)"
    using False locked by (auto simp: keyLocked_def rowKey_def)
  have "actualRows period (lg\<lparr>lg_rows := map ?f (lg_rows lg)\<rparr>) = actualRows period lg"
    using other by (intro actualRows_map) (auto simp: rowKey_def)
  then have "actualRows period (snd (tryUpsert id r lg)) = actualRows period lg"
    using other unfolding tryUpsert_alone [OF ok False] actualRows_def by auto
  then show ?thesis unfolding samePeriod_def by (simp add: tryUpsert_alone [OF ok False])
qed (simp add: tryUpsert_locked)

lemma pushOneType_samePeriod:
  assumes ok: "ledgerOK lg" and other: "pushed \<noteq> period"
  shows "samePeriod period lg (snd (pushOneType c pushed actor now t lg)) \<and> ledgerOK (snd (pushOneType c pushed actor now t lg))"
proof -
  have alt: "samePeriod period lg (snd (transitionStatus (re_id r) ResultStatusCalculated (approved actor now) lg1)) \<and>
      ledgerOK (snd (transitionStatus (re_id r) ResultStatusCalculated (approved actor now) lg1))"
    if r: "GetActiveCalculatedTx (mh_CostProductID c, pushed, t) lg = Some r"
      and lg1: "lg1 = upsertMBCost (mh_MBHID c) pushed t (re_costPerUnit r) (re_id r) lg" for r lg1
  proof -
    have rows: "lg_rows lg1 = lg_rows lg" "lg_nextID lg1 = lg_nextID lg" by (simp_all add: lg1 upsertMBCost_def)
    then have ok1: "ledgerOK lg1" using ok by (subst ledgerOK_cong [of _ lg])
    have "r \<in> set (lg_rows lg1)" "re_period r = pushed"
      using GetActiveCalculatedTx_Some [OF r] by (auto simp: rows rowKey_def)
    with other have "samePeriod period lg1 (snd (transitionStatus (re_id r) ResultStatusCalculated (approved actor now) lg1))"
      using keepsRow_approved by (intro transitionStatus_samePeriod [OF ok1, of r]) auto
    moreover have "samePeriod period lg lg1" using other by (simp add: samePeriod_def actualRows_def rows) (simp add: lg1 upsertMBCost_def)
    moreover have "ledgerOK (snd (transitionStatus (re_id r) ResultStatusCalculated (approved actor now) lg1))"
      using ok1 by (rule marked_OK)
    ultimately show ?thesis using samePeriod_trans by blast
  qed
  then show ?thesis using pushOneType_cases [of c pushed actor now t lg] ok by force
qed

interpretation frozen: ledger_law "\<lambda>lg lg'. ledgerOK lg \<longrightarrow> samePeriod period lg lg' \<and> ledgerOK lg'"
    "\<lambda>pushed. pushed \<noteq> period" "\<lambda>lg. IsPeriodLockedRow (lg_tables lg) period CalcTypeActual"
  for period
proof unfold_locales
  fix lg :: "'a ledger" and lt
  have "ledgerOK (lg\<lparr>lg_tables := lt\<rparr>) = ledgerOK lg" by (rule ledgerOK_cong) simp_all
  then show "ledgerOK lg \<longrightarrow> samePeriod period lg (lg\<lparr>lg_tables := lt\<rparr>) \<and> ledgerOK (lg\<lparr>lg_tables := lt\<rparr>)" by simp
qed (auto intro: samePeriod_trans pushOneType_samePeriod [THEN conjunct1] pushOneType_OK tryUpsert_samePeriod tryUpsert_OK
    guarded_samePeriod marked_OK keepsRow_verified [THEN conjunct1] keepsRow_approved [THEN conjunct1])

text \<open>(C12) A frozen period stays as it is: along every sequence of transactions during which the period
  is locked for ACTUAL, its ACTUAL rows are unchanged (none added, superseded, verified or approved)
  and so are the master batch costs pushed for the period, of every type.\<close>

theorem locked_period_is_frozen:
  assumes "ledger_step\<^sup>*\<^sup>* emptyLedger lg"
    "(\<lambda>a b. ledger_step a b \<and> IsPeriodLockedRow (lg_tables a) period CalcTypeActual)\<^sup>*\<^sup>* lg lg'"
  shows "filter (\<lambda>r. re_period r = period \<and> re_calcType r = CalcTypeActual) (lg_rows lg') =
      filter (\<lambda>r. re_period r = period \<and> re_calcType r = CalcTypeActual) (lg_rows lg) \<and>
    (\<forall>h t. lg_mbCost lg' (h, period, t) = lg_mbCost lg (h, period, t))"
proof -
  have "ledgerOK lg" using ledger_steps_OK [OF assms(1) ledgerOK_empty] .
  with frozen.all_steps [OF assms(2)] have "samePeriod period lg lg'" by blast
  then show ?thesis by (simp add: samePeriod_def actualRows_def)
qed

section \<open>Racing and refining\<close>

text \<open>
  What other transactions may commit between our two statements: they keep the table well formed, they
  cannot lock the period (we share its lock row), and they wait for the rows we have updated.
\<close>

definition mayInterleave :: "'f result \<Rightarrow> 'f ledger \<Rightarrow> 'f ledger \<Rightarrow> bool" where
  "mayInterleave r lg lg' \<longleftrightarrow> ledgerOK lg' \<and> \<not> keyLocked (rowKey r) lg' \<and>
     (filter (isActive (rowKey r)) (lg_rows lg) = [] \<or>
      filter (isActive (rowKey r)) (lg_rows lg') = filter (isActive (rowKey r)) (lg_rows lg))"

lemma tryUpsert_Inr:
  assumes "ledgerOK lg" "\<not> keyLocked (rowKey r) lg"
  shows "\<exists>u. fst (tryUpsert id r lg) = Inr u"
  by (simp add: tryUpsert_alone [OF assms])

lemma tryUpsert_race:
  assumes ok: "ledgerOK lg" and unlocked: "\<not> keyLocked (rowKey r) lg" and others: "mayInterleave r lg (others lg)"
  shows "tryUpsert others r lg = (Inl UniqueViolation, others lg) \<or> tryUpsert others r lg = tryUpsert id r (others lg)"
proof -
  let ?key = "rowKey r"
  from others have ok': "ledgerOK (others lg)" and unlocked': "\<not> keyLocked ?key (others lg)"
    and rows: "filter (isActive ?key) (lg_rows lg) = [] \<or>
      filter (isActive ?key) (lg_rows (others lg)) = filter (isActive ?key) (lg_rows lg)"
    by (simp_all add: mayInterleave_def)
  show ?thesis
  proof (cases "filter (isActive ?key) (lg_rows (others lg)) = filter (isActive ?key) (lg_rows lg)")
    case True
    then have "supersedePrevious ?key (others lg) = supersedePrevious ?key lg"
      using unlocked unlocked' by (simp add: supersedePrevious_def)
    moreover have "\<exists>res. supersedePrevious ?key lg = Inr res"
      using unlocked by (simp add: supersedePrevious_def split: list.split)
    ultimately have "tryUpsert others r lg = tryUpsert id r (others lg)"
      unfolding tryUpsert_def id_apply by auto
    then show ?thesis by blast
  next
    case False
    with rows have none: "filter (isActive ?key) (lg_rows lg) = []"
      and some: "filter (isActive ?key) (lg_rows (others lg)) \<noteq> []" by auto
    from some have "list_ex (isActive ?key) (lg_rows (others lg))" by (auto simp: filter_empty_conv list_ex_iff)
    moreover have "markSuperseded [] (others lg) = others lg" by (simp add: markSuperseded_def)
    ultimately show ?thesis
      using none unlocked by (simp add: tryUpsert_def supersedePrevious_def insertNewResult_def)
  qed
qed

text \<open>(C29) Two workers that store the same product, period and type at the same time serialise: whatever
  the other one commits in the middle of our first attempt, storing (with its retry on a violated
  unique index) ends as if the other one had come first and we had stored alone after it.\<close>

theorem racing_upsert_serializes:
  assumes "ledger_step\<^sup>*\<^sup>* emptyLedger lg" "\<not> keyLocked (rowKey r) lg" "mayInterleave r lg (others lg)"
  shows "UpsertWithSupersede (\<lambda>n. if n = 2 then others else id) r lg = tryUpsert id r (others lg) \<and>
    (\<exists>u. fst (tryUpsert id r (others lg)) = Inr u)"
proof -
  have ok: "ledgerOK lg" using ledger_steps_OK [OF assms(1) ledgerOK_empty] .
  from assms(3) have "ledgerOK (others lg)" "\<not> keyLocked (rowKey r) (others lg)" by (simp_all add: mayInterleave_def)
  then obtain u where u: "fst (tryUpsert id r (others lg)) = Inr u" using tryUpsert_Inr by blast
  then obtain lg' where alone: "tryUpsert id r (others lg) = (Inr u, lg')" by (cases "tryUpsert id r (others lg)") simp
  have three: "(3::nat) = Suc (Suc (Suc 0))" by simp
  let ?os = "\<lambda>n. if n = 2 then others else id"
  have last: "upsertLoop (Suc (Suc 0)) ?os r (others lg) = tryUpsert id r (others lg)"
    unfolding upsertLoop.simps(2) [of "Suc 0"] using alone by (cases u) simp
  have "upsertLoop (Suc (Suc (Suc 0))) ?os r lg = tryUpsert id r (others lg)"
  proof (cases "tryUpsert others r lg = (Inl UniqueViolation, others lg)")
    case True
    then show ?thesis unfolding upsertLoop.simps(2) [of "Suc (Suc 0)"] using last by simp
  next
    case False
    with tryUpsert_race [of lg r others, OF ok assms(2,3)] have "tryUpsert others r lg = (Inr u, lg')" by (simp add: alone)
    then show ?thesis unfolding upsertLoop.simps(2) [of "Suc (Suc 0)"] alone by (cases u) simp
  qed
  then have "UpsertWithSupersede ?os r lg = tryUpsert id r (others lg)"
    unfolding UpsertWithSupersede_def upsertMaxRetries_def three .
  with u show ?thesis by blast
qed

text \<open>(C35) The statements refine the aggregate: on an unlocked row, verifying and approving in the table
  fail exactly when the aggregate's transition fails, and otherwise replace that one row by the
  aggregate's result and touch nothing else.\<close>

theorem stored_transitions_follow_the_aggregate:
  assumes "ledger_step\<^sup>*\<^sup>* emptyLedger lg" "GetResultByID costID lg = Inr r" "\<not> keyLocked (rowKey r) lg"
  shows "MarkVerified costID actor now lg = (case MarkVerifiedEntity r actor now of
      Inl e \<Rightarrow> (Inl e, lg) | Inr r' \<Rightarrow> (Inr (), lg\<lparr>lg_rows := map (\<lambda>x. if x = r then r' else x) (lg_rows lg)\<rparr>)) \<and>
    MarkApproved costID actor now lg = (case MarkApprovedEntity r actor now of
      Inl e \<Rightarrow> (Inl e, lg) | Inr r' \<Rightarrow> (Inr (), lg\<lparr>lg_rows := map (\<lambda>x. if x = r then r' else x) (lg_rows lg)\<rparr>))"
proof -
  have ok: "ledgerOK lg" using ledger_steps_OK [OF assms(1) ledgerOK_empty] .
  from assms(2) have r: "r \<in> set (lg_rows lg)" "re_id r = costID" by (auto simp: GetResultByID_def find_Some_iff split: option.splits)
  have only: "re_id x = costID \<longleftrightarrow> x = r" if "x \<in> set (lg_rows lg)" for x
    using ledgerOK_ids [OF ok] r that by (auto simp: distinct_map inj_on_def)
  have trans: "transitionStatus costID st change lg = (if re_status r = st
      then (Inr (), lg\<lparr>lg_rows := map (\<lambda>x. if x = r then change r else x) (lg_rows lg)\<rparr>) else (Inl CostInvalidStatus, lg))"
    for st and change :: "'a result \<Rightarrow> 'a result"
  proof -
    have "list_ex (\<lambda>x. re_id x = costID \<and> re_status x = st) (lg_rows lg) \<longleftrightarrow> re_status r = st"
      using only r by (auto simp: list_ex_iff)
    moreover have "map (\<lambda>x. if re_id x = costID \<and> re_status x = st then change x else x) (lg_rows lg) =
        map (\<lambda>x. if x = r then change r else x) (lg_rows lg)" if "re_status r = st"
      using only that by (intro map_cong) auto
    ultimately show ?thesis by (auto simp: transitionStatus_def)
  qed
  have guard: "guardCostRowPeriodLock costID lg = Inr ()" using assms(2,3) by (simp add: guardCostRowPeriodLock_def)
  show ?thesis
    by (simp add: MarkVerified_def MarkApproved_def guard trans MarkVerifiedEntity_def MarkApprovedEntity_def verified_def approved_def)
qed

section \<open>An example\<close>

definition exampleOutput :: "int compute_output" where
  "exampleOutput = \<lparr>co_CostPerUnit = 12, co_TotalRMCost = 7, co_TotalConversion = 5, co_TotalCost = 12, co_RMCostDetail = [],
     co_ParamSnapshot = Map.empty, co_FormulaTrace = [], co_CostByLevel = [], co_Notes = []\<rparr>"

definition exampleResult :: "string \<Rightarrow> int \<Rightarrow> int result" where
  "exampleResult period jobID = NewResult 7 period CalcTypeActual 70 exampleOutput jobID ''worker'' 0 0 []"

definition exampleLock :: lock_command where
  "exampleLock = \<lparr>lk_Period = ''202609'', lk_CalcType = [], lk_User = ''finance'', lk_Reason = ''month end''\<rparr>"

text \<open>Two calculations, a verification, the freeze of the month, and two attempts to change it.\<close>

definition exampleLedger :: "nat \<Rightarrow> int ledger" where
  "exampleLedger n = fold (\<lambda>f lg. f lg) (take n
     [\<lambda>lg. snd (tryUpsert id (exampleResult ''202609'' 1) lg),
      \<lambda>lg. snd (tryUpsert id (exampleResult ''202609'' 2) lg),
      \<lambda>lg. snd (VerifyCostHandle None True lg 2 ''checker'' 5 lg),
      \<lambda>lg. lg\<lparr>lg_tables := snd (LockHandle exampleLock 6 (lg_tables lg))\<rparr>,
      \<lambda>lg. snd (ApproveCostHandle None False lg 2 ''boss'' 7 lg),
      \<lambda>lg. snd (tryUpsert id (exampleResult ''202610'' 3) lg)]) emptyLedger"

lemma exampleLedger_step:
  assumes "n < 6"
  shows "ledger_step (exampleLedger n) (exampleLedger (Suc n))"
proof -
  from assms consider "n = 0" | "n = 1" | "n = 2" | "n = 3" | "n = 4" | "n = 5" by linarith
  then show ?thesis
  proof cases
    case 1 then show ?thesis
      by (simp add: exampleLedger_def) (rule ledger_step.Upsert, simp add: exampleResult_def NewResult_def)
  next
    case 2 then show ?thesis
      by (simp add: exampleLedger_def eval_nat_numeral) (rule ledger_step.Upsert, simp add: exampleResult_def NewResult_def)
  next
    case 3 then show ?thesis
      by (simp add: exampleLedger_def eval_nat_numeral) (rule ledger_step.Verify)
  next
    case 4 then show ?thesis
      by (simp add: exampleLedger_def eval_nat_numeral) (rule ledger_step.LockPeriod)
  next
    case 5 then show ?thesis
      by (simp add: exampleLedger_def eval_nat_numeral) (rule ledger_step.Approve)
  next
    case 6 then show ?thesis
      by (simp add: exampleLedger_def eval_nat_numeral) (rule ledger_step.Upsert, simp add: exampleResult_def NewResult_def)
  qed
qed

lemma exampleLedger_steps: "n \<le> m \<Longrightarrow> m \<le> 6 \<Longrightarrow> ledger_step\<^sup>*\<^sup>* (exampleLedger n) (exampleLedger m)"
proof (induction m rule: nat_induct_at_least)
  case (Suc m)
  then show ?case using exampleLedger_step [of m] by (meson Suc_leD less_eq_Suc_le rtranclp.rtrancl_into_rtrancl)
qed simp

lemma exampleLedger_0: "exampleLedger 0 = emptyLedger"
  by (simp add: exampleLedger_def)

lemma exampleLedger_reachable: "n \<le> 6 \<Longrightarrow> ledger_step\<^sup>*\<^sup>* emptyLedger (exampleLedger n)"
  using exampleLedger_steps [of 0 n] by (simp add: exampleLedger_0)

theorem ledger_rows_well_formed_witness:
  "map re_version (keyRows (7, ''202609'', CalcTypeActual) (exampleLedger 3)) = [1, 2] \<and>
   distinct (map re_id (lg_rows (exampleLedger 3)))"
proof -
  have "map re_version (keyRows (7, ''202609'', CalcTypeActual) (exampleLedger 3)) = [1, 2]" by code_simp
  moreover have "distinct (map re_id (lg_rows (exampleLedger 3)))"
    using ledger_rows_well_formed [OF exampleLedger_reachable [of 3]] by simp
  ultimately show ?thesis by blast
qed

theorem ledger_is_append_only_witness:
  "re_status (lg_rows (exampleLedger 1) ! 0) = ResultStatusCalculated \<and>
   re_status (lg_rows (exampleLedger 3) ! 0) = ResultStatusSuperseded \<and>
   figuresOf (lg_rows (exampleLedger 3) ! 0) = figuresOf (lg_rows (exampleLedger 1) ! 0)"
proof -
  have "0 < length (lg_rows (exampleLedger 1))" by code_simp
  moreover have "ledger_step\<^sup>*\<^sup>* (exampleLedger 1) (exampleLedger 3)" by (rule exampleLedger_steps) simp_all
  ultimately have "figuresOf (lg_rows (exampleLedger 3) ! 0) = figuresOf (lg_rows (exampleLedger 1) ! 0)"
    using ledger_is_append_only [of "exampleLedger 1" "exampleLedger 3" 0] by blast
  moreover have "re_status (lg_rows (exampleLedger 1) ! 0) = ResultStatusCalculated" by code_simp
  moreover have "re_status (lg_rows (exampleLedger 3) ! 0) = ResultStatusSuperseded" by code_simp
  ultimately show ?thesis by blast
qed

theorem locked_period_is_frozen_witness:
  "length (lg_rows (exampleLedger 6)) = 3 \<and>
   filter (\<lambda>r. re_period r = ''202609'' \<and> re_calcType r = CalcTypeActual) (lg_rows (exampleLedger 6)) =
     filter (\<lambda>r. re_period r = ''202609'' \<and> re_calcType r = CalcTypeActual) (lg_rows (exampleLedger 4))"
proof -
  let ?R = "\<lambda>a b. ledger_step a b \<and> IsPeriodLockedRow (lg_tables a) ''202609'' CalcTypeActual"
  have "IsPeriodLockedRow (lg_tables (exampleLedger 4)) ''202609'' CalcTypeActual" by code_simp
  moreover have "IsPeriodLockedRow (lg_tables (exampleLedger 5)) ''202609'' CalcTypeActual" by code_simp
  moreover have "ledger_step (exampleLedger 4) (exampleLedger 5)" "ledger_step (exampleLedger 5) (exampleLedger 6)"
    using exampleLedger_step [of 4] exampleLedger_step [of 5] by simp_all
  ultimately have "?R (exampleLedger 4) (exampleLedger 5)" "?R (exampleLedger 5) (exampleLedger 6)" by blast+
  then have run: "?R\<^sup>*\<^sup>* (exampleLedger 4) (exampleLedger 6)"
    by (rule rtranclp.rtrancl_into_rtrancl [OF r_into_rtranclp [of ?R]])
  have "length (lg_rows (exampleLedger 6)) = 3" by code_simp
  then show ?thesis using locked_period_is_frozen [OF exampleLedger_reachable [of 4] run] by simp
qed

theorem racing_upsert_serializes_witness:
  "fst (UpsertWithSupersede (\<lambda>n. if n = 2 then \<lambda>lg. snd (tryUpsert id (exampleResult ''202609'' 1) lg) else id)
     (exampleResult ''202609'' 2) emptyLedger) = Inr (2, 1, 12, 1)"
proof -
  let ?others = "\<lambda>lg. snd (tryUpsert id (exampleResult ''202609'' 1) lg)"
  have one: "?others emptyLedger = exampleLedger 1" by (simp add: exampleLedger_def)
  have "\<not> keyLocked (rowKey (exampleResult ''202609'' 2)) emptyLedger" by code_simp
  moreover have "mayInterleave (exampleResult ''202609'' 2) emptyLedger (?others emptyLedger)"
  proof -
    have "ledgerOK (exampleLedger 1)" using ledger_steps_OK [OF exampleLedger_reachable [of 1] ledgerOK_empty] by simp
    moreover have "\<not> keyLocked (rowKey (exampleResult ''202609'' 2)) (exampleLedger 1)" by code_simp
    ultimately show ?thesis unfolding mayInterleave_def one by (simp add: emptyLedger_def)
  qed
  ultimately have "UpsertWithSupersede (\<lambda>n. if n = 2 then ?others else id) (exampleResult ''202609'' 2) emptyLedger =
      tryUpsert id (exampleResult ''202609'' 2) (exampleLedger 1)"
    unfolding one [symmetric]
    by (intro conjunct1 [OF racing_upsert_serializes [of emptyLedger "exampleResult ''202609'' 2" ?others]] rtranclp.rtrancl_refl)
  moreover have "fst (tryUpsert id (exampleResult ''202609'' 2) (exampleLedger 1)) = Inr (2, 1, 12, 1)" by code_simp
  ultimately show ?thesis by simp
qed

theorem stored_transitions_follow_the_aggregate_witness:
  "MarkVerified 2 ''checker'' 5 (exampleLedger 2) = (Inr (), exampleLedger 3) \<and>
   fst (MarkApproved 2 ''boss'' 5 (exampleLedger 2)) = Inl CostInvalidStatus"
proof -
  have "case GetResultByID 2 (exampleLedger 2) of Inl _ \<Rightarrow> False
      | Inr r \<Rightarrow> re_status r = ResultStatusCalculated \<and> \<not> keyLocked (rowKey r) (exampleLedger 2)" by code_simp
  then obtain r where r: "GetResultByID 2 (exampleLedger 2) = Inr r" "re_status r = ResultStatusCalculated"
      "\<not> keyLocked (rowKey r) (exampleLedger 2)" by (auto split: sum.splits)
  have three: "exampleLedger 3 = snd (VerifyCostHandle None True (exampleLedger 2) 2 ''checker'' 5 (exampleLedger 2))"
    by (simp add: exampleLedger_def eval_nat_numeral)
  have "rejectLockedCostRow True (exampleLedger 2) 2 = Inr ()" by code_simp
  then have "exampleLedger 3 = snd (MarkVerified 2 ''checker'' 5 (exampleLedger 2))"
    by (simp add: three VerifyCostHandle_def manualTransition_def rejectMBCostRow_def)
  then show ?thesis
    using stored_transitions_follow_the_aggregate [OF exampleLedger_reachable [of 2] r(1,3), of "''checker''" 5]
      stored_transitions_follow_the_aggregate [OF exampleLedger_reachable [of 2] r(1,3), of "''boss''" 5] r(2)
    by (simp add: MarkVerifiedEntity_def MarkApprovedEntity_def)
qed

end
