(* ===== verification/FinanceFacts.thy ===== *)
theory FinanceFacts
  imports FinanceChunk ComputeFacts LedgerFacts
begin

text \<open>
  What a chunk of the finance service does to the job's rows and to the results: its tallies, the rows it
  may add to the table of results and where their upstream prices come from, and that a frozen
  period stops it.
\<close>

section \<open>Storing\<close>

lemma upsertLoop_id_steps:
  assumes "re_status r = ResultStatusCalculated"
  shows "ledger_step\<^sup>*\<^sup>* lg (snd (upsertLoop n (\<lambda>_. id) r lg))"
proof (induction n arbitrary: lg)
  case (Suc n)
  have step: "ledger_step lg (snd (tryUpsert id r lg))" using assms by (rule ledger_step.Upsert)
  show ?case
  proof (cases "tryUpsert id r lg")
    case (Pair res lg')
    then have lg': "ledger_step lg lg'" using step by simp
    show ?thesis
    proof (cases "res = Inl UniqueViolation")
      case True
      have "upsertLoop (Suc n) (\<lambda>_. id) r lg = upsertLoop n (\<lambda>_. id) r lg'"
        unfolding upsertLoop.simps(2) Pair True by simp
      with Suc.IH [of lg'] lg' show ?thesis by (metis converse_rtranclp_into_rtranclp)
    next
      case False
      then have eq: "snd (upsertLoop (Suc n) (\<lambda>_. id) r lg) = lg'"
        unfolding upsertLoop.simps(2) Pair by (auto split: sum.split ledger_error.split)
      show ?thesis unfolding eq by (rule r_into_rtranclp [of ledger_step, OF lg'])
    qed
  qed
qed simp

lemma resultOf_simps [simp]:
  "re_status (resultOf inp pid headID out) = ResultStatusCalculated"
  "rowKey (resultOf inp pid headID out) = (pid, pi_Period inp, pi_CalcType inp)"
  "re_jobID (resultOf inp pid headID out) = pi_JobID inp"
  "re_rmCostDetail (resultOf inp pid headID out) = co_RMCostDetail out"
  "re_costPerUnit (resultOf inp pid headID out) = co_CostPerUnit out"
  "re_captiveCost (resultOf inp pid headID out) = mapGet (co_ParamSnapshot out) ''CAPTIVE_COST_QLTY_LOSS''"
  by (simp_all add: resultOf_def extractCaptiveDeliveryCosts_def NewResult_def rowKey_def)

text \<open>Alone, storing in a well formed table adds one row, or none when the period is locked.\<close>

lemma Upsert_alone:
  assumes ok: "ledgerOK lg" and new: "re_status r = ResultStatusCalculated"
  shows "(keyLocked (rowKey r) lg \<and> UpsertWithSupersede (\<lambda>_. id) r lg = (Inl PeriodIsLocked, lg)) \<or>
    (\<not> keyLocked (rowKey r) lg \<and> (\<exists>u v. UpsertWithSupersede (\<lambda>_. id) r lg = (Inr u, snd (tryUpsert id r lg)) \<and>
      lg_rows (snd (tryUpsert id r lg)) =
        map (\<lambda>x. if rowKey x = rowKey r then x\<lparr>re_status := ResultStatusSuperseded\<rparr> else x) (lg_rows lg) @
        [r\<lparr>re_id := lg_nextID lg, re_version := v\<rparr>]))"
proof (cases "keyLocked (rowKey r) lg")
  case True
  then show ?thesis by (simp add: UpsertWithSupersede_def upsertMaxRetries_def eval_nat_numeral tryUpsert_locked)
next
  case False
  have three: "(3::nat) = Suc 2" by simp
  show ?thesis
    using False unfolding UpsertWithSupersede_def upsertMaxRetries_def three upsertLoop.simps(2)
    by (simp add: tryUpsert_alone [OF ok False]) blast
qed

section \<open>The tables a product's turn changes\<close>

lemma execJobProductUpdate_ledger [simp]:
  "fi_ledger (snd (execJobProductUpdate jobID pid f fin)) = fi_ledger fin"
  "fi_chunks (snd (execJobProductUpdate jobID pid f fin)) = fi_chunks fin"
  "fi_jobs (snd (execJobProductUpdate jobID pid f fin)) = fi_jobs fin"
  by (simp_all add: execJobProductUpdate_def)

lemma marks_keep [simp]:
  "fi_ledger (snd (MarkProductBlocked jobID pid reason entry now fin)) = fi_ledger fin"
  "fi_ledger (snd (MarkProductFailed jobID pid err entry now fin)) = fi_ledger fin"
  "fi_ledger (snd (MarkProductSuccess jobID pid costID ms entry now fin)) = fi_ledger fin"
  "fi_chunks (snd (MarkProductBlocked jobID pid reason entry now fin)) = fi_chunks fin"
  "fi_chunks (snd (MarkProductFailed jobID pid err entry now fin)) = fi_chunks fin"
  "fi_chunks (snd (MarkProductSuccess jobID pid costID ms entry now fin)) = fi_chunks fin"
  "fi_jobs (snd (MarkProductBlocked jobID pid reason entry now fin)) = fi_jobs fin"
  "fi_jobs (snd (MarkProductFailed jobID pid err entry now fin)) = fi_jobs fin"
  "fi_jobs (snd (MarkProductSuccess jobID pid costID ms entry now fin)) = fi_jobs fin"
  by (simp_all add: MarkProductBlocked_def MarkProductFailed_def MarkProductSuccess_def)

lemma recordComputeError_keeps:
  "recordComputeError inp pid err now fin = (r, fin') \<Longrightarrow>
   r \<noteq> productOutcomeSuccess \<and> fi_ledger fin' = fi_ledger fin \<and> fi_chunks fin' = fi_chunks fin \<and> fi_jobs fin' = fi_jobs fin"
  by (auto simp: recordComputeError_def split: option.splits)

lemma persistResult_tables:
  "\<exists>res. fi_ledger (snd (persistResult others inp pid headID out pp now fin)) =
      snd (UpsertWithSupersede others (resultOf inp pid headID out) (fi_ledger fin)) \<and>
    fi_chunks (snd (persistResult others inp pid headID out pp now fin)) = fi_chunks fin \<and>
    fi_jobs (snd (persistResult others inp pid headID out pp now fin)) = fi_jobs fin \<and>
    UpsertWithSupersede others (resultOf inp pid headID out) (fi_ledger fin) =
      (res, fi_ledger (snd (persistResult others inp pid headID out pp now fin))) \<and>
    ((\<exists>e. res = Inl e) \<longrightarrow> (\<exists>e. fst (persistResult others inp pid headID out pp now fin) = Inl e))"
proof (cases "UpsertWithSupersede others (resultOf inp pid headID out) (fi_ledger fin)")
  case (Pair res lg)
  then show ?thesis
    by (cases res) (auto simp: persistResult_def Let_def writeRecomputeAudit_def writeHistory_def)
qed

text \<open>The turn of a product: it leaves the results alone, or stores the result of its calculation.\<close>

lemma computeOne_cases:
  assumes "computeOne sv others inp b pid now fin = (r, fin')"
  shows "fi_chunks fin' = fi_chunks fin \<and> fi_jobs fin' = fi_jobs fin \<and>
    (fi_ledger fin' = fi_ledger fin \<and> r \<noteq> productOutcomeSuccess \<or>
     \<not> lb_mbProducts b pid \<and> (\<exists>route (head :: route_head) out res. lb_routes b pid = Some route \<and>
       ComputeProduct (computeInputOf sv inp pid route b) = Inr out \<and>
       UpsertWithSupersede others (resultOf inp pid (hd_HeadID head) out) (fi_ledger fin) = (res, fi_ledger fin') \<and>
       ((\<exists>e. res = Inl e) \<longrightarrow> r \<noteq> productOutcomeSuccess)))"
proof (cases "lb_mbProducts b pid \<or> headedRoute b pid = None")
  case True
  with assms have "r = productOutcomeBlocked \<and> (\<exists>reason. fin' = snd (MarkProductBlocked (pi_JobID inp) pid reason NoLog now fin))"
    by (cases "lb_mbProducts b pid") (auto simp: computeOne_def)
  then show ?thesis by auto
next
  case False
  then obtain route head where h: "headedRoute b pid = Some (route, head)" "\<not> lb_mbProducts b pid" by fastforce
  from h(1) have route: "lb_routes b pid = Some route" by (auto simp: headedRoute_def split: option.splits)
  show ?thesis
  proof (cases "ComputeProduct (computeInputOf sv inp pid route b)")
    case (Inl err)
    with assms h have "recordComputeError inp pid err now fin = (r, fin')" by (simp add: computeOne_def)
    from recordComputeError_keeps [OF this] show ?thesis by simp
  next
    case (Inr out)
    let ?p = "persistResult others inp pid (hd_HeadID head) out (sp_Period (lb_spinPool b)) now fin"
    obtain res where res: "UpsertWithSupersede others (resultOf inp pid (hd_HeadID head) out) (fi_ledger fin) = (res, fi_ledger (snd ?p))"
      "fi_chunks (snd ?p) = fi_chunks fin" "fi_jobs (snd ?p) = fi_jobs fin" "(\<exists>e. res = Inl e) \<longrightarrow> (\<exists>e. fst ?p = Inl e)"
      using persistResult_tables [of others inp pid "hd_HeadID head" out "sp_Period (lb_spinPool b)" now fin] by blast
    obtain st fin1 where p: "?p = (st, fin1)" by (cases ?p)
    have "fi_ledger fin' = fi_ledger fin1 \<and> fi_chunks fin' = fi_chunks fin1 \<and> fi_jobs fin' = fi_jobs fin1 \<and>
        ((\<exists>e. st = Inl e) \<longrightarrow> r \<noteq> productOutcomeSuccess)"
      using assms h Inr p by (cases st) (auto simp: computeOne_def)
    then have "fi_ledger fin' = fi_ledger (snd ?p)" "fi_chunks fin' = fi_chunks fin" "fi_jobs fin' = fi_jobs fin"
      "(\<exists>e. res = Inl e) \<longrightarrow> r \<noteq> productOutcomeSuccess"
      using res(2,3,4) p by simp_all
    with res(1) h(2) route Inr show ?thesis
      by (intro conjI disjI2 exI [of _ route] exI [of _ head] exI [of _ out] exI [of _ res]) simp_all
  qed
qed

section \<open>All products of a chunk\<close>

text \<open>What a row that the chunk has stored says, whatever happens to its status afterwards.\<close>

definition storedBy :: "'f calc_service \<Rightarrow> chunk_input \<Rightarrow> 'f loaded_bundle \<Rightarrow> int list \<Rightarrow>
    ('f::{zero,one,plus,minus,times,inverse,ord}) result \<Rightarrow> bool" where
  "storedBy sv inp b pids r \<longleftrightarrow> re_productSysID r \<in> set pids \<and> \<not> lb_mbProducts b (re_productSysID r) \<and>
     re_period r = pi_Period inp \<and> re_calcType r = pi_CalcType inp \<and> re_jobID r = pi_JobID inp \<and>
     (\<exists>route out. lb_routes b (re_productSysID r) = Some route \<and>
        ComputeProduct (computeInputOf sv inp (re_productSysID r) route b) = Inr out \<and>
        re_rmCostDetail r = co_RMCostDetail out \<and> re_costPerUnit r = co_CostPerUnit out \<and>
        re_totalRMCost r = co_TotalRMCost out \<and>
        re_captiveCost r = mapGet (co_ParamSnapshot out) ''CAPTIVE_COST_QLTY_LOSS'')"

lemma storedBy_mono: "storedBy sv inp b pids r \<Longrightarrow> set pids \<subseteq> set pids' \<Longrightarrow> storedBy sv inp b pids' r"
  unfolding storedBy_def by blast

lemma storedBy_evolves:
  assumes "evolves r r'" "storedBy sv inp b pids r"
  shows "storedBy sv inp b pids r'"
proof -
  have same: "f (figuresOf r') = f (figuresOf r)" for f :: "'a result \<Rightarrow> 'b" using assms(1) by (simp add: evolves_def)
  have "g (figuresOf r') = g (figuresOf r)" for g :: "'a result \<Rightarrow> int" using assms(1) by (simp add: evolves_def)
  from this [of re_productSysID] this [of re_jobID] have "re_productSysID r' = re_productSysID r" "re_jobID r' = re_jobID r"
    by (simp_all add: figuresOf_def)
  moreover have "g (figuresOf r') = g (figuresOf r)" for g :: "'a result \<Rightarrow> string" using assms(1) by (simp add: evolves_def)
  from this [of re_period] this [of re_calcType] have "re_period r' = re_period r" "re_calcType r' = re_calcType r"
    by (simp_all add: figuresOf_def)
  moreover have "g (figuresOf r') = g (figuresOf r)" for g :: "'a result \<Rightarrow> 'a" using assms(1) by (simp add: evolves_def)
  from this [of re_costPerUnit] this [of re_totalRMCost] this [of re_captiveCost]
  have "re_costPerUnit r' = re_costPerUnit r" "re_totalRMCost r' = re_totalRMCost r" "re_captiveCost r' = re_captiveCost r"
    by (simp_all add: figuresOf_def)
  moreover have "re_rmCostDetail (figuresOf r') = re_rmCostDetail (figuresOf r)" using assms(1) by (simp add: evolves_def)
  then have "re_rmCostDetail r' = re_rmCostDetail r" by (simp add: figuresOf_def)
  ultimately show ?thesis using assms(2) unfolding storedBy_def by simp
qed

definition newRows :: "('f result \<Rightarrow> bool) \<Rightarrow> 'f ledger \<Rightarrow> 'f ledger \<Rightarrow> bool" where
  "newRows S lg lg' \<longleftrightarrow> (\<forall>i. length (lg_rows lg) \<le> i \<longrightarrow> i < length (lg_rows lg') \<longrightarrow> S (lg_rows lg' ! i))"

lemma newRows_refl [simp]: "newRows S lg lg"
  by (simp add: newRows_def)

lemma newRows_trans:
  assumes "newRows S a b" "newRows S b c" "extendsRows (lg_rows b) (lg_rows c)" "\<And>r r'. evolves r r' \<Longrightarrow> S r \<Longrightarrow> S r'"
  shows "newRows S a c"
  unfolding newRows_def
proof (intro allI impI)
  fix i assume i: "length (lg_rows a) \<le> i" "i < length (lg_rows c)"
  show "S (lg_rows c ! i)"
  proof (cases "i < length (lg_rows b)")
    case True
    with assms(1) i have "S (lg_rows b ! i)" by (simp add: newRows_def)
    moreover have "evolves (lg_rows b ! i) (lg_rows c ! i)" using assms(3) True by (simp add: extendsRows_def)
    ultimately show ?thesis using assms(4) by blast
  next
    case False
    with assms(2) i show ?thesis by (simp add: newRows_def)
  qed
qed

lemma steps_extend: "ledger_step\<^sup>*\<^sup>* lg lg' \<Longrightarrow> extendsRows (lg_rows lg) (lg_rows lg')"
  by (induction rule: rtranclp_induct) (auto intro: ledger_step_extends extendsRows_trans)

text \<open>One turn with nothing committed in between, on a well formed table.\<close>

lemma turn_ledger:
  assumes turn: "computeOne sv (\<lambda>_. id) inp b pid now fin = (r, fin')" and ok: "ledgerOK (fi_ledger fin)"
  shows "ledger_step\<^sup>*\<^sup>* (fi_ledger fin) (fi_ledger fin') \<and> newRows (storedBy sv inp b [pid]) (fi_ledger fin) (fi_ledger fin') \<and>
    (keyLocked (pid, pi_Period inp, pi_CalcType inp) (fi_ledger fin) \<longrightarrow> fi_ledger fin' = fi_ledger fin \<and> r \<noteq> productOutcomeSuccess)"
proof (cases "fi_ledger fin' = fi_ledger fin \<and> r \<noteq> productOutcomeSuccess")
  case False
  with computeOne_cases [OF turn] obtain route and head :: route_head and out res where c: "\<not> lb_mbProducts b pid" "lb_routes b pid = Some route"
    "ComputeProduct (computeInputOf sv inp pid route b) = Inr out"
    "UpsertWithSupersede (\<lambda>_. id) (resultOf inp pid (hd_HeadID head) out) (fi_ledger fin) = (res, fi_ledger fin')"
    "(\<exists>e. res = Inl e) \<longrightarrow> r \<noteq> productOutcomeSuccess" by blast
  let ?r = "resultOf inp pid (hd_HeadID head) out"
  have lg': "fi_ledger fin' = snd (upsertLoop upsertMaxRetries (\<lambda>_. id) ?r (fi_ledger fin))"
    using c(4) by (simp add: UpsertWithSupersede_def)
  have steps: "ledger_step\<^sup>*\<^sup>* (fi_ledger fin) (fi_ledger fin')"
    unfolding lg' by (rule upsertLoop_id_steps) simp
  from Upsert_alone [OF ok, of ?r, OF resultOf_simps(1)] show ?thesis
  proof (elim disjE conjE exE)
    assume l: "keyLocked (rowKey ?r) (fi_ledger fin)" "UpsertWithSupersede (\<lambda>_. id) ?r (fi_ledger fin) = (Inl PeriodIsLocked, fi_ledger fin)"
    with c(4,5) have "fi_ledger fin' = fi_ledger fin \<and> r \<noteq> productOutcomeSuccess" by auto
    with False show ?thesis by blast
  next
    fix u v assume u: "\<not> keyLocked (rowKey ?r) (fi_ledger fin)"
      "UpsertWithSupersede (\<lambda>_. id) ?r (fi_ledger fin) = (Inr u, snd (tryUpsert id ?r (fi_ledger fin)))"
      "lg_rows (snd (tryUpsert id ?r (fi_ledger fin))) =
        map (\<lambda>x. if rowKey x = rowKey ?r then x\<lparr>re_status := ResultStatusSuperseded\<rparr> else x) (lg_rows (fi_ledger fin)) @
        [?r\<lparr>re_id := lg_nextID (fi_ledger fin), re_version := v\<rparr>]"
    let ?new = "?r\<lparr>re_id := lg_nextID (fi_ledger fin), re_version := v\<rparr>"
    have rows: "lg_rows (fi_ledger fin') =
        map (\<lambda>x. if rowKey x = rowKey ?r then x\<lparr>re_status := ResultStatusSuperseded\<rparr> else x) (lg_rows (fi_ledger fin)) @ [?new]"
      using u(2,3) c(4) by simp
    have fields: "re_productSysID ?new = pid" "re_period ?new = pi_Period inp" "re_calcType ?new = pi_CalcType inp"
      "re_jobID ?new = pi_JobID inp" "re_rmCostDetail ?new = co_RMCostDetail out" "re_costPerUnit ?new = co_CostPerUnit out"
      "re_totalRMCost ?new = co_TotalRMCost out" "re_captiveCost ?new = mapGet (co_ParamSnapshot out) ''CAPTIVE_COST_QLTY_LOSS''"
      by (simp_all add: resultOf_def extractCaptiveDeliveryCosts_def NewResult_def)
    have "storedBy sv inp b [pid] ?new" unfolding storedBy_def fields using c(1,2,3) by auto
    then have "newRows (storedBy sv inp b [pid]) (fi_ledger fin) (fi_ledger fin')"
      by (auto simp: newRows_def rows nth_append)
    with steps u(1) show ?thesis by simp
  qed
qed simp

lemma processProduct_apply:
  "processProduct sv others inp b now pid (out, fin) =
     (case computeOne sv (others pid) inp b pid now fin of (r, fin') \<Rightarrow> (tally r out, fin'))"
  by (simp add: processProduct_def)

lemma turns_ledger:
  assumes "fold (processProduct sv (\<lambda>_ _. id) inp b now) pids (out, fin) = (out', fin')" "ledgerOK (fi_ledger fin)"
  shows "ledger_step\<^sup>*\<^sup>* (fi_ledger fin) (fi_ledger fin') \<and> newRows (storedBy sv inp b pids) (fi_ledger fin) (fi_ledger fin') \<and>
    (pi_CalcType inp = CalcTypeActual \<and> IsPeriodLockedRow (lg_tables (fi_ledger fin)) (pi_Period inp) CalcTypeActual \<longrightarrow>
       fi_ledger fin' = fi_ledger fin \<and> po_Success out' = po_Success out)"
  using assms
proof (induction pids arbitrary: out fin)
  case (Cons pid pids)
  obtain r fin1 where turn: "computeOne sv (\<lambda>_. id) inp b pid now fin = (r, fin1)"
    by (cases "computeOne sv (\<lambda>_. id) inp b pid now fin")
  from Cons.prems(1) have rest: "fold (processProduct sv (\<lambda>_ _. id) inp b now) pids (tally r out, fin1) = (out', fin')"
    unfolding fold.simps comp_apply processProduct_apply turn prod.case .
  note t = turn_ledger [OF turn Cons.prems(2)]
  have ok1: "ledgerOK (fi_ledger fin1)" using t Cons.prems(2) ledger_steps_OK by blast
  note ih = Cons.IH [OF rest ok1]
  have mono: "newRows (storedBy sv inp b xs) lg lg' \<Longrightarrow> set xs \<subseteq> set ys \<Longrightarrow> newRows (storedBy sv inp b ys) lg lg'" for xs ys lg lg'
    unfolding newRows_def using storedBy_mono by blast
  have "newRows (storedBy sv inp b (pid # pids)) (fi_ledger fin) (fi_ledger fin')"
    using t ih mono [of "[pid]" _ _ "pid # pids"] mono [of pids _ _ "pid # pids"]
    by (intro newRows_trans [of _ "fi_ledger fin" "fi_ledger fin1" "fi_ledger fin'"] steps_extend) (auto intro: storedBy_evolves)
  moreover have "ledger_step\<^sup>*\<^sup>* (fi_ledger fin) (fi_ledger fin')" using t ih by (blast intro: rtranclp_trans)
  moreover have "fi_ledger fin' = fi_ledger fin \<and> po_Success out' = po_Success out"
    if lock: "pi_CalcType inp = CalcTypeActual" "IsPeriodLockedRow (lg_tables (fi_ledger fin)) (pi_Period inp) CalcTypeActual"
  proof -
    have "keyLocked (pid, pi_Period inp, pi_CalcType inp) (fi_ledger fin)" using lock by (simp add: keyLocked_def)
    with t have "fi_ledger fin1 = fi_ledger fin" "r \<noteq> productOutcomeSuccess" by blast+
    moreover from this have "po_Success (tally r out) = po_Success out" by (cases r) (simp_all add: tally_def)
    ultimately show ?thesis using ih lock by simp
  qed
  ultimately show ?case by blast
qed simp

lemma turns_keep:
  assumes "fold (processProduct sv others inp b now) pids (out, fin) = (out', fin')"
  shows "fi_chunks fin' = fi_chunks fin \<and> fi_jobs fin' = fi_jobs fin \<and>
    po_Success out' + po_Failed out' + po_Blocked out' = po_Success out + po_Failed out + po_Blocked out + int (length pids) \<and>
    po_Success out \<le> po_Success out' \<and> po_Failed out \<le> po_Failed out' \<and> po_Blocked out \<le> po_Blocked out'"
  using assms
proof (induction pids arbitrary: out fin)
  case (Cons pid pids)
  obtain r fin1 where turn: "computeOne sv (others pid) inp b pid now fin = (r, fin1)"
    by (cases "computeOne sv (others pid) inp b pid now fin")
  from Cons.prems have rest: "fold (processProduct sv others inp b now) pids (tally r out, fin1) = (out', fin')"
    unfolding fold.simps comp_apply processProduct_apply turn prod.case .
  have "po_Success (tally r out) + po_Failed (tally r out) + po_Blocked (tally r out) = po_Success out + po_Failed out + po_Blocked out + 1"
    "po_Success out \<le> po_Success (tally r out)" "po_Failed out \<le> po_Failed (tally r out)" "po_Blocked out \<le> po_Blocked (tally r out)"
    by (cases r; simp add: tally_def)+
  with Cons.IH [OF rest] computeOne_cases [OF turn] show ?case by simp
qed simp

section \<open>The chunk as a whole\<close>

text \<open>A run of the chunk that returns an output, opened up.\<close>

lemma ServiceProcessChunk_Inr:
  assumes "ServiceProcessChunk sv others inp now fin = (Inr out, fin')" "pi_Products inp \<noteq> []"
  obtains b fin1 fin2 where "fi_ledger fin1 = fi_ledger fin" "fi_jobs fin1 = fi_jobs fin"
    "bulkLoad sv inp (fi_ledger fin) = Inr b"
    "fold (processProduct sv others inp b now) (pi_Products inp) (noOutput, fin1) = (out, fin2)"
    "fi_ledger fin' = fi_ledger fin2" "fi_jobs fin' = fi_jobs fin2" "fi_products fin' = fi_products fin2"
    "pi_ChunkID inp \<noteq> 0 \<Longrightarrow> \<exists>f. fi_chunks fin1 = map (\<lambda>c. if ck_id c = pi_ChunkID inp then f c else c) (fi_chunks fin) \<and> (\<forall>c. ck_id (f c) = ck_id c)"
    "pi_ChunkID inp \<noteq> 0 \<Longrightarrow> chunkUpdateResult (pi_ChunkID inp) (finalChunkStatus out) (po_Success out) (po_Failed out) 0 [] now fin2 = (Inr (), fin')"
proof -
  let ?start = "if pi_ChunkID inp \<noteq> 0 then chunkUpdateStatus (pi_ChunkID inp) ChunkStatusProcessing ''inline'' now fin else (Inr (), fin)"
  obtain st fin1 where start: "?start = (st, fin1)" by (cases ?start)
  have keep: "fi_ledger fin1 = fi_ledger fin" "fi_jobs fin1 = fi_jobs fin"
    using start by (auto simp: chunkUpdateStatus_def chunkExecUpdate_def split: if_splits)
  have chunks: "\<exists>f. fi_chunks fin1 = map (\<lambda>c. if ck_id c = pi_ChunkID inp then f c else c) (fi_chunks fin) \<and> (\<forall>c. ck_id (f c) = ck_id c)"
    if "pi_ChunkID inp \<noteq> 0" "st = Inr ()"
    using start that by (auto simp: chunkUpdateStatus_def chunkExecUpdate_def split: if_splits)
  from assms start obtain u where st: "st = Inr u" by (cases st) (simp_all add: ServiceProcessChunk_def)
  from assms start st obtain b where b: "bulkLoad sv inp (fi_ledger fin1) = Inr b"
    by (cases "bulkLoad sv inp (fi_ledger fin1)") (simp_all add: ServiceProcessChunk_def)
  obtain out2 fin2 where f: "fold (processProduct sv others inp b now) (pi_Products inp) (noOutput, fin1) = (out2, fin2)"
    by (cases "fold (processProduct sv others inp b now) (pi_Products inp) (noOutput, fin1)")
  let ?finish = "if pi_ChunkID inp \<noteq> 0 then chunkUpdateResult (pi_ChunkID inp) (finalChunkStatus out2) (po_Success out2) (po_Failed out2) 0 [] now fin2 else (Inr (), fin2)"
  obtain en fin3 where en: "?finish = (en, fin3)" by (cases ?finish)
  have "(Inr out, fin') = tryFin ?finish (\<lambda>_ fin3. (Inr out2, fin3))"
    using assms(1) unfolding ServiceProcessChunk_def using assms(2) by (simp only: if_False start st tryFin_simps b f sum.case prod.case)
  then have out: "out2 = out" "fin3 = fin'" "en = Inr ()" unfolding en by (cases en; simp)+
  have "fi_ledger fin3 = fi_ledger fin2" "fi_jobs fin3 = fi_jobs fin2" "fi_products fin3 = fi_products fin2"
    using en by (auto simp: chunkUpdateResult_def chunkExecUpdate_def split: if_splits)
  then show thesis using keep b f en out chunks st by (intro that [of fin1 b fin2]) auto
qed

lemma updated_others:
  assumes "\<And>c. ck_id (f c) = ck_id c" "ck_id c \<noteq> i"
  shows "c \<in> set (map (\<lambda>c. if ck_id c = i then f c else c) cs) \<longleftrightarrow> c \<in> set cs"
  using assms by (auto simp: image_iff)

text \<open>The tallies of a chunk: a chunk that returns has counted every one of its products once, as a
  success, a failure or a block, none negative; and the chunk's row then shows the status these
  counts classify to (success only without failures and blocks, failed without a success), with the
  counts of successes and failures. Other rows of chunks keep their result.\<close>

theorem chunk_tallies_add_up:
  assumes "ServiceProcessChunk sv others inp now fin = (Inr out, fin')" "pi_ChunkID inp \<noteq> 0" "pi_Products inp \<noteq> []"
  shows "po_Success out + po_Failed out + po_Blocked out = int (length (pi_Products inp)) \<and>
    0 \<le> po_Success out \<and> 0 \<le> po_Failed out \<and> 0 \<le> po_Blocked out \<and>
    (\<exists>c \<in> set (fi_chunks fin'). ck_id c = pi_ChunkID inp) \<and>
    (\<forall>c \<in> set (fi_chunks fin'). ck_id c = pi_ChunkID inp \<longrightarrow>
       ck_status c = (if po_Failed out = 0 \<and> po_Blocked out = 0 then ChunkStatusSuccess
         else if po_Success out = 0 then ChunkStatusFailed else ChunkStatusPartialFailed) \<and>
       ck_successCount c = intToInt32 (po_Success out) \<and> ck_failedCount c = intToInt32 (po_Failed out)) \<and>
    (\<forall>c. ck_id c \<noteq> pi_ChunkID inp \<longrightarrow> c \<in> set (fi_chunks fin') \<longleftrightarrow> c \<in> set (fi_chunks fin))"
proof -
  from assms(1,3) show ?thesis
  proof (cases rule: ServiceProcessChunk_Inr)
    case (1 b fin1 fin2)
    note t = turns_keep [OF 1(4)]
    have tal: "po_Success out + po_Failed out + po_Blocked out = int (length (pi_Products inp))"
      "0 \<le> po_Success out" "0 \<le> po_Failed out" "0 \<le> po_Blocked out"
      using t by (simp_all add: noOutput_def)
    let ?f = "\<lambda>c. c\<lparr>ck_status := finalChunkStatus out, ck_successCount := intToInt32 (po_Success out),
      ck_failedCount := intToInt32 (po_Failed out), ck_durationMs := intToInt32 0, ck_errorMessage := [], ck_completedAt := Some now\<rparr>"
    have rows: "fi_chunks fin' = map (\<lambda>c. if ck_id c = pi_ChunkID inp then ?f c else c) (fi_chunks fin2)"
      and ex: "list_ex (\<lambda>c. ck_id c = pi_ChunkID inp) (fi_chunks fin2)"
      using 1(9) [OF assms(2)] by (auto simp: chunkUpdateResult_def chunkExecUpdate_def split: if_splits)
    have "ck_id c = pi_ChunkID inp \<Longrightarrow> c \<in> set (fi_chunks fin') \<Longrightarrow> ck_status c = finalChunkStatus out \<and>
        ck_successCount c = intToInt32 (po_Success out) \<and> ck_failedCount c = intToInt32 (po_Failed out)" for c
      unfolding rows by (auto split: if_splits)
    moreover have "\<exists>c \<in> set (fi_chunks fin'). ck_id c = pi_ChunkID inp"
    proof -
      from ex obtain c where "c \<in> set (fi_chunks fin2)" "ck_id c = pi_ChunkID inp" by (auto simp: list_ex_iff)
      then have "?f c \<in> set (fi_chunks fin')" "ck_id (?f c) = pi_ChunkID inp" unfolding rows by force+
      then show ?thesis by blast
    qed
    moreover obtain f where "fi_chunks fin1 = map (\<lambda>c. if ck_id c = pi_ChunkID inp then f c else c) (fi_chunks fin)" "\<forall>c. ck_id (f c) = ck_id c"
      using 1(8) [OF assms(2)] by blast
    then have "c \<in> set (fi_chunks fin') \<longleftrightarrow> c \<in> set (fi_chunks fin)" if "ck_id c \<noteq> pi_ChunkID inp" for c
      using t updated_others [of ?f c "pi_ChunkID inp" "fi_chunks fin2"] updated_others [of f c "pi_ChunkID inp" "fi_chunks fin"] that
      by (simp add: rows)
    ultimately show ?thesis using tal by (simp add: finalChunkStatus_def)
  qed
qed

text \<open>(C19) What a chunk may add to the results: run alone on tables that were reached by the
  services' steps, it only makes such steps; and every row it adds (whatever its status since) is of one
  of its products, not a master batch product, for its period, calculation type and job, with the
  figures of the calculation of that product. When the period is locked for ACTUAL, an ACTUAL chunk
  changes no row and counts no success.\<close>

theorem chunk_stores_its_own_results:
  assumes "ledger_step\<^sup>*\<^sup>* emptyLedger (fi_ledger fin)" "ServiceProcessChunk sv (\<lambda>_ _. id) inp now fin = (Inr out, fin')"
    "pi_Products inp \<noteq> []" "bulkLoad sv inp (fi_ledger fin) = Inr b"
  shows "ledger_step\<^sup>*\<^sup>* (fi_ledger fin) (fi_ledger fin') \<and>
    (\<forall>r \<in> set (drop (length (lg_rows (fi_ledger fin))) (lg_rows (fi_ledger fin'))). storedBy sv inp b (pi_Products inp) r) \<and>
    (pi_CalcType inp = CalcTypeActual \<and> IsPeriodLockedRow (lg_tables (fi_ledger fin)) (pi_Period inp) CalcTypeActual \<longrightarrow>
       fi_ledger fin' = fi_ledger fin \<and> po_Success out = 0)"
proof -
  have ok: "ledgerOK (fi_ledger fin)" using ledger_steps_OK [OF assms(1) ledgerOK_empty] .
  from assms(2,3) show ?thesis
  proof (cases rule: ServiceProcessChunk_Inr)
    case (1 b' fin1 fin2)
    with assms(4) have b: "b' = b" by simp
    from ok 1(1) have "ledgerOK (fi_ledger fin1)" by simp
    note t = turns_ledger [OF 1(4) [unfolded b] this]
    have "storedBy sv inp b (pi_Products inp) r" if "r \<in> set (drop (length (lg_rows (fi_ledger fin))) (lg_rows (fi_ledger fin')))" for r
      using that t unfolding 1(1,5) newRows_def by (auto simp: in_set_conv_nth)
    with t show ?thesis by (simp add: 1(1,5) noOutput_def)
  qed
qed

text \<open>The upstream costs that were loaded are those of the active rows.\<close>

lemma loadRMRatioInputs_keeps:
  "loadRMRatioInputs sv products gs b = Inr b' \<Longrightarrow> lb_upstreamCosts b' = lb_upstreamCosts b \<and> lb_routes b' = lb_routes b"
  unfolding loadRMRatioInputs_def Let_def
  by (clarsimp simp: tryThen_Inr) (simp split: if_split_asm; clarsimp simp: tryThen_Inr)

lemma LoadUpstreamCosts_Some:
  assumes "LoadUpstreamCosts types ids period calcType lg = Some costs" "costs p = Some c"
  shows "\<exists>t u. types p = Some t \<and> GetActive (p, period, calcType) lg = Inr u \<and>
    c = (if t = ''MB'' then re_costPerUnit u else re_captiveCost u)"
proof (cases "ids = []")
  case False
  with assms(1) have "costs = (\<lambda>pid. if pid \<notin> set ids then None else (case types pid of
      None \<Rightarrow> None
    | Some t \<Rightarrow> (case GetActive (pid, period, calcType) lg of
        Inl _ \<Rightarrow> None
      | Inr r \<Rightarrow> Some (if t = ''MB'' then re_costPerUnit r else re_captiveCost r))))"
    by (simp add: LoadUpstreamCosts_def split: if_splits)
  with assms(2) show ?thesis by (simp split: if_splits option.splits sum.splits)
qed (use assms in \<open>auto simp: LoadUpstreamCosts_def\<close>)

lemma loadQuery_Inr: "loadQuery q r = Inr v \<longleftrightarrow> r = Some v"
  by (simp add: loadQuery_def split: option.split)

lemma bulkLoad_costs:
  assumes "bulkLoad sv inp lg = Inr b"
  shows "\<exists>ids. LoadUpstreamCosts (ld_MasterTypes (sv_loader sv)) ids (pi_Period inp) (pi_CalcType inp) lg = Some (lb_upstreamCosts b)"
  using assms unfolding bulkLoad_def Let_def
  by (clarsimp simp: tryThen_Inr loadQuery_Inr) (drule loadRMRatioInputs_keeps, force)

lemma bulkLoad_upstream:
  assumes "bulkLoad sv inp lg = Inr b" "lb_upstreamCosts b p = Some c"
  shows "\<exists>t u. ld_MasterTypes (sv_loader sv) p = Some t \<and> GetActive (p, pi_Period inp, pi_CalcType inp) lg = Inr u \<and>
    c = (if t = ''MB'' then re_costPerUnit u else re_captiveCost u)"
  using bulkLoad_costs [OF assms(1)] by (elim exE) (rule LoadUpstreamCosts_Some [where costs = "lb_upstreamCosts b"], assumption, rule assms(2))

lemma pricedLine_product:
  assumes "pricedLine inp plan x d" "rd_RefCode d = ProductRef p"
  shows "ci_UpstreamCosts inp p = Some (rd_UnitCost d)"
proof -
  obtain level key rm where x: "x = (level, key, rm)" by (cases x)
  with assms have ref: "rmRefCode rm = ProductRef p" by (simp add: pricedLine_def)
  then have "rm_RmType rm = RmTypeProduct" "rm_RmProductSysID rm = p" by (auto simp: rmRefCode_def split: if_splits)
  with assms(1) show ?thesis by (simp add: pricedLine_def x)
qed

lemma ownLines_rm:
  "list_all2 (pricedLine inp plan) xs ds \<Longrightarrow> d \<in> set ds \<Longrightarrow> rd_RefCode d = ProductRef p \<Longrightarrow>
   ci_UpstreamCosts inp p = Some (rd_UnitCost d)"
  by (auto simp: in_set_conv_nth dest!: list_all2_nthD2 intro: pricedLine_product)

text \<open>(C20) Costs flow through committed results only: in every row that a chunk adds, a detail line that
  refers to another product was priced at what the active row of that product held, for the same
  period and calculation type, when the chunk started: its cost per unit for a master batch product,
  its captive cost for any other.\<close>

theorem upstream_prices_are_committed:
  assumes "ledger_step\<^sup>*\<^sup>* emptyLedger (fi_ledger fin)" "ServiceProcessChunk sv (\<lambda>_ _. id) inp now fin = (Inr out, fin')"
    "r \<in> set (drop (length (lg_rows (fi_ledger fin))) (lg_rows (fi_ledger fin')))"
    "d \<in> set (re_rmCostDetail r)" "rd_RefCode d = ProductRef p"
  shows "\<exists>t u. ld_MasterTypes (sv_loader sv) p = Some t \<and>
    GetActive (p, pi_Period inp, pi_CalcType inp) (fi_ledger fin) = Inr u \<and>
    rd_UnitCost d = (if t = ''MB'' then re_costPerUnit u else re_captiveCost u)"
proof -
  have ok: "ledgerOK (fi_ledger fin)" using ledger_steps_OK [OF assms(1) ledgerOK_empty] .
  have ne: "pi_Products inp \<noteq> []" using assms(2,3) by (auto simp: ServiceProcessChunk_def)
  from assms(2) ne show ?thesis
  proof (cases rule: ServiceProcessChunk_Inr)
    case (1 b fin1 fin2)
    from ok 1(1) have "ledgerOK (fi_ledger fin1)" by simp
    note t = turns_ledger [OF 1(4) this]
    have "storedBy sv inp b (pi_Products inp) r"
      using assms(3) t unfolding 1(1,5) newRows_def by (auto simp: in_set_conv_nth)
    then obtain route o1 where c: "ComputeProduct (computeInputOf sv inp (re_productSysID r) route b) = Inr o1"
      "re_rmCostDetail r = co_RMCostDetail o1" by (auto simp: storedBy_def)
    have "ci_Route (computeInputOf sv inp (re_productSysID r) route b) = Some route" by (simp add: computeInputOf_def)
    from ComputeProduct_priced [OF c(1) this] assms(4,5) c(2)
    have "ci_UpstreamCosts (computeInputOf sv inp (re_productSysID r) route b) p = Some (rd_UnitCost d)"
      by (auto intro: ownLines_rm)
    then have "lb_upstreamCosts b p = Some (rd_UnitCost d)" by (simp add: computeInputOf_def)
    then show ?thesis by (rule bulkLoad_upstream [OF 1(3)])
  qed
qed

section \<open>An example\<close>

text \<open>
  A chunk of two products: a yarn stage (product 1) fed by product 7, whose result is committed, and a
  product without a route.
\<close>

definition exampleService :: "rat calc_service" where
  "exampleService = \<lparr>sv_loader =
     \<lparr>ld_Routes = (\<lambda>_. Some [(1, exampleRoute)]),
      ld_CAPP = (\<lambda>_. Some (\<lambda>_. [''BASE'' \<mapsto> 2])),
      ld_Formulas = (\<lambda>_. Some (\<lambda>_. exampleFormulas)),
      ld_OilContext = (\<lambda>_. Some []), ld_SuperbaCost = (\<lambda>_. Some Map.empty),
      ld_RMCosts = (\<lambda>_ _ _. Some (ci_RMCosts exampleInput)),
      ld_MasterTypes = [1 \<mapsto> ''FDY'', 2 \<mapsto> ''FDY'', 7 \<mapsto> ''POY''],
      ld_CalculatedParams = (\<lambda>_. Some (\<lambda>_. [''CONV''])),
      ld_SpinFixedCost = (\<lambda>p. Some \<lparr>sp_Period = p, sp_Values = [''SPIN_POY_PRODUCTION'' \<mapsto> 100]\<rparr>),
      ld_TxWeight = None, ld_RMRatioModes = (\<lambda>_. Some (\<lambda>_. [])),
      ld_RMGroupDeniers = (\<lambda>_. Some (Map.empty, \<lambda>_. False)), ld_UpstreamDeniers = (\<lambda>_. Some Map.empty),
      ld_RMDenierOverrides = (\<lambda>_. None)\<rparr>,
     sv_cache = Some exampleLanguage, sv_mbProductGuard = Some (\<lambda>_. Some (\<lambda>_. False)),
     sv_rmRateOrderLoader = None, sv_rmLandedOrderLoader = None,
     sv_jobTriggerPub = None\<rparr>"

definition exampleUpstream :: "rat result" where
  "exampleUpstream = NewResult 7 ''202609'' CalcTypeActual 70
     \<lparr>co_CostPerUnit = 3, co_TotalRMCost = 2, co_TotalConversion = 1, co_TotalCost = 3, co_RMCostDetail = [],
      co_ParamSnapshot = [''VOLUME_BUCKET_1_LOSS'' \<mapsto> 5], co_FormulaTrace = [], co_CostByLevel = [], co_Notes = []\<rparr>
     4 ''worker'' 4 0 []"

definition exampleFinance :: "rat finance" where
  "exampleFinance = \<lparr>fi_ledger = snd (tryUpsert id exampleUpstream emptyLedger), fi_jobs = [],
     fi_chunks = [NewChunk 5 1 0 [1, 2]\<lparr>ck_id := 3\<rparr>],
     fi_products = [NewJobProduct 5 1 9 0, NewJobProduct 5 2 9 0], fi_history = [], fi_nextJobID = 6,
     fi_nextChunkID = 4, fi_triggered = []\<rparr>"

definition exampleChunk :: chunk_input where
  "exampleChunk = \<lparr>pi_JobID = 5, pi_ChunkID = 3, pi_Period = ''202609'', pi_CalcType = CalcTypeActual,
     pi_Products = [1, 2], pi_Actor = ''worker''\<rparr>"

definition exampleOutcome :: "(finance_error + chunk_output) \<times> rat finance" where
  "exampleOutcome = ServiceProcessChunk exampleService (\<lambda>_ _. id) exampleChunk 9 exampleFinance"

lemma exampleOutcome_all:
  "case exampleOutcome of (res, fin') \<Rightarrow>
     (case res of Inl _ \<Rightarrow> False | Inr out \<Rightarrow> po_Success out = 1 \<and> po_Failed out = 0 \<and> po_Blocked out = 1) \<and>
     map re_costPerUnit (lg_rows (fi_ledger fin')) = [3, 11] \<and>
     map ck_status (fi_chunks fin') = [ChunkStatusPartialFailed] \<and>
     map jp_status (fi_products fin') = [JobProductStatusSuccess, JobProductStatusBlocked] \<and>
     map (\<lambda>r. map rd_UnitCost (filter (\<lambda>d. rd_RefCode d = ProductRef 7) (re_rmCostDetail r))) (lg_rows (fi_ledger fin')) = [[], [4]]"
  by code_simp

lemma exampleBundle: "isInr (bulkLoad exampleService exampleChunk (fi_ledger exampleFinance))"
  by code_simp

lemma exampleFinance_reachable: "ledger_step\<^sup>*\<^sup>* emptyLedger (fi_ledger exampleFinance)"
  unfolding exampleFinance_def
  by (simp only: finance.simps) (rule r_into_rtranclp, rule ledger_step.Upsert, simp add: exampleUpstream_def NewResult_def)

lemma example_chunk:
  obtains out fin' where "ServiceProcessChunk exampleService (\<lambda>_ _. id) exampleChunk 9 exampleFinance = (Inr out, fin')"
    "po_Success out = 1" "po_Failed out = 0" "po_Blocked out = 1"
    "map re_costPerUnit (lg_rows (fi_ledger fin')) = [3, 11]"
    "map ck_status (fi_chunks fin') = [ChunkStatusPartialFailed]"
    "map (\<lambda>r. map rd_UnitCost (filter (\<lambda>d. rd_RefCode d = ProductRef 7) (re_rmCostDetail r))) (lg_rows (fi_ledger fin')) = [[], [4]]"
proof -
  obtain res fin' where run: "ServiceProcessChunk exampleService (\<lambda>_ _. id) exampleChunk 9 exampleFinance = (res, fin')"
    by (cases "ServiceProcessChunk exampleService (\<lambda>_ _. id) exampleChunk 9 exampleFinance")
  note facts = exampleOutcome_all [unfolded exampleOutcome_def run prod.case]
  show thesis
  proof (cases res)
    case (Inr out)
    show thesis
      by (rule that [OF run [unfolded Inr]]) (use facts in \<open>simp_all only: Inr sum.case\<close>)
  qed (use facts in simp)
qed

lemma exampleChunk_simps: "pi_Products exampleChunk = [1, 2]" "pi_ChunkID exampleChunk = 3"
  "pi_Period exampleChunk = ''202609''" "pi_CalcType exampleChunk = CalcTypeActual"
  by (simp_all add: exampleChunk_def)

theorem chunk_tallies_add_up_witness:
  "\<exists>out fin'. ServiceProcessChunk exampleService (\<lambda>_ _. id) exampleChunk 9 exampleFinance = (Inr out, fin') \<and>
     po_Success out + po_Failed out + po_Blocked out = 2 \<and> (\<exists>c \<in> set (fi_chunks fin'). ck_id c = 3)"
proof (rule example_chunk)
  fix out fin' assume run: "ServiceProcessChunk exampleService (\<lambda>_ _. id) exampleChunk 9 exampleFinance = (Inr out, fin')"
  have "po_Success out + po_Failed out + po_Blocked out = int (length (pi_Products exampleChunk)) \<and>
      (\<exists>c \<in> set (fi_chunks fin'). ck_id c = pi_ChunkID exampleChunk)"
    using chunk_tallies_add_up [OF run] by (simp add: exampleChunk_simps)
  with run show ?thesis unfolding exampleChunk_simps by auto
qed

theorem chunk_stores_its_own_results_witness:
  "\<exists>out fin'. ServiceProcessChunk exampleService (\<lambda>_ _. id) exampleChunk 9 exampleFinance = (Inr out, fin') \<and>
     length (lg_rows (fi_ledger fin')) = 2 \<and> ledger_step\<^sup>*\<^sup>* (fi_ledger exampleFinance) (fi_ledger fin')"
proof (rule example_chunk)
  fix out fin' assume run: "ServiceProcessChunk exampleService (\<lambda>_ _. id) exampleChunk 9 exampleFinance = (Inr out, fin')"
    and rows: "map re_costPerUnit (lg_rows (fi_ledger fin')) = [3, 11]"
  obtain b where "bulkLoad exampleService exampleChunk (fi_ledger exampleFinance) = Inr b" using isInrE [OF exampleBundle] by blast
  with chunk_stores_its_own_results [OF exampleFinance_reachable run] have "ledger_step\<^sup>*\<^sup>* (fi_ledger exampleFinance) (fi_ledger fin')"
    by (simp add: exampleChunk_simps)
  moreover have "length (lg_rows (fi_ledger fin')) = 2" using arg_cong [OF rows, of length] by simp
  ultimately show ?thesis using run by blast
qed

theorem upstream_prices_are_committed_witness:
  "\<exists>out fin' u. ServiceProcessChunk exampleService (\<lambda>_ _. id) exampleChunk 9 exampleFinance = (Inr out, fin') \<and>
     GetActive (7, ''202609'', CalcTypeActual) (fi_ledger exampleFinance) = Inr u \<and> re_captiveCost u = 4"
proof (rule example_chunk)
  fix out fin' assume run: "ServiceProcessChunk exampleService (\<lambda>_ _. id) exampleChunk 9 exampleFinance = (Inr out, fin')"
    and priced: "map (\<lambda>r. map rd_UnitCost (filter (\<lambda>d. rd_RefCode d = ProductRef 7) (re_rmCostDetail r))) (lg_rows (fi_ledger fin')) = [[], [4]]"
  from arg_cong [OF priced, of length] have "length (lg_rows (fi_ledger fin')) = 2" by simp
  then obtain r0 r where rows: "lg_rows (fi_ledger fin') = [r0, r]" by (auto simp: numeral_2_eq_2 length_Suc_conv)
  have one: "length (lg_rows (fi_ledger exampleFinance)) = 1" by code_simp
  from priced rows have "map rd_UnitCost (filter (\<lambda>d. rd_RefCode d = ProductRef 7) (re_rmCostDetail r)) = [4]" by simp
  then obtain d where d: "d \<in> set (re_rmCostDetail r)" "rd_RefCode d = ProductRef 7" "rd_UnitCost d = 4"
    by (force simp: map_eq_Cons_conv filter_eq_Cons_iff)
  have "r \<in> set (drop (length (lg_rows (fi_ledger exampleFinance))) (lg_rows (fi_ledger fin')))" by (simp add: one rows)
  from upstream_prices_are_committed [OF exampleFinance_reachable run this d(1,2)] d(3) obtain t u where
    "ld_MasterTypes (sv_loader exampleService) 7 = Some t" "t \<noteq> ''MB'' \<longrightarrow> 4 = re_captiveCost u"
    "GetActive (7, ''202609'', CalcTypeActual) (fi_ledger exampleFinance) = Inr u"
    by (auto simp: exampleChunk_simps split: if_splits)
  moreover from this(1) have "t = ''POY''" by (simp add: exampleService_def)
  ultimately show ?thesis using run by auto
qed

end
