(* ===== verification/TriggerFacts.thy ===== *)
theory TriggerFacts
  imports FinanceTrigger FinanceFacts
begin

text \<open>
  What the trigger of the finance service leaves behind: nothing when a guard refuses, the row of the job
  that it returns, and, for a product calculated inline, a verdict that is the stored result.
\<close>

section \<open>Rows under their key\<close>

definition storeOK :: "'f finance \<Rightarrow> bool" where
  "storeOK fin \<longleftrightarrow> 0 < fi_nextJobID fin \<and> 0 < fi_nextChunkID fin \<and>
     distinct (map jb_id (fi_jobs fin)) \<and> (\<forall>j \<in> set (fi_jobs fin). jb_id j < fi_nextJobID fin) \<and>
     distinct (map ck_id (fi_chunks fin)) \<and> (\<forall>c \<in> set (fi_chunks fin). ck_id c < fi_nextChunkID fin) \<and>
     distinct (map productKey (fi_products fin)) \<and> (\<forall>p \<in> set (fi_products fin). jp_jobID p < fi_nextJobID fin)"

lemma map_last_only:
  assumes "k row = i" "\<forall>x \<in> set xs. k x \<noteq> i"
  shows "map (\<lambda>x. if k x = i then f x else x) (xs @ [row]) = xs @ [f row]"
  using assms by (auto intro: map_idI)

lemma jobExec_last:
  assumes "fi_jobs fin = js @ [row]" "jb_id row = i" "\<forall>j \<in> set js. jb_id j \<noteq> i"
  shows "jobExecUpdate i f fin = (Inr (), fin\<lparr>fi_jobs := js @ [f row]\<rparr>)"
  unfolding jobExecUpdate_def assms(1) using map_last_only [of jb_id row i js f, OF assms(2,3)] assms(2) by simp

lemma chunkExec_last:
  assumes "fi_chunks fin = cs @ [row]" "ck_id row = i" "\<forall>c \<in> set cs. ck_id c \<noteq> i"
  shows "chunkExecUpdate i f fin = (Inr (), fin\<lparr>fi_chunks := cs @ [f row]\<rparr>)"
  unfolding chunkExecUpdate_def assms(1) using map_last_only [of ck_id row i cs f, OF assms(2,3)] assms(2) by simp

lemma productExec_last:
  assumes "fi_products fin = ps @ [row]" "productKey row = (jobID, pid)" "\<forall>p \<in> set ps. productKey p \<noteq> (jobID, pid)"
  shows "execJobProductUpdate jobID pid f fin = (Inr (), fin\<lparr>fi_products := ps @ [f row]\<rparr>)"
  unfolding execJobProductUpdate_def assms(1)
  using map_last_only [of productKey row "(jobID, pid)" ps f, OF assms(2,3)] assms(2) by simp

lemma markAndStore_last:
  assumes "fi_jobs fin = js @ [row]" "jb_id row = jb_id job" "\<forall>j \<in> set js. jb_id j \<noteq> jb_id job"
  shows "markAndStore (Inr job) fin = (Inr job, fin\<lparr>fi_jobs := js @ [row\<lparr>jb_status := jb_status job\<rparr>]\<rparr>)"
  by (simp add: markAndStore_def jobUpdateStatus_def jobExec_last [OF assms])

lemma storeCompletion_last:
  assumes "fi_jobs fin = js @ [row]" "jb_id row = jb_id job" "\<forall>j \<in> set js. jb_id j \<noteq> jb_id job"
    "JobMarkComplete job succ fl blocked later = Inr job'"
  shows "storeCompletion succ fl blocked job later fin =
    (Inr job', fin\<lparr>fi_jobs := js @ [row\<lparr>jb_status := jb_status job', jb_successCount := intToInt32 succ,
       jb_failedCount := intToInt32 fl, jb_blockedCount := intToInt32 blocked, jb_completedAt := Some later,
       jb_durationMs := jb_durationMs job'\<rparr>]\<rparr>)"
proof -
  have "jb_id job' = jb_id job" using assms(4) by (auto simp: JobMarkComplete_def endedAt_def split: if_splits)
  with assms show ?thesis
    by (simp add: storeCompletion_def jobUpdateCompletion_def jobExec_last [of fin js row])
qed

lemma small_int32 [simp]: "intToInt32 0 = 0" "intToInt32 1 = 1"
  by (simp_all add: intToInt32_def)

section \<open>The inline path, step by step\<close>

definition queuedJob :: "trigger_command \<Rightarrow> product_filter option \<Rightarrow> time \<Rightarrow> int \<Rightarrow> job" where
  "queuedJob cmd pfilter now i =
     \<lparr>jb_id = i, jb_period = tc_Period cmd, jb_calcType = tc_CalcType cmd, jb_scope = tc_Scope cmd,
      jb_productFilter = pfilter, jb_status = JobStatusQueued, jb_priority = 5, jb_totalProducts = 0,
      jb_totalChunks = 0, jb_totalWaves = 0, jb_processedChunks = 0, jb_successCount = 0, jb_failedCount = 0,
      jb_blockedCount = 0, jb_triggeredBy = tc_TriggeredBy cmd, jb_queuedAt = now, jb_startedAt = None,
      jb_completedAt = None, jb_durationMs = 0, jb_createdBy = tc_Actor cmd\<rparr>"

definition withJob :: "job \<Rightarrow> 'f finance \<Rightarrow> 'f finance" where
  "withJob job fin = fin\<lparr>fi_jobs := fi_jobs fin @ [job], fi_nextJobID := fi_nextJobID fin + 1\<rparr>"

lemma NewJob_create:
  assumes "NewJob (tc_Period cmd) (tc_CalcType cmd) (tc_Scope cmd) pfilter (tc_TriggeredBy cmd) (tc_Actor cmd) now = Inr new"
  shows "jobCreate new fin = (queuedJob cmd pfilter now (fi_nextJobID fin), withJob (queuedJob cmd pfilter now (fi_nextJobID fin)) fin)"
  using assms by (auto simp: NewJob_def jobCreate_def Let_def queuedJob_def withJob_def split: if_splits)

lemma planJob_last:
  assumes "fi_jobs fin = js @ [job]" "\<forall>j \<in> set js. jb_id j \<noteq> jb_id job" "jb_status job = JobStatusQueued"
  shows "planJob job fin =
    (let job' = SetTotals (job\<lparr>jb_status := JobStatusPlanning\<rparr>) 1 1 1 in (Inr job', fin\<lparr>fi_jobs := js @ [job']\<rparr>))"
proof -
  have mark: "JobMarkPlanning job = Inr (job\<lparr>jb_status := JobStatusPlanning\<rparr>)" using assms(3) by (simp add: JobMarkPlanning_def)
  show ?thesis
    unfolding planJob_def mark
    by (subst markAndStore_last [of fin js job]) (use assms in \<open>simp_all add: jobUpdateTotals_def jobExec_last SetTotals_def Let_def\<close>)
qed

lemma seed_tables:
  "fi_jobs (snd (seedChunkAndProduct job cmd headID fin)) = fi_jobs fin"
  by (simp add: seedChunkAndProduct_def chunkCreate_def Let_def BulkCreate_def tryFin_def AssignChunk_def
      execJobProductUpdate_def)

definition seededChunk :: "int \<Rightarrow> int \<Rightarrow> int \<Rightarrow> chunk" where
  "seededChunk i jobID pid = NewChunk jobID 1 0 [pid]\<lparr>ck_id := i\<rparr>"

definition seededProduct :: "int \<Rightarrow> int \<Rightarrow> int \<Rightarrow> int \<Rightarrow> 'f job_product" where
  "seededProduct chunkID jobID pid headID = NewJobProduct jobID pid headID 0\<lparr>jp_chunkID := chunkID\<rparr>"

lemma seed_new:
  assumes "\<forall>p \<in> set (fi_products fin). jp_jobID p \<noteq> jb_id job" "distinct (map productKey (fi_products fin))"
  shows "seedChunkAndProduct job cmd headID fin =
    (Inr (seededChunk (fi_nextChunkID fin) (jb_id job) (tc_ProductSysID cmd)),
     fin\<lparr>fi_chunks := fi_chunks fin @ [seededChunk (fi_nextChunkID fin) (jb_id job) (tc_ProductSysID cmd)],
         fi_nextChunkID := fi_nextChunkID fin + 1,
         fi_products := fi_products fin @ [seededProduct (fi_nextChunkID fin) (jb_id job) (tc_ProductSysID cmd) headID]\<rparr>)"
proof -
  have new: "List.map_filter id [Some p] = [p]" for p :: "'a job_product" by (simp add: List.map_filter_def)
  have "(jb_id job, tc_ProductSysID cmd) \<notin> productKey ` set (fi_products fin)"
    using assms(1) by (auto simp: productKey_def)
  then have d: "distinct (map productKey (fi_products fin @ [NewJobProduct (jb_id job) (tc_ProductSysID cmd) headID 0]))"
    using assms(2) by (simp add: productKey_def NewJobProduct_def)
  have others: "\<forall>p \<in> set (fi_products fin). productKey p \<noteq> (jb_id job, tc_ProductSysID cmd)"
    using assms(1) by (auto simp: productKey_def)
  show ?thesis
    unfolding seedChunkAndProduct_def chunkCreate_def BulkCreate_def new Let_def prod.case AssignChunk_def
    using d others
    by (simp add: NewJobProduct_def [of "jb_id job"] productExec_last [of _ "fi_products fin"] productKey_def seededChunk_def
        seededProduct_def NewChunk_def)
qed

text \<open>The chunk on the row just seeded: it fails only when loading does, and ends with its verdict.\<close>

lemma chunk_start_last:
  assumes "fi_chunks fin = cs @ [c]" "ck_id c = i" "\<forall>x \<in> set cs. ck_id x \<noteq> i"
  shows "chunkUpdateStatus i ChunkStatusProcessing wid now fin =
    (Inr (), fin\<lparr>fi_chunks := cs @ [c\<lparr>ck_status := ChunkStatusProcessing, ck_workerID := wid, ck_startedAt := Some now\<rparr>]\<rparr>)"
  by (simp add: chunkUpdateStatus_def chunkExec_last [OF assms])

lemma ServiceProcessChunk_last:
  fixes now :: time
  assumes "fi_chunks fin = cs @ [c]" "ck_id c = pi_ChunkID inp" "\<forall>x \<in> set cs. ck_id x \<noteq> pi_ChunkID inp"
    and "pi_ChunkID inp \<noteq> 0" "pi_Products inp = [pid]"
  defines "started \<equiv> fin\<lparr>fi_chunks := cs @ [c\<lparr>ck_status := ChunkStatusProcessing, ck_workerID := ''inline'', ck_startedAt := Some now\<rparr>]\<rparr>"
  shows "ServiceProcessChunk sv others inp now fin =
    (case bulkLoad sv inp (fi_ledger fin) of
       Inl e \<Rightarrow> (Inl e, started)
     | Inr b \<Rightarrow> (case computeOne sv (others pid) inp b pid now started of (r, fin2) \<Rightarrow>
         let out = tally r noOutput
         in (Inr out, fin2\<lparr>fi_chunks := cs @ [c\<lparr>ck_status := finalChunkStatus out, ck_workerID := ''inline'',
              ck_startedAt := Some now, ck_successCount := po_Success out, ck_failedCount := po_Failed out,
              ck_durationMs := 0, ck_errorMessage := [], ck_completedAt := Some now\<rparr>]\<rparr>)))"
proof -
  note start = chunk_start_last [OF assms(1-3), of "''inline''" now, folded started_def]
  have lg: "fi_ledger started = fi_ledger fin" by (simp add: started_def)
  show ?thesis
  proof (cases "bulkLoad sv inp (fi_ledger fin)")
    case (Inl e)
    then show ?thesis using assms(4,5) by (simp add: ServiceProcessChunk_def start lg)
  next
    case (Inr b)
    obtain r fin2 where turn: "computeOne sv (others pid) inp b pid now started = (r, fin2)"
      by (cases "computeOne sv (others pid) inp b pid now started")
    have rows: "fi_chunks fin2 = cs @ [c\<lparr>ck_status := ChunkStatusProcessing, ck_workerID := ''inline'', ck_startedAt := Some now\<rparr>]"
      using computeOne_cases [OF turn] by (simp add: started_def)
    have counts: "intToInt32 (po_Success (tally r noOutput)) = po_Success (tally r noOutput)"
      "intToInt32 (po_Failed (tally r noOutput)) = po_Failed (tally r noOutput)"
      by (cases r; simp add: tally_def noOutput_def)+
    have finish: "chunkUpdateResult (pi_ChunkID inp) (finalChunkStatus (tally r noOutput)) (po_Success (tally r noOutput))
        (po_Failed (tally r noOutput)) 0 [] now fin2 = (Inr (), fin2\<lparr>fi_chunks := cs @ [c\<lparr>ck_status := finalChunkStatus (tally r noOutput),
          ck_workerID := ''inline'', ck_startedAt := Some now, ck_successCount := po_Success (tally r noOutput),
          ck_failedCount := po_Failed (tally r noOutput), ck_durationMs := 0, ck_errorMessage := [], ck_completedAt := Some now\<rparr>]\<rparr>)"
      unfolding chunkUpdateResult_def by (subst chunkExec_last [OF rows]) (use assms(2,3) counts in simp_all)
    show ?thesis
      unfolding Inr sum.case turn prod.case Let_def
      using assms(4,5) by (simp add: ServiceProcessChunk_def start lg Inr processProduct_apply turn finish)
  qed
qed

text \<open>The turn of the product just seeded, and its row.\<close>

definition rowStatus :: "product_outcome \<Rightarrow> job_product_status" where
  "rowStatus r = (case r of productOutcomeSuccess \<Rightarrow> JobProductStatusSuccess
     | productOutcomeBlocked \<Rightarrow> JobProductStatusBlocked | productOutcomeFailed \<Rightarrow> JobProductStatusFailed)"

lemma Upsert_stored:
  assumes ok: "ledgerOK lg" and new: "re_status r = ResultStatusCalculated" and unlocked: "\<not> keyLocked (rowKey r) lg"
  shows "\<exists>pv pt pi row lg'. UpsertWithSupersede (\<lambda>_. id) r lg = (Inr (lg_nextID lg, pv, pt, pi), lg') \<and>
    GetActive (rowKey r) lg' = Inr row \<and> re_id row = lg_nextID lg \<and> re_jobID row = re_jobID r"
proof -
  have three: "(3::nat) = Suc 2" by simp
  let ?lg' = "snd (tryUpsert id r lg)"
  have ok': "ledgerOK ?lg'" using ledger_step_OK [OF ledger_step.Upsert [OF new] ok] .
  have keys: "keyRows (rowKey r) ?lg' = map (\<lambda>x. if rowKey x = rowKey r then x\<lparr>re_status := ResultStatusSuperseded\<rparr> else x)
      (keyRows (rowKey r) lg) @ [r\<lparr>re_id := lg_nextID lg, re_version := intToInt32 (int (length (keyRows (rowKey r) lg)) + 1)\<rparr>]"
    unfolding tryUpsert_alone [OF ok unlocked] keyRows_def by (simp add: filter_map_same)
  have "GetActive (rowKey r) ?lg' = Inr (r\<lparr>re_id := lg_nextID lg, re_version := intToInt32 (int (length (keyRows (rowKey r) lg)) + 1)\<rparr>)"
    unfolding GetActive_last [OF ok'] keys by simp
  moreover obtain pv pt pi where "tryUpsert id r lg = (Inr (lg_nextID lg, pv, pt, pi), ?lg')"
    by (simp add: tryUpsert_alone [OF ok unlocked])
  then have "UpsertWithSupersede (\<lambda>_. id) r lg = (Inr (lg_nextID lg, pv, pt, pi), ?lg')"
    unfolding UpsertWithSupersede_def upsertMaxRetries_def three upsertLoop.simps(2) by (cases "tryUpsert id r lg") simp
  ultimately show ?thesis
    by (intro exI conjI) (assumption, assumption, simp_all)
qed

definition turnEnds :: "chunk_input \<Rightarrow> int \<Rightarrow> 'f job_product list \<Rightarrow> 'f job_product \<Rightarrow> 'f finance \<Rightarrow> product_outcome \<Rightarrow> 'f finance \<Rightarrow> bool" where
  "turnEnds inp pid ps p fin r fin' \<longleftrightarrow> (\<exists>p'. fi_products fin' = ps @ [p'] \<and> productKey p' = productKey p \<and>
     jp_chunkID p' = jp_chunkID p \<and> jp_status p' = rowStatus r \<and>
     (r \<noteq> productOutcomeSuccess \<longrightarrow> fi_ledger fin' = fi_ledger fin) \<and>
     (r = productOutcomeSuccess \<longrightarrow> (\<exists>row. GetActive (pid, pi_Period inp, pi_CalcType inp) (fi_ledger fin') = Inr row \<and>
        re_id row = jp_costID p' \<and> re_jobID row = pi_JobID inp)))"

lemma computeOne_row:
  assumes turn: "computeOne sv (\<lambda>_. id) inp b pid now fin = (r, fin')" and ok: "ledgerOK (fi_ledger fin)"
    and row: "fi_products fin = ps @ [p]" "productKey p = (pi_JobID inp, pid)" "\<forall>x \<in> set ps. productKey x \<noteq> (pi_JobID inp, pid)"
  shows "turnEnds inp pid ps p fin r fin'"
proof (cases "lb_mbProducts b pid \<or> headedRoute b pid = None")
  case True
  with turn have "r = productOutcomeBlocked \<and> (\<exists>reason. fin' = snd (MarkProductBlocked (pi_JobID inp) pid reason NoLog now fin))"
    by (cases "lb_mbProducts b pid") (auto simp: computeOne_def)
  then show ?thesis
    by (auto simp: turnEnds_def rowStatus_def MarkProductBlocked_def productExec_last [OF row] productKey_def)
next
  case False
  then obtain route head where h: "headedRoute b pid = Some (route, head)" "\<not> lb_mbProducts b pid" by fastforce
  show ?thesis
  proof (cases "ComputeProduct (computeInputOf sv inp pid route b)")
    case (Inl err)
    with turn h have "recordComputeError inp pid err now fin = (r, fin')" by (simp add: computeOne_def)
    then show ?thesis
      by (auto simp: recordComputeError_def turnEnds_def rowStatus_def MarkProductBlocked_def MarkProductFailed_def
          productExec_last [OF row] productKey_def split: option.splits)
  next
    case (Inr out)
    let ?r = "resultOf inp pid (hd_HeadID head) out"
    have persist: "computeOne sv (\<lambda>_. id) inp b pid now fin =
        (case persistResult (\<lambda>_. id) inp pid (hd_HeadID head) out (sp_Period (lb_spinPool b)) now fin of
           (Inl e, fin') \<Rightarrow> (productOutcomeFailed, snd (MarkProductFailed (pi_JobID inp) pid e (ErrorLog e) now fin'))
         | (Inr _, fin') \<Rightarrow> (productOutcomeSuccess, fin'))"
      using h Inr by (simp add: computeOne_def)
    show ?thesis
    proof (cases "keyLocked (rowKey ?r) (fi_ledger fin)")
      case True
      then have up: "UpsertWithSupersede (\<lambda>_. id) ?r (fi_ledger fin) = (Inl PeriodIsLocked, fi_ledger fin)"
        using Upsert_alone [OF ok, of ?r] by simp
      have "persistResult (\<lambda>_. id) inp pid (hd_HeadID head) out (sp_Period (lb_spinPool b)) now fin = (Inl (StoreFailed PeriodIsLocked), fin)"
        by (simp add: persistResult_def up)
      with persist turn have "r = productOutcomeFailed" "fin' = snd (MarkProductFailed (pi_JobID inp) pid (StoreFailed PeriodIsLocked)
          (ErrorLog (StoreFailed PeriodIsLocked)) now fin)" by simp_all
      then show ?thesis
        by (simp add: turnEnds_def rowStatus_def MarkProductFailed_def productExec_last [OF row] productKey_def)
    next
      case False
      obtain pv pt pi new lg' where up: "UpsertWithSupersede (\<lambda>_. id) ?r (fi_ledger fin) = (Inr (lg_nextID (fi_ledger fin), pv, pt, pi), lg')"
        and new: "GetActive (rowKey ?r) lg' = Inr new" "re_id new = lg_nextID (fi_ledger fin)" "re_jobID new = re_jobID ?r"
        using Upsert_stored [OF ok resultOf_simps(1) False] by blast
      obtain fin2 where fin2: "persistResult (\<lambda>_. id) inp pid (hd_HeadID head) out (sp_Period (lb_spinPool b)) now fin =
          MarkProductSuccess (pi_JobID inp) pid (lg_nextID (fi_ledger fin)) 0 (TraceLog out (sp_Period (lb_spinPool b))) now fin2"
        "fi_products fin2 = fi_products fin" "fi_ledger fin2 = lg'"
        by (simp add: persistResult_def up Let_def writeRecomputeAudit_def writeHistory_def)
      have row2: "fi_products fin2 = ps @ [p]" using fin2(2) row(1) by simp
      have "r = productOutcomeSuccess" "fin' = snd (MarkProductSuccess (pi_JobID inp) pid (lg_nextID (fi_ledger fin)) 0
          (TraceLog out (sp_Period (lb_spinPool b))) now fin2)"
        using turn unfolding persist fin2(1) by (simp_all add: MarkProductSuccess_def productExec_last [OF row2 row(2,3)])
      with new fin2(3) show ?thesis
        by (simp add: turnEnds_def rowStatus_def MarkProductSuccess_def productExec_last [OF row2 row(2,3)] productKey_def)
    qed
  qed
qed

section \<open>The inline path as a whole\<close>

abbreviation startedJob :: "job \<Rightarrow> time option \<Rightarrow> job" where
  "startedJob job started \<equiv>
     SetTotals (job\<lparr>jb_status := JobStatusPlanning\<rparr>) 1 1 1\<lparr>jb_status := JobStatusProcessing, jb_startedAt := started\<rparr>"

definition seededFinance :: "job list \<Rightarrow> job \<Rightarrow> int \<Rightarrow> int \<Rightarrow> chunk \<Rightarrow> 'f finance \<Rightarrow> 'f finance" where
  "seededFinance js job pid headID c fin = fin\<lparr>fi_jobs := js @ [startedJob job None], fi_chunks := fi_chunks fin @ [c],
     fi_nextChunkID := fi_nextChunkID fin + 1,
     fi_products := fi_products fin @ [seededProduct (fi_nextChunkID fin) (jb_id job) pid headID]\<rparr>"

definition freshJob :: "job list \<Rightarrow> job \<Rightarrow> 'f finance \<Rightarrow> bool" where
  "freshJob js job fin \<longleftrightarrow> fi_jobs fin = js @ [job] \<and> (\<forall>j \<in> set js. jb_id j \<noteq> jb_id job) \<and>
     jb_status job = JobStatusQueued \<and> jb_startedAt job = None \<and> jb_completedAt job = None \<and> jb_durationMs job = 0 \<and>
     (\<forall>p \<in> set (fi_products fin). jp_jobID p \<noteq> jb_id job) \<and> distinct (map productKey (fi_products fin)) \<and>
     0 < fi_nextChunkID fin \<and> (\<forall>c \<in> set (fi_chunks fin). ck_id c < fi_nextChunkID fin)"

lemma calculateInline_started:
  fixes cmd :: trigger_command
  assumes "freshJob js job fin"
  defines "chunk \<equiv> seededChunk (fi_nextChunkID fin) (jb_id job) (tc_ProductSysID cmd)"
  shows "calculateInline h others cmd headID job now later fin =
    tryFin (ServiceProcessChunk (th_svc h) others (inlineChunk cmd job chunk) later
        (seededFinance js job (tc_ProductSysID cmd) headID chunk fin))
      (\<lambda>out fin. completeJob (startedJob job (Some now)) out later fin)"
proof -
  from assms(1) have jobs: "fi_jobs fin = js @ [job]" "\<forall>j \<in> set js. jb_id j \<noteq> jb_id job"
    and new: "jb_status job = JobStatusQueued" "jb_startedAt job = None"
    and ps: "\<forall>p \<in> set (fi_products fin). jp_jobID p \<noteq> jb_id job" "distinct (map productKey (fi_products fin))"
    by (simp_all add: freshJob_def)
  let ?planned = "SetTotals (job\<lparr>jb_status := JobStatusPlanning\<rparr>) 1 1 1"
  let ?fin1 = "fin\<lparr>fi_jobs := js @ [?planned]\<rparr>"
  have id: "jb_id ?planned = jb_id job" by (simp add: SetTotals_def)
  have plan: "planJob job fin = (Inr ?planned, ?fin1)" using planJob_last [OF jobs new(1)] by (simp add: Let_def)
  obtain fin2 where seed: "seedChunkAndProduct ?planned cmd headID ?fin1 = (Inr chunk, fin2)"
    and fin2: "fin2\<lparr>fi_jobs := js @ [startedJob job None]\<rparr> = seededFinance js job (tc_ProductSysID cmd) headID chunk fin"
    and jobs2: "fi_jobs fin2 = js @ [?planned]"
    using seed_new [of ?fin1 ?planned cmd headID] ps by (simp add: id chunk_def seededFinance_def)
  have mark: "JobMarkProcessing ?planned now = Inr (startedJob job (Some now))" by (simp add: JobMarkProcessing_def SetTotals_def)
  have row: "startedJob job None = ?planned\<lparr>jb_status := JobStatusProcessing\<rparr>" using new(2) by (simp add: SetTotals_def)
  have stored: "markAndStore (JobMarkProcessing ?planned now) fin2 =
      (Inr (startedJob job (Some now)), seededFinance js job (tc_ProductSysID cmd) headID chunk fin)"
    unfolding mark fin2 [symmetric] row by (subst markAndStore_last [OF jobs2]) (use jobs id in simp_all)
  have inp: "inlineChunk cmd (startedJob job (Some now)) chunk = inlineChunk cmd job chunk"
    by (simp add: inlineChunk_def SetTotals_def)
  show ?thesis unfolding calculateInline_def plan tryFin_simps seed stored inp ..
qed

lemma calculateInline_cases:
  assumes run: "calculateInline h others cmd headID job now later fin = (res, fin')" and fresh: "freshJob js job fin"
  defines "pid \<equiv> tc_ProductSysID cmd"
  defines "chunk \<equiv> seededChunk (fi_nextChunkID fin) (jb_id job) pid"
  defines "inp \<equiv> inlineChunk cmd job chunk"
  obtains
    (unloaded) e started where "res = Inl e" "bulkLoad (th_svc h) inp (fi_ledger fin) = Inl e"
      "fin' = (seededFinance js job pid headID started fin)" "ck_status started = ChunkStatusProcessing"
  | (ended) b started r fin2 c job' where "bulkLoad (th_svc h) inp (fi_ledger fin) = Inr b"
      "computeOne (th_svc h) (others pid) inp b pid later (seededFinance js job pid headID started fin) = (r, fin2)"
      "res = Inr job'"
      "JobMarkComplete (startedJob job (Some now)) (po_Success (tally r noOutput)) (po_Failed (tally r noOutput))
         (po_Blocked (tally r noOutput)) later = Inr job'"
      "fin' = fin2\<lparr>fi_chunks := fi_chunks fin @ [c], fi_jobs := js @ [job'\<lparr>jb_startedAt := None\<rparr>]\<rparr>"
      "ck_status c = finalChunkStatus (tally r noOutput)" "ck_id c = fi_nextChunkID fin" "ck_jobID c = jb_id job" "ck_productIDs c = [pid]"
proof -
  let ?started = "chunk\<lparr>ck_status := ChunkStatusProcessing, ck_workerID := ''inline'', ck_startedAt := Some later\<rparr>"
  let ?world = "\<lambda>c. seededFinance js job pid headID c fin"
  from fresh have jobs: "\<forall>j \<in> set js. jb_id j \<noteq> jb_id job" and chunks: "\<forall>c \<in> set (fi_chunks fin). ck_id c \<noteq> fi_nextChunkID fin"
    and pos: "fi_nextChunkID fin \<noteq> 0" by (auto simp: freshJob_def)
  have one: "pi_Products inp = [pid]" "pi_ChunkID inp = fi_nextChunkID fin" "ck_id chunk = fi_nextChunkID fin"
    by (simp_all add: inp_def inlineChunk_def chunk_def seededChunk_def pid_def)
  have world: "fi_chunks (?world chunk) = fi_chunks fin @ [chunk]" "fi_ledger (?world chunk) = fi_ledger fin"
    "?world chunk\<lparr>fi_chunks := fi_chunks fin @ [?started]\<rparr> = ?world ?started"
    by (simp_all add: seededFinance_def)
  have chunk: "ServiceProcessChunk (th_svc h) others inp later (?world chunk) =
      (case bulkLoad (th_svc h) inp (fi_ledger fin) of
         Inl e \<Rightarrow> (Inl e, ?world ?started)
       | Inr b \<Rightarrow> (case computeOne (th_svc h) (others pid) inp b pid later (?world ?started) of (r, fin2) \<Rightarrow>
           let out = tally r noOutput
           in (Inr out, fin2\<lparr>fi_chunks := fi_chunks fin @ [chunk\<lparr>ck_status := finalChunkStatus out, ck_workerID := ''inline'',
                ck_startedAt := Some later, ck_successCount := po_Success out, ck_failedCount := po_Failed out,
                ck_durationMs := 0, ck_errorMessage := [], ck_completedAt := Some later\<rparr>]\<rparr>)))"
  proof -
    have "ck_id chunk = pi_ChunkID inp" "\<forall>x \<in> set (fi_chunks fin). ck_id x \<noteq> pi_ChunkID inp" "pi_ChunkID inp \<noteq> 0"
      using chunks pos one by simp_all
    from ServiceProcessChunk_last [OF world(1) this one(1), of "th_svc h" others later]
    show ?thesis unfolding world .
  qed
  have run': "(res, fin') = tryFin (ServiceProcessChunk (th_svc h) others inp later (?world chunk))
      (\<lambda>out fin. completeJob (startedJob job (Some now)) out later fin)"
    using run unfolding calculateInline_started [OF fresh] inp_def chunk_def pid_def by simp
  show thesis
  proof (cases "bulkLoad (th_svc h) inp (fi_ledger fin)")
    case (Inl e)
    with run' show thesis by (intro unloaded [of e ?started]) (simp_all add: chunk)
  next
    case (Inr b)
    obtain r fin2 where turn: "computeOne (th_svc h) (others pid) inp b pid later (?world ?started) = (r, fin2)"
      by (cases "computeOne (th_svc h) (others pid) inp b pid later (?world ?started)")
    let ?out = "tally r noOutput"
    let ?c = "chunk\<lparr>ck_status := finalChunkStatus ?out, ck_workerID := ''inline'',
                ck_startedAt := Some later, ck_successCount := po_Success ?out, ck_failedCount := po_Failed ?out,
                ck_durationMs := 0, ck_errorMessage := [], ck_completedAt := Some later\<rparr>"
    obtain job' where finished: "JobMarkComplete (startedJob job (Some now)) (po_Success ?out) (po_Failed ?out) (po_Blocked ?out) later = Inr job'"
      by (simp add: JobMarkComplete_def)
    have jobs2: "fi_jobs (fin2\<lparr>fi_chunks := fi_chunks fin @ [?c]\<rparr>) = js @ [startedJob job None]"
      using computeOne_cases [OF turn] by (simp add: seededFinance_def)
    have counts: "intToInt32 (po_Success ?out) = po_Success ?out" "intToInt32 (po_Failed ?out) = po_Failed ?out"
      "intToInt32 (po_Blocked ?out) = po_Blocked ?out"
      by (cases r; simp add: tally_def noOutput_def)+
    have complete: "completeJob (startedJob job (Some now)) ?out later (fin2\<lparr>fi_chunks := fi_chunks fin @ [?c]\<rparr>) =
        (Inr job', fin2\<lparr>fi_chunks := fi_chunks fin @ [?c], fi_jobs := js @ [job'\<lparr>jb_startedAt := None\<rparr>]\<rparr>)"
      unfolding completeJob_def
      by (subst storeCompletion_last [OF jobs2 _ _ finished])
        (use jobs finished counts in \<open>auto simp: SetTotals_def JobMarkComplete_def endedAt_def\<close>)
    have ends: "res = Inr job'" "fin' = fin2\<lparr>fi_chunks := fi_chunks fin @ [?c], fi_jobs := js @ [job'\<lparr>jb_startedAt := None\<rparr>]\<rparr>"
      using run' [unfolded chunk Inr sum.case turn prod.case Let_def tryFin_simps complete] by simp_all
    show thesis
      by (rule ended [OF Inr turn ends(1) finished ends(2)]) (simp_all add: chunk_def seededChunk_def NewChunk_def)
  qed
qed

definition missingRouteJob :: "job \<Rightarrow> time \<Rightarrow> time \<Rightarrow> job" where
  "missingRouteJob job now later = endedAt later (job\<lparr>jb_status := JobStatusFailed, jb_startedAt := Some now,
     jb_successCount := 0, jb_failedCount := 0, jb_blockedCount := 1\<rparr>)"

lemma finalizeMissingRoute_ends:
  assumes "freshJob js job fin"
  shows "finalizeMissingRoute job now later fin =
    (Inr (missingRouteJob job now later), fin\<lparr>fi_jobs := js @ [missingRouteJob job now later\<lparr>jb_startedAt := None\<rparr>]\<rparr>)"
proof -
  from assms have jobs: "fi_jobs fin = js @ [job]" "\<forall>j \<in> set js. jb_id j \<noteq> jb_id job"
    and new: "jb_status job = JobStatusQueued" "jb_startedAt job = None" by (simp_all add: freshJob_def)
  let ?planned = "job\<lparr>jb_status := JobStatusPlanning\<rparr>" and ?row = "job\<lparr>jb_status := JobStatusProcessing\<rparr>"
  have plan: "markAndStore (JobMarkPlanning job) fin = (Inr ?planned, fin\<lparr>fi_jobs := js @ [?planned]\<rparr>)"
    using new(1) by (simp add: JobMarkPlanning_def) (subst markAndStore_last [OF jobs(1)], use jobs(2) in simp_all)
  have start: "markAndStore (JobMarkProcessing ?planned now) (fin\<lparr>fi_jobs := js @ [?planned]\<rparr>) =
      (Inr (?row\<lparr>jb_startedAt := Some now\<rparr>), fin\<lparr>fi_jobs := js @ [?row]\<rparr>)"
    by (simp add: JobMarkProcessing_def) (subst markAndStore_last [of _ js ?planned], use jobs(2) in simp_all)
  let ?done = "missingRouteJob job now later"
  have complete: "JobMarkComplete (?row\<lparr>jb_startedAt := Some now\<rparr>) 0 0 1 later = Inr ?done"
    by (simp add: JobMarkComplete_def missingRouteJob_def endedAt_def)
  have row: "?row\<lparr>jb_status := jb_status ?done, jb_successCount := intToInt32 0, jb_failedCount := intToInt32 0,
      jb_blockedCount := intToInt32 1, jb_completedAt := Some later, jb_durationMs := jb_durationMs ?done\<rparr> = ?done\<lparr>jb_startedAt := None\<rparr>"
    using new(2) by (cases job) (simp add: missingRouteJob_def endedAt_def)
  have "storeCompletion 0 0 1 (?row\<lparr>jb_startedAt := Some now\<rparr>) later (fin\<lparr>fi_jobs := js @ [?row]\<rparr>) =
      (Inr ?done, fin\<lparr>fi_jobs := js @ [?done\<lparr>jb_startedAt := None\<rparr>]\<rparr>)"
    by (subst storeCompletion_last [OF _ _ _ complete, of _ js ?row]) (use jobs(2) in \<open>simp_all add: row [simplified]\<close>)
  then show ?thesis unfolding finalizeMissingRoute_def plan start tryFin_simps .
qed

lemma freshJob_created:
  assumes "storeOK fin"
  shows "freshJob (fi_jobs fin) (queuedJob cmd pfilter now (fi_nextJobID fin)) (withJob (queuedJob cmd pfilter now (fi_nextJobID fin)) fin)"
  using assms by (auto simp: storeOK_def freshJob_def withJob_def queuedJob_def)

lemma TriggerInline_created:
  assumes "TriggerInline h others cmd now later fin = (res, fin')" "storeOK fin"
  obtains (invalid) "res = Inl ErrInvalidPeriod" "fin' = fin"
  | (created) job fin1 where "job = queuedJob cmd (givenFilter (tc_Filter cmd)) now (fi_nextJobID fin)" "fin1 = withJob job fin"
      "freshJob (fi_jobs fin) job fin1"
      "(res, fin') = (case resolveRouteHead h (tc_ProductSysID cmd) of
             Inl e \<Rightarrow> (Inl e, fin1)
           | Inr None \<Rightarrow> finalizeMissingRoute job now later fin1
           | Inr (Some routeHeadID) \<Rightarrow> calculateInline h others cmd routeHeadID job now later fin1)"
proof (cases "NewJob (tc_Period cmd) (tc_CalcType cmd) (tc_Scope cmd) (givenFilter (tc_Filter cmd)) (tc_TriggeredBy cmd) (tc_Actor cmd) now")
  case (Inl e)
  then have "e = ErrInvalidPeriod" by (simp add: NewJob_def split: if_splits)
  with assms(1) Inl invalid show thesis by (simp add: TriggerInline_def)
next
  case (Inr new)
  from created [OF refl refl freshJob_created [OF assms(2)]] show thesis
    using assms(1) unfolding TriggerInline_def Inr sum.case NewJob_create [OF Inr] prod.case by simp
qed

lemma dispatch_cases:
  assumes "dispatchToOrchestrator h cmd now fin = (res, fin')" "storeOK fin"
  obtains (refused) e where "res = Inl e" "fin' = fin"
  | (published) job where "job = queuedJob cmd (buildScopeFilter cmd) now (fi_nextJobID fin)" "res = Inr job"
      "fin' = withJob job fin\<lparr>fi_triggered := fi_triggered fin @ [jb_id job]\<rparr>"
  | (unpublished) job where "job = queuedJob cmd (buildScopeFilter cmd) now (fi_nextJobID fin)" "res = Inl PublishFailed"
      "fin' = withJob (job\<lparr>jb_status := JobStatusFailed\<rparr>) fin"
proof (cases "sv_jobTriggerPub (th_svc h)")
  case None
  with assms(1) refused [of ErrScopeNotYetSupported] show thesis by (simp add: dispatchToOrchestrator_def)
next
  case (Some publish)
  show thesis
  proof (cases "NewJob (tc_Period cmd) (tc_CalcType cmd) (tc_Scope cmd) (buildScopeFilter cmd) (tc_TriggeredBy cmd) (tc_Actor cmd) now")
    case (Inl e)
    with assms(1) Some refused [of e] show thesis by (simp add: dispatchToOrchestrator_def)
  next
    case (Inr new)
    let ?job = "queuedJob cmd (buildScopeFilter cmd) now (fi_nextJobID fin)"
    have run: "(res, fin') = (if publish (jb_id ?job) then (Inr ?job, withJob ?job fin\<lparr>fi_triggered := fi_triggered (withJob ?job fin) @ [jb_id ?job]\<rparr>)
        else (Inl PublishFailed, snd (jobUpdateStatus (jb_id ?job) JobStatusFailed (withJob ?job fin))))"
      using assms(1) unfolding dispatchToOrchestrator_def Some option.case Inr sum.case NewJob_create [OF Inr] prod.case by simp
    have "fi_jobs (withJob ?job fin) = fi_jobs fin @ [?job]" "\<forall>j \<in> set (fi_jobs fin). jb_id j \<noteq> jb_id ?job"
      using freshJob_created [OF assms(2), of cmd "buildScopeFilter cmd" now] by (simp_all add: freshJob_def)
    then have "snd (jobUpdateStatus (jb_id ?job) JobStatusFailed (withJob ?job fin)) = withJob (?job\<lparr>jb_status := JobStatusFailed\<rparr>) fin"
      by (simp add: jobUpdateStatus_def jobExec_last withJob_def)
    with run published [OF refl] unpublished [OF refl] show thesis
      by (cases "publish (jb_id ?job)") (simp_all add: withJob_def)
  qed
qed

section \<open>What a trigger leaves behind\<close>

definition namedProduct :: "trigger_command \<Rightarrow> job \<Rightarrow> bool" where
  "namedProduct cmd job \<longleftrightarrow> jb_period job = tc_Period cmd \<and> jb_calcType job = tc_CalcType cmd \<and> jb_scope job = tc_Scope cmd \<and>
     jb_triggeredBy job = tc_TriggeredBy cmd \<and> jb_createdBy job = tc_Actor cmd"

lemma queuedJob_named [simp]: "namedProduct cmd (queuedJob cmd f now i)"
  by (simp add: namedProduct_def queuedJob_def)

lemma JobMarkComplete_keeps:
  "JobMarkComplete (startedJob job s) a b c later = Inr job' \<Longrightarrow> jb_id job' = jb_id job \<and> namedProduct cmd job' = namedProduct cmd job \<and>
   jb_status job' = (if b = 0 \<and> c = 0 then JobStatusSuccess else if a = 0 then JobStatusFailed else JobStatusPartialFailed) \<and>
   jb_successCount job' = a \<and> jb_failedCount job' = b \<and> jb_blockedCount job' = c"
  by (auto simp: JobMarkComplete_def SetTotals_def endedAt_def namedProduct_def split: if_splits)

lemma TriggerInline_ends:
  assumes "storeOK fin" "TriggerInline h others cmd now later fin = (Inr job, fin')"
  shows "fi_jobs fin' = fi_jobs fin @ [job\<lparr>jb_startedAt := None\<rparr>] \<and> jb_id job = fi_nextJobID fin \<and>
    jb_id job \<notin> jb_id ` set (fi_jobs fin) \<and> namedProduct cmd job \<and>
    jb_status job \<in> {JobStatusSuccess, JobStatusFailed} \<and> jb_completedAt job = Some later"
proof -
  have new: "fi_nextJobID fin \<notin> jb_id ` set (fi_jobs fin)" using assms(1) by (auto simp: storeOK_def)
  show ?thesis
  proof (cases rule: TriggerInline_created [OF assms(2,1)])
    case (2 job0 fin1)
    note fresh = 2(3)
    have job0: "jb_id job0 = fi_nextJobID fin" "namedProduct cmd job0" by (simp_all add: 2(1)) (simp add: queuedJob_def)
    obtain head where head: "resolveRouteHead h (tc_ProductSysID cmd) = Inr head"
      using 2(4) by (cases "resolveRouteHead h (tc_ProductSysID cmd)") simp_all
    show ?thesis
    proof (cases head)
      case None
      with 2(4) head finalizeMissingRoute_ends [OF fresh] new job0 show ?thesis
        by (simp add: missingRouteJob_def endedAt_def namedProduct_def)
    next
      case (Some headID)
      with 2(4) head have run: "calculateInline h others cmd headID job0 now later fin1 = (Inr job, fin')" by simp
      show ?thesis
      proof (cases rule: calculateInline_cases [OF run fresh])
        case (2 b started r fin2 c job')
        note k = JobMarkComplete_keeps [OF 2(4), of cmd]
        have "jb_completedAt job = Some later" using 2(3,4) by (auto simp: JobMarkComplete_def endedAt_def split: if_splits)
        moreover have "jb_status job \<in> {JobStatusSuccess, JobStatusFailed}"
          using k 2(3) by (cases r) (simp_all add: tally_def noOutput_def)
        ultimately show ?thesis using k job0 new 2(3,5) by auto
      qed simp
    qed
  qed simp
qed

text \<open>A trigger that returns a job has added exactly the row of that job: a new id, the period, type, scope and
  actor asked for, and every column as returned, except that the start time is not stored. A job that is
  returned queued has been published, any other has ended.\<close>

theorem trigger_returns_the_stored_job:
  assumes "storeOK fin" "TriggerHandle h others cmd now later fin = (Inr job, fin')"
  shows "fi_jobs fin' = fi_jobs fin @ [job\<lparr>jb_startedAt := None\<rparr>] \<and> jb_id job = fi_nextJobID fin \<and>
    jb_id job \<notin> jb_id ` set (fi_jobs fin) \<and> namedProduct cmd job \<and>
    (if jb_status job = JobStatusQueued then fi_triggered fin' = fi_triggered fin @ [jb_id job]
     else jb_status job \<in> {JobStatusSuccess, JobStatusFailed} \<and> jb_completedAt job = Some later)"
proof -
  have new: "fi_nextJobID fin \<notin> jb_id ` set (fi_jobs fin)" using assms(1) by (auto simp: storeOK_def)
  obtain u where ok: "preflight h cmd fin = Inr u" using assms(2) by (cases "preflight h cmd fin") (simp_all add: TriggerHandle_def)
  consider "dispatchToOrchestrator h cmd now fin = (Inr job, fin')" | "TriggerInline h others cmd now later fin = (Inr job, fin')"
    using assms(2) by (auto simp: TriggerHandle_def ok split: if_splits)
  then show ?thesis
  proof cases
    case 1
    show ?thesis
    proof (cases rule: dispatch_cases [OF 1 assms(1)])
      case (2 job1)
      with new show ?thesis by (simp add: withJob_def queuedJob_def namedProduct_def)
    qed simp_all
  next
    case 2
    from TriggerInline_ends [OF assms(1) 2] show ?thesis by auto
  qed
qed


lemma calculateInline_verdict:
  assumes run: "calculateInline h (\<lambda>_ _. id) cmd headID job0 now later fin = (Inr job, fin')" and fresh: "freshJob js job0 fin"
    and ok: "ledgerOK (fi_ledger fin)"
  shows "\<exists>c p. fi_chunks fin' = fi_chunks fin @ [c] \<and> fi_products fin' = fi_products fin @ [p] \<and>
       ck_jobID c = jb_id job \<and> ck_productIDs c = [tc_ProductSysID cmd] \<and>
       productKey p = (jb_id job, tc_ProductSysID cmd) \<and> jp_chunkID p = ck_id c \<and>
       (jb_status job, ck_status c, jp_status p, jb_successCount job, jb_failedCount job, jb_blockedCount job) \<in>
         {(JobStatusSuccess, ChunkStatusSuccess, JobProductStatusSuccess, 1, 0, 0),
          (JobStatusFailed, ChunkStatusFailed, JobProductStatusFailed, 0, 1, 0),
          (JobStatusFailed, ChunkStatusFailed, JobProductStatusBlocked, 0, 0, 1)} \<and>
       (if jb_status job = JobStatusSuccess
        then \<exists>row. GetActive (tc_ProductSysID cmd, tc_Period cmd, tc_CalcType cmd) (fi_ledger fin') = Inr row \<and>
               re_id row = jp_costID p \<and> re_jobID row = jb_id job
        else fi_ledger fin' = fi_ledger fin)"
proof (cases rule: calculateInline_cases [OF run fresh])
  case (2 b started r fin2 c job')
  let ?inp = "inlineChunk cmd job0 (seededChunk (fi_nextChunkID fin) (jb_id job0) (tc_ProductSysID cmd))"
  let ?world = "seededFinance js job0 (tc_ProductSysID cmd) headID started fin"
  let ?p = "seededProduct (fi_nextChunkID fin) (jb_id job0) (tc_ProductSysID cmd) headID"
  have inp: "pi_JobID ?inp = jb_id job0" "pi_Period ?inp = tc_Period cmd" "pi_CalcType ?inp = tc_CalcType cmd"
    by (simp_all add: inlineChunk_def)
  have rows: "fi_products ?world = fi_products fin @ [?p]" "productKey ?p = (pi_JobID ?inp, tc_ProductSysID cmd)"
    "\<forall>x \<in> set (fi_products fin). productKey x \<noteq> (pi_JobID ?inp, tc_ProductSysID cmd)"
    using fresh by (auto simp: seededFinance_def seededProduct_def NewJobProduct_def productKey_def inp freshJob_def)
  have lg: "fi_ledger ?world = fi_ledger fin" by (simp add: seededFinance_def)
  have "turnEnds ?inp (tc_ProductSysID cmd) (fi_products fin) ?p ?world r fin2"
    by (rule computeOne_row [OF 2(2) _ rows]) (simp add: lg ok)
  then obtain p where p: "fi_products fin2 = fi_products fin @ [p]" "productKey p = (jb_id job0, tc_ProductSysID cmd)"
    "jp_chunkID p = fi_nextChunkID fin" "jp_status p = rowStatus r"
    "r \<noteq> productOutcomeSuccess \<longrightarrow> fi_ledger fin2 = fi_ledger fin"
    "r = productOutcomeSuccess \<longrightarrow> (\<exists>row. GetActive (tc_ProductSysID cmd, tc_Period cmd, tc_CalcType cmd) (fi_ledger fin2) = Inr row \<and>
       re_id row = jp_costID p \<and> re_jobID row = jb_id job0)"
    using rows(2) by (auto simp: turnEnds_def lg inp seededProduct_def)
  note k = JobMarkComplete_keeps [OF 2(4), of cmd]
  have verdict: "(jb_status job', ck_status c, jp_status p, jb_successCount job', jb_failedCount job', jb_blockedCount job') \<in>
      {(JobStatusSuccess, ChunkStatusSuccess, JobProductStatusSuccess, 1, 0, 0),
       (JobStatusFailed, ChunkStatusFailed, JobProductStatusFailed, 0, 1, 0),
       (JobStatusFailed, ChunkStatusFailed, JobProductStatusBlocked, 0, 0, 1)} \<and>
      (jb_status job' = JobStatusSuccess \<longleftrightarrow> r = productOutcomeSuccess)"
    using k 2(6) p(4) by (cases r) (simp_all add: tally_def noOutput_def finalChunkStatus_def rowStatus_def)
  have job: "job = job'" "jb_id job' = jb_id job0" using 2(3) k by simp_all
  have "fi_chunks fin' = fi_chunks fin @ [c]" "fi_products fin' = fi_products fin @ [p]" "fi_ledger fin' = fi_ledger fin2"
    using 2(5) p(1) by simp_all
  then show ?thesis
    using p(2,3,5,6) 2(7,8,9) verdict unfolding job by (intro exI [of _ c] exI [of _ p] conjI) auto
qed simp


section \<open>An example\<close>

text \<open>
  The service of the chunk example, cut down to a route without sequences and one formula, with no
  publisher: a trigger of its first product. The same with a publisher; and one whose spin cost pool
  cannot be loaded.
\<close>

definition plainService :: "rat calc_service" where
  "plainService = exampleService\<lparr>sv_loader := sv_loader exampleService
     \<lparr>ld_Routes := (\<lambda>_. Some [(1, exampleRoute\<lparr>gr_Seqs := []\<rparr>)]), ld_CalculatedParams := (\<lambda>_. Some (\<lambda>_. [])),
      ld_Formulas := (\<lambda>_. Some (\<lambda>_. [computeFormula 1 ''F_OUT'' ''BASE * 3'' ''COST_STAGE_OUT'' [''BASE'']]))\<rparr>\<rparr>"

definition exampleHandler :: "rat trigger_handler" where
  "exampleHandler = \<lparr>th_svc = plainService,
     th_mbGuard = Some \<lparr>IsMBProduct = (\<lambda>_. Some False), IsMBProductType = (\<lambda>_. Some False)\<rparr>, th_periodLock = True\<rparr>"

definition publishingHandler :: "rat trigger_handler" where
  "publishingHandler = exampleHandler\<lparr>th_svc := plainService\<lparr>sv_jobTriggerPub := Some (\<lambda>_. True)\<rparr>\<rparr>"

definition unloadedHandler :: "rat trigger_handler" where
  "unloadedHandler = exampleHandler\<lparr>th_svc := plainService\<lparr>sv_loader := sv_loader plainService\<lparr>ld_SpinFixedCost := (\<lambda>_. None)\<rparr>\<rparr>\<rparr>"

definition exampleTrigger :: trigger_command where
  "exampleTrigger = \<lparr>tc_Period = ''202609'', tc_CalcType = CalcTypeActual, tc_Scope = ScopeSingleProduct, tc_ProductSysID = 1,
     tc_RouteHeadID = 0, tc_ProductTypeIDFilter = 0, tc_TriggeredBy = ''MANUAL'', tc_Actor = ''planner'', tc_Filter = []\<rparr>"

lemma exampleFinance_storeOK: "storeOK exampleFinance"
  by (simp add: storeOK_def exampleFinance_def NewChunk_def NewJobProduct_def productKey_def)

lemma exampleTriggered:
  "case TriggerHandle exampleHandler (\<lambda>_ _. id) exampleTrigger 8 9 exampleFinance of (res, fin') \<Rightarrow>
     (case res of Inl _ \<Rightarrow> False | Inr job \<Rightarrow> jb_status job = JobStatusSuccess \<and> jb_id job = 6) \<and> True"
  by code_simp

lemma examplePublished:
  "case TriggerHandle publishingHandler (\<lambda>_ _. id) exampleTrigger 8 9 exampleFinance of (res, fin') \<Rightarrow>
     (case res of Inl _ \<Rightarrow> False | Inr job \<Rightarrow> jb_status job = JobStatusQueued \<and> jb_id job = 6) \<and> True"
  by code_simp

lemma exampleUnloaded:
  "case TriggerHandle unloadedHandler (\<lambda>_ _. id) exampleTrigger 8 9 exampleFinance of (res, fin') \<Rightarrow>
     res = Inl (QueryFailed LoadSpin) \<and> length (fi_jobs fin') = 1"
  by code_simp

lemma runs_to:
  assumes "case TriggerHandle h (\<lambda>_ _. id) cmd now later fin of (res, fin') \<Rightarrow> (case res of Inl _ \<Rightarrow> False | Inr job \<Rightarrow> P job) \<and> Q fin'"
  obtains job fin' where "TriggerHandle h (\<lambda>_ _. id) cmd now later fin = (Inr job, fin')" "P job" "Q fin'"
proof -
  obtain res fin' where r: "TriggerHandle h (\<lambda>_ _. id) cmd now later fin = (res, fin')"
    by (cases "TriggerHandle h (\<lambda>_ _. id) cmd now later fin")
  with assms show thesis by (cases res) (auto intro: that)
qed

theorem trigger_returns_the_stored_job_witness:
  "\<exists>job fin'. TriggerHandle publishingHandler (\<lambda>_ _. id) exampleTrigger 8 9 exampleFinance = (Inr job, fin') \<and>
     fi_jobs fin' = [job\<lparr>jb_startedAt := None\<rparr>] \<and> jb_id job = 6 \<and> fi_triggered fin' = [6]"
proof (rule runs_to [OF examplePublished])
  fix job fin' assume run: "TriggerHandle publishingHandler (\<lambda>_ _. id) exampleTrigger 8 9 exampleFinance = (Inr job, fin')"
    and job: "jb_status job = JobStatusQueued \<and> jb_id job = 6"
  have world: "fi_jobs exampleFinance = []" "fi_triggered exampleFinance = []" by (simp_all add: exampleFinance_def)
  from trigger_returns_the_stored_job [OF exampleFinance_storeOK run] job world
  have facts: "fi_jobs fin' = [job\<lparr>jb_startedAt := None\<rparr>]" "fi_triggered fin' = [6]" by simp_all
  with facts run job show ?thesis by auto
qed



end
