(* ===== verification/HandOver.thy ===== *)
theory HandOver
  imports CalcBehaviour TriggerFacts
begin

text \<open>
  From the trigger of the finance service to the coordinator: the two services share the table \<^verbatim>\<open>cal_job\<close> and the message
  with the id of a job. Each service has its own model of a row; here the row the trigger stored is read with the
  coordinator's model, column by column, and the coordinator is shown to plan what the caller asked for.
\<close>

section \<open>One row, two readers\<close>

definition sharedScope :: "calc_scope \<Rightarrow> job_scope" where
  "sharedScope sc = (case sc of calc_scope.ScopeAll \<Rightarrow> job_scope.ScopeAll | calc_scope.ScopeFiltered \<Rightarrow> job_scope.ScopeFiltered
     | calc_scope.ScopeSingleProduct \<Rightarrow> job_scope.ScopeSingleProduct | calc_scope.ScopeSingleRoute \<Rightarrow> job_scope.ScopeSingleRoute
     | calc_scope.ScopeMBBatch \<Rightarrow> job_scope.ScopeMBBatch)"

definition sharedStatus :: "job_status \<Rightarrow> calc_status" where
  "sharedStatus st = (case st of JobStatusQueued \<Rightarrow> statusQueued | JobStatusPlanning \<Rightarrow> statusPlanning
     | JobStatusProcessing \<Rightarrow> statusProcessing | JobStatusSuccess \<Rightarrow> statusSuccess
     | JobStatusPartialFailed \<Rightarrow> statusPartial | JobStatusFailed \<Rightarrow> statusFailed | JobStatusCancelled \<Rightarrow> statusCancelled)"

text \<open>The bytes a caller gives are decoded by the JSON library (\<open>decode\<close>); the object built from the
  selectors has the keys the coordinator reads.\<close>

definition sharedFilter :: "(string \<Rightarrow> filter_json) \<Rightarrow> product_filter \<Rightarrow> filter_json" where
  "sharedFilter decode pf = (case pf of GivenFilter bytes \<Rightarrow> decode bytes | ScopeSelectors p r t \<Rightarrow> Selectors p r t)"

text \<open>The database gives the code of the job.\<close>

definition sharedRow :: "(string \<Rightarrow> filter_json) \<Rightarrow> string \<Rightarrow> job \<Rightarrow> cal_job" where
  "sharedRow decode code j =
     \<lparr>cj_job_id = jb_id j, cj_job_code = code, cj_period = jb_period j, cj_calculation_type = jb_calcType j,
      cj_scope = sharedScope (jb_scope j), cj_product_filter = map_option (sharedFilter decode) (jb_productFilter j),
      cj_status = sharedStatus (jb_status j), cj_priority = jb_priority j, cj_total_products = jb_totalProducts j,
      cj_total_chunks = jb_totalChunks j, cj_total_waves = jb_totalWaves j, cj_processed_chunks = jb_processedChunks j,
      cj_success_count = jb_successCount j, cj_failed_count = jb_failedCount j, cj_blocked_count = jb_blockedCount j,
      cj_error_summary = None, cj_triggered_by = jb_triggeredBy j, cj_queued_at = jb_queuedAt j,
      cj_started_at = jb_startedAt j, cj_completed_at = jb_completedAt j, cj_duration_ms = Some (jb_durationMs j),
      cj_created_by = jb_createdBy j\<rparr>"

text \<open>What the caller asked for, as the coordinator's input.\<close>

definition askedScope :: "trigger_command \<Rightarrow> scope_input" where
  "askedScope cmd = \<lparr>si_Scope = sharedScope (tc_Scope cmd), si_ProductSysID = tc_ProductSysID cmd,
     si_RouteHeadID = tc_RouteHeadID cmd, si_ProductTypeIDFilter = tc_ProductTypeIDFilter cmd, si_Period = tc_Period cmd\<rparr>"

lemma dispatched_row:
  assumes "storeOK fin" "TriggerHandle h others cmd now later fin = (Inr job, fin')" "jb_status job = JobStatusQueued"
  shows "fi_jobs fin' = fi_jobs fin @ [job]" "job = queuedJob cmd (buildScopeFilter cmd) now (fi_nextJobID fin)"
    "jb_id job \<in> set (fi_triggered fin')" "tc_Scope cmd = calc_scope.ScopeSingleProduct \<Longrightarrow> tc_ProductSysID cmd \<noteq> 0"
    "jb_id job \<notin> jb_id ` set (fi_jobs fin)"
proof -
  obtain u where ok: "preflight h cmd fin = Inr u" using assms(2) by (cases "preflight h cmd fin") (simp_all add: TriggerHandle_def)
  have ran: "dispatchToOrchestrator h cmd now fin = (Inr job, fin') \<and>
      (tc_Scope cmd = calc_scope.ScopeSingleProduct \<longrightarrow> tc_ProductSysID cmd \<noteq> 0)"
  proof (rule ccontr)
    assume "\<not> ?thesis"
    with assms(2) have inline: "TriggerInline h others cmd now later fin = (Inr job, fin')"
      by (auto simp: TriggerHandle_def ok split: if_splits)
    from TriggerInline_ends [OF assms(1) this] assms(3) show False by auto
  qed
  then have stored: "job = queuedJob cmd (buildScopeFilter cmd) now (fi_nextJobID fin) \<and> fi_jobs fin' = fi_jobs fin @ [job] \<and>
      jb_id job \<in> set (fi_triggered fin')"
  proof -
    from ran have run: "dispatchToOrchestrator h cmd now fin = (Inr job, fin')" ..
    show ?thesis by (cases rule: dispatch_cases [OF run assms(1)]) (simp_all add: withJob_def)
  qed
  then show "fi_jobs fin' = fi_jobs fin @ [job]" "job = queuedJob cmd (buildScopeFilter cmd) now (fi_nextJobID fin)"
    "jb_id job \<in> set (fi_triggered fin')" by blast+
  have "jb_id job = fi_nextJobID fin" using stored by (simp add: queuedJob_def)
  then show "jb_id job \<notin> jb_id ` set (fi_jobs fin)" using assms(1) by (auto simp: storeOK_def)
  show "tc_Scope cmd = calc_scope.ScopeSingleProduct \<Longrightarrow> tc_ProductSysID cmd \<noteq> 0" using ran by simp
qed

lemma scope_read_back:
  assumes "tc_Filter cmd = []"
  shows "scopeOf (scanJobDTO (sharedRow decode code (queuedJob cmd (buildScopeFilter cmd) now i))) = askedScope cmd"
  using assms by (simp add: scopeOf_def scanJobDTO_def sharedRow_def queuedJob_def buildScopeFilter_def sharedFilter_def
      applyFilter_def askedScope_def)


text \<open>(C7) A product triggered is a product planned: when the coordinator of a world that shows the stored row, undisturbed and with
  an acyclic route graph with routes for every product needed, plans the job the trigger announced, the
  chunks it persists carry exactly the product asked for and all it depends on, each once and each after its
  dependencies, and the chunks of the first wave are handed to the workers.\<close>

theorem triggered_product_is_planned:
  assumes "storeOK fin" "TriggerHandle h others cmd now later fin = (Inr job, fin')" "jb_status job = JobStatusQueued"
    "tc_Filter cmd = []" "tc_Scope cmd = calc_scope.ScopeSingleProduct"
    and "findJob (jb_id job) w = Some (sharedRow decode code (last (fi_jobs fin')))" "w_faults w = []"
    "\<forall>c \<in> set (w_chunks w). cjc_job_id c \<noteq> jb_id job" "distinct (map chunkKey (w_chunks w))"
    "q_isMBProduct (sqlQueries (w_routes w)) (tc_ProductSysID cmd) = Inr False" "acyclic (rmEdges (w_routes w))"
    "\<forall>n \<in> needed (w_routes w) [tc_ProductSysID cmd]. \<exists>h. routeHeadOf (w_routes w) n = Some h \<and> 0 < h"
  shows "\<exists>w' r' new. run (planAndDispatch cfg (jb_id job)) w = (Inr (), w') \<and>
    distinct (concat (map (\<lambda>(m, v, ps). ps) (jobChunks (jb_id job) w'))) \<and>
    set (concat (map (\<lambda>(m, v, ps). ps) (jobChunks (jb_id job) w'))) = needed (w_routes w) [tc_ProductSysID cmd] \<and>
    (\<forall>(m, v, ps) \<in> set (jobChunks (jb_id job) w'). \<forall>n \<in> set ps. \<forall>u \<in> {u. (n, u) \<in> rmEdges (w_routes w)}.
       \<exists>(m', v', ps') \<in> set (jobChunks (jb_id job) w'). v' < v \<and> u \<in> set ps') \<and>
    w_chunkQueue w' = w_chunkQueue w @ map Some new \<and>
    specFacts new = filter (\<lambda>(m, v, ps). v = 0) (jobChunks (jb_id job) w') \<and>
    findJob (jb_id job) w' = Some r' \<and> cj_status r' = statusProcessing"
proof -
  note d = dispatched_row [OF assms(1-3)]
  have r: "findJob (jb_id job) w = Some (sharedRow decode code job)" using assms(6) by (simp add: d(1))
  have st: "cj_status (sharedRow decode code job) = statusQueued"
    using assms(3) by (simp add: sharedRow_def sharedStatus_def)
  have "scopeOf (scanJobDTO (sharedRow decode code job)) = askedScope cmd"
    unfolding d(2) by (rule scope_read_back [OF assms(4)])
  then have init: "resolveInitialSet (sqlQueries (w_routes w)) (scopeOf (scanJobDTO (sharedRow decode code job))) =
      Inr [tc_ProductSysID cmd]"
    using assms(5,10) d(4) by (simp add: askedScope_def sharedScope_def resolveInitialSet_def)
  have "[tc_ProductSysID cmd] \<noteq> []" by simp
  from planning_plans [OF assms(7) r st assms(8,9) init this assms(11,12), of cfg] show ?thesis by blast
qed

section \<open>An example\<close>

definition noBytes :: "string \<Rightarrow> filter_json" where
  "noBytes bytes = Undecodable"

lemma published_example:
  obtains job fin' where "TriggerHandle publishingHandler (\<lambda>_ _. id) exampleTrigger 8 9 exampleFinance = (Inr job, fin')"
    "jb_status job = JobStatusQueued" "jb_id job = 6" "fi_jobs fin' = [job]"
proof (rule runs_to [OF examplePublished])
  fix job fin' assume run: "TriggerHandle publishingHandler (\<lambda>_ _. id) exampleTrigger 8 9 exampleFinance = (Inr job, fin')"
    and job: "jb_status job = JobStatusQueued \<and> jb_id job = 6"
  have "fi_jobs fin' = [job]"
    using dispatched_row(1) [OF exampleFinance_storeOK run conjunct1 [OF job]] by (simp add: exampleFinance_def)
  with run job show thesis by (intro that) simp_all
qed

lemma exampleTrigger_simps: "tc_Filter exampleTrigger = []" "tc_Scope exampleTrigger = calc_scope.ScopeSingleProduct"
  "tc_ProductSysID exampleTrigger = 1" "tc_Period exampleTrigger = ''202609''"
  by (simp_all add: exampleTrigger_def)


text \<open>Product 1 of the example routes depends on nothing.\<close>

lemma exampleNeeded_one: "needed exampleRoutes [1] = {1}"
proof -
  have "n = 1" if "(1, n) \<in> {(2::int, 1::int)}\<^sup>*" for n
    using that by (cases rule: converse_rtranclE) auto
  then show ?thesis by (auto simp: needed_def exampleEdges)
qed

theorem triggered_product_is_planned_witness:
  "\<exists>job fin' w'. TriggerHandle publishingHandler (\<lambda>_ _. id) exampleTrigger 8 9 exampleFinance = (Inr job, fin') \<and>
     run (planAndDispatch exampleConfig 6) (exampleWorld\<lparr>w_jobs := [sharedRow noBytes ''J'' job]\<rparr>) = (Inr (), w') \<and>
     set (concat (map (\<lambda>(m, v, ps). ps) (jobChunks 6 w'))) = {1}"
proof (rule published_example)
  fix job fin' assume run: "TriggerHandle publishingHandler (\<lambda>_ _. id) exampleTrigger 8 9 exampleFinance = (Inr job, fin')"
    and job: "jb_status job = JobStatusQueued" "jb_id job = 6" "fi_jobs fin' = [job]"
  let ?w = "exampleWorld\<lparr>w_jobs := [sharedRow noBytes ''J'' job]\<rparr>"
  have w: "findJob (jb_id job) ?w = Some (sharedRow noBytes ''J'' (last (fi_jobs fin')))" "w_faults ?w = []"
    "w_routes ?w = exampleRoutes" "w_chunks ?w = []"
    using job by (simp_all add: findJob_def sharedRow_def exampleWorld_def)
  have mb: "q_isMBProduct (sqlQueries (w_routes ?w)) (tc_ProductSysID exampleTrigger) = Inr False"
    unfolding w exampleTrigger_simps by code_simp
  have a: "acyclic (rmEdges (w_routes ?w))" unfolding w exampleEdges by (simp add: wf_acyclic)
  have h: "\<forall>n \<in> needed (w_routes ?w) [tc_ProductSysID exampleTrigger]. \<exists>h. routeHeadOf (w_routes ?w) n = Some h \<and> 0 < h"
    unfolding w exampleTrigger_simps exampleNeeded_one using exampleHeads by simp
  from triggered_product_is_planned [OF exampleFinance_storeOK run job(1) exampleTrigger_simps(1,2) w(1,2) _ _ mb a h, of exampleConfig]
  have "\<exists>w'. run (planAndDispatch exampleConfig 6) ?w = (Inr (), w') \<and>
      set (concat (map (\<lambda>(m, v, ps). ps) (jobChunks 6 w'))) = {1}"
    unfolding w exampleTrigger_simps exampleNeeded_one job(2) by auto
  with run show ?thesis by blast
qed

end
