(* ===== verification/MBBatch.thy ===== *)
theory MBBatch
  imports FinanceTrigger
begin

text \<open>
  \<^verbatim>\<open>services/finance/internal/application/mbbatch\<close>: the batch that calculates every validated
  master batch head. The heads are ordered so that a head comes after those its composition refers to
  (\<^verbatim>\<open>dag.go\<close>); in one transaction each head is calculated for the three calculation types under
  a savepoint of its own (\<^verbatim>\<open>service.go\<close>); and the costs just calculated are passed on in memory
  (\<^verbatim>\<open>batchcosts.go\<close>), because the loader reads outside the transaction and does not see them. The
  job of a batch is that of \<^verbatim>\<open>trigger_handler.go\<close>.

  \<open>committed\<close> is the table as the loader's connections see it. The code reads the head of a loaded route without
  asking whether it has one; that is the error \<open>RouteHeadMissing\<close> here. The advisory lock, the log lines (with the set
  of scheduled products, which only they read) and the failures of the transaction itself are left out.
\<close>

section \<open>The order of the heads\<close>

record mb_batch_head =
  mb_MBHID :: string
  mb_CostProductID :: int
  mb_CurrentVersion :: int

type_synonym mb_edge = "string \<times> string"

datatype batch_error =
  ListValidatedFailed | ListEdgesFailed | MBCycleDetected | MBOrderDoesNotReturn
| MBLoadFailed load_query | NoRouteFound | RouteHeadMissing | MBCalcFailed string compute_error
| MBStoreFailed string ledger_error

text \<open>\<open>byID\<close>: a later head with the same id replaces an earlier one. Reading an absent id gives the zero head.\<close>

definition headsByID :: "mb_batch_head list \<Rightarrow> string \<Rightarrow> mb_batch_head option" where
  "headsByID candidates = map_of (rev (map (\<lambda>c. (mb_MBHID c, c)) candidates))"

definition headOrZero :: "(string \<Rightarrow> mb_batch_head option) \<Rightarrow> string \<Rightarrow> mb_batch_head" where
  "headOrZero byID i = (case byID i of Some c \<Rightarrow> c
     | None \<Rightarrow> \<lparr>mb_MBHID = [], mb_CostProductID = 0, mb_CurrentVersion = 0\<rparr>)"

text \<open>An edge names a head and one its composition refers to; it is kept as producer and consumer, once.\<close>

definition keepEdge :: "(string \<Rightarrow> mb_batch_head option) \<Rightarrow> mb_edge \<Rightarrow> mb_edge list \<Rightarrow> mb_edge list" where
  "keepEdge byID = (\<lambda>(mbhID, refMBHID) out.
     if byID refMBHID = None then out
     else if mbhID = refMBHID then out
     else addUnseen (refMBHID, mbhID) out)"

definition keptEdges :: "(string \<Rightarrow> mb_batch_head option) \<Rightarrow> mb_edge list \<Rightarrow> mb_edge list" where
  "keptEdges byID edges = fold (keepEdge byID) edges []"

definition topoSortMBHeads ::
  "mb_batch_head list \<Rightarrow> (string \<Rightarrow> mb_batch_head option) \<Rightarrow> mb_edge list \<Rightarrow> batch_error + mb_batch_head list" where
  "topoSortMBHeads candidates byID edges =
     (case placeNodes (map mb_MBHID candidates) (fold addEdge (keptEdges byID edges) (\<lambda>_. 0, \<lambda>_. [])) of
        None \<Rightarrow> Inl MBOrderDoesNotReturn
      | Some (_, _, placed) \<Rightarrow>
          if length placed \<noteq> length candidates then Inl MBCycleDetected
          else Inr (map (headOrZero byID) placed))"

text \<open>The readers answer \<open>None\<close> when their query fails.\<close>

record 'f batch_service =
  bs_ListValidated :: "mb_batch_head list option"
  bs_ListMBEdgesBulk :: "string list \<Rightarrow> int list \<Rightarrow> mb_edge list option"
  bs_loader :: "'f product_loader"
  bs_evalCache :: "'f expr_lang option"
  bs_auditRepo :: bool
  bs_jobReader :: bool

definition BuildDAG :: "'f batch_service \<Rightarrow> batch_error + mb_batch_head list" where
  "BuildDAG sv =
     (case bs_ListValidated sv of
        None \<Rightarrow> Inl ListValidatedFailed
      | Some candidates \<Rightarrow>
          if candidates = [] then Inr []
          else (case bs_ListMBEdgesBulk sv (map mb_MBHID candidates) (map mb_CurrentVersion candidates) of
              None \<Rightarrow> Inl ListEdgesFailed
            | Some edges \<Rightarrow> topoSortMBHeads candidates (headsByID candidates) edges))"

section \<open>Costs of this run\<close>

definition mbBatchCalcTypes :: "string list" where
  "mbBatchCalcTypes = [CalcTypeActual, ''SELLING'', ''FORECAST'']"

type_synonym 'f batch_costs = "string \<Rightarrow> int \<Rightarrow> 'f option"

definition newBatchCosts :: "'f batch_costs" where
  "newBatchCosts = (\<lambda>_ _. None)"

definition publish :: "int \<Rightarrow> (string \<Rightarrow> 'f option) \<Rightarrow> 'f batch_costs \<Rightarrow> 'f batch_costs" where
  "publish pid computed costs = (\<lambda>ct. case computed ct of None \<Rightarrow> costs ct | Some v \<Rightarrow> (costs ct)(pid \<mapsto> v))"

definition overlay :: "'f batch_costs \<Rightarrow> string \<Rightarrow> int list \<Rightarrow> (int \<Rightarrow> 'f option) \<Rightarrow> int \<Rightarrow> 'f option" where
  "overlay costs ct products dst = (\<lambda>pid. if pid \<in> set products then
     (case costs ct pid of None \<Rightarrow> dst pid | Some v \<Rightarrow> Some v) else dst pid)"

section \<open>One head\<close>

definition mbGroupCodes :: "'f graph \<Rightarrow> string list" where
  "mbGroupCodes g = fold (\<lambda>rm out. if rm_RmType rm \<noteq> RmTypeGroup then out else addUnseen (rm_RmGroupCode rm) out) (allRms [g]) []"

definition collectNestedMBProducts :: "'f graph \<Rightarrow> int list" where
  "collectNestedMBProducts g = collectUpstreamProducts [g]"

definition mbComputeInput ::
  "'f batch_service \<Rightarrow> int \<Rightarrow> string \<Rightarrow> 'f graph \<Rightarrow> (string \<Rightarrow> 'f option) \<Rightarrow> formula list \<Rightarrow>
     (string \<Rightarrow> 'f rm_cost_rates option) \<Rightarrow> (int \<Rightarrow> 'f option) \<Rightarrow> 'f compute_input" where
  "mbComputeInput sv pid ct route capp fs rmCosts upstream =
     \<lparr>ci_ProductSysID = pid, ci_CalcType = ct, ci_Route = Some route, ci_CAPP = capp, ci_Formulas = fs,
      ci_RMCosts = rmCosts, ci_UpstreamCosts = upstream, ci_EvalCache = bs_evalCache sv,
      ci_SellingSnapshot = Map.empty, ci_MBCosts = Map.empty, ci_SpinFixedCost = Map.empty,
      ci_CalculatedParams = [], ci_RMRateOrder = [], ci_RMLandedOrder = Map.empty, ci_Oil = None, ci_Superba = None,
      ci_TxWeight = Map.empty, ci_VBLoss = None, ci_RMRatioMode = [], ci_RMGroupDenier = Map.empty,
      ci_RMGroupUseDraft = (\<lambda>_. False), ci_UpstreamDenier = Map.empty, ci_RMDenierOverride = noOverrides,
      ci_UpstreamSnapshots = None\<rparr>"

definition loadUpstreamCosts ::
  "'f batch_service \<Rightarrow> int list \<Rightarrow> string \<Rightarrow> string \<Rightarrow> 'f batch_costs \<Rightarrow> 'f ledger \<Rightarrow> batch_error + (int \<Rightarrow> 'f option)" where
  "loadUpstreamCosts sv products period ct costs committed =
     (if products = [] then Inr Map.empty
      else (case LoadUpstreamCosts (ld_MasterTypes (bs_loader sv)) products period ct committed of
          None \<Rightarrow> Inl (MBLoadFailed LoadUpstreamCostsQ)
        | Some upstream \<Rightarrow> Inr (overlay costs ct products upstream)))"

definition mbLoad :: "load_query \<Rightarrow> 'a option \<Rightarrow> batch_error + 'a" where
  "mbLoad q r = (case r of None \<Rightarrow> Inl (MBLoadFailed q) | Some v \<Rightarrow> Inr v)"

definition computeType ::
  "'f batch_service \<Rightarrow> int \<Rightarrow> string \<Rightarrow> 'f graph \<Rightarrow> (string \<Rightarrow> 'f option) \<Rightarrow> formula list \<Rightarrow> 'f batch_costs \<Rightarrow> 'f ledger \<Rightarrow>
     string \<Rightarrow> batch_error + ('f::{zero,one,plus,minus,times,inverse,ord}) compute_output" where
  "computeType sv pid period route capp fs costs committed ct =
     tryThen (mbLoad LoadRMCosts (ld_RMCosts (bs_loader sv) (mbGroupCodes route) period ct)) (\<lambda>rmCosts.
     tryThen (loadUpstreamCosts sv (collectNestedMBProducts route) period ct costs committed) (\<lambda>upstream.
       (case ComputeProduct (mbComputeInput sv pid ct route capp fs rmCosts upstream) of
          Inl e \<Rightarrow> Inl (MBCalcFailed ct e)
        | Inr out \<Rightarrow> Inr out)))"

fun computeTypes ::
  "(string \<Rightarrow> batch_error + 'f compute_output) \<Rightarrow> string list \<Rightarrow> batch_error + (string \<times> 'f compute_output) list" where
  "computeTypes calc [] = Inr []"
| "computeTypes calc (ct # cts) =
     tryThen (calc ct) (\<lambda>out. tryThen (computeTypes calc cts) (\<lambda>outs. Inr ((ct, out) # outs)))"

definition triggeredByMBBatch :: string where "triggeredByMBBatch = ''system:mb_batch''"

definition newMBResult :: "int \<Rightarrow> string \<Rightarrow> string \<Rightarrow> int \<Rightarrow> int \<Rightarrow> ('f::zero) compute_output \<Rightarrow> 'f result" where
  "newMBResult pid period ct routeHeadID jobID out =
     NewResult pid period ct routeHeadID out jobID triggeredByMBBatch 0 0 [0, 0, 0, 0, 0]"

definition newAuditEntry ::
  "int \<Rightarrow> string \<Rightarrow> string \<Rightarrow> int \<Rightarrow> int \<Rightarrow> int \<Rightarrow> 'f \<Rightarrow> ('f::{zero,one,plus,minus,times,inverse,ord}) \<Rightarrow> 'f audit_entry" where
  "newAuditEntry pid period ct jobID newCostID prevCostID prevTotal newTotal =
     \<lparr>ah_ProductSysID = pid, ah_Period = period, ah_CalcType = ct, ah_OldCostID = prevCostID, ah_NewCostID = newCostID,
      ah_OldTotal = prevTotal, ah_NewTotal = newTotal, ah_VariancePct = VariancePctOrNil prevTotal newTotal,
      ah_NewJobID = jobID, ah_ChangedBy = triggeredByMBBatch\<rparr>"

text \<open>
  A result stored inside the transaction: one attempt, with its audit entry when it superseded a row.
  The rows of an attempt that fails are those of the transaction, which the savepoint takes back.
\<close>

definition mbPersistResult ::
  "int \<Rightarrow> string \<Rightarrow> int \<Rightarrow> int \<Rightarrow> string \<times> ('f::{zero,one,plus,minus,times,inverse,ord}) compute_output \<Rightarrow>
     'f audit_entry list \<times> 'f ledger \<Rightarrow> batch_error + 'f audit_entry list \<times> 'f ledger" where
  "mbPersistResult pid period routeHeadID jobID = (\<lambda>(ct, out) (audits, lg).
     (case tryUpsert id (newMBResult pid period ct routeHeadID jobID out) lg of
        (Inl e, _) \<Rightarrow> Inl (MBStoreFailed ct e)
      | (Inr (newCostID, _, prevTotal, prevCostID), lg') \<Rightarrow>
          Inr (if prevCostID = 0 then audits
               else audits @ [newAuditEntry pid period ct jobID newCostID prevCostID prevTotal (co_CostPerUnit out)], lg')))"

fun persistAll ::
  "int \<Rightarrow> string \<Rightarrow> int \<Rightarrow> int \<Rightarrow> (string \<times> ('f::{zero,one,plus,minus,times,inverse,ord}) compute_output) list \<Rightarrow>
     'f audit_entry list \<times> 'f ledger \<Rightarrow> batch_error + 'f audit_entry list \<times> 'f ledger" where
  "persistAll pid period routeHeadID jobID [] s = Inr s"
| "persistAll pid period routeHeadID jobID (x # outs) s =
     tryThen (mbPersistResult pid period routeHeadID jobID x s) (persistAll pid period routeHeadID jobID outs)"

definition computeAndPersist ::
  "'f batch_service \<Rightarrow> mb_batch_head \<Rightarrow> string \<Rightarrow> int \<Rightarrow> 'f batch_costs \<Rightarrow> 'f ledger \<Rightarrow> ('f::{zero,one,plus,minus,times,inverse,ord}) ledger \<Rightarrow>
     batch_error + ((string \<Rightarrow> 'f option) \<times> 'f audit_entry list \<times> 'f ledger)" where
  "computeAndPersist sv c period jobID costs committed lg =
     (let pid = mb_CostProductID c; ld = bs_loader sv in
      tryThen (mbLoad LoadCAPP (ld_CAPP ld [pid])) (\<lambda>capp.
      tryThen (mbLoad LoadFormulas (ld_Formulas ld [pid])) (\<lambda>fs.
      tryThen (mbLoad LoadRoutes (ld_Routes ld [pid])) (\<lambda>routes.
      (case map_of routes pid of
         None \<Rightarrow> Inl NoRouteFound
       | Some route \<Rightarrow>
           tryThen (computeTypes (computeType sv pid period route (capp pid) (fs pid) costs committed) mbBatchCalcTypes) (\<lambda>outs.
           (case gr_Head route of
              None \<Rightarrow> Inl RouteHeadMissing
            | Some head \<Rightarrow>
                tryThen (persistAll pid period (hd_HeadID head) jobID outs ([], lg)) (\<lambda>(audits, lg').
                  Inr (map_of (map (\<lambda>(ct, out). (ct, co_CostPerUnit out)) outs), audits, lg')))))))))"

section \<open>The batch\<close>

record batch_result =
  br_MBCount :: int
  br_RowCount :: int
  br_Errors :: "(string \<times> batch_error) list"

type_synonym 'f batch_state = "batch_result \<times> 'f batch_costs \<times> 'f audit_entry list \<times> 'f ledger"

text \<open>The savepoint of a head: an error leaves rows, costs and audits as they were.\<close>

definition runOneMB ::
  "'f batch_service \<Rightarrow> string \<Rightarrow> int \<Rightarrow> 'f ledger \<Rightarrow> mb_batch_head \<Rightarrow>
     ('f::{zero,one,plus,minus,times,inverse,ord}) batch_state \<Rightarrow> 'f batch_state" where
  "runOneMB sv period jobID committed c = (\<lambda>(result, costs, audits, lg).
     (case computeAndPersist sv c period jobID costs committed lg of
        Inl e \<Rightarrow> (result\<lparr>br_Errors := br_Errors result @ [(mb_MBHID c, e)]\<rparr>, costs, audits, lg)
      | Inr (computed, pending, lg') \<Rightarrow>
          (result\<lparr>br_MBCount := br_MBCount result + 1, br_RowCount := br_RowCount result + int (length mbBatchCalcTypes)\<rparr>,
           publish (mb_CostProductID c) computed costs, audits @ pending, lg')))"

definition emptyBatchResult :: batch_result where
  "emptyBatchResult = \<lparr>br_MBCount = 0, br_RowCount = 0, br_Errors = []\<rparr>"

definition runBatch ::
  "'f batch_service \<Rightarrow> mb_batch_head list \<Rightarrow> string \<Rightarrow> int \<Rightarrow> ('f::{zero,one,plus,minus,times,inverse,ord}) ledger \<Rightarrow> 'f batch_state" where
  "runBatch sv candidates period jobID lg =
     fold (runOneMB sv period jobID lg) candidates (emptyBatchResult, newBatchCosts, [], lg)"

definition resolveActor :: "'f batch_service \<Rightarrow> int \<Rightarrow> 'f finance \<Rightarrow> string" where
  "resolveActor sv jobID fin =
     (if \<not> bs_jobReader sv then triggeredByMBBatch
      else (case jobGetByID jobID fin of
          Inl _ \<Rightarrow> triggeredByMBBatch
        | Inr job \<Rightarrow> if jb_createdBy job = [] then triggeredByMBBatch else jb_createdBy job))"

definition writeAudits :: "'f batch_service \<Rightarrow> int \<Rightarrow> 'f audit_entry list \<Rightarrow> 'f finance \<Rightarrow> 'f finance" where
  "writeAudits sv jobID audits fin =
     (if \<not> bs_auditRepo sv then fin
      else fold (\<lambda>e. writeHistory (e\<lparr>ah_ChangedBy := resolveActor sv jobID fin\<rparr>)) audits fin)"

definition RunMBBatch ::
  "'f batch_service \<Rightarrow> string \<Rightarrow> int \<Rightarrow> ('f::{zero,one,plus,minus,times,inverse,ord}) finance \<Rightarrow> (batch_error + batch_result) \<times> 'f finance" where
  "RunMBBatch sv period jobID fin =
     (case BuildDAG sv of
        Inl e \<Rightarrow> (Inl e, fin)
      | Inr candidates \<Rightarrow>
          if candidates = [] then (Inr emptyBatchResult, fin)
          else (case runBatch sv candidates period jobID (fi_ledger fin) of
              (result, _, audits, lg) \<Rightarrow> (Inr result, writeAudits sv jobID audits (fin\<lparr>fi_ledger := lg\<rparr>))))"

section \<open>The job of a batch\<close>

datatype batch_trigger_error = BatchJobError finance_error | BatchRunError batch_error

definition liftJob :: "(finance_error + 'a) \<times> 's \<Rightarrow> (batch_trigger_error + 'a) \<times> 's" where
  "liftJob r = (case r of (Inl e, s) \<Rightarrow> (Inl (BatchJobError e), s) | (Inr v, s) \<Rightarrow> (Inr v, s))"

definition tryBatch ::
  "(batch_trigger_error + 'a) \<times> 's \<Rightarrow> ('a \<Rightarrow> 's \<Rightarrow> (batch_trigger_error + 'b) \<times> 's) \<Rightarrow> (batch_trigger_error + 'b) \<times> 's" where
  "tryBatch r k = (case r of (Inl e, s) \<Rightarrow> (Inl e, s) | (Inr v, s) \<Rightarrow> k v s)"

record mb_trigger_result =
  mt_JobID :: int
  mt_Period :: string
  mt_SuccessCount :: int
  mt_FailedCount :: int
  mt_RowCount :: int
  mt_DurationMs :: int
  mt_Errors :: "(string \<times> batch_error) list"

definition MBTriggerHandle ::
  "'f batch_service \<Rightarrow> bool \<Rightarrow> string \<Rightarrow> string \<Rightarrow> time \<Rightarrow> time \<Rightarrow>
     ('f::{zero,one,plus,minus,times,inverse,ord}) finance \<Rightarrow> (batch_trigger_error + mb_trigger_result) \<times> 'f finance" where
  "MBTriggerHandle sv periodLock period actor now later fin =
     (case CheckPeriodUnlocked periodLock (lg_tables (fi_ledger fin)) period CalcTypeActual of
        Inl _ \<Rightarrow> (Inl (BatchJobError TriggerPeriodLocked), fin)
      | Inr _ \<Rightarrow>
     (case NewJob period CalcTypeActual ScopeMBBatch None triggeredByMBBatch actor now of
        Inl e \<Rightarrow> (Inl (BatchJobError e), fin)
      | Inr new \<Rightarrow>
     (case jobCreate new fin of (job, fin) \<Rightarrow>
        tryBatch (liftJob (markAndStore (JobMarkPlanning job) fin)) (\<lambda>job fin.
        tryBatch (liftJob (markAndStore (JobMarkProcessing job now) fin)) (\<lambda>job fin.
        (case RunMBBatch sv period (jb_id job) fin of
           (Inl e, fin) \<Rightarrow>
             tryBatch (liftJob (storeCompletion 0 0 1 job later fin)) (\<lambda>_ fin. (Inl (BatchRunError e), fin))
         | (Inr result, fin) \<Rightarrow>
             tryBatch (liftJob (storeCompletion (br_MBCount result) (int (length (br_Errors result))) 0 job later fin)) (\<lambda>job fin.
               (Inr \<lparr>mt_JobID = jb_id job, mt_Period = period, mt_SuccessCount = br_MBCount result,
                     mt_FailedCount = int (length (br_Errors result)), mt_RowCount = br_RowCount result,
                     mt_DurationMs = jb_durationMs job, mt_Errors = br_Errors result\<rparr>, fin))))))))"

end
