(* ===== verification/MBBatchFacts.thy ===== *)
theory MBBatchFacts
  imports MBBatch TriggerFacts
begin

text \<open>
  What a master batch run promises: an order that fails only on a cycle, one count per head with three
  results each, and results that agree with each other.
\<close>

section \<open>The order\<close>

lemma keepEdge_one:
  "set (keepEdge byID (m, r) out) = set out \<union> (if byID r \<noteq> None \<and> m \<noteq> r then {(r, m)} else {})"
  by (simp add: keepEdge_def addUnseen_def insert_absorb)

lemma keepEdge_set:
  "set (fold (keepEdge byID) edges out) =
     set out \<union> {(r, m). (m, r) \<in> set edges \<and> byID r \<noteq> None \<and> m \<noteq> r}"
proof (induction edges arbitrary: out)
  case (Cons e edges)
  obtain m r where e: "e = (m, r)" by (cases e)
  show ?case unfolding fold_Cons comp_apply Cons.IH e keepEdge_one by auto
qed simp

lemma keptEdges_iff: "(r, m) \<in> set (keptEdges byID edges) \<longleftrightarrow> (m, r) \<in> set edges \<and> byID r \<noteq> None \<and> m \<noteq> r"
  by (simp add: keptEdges_def keepEdge_set)

lemma headsByID_Some: "headsByID cs i = Some c \<Longrightarrow> c \<in> set cs \<and> mb_MBHID c = i"
  by (auto simp: headsByID_def dest: map_of_SomeD)

lemma headsByID_None: "headsByID cs i = None \<longleftrightarrow> i \<notin> mb_MBHID ` set cs"
  by (auto simp: headsByID_def map_of_eq_None_iff image_comp)

lemma headsByID_distinct:
  assumes "distinct (map mb_MBHID cs)" "c \<in> set cs"
  shows "headsByID cs (mb_MBHID c) = Some c"
proof -
  have "distinct (map fst (rev (map (\<lambda>c. (mb_MBHID c, c)) cs)))" using assms(1) by (simp add: rev_map comp_def) (metis distinct_rev rev_map)
  then show ?thesis unfolding headsByID_def by (rule map_of_is_SomeI) (use assms(2) in simp)
qed

definition mbDependsOn :: "mb_batch_head list \<Rightarrow> mb_edge list \<Rightarrow> (string \<times> string) set" where
  "mbDependsOn cs edges = {(r, m). (m, r) \<in> set edges \<and> r \<in> mb_MBHID ` set cs \<and> m \<noteq> r}"

definition childFirst :: "mb_edge list \<Rightarrow> mb_batch_head list \<Rightarrow> bool" where
  "childFirst edges out \<longleftrightarrow> (\<forall>j < length out. \<forall>c \<in> set out.
     (mb_MBHID (out ! j), mb_MBHID c) \<in> set edges \<longrightarrow> mb_MBHID c \<noteq> mb_MBHID (out ! j) \<longrightarrow> c \<in> set (take j out))"

text \<open>The order of the heads: when the edges are those of the validated heads, each id listed once, sorting
  always returns; it fails exactly when the compositions refer to each other in a cycle; otherwise
  the result has the same heads, each after the validated heads its composition refers to.\<close>

theorem topoSortMBHeads_correct:
  assumes "distinct (map mb_MBHID cs)" "\<forall>(m, r) \<in> set edges. m \<in> mb_MBHID ` set cs"
  shows "case topoSortMBHeads cs (headsByID cs) edges of
     Inl e \<Rightarrow> e = MBCycleDetected \<and> \<not> acyclic (mbDependsOn cs edges)
   | Inr out \<Rightarrow> acyclic (mbDependsOn cs edges) \<and> mset out = mset cs \<and> childFirst edges out"
proof -
  let ?nodes = "map mb_MBHID cs" and ?edges = "keptEdges (headsByID cs) edges"
  have kg: "kahn_graph ?nodes ?edges"
    by unfold_locales (use assms in \<open>auto simp: keptEdges_iff headsByID_None\<close>)
  have dep: "set ?edges = mbDependsOn cs edges"
    by (auto simp: keptEdges_iff headsByID_None mbDependsOn_def)
  obtain deg placed where p: "placeNodes ?nodes (degrees ?edges) = Some ([], deg, placed)" "queueOK ?nodes ?edges ([], deg, placed)"
    using kahn_graph.place_total [OF kg] by blast
  have run: "topoSortMBHeads cs (headsByID cs) edges =
      (if length placed \<noteq> length cs then Inl MBCycleDetected else Inr (map (headOrZero (headsByID cs)) placed))"
    by (simp add: topoSortMBHeads_def fold_addEdge_degrees p(1))
  show ?thesis
  proof (cases "length placed = length cs")
    case False
    then have "\<not> acyclic (mbDependsOn cs edges)" using kahn_graph.acyclic_placed_all [OF kg p(2)] dep by auto
    with False run show ?thesis by simp
  next
    case True
    let ?out = "map (headOrZero (headsByID cs)) placed"
    have all: "mset placed = mset ?nodes" using kahn_graph.placed_permutation [OF kg p(2)] True by simp
    then have nodes: "set placed = mb_MBHID ` set cs" by (metis set_map set_mset_mset)
    have "map (headOrZero (headsByID cs)) ?nodes = map (\<lambda>c. c) cs"
      unfolding map_map by (rule map_cong) (simp_all add: headOrZero_def headsByID_distinct [OF assms(1)])
    then have restored: "map (headOrZero (headsByID cs)) ?nodes = cs" by simp
    have "mset ?out = image_mset (headOrZero (headsByID cs)) (mset ?nodes)" unfolding mset_map all ..
    also have "\<dots> = mset cs" using arg_cong [OF restored, of mset] by (simp only: mset_map)
    finally have perm: "mset ?out = mset cs" .
    have ids: "mb_MBHID (headOrZero (headsByID cs) i) = i" if "i \<in> set placed" for i
    proof -
      from that nodes obtain c where "c \<in> set cs" "i = mb_MBHID c" by auto
      then show ?thesis by (simp add: headOrZero_def headsByID_distinct [OF assms(1)])
    qed
    have "childFirst edges ?out"
      unfolding childFirst_def
    proof (intro allI ballI impI)
      fix j c
      assume j: "j < length ?out" and c: "c \<in> set ?out" and e: "(mb_MBHID (?out ! j), mb_MBHID c) \<in> set edges"
        and ne: "mb_MBHID c \<noteq> mb_MBHID (?out ! j)"
      from c obtain r where r: "r \<in> set placed" "c = headOrZero (headsByID cs) r" by auto
      have idj: "mb_MBHID (?out ! j) = placed ! j" using j by (simp add: ids)
      have "(r, placed ! j) \<in> set ?edges"
        using e ne r nodes unfolding idj by (simp add: keptEdges_iff headsByID_None ids)
      then have "r \<in> set (take j placed)" using p(2) j by (simp add: queueOK_def)
      then show "c \<in> set (take j ?out)" by (simp add: r(2) take_map)
    qed
    moreover have "acyclic (mbDependsOn cs edges)" using kahn_graph.placed_all_acyclic [OF kg p(2)] True dep by simp
    ultimately show ?thesis using run True perm by simp
  qed
qed

section \<open>The results of one head\<close>

lemma tryUpsert_other_key:
  assumes ok: "ledgerOK lg" and new: "re_status r = ResultStatusCalculated" and other: "key \<noteq> rowKey r"
  shows "GetActive key (snd (tryUpsert id r lg)) = GetActive key lg"
proof (cases "keyLocked (rowKey r) lg")
  case False
  have ok': "ledgerOK (snd (tryUpsert id r lg))" using ledger_step_OK [OF ledger_step.Upsert [OF new] ok] .
  have "keyRows key (snd (tryUpsert id r lg)) = keyRows key lg"
  proof -
    have "filter (\<lambda>x. rowKey x = key) (map (\<lambda>x. if rowKey x = rowKey r then x\<lparr>re_status := ResultStatusSuperseded\<rparr> else x) rs) =
        filter (\<lambda>x. rowKey x = key) rs" for rs
    proof (induction rs)
      case (Cons x rs)
      then show ?case using other by (cases "rowKey x = rowKey r") simp_all
    qed simp
    then show ?thesis unfolding tryUpsert_alone [OF ok False] keyRows_def using other by simp
  qed
  then show ?thesis unfolding GetActive_last [OF ok'] GetActive_last [OF ok] by simp
qed (simp add: tryUpsert_locked)

text \<open>One attempt alone: the new row is the active one of its key, and the only row added.\<close>

lemma tryUpsert_stored:
  assumes ok: "ledgerOK lg" and new: "re_status r = ResultStatusCalculated" and run: "tryUpsert id r lg = (Inr u, lg')"
  shows "\<exists>i v. GetActive (rowKey r) lg' = Inr (r\<lparr>re_id := i, re_version := v\<rparr>) \<and>
    drop (length (lg_rows lg)) (lg_rows lg') = [r\<lparr>re_id := i, re_version := v\<rparr>] \<and> length (lg_rows lg') = Suc (length (lg_rows lg))"
proof -
  have unlocked: "\<not> keyLocked (rowKey r) lg" using run by (auto simp: tryUpsert_locked)
  note alone = tryUpsert_alone [OF ok unlocked]
  have lg': "lg' = snd (tryUpsert id r lg)" using run by simp
  have ok': "ledgerOK lg'" unfolding lg' using ledger_step_OK [OF ledger_step.Upsert [OF new] ok] .
  let ?row = "r\<lparr>re_id := lg_nextID lg, re_version := intToInt32 (int (length (keyRows (rowKey r) lg)) + 1)\<rparr>"
  have keys: "keyRows (rowKey r) lg' = map (\<lambda>x. if rowKey x = rowKey r then x\<lparr>re_status := ResultStatusSuperseded\<rparr> else x)
      (keyRows (rowKey r) lg) @ [?row]"
    unfolding lg' alone keyRows_def by (simp add: filter_map_same)
  have "GetActive (rowKey r) lg' = Inr ?row" unfolding GetActive_last [OF ok'] keys by simp
  moreover have "drop (length (lg_rows lg)) (lg_rows lg') = [?row]" "length (lg_rows lg') = Suc (length (lg_rows lg))"
    unfolding lg' alone by simp_all
  ultimately show ?thesis by blast
qed

lemma newMBResult_simps [simp]:
  "re_status (newMBResult pid period ct headID jobID out) = ResultStatusCalculated"
  "rowKey (newMBResult pid period ct headID jobID out) = (pid, period, ct)"
  "re_productSysID (newMBResult pid period ct headID jobID out) = pid"
  "re_period (newMBResult pid period ct headID jobID out) = period"
  "re_calcType (newMBResult pid period ct headID jobID out) = ct"
  "re_jobID (newMBResult pid period ct headID jobID out) = jobID"
  "re_costPerUnit (newMBResult pid period ct headID jobID out) = co_CostPerUnit out"
  "re_rmCostDetail (newMBResult pid period ct headID jobID out) = co_RMCostDetail out"
  by (simp_all add: newMBResult_def NewResult_def rowKey_def)

text \<open>Rows the head has stored, one per type, in order.\<close>

definition storedType :: "int \<Rightarrow> string \<Rightarrow> int \<Rightarrow> string \<times> ('f::zero) compute_output \<Rightarrow> 'f result \<Rightarrow> bool" where
  "storedType pid period jobID x r \<longleftrightarrow> rowKey r = (pid, period, fst x) \<and> re_jobID r = jobID \<and>
     re_costPerUnit r = co_CostPerUnit (snd x) \<and> re_rmCostDetail r = co_RMCostDetail (snd x)"

lemma storedType_evolves:
  assumes "evolves r r'" "storedType pid period jobID x r"
  shows "storedType pid period jobID x r'"
proof -
  have "g (figuresOf r') = g (figuresOf r)" for g :: "'a result \<Rightarrow> 'b" using assms(1) by (simp add: evolves_def)
  have i: "g (figuresOf r') = g (figuresOf r)" for g :: "'a result \<Rightarrow> int" using assms(1) by (simp add: evolves_def)
  have s: "g (figuresOf r') = g (figuresOf r)" for g :: "'a result \<Rightarrow> string" using assms(1) by (simp add: evolves_def)
  have c: "g (figuresOf r') = g (figuresOf r)" for g :: "'a result \<Rightarrow> 'a" using assms(1) by (simp add: evolves_def)
  have d: "re_rmCostDetail (figuresOf r') = re_rmCostDetail (figuresOf r)" using assms(1) by (simp add: evolves_def)
  from i [of re_productSysID] i [of re_jobID] s [of re_period] s [of re_calcType] c [of re_costPerUnit] d assms(2)
  show ?thesis by (simp add: storedType_def figuresOf_def rowKey_def)
qed

lemma persistAll_stores:
  assumes "persistAll pid period headID jobID outs (audits, lg) = Inr (audits', lg')" "ledgerOK lg" "distinct (map fst outs)"
  shows "ledger_step\<^sup>*\<^sup>* lg lg' \<and>
    length (lg_rows lg') = length (lg_rows lg) + length outs \<and>
    list_all2 (storedType pid period jobID) outs (drop (length (lg_rows lg)) (lg_rows lg')) \<and>
    (\<forall>x \<in> set outs. \<exists>r. GetActive (pid, period, fst x) lg' = Inr r \<and> storedType pid period jobID x r) \<and>
    (\<forall>key. key \<notin> (\<lambda>x. (pid, period, fst x)) ` set outs \<longrightarrow> GetActive key lg' = GetActive key lg)"
  using assms
proof (induction outs arbitrary: audits lg)
  case (Cons x outs)
  obtain ct out where x: "x = (ct, out)" by (cases x)
  let ?r = "newMBResult pid period ct headID jobID out"
  from Cons.prems(1) obtain u a1 lg1 where one: "tryUpsert id ?r lg = (Inr u, lg1)"
    and rest: "persistAll pid period headID jobID outs (a1, lg1) = Inr (audits', lg')"
    by (auto simp: x tryThen_Inr mbPersistResult_def split: prod.splits sum.splits)
  have lg1: "lg1 = snd (tryUpsert id ?r lg)" using one by simp
  have step: "ledger_step lg lg1" unfolding lg1 by (rule ledger_step.Upsert) simp
  have ok1: "ledgerOK lg1" using ledger_step_OK [OF step Cons.prems(2)] .
  obtain i v where new: "GetActive (pid, period, ct) lg1 = Inr (?r\<lparr>re_id := i, re_version := v\<rparr>)"
    "drop (length (lg_rows lg)) (lg_rows lg1) = [?r\<lparr>re_id := i, re_version := v\<rparr>]" "length (lg_rows lg1) = Suc (length (lg_rows lg))"
    using tryUpsert_stored [OF Cons.prems(2) _ one] by (auto simp: newMBResult_simps)
  have st: "storedType pid period jobID x (?r\<lparr>re_id := i, re_version := v\<rparr>)"
    unfolding storedType_def x by (simp add: newMBResult_def NewResult_def rowKey_def)
  have ih: "ledger_step\<^sup>*\<^sup>* lg1 lg'" "length (lg_rows lg') = length (lg_rows lg1) + length outs"
    "list_all2 (storedType pid period jobID) outs (drop (length (lg_rows lg1)) (lg_rows lg'))"
    "\<forall>x \<in> set outs. \<exists>r. GetActive (pid, period, fst x) lg' = Inr r \<and> storedType pid period jobID x r"
    "\<forall>key. key \<notin> (\<lambda>x. (pid, period, fst x)) ` set outs \<longrightarrow> GetActive key lg' = GetActive key lg1"
    using Cons.IH [OF rest ok1] Cons.prems(3) by simp_all
  have ext: "extendsRows (lg_rows lg1) (lg_rows lg')" using steps_extend [OF ih(1)] .
  let ?n = "length (lg_rows lg)"
  have "evolves (lg_rows lg1 ! ?n) (lg_rows lg' ! ?n)" using ext new(3) by (simp add: extendsRows_def)
  moreover have "lg_rows lg1 ! ?n = ?r\<lparr>re_id := i, re_version := v\<rparr>" using new(2,3) by (metis Cons_nth_drop_Suc lessI list.inject)
  ultimately have first: "storedType pid period jobID x (lg_rows lg' ! ?n)" using st storedType_evolves by metis
  have "drop ?n (lg_rows lg') = lg_rows lg' ! ?n # drop (Suc ?n) (lg_rows lg')"
    using ih(2) new(3) by (intro Cons_nth_drop_Suc [symmetric]) simp
  then have rows: "list_all2 (storedType pid period jobID) (x # outs) (drop ?n (lg_rows lg'))"
    using first ih(3) new(3) by simp
  have "(pid, period, ct) \<notin> (\<lambda>x. (pid, period, fst x)) ` set outs" using Cons.prems(3) by (auto simp: x)
  then have own: "GetActive (pid, period, fst x) lg' = Inr (?r\<lparr>re_id := i, re_version := v\<rparr>)"
    using ih(5) new(1) by (simp add: x)
  have "GetActive key lg' = GetActive key lg" if "key \<notin> (\<lambda>x. (pid, period, fst x)) ` set (x # outs)" for key
  proof -
    from that have k: "key \<noteq> rowKey ?r" "key \<notin> (\<lambda>x. (pid, period, fst x)) ` set outs" by (auto simp: x)
    from ih(5) k(2) have "GetActive key lg' = GetActive key lg1" by blast
    also have "\<dots> = GetActive key lg" unfolding lg1 by (rule tryUpsert_other_key [OF Cons.prems(2) _ k(1)]) simp
    finally show ?thesis .
  qed
  with own st rows ih step new(3) show ?case by (auto intro: converse_rtranclp_into_rtranclp)
qed simp

definition routeOf :: "'f batch_service \<Rightarrow> int \<Rightarrow> 'f graph option" where
  "routeOf sv pid = (case ld_Routes (bs_loader sv) [pid] of None \<Rightarrow> None | Some routes \<Rightarrow> map_of routes pid)"

lemma computeTypes_Inr:
  "computeTypes calc cts = Inr outs \<Longrightarrow> map fst outs = cts \<and> (\<forall>(ct, out) \<in> set outs. calc ct = Inr out)"
  by (induction cts arbitrary: outs) (auto simp: tryThen_Inr)

lemma computeAndPersist_Inr:
  assumes "computeAndPersist sv c period jobID costs committed lg = Inr (computed, pending, lg')"
  obtains route headID outs capp fs where "routeOf sv (mb_CostProductID c) = Some route" "map fst outs = mbBatchCalcTypes"
    "\<forall>(ct, out) \<in> set outs. computeType sv (mb_CostProductID c) period route capp fs costs committed ct = Inr out"
    "persistAll (mb_CostProductID c) period headID jobID outs ([], lg) = Inr (pending, lg')"
    "computed = map_of (map (\<lambda>(ct, out). (ct, co_CostPerUnit out)) outs)"
proof -
  from assms obtain capp fs routes where l: "mbLoad LoadCAPP (ld_CAPP (bs_loader sv) [mb_CostProductID c]) = Inr capp"
    "mbLoad LoadFormulas (ld_Formulas (bs_loader sv) [mb_CostProductID c]) = Inr fs"
    "mbLoad LoadRoutes (ld_Routes (bs_loader sv) [mb_CostProductID c]) = Inr routes"
    and rest: "(case map_of routes (mb_CostProductID c) of
         None \<Rightarrow> Inl NoRouteFound
       | Some route \<Rightarrow>
           tryThen (computeTypes (computeType sv (mb_CostProductID c) period route (capp (mb_CostProductID c)) (fs (mb_CostProductID c)) costs committed) mbBatchCalcTypes) (\<lambda>outs.
           (case gr_Head route of
              None \<Rightarrow> Inl RouteHeadMissing
            | Some head \<Rightarrow>
                tryThen (persistAll (mb_CostProductID c) period (hd_HeadID head) jobID outs ([], lg)) (\<lambda>(audits, lg').
                  Inr (map_of (map (\<lambda>(ct, out). (ct, co_CostPerUnit out)) outs), audits, lg'))))) = Inr (computed, pending, lg')"
    by (auto simp: computeAndPersist_def Let_def tryThen_Inr)
  from rest obtain route where route: "map_of routes (mb_CostProductID c) = Some route" by (cases "map_of routes (mb_CostProductID c)") simp_all
  from rest [unfolded route option.case] obtain outs where outs: "computeTypes (computeType sv (mb_CostProductID c) period route
      (capp (mb_CostProductID c)) (fs (mb_CostProductID c)) costs committed) mbBatchCalcTypes = Inr outs"
    and fin: "(case gr_Head route of
              None \<Rightarrow> Inl RouteHeadMissing
            | Some head \<Rightarrow>
                tryThen (persistAll (mb_CostProductID c) period (hd_HeadID head) jobID outs ([], lg)) (\<lambda>(audits, lg').
                  Inr (map_of (map (\<lambda>(ct, out). (ct, co_CostPerUnit out)) outs), audits, lg'))) = Inr (computed, pending, lg')"
    by (auto simp: tryThen_Inr)
  from fin obtain head where head: "gr_Head route = Some head" by (cases "gr_Head route") simp_all
  have "routeOf sv (mb_CostProductID c) = Some route"
    using l(3) route by (simp add: routeOf_def mbLoad_def split: option.splits)
  with fin head computeTypes_Inr [OF outs] show thesis
    by (intro that [of route outs "capp (mb_CostProductID c)" "fs (mb_CostProductID c)" "hd_HeadID head"]) (auto simp: tryThen_Inr)
qed

section \<open>The run of a batch\<close>

definition priceOf :: "(int \<Rightarrow> string option) \<Rightarrow> row_key \<Rightarrow> 'f ledger \<Rightarrow> 'f option" where
  "priceOf types key lg = (case types (fst key) of None \<Rightarrow> None | Some t \<Rightarrow> (case GetActive key lg of
     Inl _ \<Rightarrow> None | Inr r \<Rightarrow> Some (if t = ''MB'' then re_costPerUnit r else re_captiveCost r)))"

definition pricedRow :: "'f batch_service \<Rightarrow> string \<Rightarrow> 'f ledger \<Rightarrow> 'f result \<Rightarrow> bool" where
  "pricedRow sv period lg r \<longleftrightarrow> (\<forall>d \<in> set (re_rmCostDetail r). \<forall>p. rd_RefCode d = ProductRef p \<longrightarrow>
     (\<exists>route. routeOf sv (re_productSysID r) = Some route \<and> p \<in> set (collectNestedMBProducts route)) \<and>
     priceOf (ld_MasterTypes (bs_loader sv)) (p, period, re_calcType r) lg = Some (rd_UnitCost d))"

definition batchInv ::
  "'f batch_service \<Rightarrow> string \<Rightarrow> int \<Rightarrow> ('f::{zero,one,plus,minus,times,inverse,ord}) ledger \<Rightarrow> mb_batch_head list \<Rightarrow> 'f batch_state \<Rightarrow> bool" where
  "batchInv sv period jobID lg0 past s \<longleftrightarrow> (case s of (result, costs, audits, lg) \<Rightarrow>
     ledger_step\<^sup>*\<^sup>* lg0 lg \<and>
     (\<forall>ct pid v. costs ct pid = Some v \<longrightarrow> pid \<in> mb_CostProductID ` set past \<and>
        (\<exists>r. GetActive (pid, period, ct) lg = Inr r \<and> re_costPerUnit r = v)) \<and>
     (\<forall>ct pid. costs ct pid = None \<longrightarrow> GetActive (pid, period, ct) lg = GetActive (pid, period, ct) lg0) \<and>
     (\<forall>r \<in> set (drop (length (lg_rows lg0)) (lg_rows lg)). re_productSysID r \<in> mb_CostProductID ` set past \<and>
        re_period r = period \<and> re_jobID r = jobID \<and> re_calcType r \<in> set mbBatchCalcTypes \<and> pricedRow sv period lg r) \<and>
     br_MBCount result + int (length (br_Errors result)) = int (length past) \<and>
     0 \<le> br_MBCount result \<and>
     br_RowCount result = 3 * br_MBCount result \<and>
     int (length (lg_rows lg)) = int (length (lg_rows lg0)) + br_RowCount result)"

definition refsSettled :: "'f batch_service \<Rightarrow> mb_batch_head list \<Rightarrow> bool" where
  "refsSettled sv cs \<longleftrightarrow> (\<forall>j < length cs. \<forall>route p. routeOf sv (mb_CostProductID (cs ! j)) = Some route \<longrightarrow>
     p \<in> set (collectNestedMBProducts route) \<longrightarrow> p \<notin> mb_CostProductID ` set (drop j cs))"

lemma priceOf_cong:
  assumes "GetActive key lg' = GetActive key lg"
  shows "priceOf types key lg' = priceOf types key lg"
  unfolding priceOf_def assms ..

lemma batchInv_costs:
  assumes "batchInv sv period jobID lg0 past (result, costs, audits, lg)"
  shows "costs ct pid = Some v \<Longrightarrow> pid \<in> mb_CostProductID ` set past \<and>
      (\<exists>r. GetActive (pid, period, ct) lg = Inr r \<and> re_costPerUnit r = v)"
    "costs ct pid = None \<Longrightarrow> GetActive (pid, period, ct) lg = GetActive (pid, period, ct) lg0"
  using assms unfolding batchInv_def prod.case by (elim conjE, blast)+

lemma loadUpstream_price:
  assumes inv: "batchInv sv period jobID lg0 past (result, costs, audits, lg)"
    and mb: "\<forall>c \<in> set past. ld_MasterTypes (bs_loader sv) (mb_CostProductID c) = Some ''MB''"
    and load: "loadUpstreamCosts sv products period ct costs lg0 = Inr upstream" and p: "upstream p = Some v"
  shows "p \<in> set products \<and> priceOf (ld_MasterTypes (bs_loader sv)) (p, period, ct) lg = Some v"
proof -
  have some: "products \<noteq> []" using load p by (auto simp: loadUpstreamCosts_def)
  obtain base where base: "LoadUpstreamCosts (ld_MasterTypes (bs_loader sv)) products period ct lg0 = Some base"
    and up: "upstream = overlay costs ct products base"
    using load some by (auto simp: loadUpstreamCosts_def split: option.splits)
  have basePrice: "base = (\<lambda>q. if q \<notin> set products then None else priceOf (ld_MasterTypes (bs_loader sv)) (q, period, ct) lg0)"
    using base some by (auto simp: LoadUpstreamCosts_def priceOf_def fun_eq_iff split: if_splits)
  show ?thesis
  proof (cases "costs ct p")
    case None
    then have "base p = Some v" using p unfolding up overlay_def by (simp split: if_splits)
    then show ?thesis unfolding basePrice priceOf_cong [OF batchInv_costs(2) [OF inv None]] by (simp split: if_splits)
  next
    case (Some x)
    then obtain r where r: "p \<in> mb_CostProductID ` set past" "GetActive (p, period, ct) lg = Inr r" "re_costPerUnit r = x"
      using batchInv_costs(1) [OF inv] by blast
    have mem: "p \<in> set products" using p unfolding up overlay_def basePrice by (auto split: if_splits)
    then have "x = v" using p up Some by (simp add: overlay_def)
    moreover have "ld_MasterTypes (bs_loader sv) p = Some ''MB''" using mb r(1) by auto
    ultimately show ?thesis using r(2,3) mem by (simp add: priceOf_def)
  qed
qed

lemma computeType_Inr:
  assumes "computeType sv pid period route capp fs costs committed ct = Inr out"
  obtains rmCosts upstream where "loadUpstreamCosts sv (collectNestedMBProducts route) period ct costs committed = Inr upstream"
    "ComputeProduct (mbComputeInput sv pid ct route capp fs rmCosts upstream) = Inr out"
proof -
  from assms obtain rmCosts upstream where "loadUpstreamCosts sv (collectNestedMBProducts route) period ct costs committed = Inr upstream"
    "(case ComputeProduct (mbComputeInput sv pid ct route capp fs rmCosts upstream) of
        Inl e \<Rightarrow> Inl (MBCalcFailed ct e) | Inr out \<Rightarrow> Inr out) = Inr out"
    by (auto simp: computeType_def tryThen_Inr)
  then show thesis by (cases "ComputeProduct (mbComputeInput sv pid ct route capp fs rmCosts upstream)") (simp_all add: that)
qed

text \<open>Every product line of a calculated output is at the price of the table as it will stand.\<close>

lemma computeType_prices:
  assumes "computeType sv pid period route capp fs costs lg0 ct = Inr out"
    and inv: "batchInv sv period jobID lg0 past (result, costs, audits, lg)"
    and mb: "\<forall>c \<in> set past. ld_MasterTypes (bs_loader sv) (mb_CostProductID c) = Some ''MB''"
    and d: "d \<in> set (co_RMCostDetail out)" "rd_RefCode d = ProductRef p"
  shows "p \<in> set (collectNestedMBProducts route) \<and>
    priceOf (ld_MasterTypes (bs_loader sv)) (p, period, ct) lg = Some (rd_UnitCost d)"
  using assms(1)
proof (rule computeType_Inr)
  fix rmCosts upstream
  assume up: "loadUpstreamCosts sv (collectNestedMBProducts route) period ct costs lg0 = Inr upstream"
    and run: "ComputeProduct (mbComputeInput sv pid ct route capp fs rmCosts upstream) = Inr out"
  have "ci_Route (mbComputeInput sv pid ct route capp fs rmCosts upstream) = Some route" by (simp add: mbComputeInput_def)
  from ComputeProduct_priced [OF run this] d
  have "ci_UpstreamCosts (mbComputeInput sv pid ct route capp fs rmCosts upstream) p = Some (rd_UnitCost d)"
    by (auto intro: ownLines_rm)
  then show ?thesis by (intro loadUpstream_price [OF inv mb up]) (simp add: mbComputeInput_def)
qed

lemma evolves_figures:
  assumes "evolves r r'"
  shows "re_productSysID r' = re_productSysID r" "re_period r' = re_period r" "re_calcType r' = re_calcType r"
    "re_jobID r' = re_jobID r" "re_rmCostDetail r' = re_rmCostDetail r" "re_costPerUnit r' = re_costPerUnit r"
proof -
  from assms have e: "figuresOf r' = figuresOf r" by (simp add: evolves_def)
  note u = arg_cong [OF e]
  show "re_productSysID r' = re_productSysID r" using u [of re_productSysID] by (simp add: figuresOf_def)
  show "re_period r' = re_period r" using u [of re_period] by (simp add: figuresOf_def)
  show "re_calcType r' = re_calcType r" using u [of re_calcType] by (simp add: figuresOf_def)
  show "re_jobID r' = re_jobID r" using u [of re_jobID] by (simp add: figuresOf_def)
  show "re_rmCostDetail r' = re_rmCostDetail r" using u [of re_rmCostDetail] by (simp add: figuresOf_def)
  show "re_costPerUnit r' = re_costPerUnit r" using u [of re_costPerUnit] by (simp add: figuresOf_def)
qed

text \<open>A row stays priced when it evolves and only keys it does not refer to get new rows.\<close>

lemma pricedRow_keep:
  assumes "pricedRow sv period lg r" "evolves r r'"
    "\<And>route p. routeOf sv (re_productSysID r) = Some route \<Longrightarrow> p \<in> set (collectNestedMBProducts route) \<Longrightarrow>
       GetActive (p, period, re_calcType r) lg' = GetActive (p, period, re_calcType r) lg"
  shows "pricedRow sv period lg' r'"
  unfolding pricedRow_def evolves_figures [OF assms(2)]
proof (intro ballI allI impI)
  fix d p assume d: "d \<in> set (re_rmCostDetail r)" "rd_RefCode d = ProductRef p"
  with assms(1) obtain route where route: "routeOf sv (re_productSysID r) = Some route" "p \<in> set (collectNestedMBProducts route)"
    and "priceOf (ld_MasterTypes (bs_loader sv)) (p, period, re_calcType r) lg = Some (rd_UnitCost d)"
    unfolding pricedRow_def by blast
  then have "priceOf (ld_MasterTypes (bs_loader sv)) (p, period, re_calcType r) lg' = Some (rd_UnitCost d)"
    using priceOf_cong [OF assms(3) [OF route]] by simp
  with route show "(\<exists>route. routeOf sv (re_productSysID r) = Some route \<and> p \<in> set (collectNestedMBProducts route)) \<and>
      priceOf (ld_MasterTypes (bs_loader sv)) (p, period, re_calcType r) lg' = Some (rd_UnitCost d)" by blast
qed

lemma head_done:
  assumes run: "computeAndPersist sv c period jobID costs committed lg = Inr (computed, pending, lg')" and ok: "ledgerOK lg"
  shows "ledger_step\<^sup>*\<^sup>* lg lg'" "length (lg_rows lg') = length (lg_rows lg) + 3"
    "pid \<noteq> mb_CostProductID c \<Longrightarrow> GetActive (pid, period', ct) lg' = GetActive (pid, period', ct) lg"
    "computed ct = Some v \<Longrightarrow> \<exists>r. GetActive (mb_CostProductID c, period, ct) lg' = Inr r \<and> re_costPerUnit r = v"
    "computed ct = None \<Longrightarrow> GetActive (mb_CostProductID c, period, ct) lg' = GetActive (mb_CostProductID c, period, ct) lg"
    "\<exists>route. routeOf sv (mb_CostProductID c) = Some route \<and> (\<forall>r \<in> set (drop (length (lg_rows lg)) (lg_rows lg')).
       \<exists>capp fs t out. t \<in> set mbBatchCalcTypes \<and>
         computeType sv (mb_CostProductID c) period route capp fs costs committed t = Inr out \<and>
         storedType (mb_CostProductID c) period jobID (t, out) r)"
proof -
  let ?pid = "mb_CostProductID c"
  from run obtain route headID outs capp fs where h: "routeOf sv ?pid = Some route" "map fst outs = mbBatchCalcTypes"
    "\<forall>(ct, out) \<in> set outs. computeType sv ?pid period route capp fs costs committed ct = Inr out"
    "persistAll ?pid period headID jobID outs ([], lg) = Inr (pending, lg')"
    "computed = map_of (map (\<lambda>(ct, out). (ct, co_CostPerUnit out)) outs)"
    by (rule computeAndPersist_Inr)
  have dist: "distinct (map fst outs)" unfolding h(2) by (simp add: mbBatchCalcTypes_def CalcTypeActual_def)
  note s = persistAll_stores [OF h(4) ok dist]
  show "ledger_step\<^sup>*\<^sup>* lg lg'" using s by blast
  have len: "length outs = 3" using arg_cong [OF h(2), of length] by (simp add: mbBatchCalcTypes_def)
  then show "length (lg_rows lg') = length (lg_rows lg) + 3" using s by simp
  show "GetActive (pid, period', ct) lg' = GetActive (pid, period', ct) lg" if "pid \<noteq> ?pid"
  proof -
    have "(pid, period', ct) \<notin> (\<lambda>x. (?pid, period, fst x)) ` set outs" using that by auto
    with s show ?thesis by blast
  qed
  show "\<exists>r. GetActive (?pid, period, ct) lg' = Inr r \<and> re_costPerUnit r = v" if "computed ct = Some v"
  proof -
    from that h(5) obtain out where "(ct, out) \<in> set outs" "v = co_CostPerUnit out" by (auto dest!: map_of_SomeD)
    with s show ?thesis by (auto simp: storedType_def)
  qed
  show "GetActive (?pid, period, ct) lg' = GetActive (?pid, period, ct) lg" if "computed ct = None"
  proof -
    from that have "ct \<notin> fst ` set outs" unfolding h(5) by (auto simp: map_of_eq_None_iff image_iff split: prod.splits)
    then have "(?pid, period, ct) \<notin> (\<lambda>x. (?pid, period, fst x)) ` set outs" by auto
    with s show ?thesis by blast
  qed
  have "\<exists>capp fs t out. t \<in> set mbBatchCalcTypes \<and> computeType sv ?pid period route capp fs costs committed t = Inr out \<and>
      storedType ?pid period jobID (t, out) r" if "r \<in> set (drop (length (lg_rows lg)) (lg_rows lg'))" for r
  proof -
    have "list_all2 (storedType ?pid period jobID) outs (drop (length (lg_rows lg)) (lg_rows lg'))" using s by blast
    with that obtain t out where t: "(t, out) \<in> set outs" "storedType ?pid period jobID (t, out) r"
      by (auto simp: in_set_conv_nth list_all2_conv_all_nth) (metis nth_mem prod.collapse)
    then have "t \<in> set mbBatchCalcTypes" using h(2) by (metis fst_conv image_eqI list.set_map)
    with t h(3) show ?thesis by blast
  qed
  with h(1) show "\<exists>route. routeOf sv ?pid = Some route \<and> (\<forall>r \<in> set (drop (length (lg_rows lg)) (lg_rows lg')).
       \<exists>capp fs t out. t \<in> set mbBatchCalcTypes \<and>
         computeType sv ?pid period route capp fs costs committed t = Inr out \<and>
         storedType ?pid period jobID (t, out) r)" by blast
qed

text \<open>A product whose references no head of the run will still touch.\<close>

definition settled :: "'f batch_service \<Rightarrow> int \<Rightarrow> int \<Rightarrow> bool" where
  "settled sv q pid \<longleftrightarrow> (\<forall>route. routeOf sv pid = Some route \<longrightarrow> q \<notin> set (collectNestedMBProducts route))"

lemma head_rows:
  assumes inv: "batchInv sv period jobID lg0 past (result, costs, audits, lg)"
    and run: "computeAndPersist sv c period jobID costs lg0 lg = Inr (computed, pending, lg')" and ok: "ledgerOK lg"
    and mb: "\<forall>c \<in> set past. ld_MasterTypes (bs_loader sv) (mb_CostProductID c) = Some ''MB''"
    and own: "\<forall>c' \<in> insert c (set past). settled sv (mb_CostProductID c) (mb_CostProductID c')"
    and r: "r \<in> set (drop (length (lg_rows lg0)) (lg_rows lg'))"
  shows "re_productSysID r \<in> mb_CostProductID ` set (past @ [c]) \<and> re_period r = period \<and> re_jobID r = jobID \<and>
    re_calcType r \<in> set mbBatchCalcTypes \<and> pricedRow sv period lg' r"
proof -
  note h = head_done [OF run ok]
  have ext: "extendsRows (lg_rows lg) (lg_rows lg')" using steps_extend [OF h(1)] .
  have len0: "length (lg_rows lg0) \<le> length (lg_rows lg)" using inv by (simp add: batchInv_def)
  from r obtain i where i: "length (lg_rows lg0) \<le> i" "i < length (lg_rows lg')" "r = lg_rows lg' ! i"
    by (auto simp: in_set_conv_nth) (metis add.commute le_add2 less_diff_conv)
  show ?thesis
  proof (cases "i < length (lg_rows lg)")
    case True
    let ?old = "lg_rows lg ! i"
    have ev: "evolves ?old r" using ext True i(3) by (simp add: extendsRows_def)
    have "?old \<in> set (drop (length (lg_rows lg0)) (lg_rows lg))"
      using True i(1) by (auto simp: in_set_conv_nth intro!: exI [of _ "i - length (lg_rows lg0)"])
    then have old: "re_productSysID ?old \<in> mb_CostProductID ` set past" "re_period ?old = period" "re_jobID ?old = jobID"
      "re_calcType ?old \<in> set mbBatchCalcTypes" "pricedRow sv period lg ?old"
      using inv unfolding batchInv_def prod.case by blast+
    have "pricedRow sv period lg' r"
    proof (rule pricedRow_keep [OF old(5) ev])
      fix route p assume "routeOf sv (re_productSysID ?old) = Some route" "p \<in> set (collectNestedMBProducts route)"
      with own old(1) have "p \<noteq> mb_CostProductID c" by (auto simp: settled_def)
      then show "GetActive (p, period, re_calcType ?old) lg' = GetActive (p, period, re_calcType ?old) lg" by (rule h(3))
    qed
    with old evolves_figures [OF ev] show ?thesis by auto
  next
    case False
    then have "r \<in> set (drop (length (lg_rows lg)) (lg_rows lg'))"
      using i by (auto simp: in_set_conv_nth intro!: exI [of _ "i - length (lg_rows lg)"])
    with h(6) obtain route capp fs t out where t: "routeOf sv (mb_CostProductID c) = Some route" "t \<in> set mbBatchCalcTypes"
      "computeType sv (mb_CostProductID c) period route capp fs costs lg0 t = Inr out"
      "storedType (mb_CostProductID c) period jobID (t, out) r" by blast
    have fields: "re_productSysID r = mb_CostProductID c" "re_period r = period" "re_jobID r = jobID" "re_calcType r = t"
      "re_rmCostDetail r = co_RMCostDetail out" using t(4) by (simp_all add: storedType_def rowKey_def)
    have "pricedRow sv period lg' r"
      unfolding pricedRow_def fields
    proof (intro ballI allI impI conjI exI)
      fix d p assume "d \<in> set (co_RMCostDetail out)" "rd_RefCode d = ProductRef p"
      from computeType_prices [OF t(3) inv mb this]
      have p: "p \<in> set (collectNestedMBProducts route)" "priceOf (ld_MasterTypes (bs_loader sv)) (p, period, t) lg = Some (rd_UnitCost d)"
        by simp_all
      have "p \<noteq> mb_CostProductID c" using own t(1) p(1) by (auto simp: settled_def)
      from priceOf_cong [OF h(3) [OF this]] p(2)
      show "priceOf (ld_MasterTypes (bs_loader sv)) (p, period, t) lg' = Some (rd_UnitCost d)" by simp
      show "p \<in> set (collectNestedMBProducts route)" by (rule p(1))
    qed (rule t(1))
    with t(2) fields show ?thesis by simp
  qed
qed

lemma batch_step:
  assumes inv: "batchInv sv period jobID lg0 past s" and ok0: "ledgerOK lg0"
    and mb: "\<forall>c \<in> set past. ld_MasterTypes (bs_loader sv) (mb_CostProductID c) = Some ''MB''"
    and own: "\<forall>c' \<in> insert c (set past). settled sv (mb_CostProductID c) (mb_CostProductID c')"
    and new: "mb_CostProductID c \<notin> mb_CostProductID ` set past"
  shows "batchInv sv period jobID lg0 (past @ [c]) (runOneMB sv period jobID lg0 c s)"
proof -
  obtain result costs audits lg where s: "s = (result, costs, audits, lg)" by (cases s)
  show ?thesis
  proof (cases "computeAndPersist sv c period jobID costs lg0 lg")
    case (Inl e)
    with inv show ?thesis unfolding s runOneMB_def batchInv_def prod.case Inl sum.case by auto
  next
    case (Inr x)
    obtain computed pending lg' where x: "x = (computed, pending, lg')" by (cases x)
    have steps: "ledger_step\<^sup>*\<^sup>* lg0 lg" using inv by (simp add: batchInv_def s)
    then have ok: "ledgerOK lg" using ledger_steps_OK ok0 by blast
    note run = Inr [unfolded x]
    note h = head_done [OF run ok]
    note c = batchInv_costs [OF inv [unfolded s]]
    let ?costs = "publish (mb_CostProductID c) computed costs"
    have "pid \<in> mb_CostProductID ` set (past @ [c]) \<and> (\<exists>r. GetActive (pid, period, ct) lg' = Inr r \<and> re_costPerUnit r = v)"
      if "?costs ct pid = Some v" for ct pid v
    proof (cases "pid = mb_CostProductID c")
      case True
      with that c(1) new have "computed ct = Some v" by (auto simp: publish_def split: option.splits)
      with h(4) True show ?thesis by simp
    next
      case False
      with that have "costs ct pid = Some v" by (auto simp: publish_def split: option.splits)
      with c(1) h(3) [OF False] show ?thesis by auto
    qed
    moreover have "GetActive (pid, period, ct) lg' = GetActive (pid, period, ct) lg0" if "?costs ct pid = None" for ct pid
    proof (cases "pid = mb_CostProductID c")
      case True
      with that have "computed ct = None" "costs ct pid = None" by (auto simp: publish_def split: option.splits)
      with h(5) c(2) True show ?thesis by simp
    next
      case False
      with that have "costs ct pid = None" by (auto simp: publish_def split: option.splits)
      with h(3) [OF False] c(2) show ?thesis by simp
    qed
    moreover have "ledger_step\<^sup>*\<^sup>* lg0 lg'" using steps h(1) by simp
    moreover note head_rows [OF inv [unfolded s] run ok mb own]
    moreover have "br_MBCount result + 1 + int (length (br_Errors result)) = int (length (past @ [c]))" "0 \<le> br_MBCount result + 1"
      "br_RowCount result + 3 = 3 * (br_MBCount result + 1)"
      "int (length (lg_rows lg')) = int (length (lg_rows lg0)) + (br_RowCount result + 3)"
      using inv h(2) by (simp_all add: batchInv_def s)
    ultimately show ?thesis
      unfolding s runOneMB_def prod.case run sum.case batchInv_def by (simp add: mbBatchCalcTypes_def)
  qed
qed

lemma batch_fold:
  assumes "ledgerOK lg0" "distinct (map mb_CostProductID cs)"
    "\<forall>c \<in> set cs. ld_MasterTypes (bs_loader sv) (mb_CostProductID c) = Some ''MB''"
    "\<forall>j < length cs. \<forall>i \<le> j. settled sv (mb_CostProductID (cs ! j)) (mb_CostProductID (cs ! i))"
  shows "batchInv sv period jobID lg0 cs (runBatch sv cs period jobID lg0)"
  using assms
proof (induction cs rule: rev_induct)
  case Nil
  show ?case by (simp add: batchInv_def runBatch_def newBatchCosts_def emptyBatchResult_def)
next
  case (snoc c cs)
  have before: "\<forall>j < length cs. \<forall>i \<le> j. settled sv (mb_CostProductID (cs ! j)) (mb_CostProductID (cs ! i))"
  proof (intro allI impI)
    fix j i assume "j < length cs" "i \<le> j"
    with snoc.prems(4) [rule_format, of j i]
    show "settled sv (mb_CostProductID (cs ! j)) (mb_CostProductID (cs ! i))" by (simp add: nth_append)
  qed
  have own: "\<forall>c' \<in> insert c (set cs). settled sv (mb_CostProductID c) (mb_CostProductID c')"
  proof
    fix c' assume "c' \<in> insert c (set cs)"
    then obtain i where "i \<le> length cs" "c' = (cs @ [c]) ! i"
      by (metis in_set_conv_nth insert_iff le_eq_less_or_eq nth_append nth_append_length)
    with snoc.prems(4) [rule_format, of "length cs" i] show "settled sv (mb_CostProductID c) (mb_CostProductID c')"
      by simp
  qed
  show ?case
    unfolding runBatch_def fold_append comp_apply fold_Cons fold_Nil id_apply
    by (rule batch_step [OF snoc.IH [unfolded runBatch_def, OF snoc.prems(1) _ _ before] snoc.prems(1) _ own])
      (use snoc.prems(2,3) in auto)
qed

text \<open>The edges speak for the routes: a line that refers to the product of another head of the run has its edge, and no
  head's route refers to its own product.\<close>

definition edgesCover :: "'f batch_service \<Rightarrow> mb_batch_head list \<Rightarrow> mb_edge list \<Rightarrow> bool" where
  "edgesCover sv cs edges \<longleftrightarrow> (\<forall>c \<in> set cs. \<forall>c' \<in> set cs.
     \<not> settled sv (mb_CostProductID c') (mb_CostProductID c) \<longrightarrow>
       mb_MBHID c' \<noteq> mb_MBHID c \<and> (mb_MBHID c, mb_MBHID c') \<in> set edges)"

lemma childFirst_settled:
  assumes "childFirst edges out" "edgesCover sv out edges" "distinct out" "j < length out" "i \<le> j"
  shows "settled sv (mb_CostProductID (out ! j)) (mb_CostProductID (out ! i))"
proof (rule ccontr)
  assume "\<not> ?thesis"
  moreover have "out ! j \<in> set out" "out ! i \<in> set out" "i < length out" using assms(4,5) by simp_all
  ultimately have "mb_MBHID (out ! j) \<noteq> mb_MBHID (out ! i)" "(mb_MBHID (out ! i), mb_MBHID (out ! j)) \<in> set edges"
    using assms(2) by (auto simp: edgesCover_def)
  then have "out ! j \<in> set (take i out)"
    using assms(1) \<open>i < length out\<close> \<open>out ! j \<in> set out\<close> by (auto simp: childFirst_def)
  then obtain k where "k < i" "out ! k = out ! j" by (auto simp: in_set_conv_nth)
  with assms(3-5) show False by (simp add: nth_eq_iff_index_eq)
qed

lemma writeAudits_ledger [simp]: "fi_ledger (writeAudits sv jobID audits fin) = fi_ledger fin"
proof -
  have "fi_ledger (fold (\<lambda>e. writeHistory (e\<lparr>ah_ChangedBy := a\<rparr>)) audits fin) = fi_ledger fin" for a
    by (induction audits arbitrary: fin) (simp_all add: writeHistory_def)
  then show ?thesis by (simp add: writeAudits_def)
qed

text \<open>ACTUAL is the first type of a head, so a locked period stops the whole head.\<close>

lemma locked_head:
  assumes "IsPeriodLockedRow (lg_tables lg) period CalcTypeActual"
  shows "\<exists>e. computeAndPersist sv c period jobID costs committed lg = Inl e"
proof (rule ccontr)
  assume "\<not> ?thesis"
  then obtain x where "computeAndPersist sv c period jobID costs committed lg = Inr x"
    by (cases "computeAndPersist sv c period jobID costs committed lg") simp_all
  then obtain computed pending lg' where "computeAndPersist sv c period jobID costs committed lg = Inr (computed, pending, lg')"
    by (cases x) simp
  then obtain headID outs where "map fst outs = mbBatchCalcTypes"
    "persistAll (mb_CostProductID c) period headID jobID outs ([], lg) = Inr (pending, lg')"
    by (rule computeAndPersist_Inr) blast
  then obtain out outs' where "persistAll (mb_CostProductID c) period headID jobID ((CalcTypeActual, out) # outs') ([], lg) = Inr (pending, lg')"
    by (auto simp: mbBatchCalcTypes_def)
  moreover have "keyLocked (rowKey (newMBResult (mb_CostProductID c) period CalcTypeActual headID jobID out)) lg"
    using assms by (simp add: keyLocked_def)
  ultimately show False by (simp add: mbPersistResult_def tryUpsert_locked tryThen_def)
qed

lemma locked_batch:
  assumes "IsPeriodLockedRow (lg_tables lg) period CalcTypeActual"
  shows "\<exists>errors. runBatch sv cs period jobID lg = (emptyBatchResult\<lparr>br_Errors := errors\<rparr>, newBatchCosts, [], lg)"
proof -
  have "\<exists>errors. fold (runOneMB sv period jobID lg) cs (emptyBatchResult\<lparr>br_Errors := es\<rparr>, newBatchCosts, [], lg) =
      (emptyBatchResult\<lparr>br_Errors := errors\<rparr>, newBatchCosts, [], lg)" for es
  proof (induction cs arbitrary: es)
    case (Cons c cs)
    obtain e where "computeAndPersist sv c period jobID newBatchCosts lg lg = Inl e" using locked_head [OF assms] by blast
    then show ?case using Cons.IH by (simp add: runOneMB_def)
  qed auto
  from this [of "[]"] show ?thesis by (simp add: runBatch_def emptyBatchResult_def)
qed

section \<open>What a run leaves\<close>

text \<open>(C9) A batch agrees with itself: when the run goes through, on tables reached by the services' steps,
  over validated heads of distinct ids and products, all of master batch type, whose edges cover
  what their routes refer to, it only makes such steps; every head counts as a success or as an error,
  a success with its three rows; every row added is of a head, the period, the job and one of the three types; and each of its
  detail lines that refers to a product is priced at what that product's active row holds for the
  same type at the end of the run, so at the result of this run when the product was calculated in
  it. A period locked for ACTUAL leaves every row as it was, for all types.\<close>

theorem batch_results_agree:
  assumes "ledger_step\<^sup>*\<^sup>* emptyLedger (fi_ledger fin)" "bs_ListValidated sv = Some cs" "cs \<noteq> []"
    "bs_ListMBEdgesBulk sv (map mb_MBHID cs) (map mb_CurrentVersion cs) = Some edges"
    "distinct (map mb_MBHID cs)" "distinct (map mb_CostProductID cs)" "\<forall>(m, r) \<in> set edges. m \<in> mb_MBHID ` set cs"
    "\<forall>c \<in> set cs. ld_MasterTypes (bs_loader sv) (mb_CostProductID c) = Some ''MB''" "edgesCover sv cs edges"
    "RunMBBatch sv period jobID fin = (Inr result, fin')"
  shows "ledger_step\<^sup>*\<^sup>* (fi_ledger fin) (fi_ledger fin') \<and>
    br_MBCount result + int (length (br_Errors result)) = int (length cs) \<and>
    int (length (lg_rows (fi_ledger fin'))) = int (length (lg_rows (fi_ledger fin))) + 3 * br_MBCount result \<and>
    (\<forall>r \<in> set (drop (length (lg_rows (fi_ledger fin))) (lg_rows (fi_ledger fin'))).
       re_productSysID r \<in> mb_CostProductID ` set cs \<and> re_period r = period \<and> re_jobID r = jobID \<and>
       re_calcType r \<in> set mbBatchCalcTypes \<and>
       (\<forall>d \<in> set (re_rmCostDetail r). \<forall>p. rd_RefCode d = ProductRef p \<longrightarrow>
          priceOf (ld_MasterTypes (bs_loader sv)) (p, period, re_calcType r) (fi_ledger fin') = Some (rd_UnitCost d))) \<and>
    (IsPeriodLockedRow (lg_tables (fi_ledger fin)) period CalcTypeActual \<longrightarrow>
       fi_ledger fin' = fi_ledger fin \<and> br_MBCount result = 0)"
proof -
  have ok: "ledgerOK (fi_ledger fin)" using ledger_steps_OK [OF assms(1) ledgerOK_empty] .
  obtain out where dag: "BuildDAG sv = Inr out" "topoSortMBHeads cs (headsByID cs) edges = Inr out"
    using assms(2-4,10) by (cases "topoSortMBHeads cs (headsByID cs) edges") (auto simp: BuildDAG_def RunMBBatch_def)
  have order: "mset out = mset cs" "childFirst edges out"
    using topoSortMBHeads_correct [OF assms(5,7)] dag(2) by simp_all
  have sets: "set out = set cs" using order(1) by (metis set_mset_mset)
  have dist: "distinct out" "distinct (map mb_CostProductID out)"
    using assms(6) order(1) by (metis distinct_map mset_eq_imp_distinct_iff, metis mset_eq_imp_distinct_iff mset_map)
  have cover: "edgesCover sv out edges" using assms(9) unfolding edgesCover_def sets .
  obtain costs audits lg where run: "runBatch sv out period jobID (fi_ledger fin) = (result, costs, audits, lg)"
    and fin': "fi_ledger fin' = lg"
    using assms(3,10) dag(1) order(1) by (auto simp: RunMBBatch_def split: prod.splits if_splits)
  have "batchInv sv period jobID (fi_ledger fin) out (runBatch sv out period jobID (fi_ledger fin))"
    by (rule batch_fold [OF ok dist(2)])
      (use assms(8) sets childFirst_settled [OF order(2) cover dist(1)] in auto)
  note inv = this [unfolded run batchInv_def prod.case]
  have len: "length out = length cs" using order(1) by (metis size_mset)
  have "lg = fi_ledger fin \<and> br_MBCount result = 0" if "IsPeriodLockedRow (lg_tables (fi_ledger fin)) period CalcTypeActual"
    using locked_batch [OF that, of sv out jobID] run by (auto simp: emptyBatchResult_def)
  then show ?thesis
    using inv unfolding fin' sets len pricedRow_def by auto
qed

section \<open>The job of a run\<close>

lemma writeAudits_jobs [simp]: "fi_jobs (writeAudits sv jobID audits fin) = fi_jobs fin"
proof -
  have "fi_jobs (fold (\<lambda>e. writeHistory (e\<lparr>ah_ChangedBy := a\<rparr>)) audits fin) = fi_jobs fin" for a
    by (induction audits arbitrary: fin) (simp_all add: writeHistory_def)
  then show ?thesis by (simp add: writeAudits_def)
qed

lemma RunMBBatch_jobs: "RunMBBatch sv period jobID fin = (res, fin') \<Longrightarrow> fi_jobs fin' = fi_jobs fin"
  by (auto simp: RunMBBatch_def split: sum.splits if_splits prod.splits)

lemma RunMBBatch_Inl: "RunMBBatch sv period jobID fin = (Inl e, fin') \<Longrightarrow> fin' = fin \<and> BuildDAG sv = Inl e"
  by (auto simp: RunMBBatch_def split: sum.splits if_splits prod.splits)

definition batchJob :: "string \<Rightarrow> string \<Rightarrow> time \<Rightarrow> int \<Rightarrow> job" where
  "batchJob period actor now i =
     \<lparr>jb_id = i, jb_period = period, jb_calcType = CalcTypeActual, jb_scope = ScopeMBBatch,
      jb_productFilter = None, jb_status = JobStatusProcessing, jb_priority = 5, jb_totalProducts = 0,
      jb_totalChunks = 0, jb_totalWaves = 0, jb_processedChunks = 0, jb_successCount = 0, jb_failedCount = 0,
      jb_blockedCount = 0, jb_triggeredBy = triggeredByMBBatch, jb_queuedAt = now, jb_startedAt = None,
      jb_completedAt = None, jb_durationMs = 0, jb_createdBy = actor\<rparr>"

definition batchStarted :: "string \<Rightarrow> string \<Rightarrow> time \<Rightarrow> 'f finance \<Rightarrow> 'f finance" where
  "batchStarted period actor now fin = withJob (batchJob period actor now (fi_nextJobID fin)) fin"

text \<open>Unless a guard refuses, the job reaches PROCESSING and its row ends with the tallies of the run.\<close>

lemma MBTriggerHandle_run:
  assumes fresh: "fi_nextJobID fin \<notin> jb_id ` set (fi_jobs fin)" and unlocked: "CheckPeriodUnlocked lock (lg_tables (fi_ledger fin)) period CalcTypeActual = Inr u"
    and period: "length period = 6"
    and run: "RunMBBatch sv period (fi_nextJobID fin) (batchStarted period actor now fin) = (res, fin2)"
  defines "row \<equiv> batchJob period actor now (fi_nextJobID fin)"
  shows "MBTriggerHandle sv lock period actor now later fin =
    (case res of
       Inl e \<Rightarrow> (case JobMarkComplete (row\<lparr>jb_startedAt := Some now\<rparr>) 0 0 1 later of
          Inl e' \<Rightarrow> (Inl (BatchJobError e'), fin2)
        | Inr job \<Rightarrow> (Inl (BatchRunError e), fin2\<lparr>fi_jobs := fi_jobs fin @ [job\<lparr>jb_startedAt := None\<rparr>]\<rparr>))
     | Inr result \<Rightarrow> (case JobMarkComplete (row\<lparr>jb_startedAt := Some now\<rparr>) (br_MBCount result) (int (length (br_Errors result))) 0 later of
          Inl e' \<Rightarrow> (Inl (BatchJobError e'), fin2)
        | Inr job \<Rightarrow> (Inr \<lparr>mt_JobID = jb_id job, mt_Period = period, mt_SuccessCount = br_MBCount result,
             mt_FailedCount = int (length (br_Errors result)), mt_RowCount = br_RowCount result,
             mt_DurationMs = jb_durationMs job, mt_Errors = br_Errors result\<rparr>,
             fin2\<lparr>fi_jobs := fi_jobs fin @ [job\<lparr>jb_startedAt := None, jb_successCount := intToInt32 (br_MBCount result),
               jb_failedCount := intToInt32 (int (length (br_Errors result)))\<rparr>]\<rparr>)))"
proof -
  let ?i = "fi_nextJobID fin"
  let ?queued = "row\<lparr>jb_status := JobStatusQueued\<rparr>"
  have others: "\<forall>j \<in> set (fi_jobs fin). jb_id j \<noteq> ?i" using fresh by (metis image_eqI)
  obtain new where new: "NewJob period CalcTypeActual ScopeMBBatch None triggeredByMBBatch actor now = Inr new"
    and create: "jobCreate new fin = (?queued, withJob ?queued fin)"
    using period by (simp add: NewJob_def jobCreate_def Let_def withJob_def row_def batchJob_def)
  have plan: "markAndStore (JobMarkPlanning ?queued) (withJob ?queued fin) =
      (Inr (row\<lparr>jb_status := JobStatusPlanning\<rparr>), withJob (row\<lparr>jb_status := JobStatusPlanning\<rparr>) fin)"
    using markAndStore_last [of "withJob ?queued fin" "fi_jobs fin" ?queued "row\<lparr>jb_status := JobStatusPlanning\<rparr>"] others
    by (simp add: JobMarkPlanning_def withJob_def row_def batchJob_def)
  have process: "markAndStore (JobMarkProcessing (row\<lparr>jb_status := JobStatusPlanning\<rparr>) now) (withJob (row\<lparr>jb_status := JobStatusPlanning\<rparr>) fin) =
      (Inr (row\<lparr>jb_startedAt := Some now\<rparr>), batchStarted period actor now fin)"
    using markAndStore_last [of "withJob (row\<lparr>jb_status := JobStatusPlanning\<rparr>) fin" "fi_jobs fin" "row\<lparr>jb_status := JobStatusPlanning\<rparr>" "row\<lparr>jb_startedAt := Some now\<rparr>"] others
    by (simp add: JobMarkProcessing_def withJob_def batchStarted_def row_def batchJob_def)
  have jobs2: "fi_jobs fin2 = fi_jobs fin @ [row]"
    using RunMBBatch_jobs [OF run] by (simp add: batchStarted_def withJob_def row_def)
  have complete: "storeCompletion succ fl b (row\<lparr>jb_startedAt := Some now\<rparr>) later fin2 =
      (case JobMarkComplete (row\<lparr>jb_startedAt := Some now\<rparr>) succ fl b later of
         Inl e \<Rightarrow> (Inl e, fin2)
       | Inr job \<Rightarrow> (Inr job, fin2\<lparr>fi_jobs := fi_jobs fin @ [job\<lparr>jb_startedAt := None, jb_successCount := intToInt32 succ,
           jb_failedCount := intToInt32 fl, jb_blockedCount := intToInt32 b\<rparr>]\<rparr>))" for succ fl b
  proof (cases "JobMarkComplete (row\<lparr>jb_startedAt := Some now\<rparr>) succ fl b later")
    case (Inl e)
    then show ?thesis by (simp add: storeCompletion_def tryFin_def)
  next
    case (Inr job)
    with storeCompletion_last [OF jobs2 _ _ Inr] others show ?thesis
      by (auto simp: JobMarkComplete_def endedAt_def row_def batchJob_def split: if_splits)
  qed
  have row: "jb_status row = JobStatusProcessing" "jb_id row = ?i" by (simp_all add: row_def batchJob_def)
  show ?thesis
    unfolding MBTriggerHandle_def unlocked new create plan process prod.case sum.case liftJob_def tryBatch_def
    using run by (cases res) (simp_all add: complete row JobMarkComplete_def endedAt_def)
qed

text \<open>The job of a run tells how the run ended. On tables whose ids are fresh, the batch's trigger either changes
  nothing (a malformed period, or a period locked for ACTUAL with the lock check wired), or leaves exactly one new row of a job: FAILED
  when the run could not order its heads, in which case no result has changed; otherwise the row of the
  returned id, SUCCESS when no head failed, FAILED when none succeeded, else PARTIAL_FAILED, with
  the counts returned. Results only change in the run itself.\<close>

theorem batch_job_verdict:
  assumes "storeOK fin" "MBTriggerHandle sv lock period actor now later fin = (res, fin')"
  shows "case res of
     Inl (BatchJobError _) \<Rightarrow> fin' = fin \<and>
       (length period \<noteq> 6 \<or> lock \<and> IsPeriodLockedRow (lg_tables (fi_ledger fin)) period CalcTypeActual)
   | Inl (BatchRunError e) \<Rightarrow> BuildDAG sv = Inl e \<and> fi_ledger fin' = fi_ledger fin \<and>
       (\<exists>row. fi_jobs fin' = fi_jobs fin @ [row] \<and> jb_id row = fi_nextJobID fin \<and> jb_status row = JobStatusFailed)
   | Inr t \<Rightarrow> (\<exists>row. fi_jobs fin' = fi_jobs fin @ [row] \<and> jb_id row = mt_JobID t \<and> mt_JobID t = fi_nextJobID fin \<and>
       jb_status row = (if mt_FailedCount t = 0 then JobStatusSuccess
         else if mt_SuccessCount t = 0 then JobStatusFailed else JobStatusPartialFailed) \<and>
       jb_successCount row = intToInt32 (mt_SuccessCount t) \<and> jb_failedCount row = intToInt32 (mt_FailedCount t)) \<and>
       fi_ledger fin' = fi_ledger (snd (RunMBBatch sv period (mt_JobID t) (batchStarted period actor now fin)))"
proof -
  have fresh: "fi_nextJobID fin \<notin> jb_id ` set (fi_jobs fin)" using assms(1) by (auto simp: storeOK_def)
  show ?thesis
  proof (cases "length period = 6")
    case False
    then have "NewJob period CalcTypeActual ScopeMBBatch None triggeredByMBBatch actor now = Inl ErrInvalidPeriod"
      by (simp add: NewJob_def)
    with assms(2) False show ?thesis
      by (cases "CheckPeriodUnlocked lock (lg_tables (fi_ledger fin)) period CalcTypeActual") (auto simp: MBTriggerHandle_def)
  next
    case period: True
    show ?thesis
    proof (cases "CheckPeriodUnlocked lock (lg_tables (fi_ledger fin)) period CalcTypeActual")
      case (Inl e)
      with assms(2) show ?thesis by (auto simp: MBTriggerHandle_def CheckPeriodUnlocked_def split: if_splits)
    next
      case (Inr u)
      obtain r fin2 where run: "RunMBBatch sv period (fi_nextJobID fin) (batchStarted period actor now fin) = (r, fin2)"
        by (cases "RunMBBatch sv period (fi_nextJobID fin) (batchStarted period actor now fin)")
      note h = MBTriggerHandle_run [OF fresh Inr period run, of later, unfolded assms(2)]
      show ?thesis
      proof (cases r)
        case r: (Inl e)
        from RunMBBatch_Inl [OF run [unfolded r]] have "fi_ledger fin2 = fi_ledger fin" "BuildDAG sv = Inl e"
          by (simp_all add: batchStarted_def withJob_def)
        with h show ?thesis by (simp add: r JobMarkComplete_def endedAt_def batchJob_def)
      next
        case r: (Inr result)
        with h show ?thesis by (auto simp: run JobMarkComplete_def endedAt_def batchJob_def)
      qed
    qed
  qed
qed

section \<open>An example\<close>

text \<open>Two heads: \<open>a\<close> (product 1) refers to \<open>b\<close> (product 7), whose committed result costs 3.\<close>

definition batchRoute :: "rat graph" where
  "batchRoute = \<lparr>gr_Head = Some \<lparr>hd_HeadID = 8, hd_ProductSysID = 7, hd_RMRatioMode = []\<rparr>,
     gr_Seqs = [Some \<lparr>sq_ProductSysID = 7, sq_RouteLevel = 1,
       sq_Rms = [Some ((exampleRm RmTypeItem 0 [] (1/4))\<lparr>rm_RmItemCode := ''IT''\<rparr>)],
       sq_RMRatioMode = []\<rparr>]\<rparr>"

definition exampleCandidates :: "mb_batch_head list" where
  "exampleCandidates = [\<lparr>mb_MBHID = ''a'', mb_CostProductID = 1, mb_CurrentVersion = 2\<rparr>,
     \<lparr>mb_MBHID = ''b'', mb_CostProductID = 7, mb_CurrentVersion = 1\<rparr>]"

definition exampleBatch :: "rat batch_service" where
  "exampleBatch = \<lparr>bs_ListValidated = Some exampleCandidates, bs_ListMBEdgesBulk = (\<lambda>_ _. Some [(''a'', ''b'')]),
     bs_loader = (sv_loader exampleService)\<lparr>
       ld_Routes := (\<lambda>ids. Some (filter (\<lambda>(p, _). p \<in> set ids) [(1, exampleRoute), (7, batchRoute)])),
       ld_Formulas := (\<lambda>_. Some (\<lambda>_. tl exampleFormulas)),
       ld_MasterTypes := [1 \<mapsto> ''MB'', 7 \<mapsto> ''MB'']\<rparr>,
     bs_evalCache = Some exampleLanguage, bs_auditRepo = True, bs_jobReader = False\<rparr>"

lemma exampleBatch_run:
  "case RunMBBatch exampleBatch ''202609'' 5 exampleFinance of (res, fin') \<Rightarrow>
     (case res of Inl _ \<Rightarrow> False | Inr result \<Rightarrow> br_MBCount result = 2) \<and>
     map (\<lambda>r. (re_productSysID r, re_costPerUnit r)) (lg_rows (fi_ledger fin')) =
       [(7, 3), (7, 8), (7, 8), (7, 8), (1, 14), (1, 14), (1, 14)]"
  by code_simp

lemma exampleCandidates_simps:
  "map mb_MBHID exampleCandidates = [''a'', ''b'']" "map mb_CostProductID exampleCandidates = [1, 7]" "exampleCandidates \<noteq> []"
  by (simp_all add: exampleCandidates_def)

theorem topoSortMBHeads_correct_witness:
  "topoSortMBHeads exampleCandidates (headsByID exampleCandidates) [(''a'', ''b'')] = Inr (rev exampleCandidates) \<and>
     childFirst [(''a'', ''b'')] (rev exampleCandidates) \<and> acyclic (mbDependsOn exampleCandidates [(''a'', ''b'')])"
proof -
  have run: "topoSortMBHeads exampleCandidates (headsByID exampleCandidates) [(''a'', ''b'')] = Inr (rev exampleCandidates)" by code_simp
  from topoSortMBHeads_correct [of exampleCandidates "[(''a'', ''b'')]"] run show ?thesis
    by (simp add: exampleCandidates_simps exampleCandidates_def)
qed

lemma exampleBatch_settled:
  "settled exampleBatch 1 1" "settled exampleBatch 1 7" "settled exampleBatch 7 7"
proof -
  have "routeOf exampleBatch 1 = Some exampleRoute" "routeOf exampleBatch 7 = Some batchRoute"
    by (simp_all add: routeOf_def exampleBatch_def)
  moreover have "collectNestedMBProducts exampleRoute = [7]" "collectNestedMBProducts batchRoute = []" by code_simp+
  ultimately show "settled exampleBatch 1 1" "settled exampleBatch 1 7" "settled exampleBatch 7 7" by (auto simp: settled_def)
qed

lemma exampleBatch_cover: "edgesCover exampleBatch exampleCandidates [(''a'', ''b'')]"
  using exampleBatch_settled by (auto simp: edgesCover_def exampleCandidates_def)

lemma exampleBatch_simps: "bs_ListValidated exampleBatch = Some exampleCandidates" "bs_ListMBEdgesBulk exampleBatch = (\<lambda>_ _. Some [(''a'', ''b'')])"
  "ld_MasterTypes (bs_loader exampleBatch) = [1 \<mapsto> ''MB'', 7 \<mapsto> ''MB'']"
  by (simp_all add: exampleBatch_def)

text \<open>Product 1 is priced at 8, the new cost of product 7, not at the committed 3: 8 * 3/4 + 8 * 1/4 + 6 = 14.\<close>

theorem batch_results_agree_witness:
  "\<exists>result fin'. RunMBBatch exampleBatch ''202609'' 5 exampleFinance = (Inr result, fin') \<and> br_MBCount result = 2 \<and>
     br_Errors result = [] \<and> length (lg_rows (fi_ledger fin')) = length (lg_rows (fi_ledger exampleFinance)) + 6 \<and>
     map re_costPerUnit (lg_rows (fi_ledger fin')) = [3, 8, 8, 8, 14, 14, 14]"
proof -
  obtain res fin' where run: "RunMBBatch exampleBatch ''202609'' 5 exampleFinance = (res, fin')"
    by (cases "RunMBBatch exampleBatch ''202609'' 5 exampleFinance")
  note facts = exampleBatch_run [unfolded run prod.case]
  from facts obtain result where res: "res = Inr result" "br_MBCount result = 2" by (cases res) simp_all
  have costs: "map re_costPerUnit (lg_rows (fi_ledger fin')) = [3, 8, 8, 8, 14, 14, 14]"
    using arg_cong [OF conjunct2 [OF facts], of "map snd"] by (simp add: comp_def)
  have "br_MBCount result + int (length (br_Errors result)) = int (length exampleCandidates) \<and>
      int (length (lg_rows (fi_ledger fin'))) = int (length (lg_rows (fi_ledger exampleFinance))) + 3 * br_MBCount result"
    using batch_results_agree [OF exampleFinance_reachable exampleBatch_simps(1) _ _ _ _ _ _ exampleBatch_cover run [unfolded res(1)]]
    by (simp add: exampleBatch_simps exampleCandidates_simps exampleCandidates_def)
  with res costs show ?thesis unfolding run by (simp add: exampleCandidates_def)
qed

theorem batch_job_verdict_witness:
  "\<exists>t fin' row. MBTriggerHandle exampleBatch True ''202609'' ''boss'' 8 9 exampleFinance = (Inr t, fin') \<and>
     mt_JobID t = 6 \<and> fi_jobs fin' = [row] \<and> jb_status row = JobStatusSuccess"
proof -
  obtain res fin' where run: "MBTriggerHandle exampleBatch True ''202609'' ''boss'' 8 9 exampleFinance = (res, fin')"
    by (cases "MBTriggerHandle exampleBatch True ''202609'' ''boss'' 8 9 exampleFinance")
  have "case MBTriggerHandle exampleBatch True ''202609'' ''boss'' 8 9 exampleFinance of (res, fin') \<Rightarrow>
      (case res of Inl _ \<Rightarrow> False | Inr t \<Rightarrow> mt_FailedCount t = 0)" by code_simp
  with run obtain t where t: "res = Inr t" "mt_FailedCount t = 0" by (cases res) simp_all
  have world: "fi_jobs exampleFinance = []" "fi_nextJobID exampleFinance = 6" by (simp_all add: exampleFinance_def)
  from batch_job_verdict [OF exampleFinance_storeOK run] t world
  obtain row where "fi_jobs fin' = [row]" "mt_JobID t = 6" "jb_status row = JobStatusSuccess" by auto
  with run t show ?thesis by blast
qed

end
