(* ===== verification/RMCost.thy ===== *)
theory RMCost
  imports RMCascade
begin

text \<open>
  The cost of a raw material group in one period: the engine
  (\<^verbatim>\<open>services/finance/internal/application/rmcost/calc_formulas_v2.go\<close>,
  \<^verbatim>\<open>services/finance/internal/domain/rmcost/valuation_cascade.go\<close>) and the aggregate it fills
  (\<^verbatim>\<open>services/finance/internal/domain/rmcost/entity.go\<close>, \<^verbatim>\<open>entity_v2.go\<close>), with its row in
  \<^verbatim>\<open>cst_rm_cost\<close> (\<^verbatim>\<open>services/finance/internal/infrastructure/postgres/rmcost_repository.go\<close>).

  A nullable float is an \<open>option\<close>. The six stage rates of the first engine, which the current
  one always writes as zero, and the columns of time are left out.
\<close>

section \<open>Numbers\<close>

definition nilIfZero :: "'f::{zero,ord} \<Rightarrow> 'f option" where
  "nilIfZero v = (if floatEq v 0 then None else Some v)"

definition derefOrZero :: "'f option \<Rightarrow> 'f::zero" where
  "derefOrZero p = (case p of None \<Rightarrow> 0 | Some v \<Rightarrow> v)"

text \<open>\<open>math.Max\<close>, for which a NaN wins (an infinite argument apart).\<close>

definition mathMax :: "'f \<Rightarrow> 'f \<Rightarrow> 'f::ord" where
  "mathMax x y = (if \<not> x \<le> x then x else if \<not> y \<le> y then y else if x < y then y else x)"

definition addUp :: "('a \<Rightarrow> 'f::{zero,plus}) \<Rightarrow> 'a list \<Rightarrow> 'f" where
  "addUp f xs = fold (\<lambda>x acc. acc + f x) xs 0"

section \<open>One item\<close>

record 'f source_qty =
  src_ConsVal :: 'f
  src_ConsQty :: 'f
  src_StockVal :: 'f
  src_StockQty :: 'f
  src_POVal :: 'f
  src_POQty :: 'f

record 'f detail_inputs =
  di_FreightRate :: 'f
  di_AntiDumpingPct :: 'f
  di_DutyPct :: 'f
  di_TransportRate :: 'f
  di_ValuationDefaultValue :: 'f

record 'f stage_output =
  so_Rate :: 'f
  so_FreightVal :: 'f
  so_ValBased :: 'f
  so_RateBased :: 'f
  so_AntiDumpingVal :: 'f
  so_AntiDumpingRate :: 'f
  so_DutyVal :: 'f
  so_DutyRate :: 'f
  so_TransportVal :: 'f
  so_TransportRate :: 'f
  so_LandedCost :: 'f

record 'f fix_output =
  fo_Rate :: 'f
  fo_FreightRate :: 'f
  fo_RateBased :: 'f
  fo_AntiDumpingRate :: 'f
  fo_DutyRate :: 'f
  fo_TransportRate :: 'f
  fo_LandedCost :: 'f

record 'f detail_output =
  dt_Inputs :: "'f detail_inputs"
  dt_Source :: "'f source_qty"
  dt_Cons :: "'f stage_output"
  dt_Stock :: "'f stage_output"
  dt_PORate :: 'f
  dt_Fix :: "'f fix_output"

definition perQty :: "'f \<Rightarrow> 'f \<Rightarrow> 'f::{zero,inverse,ord}" where
  "perQty qty v = (if 0 < qty then v / qty else 0)"

text \<open>
  The consumption and the stock stage run the same chain. It differs in the order of the factors of the
  freight value, which is written \<open>qty * freight\<close> for consumption and \<open>freight * qty\<close> for stock.
\<close>

definition stageOutput :: "'f detail_inputs \<Rightarrow> 'f \<Rightarrow> 'f \<Rightarrow> 'f \<Rightarrow> 'f::{zero,plus,times,inverse,ord} stage_output" where
  "stageOutput inp val qty freightVal =
     (let valBased = val + freightVal;
          rateBased = perQty qty valBased;
          antiDumpingVal = valBased * di_AntiDumpingPct inp;
          dutyVal = valBased * di_DutyPct inp;
          dutyRate = perQty qty dutyVal;
          transportVal = di_TransportRate inp * qty;
          transportRate = perQty qty transportVal
      in \<lparr>so_Rate = perQty qty val, so_FreightVal = freightVal, so_ValBased = valBased, so_RateBased = rateBased,
          so_AntiDumpingVal = antiDumpingVal, so_AntiDumpingRate = perQty qty antiDumpingVal,
          so_DutyVal = dutyVal, so_DutyRate = dutyRate,
          so_TransportVal = transportVal, so_TransportRate = transportRate,
          so_LandedCost = rateBased + transportRate + dutyRate\<rparr>)"

definition fixOutput :: "'f detail_inputs \<Rightarrow> 'f::{zero,plus,times,ord} fix_output" where
  "fixOutput inp =
     (if 0 < di_ValuationDefaultValue inp then
        let rateBased = di_ValuationDefaultValue inp + di_FreightRate inp;
            antiDumpingRate = rateBased * di_AntiDumpingPct inp;
            dutyRate = rateBased * di_DutyPct inp
        in \<lparr>fo_Rate = di_ValuationDefaultValue inp, fo_FreightRate = di_FreightRate inp, fo_RateBased = rateBased,
            fo_AntiDumpingRate = antiDumpingRate, fo_DutyRate = dutyRate, fo_TransportRate = di_TransportRate inp,
            fo_LandedCost = rateBased + antiDumpingRate + dutyRate + di_TransportRate inp\<rparr>
      else \<lparr>fo_Rate = 0, fo_FreightRate = 0, fo_RateBased = 0, fo_AntiDumpingRate = 0, fo_DutyRate = 0,
            fo_TransportRate = 0, fo_LandedCost = 0\<rparr>)"

definition ComputeDetail ::
  "'f detail_inputs \<Rightarrow> 'f source_qty \<Rightarrow> 'f::{zero,plus,times,inverse,ord} detail_output" where
  "ComputeDetail inp src =
     \<lparr>dt_Inputs = inp, dt_Source = src,
      dt_Cons = stageOutput inp (src_ConsVal src) (src_ConsQty src) (src_ConsQty src * di_FreightRate inp),
      dt_Stock = stageOutput inp (src_StockVal src) (src_StockQty src) (di_FreightRate inp * src_StockQty src),
      dt_PORate = perQty (src_POQty src) (src_POVal src),
      dt_Fix = fixOutput inp\<rparr>"

section \<open>The group\<close>

record 'f group_totals =
  gt_CR :: 'f
  gt_SR :: 'f
  gt_PR :: 'f
  gt_CL :: 'f
  gt_SL :: 'f
  gt_FL :: 'f

definition landedRate ::
  "('f detail_output \<Rightarrow> 'f stage_output) \<Rightarrow> 'f detail_output list \<Rightarrow> 'f \<Rightarrow> 'f::{zero,plus,inverse,ord}" where
  "landedRate stage outs qty =
     (if 0 < qty then
        addUp (so_ValBased \<circ> stage) outs / qty + addUp (so_AntiDumpingVal \<circ> stage) outs / qty
          + addUp (so_TransportVal \<circ> stage) outs / qty + addUp (so_DutyVal \<circ> stage) outs / qty
      else 0)"

definition AggregateGroupTotals ::
  "'f detail_output list \<Rightarrow> 'f::{zero,plus,inverse,ord} group_totals" where
  "AggregateGroupTotals outs =
     (let consQty = addUp (src_ConsQty \<circ> dt_Source) outs;
          stockQty = addUp (src_StockQty \<circ> dt_Source) outs;
          poQty = addUp (src_POQty \<circ> dt_Source) outs
      in \<lparr>gt_CR = perQty consQty (addUp (src_ConsVal \<circ> dt_Source) outs),
          gt_SR = perQty stockQty (addUp (src_StockVal \<circ> dt_Source) outs),
          gt_PR = perQty poQty (addUp (src_POVal \<circ> dt_Source) outs),
          gt_CL = landedRate dt_Cons outs consQty,
          gt_SL = landedRate dt_Stock outs stockQty,
          gt_FL = fold (\<lambda>d m. mathMax m (fo_LandedCost (dt_Fix d))) outs 0\<rparr>)"

record 'f header_inputs =
  hi_MarketingFreightRate :: 'f
  hi_MarketingAntiDumpingPct :: 'f
  hi_MarketingDutyPct :: 'f
  hi_MarketingTransportRate :: 'f
  hi_MarketingDefaultValue :: 'f
  hi_SimulationRate :: 'f
  hi_ValuationFlag :: string
  hi_MarketingFlag :: string

record 'f projections =
  pj_SP :: 'f
  pj_PP :: 'f
  pj_FP :: 'f

definition marketingPrice :: "'f header_inputs \<Rightarrow> 'f \<Rightarrow> 'f::{zero,one,plus,times,ord}" where
  "marketingPrice h base =
     (if 0 < base then
        (base + hi_MarketingFreightRate h) * (1 + hi_MarketingDutyPct h + hi_MarketingAntiDumpingPct h)
          + hi_MarketingTransportRate h
      else 0)"

definition ComputeMarketingProjections ::
  "'f group_totals \<Rightarrow> 'f header_inputs \<Rightarrow> 'f::{zero,one,plus,times,ord} projections" where
  "ComputeMarketingProjections tot h =
     \<lparr>pj_SP = marketingPrice h (gt_SR tot), pj_PP = marketingPrice h (gt_PR tot),
      pj_FP = marketingPrice h (hi_MarketingDefaultValue h)\<rparr>"

text \<open>Its guard is \<open>simRate <= 0\<close>, so that, unlike the projections, a NaN goes through.\<close>

definition ComputeSimulation :: "'f \<Rightarrow> 'f header_inputs \<Rightarrow> 'f::{zero,one,plus,times,ord}" where
  "ComputeSimulation simRate h =
     (if simRate \<le> 0 then 0
      else (simRate + hi_MarketingFreightRate h) * (1 + hi_MarketingDutyPct h + hi_MarketingAntiDumpingPct h)
             + hi_MarketingTransportRate h)"

section \<open>Flags\<close>

definition FlagAuto :: string where "FlagAuto = ''AUTO''"

definition FlagNone :: string where "FlagNone = ''NONE''"

definition orNone :: "('f::{zero,ord}) \<times> string \<Rightarrow> 'f \<times> string" where
  "orNone vl = (if floatEq (fst vl) 0 then (fst vl, FlagNone) else vl)"

definition SelectValuationWithFlag :: "'f group_totals \<Rightarrow> string \<Rightarrow> ('f::{zero,ord}) \<times> string" where
  "SelectValuationWithFlag tot flag =
     (if flag = ''CR'' then (gt_CR tot, ''CR'')
      else if flag = ''SR'' then (gt_SR tot, ''SR'')
      else if flag = ''PR'' then (gt_PR tot, ''PR'')
      else if flag = ''CL'' then (gt_CL tot, ''CL'')
      else if flag = ''SL'' then (gt_SL tot, ''SL'')
      else if flag = ''FL'' then (gt_FL tot, ''FL'')
      else orNone (FirstNonZeroWithLabel
        [(gt_CL tot, ''CL''), (gt_SL tot, ''SL''), (gt_FL tot, ''FL''), (gt_PR tot, ''PR'')]))"

definition SelectMarketingWithFlag :: "'f projections \<Rightarrow> string \<Rightarrow> ('f::{zero,ord}) \<times> string" where
  "SelectMarketingWithFlag p flag =
     (if flag = ''SP'' then (pj_SP p, ''SP'')
      else if flag = ''PP'' then (pj_PP p, ''PP'')
      else if flag = ''FP'' then (pj_FP p, ''FP'')
      else orNone (FirstNonZeroWithLabel [(pj_SP p, ''SP''), (pj_PP p, ''PP''), (pj_FP p, ''FP'')]))"

definition SelectValuation :: "'f group_totals \<Rightarrow> string \<Rightarrow> 'f::{zero,ord}" where
  "SelectValuation tot flag = fst (SelectValuationWithFlag tot flag)"

definition SelectMarketing :: "'f projections \<Rightarrow> string \<Rightarrow> 'f::{zero,ord}" where
  "SelectMarketing p flag = fst (SelectMarketingWithFlag p flag)"

section \<open>The aggregate\<close>

text \<open>\<open>V2Inputs\<close>: its six nullable numbers, and its flags.\<close>

record 'f v2_numbers =
  vn_MarketingFreightRate :: "'f option"
  vn_MarketingAntiDumpingPct :: "'f option"
  vn_MarketingDutyPct :: "'f option"
  vn_MarketingTransportRate :: "'f option"
  vn_MarketingDefaultValue :: "'f option"
  vn_SimulationRate :: "'f option"

record 'f v2_inputs =
  in_Numbers :: "'f v2_numbers"
  in_ValuationFlag :: string
  in_MarketingFlag :: string

record 'f v2_rates =
  vr_CL :: "'f option"
  vr_SL :: "'f option"
  vr_FL :: "'f option"
  vr_SP :: "'f option"
  vr_PP :: "'f option"
  vr_FP :: "'f option"
  vr_CR :: "'f option"
  vr_SR :: "'f option"
  vr_PR :: "'f option"

text \<open>A \<open>Cost\<close> of type \<open>GROUP\<close>, the only one that is written.\<close>

record 'f rm_cost =
  rc_ID :: nat
  rc_Period :: string
  rc_Code :: string
  rc_GroupHeadID :: nat
  rc_Name :: string
  rc_UOMCode :: string
  rc_CostValuation :: "'f option"
  rc_CostMarketing :: "'f option"
  rc_CostSimulation :: "'f option"
  rc_FlagValuation :: string
  rc_FlagMarketing :: string
  rc_FlagSimulation :: string
  rc_FlagValuationUsed :: string
  rc_FlagMarketingUsed :: string
  rc_FlagSimulationUsed :: string
  rc_CalculatedBy :: "string option"
  rc_CreatedBy :: string
  rc_UpdatedBy :: "string option"
  rc_Inputs :: "'f v2_inputs option"
  rc_Rates :: "'f v2_rates option"

record 'f computed =
  cp_CostValuation :: 'f
  cp_CostMarketing :: 'f
  cp_CostSimulation :: 'f
  cp_FlagValuation :: string
  cp_FlagMarketing :: string
  cp_FlagSimulation :: string
  cp_FlagValuationUsed :: string
  cp_FlagMarketingUsed :: string
  cp_FlagSimulationUsed :: string

datatype rm_error =
  ErrRMNotFound | ErrRMDetailNotFound | ErrRMInvalidPeriod | ErrRMEmptyCode | ErrRMEmptyCalculatedBy
| ErrRMEmptyUpdatedBy | ErrRMEmptyName | ErrRMNameTooLong | ErrRMNegativeCostPercentage
| ErrRMNegativeCostPerKg | ErrRMNegativeInitValue | ErrRMInitValueRequired | ErrRMInvalidFlag
| ErrRMNegativeMarketValue | ErrRMItemInOtherGroup | ErrRMInvalidDenier | ErrRMOilGroupInUse | ErrRMAlreadyDeleted
| ErrRMCodeAlreadyExists | ErrRMCodeTooLong | ErrRMInvalidCodeFormat | ErrRMEmptyCreatedBy | ErrRMEmptyItemCode
| ErrRMItemCodeTooLong | ErrRMNegativeMarketPercentage | ErrRMGroupHasCostData
| RMInvalidRemoveMode | RMInvalidDetailID | RMWrongHead | RMQueryFailed

text \<open>\<open>^\d{6}$\<close> with a month from 01 to 12; both packages check it the same way.\<close>

definition RMValidatePeriod :: "string \<Rightarrow> rm_error + unit" where
  "RMValidatePeriod period =
     (if \<not> (length period = 6 \<and> list_all isDigit period) then Inl ErrRMInvalidPeriod
      else let month = drop 4 period
           in if bytesLess month ''01'' \<or> bytesLess ''12'' month then Inl ErrRMInvalidPeriod else Inr ())"

definition NewGroupCost ::
  "nat \<Rightarrow> string \<Rightarrow> string \<Rightarrow> nat \<Rightarrow> string \<Rightarrow> string \<Rightarrow> 'f computed \<Rightarrow> string \<Rightarrow> rm_error + 'f rm_cost" where
  "NewGroupCost newID period rmCode groupHeadID rmName uomCode cmp calculatedBy =
     (case RMValidatePeriod period of
        Inl e \<Rightarrow> Inl e
      | Inr _ \<Rightarrow>
          if rmCode = [] then Inl ErrRMEmptyCode
          else if calculatedBy = [] then Inl ErrRMEmptyCalculatedBy
          else Inr
            \<lparr>rc_ID = newID, rc_Period = period, rc_Code = rmCode, rc_GroupHeadID = groupHeadID,
             rc_Name = rmName, rc_UOMCode = uomCode,
             rc_CostValuation = Some (cp_CostValuation cmp), rc_CostMarketing = Some (cp_CostMarketing cmp),
             rc_CostSimulation = Some (cp_CostSimulation cmp),
             rc_FlagValuation = cp_FlagValuation cmp, rc_FlagMarketing = cp_FlagMarketing cmp,
             rc_FlagSimulation = cp_FlagSimulation cmp,
             rc_FlagValuationUsed = cp_FlagValuationUsed cmp, rc_FlagMarketingUsed = cp_FlagMarketingUsed cmp,
             rc_FlagSimulationUsed = cp_FlagSimulationUsed cmp,
             rc_CalculatedBy = Some calculatedBy, rc_CreatedBy = calculatedBy, rc_UpdatedBy = None,
             rc_Inputs = None, rc_Rates = None\<rparr>)"

definition ApplyComputed :: "'f rm_cost \<Rightarrow> 'f computed \<Rightarrow> string \<Rightarrow> rm_error + 'f rm_cost" where
  "ApplyComputed c cmp recalculatedBy =
     (if recalculatedBy = [] then Inl ErrRMEmptyCalculatedBy
      else Inr (c
        \<lparr>rc_CostValuation := Some (cp_CostValuation cmp), rc_CostMarketing := Some (cp_CostMarketing cmp),
         rc_CostSimulation := Some (cp_CostSimulation cmp),
         rc_FlagValuation := cp_FlagValuation cmp, rc_FlagMarketing := cp_FlagMarketing cmp,
         rc_FlagSimulation := cp_FlagSimulation cmp,
         rc_FlagValuationUsed := cp_FlagValuationUsed cmp, rc_FlagMarketingUsed := cp_FlagMarketingUsed cmp,
         rc_FlagSimulationUsed := cp_FlagSimulationUsed cmp,
         rc_CalculatedBy := Some recalculatedBy, rc_UpdatedBy := Some recalculatedBy\<rparr>))"

definition AttachV2 :: "'f rm_cost \<Rightarrow> 'f v2_inputs \<Rightarrow> 'f v2_rates \<Rightarrow> 'f rm_cost" where
  "AttachV2 c inp r = c\<lparr>rc_Inputs := Some inp, rc_Rates := Some r\<rparr>"

section \<open>Its row\<close>

text \<open>
  The columns of the first engine, and those of the second: \<open>row_Numbers\<close>, \<open>row_Rates\<close> and the two flags.
\<close>

record 'f cost_row =
  row_Cost :: "'f rm_cost"
  row_ValuationFlag :: "string option"
  row_MarketingFlag :: "string option"
  row_Numbers :: "'f v2_numbers"
  row_Rates :: "'f v2_rates"

definition noNumbers :: "'f v2_numbers" where
  "noNumbers =
     \<lparr>vn_MarketingFreightRate = None, vn_MarketingAntiDumpingPct = None, vn_MarketingDutyPct = None,
      vn_MarketingTransportRate = None, vn_MarketingDefaultValue = None, vn_SimulationRate = None\<rparr>"

definition noRates :: "'f v2_rates" where
  "noRates =
     \<lparr>vr_CL = None, vr_SL = None, vr_FL = None, vr_SP = None, vr_PP = None, vr_FP = None,
      vr_CR = None, vr_SR = None, vr_PR = None\<rparr>"

definition nullableFlagString :: "string \<Rightarrow> string option" where
  "nullableFlagString s = (if s = [] \<or> s = FlagAuto then None else Some s)"

definition nullStringValOrAuto :: "string option \<Rightarrow> string" where
  "nullStringValOrAuto v = (case v of None \<Rightarrow> FlagAuto | Some s \<Rightarrow> if s = [] then FlagAuto else s)"

text \<open>\<open>INSERT ... ON CONFLICT\<close> on the unique rows for which \<open>P\<close> holds.\<close>

definition upsertRow :: "('r \<Rightarrow> bool) \<Rightarrow> 'r \<Rightarrow> ('r \<Rightarrow> 'r) \<Rightarrow> 'r list \<Rightarrow> 'r list" where
  "upsertRow P new conflict rows =
     (if list_ex P rows then map (\<lambda>r. if P r then conflict r else r) rows else rows @ [new])"

definition costInserted :: "'f rm_cost \<Rightarrow> 'f cost_row" where
  "costInserted c =
     \<lparr>row_Cost = c\<lparr>rc_UpdatedBy := None, rc_Inputs := None, rc_Rates := None\<rparr>,
      row_ValuationFlag = (case rc_Inputs c of None \<Rightarrow> None | Some i \<Rightarrow> nullableFlagString (in_ValuationFlag i)),
      row_MarketingFlag = (case rc_Inputs c of None \<Rightarrow> None | Some i \<Rightarrow> nullableFlagString (in_MarketingFlag i)),
      row_Numbers = (case rc_Inputs c of None \<Rightarrow> noNumbers | Some i \<Rightarrow> in_Numbers i),
      row_Rates = (case rc_Rates c of None \<Rightarrow> noRates | Some r \<Rightarrow> r)\<rparr>"

text \<open>\<open>ON CONFLICT (period, rm_code)\<close> keeps the id and the creator.\<close>

definition costConflict :: "'f rm_cost \<Rightarrow> 'f cost_row \<Rightarrow> 'f cost_row" where
  "costConflict c r =
     (let new = costInserted c
      in new\<lparr>row_Cost := (row_Cost new)
           \<lparr>rc_ID := rc_ID (row_Cost r), rc_CreatedBy := rc_CreatedBy (row_Cost r),
            rc_UpdatedBy := rc_CalculatedBy c\<rparr>\<rparr>)"

definition rowFor :: "string \<Rightarrow> string \<Rightarrow> 'f cost_row \<Rightarrow> bool" where
  "rowFor period rmCode r \<longleftrightarrow> rc_Period (row_Cost r) = period \<and> rc_Code (row_Cost r) = rmCode"

definition upsertCost :: "'f rm_cost \<Rightarrow> 'f cost_row list \<Rightarrow> 'f cost_row list" where
  "upsertCost c = upsertRow (rowFor (rc_Period c) (rc_Code c)) (costInserted c) (costConflict c)"

text \<open>
  A row counts as one of the second engine when a flag, an input or one of the three landed rates is set; the
  consumption, stock and PO rates and the projections do not count.
\<close>

definition isV2Row :: "'f cost_row \<Rightarrow> bool" where
  "isV2Row r \<longleftrightarrow>
     row_ValuationFlag r \<noteq> None \<or> row_MarketingFlag r \<noteq> None \<or> row_Numbers r \<noteq> noNumbers \<or>
     vr_CL (row_Rates r) \<noteq> None \<or> vr_SL (row_Rates r) \<noteq> None \<or> vr_FL (row_Rates r) \<noteq> None"

definition costToEntity :: "'f cost_row \<Rightarrow> 'f rm_cost" where
  "costToEntity r =
     (if isV2Row r then
        AttachV2 (row_Cost r)
          \<lparr>in_Numbers = row_Numbers r, in_ValuationFlag = nullStringValOrAuto (row_ValuationFlag r),
           in_MarketingFlag = nullStringValOrAuto (row_MarketingFlag r)\<rparr> (row_Rates r)
      else (row_Cost r)\<lparr>rc_Inputs := None, rc_Rates := None\<rparr>)"

section \<open>Its items\<close>

text \<open>
  A row of \<^verbatim>\<open>cst_rm_cost_detail\<close>. \<open>CostDetailSnapshot\<close> has the fields of \<open>DetailOutput\<close>, each of them nullable.
\<close>

record 'f cost_detail =
  cd_ID :: nat
  cd_CostID :: nat
  cd_Period :: string
  cd_GroupHeadID :: nat
  cd_GroupDetailID :: nat
  cd_ItemCode :: string
  cd_ItemName :: string
  cd_GradeCode :: string
  cd_Snapshot :: "'f option detail_output"
  cd_CreatedBy :: string
  cd_UpdatedBy :: "string option"

definition mapInputs :: "('a \<Rightarrow> 'b) \<Rightarrow> 'a detail_inputs \<Rightarrow> 'b detail_inputs" where
  "mapInputs g i =
     \<lparr>di_FreightRate = g (di_FreightRate i), di_AntiDumpingPct = g (di_AntiDumpingPct i),
      di_DutyPct = g (di_DutyPct i), di_TransportRate = g (di_TransportRate i),
      di_ValuationDefaultValue = g (di_ValuationDefaultValue i)\<rparr>"

definition mapSource :: "('a \<Rightarrow> 'b) \<Rightarrow> 'a source_qty \<Rightarrow> 'b source_qty" where
  "mapSource g q =
     \<lparr>src_ConsVal = g (src_ConsVal q), src_ConsQty = g (src_ConsQty q), src_StockVal = g (src_StockVal q),
      src_StockQty = g (src_StockQty q), src_POVal = g (src_POVal q), src_POQty = g (src_POQty q)\<rparr>"

definition mapStage :: "('a \<Rightarrow> 'b) \<Rightarrow> 'a stage_output \<Rightarrow> 'b stage_output" where
  "mapStage g t =
     \<lparr>so_Rate = g (so_Rate t), so_FreightVal = g (so_FreightVal t), so_ValBased = g (so_ValBased t),
      so_RateBased = g (so_RateBased t), so_AntiDumpingVal = g (so_AntiDumpingVal t),
      so_AntiDumpingRate = g (so_AntiDumpingRate t), so_DutyVal = g (so_DutyVal t),
      so_DutyRate = g (so_DutyRate t), so_TransportVal = g (so_TransportVal t),
      so_TransportRate = g (so_TransportRate t), so_LandedCost = g (so_LandedCost t)\<rparr>"

definition mapFix :: "('a \<Rightarrow> 'b) \<Rightarrow> 'a fix_output \<Rightarrow> 'b fix_output" where
  "mapFix g t =
     \<lparr>fo_Rate = g (fo_Rate t), fo_FreightRate = g (fo_FreightRate t), fo_RateBased = g (fo_RateBased t),
      fo_AntiDumpingRate = g (fo_AntiDumpingRate t), fo_DutyRate = g (fo_DutyRate t),
      fo_TransportRate = g (fo_TransportRate t), fo_LandedCost = g (fo_LandedCost t)\<rparr>"

definition detailOutputToSnapshot :: "'f::{zero,ord} detail_output \<Rightarrow> 'f option detail_output" where
  "detailOutputToSnapshot d =
     \<lparr>dt_Inputs = mapInputs nilIfZero (dt_Inputs d), dt_Source = mapSource nilIfZero (dt_Source d),
      dt_Cons = mapStage nilIfZero (dt_Cons d), dt_Stock = mapStage nilIfZero (dt_Stock d),
      dt_PORate = nilIfZero (dt_PORate d), dt_Fix = mapFix nilIfZero (dt_Fix d)\<rparr>"

definition NewCostDetail ::
  "nat \<Rightarrow> nat \<Rightarrow> nat \<Rightarrow> nat \<Rightarrow> string \<Rightarrow> string \<Rightarrow> string \<Rightarrow> string \<Rightarrow> string
    \<Rightarrow> 'f option detail_output \<Rightarrow> rm_error + 'f cost_detail" where
  "NewCostDetail newID costID groupHeadID groupDetailID period itemCode itemName gradeCode createdBy snap =
     (case RMValidatePeriod period of
        Inl e \<Rightarrow> Inl e
      | Inr _ \<Rightarrow>
          if itemCode = [] then Inl ErrRMEmptyCode
          else if createdBy = [] then Inl ErrRMEmptyCalculatedBy
          else Inr
            \<lparr>cd_ID = newID, cd_CostID = costID, cd_Period = period, cd_GroupHeadID = groupHeadID,
             cd_GroupDetailID = groupDetailID, cd_ItemCode = itemCode, cd_ItemName = itemName,
             cd_GradeCode = gradeCode, cd_Snapshot = snap, cd_CreatedBy = createdBy, cd_UpdatedBy = None\<rparr>)"

end
