(* ===== verification/RMRates.thy ===== *)
theory RMRates
  imports RMCost
begin

text \<open>
  The rates of a raw material group against the rates of its items: each of them is the mean of the
  items' own figures, weighted with their quantities.
\<close>

section \<open>Weighted means\<close>

lemma mean_between:
  fixes q w r :: "'a \<Rightarrow> 'f::linordered_field"
  assumes nn: "\<And>x. x \<in> set xs \<Longrightarrow> 0 \<le> q x" and w: "\<And>x. x \<in> set xs \<Longrightarrow> w x = q x * r x"
    and pos: "{x \<in> set xs. 0 < q x} \<noteq> {}"
  shows "0 < (\<Sum>x\<leftarrow>xs. q x)" "Min (r ` {x \<in> set xs. 0 < q x}) \<le> (\<Sum>x\<leftarrow>xs. w x) / (\<Sum>x\<leftarrow>xs. q x)"
    "(\<Sum>x\<leftarrow>xs. w x) / (\<Sum>x\<leftarrow>xs. q x) \<le> Max (r ` {x \<in> set xs. 0 < q x})"
proof -
  let ?P = "{x \<in> set xs. 0 < q x}"
  from pos obtain y where y: "y \<in> set xs" "0 < q y" by blast
  have "q y \<le> (\<Sum>x\<leftarrow>xs. q x)" using y(1) nn by (intro member_le_sum_list) auto
  with y(2) show total: "0 < (\<Sum>x\<leftarrow>xs. q x)" by simp
  have lo: "Min (r ` ?P) * q x \<le> w x" and hi: "w x \<le> Max (r ` ?P) * q x" if x: "x \<in> set xs" for x
  proof -
    have "r x \<in> r ` ?P" if "q x \<noteq> 0" using that x nn [OF x] by (auto simp: order.order_iff_strict)
    then have "q x \<noteq> 0 \<Longrightarrow> Min (r ` ?P) \<le> r x \<and> r x \<le> Max (r ` ?P)" by simp
    then show "Min (r ` ?P) * q x \<le> w x" "w x \<le> Max (r ` ?P) * q x"
      using nn [OF x] w [OF x] by (cases "q x = 0"; simp add: mult.commute mult_left_mono)+
  qed
  have "Min (r ` ?P) * (\<Sum>x\<leftarrow>xs. q x) \<le> (\<Sum>x\<leftarrow>xs. w x)"
    unfolding sum_list_const_mult [symmetric] using lo by (rule sum_list_mono)
  with total show "Min (r ` ?P) \<le> (\<Sum>x\<leftarrow>xs. w x) / (\<Sum>x\<leftarrow>xs. q x)" by (simp add: pos_le_divide_eq)
  have "(\<Sum>x\<leftarrow>xs. w x) \<le> Max (r ` ?P) * (\<Sum>x\<leftarrow>xs. q x)"
    unfolding sum_list_const_mult [symmetric] using hi by (rule sum_list_mono)
  with total show "(\<Sum>x\<leftarrow>xs. w x) / (\<Sum>x\<leftarrow>xs. q x) \<le> Max (r ` ?P)" by (simp add: pos_divide_le_eq)
qed

lemma addUp_sum: "addUp f xs = (\<Sum>x\<leftarrow>xs. f x :: 'f::comm_monoid_add)"
  by (simp add: addUp_def fold_add_sum)

section \<open>Items\<close>

text \<open>A stage in which something has moved, or in which neither quantity nor value is booked.\<close>

definition booked :: "'f \<Rightarrow> 'f::{zero,ord} \<Rightarrow> bool" where
  "booked qty val \<longleftrightarrow> 0 < qty \<or> qty = 0 \<and> val = 0"

definition bookedSource :: "'f::{zero,ord} source_qty \<Rightarrow> bool" where
  "bookedSource src \<longleftrightarrow>
     booked (src_ConsQty src) (src_ConsVal src) \<and> booked (src_StockQty src) (src_StockVal src) \<and>
     booked (src_POQty src) (src_POVal src)"

lemma booked_nonneg: "booked qty val \<Longrightarrow> 0 \<le> (qty :: 'f::linordered_field)"
  by (auto simp: booked_def)

lemma perQty_booked: "booked qty val \<Longrightarrow> val = qty * perQty qty (val :: 'f::linordered_field)"
  by (auto simp: booked_def perQty_def)

text \<open>The parts a stage adds to its group are the landed cost per unit and the anti-dumping rate, times the quantity.\<close>

definition landedParts :: "'f stage_output \<Rightarrow> 'f::plus" where
  "landedParts s = so_ValBased s + so_AntiDumpingVal s + so_TransportVal s + so_DutyVal s"

definition landedWithAntiDumping :: "'f stage_output \<Rightarrow> 'f::plus" where
  "landedWithAntiDumping s = so_LandedCost s + so_AntiDumpingRate s"

lemma stage_booked:
  fixes val :: "'f::linordered_field"
  assumes "booked qty val"
  shows "landedParts (stageOutput inp val qty (qty * f)) = qty * landedWithAntiDumping (stageOutput inp val qty (qty * f))"
    "val = qty * so_Rate (stageOutput inp val qty (qty * f))"
  using assms
  by (auto simp: booked_def perQty_def stageOutput_def Let_def landedParts_def landedWithAntiDumping_def field_simps)

lemma ComputeDetail_booked:
  fixes src :: "'f::linordered_field source_qty" and d :: "'f detail_output"
  assumes src: "bookedSource src" and d: "d = ComputeDetail inp src"
  shows "0 \<le> src_ConsQty (dt_Source d)" "0 \<le> src_StockQty (dt_Source d)" "0 \<le> src_POQty (dt_Source d)"
    "src_ConsVal (dt_Source d) = src_ConsQty (dt_Source d) * so_Rate (dt_Cons d)"
    "landedParts (dt_Cons d) = src_ConsQty (dt_Source d) * landedWithAntiDumping (dt_Cons d)"
    "src_StockVal (dt_Source d) = src_StockQty (dt_Source d) * so_Rate (dt_Stock d)"
    "landedParts (dt_Stock d) = src_StockQty (dt_Source d) * landedWithAntiDumping (dt_Stock d)"
    "src_POVal (dt_Source d) = src_POQty (dt_Source d) * dt_PORate d"
proof -
  have fields: "dt_Source d = src" "dt_PORate d = perQty (src_POQty src) (src_POVal src)"
    "dt_Cons d = stageOutput inp (src_ConsVal src) (src_ConsQty src) (src_ConsQty src * di_FreightRate inp)"
    "dt_Stock d = stageOutput inp (src_StockVal src) (src_StockQty src) (src_StockQty src * di_FreightRate inp)"
    by (simp_all add: d ComputeDetail_def mult.commute)
  from src have b: "booked (src_ConsQty src) (src_ConsVal src)" "booked (src_StockQty src) (src_StockVal src)"
    "booked (src_POQty src) (src_POVal src)" by (simp_all add: bookedSource_def)
  note cons = stage_booked [OF b(1), of inp "di_FreightRate inp"] and stock = stage_booked [OF b(2), of inp "di_FreightRate inp"]
  from b show "0 \<le> src_ConsQty (dt_Source d)" "0 \<le> src_StockQty (dt_Source d)" "0 \<le> src_POQty (dt_Source d)"
    unfolding fields by (auto intro: booked_nonneg)
  show "src_ConsVal (dt_Source d) = src_ConsQty (dt_Source d) * so_Rate (dt_Cons d)"
    "landedParts (dt_Cons d) = src_ConsQty (dt_Source d) * landedWithAntiDumping (dt_Cons d)"
    unfolding fields by (rule cons(2), rule cons(1))
  show "src_StockVal (dt_Source d) = src_StockQty (dt_Source d) * so_Rate (dt_Stock d)"
    "landedParts (dt_Stock d) = src_StockQty (dt_Source d) * landedWithAntiDumping (dt_Stock d)"
    unfolding fields by (rule stock(2), rule stock(1))
  show "src_POVal (dt_Source d) = src_POQty (dt_Source d) * dt_PORate d"
    unfolding fields by (rule perQty_booked [OF b(3)])
qed

definition stageOf :: "('f source_qty \<Rightarrow> 'f) \<Rightarrow> 'f detail_output list \<Rightarrow> 'f::{zero,ord} detail_output set" where
  "stageOf qty outs = {d \<in> set outs. 0 < qty (dt_Source d)}"

lemma landedRate_parts:
  "landedRate stage outs (qty :: 'f::linordered_field) = (if 0 < qty then (\<Sum>d\<leftarrow>outs. landedParts (stage d)) / qty else 0)"
  by (simp add: landedRate_def addUp_sum landedParts_def sum_list_addf add_divide_distrib comp_def)

lemma mathMax_max: "mathMax x y = max y (x :: 'f::linorder)"
  by (auto simp: mathMax_def max_def)

lemma fold_mathMax:
  "fold (\<lambda>d m. mathMax m (f d)) ds a = Max (insert a (f ` set ds))" for f :: "'d \<Rightarrow> 'f::linorder"
proof -
  have "fold (\<lambda>d m. mathMax m (f d)) ds a = fold max (map f ds) a"
    by (induction ds arbitrary: a) (simp_all add: mathMax_max)
  also have "\<dots> = Max (set (a # map f ds))" by (rule Max.set_eq_fold [symmetric])
  finally show ?thesis by simp
qed


definition exampleItems :: "(rat detail_inputs \<times> rat source_qty) list" where
  "exampleItems =
     [(\<lparr>di_FreightRate = 1, di_AntiDumpingPct = 1 / 10, di_DutyPct = 0, di_TransportRate = 2, di_ValuationDefaultValue = 9\<rparr>,
       \<lparr>src_ConsVal = 100, src_ConsQty = 10, src_StockVal = 0, src_StockQty = 0, src_POVal = 30, src_POQty = 2\<rparr>),
      (\<lparr>di_FreightRate = 0, di_AntiDumpingPct = 0, di_DutyPct = 0, di_TransportRate = 0, di_ValuationDefaultValue = 0\<rparr>,
       \<lparr>src_ConsVal = 40, src_ConsQty = 5, src_StockVal = 60, src_StockQty = 4, src_POVal = 0, src_POQty = 0\<rparr>)]"


end
