(* ===== verification/RMGroup.thy ===== *)
theory RMGroup
  imports RMCost
begin

text \<open>
  The configuration of a raw material group and its versions by period: the aggregates
  (\<^verbatim>\<open>services/finance/internal/domain/rmgroup/entity.go\<close>, \<^verbatim>\<open>value_objects.go\<close>,
  \<^verbatim>\<open>value_objects_v2.go\<close>) and the rules that patch and resolve a period
  (\<^verbatim>\<open>services/finance/internal/application/rmgroup/period_resolver.go\<close>, \<^verbatim>\<open>get_handler.go\<close>,
  \<^verbatim>\<open>update_handler.go\<close>, \<^verbatim>\<open>update_item_handler.go\<close>, \<^verbatim>\<open>denier.go\<close>).

  The anchor row of a head and its snapshots carry the same twelve editable fields, here one record
  \<open>head_config\<close>; the code patches them with two copies of the same functions, here one. A flag that is
  unset is \<open>AUTO\<close> in the tables. Columns of time are left out; a row is deleted when \<open>gh_Deleted\<close> holds.
\<close>

section \<open>Results\<close>

abbreviation tryRM :: "rm_error + 'a \<Rightarrow> ('a \<Rightarrow> rm_error + 'b) \<Rightarrow> rm_error + 'b" where
  "tryRM \<equiv> tryE"

lemmas tryRM_Inr = tryE_Inr

definition negativeOpt :: "('f::{zero,ord}) option \<Rightarrow> bool" where
  "negativeOpt p = (case p of None \<Rightarrow> False | Some v \<Rightarrow> v < 0)"

section \<open>Flags\<close>

definition FlagCons :: string where "FlagCons = ''CONS''"

definition FlagInit :: string where "FlagInit = ''INIT''"

definition groupFlags :: "string list" where
  "groupFlags = [FlagCons, ''STORES'', ''DEPT'', ''PO_1'', ''PO_2'', ''PO_3'', FlagInit]"

definition valuationFlags :: "string list" where
  "valuationFlags = [FlagAuto, ''CR'', ''SR'', ''PR'', ''CL'', ''SL'', ''FL'']"

definition marketingFlags :: "string list" where
  "marketingFlags = [FlagAuto, ''SP'', ''PP'', ''FP'']"

definition ParseFlag :: "string \<Rightarrow> rm_error + string" where
  "ParseFlag raw =
     (let f = toUpper (trimSpace raw) in if f \<in> set groupFlags then Inr f else Inl ErrRMInvalidFlag)"

definition ParseValuationFlag :: "string \<Rightarrow> rm_error + string" where
  "ParseValuationFlag raw =
     (let f = toUpper (trimSpace raw)
      in if f = [] then Inr FlagAuto else if f \<in> set valuationFlags then Inr f else Inl ErrRMInvalidFlag)"

definition ParseMarketingFlag :: "string \<Rightarrow> rm_error + string" where
  "ParseMarketingFlag raw =
     (let f = toUpper (trimSpace raw)
      in if f = [] then Inr FlagAuto else if f \<in> set marketingFlags then Inr f else Inl ErrRMInvalidFlag)"

definition parseOpt :: "(string \<Rightarrow> rm_error + string) \<Rightarrow> string option \<Rightarrow> rm_error + string option" where
  "parseOpt parse raw = (case raw of None \<Rightarrow> Inr None | Some s \<Rightarrow> tryRM (parse s) (\<lambda>f. Inr (Some f)))"

section \<open>Heads and items\<close>

record 'f marketing_inputs =
  mi_FreightRate :: "'f option"
  mi_AntiDumpingPct :: "'f option"
  mi_DefaultValue :: "'f option"
  mi_ValuationFlag :: string
  mi_MarketingFlag :: string

record 'f valuation_inputs =
  va_FreightRate :: "'f option"
  va_AntiDumpingPct :: "'f option"
  va_DutyPct :: "'f option"
  va_TransportRate :: "'f option"
  va_DefaultValue :: "'f option"

record 'f head_config =
  hc_Name :: string
  hc_Description :: string
  hc_Colorant :: string
  hc_CIName :: string
  hc_CostPercentage :: 'f
  hc_CostPerKg :: 'f
  hc_FlagValuation :: string
  hc_FlagMarketing :: string
  hc_FlagSimulation :: string
  hc_InitValValuation :: "'f option"
  hc_InitValMarketing :: "'f option"
  hc_InitValSimulation :: "'f option"

record 'f group_head =
  gh_ID :: nat
  gh_Code :: string
  gh_Config :: "'f head_config"
  gh_Marketing :: "'f marketing_inputs"
  gh_IsActive :: bool
  gh_IsOilGroup :: bool
  gh_Denier :: "'f option"
  gh_DenierUseDraft :: bool
  gh_CreatedBy :: string
  gh_UpdatedBy :: "string option"
  gh_Deleted :: bool

record 'f group_detail =
  gd_ID :: nat
  gd_HeadID :: nat
  gd_ItemCode :: string
  gd_ItemName :: string
  gd_ItemTypeCode :: string
  gd_GradeCode :: string
  gd_ItemGrade :: string
  gd_UOMCode :: string
  gd_MarketPercentage :: "'f option"
  gd_MarketValueRp :: "'f option"
  gd_SortOrder :: int
  gd_IsActive :: bool
  gd_IsDummy :: bool
  gd_Valuation :: "'f valuation_inputs"
  gd_CreatedBy :: string
  gd_UpdatedBy :: "string option"
  gd_Deleted :: bool

definition orAuto :: "string \<Rightarrow> string" where
  "orAuto f = (if f = [] then FlagAuto else f)"

definition Head_MarketingInputs :: "'f group_head \<Rightarrow> 'f marketing_inputs" where
  "Head_MarketingInputs h = (gh_Marketing h)
     \<lparr>mi_ValuationFlag := orAuto (mi_ValuationFlag (gh_Marketing h)),
      mi_MarketingFlag := orAuto (mi_MarketingFlag (gh_Marketing h))\<rparr>"

definition AttachMarketingInputs :: "'f marketing_inputs \<Rightarrow> 'f group_head \<Rightarrow> rm_error + 'f group_head" where
  "AttachMarketingInputs mi h =
     (if mi_ValuationFlag mi \<noteq> [] \<and> mi_ValuationFlag mi \<notin> set valuationFlags \<or>
         mi_MarketingFlag mi \<noteq> [] \<and> mi_MarketingFlag mi \<notin> set marketingFlags
      then Inl ErrRMInvalidFlag else Inr (h\<lparr>gh_Marketing := mi\<rparr>))"

definition SetDenier :: "'f option \<Rightarrow> 'f group_head \<Rightarrow> rm_error + ('f::{zero,ord}) group_head" where
  "SetDenier v h =
     (case v of
        None \<Rightarrow> Inr (h\<lparr>gh_Denier := None\<rparr>)
      | Some d \<Rightarrow> if d \<le> 0 then Inl ErrRMInvalidDenier else Inr (h\<lparr>gh_Denier := Some d\<rparr>))"

definition negativeInput :: "('f::{zero,ord}) valuation_inputs \<Rightarrow> bool" where
  "negativeInput va \<longleftrightarrow>
     list_ex negativeOpt
       [va_FreightRate va, va_AntiDumpingPct va, va_DutyPct va, va_TransportRate va, va_DefaultValue va]"

definition AttachValuationInputs ::
  "'f valuation_inputs \<Rightarrow> 'f group_detail \<Rightarrow> rm_error + ('f::{zero,ord}) group_detail" where
  "AttachValuationInputs va d =
     (if negativeInput va then Inl ErrRMNegativeMarketValue else Inr (d\<lparr>gd_Valuation := va\<rparr>))"

section \<open>Patching a configuration\<close>

record 'f update_input =
  ui_Name :: "string option"
  ui_Description :: "string option"
  ui_Colorant :: "string option"
  ui_CIName :: "string option"
  ui_CostPercentage :: "'f option"
  ui_CostPerKg :: "'f option"
  ui_FlagValuation :: "string option"
  ui_FlagMarketing :: "string option"
  ui_FlagSimulation :: "string option"
  ui_InitValValuation :: "'f option"
  ui_InitValMarketing :: "'f option"
  ui_InitValSimulation :: "'f option"
  ui_IsActive :: "bool option"
  ui_ClearInitValValuation :: bool
  ui_ClearInitValMarketing :: bool
  ui_ClearInitValSimulation :: bool

definition emptyUpdateInput :: "'f update_input" where
  "emptyUpdateInput =
     \<lparr>ui_Name = None, ui_Description = None, ui_Colorant = None, ui_CIName = None, ui_CostPercentage = None,
      ui_CostPerKg = None, ui_FlagValuation = None, ui_FlagMarketing = None, ui_FlagSimulation = None,
      ui_InitValValuation = None, ui_InitValMarketing = None, ui_InitValSimulation = None, ui_IsActive = None,
      ui_ClearInitValValuation = False, ui_ClearInitValMarketing = False, ui_ClearInitValSimulation = False\<rparr>"

text \<open>\<open>uc_Input\<close> are the fields of the command that \<open>UpdateInput\<close> has too; its flags are not parsed yet.\<close>

record 'f update_command =
  uc_HeadID :: nat
  uc_Period :: string
  uc_Input :: "'f update_input"
  uc_UpdatedBy :: string
  uc_MarketingFreightRate :: "'f option"
  uc_MarketingAntiDumpingPct :: "'f option"
  uc_MarketingDefaultValue :: "'f option"
  uc_ValuationFlag :: "string option"
  uc_MarketingFlag :: "string option"
  uc_ClearMarketingFreightRate :: bool
  uc_ClearMarketingAntiDumpingPct :: bool
  uc_ClearMarketingDefaultValue :: bool
  uc_IsOilGroup :: "bool option"
  uc_Denier :: "'f option"
  uc_DenierUseDraft :: "bool option"

definition applyNameField :: "string option \<Rightarrow> 'f head_config \<Rightarrow> rm_error + 'f head_config" where
  "applyNameField name cfg =
     (case name of
        None \<Rightarrow> Inr cfg
      | Some n \<Rightarrow>
          if n = [] then Inl ErrRMEmptyName
          else if 200 < length n then Inl ErrRMNameTooLong
          else Inr (cfg\<lparr>hc_Name := n\<rparr>))"

definition applyTextFields :: "'f update_input \<Rightarrow> 'f head_config \<Rightarrow> 'f head_config" where
  "applyTextFields inp cfg = cfg
     \<lparr>hc_Description := orKeep (ui_Description inp) (hc_Description cfg),
      hc_Colorant := orKeep (ui_Colorant inp) (hc_Colorant cfg),
      hc_CIName := orKeep (ui_CIName inp) (hc_CIName cfg)\<rparr>"

definition applyCostFields ::
  "'f option \<Rightarrow> 'f option \<Rightarrow> 'f head_config \<Rightarrow> rm_error + ('f::{zero,ord}) head_config" where
  "applyCostFields costPercentage costPerKg cfg =
     (if negativeOpt costPercentage then Inl ErrRMNegativeCostPercentage
      else if negativeOpt costPerKg then Inl ErrRMNegativeCostPerKg
      else Inr (cfg\<lparr>hc_CostPercentage := orKeep costPercentage (hc_CostPercentage cfg),
                    hc_CostPerKg := orKeep costPerKg (hc_CostPerKg cfg)\<rparr>))"

definition assignInitVal :: "'f option \<Rightarrow> 'f option \<Rightarrow> bool \<Rightarrow> rm_error + ('f::{zero,ord}) option" where
  "assignInitVal cur incoming reset =
     (if reset then Inr None
      else (case incoming of
          None \<Rightarrow> Inr cur
        | Some v \<Rightarrow> if v < 0 then Inl ErrRMNegativeInitValue else Inr (Some v)))"

definition applyInitValues :: "'f update_input \<Rightarrow> 'f head_config \<Rightarrow> rm_error + ('f::{zero,ord}) head_config" where
  "applyInitValues inp cfg =
     tryRM (assignInitVal (hc_InitValValuation cfg) (ui_InitValValuation inp) (ui_ClearInitValValuation inp)) (\<lambda>v.
     tryRM (assignInitVal (hc_InitValMarketing cfg) (ui_InitValMarketing inp) (ui_ClearInitValMarketing inp)) (\<lambda>m.
     tryRM (assignInitVal (hc_InitValSimulation cfg) (ui_InitValSimulation inp) (ui_ClearInitValSimulation inp)) (\<lambda>s.
       Inr (cfg\<lparr>hc_InitValValuation := v, hc_InitValMarketing := m, hc_InitValSimulation := s\<rparr>))))"

definition applyFlagFields :: "'f update_input \<Rightarrow> 'f head_config \<Rightarrow> rm_error + 'f head_config" where
  "applyFlagFields inp cfg =
     (let invalid = (\<lambda>f. case f of None \<Rightarrow> False | Some g \<Rightarrow> g \<notin> set groupFlags)
      in if invalid (ui_FlagValuation inp) \<or> invalid (ui_FlagMarketing inp) \<or> invalid (ui_FlagSimulation inp)
         then Inl ErrRMInvalidFlag
         else Inr (cfg
           \<lparr>hc_FlagValuation := orKeep (ui_FlagValuation inp) (hc_FlagValuation cfg),
            hc_FlagMarketing := orKeep (ui_FlagMarketing inp) (hc_FlagMarketing cfg),
            hc_FlagSimulation := orKeep (ui_FlagSimulation inp) (hc_FlagSimulation cfg)\<rparr>))"

definition assertFlagInitConsistency :: "'f head_config \<Rightarrow> rm_error + unit" where
  "assertFlagInitConsistency cfg =
     (if hc_FlagValuation cfg = FlagInit \<and> hc_InitValValuation cfg = None \<or>
         hc_FlagMarketing cfg = FlagInit \<and> hc_InitValMarketing cfg = None \<or>
         hc_FlagSimulation cfg = FlagInit \<and> hc_InitValSimulation cfg = None
      then Inl ErrRMInitValueRequired else Inr ())"

definition Head_Update :: "'f update_input \<Rightarrow> string \<Rightarrow> 'f group_head \<Rightarrow> rm_error + ('f::{zero,ord}) group_head" where
  "Head_Update inp updatedBy h =
     (if gh_Deleted h then Inl ErrRMAlreadyDeleted
      else if updatedBy = [] then Inl ErrRMEmptyUpdatedBy
      else
        tryRM (applyNameField (ui_Name inp) (gh_Config h)) (\<lambda>cfg.
        tryRM (applyCostFields (ui_CostPercentage inp) (ui_CostPerKg inp) (applyTextFields inp cfg)) (\<lambda>cfg.
        tryRM (applyInitValues inp cfg) (\<lambda>cfg.
        tryRM (applyFlagFields inp cfg) (\<lambda>cfg.
        tryRM (assertFlagInitConsistency cfg) (\<lambda>_.
          Inr (h\<lparr>gh_Config := cfg, gh_IsActive := orKeep (ui_IsActive inp) (gh_IsActive h),
                 gh_UpdatedBy := Some updatedBy\<rparr>)))))))"

definition buildHeadUpdateInput :: "'f update_command \<Rightarrow> rm_error + 'f update_input" where
  "buildHeadUpdateInput cmd =
     (let inp = uc_Input cmd
      in tryRM (parseOpt ParseFlag (ui_FlagValuation inp)) (\<lambda>v.
         tryRM (parseOpt ParseFlag (ui_FlagMarketing inp)) (\<lambda>m.
         tryRM (parseOpt ParseFlag (ui_FlagSimulation inp)) (\<lambda>s.
           Inr (inp\<lparr>ui_FlagValuation := v, ui_FlagMarketing := m, ui_FlagSimulation := s\<rparr>)))))"

definition patchOptFloat :: "'f option \<Rightarrow> 'f option \<Rightarrow> bool \<Rightarrow> 'f option" where
  "patchOptFloat cur incoming clearField =
     (if clearField then None else (case incoming of None \<Rightarrow> cur | Some v \<Rightarrow> Some v))"

definition hasV2MarketingPatch :: "'f update_command \<Rightarrow> bool" where
  "hasV2MarketingPatch cmd \<longleftrightarrow>
     uc_MarketingFreightRate cmd \<noteq> None \<or> uc_MarketingAntiDumpingPct cmd \<noteq> None \<or>
     uc_MarketingDefaultValue cmd \<noteq> None \<or> uc_ValuationFlag cmd \<noteq> None \<or> uc_MarketingFlag cmd \<noteq> None \<or>
     uc_ClearMarketingFreightRate cmd \<or> uc_ClearMarketingAntiDumpingPct cmd \<or> uc_ClearMarketingDefaultValue cmd"

text \<open>The patch both \<open>applySnapshotMarketingPatch\<close> and \<open>applyV2MarketingPatch\<close> apply.\<close>

definition patchMarketing :: "'f update_command \<Rightarrow> 'f marketing_inputs \<Rightarrow> rm_error + 'f marketing_inputs" where
  "patchMarketing cmd mi =
     tryRM (parseOpt ParseValuationFlag (uc_ValuationFlag cmd)) (\<lambda>vf.
     tryRM (parseOpt ParseMarketingFlag (uc_MarketingFlag cmd)) (\<lambda>mf.
       Inr \<lparr>mi_FreightRate =
              patchOptFloat (mi_FreightRate mi) (uc_MarketingFreightRate cmd) (uc_ClearMarketingFreightRate cmd),
            mi_AntiDumpingPct =
              patchOptFloat (mi_AntiDumpingPct mi) (uc_MarketingAntiDumpingPct cmd) (uc_ClearMarketingAntiDumpingPct cmd),
            mi_DefaultValue =
              patchOptFloat (mi_DefaultValue mi) (uc_MarketingDefaultValue cmd) (uc_ClearMarketingDefaultValue cmd),
            mi_ValuationFlag = orKeep vf (mi_ValuationFlag mi), mi_MarketingFlag = orKeep mf (mi_MarketingFlag mi)\<rparr>))"

definition applyV2MarketingPatch :: "'f update_command \<Rightarrow> 'f group_head \<Rightarrow> rm_error + 'f group_head" where
  "applyV2MarketingPatch cmd h =
     (if \<not> hasV2MarketingPatch cmd then Inr h
      else tryRM (patchMarketing cmd (Head_MarketingInputs h)) (\<lambda>mi. AttachMarketingInputs mi h))"

section \<open>Snapshots of a period\<close>

record 'f head_snapshot =
  hs_Period :: string
  hs_GroupHeadID :: nat
  hs_Config :: "'f head_config"
  hs_Marketing :: "'f marketing_inputs"
  hs_IsBackfilled :: bool
  hs_CarriedFrom :: "string option"
  hs_CreatedBy :: string
  hs_UpdatedBy :: "string option"

record 'f detail_snapshot =
  ds_Period :: string
  ds_GroupDetailID :: nat
  ds_MarketPercentage :: "'f option"
  ds_MarketValueRp :: "'f option"
  ds_SortOrder :: int
  ds_IsActive :: bool
  ds_IsDummy :: bool
  ds_Valuation :: "'f valuation_inputs"
  ds_IsBackfilled :: bool
  ds_CarriedFrom :: "string option"
  ds_CreatedBy :: string
  ds_UpdatedBy :: "string option"

definition NewHeadPeriodSnapshotFromHead :: "string \<Rightarrow> 'f group_head \<Rightarrow> 'f head_snapshot" where
  "NewHeadPeriodSnapshotFromHead period h =
     \<lparr>hs_Period = period, hs_GroupHeadID = gh_ID h, hs_Config = gh_Config h, hs_Marketing = Head_MarketingInputs h,
      hs_IsBackfilled = False, hs_CarriedFrom = None, hs_CreatedBy = gh_CreatedBy h, hs_UpdatedBy = None\<rparr>"

definition NewDetailPeriodSnapshotFromDetail :: "string \<Rightarrow> 'f group_detail \<Rightarrow> 'f detail_snapshot" where
  "NewDetailPeriodSnapshotFromDetail period d =
     \<lparr>ds_Period = period, ds_GroupDetailID = gd_ID d, ds_MarketPercentage = gd_MarketPercentage d,
      ds_MarketValueRp = gd_MarketValueRp d, ds_SortOrder = gd_SortOrder d, ds_IsActive = gd_IsActive d,
      ds_IsDummy = gd_IsDummy d, ds_Valuation = gd_Valuation d, ds_IsBackfilled = False, ds_CarriedFrom = None,
      ds_CreatedBy = gd_CreatedBy d, ds_UpdatedBy = None\<rparr>"

definition Head_CarryForwardTo :: "string \<Rightarrow> 'f head_snapshot \<Rightarrow> 'f head_snapshot" where
  "Head_CarryForwardTo target s =
     s\<lparr>hs_Period := target, hs_IsBackfilled := False, hs_CarriedFrom := None, hs_UpdatedBy := None\<rparr>"

definition Detail_CarryForwardTo :: "string \<Rightarrow> 'f detail_snapshot \<Rightarrow> 'f detail_snapshot" where
  "Detail_CarryForwardTo target s =
     s\<lparr>ds_Period := target, ds_IsBackfilled := False, ds_CarriedFrom := None, ds_UpdatedBy := None\<rparr>"

definition applySnapshotMarketingPatch :: "'f update_command \<Rightarrow> 'f head_snapshot \<Rightarrow> rm_error + 'f head_snapshot" where
  "applySnapshotMarketingPatch cmd s =
     (if \<not> hasV2MarketingPatch cmd then Inr s
      else tryRM (patchMarketing cmd (hs_Marketing s)) (\<lambda>mi. Inr (s\<lparr>hs_Marketing := mi\<rparr>)))"

text \<open>A flag of the command is parsed as it is assigned, so it is always one of the valid flags.\<close>

definition applyHeadSnapshotPatch ::
  "'f update_command \<Rightarrow> 'f head_snapshot \<Rightarrow> rm_error + ('f::{zero,ord}) head_snapshot" where
  "applyHeadSnapshotPatch cmd s =
     (let inp = uc_Input cmd
      in tryRM (applyNameField (ui_Name inp) (hs_Config s)) (\<lambda>cfg.
         tryRM (applyCostFields (ui_CostPercentage inp) (ui_CostPerKg inp) (applyTextFields inp cfg)) (\<lambda>cfg.
         tryRM (applyInitValues inp cfg) (\<lambda>cfg.
         tryRM (buildHeadUpdateInput cmd) (\<lambda>parsed.
         tryRM (applyFlagFields parsed cfg) (\<lambda>cfg.
         tryRM (assertFlagInitConsistency cfg) (\<lambda>_.
         tryRM (applySnapshotMarketingPatch cmd (s\<lparr>hs_Config := cfg\<rparr>)) (\<lambda>s.
           Inr (s\<lparr>hs_CreatedBy := (if hs_CreatedBy s = [] then uc_UpdatedBy cmd else hs_CreatedBy s),
                  hs_UpdatedBy := Some (uc_UpdatedBy cmd)\<rparr>)))))))))"

record 'f item_command =
  ic_HeadID :: nat
  ic_GroupDetailID :: nat
  ic_Period :: string
  ic_FreightRate :: "'f option"
  ic_AntiDumpingPct :: "'f option"
  ic_DutyPct :: "'f option"
  ic_TransportRate :: "'f option"
  ic_DefaultValue :: "'f option"
  ic_SortOrder :: "int option"
  ic_IsActive :: "bool option"
  ic_ClearFreightRate :: bool
  ic_ClearAntiDumpingPct :: bool
  ic_ClearDutyPct :: bool
  ic_ClearTransportRate :: bool
  ic_ClearDefaultValue :: bool
  ic_UpdatedBy :: string

definition hasV2DetailPatch :: "'f item_command \<Rightarrow> bool" where
  "hasV2DetailPatch cmd \<longleftrightarrow>
     ic_FreightRate cmd \<noteq> None \<or> ic_AntiDumpingPct cmd \<noteq> None \<or> ic_DutyPct cmd \<noteq> None \<or>
     ic_TransportRate cmd \<noteq> None \<or> ic_DefaultValue cmd \<noteq> None \<or>
     ic_ClearFreightRate cmd \<or> ic_ClearAntiDumpingPct cmd \<or> ic_ClearDutyPct cmd \<or>
     ic_ClearTransportRate cmd \<or> ic_ClearDefaultValue cmd"

definition applyDetailValuationPatch :: "'f item_command \<Rightarrow> 'f valuation_inputs \<Rightarrow> 'f valuation_inputs" where
  "applyDetailValuationPatch cmd va =
     \<lparr>va_FreightRate = patchOptFloat (va_FreightRate va) (ic_FreightRate cmd) (ic_ClearFreightRate cmd),
      va_AntiDumpingPct = patchOptFloat (va_AntiDumpingPct va) (ic_AntiDumpingPct cmd) (ic_ClearAntiDumpingPct cmd),
      va_DutyPct = patchOptFloat (va_DutyPct va) (ic_DutyPct cmd) (ic_ClearDutyPct cmd),
      va_TransportRate = patchOptFloat (va_TransportRate va) (ic_TransportRate cmd) (ic_ClearTransportRate cmd),
      va_DefaultValue = patchOptFloat (va_DefaultValue va) (ic_DefaultValue cmd) (ic_ClearDefaultValue cmd)\<rparr>"

definition applyDetailSnapshotPatch ::
  "'f item_command \<Rightarrow> 'f detail_snapshot \<Rightarrow> rm_error + ('f::{zero,ord}) detail_snapshot" where
  "applyDetailSnapshotPatch cmd s =
     (let s1 = s\<lparr>ds_SortOrder := orKeep (ic_SortOrder cmd) (ds_SortOrder s),
                ds_IsActive := orKeep (ic_IsActive cmd) (ds_IsActive s)\<rparr>;
          va = applyDetailValuationPatch cmd (ds_Valuation s)
      in if hasV2DetailPatch cmd \<and> negativeInput va then Inl ErrRMNegativeMarketValue
         else
           let s2 = (if hasV2DetailPatch cmd then s1\<lparr>ds_Valuation := va\<rparr> else s1)
           in Inr (s2\<lparr>ds_CreatedBy := (if ds_CreatedBy s2 = [] then ic_UpdatedBy cmd else ds_CreatedBy s2),
                      ds_UpdatedBy := Some (ic_UpdatedBy cmd)\<rparr>))"

record 'f detail_update_input =
  du_ItemName :: "string option"
  du_ItemTypeCode :: "string option"
  du_GradeCode :: "string option"
  du_ItemGrade :: "string option"
  du_UOMCode :: "string option"
  du_MarketPercentage :: "'f option"
  du_MarketValueRp :: "'f option"
  du_SortOrder :: "int option"
  du_IsActive :: "bool option"
  du_IsDummy :: "bool option"
  du_ClearMarketPercentage :: bool
  du_ClearMarketValueRp :: bool

definition emptyDetailUpdate :: "'f detail_update_input" where
  "emptyDetailUpdate =
     \<lparr>du_ItemName = None, du_ItemTypeCode = None, du_GradeCode = None, du_ItemGrade = None, du_UOMCode = None,
      du_MarketPercentage = None, du_MarketValueRp = None, du_SortOrder = None, du_IsActive = None, du_IsDummy = None,
      du_ClearMarketPercentage = False, du_ClearMarketValueRp = False\<rparr>"

definition applyDetailTextFields :: "'f detail_update_input \<Rightarrow> 'f group_detail \<Rightarrow> 'f group_detail" where
  "applyDetailTextFields inp d = d
     \<lparr>gd_ItemName := orKeep (du_ItemName inp) (gd_ItemName d),
      gd_ItemTypeCode := orKeep (du_ItemTypeCode inp) (gd_ItemTypeCode d),
      gd_GradeCode := orKeep (du_GradeCode inp) (gd_GradeCode d),
      gd_ItemGrade := orKeep (du_ItemGrade inp) (gd_ItemGrade d),
      gd_UOMCode := orKeep (du_UOMCode inp) (gd_UOMCode d)\<rparr>"

definition applyDetailMarketFields ::
  "'f detail_update_input \<Rightarrow> 'f group_detail \<Rightarrow> rm_error + ('f::{zero,ord}) group_detail" where
  "applyDetailMarketFields inp d =
     (if \<not> du_ClearMarketPercentage inp \<and> negativeOpt (du_MarketPercentage inp) then Inl ErrRMNegativeMarketPercentage
      else if \<not> du_ClearMarketValueRp inp \<and> negativeOpt (du_MarketValueRp inp) then Inl ErrRMNegativeMarketValue
      else Inr (d
        \<lparr>gd_MarketPercentage := patchOptFloat (gd_MarketPercentage d) (du_MarketPercentage inp) (du_ClearMarketPercentage inp),
         gd_MarketValueRp := patchOptFloat (gd_MarketValueRp d) (du_MarketValueRp inp) (du_ClearMarketValueRp inp)\<rparr>))"

definition applyDetailFlagFields :: "'f detail_update_input \<Rightarrow> 'f group_detail \<Rightarrow> 'f group_detail" where
  "applyDetailFlagFields inp d = d
     \<lparr>gd_SortOrder := orKeep (du_SortOrder inp) (gd_SortOrder d), gd_IsActive := orKeep (du_IsActive inp) (gd_IsActive d),
      gd_IsDummy := orKeep (du_IsDummy inp) (gd_IsDummy d)\<rparr>"

definition Detail_Update ::
  "'f detail_update_input \<Rightarrow> string \<Rightarrow> 'f group_detail \<Rightarrow> rm_error + ('f::{zero,ord}) group_detail" where
  "Detail_Update inp updatedBy d =
     (if gd_Deleted d then Inl ErrRMAlreadyDeleted
      else if updatedBy = [] then Inl ErrRMEmptyUpdatedBy
      else tryRM (applyDetailMarketFields inp (applyDetailTextFields inp d)) (\<lambda>d.
        Inr ((applyDetailFlagFields inp d)\<lparr>gd_UpdatedBy := Some updatedBy\<rparr>)))"

section \<open>Overlays and copies\<close>

definition OverlayHeadFromSnapshot ::
  "'f group_head \<Rightarrow> 'f head_snapshot \<Rightarrow> rm_error + ('f::{zero,ord}) group_head" where
  "OverlayHeadFromSnapshot h s =
     tryRM (AttachMarketingInputs (hs_Marketing s) (h\<lparr>gh_Config := hs_Config s\<rparr>)) (SetDenier (gh_Denier h))"

definition OverlayDetailFromSnapshot ::
  "'f group_detail \<Rightarrow> 'f detail_snapshot \<Rightarrow> rm_error + ('f::{zero,ord}) group_detail" where
  "OverlayDetailFromSnapshot d s =
     AttachValuationInputs (ds_Valuation s)
       (d\<lparr>gd_MarketPercentage := ds_MarketPercentage s, gd_MarketValueRp := ds_MarketValueRp s,
          gd_SortOrder := ds_SortOrder s, gd_IsActive := ds_IsActive s, gd_IsDummy := ds_IsDummy s\<rparr>)"

text \<open>Where a value was found: in the period itself, in an earlier one, or in the anchor row.\<close>

datatype inherited = ExactPeriod | EarlierPeriod string | FromAnchor

definition carriedFromPtr :: "inherited \<Rightarrow> string option" where
  "carriedFromPtr i = (case i of EarlierPeriod p \<Rightarrow> Some p | _ \<Rightarrow> None)"

definition FrozenHeadCopy :: "'f head_snapshot \<Rightarrow> inherited \<Rightarrow> string \<Rightarrow> 'f head_snapshot option" where
  "FrozenHeadCopy s i frozenBy =
     (if i = ExactPeriod then None
      else Some (s\<lparr>hs_IsBackfilled := True, hs_CarriedFrom := carriedFromPtr i, hs_CreatedBy := frozenBy,
                   hs_UpdatedBy := None\<rparr>))"

definition FrozenDetailCopy :: "'f detail_snapshot \<Rightarrow> inherited \<Rightarrow> string \<Rightarrow> 'f detail_snapshot option" where
  "FrozenDetailCopy s i frozenBy =
     (if i = ExactPeriod then None
      else Some (s\<lparr>ds_IsBackfilled := True, ds_CarriedFrom := carriedFromPtr i, ds_CreatedBy := frozenBy,
                   ds_UpdatedBy := None\<rparr>))"

end
