(* ===== verification/RMCalc.thy ===== *)
theory RMCalc
  imports RMGroup
begin

text \<open>
  The tables of the raw material groups and the handlers that write them: the edits of a period
  (\<^verbatim>\<open>services/finance/internal/application/rmgroup/update_handler.go\<close>, \<^verbatim>\<open>update_item_handler.go\<close>), the
  calculation (\<^verbatim>\<open>services/finance/internal/application/rmcost/calculate_handler_v2.go\<close>) and the edits of
  a calculated cost (\<^verbatim>\<open>edit_inputs_handler.go\<close>, \<^verbatim>\<open>edit_fix_rate_handler.go\<close>), with the statements
  they issue (\<^verbatim>\<open>services/finance/internal/infrastructure/postgres\<close>).

  Each statement or transaction is a function on the tables. A handler is not a transaction: it takes a
  schedule \<open>lost\<close> of the calls that fail, and what was written before the first failing call stays. A fresh
  \<open>uuid\<close> is the next value of a counter. The table of the synchronised stock is an argument of the
  calculation.
\<close>

section \<open>Tables\<close>

record 'f rm_history =
  hy_CostID :: nat
  hy_Period :: string
  hy_Code :: string
  hy_GroupHeadID :: nat
  hy_CostPercentage :: 'f
  hy_CostPerKg :: 'f
  hy_Flags :: "string \<times> string \<times> string"
  hy_InitVals :: "'f option \<times> 'f option \<times> 'f option"
  hy_Costs :: "'f option \<times> 'f option \<times> 'f option"
  hy_FlagsUsed :: "string \<times> string \<times> string"
  hy_SourceItemCount :: nat
  hy_TriggerReason :: string
  hy_CalculatedBy :: string

record 'f rm_tables =
  rt_Heads :: "'f group_head list"
  rt_Details :: "'f group_detail list"
  rt_HeadPeriods :: "'f head_snapshot list"
  rt_DetailPeriods :: "'f detail_snapshot list"
  rt_Costs :: "'f cost_row list"
  rt_CostDetails :: "'f cost_detail list"
  rt_History :: "'f rm_history list"
  rt_NextID :: nat

datatype rm_call =
  CallGetHead | CallGetDetail | CallListDetails | CallHeadPeriod | CallDetailPeriods | CallOilInUse
| CallUpsertPeriod | CallLatestPeriod | CallUpdateAnchor
| CallFetchSource | CallFetchUOMs | CallGetCost | CallUpsertCost | CallUpsertDetails
| CallFreezeHead | CallFreezeDetail nat
| CallGetCostDetail | CallUpdateSnapshot | CallListSiblings | CallUpdateCost | CallReload
| CallExistsCode | CallCreateHead | CallFindItem nat | CallBackfill nat | CallAddDetail nat
| CallGetMember nat | CallRemoveMember nat | CallExistsHead | CallExistsCost | CallSoftDeleteHead

definition guardCall :: "(rm_call \<Rightarrow> bool) \<Rightarrow> rm_call \<Rightarrow> rm_error + 'a \<Rightarrow> rm_error + 'a" where
  "guardCall lost c r = (if lost c then Inl RMQueryFailed else r)"

definition orError :: "rm_error \<Rightarrow> 'a option \<Rightarrow> rm_error + 'a" where
  "orError e x = (case x of None \<Rightarrow> Inl e | Some v \<Rightarrow> Inr v)"

section \<open>Reads\<close>

definition GetHeadByID :: "nat \<Rightarrow> 'f rm_tables \<Rightarrow> rm_error + 'f group_head" where
  "GetHeadByID headID db = orError ErrRMNotFound (find (\<lambda>h. gh_ID h = headID \<and> \<not> gh_Deleted h) (rt_Heads db))"

definition GetDetailByID :: "nat \<Rightarrow> 'f rm_tables \<Rightarrow> rm_error + 'f group_detail" where
  "GetDetailByID detailID db =
     orError ErrRMDetailNotFound (find (\<lambda>d. gd_ID d = detailID \<and> \<not> gd_Deleted d) (rt_Details db))"

text \<open>\<open>ORDER BY sort_order, item_code, grade_code, created_at\<close>; rows are listed as they were created.\<close>

definition detailBefore :: "'f group_detail \<Rightarrow> 'f group_detail \<Rightarrow> bool" where
  "detailBefore a b \<longleftrightarrow>
     gd_SortOrder a < gd_SortOrder b \<or>
     gd_SortOrder a = gd_SortOrder b \<and>
       (bytesLess (gd_ItemCode a) (gd_ItemCode b) \<or>
        gd_ItemCode a = gd_ItemCode b \<and> bytesLess (gd_GradeCode a) (gd_GradeCode b))"

fun insertDetail :: "'f group_detail \<Rightarrow> 'f group_detail list \<Rightarrow> 'f group_detail list" where
  "insertDetail d [] = [d]"
| "insertDetail d (e # es) = (if detailBefore d e then d # e # es else e # insertDetail d es)"

definition sortDetails :: "'f group_detail list \<Rightarrow> 'f group_detail list" where
  "sortDetails ds = fold insertDetail ds []"

definition ListActiveDetailsByHeadID :: "nat \<Rightarrow> 'f rm_tables \<Rightarrow> 'f group_detail list" where
  "ListActiveDetailsByHeadID headID db =
     sortDetails (filter (\<lambda>d. gd_HeadID d = headID \<and> gd_IsActive d \<and> \<not> gd_Deleted d) (rt_Details db))"

text \<open>\<open>ORDER BY period DESC LIMIT 1\<close>\<close>

fun latestBy :: "('a \<Rightarrow> string) \<Rightarrow> 'a list \<Rightarrow> 'a option" where
  "latestBy period [] = None"
| "latestBy period (x # xs) =
     (case latestBy period xs of
        None \<Rightarrow> Some x
      | Some y \<Rightarrow> if bytesLess (period x) (period y) then Some y else Some x)"

definition isHeadPeriod :: "nat \<Rightarrow> string \<Rightarrow> 'f head_snapshot \<Rightarrow> bool" where
  "isHeadPeriod headID period s \<longleftrightarrow> hs_GroupHeadID s = headID \<and> hs_Period s = period"

definition isDetailPeriod :: "nat \<Rightarrow> string \<Rightarrow> 'f detail_snapshot \<Rightarrow> bool" where
  "isDetailPeriod detailID period s \<longleftrightarrow> ds_GroupDetailID s = detailID \<and> ds_Period s = period"

definition GetHeadPeriodSnapshot :: "nat \<Rightarrow> string \<Rightarrow> 'f rm_tables \<Rightarrow> 'f head_snapshot option" where
  "GetHeadPeriodSnapshot headID period db = find (isHeadPeriod headID period) (rt_HeadPeriods db)"

definition GetLatestHeadPeriodSnapshotBefore :: "nat \<Rightarrow> string \<Rightarrow> 'f rm_tables \<Rightarrow> 'f head_snapshot option" where
  "GetLatestHeadPeriodSnapshotBefore headID period db =
     latestBy hs_Period (filter (\<lambda>s. hs_GroupHeadID s = headID \<and> bytesLess (hs_Period s) period) (rt_HeadPeriods db))"

definition GetDetailPeriodSnapshot :: "nat \<Rightarrow> string \<Rightarrow> 'f rm_tables \<Rightarrow> 'f detail_snapshot option" where
  "GetDetailPeriodSnapshot detailID period db = find (isDetailPeriod detailID period) (rt_DetailPeriods db)"

text \<open>The map of the batched query, joined with the items of the head; a deleted item still joins.\<close>

definition GetLatestDetailPeriodSnapshotsBefore ::
  "nat \<Rightarrow> string \<Rightarrow> 'f rm_tables \<Rightarrow> nat \<Rightarrow> 'f detail_snapshot option" where
  "GetLatestDetailPeriodSnapshotsBefore headID period db detailID =
     (if list_ex (\<lambda>d. gd_ID d = detailID \<and> gd_HeadID d = headID) (rt_Details db)
      then latestBy ds_Period
             (filter (\<lambda>s. ds_GroupDetailID s = detailID \<and> bytesLess (ds_Period s) period) (rt_DetailPeriods db))
      else None)"

definition LatestSyncPeriod :: "'f rm_tables \<Rightarrow> rm_error + string" where
  "LatestSyncPeriod db = orError ErrRMNotFound (latestBy id (map (rc_Period \<circ> row_Cost) (rt_Costs db)))"

definition ResolveHeadSnapshot :: "'f rm_tables \<Rightarrow> 'f group_head \<Rightarrow> string \<Rightarrow> 'f head_snapshot \<times> inherited" where
  "ResolveHeadSnapshot db h period =
     (case GetHeadPeriodSnapshot (gh_ID h) period db of
        Some s \<Rightarrow> (s, ExactPeriod)
      | None \<Rightarrow>
          (case GetLatestHeadPeriodSnapshotBefore (gh_ID h) period db of
             Some prev \<Rightarrow> (Head_CarryForwardTo period prev, EarlierPeriod (hs_Period prev))
           | None \<Rightarrow> (NewHeadPeriodSnapshotFromHead period h, FromAnchor)))"

definition ResolveDetailSnapshot :: "'f rm_tables \<Rightarrow> nat \<Rightarrow> string \<Rightarrow> 'f group_detail \<Rightarrow> 'f detail_snapshot \<times> inherited" where
  "ResolveDetailSnapshot db headID period d =
     (case GetDetailPeriodSnapshot (gd_ID d) period db of
        Some s \<Rightarrow> (s, ExactPeriod)
      | None \<Rightarrow>
          (case GetLatestDetailPeriodSnapshotsBefore headID period db (gd_ID d) of
             Some prev \<Rightarrow> (Detail_CarryForwardTo period prev, EarlierPeriod (ds_Period prev))
           | None \<Rightarrow> (NewDetailPeriodSnapshotFromDetail period d, FromAnchor)))"

definition ResolveDetailSnapshots ::
  "'f rm_tables \<Rightarrow> nat \<Rightarrow> 'f group_detail list \<Rightarrow> string \<Rightarrow> ('f detail_snapshot \<times> inherited) list" where
  "ResolveDetailSnapshots db headID details period = map (ResolveDetailSnapshot db headID period) details"

section \<open>Writes\<close>

definition UpsertHeadPeriod :: "'f head_snapshot \<Rightarrow> 'f rm_tables \<Rightarrow> 'f rm_tables" where
  "UpsertHeadPeriod s db = db\<lparr>rt_HeadPeriods :=
     upsertRow (isHeadPeriod (hs_GroupHeadID s) (hs_Period s)) s (\<lambda>r. s\<lparr>hs_CreatedBy := hs_CreatedBy r\<rparr>) (rt_HeadPeriods db)\<rparr>"

definition InsertHeadPeriodIfAbsent :: "'f head_snapshot \<Rightarrow> 'f rm_tables \<Rightarrow> 'f rm_tables" where
  "InsertHeadPeriodIfAbsent s db = db\<lparr>rt_HeadPeriods :=
     upsertRow (isHeadPeriod (hs_GroupHeadID s) (hs_Period s)) s id (rt_HeadPeriods db)\<rparr>"

definition UpsertDetailPeriod :: "'f detail_snapshot \<Rightarrow> 'f rm_tables \<Rightarrow> 'f rm_tables" where
  "UpsertDetailPeriod s db = db\<lparr>rt_DetailPeriods :=
     upsertRow (isDetailPeriod (ds_GroupDetailID s) (ds_Period s)) s (\<lambda>r. s\<lparr>ds_CreatedBy := ds_CreatedBy r\<rparr>) (rt_DetailPeriods db)\<rparr>"

definition InsertDetailPeriodIfAbsent :: "'f detail_snapshot \<Rightarrow> 'f rm_tables \<Rightarrow> 'f rm_tables" where
  "InsertDetailPeriodIfAbsent s db = db\<lparr>rt_DetailPeriods :=
     upsertRow (isDetailPeriod (ds_GroupDetailID s) (ds_Period s)) s id (rt_DetailPeriods db)\<rparr>"

text \<open>The code and the creator are not written; no row affected is an error.\<close>

definition UpdateHead :: "'f group_head \<Rightarrow> 'f rm_tables \<Rightarrow> rm_error + 'f rm_tables" where
  "UpdateHead h db =
     (let hit = (\<lambda>r. gh_ID r = gh_ID h \<and> \<not> gh_Deleted r)
      in if \<not> list_ex hit (rt_Heads db) then Inl ErrRMNotFound
         else Inr (db\<lparr>rt_Heads := map (\<lambda>r. if hit r
                then h\<lparr>gh_Code := gh_Code r, gh_Marketing := Head_MarketingInputs h,
                       gh_CreatedBy := gh_CreatedBy r, gh_Deleted := False\<rparr> else r) (rt_Heads db)\<rparr>))"

text \<open>The unique index \<^verbatim>\<open>uk_rm_group_detail_item_grade_active\<close>: an item and grade is active once.\<close>

definition itemTaken :: "'f group_detail \<Rightarrow> 'f rm_tables \<Rightarrow> bool" where
  "itemTaken d db \<longleftrightarrow>
     gd_IsActive d \<and>
     list_ex (\<lambda>r. gd_ID r \<noteq> gd_ID d \<and> gd_IsActive r \<and> \<not> gd_Deleted r \<and>
                  gd_ItemCode r = gd_ItemCode d \<and> gd_GradeCode r = gd_GradeCode d) (rt_Details db)"

text \<open>The head, the item code and the creator are not written.\<close>

definition detailWritten :: "'f group_detail \<Rightarrow> 'f group_detail \<Rightarrow> 'f group_detail" where
  "detailWritten d r = d
     \<lparr>gd_HeadID := gd_HeadID r, gd_ItemCode := gd_ItemCode r, gd_CreatedBy := gd_CreatedBy r, gd_Deleted := False\<rparr>"

definition UpdateDetail :: "'f group_detail \<Rightarrow> 'f rm_tables \<Rightarrow> rm_error + 'f rm_tables" where
  "UpdateDetail d db =
     (let hit = (\<lambda>r. gd_ID r = gd_ID d \<and> \<not> gd_Deleted r)
      in case find hit (rt_Details db) of
           None \<Rightarrow> Inl ErrRMDetailNotFound
         | Some r \<Rightarrow>
             if itemTaken (detailWritten d r) db then Inl ErrRMItemInOtherGroup
             else Inr (db\<lparr>rt_Details := map (\<lambda>r. if hit r then detailWritten d r else r) (rt_Details db)\<rparr>))"

text \<open>A write that fails leaves the tables as they are.\<close>

definition tryWrite ::
  "(rm_call \<Rightarrow> bool) \<Rightarrow> rm_call \<Rightarrow> rm_error + 'f rm_tables \<Rightarrow> 'f rm_tables
    \<Rightarrow> ('f rm_tables \<Rightarrow> (rm_error + 'a) \<times> 'f rm_tables) \<Rightarrow> (rm_error + 'a) \<times> 'f rm_tables" where
  "tryWrite lost c r db k = (case guardCall lost c r of Inl e \<Rightarrow> (Inl e, db) | Inr db' \<Rightarrow> k db')"

text \<open>A read, or a check, that ends the handler when it fails.\<close>

definition tryRead ::
  "rm_error + 'b \<Rightarrow> 'f rm_tables \<Rightarrow> ('b \<Rightarrow> (rm_error + 'a) \<times> 'f rm_tables) \<Rightarrow> (rm_error + 'a) \<times> 'f rm_tables" where
  "tryRead r db k = (case r of Inl e \<Rightarrow> (Inl e, db) | Inr v \<Rightarrow> k v)"

section \<open>Editing a head\<close>

definition denierPatchChanges :: "('f::{zero,ord}) group_head \<Rightarrow> 'f option \<Rightarrow> bool" where
  "denierPatchChanges h denier =
     (case denier of
        None \<Rightarrow> False
      | Some d \<Rightarrow>
          if floatEq d 0 then gh_Denier h \<noteq> None
          else (case gh_Denier h of None \<Rightarrow> True | Some cur \<Rightarrow> \<not> floatEq cur d))"

definition applyDenierPatch :: "'f option \<Rightarrow> 'f group_head \<Rightarrow> rm_error + ('f::{zero,ord}) group_head" where
  "applyDenierPatch denier h =
     (case denier of
        None \<Rightarrow> Inr h
      | Some d \<Rightarrow> if floatEq d 0 then SetDenier None h else SetDenier (Some d) h)"

definition hasPeriodPatch :: "'f update_command \<Rightarrow> bool" where
  "hasPeriodPatch cmd \<longleftrightarrow>
     (let i = uc_Input cmd
      in ui_Name i \<noteq> None \<or> ui_Description i \<noteq> None \<or> ui_Colorant i \<noteq> None \<or> ui_CIName i \<noteq> None \<or>
         ui_CostPercentage i \<noteq> None \<or> ui_CostPerKg i \<noteq> None \<or>
         ui_FlagValuation i \<noteq> None \<or> ui_FlagMarketing i \<noteq> None \<or> ui_FlagSimulation i \<noteq> None \<or>
         ui_InitValValuation i \<noteq> None \<or> ui_InitValMarketing i \<noteq> None \<or> ui_InitValSimulation i \<noteq> None \<or>
         ui_ClearInitValValuation i \<or> ui_ClearInitValMarketing i \<or> ui_ClearInitValSimulation i \<or>
         ui_IsActive i \<noteq> None \<or> hasV2MarketingPatch cmd)"

text \<open>\<open>inUse\<close> says whether a product type refers to the group as an oil group.\<close>

definition assertGlobalFieldChangeAllowed ::
  "(rm_call \<Rightarrow> bool) \<Rightarrow> (nat \<Rightarrow> bool) \<Rightarrow> ('f::{zero,ord}) group_head \<Rightarrow> 'f update_command \<Rightarrow> rm_error + unit" where
  "assertGlobalFieldChangeAllowed lost inUse h cmd =
     (if negativeOpt (uc_Denier cmd) then Inl ErrRMInvalidDenier
      else if uc_IsOilGroup cmd = Some False \<and> gh_IsOilGroup h
        then guardCall lost CallOilInUse (if inUse (gh_ID h) then Inl ErrRMOilGroupInUse else Inr ())
        else Inr ())"

definition writeThroughAnchor ::
  "(rm_call \<Rightarrow> bool) \<Rightarrow> ('f::{zero,ord}) group_head \<Rightarrow> 'f update_command \<Rightarrow> 'f rm_tables \<Rightarrow> (rm_error + unit) \<times> 'f rm_tables" where
  "writeThroughAnchor lost h cmd db =
     tryRead
       (tryRM (buildHeadUpdateInput cmd) (\<lambda>inp.
        tryRM (Head_Update inp (uc_UpdatedBy cmd) h) (\<lambda>h.
        tryRM (applyV2MarketingPatch cmd h) (\<lambda>h.
          applyDenierPatch (uc_Denier cmd) (h\<lparr>gh_IsOilGroup := orKeep (uc_IsOilGroup cmd) (gh_IsOilGroup h)\<rparr>))))) db (\<lambda>h.
     tryWrite lost CallUpdateAnchor
       (UpdateHead (h\<lparr>gh_DenierUseDraft := orKeep (uc_DenierUseDraft cmd) (gh_DenierUseDraft h)\<rparr>) db) db (\<lambda>db.
       (Inr (), db)))"

definition writeOilFlagOnly ::
  "(rm_call \<Rightarrow> bool) \<Rightarrow> ('f::{zero,ord}) group_head \<Rightarrow> 'f update_command \<Rightarrow> 'f rm_tables \<Rightarrow> (rm_error + unit) \<times> 'f rm_tables" where
  "writeOilFlagOnly lost h cmd db =
     (let flagChanged = (case uc_IsOilGroup cmd of None \<Rightarrow> False | Some v \<Rightarrow> v \<noteq> gh_IsOilGroup h);
          useDraftChanged = (case uc_DenierUseDraft cmd of None \<Rightarrow> False | Some v \<Rightarrow> v \<noteq> gh_DenierUseDraft h)
      in if \<not> flagChanged \<and> \<not> denierPatchChanges h (uc_Denier cmd) \<and> \<not> useDraftChanged then (Inr (), db)
         else
           tryRead (Head_Update emptyUpdateInput (uc_UpdatedBy cmd) h) db (\<lambda>h.
           tryRead (applyDenierPatch (uc_Denier cmd)
               (h\<lparr>gh_IsOilGroup := orKeep (uc_IsOilGroup cmd) (gh_IsOilGroup h)\<rparr>)) db (\<lambda>h.
           tryWrite lost CallUpdateAnchor
             (UpdateHead (h\<lparr>gh_DenierUseDraft := orKeep (uc_DenierUseDraft cmd) (gh_DenierUseDraft h)\<rparr>) db) db (\<lambda>db.
             (Inr (), db)))))"

definition UpdateHandle ::
  "(rm_call \<Rightarrow> bool) \<Rightarrow> (nat \<Rightarrow> bool) \<Rightarrow> ('f::{zero,ord}) update_command \<Rightarrow> 'f rm_tables
    \<Rightarrow> (rm_error + 'f head_snapshot) \<times> 'f rm_tables" where
  "UpdateHandle lost inUse cmd db =
     tryRead (RMValidatePeriod (uc_Period cmd)) db (\<lambda>_.
     tryRead (guardCall lost CallGetHead (GetHeadByID (uc_HeadID cmd) db)) db (\<lambda>h.
     tryRead (assertGlobalFieldChangeAllowed lost inUse h cmd) db (\<lambda>_.
     tryRead (guardCall lost CallHeadPeriod (Inr (fst (ResolveHeadSnapshot db h (uc_Period cmd))))) db (\<lambda>s.
       if \<not> hasPeriodPatch cmd
       then (case writeOilFlagOnly lost h cmd db of (Inl e, db') \<Rightarrow> (Inl e, db') | (Inr _, db') \<Rightarrow> (Inr s, db'))
       else
         tryRead (applyHeadSnapshotPatch cmd s) db (\<lambda>s.
         tryWrite lost CallUpsertPeriod (Inr (UpsertHeadPeriod s db)) db (\<lambda>db.
         tryRead (guardCall lost CallLatestPeriod (LatestSyncPeriod db)) db (\<lambda>latest.
           case (if uc_Period cmd = latest then writeThroughAnchor lost h cmd db else writeOilFlagOnly lost h cmd db) of
             (Inl e, db') \<Rightarrow> (Inl e, db')
           | (Inr _, db') \<Rightarrow> (Inr s, db'))))))))"

section \<open>Editing an item\<close>

definition writeThroughAnchorDetail ::
  "(rm_call \<Rightarrow> bool) \<Rightarrow> ('f::{zero,ord}) group_detail \<Rightarrow> 'f item_command \<Rightarrow> 'f rm_tables \<Rightarrow> (rm_error + unit) \<times> 'f rm_tables" where
  "writeThroughAnchorDetail lost d cmd db =
     tryRead (if ic_SortOrder cmd \<noteq> None \<or> ic_IsActive cmd \<noteq> None
              then Detail_Update (emptyDetailUpdate\<lparr>du_SortOrder := ic_SortOrder cmd, du_IsActive := ic_IsActive cmd\<rparr>)
                     (ic_UpdatedBy cmd) d
              else Inr d) db (\<lambda>d.
     tryRead (if hasV2DetailPatch cmd
              then AttachValuationInputs (applyDetailValuationPatch cmd (gd_Valuation d)) d else Inr d) db (\<lambda>d.
     tryWrite lost CallUpdateAnchor (UpdateDetail d db) db (\<lambda>db. (Inr (), db))))"

definition UpdateItemHandle ::
  "(rm_call \<Rightarrow> bool) \<Rightarrow> ('f::{zero,ord}) item_command \<Rightarrow> 'f rm_tables \<Rightarrow> (rm_error + 'f detail_snapshot) \<times> 'f rm_tables" where
  "UpdateItemHandle lost cmd db =
     (if ic_UpdatedBy cmd = [] then (Inl ErrRMEmptyUpdatedBy, db)
      else
        tryRead (RMValidatePeriod (ic_Period cmd)) db (\<lambda>_.
        tryRead (guardCall lost CallGetDetail (GetDetailByID (ic_GroupDetailID cmd) db)) db (\<lambda>d.
        if gd_HeadID d \<noteq> ic_HeadID cmd then (Inl ErrRMDetailNotFound, db)
        else
          tryRead (guardCall lost CallDetailPeriods
              (Inr (fst (ResolveDetailSnapshot db (gd_HeadID d) (ic_Period cmd) d)))) db (\<lambda>s.
          tryRead (applyDetailSnapshotPatch cmd s) db (\<lambda>s.
          tryWrite lost CallUpsertPeriod (Inr (UpsertDetailPeriod s db)) db (\<lambda>db.
          tryRead (guardCall lost CallLatestPeriod (LatestSyncPeriod db)) db (\<lambda>latest.
            if ic_Period cmd = latest
            then (case writeThroughAnchorDetail lost d cmd db of
                    (Inl e, db') \<Rightarrow> (Inl e, db') | (Inr _, db') \<Rightarrow> (Inr s, db'))
            else (Inr s, db))))))))"

section \<open>The synchronised stock\<close>

record 'f sync_row =
  sy_Period :: string
  sy_ItemCode :: string
  sy_GradeCode :: string
  sy_ConsVal :: "'f option"
  sy_ConsQty :: "'f option"
  sy_StoresVal :: "'f option"
  sy_StoresQty :: "'f option"
  sy_DeptVal :: "'f option"
  sy_DeptQty :: "'f option"
  sy_LastPOVal1 :: "'f option"
  sy_LastPOQty1 :: "'f option"
  sy_UOM :: string

definition noSource :: "('f::zero) source_qty" where
  "noSource = \<lparr>src_ConsVal = 0, src_ConsQty = 0, src_StockVal = 0, src_StockQty = 0, src_POVal = 0, src_POQty = 0\<rparr>"

text \<open>The last row of an item and grade is the one the map keeps; a missing key reads as zero.\<close>

definition FetchSourceQtyByItemGrade :: "('f::{zero,plus}) sync_row list \<Rightarrow> string \<Rightarrow> string \<Rightarrow> string \<Rightarrow> 'f source_qty" where
  "FetchSourceQtyByItemGrade sync period itemCode gradeCode =
     (case find (\<lambda>r. sy_Period r = period \<and> sy_ItemCode r = itemCode \<and> sy_GradeCode r = gradeCode) (rev sync) of
        None \<Rightarrow> noSource
      | Some r \<Rightarrow>
          \<lparr>src_ConsVal = derefOrZero (sy_ConsVal r), src_ConsQty = derefOrZero (sy_ConsQty r),
           src_StockVal = derefOrZero (sy_StoresVal r) + derefOrZero (sy_DeptVal r),
           src_StockQty = derefOrZero (sy_StoresQty r) + derefOrZero (sy_DeptQty r),
           src_POVal = derefOrZero (sy_LastPOVal1 r), src_POQty = derefOrZero (sy_LastPOQty1 r)\<rparr>)"

definition FetchItemUOM :: "'f sync_row list \<Rightarrow> string \<Rightarrow> string \<Rightarrow> string" where
  "FetchItemUOM sync period itemCode =
     (case find (\<lambda>r. sy_Period r = period \<and> sy_ItemCode r = itemCode \<and> sy_UOM r \<noteq> []) sync of
        None \<Rightarrow> [] | Some r \<Rightarrow> sy_UOM r)"

section \<open>Calculating a group\<close>

fun overlayDetails ::
  "(('f::{zero,ord}) group_detail \<times> 'f detail_snapshot \<times> inherited) list \<Rightarrow> rm_error + 'f group_detail list" where
  "overlayDetails [] = Inr []"
| "overlayDetails ((d, s, _) # rest) =
     tryRM (OverlayDetailFromSnapshot d s) (\<lambda>d'. tryRM (overlayDetails rest) (\<lambda>ds. Inr (d' # ds)))"

text \<open>\<open>periodFreeze\<close>: the snapshots the calculation has read, with where they came from.\<close>

record 'f period_freeze =
  pf_Head :: "'f head_snapshot \<times> inherited"
  pf_Details :: "('f detail_snapshot \<times> inherited) list"

definition loadHeadAndDetails ::
  "(rm_call \<Rightarrow> bool) \<Rightarrow> nat \<Rightarrow> string \<Rightarrow> ('f::{zero,ord}) rm_tables
    \<Rightarrow> rm_error + ('f group_head \<times> 'f group_detail list \<times> 'f period_freeze)" where
  "loadHeadAndDetails lost headID period db =
     tryRM (guardCall lost CallGetHead (GetHeadByID headID db)) (\<lambda>anchor.
     tryRM (guardCall lost CallHeadPeriod (Inr (ResolveHeadSnapshot db anchor period))) (\<lambda>resolvedHead.
     tryRM (OverlayHeadFromSnapshot anchor (fst resolvedHead)) (\<lambda>h.
     tryRM (guardCall lost CallListDetails (Inr (ListActiveDetailsByHeadID headID db))) (\<lambda>anchorDetails.
     tryRM (guardCall lost CallDetailPeriods (Inr (ResolveDetailSnapshots db headID anchorDetails period))) (\<lambda>resolved.
     tryRM (overlayDetails (zip anchorDetails resolved)) (\<lambda>details.
       Inr (h, details, \<lparr>pf_Head = resolvedHead, pf_Details = resolved\<rparr>)))))))"

definition realDetails :: "'f group_detail list \<Rightarrow> 'f group_detail list" where
  "realDetails = filter (\<lambda>d. \<not> gd_IsDummy d)"

definition detailInputsFromGroupDetail :: "('f::zero) group_detail \<Rightarrow> 'f detail_inputs" where
  "detailInputsFromGroupDetail d =
     (let va = gd_Valuation d
      in \<lparr>di_FreightRate = derefOrZero (va_FreightRate va), di_AntiDumpingPct = derefOrZero (va_AntiDumpingPct va),
          di_DutyPct = derefOrZero (va_DutyPct va), di_TransportRate = derefOrZero (va_TransportRate va),
          di_ValuationDefaultValue = derefOrZero (va_DefaultValue va)\<rparr>)"

definition computeDetailOutputs ::
  "(rm_call \<Rightarrow> bool) \<Rightarrow> 'f sync_row list \<Rightarrow> string \<Rightarrow> 'f group_detail list
    \<Rightarrow> rm_error + ('f::{zero,plus,times,inverse,ord}) detail_output list" where
  "computeDetailOutputs lost sync period details =
     (let real = realDetails details
      in if real \<noteq> [] \<and> lost CallFetchSource then Inl RMQueryFailed
         else Inr (map (\<lambda>d. ComputeDetail (detailInputsFromGroupDetail d)
                (FetchSourceQtyByItemGrade sync period (gd_ItemCode d) (gd_GradeCode d))) real))"

definition inputFromExisting :: "('f v2_numbers \<Rightarrow> 'f option) \<Rightarrow> ('f::zero) rm_cost option \<Rightarrow> 'f" where
  "inputFromExisting field existing =
     (case existing of
        None \<Rightarrow> 0
      | Some c \<Rightarrow> (case rc_Inputs c of None \<Rightarrow> 0 | Some i \<Rightarrow> derefOrZero (field (in_Numbers i))))"

definition simRateFromExisting :: "('f::zero) rm_cost option \<Rightarrow> 'f" where
  "simRateFromExisting = inputFromExisting vn_SimulationRate"

definition mdvFromExisting :: "('f::zero) rm_cost option \<Rightarrow> 'f" where
  "mdvFromExisting = inputFromExisting vn_MarketingDefaultValue"

definition headerInputsV2FromHead :: "('f::{zero,ord}) group_head \<Rightarrow> 'f \<Rightarrow> 'f \<Rightarrow> 'f header_inputs" where
  "headerInputsV2FromHead h simRate mdvOverride =
     (let mi = Head_MarketingInputs h
      in \<lparr>hi_MarketingFreightRate = derefOrZero (mi_FreightRate mi),
          hi_MarketingAntiDumpingPct = derefOrZero (mi_AntiDumpingPct mi),
          hi_MarketingDutyPct = hc_CostPercentage (gh_Config h),
          hi_MarketingTransportRate = hc_CostPerKg (gh_Config h),
          hi_MarketingDefaultValue =
            (if floatEq mdvOverride 0 then derefOrZero (mi_DefaultValue mi) else mdvOverride),
          hi_SimulationRate = simRate,
          hi_ValuationFlag = orAuto (mi_ValuationFlag mi), hi_MarketingFlag = orAuto (mi_MarketingFlag mi)\<rparr>)"

definition pickGroupUOM :: "'f group_detail list \<Rightarrow> string" where
  "pickGroupUOM details =
     (case find (\<lambda>d. gd_UOMCode d \<noteq> []) (realDetails details) of None \<Rightarrow> [] | Some d \<Rightarrow> gd_UOMCode d)"

definition resolveGroupUOM ::
  "(rm_call \<Rightarrow> bool) \<Rightarrow> 'f sync_row list \<Rightarrow> string \<Rightarrow> 'f group_detail list \<Rightarrow> string" where
  "resolveGroupUOM lost sync period details =
     (let uom = pickGroupUOM details
      in if uom \<noteq> [] \<or> lost CallFetchUOMs then uom
         else (case find (\<lambda>d. FetchItemUOM sync period (gd_ItemCode d) \<noteq> []) (realDetails details) of
                 None \<Rightarrow> [] | Some d \<Rightarrow> FetchItemUOM sync period (gd_ItemCode d)))"

definition v2InputsOf :: "('f::{zero,ord}) header_inputs \<Rightarrow> 'f v2_inputs" where
  "v2InputsOf hv2 =
     \<lparr>in_Numbers =
        \<lparr>vn_MarketingFreightRate = nilIfZero (hi_MarketingFreightRate hv2),
         vn_MarketingAntiDumpingPct = nilIfZero (hi_MarketingAntiDumpingPct hv2),
         vn_MarketingDutyPct = nilIfZero (hi_MarketingDutyPct hv2),
         vn_MarketingTransportRate = nilIfZero (hi_MarketingTransportRate hv2),
         vn_MarketingDefaultValue = nilIfZero (hi_MarketingDefaultValue hv2),
         vn_SimulationRate = nilIfZero (hi_SimulationRate hv2)\<rparr>,
      in_ValuationFlag = hi_ValuationFlag hv2, in_MarketingFlag = hi_MarketingFlag hv2\<rparr>"

definition buildV2Rates :: "('f::{zero,ord}) group_totals \<Rightarrow> 'f projections \<Rightarrow> 'f v2_rates" where
  "buildV2Rates tot proj =
     \<lparr>vr_CL = nilIfZero (gt_CL tot), vr_SL = nilIfZero (gt_SL tot), vr_FL = nilIfZero (gt_FL tot),
      vr_SP = nilIfZero (pj_SP proj), vr_PP = nilIfZero (pj_PP proj), vr_FP = nilIfZero (pj_FP proj),
      vr_CR = nilIfZero (gt_CR tot), vr_SR = nilIfZero (gt_SR tot), vr_PR = nilIfZero (gt_PR tot)\<rparr>"

definition buildOrApplyCost ::
  "nat \<Rightarrow> 'f rm_cost option \<Rightarrow> 'f group_head \<Rightarrow> string \<Rightarrow> string \<Rightarrow> 'f group_totals \<Rightarrow> 'f projections
    \<Rightarrow> 'f header_inputs \<Rightarrow> 'f computed \<Rightarrow> string \<Rightarrow> rm_error + ('f::{zero,ord}) rm_cost" where
  "buildOrApplyCost newID existing h period uomCode totals proj hv2 cmp calculatedBy =
     (case existing of
        Some c \<Rightarrow>
          tryRM (ApplyComputed c cmp calculatedBy) (\<lambda>c.
            Inr (AttachV2 (if uomCode \<noteq> [] then c\<lparr>rc_UOMCode := uomCode\<rparr> else c) (v2InputsOf hv2) (buildV2Rates totals proj)))
      | None \<Rightarrow>
          tryRM (NewGroupCost newID period (gh_Code h) (gh_ID h) (hc_Name (gh_Config h)) uomCode cmp calculatedBy) (\<lambda>c.
            Inr (AttachV2 c (v2InputsOf hv2) (buildV2Rates totals proj))))"

text \<open>What the columns of the first engine get: the selected values, the flags of the head, and the flags applied.\<close>

definition computedOf ::
  "'f group_head \<Rightarrow> 'f group_totals \<Rightarrow> 'f projections \<Rightarrow> 'f header_inputs
    \<Rightarrow> ('f::{zero,one,plus,times,ord}) computed" where
  "computedOf h totals proj hv2 =
     (let (costVal, valUsed) = SelectValuationWithFlag totals (hi_ValuationFlag hv2);
          (costMkt, mktUsed) = SelectMarketingWithFlag proj (hi_MarketingFlag hv2);
          cfg = gh_Config h
      in \<lparr>cp_CostValuation = costVal, cp_CostMarketing = costMkt,
          cp_CostSimulation = ComputeSimulation (hi_SimulationRate hv2) hv2,
          cp_FlagValuation = hc_FlagValuation cfg, cp_FlagMarketing = hc_FlagMarketing cfg,
          cp_FlagSimulation = hc_FlagSimulation cfg,
          cp_FlagValuationUsed = valUsed, cp_FlagMarketingUsed = mktUsed,
          cp_FlagSimulationUsed = hc_FlagSimulation cfg\<rparr>)"

definition buildHistoryV2 :: "'f rm_cost \<Rightarrow> 'f group_head \<Rightarrow> nat \<Rightarrow> string \<Rightarrow> string \<Rightarrow> 'f rm_history" where
  "buildHistoryV2 c h sourceCount reason calculatedBy =
     (let cfg = gh_Config h
      in \<lparr>hy_CostID = rc_ID c, hy_Period = rc_Period c, hy_Code = rc_Code c, hy_GroupHeadID = gh_ID h,
          hy_CostPercentage = hc_CostPercentage cfg, hy_CostPerKg = hc_CostPerKg cfg,
          hy_Flags = (rc_FlagValuation c, rc_FlagMarketing c, rc_FlagSimulation c),
          hy_InitVals = (hc_InitValValuation cfg, hc_InitValMarketing cfg, hc_InitValSimulation cfg),
          hy_Costs = (rc_CostValuation c, rc_CostMarketing c, rc_CostSimulation c),
          hy_FlagsUsed = (rc_FlagValuationUsed c, rc_FlagMarketingUsed c, rc_FlagSimulationUsed c),
          hy_SourceItemCount = sourceCount, hy_TriggerReason = reason, hy_CalculatedBy = calculatedBy\<rparr>)"

definition GetByPeriodAndCode :: "string \<Rightarrow> string \<Rightarrow> 'f rm_tables \<Rightarrow> 'f rm_cost option" where
  "GetByPeriodAndCode period rmCode db = map_option costToEntity (find (rowFor period rmCode) (rt_Costs db))"

definition RMCost_Upsert :: "'f rm_cost \<Rightarrow> 'f rm_history \<Rightarrow> 'f rm_tables \<Rightarrow> 'f rm_tables" where
  "RMCost_Upsert c hist db = db\<lparr>rt_Costs := upsertCost c (rt_Costs db), rt_History := rt_History db @ [hist]\<rparr>"

definition UpsertAll :: "nat \<Rightarrow> 'f cost_detail list \<Rightarrow> 'f rm_tables \<Rightarrow> 'f rm_tables" where
  "UpsertAll costID details db = db\<lparr>rt_CostDetails :=
     filter (\<lambda>d. cd_CostID d \<noteq> costID) (rt_CostDetails db) @ details\<rparr>"

fun rebuildCostDetails ::
  "nat \<Rightarrow> ('f group_detail \<times> 'f detail_output) list \<Rightarrow> nat \<Rightarrow> nat \<Rightarrow> string \<Rightarrow> string
    \<Rightarrow> rm_error + ('f::{zero,ord}) cost_detail list" where
  "rebuildCostDetails newID [] groupHeadID costID period createdBy = Inr []"
| "rebuildCostDetails newID ((d, out) # rest) groupHeadID costID period createdBy =
     tryRM (NewCostDetail newID costID groupHeadID (gd_ID d) period (gd_ItemCode d) (gd_ItemName d) (gd_GradeCode d)
              createdBy (detailOutputToSnapshot out)) (\<lambda>c.
     tryRM (rebuildCostDetails (newID + 1) rest groupHeadID costID period createdBy) (\<lambda>cs. Inr (c # cs)))"

fun freezeDetails ::
  "(rm_call \<Rightarrow> bool) \<Rightarrow> string \<Rightarrow> ('f detail_snapshot \<times> inherited) list \<Rightarrow> 'f rm_tables \<Rightarrow> (rm_error + unit) \<times> 'f rm_tables" where
  "freezeDetails lost frozenBy [] db = (Inr (), db)"
| "freezeDetails lost frozenBy ((s, i) # rest) db =
     (case FrozenDetailCopy s i frozenBy of
        None \<Rightarrow> freezeDetails lost frozenBy rest db
      | Some frozen \<Rightarrow>
          tryWrite lost (CallFreezeDetail (ds_GroupDetailID s)) (Inr (InsertDetailPeriodIfAbsent frozen db)) db
            (freezeDetails lost frozenBy rest))"

definition freezeInheritedSnapshots ::
  "(rm_call \<Rightarrow> bool) \<Rightarrow> 'f period_freeze \<Rightarrow> string \<Rightarrow> 'f rm_tables \<Rightarrow> (rm_error + unit) \<times> 'f rm_tables" where
  "freezeInheritedSnapshots lost f frozenBy db =
     (case FrozenHeadCopy (fst (pf_Head f)) (snd (pf_Head f)) frozenBy of
        None \<Rightarrow> freezeDetails lost frozenBy (pf_Details f) db
      | Some frozen \<Rightarrow>
          tryWrite lost CallFreezeHead (Inr (InsertHeadPeriodIfAbsent frozen db)) db
            (freezeDetails lost frozenBy (pf_Details f)))"

definition HandleOneGroup ::
  "(rm_call \<Rightarrow> bool) \<Rightarrow> 'f sync_row list \<Rightarrow> nat \<Rightarrow> string \<Rightarrow> string \<Rightarrow> string \<Rightarrow> 'f rm_tables
    \<Rightarrow> (rm_error + ('f::{zero,one,plus,times,inverse,ord}) rm_cost) \<times> 'f rm_tables" where
  "HandleOneGroup lost sync headID period calculatedBy reason db =
     tryRead (RMValidatePeriod period) db (\<lambda>_.
     if calculatedBy = [] then (Inl ErrRMEmptyCalculatedBy, db)
     else
       tryRead (loadHeadAndDetails lost headID period db) db (\<lambda>(h, details, freeze).
       tryRead (computeDetailOutputs lost sync period details) db (\<lambda>outs.
       tryRead (guardCall lost CallGetCost (Inr (GetByPeriodAndCode period (gh_Code h) db))) db (\<lambda>existing.
         let totals = AggregateGroupTotals outs;
             hv2 = headerInputsV2FromHead h (simRateFromExisting existing) (mdvFromExisting existing);
             proj = ComputeMarketingProjections totals hv2;
             uomCode = resolveGroupUOM lost sync period details
         in
           tryRead (buildOrApplyCost (rt_NextID db) existing h period uomCode totals proj hv2
               (computedOf h totals proj hv2) calculatedBy) db (\<lambda>c.
           tryWrite lost CallUpsertCost
               (Inr (RMCost_Upsert c (buildHistoryV2 c h (length outs) reason calculatedBy)
                  (db\<lparr>rt_NextID := rt_NextID db + 1\<rparr>))) db (\<lambda>db.
           tryRead (rebuildCostDetails (rt_NextID db) (zip (realDetails details) outs) (gh_ID h) (rc_ID c) period calculatedBy)
               db (\<lambda>costDetails.
           tryWrite lost CallUpsertDetails
               (Inr (UpsertAll (rc_ID c) costDetails (db\<lparr>rt_NextID := rt_NextID db + length costDetails\<rparr>))) db (\<lambda>db.
             case freezeInheritedSnapshots lost freeze calculatedBy db of
               (Inl e, db') \<Rightarrow> (Inl e, db')
             | (Inr _, db') \<Rightarrow> (Inr c, db')))))))))"

section \<open>Editing a calculated cost\<close>

record 'f edit_inputs_command =
  ei_RMCostID :: nat
  ei_Numbers :: "'f v2_numbers"
  ei_ValuationFlag :: "string option"
  ei_MarketingFlag :: "string option"
  ei_ClearMarketingFreightRate :: bool
  ei_ClearMarketingAntiDumpingPct :: bool
  ei_ClearMarketingDutyPct :: bool
  ei_ClearMarketingTransportRate :: bool
  ei_ClearMarketingDefaultValue :: bool
  ei_ClearSimulationRate :: bool
  ei_UpdatedBy :: string

definition RMCost_GetByID :: "nat \<Rightarrow> 'f rm_tables \<Rightarrow> rm_error + 'f rm_cost" where
  "RMCost_GetByID costID db =
     orError ErrRMNotFound (map_option costToEntity (find (\<lambda>r. rc_ID (row_Cost r) = costID) (rt_Costs db)))"

definition currentV2Inputs :: "'f rm_cost \<Rightarrow> 'f v2_inputs" where
  "currentV2Inputs c =
     (case rc_Inputs c of
        None \<Rightarrow> \<lparr>in_Numbers = noNumbers, in_ValuationFlag = FlagAuto, in_MarketingFlag = FlagAuto\<rparr>
      | Some i \<Rightarrow> i\<lparr>in_ValuationFlag := orAuto (in_ValuationFlag i), in_MarketingFlag := orAuto (in_MarketingFlag i)\<rparr>)"

definition applyEditPatches :: "'f edit_inputs_command \<Rightarrow> 'f v2_inputs \<Rightarrow> 'f v2_inputs" where
  "applyEditPatches cmd cur =
     (let n = in_Numbers cur; p = ei_Numbers cmd
      in \<lparr>in_Numbers =
            \<lparr>vn_MarketingFreightRate = patchOptFloat (vn_MarketingFreightRate n) (vn_MarketingFreightRate p) (ei_ClearMarketingFreightRate cmd),
             vn_MarketingAntiDumpingPct = patchOptFloat (vn_MarketingAntiDumpingPct n) (vn_MarketingAntiDumpingPct p) (ei_ClearMarketingAntiDumpingPct cmd),
             vn_MarketingDutyPct = patchOptFloat (vn_MarketingDutyPct n) (vn_MarketingDutyPct p) (ei_ClearMarketingDutyPct cmd),
             vn_MarketingTransportRate = patchOptFloat (vn_MarketingTransportRate n) (vn_MarketingTransportRate p) (ei_ClearMarketingTransportRate cmd),
             vn_MarketingDefaultValue = patchOptFloat (vn_MarketingDefaultValue n) (vn_MarketingDefaultValue p) (ei_ClearMarketingDefaultValue cmd),
             vn_SimulationRate = patchOptFloat (vn_SimulationRate n) (vn_SimulationRate p) (ei_ClearSimulationRate cmd)\<rparr>,
          in_ValuationFlag = orKeep (ei_ValuationFlag cmd) (in_ValuationFlag cur),
          in_MarketingFlag = orKeep (ei_MarketingFlag cmd) (in_MarketingFlag cur)\<rparr>)"

definition headerInputsOf :: "('f::zero) v2_inputs \<Rightarrow> 'f header_inputs" where
  "headerInputsOf i =
     (let n = in_Numbers i
      in \<lparr>hi_MarketingFreightRate = derefOrZero (vn_MarketingFreightRate n),
          hi_MarketingAntiDumpingPct = derefOrZero (vn_MarketingAntiDumpingPct n),
          hi_MarketingDutyPct = derefOrZero (vn_MarketingDutyPct n),
          hi_MarketingTransportRate = derefOrZero (vn_MarketingTransportRate n),
          hi_MarketingDefaultValue = derefOrZero (vn_MarketingDefaultValue n),
          hi_SimulationRate = derefOrZero (vn_SimulationRate n),
          hi_ValuationFlag = orAuto (in_ValuationFlag i), hi_MarketingFlag = orAuto (in_MarketingFlag i)\<rparr>)"

definition ratesTotals :: "('f::zero) v2_rates \<Rightarrow> 'f group_totals" where
  "ratesTotals v =
     \<lparr>gt_CR = derefOrZero (vr_CR v), gt_SR = derefOrZero (vr_SR v), gt_PR = derefOrZero (vr_PR v),
      gt_CL = derefOrZero (vr_CL v), gt_SL = derefOrZero (vr_SL v), gt_FL = derefOrZero (vr_FL v)\<rparr>"

definition totalsFromCost :: "('f::zero) rm_cost \<Rightarrow> 'f group_totals" where
  "totalsFromCost c = ratesTotals (case rc_Rates c of None \<Rightarrow> noRates | Some v \<Rightarrow> v)"

text \<open>
  The flags have \<open>CHECK\<close> constraints, and \<open>AUTO\<close> is stored as NULL. Of the rates only the projections are
  written.
\<close>

definition writeInputs ::
  "'f v2_inputs \<Rightarrow> 'f v2_rates \<Rightarrow> 'f \<Rightarrow> 'f \<Rightarrow> string \<Rightarrow> 'f cost_row \<Rightarrow> 'f cost_row" where
  "writeInputs i rates costMkt costSim updatedBy r = r
     \<lparr>row_Numbers := in_Numbers i, row_ValuationFlag := nullableFlagString (in_ValuationFlag i),
      row_MarketingFlag := nullableFlagString (in_MarketingFlag i),
      row_Rates := (row_Rates r)\<lparr>vr_SP := vr_SP rates, vr_PP := vr_PP rates, vr_FP := vr_FP rates\<rparr>,
      row_Cost := (row_Cost r)\<lparr>rc_CostMarketing := Some costMkt, rc_CostSimulation := Some costSim,
                               rc_UpdatedBy := Some updatedBy\<rparr>\<rparr>"

definition UpdateInputs ::
  "nat \<Rightarrow> 'f v2_inputs \<Rightarrow> 'f v2_rates \<Rightarrow> 'f \<Rightarrow> 'f \<Rightarrow> string \<Rightarrow> 'f rm_tables \<Rightarrow> rm_error + 'f rm_tables" where
  "UpdateInputs costID i rates costMkt costSim updatedBy db =
     (let hit = (\<lambda>r. rc_ID (row_Cost r) = costID)
      in if in_ValuationFlag i \<notin> set ([] # valuationFlags) \<or> in_MarketingFlag i \<notin> set ([] # marketingFlags) then Inl RMQueryFailed
         else if \<not> list_ex hit (rt_Costs db) then Inl ErrRMNotFound
         else Inr (db\<lparr>rt_Costs := map (\<lambda>r. if hit r then writeInputs i rates costMkt costSim updatedBy r else r) (rt_Costs db)\<rparr>))"

definition EditInputsHandle ::
  "(rm_call \<Rightarrow> bool) \<Rightarrow> 'f edit_inputs_command \<Rightarrow> 'f rm_tables
    \<Rightarrow> (rm_error + ('f::{zero,one,plus,times,ord}) rm_cost) \<times> 'f rm_tables" where
  "EditInputsHandle lost cmd db =
     (if ei_UpdatedBy cmd = [] then (Inl ErrRMEmptyCalculatedBy, db)
      else
        tryRead (guardCall lost CallGetCost (RMCost_GetByID (ei_RMCostID cmd) db)) db (\<lambda>c.
          let cur = applyEditPatches cmd (currentV2Inputs c);
              hv2 = headerInputsOf cur;
              tot = totalsFromCost c;
              proj = ComputeMarketingProjections tot hv2
          in
            tryWrite lost CallUpdateCost
              (UpdateInputs (rc_ID c) cur (buildV2Rates tot proj) (SelectMarketing proj (hi_MarketingFlag hv2))
                 (ComputeSimulation (hi_SimulationRate hv2) hv2) (ei_UpdatedBy cmd) db) db (\<lambda>db.
            tryRead (guardCall lost CallReload (RMCost_GetByID (ei_RMCostID cmd) db)) db (\<lambda>updated.
              (Inr updated, db)))))"

record 'f edit_fix_rate_command =
  ef_CostDetailID :: nat
  ef_FixRate :: "'f option"
  ef_UpdatedBy :: string

definition CostDetail_GetByID :: "nat \<Rightarrow> 'f rm_tables \<Rightarrow> rm_error + 'f cost_detail" where
  "CostDetail_GetByID detailID db =
     orError ErrRMNotFound (find (\<lambda>d. cd_ID d = detailID) (rt_CostDetails db))"

definition UpdateSnapshot :: "'f cost_detail \<Rightarrow> 'f rm_tables \<Rightarrow> rm_error + 'f rm_tables" where
  "UpdateSnapshot d db =
     (if \<not> list_ex (\<lambda>r. cd_ID r = cd_ID d) (rt_CostDetails db) then Inl ErrRMNotFound
      else Inr (db\<lparr>rt_CostDetails := map (\<lambda>r. if cd_ID r = cd_ID d
             then r\<lparr>cd_Snapshot := cd_Snapshot d, cd_UpdatedBy := cd_UpdatedBy d\<rparr> else r) (rt_CostDetails db)\<rparr>))"

definition withFixRate :: "'f option \<Rightarrow> 'f option detail_output \<Rightarrow> ('f::{zero,plus,times,inverse,ord}) option detail_output" where
  "withFixRate fixRate snap =
     (let inp = (mapInputs derefOrZero (dt_Inputs snap))\<lparr>di_ValuationDefaultValue := derefOrZero fixRate\<rparr>;
          out = ComputeDetail inp noSource
      in snap\<lparr>dt_Inputs := (dt_Inputs snap)\<lparr>di_ValuationDefaultValue := fixRate\<rparr>,
              dt_Fix := mapFix nilIfZero (dt_Fix out)\<rparr>)"

text \<open>The greatest landed cost over the rows of a cost, at least 0. The order of the rows does not matter.\<close>

definition flMaxOf :: "nat \<Rightarrow> ('f::{zero,ord}) cost_detail list \<Rightarrow> 'f" where
  "flMaxOf costID rows =
     fold (\<lambda>d m. let v = derefOrZero (fo_LandedCost (dt_Fix (cd_Snapshot d))) in if m < v then v else m)
       (filter (\<lambda>d. cd_CostID d = costID) rows) 0"

definition UpdateFLAndCostVal ::
  "nat \<Rightarrow> 'f \<Rightarrow> 'f option \<Rightarrow> string \<Rightarrow> 'f rm_tables \<Rightarrow> rm_error + 'f rm_tables" where
  "UpdateFLAndCostVal costID flRate costVal updatedBy db =
     (let hit = (\<lambda>r. rc_ID (row_Cost r) = costID)
      in if \<not> list_ex hit (rt_Costs db) then Inl ErrRMNotFound
         else Inr (db\<lparr>rt_Costs := map (\<lambda>r. if hit r
                then r\<lparr>row_Rates := (row_Rates r)\<lparr>vr_FL := Some flRate\<rparr>,
                       row_Cost := (row_Cost r)\<lparr>rc_CostValuation := costVal, rc_UpdatedBy := Some updatedBy\<rparr>\<rparr>
                else r) (rt_Costs db)\<rparr>))"

definition fixRateCostVal :: "'f rm_cost \<Rightarrow> 'f \<Rightarrow> ('f::{zero,ord}) option" where
  "fixRateCostVal c flMax =
     (let flag = (case rc_Inputs c of None \<Rightarrow> FlagAuto | Some i \<Rightarrow> in_ValuationFlag i)
      in if flag = FlagAuto \<or> flag = ''FL''
         then Some (SelectValuation ((totalsFromCost c)\<lparr>gt_FL := flMax\<rparr>) flag)
         else rc_CostValuation c)"

definition EditFixRateHandle ::
  "(rm_call \<Rightarrow> bool) \<Rightarrow> 'f edit_fix_rate_command \<Rightarrow> 'f rm_tables
    \<Rightarrow> (rm_error + ('f cost_detail \<times> ('f::{zero,plus,times,inverse,ord}) rm_cost)) \<times> 'f rm_tables" where
  "EditFixRateHandle lost cmd db =
     (if ef_UpdatedBy cmd = [] then (Inl ErrRMEmptyCalculatedBy, db)
      else
        tryRead (guardCall lost CallGetCostDetail (CostDetail_GetByID (ef_CostDetailID cmd) db)) db (\<lambda>d.
          let d' = d\<lparr>cd_Snapshot := withFixRate (ef_FixRate cmd) (cd_Snapshot d), cd_UpdatedBy := Some (ef_UpdatedBy cmd)\<rparr>
          in
            tryWrite lost CallUpdateSnapshot (UpdateSnapshot d' db) db (\<lambda>db.
            tryRead (guardCall lost CallListSiblings (Inr (flMaxOf (cd_CostID d) (rt_CostDetails db)))) db (\<lambda>flMax.
            tryRead (guardCall lost CallGetCost (RMCost_GetByID (cd_CostID d) db)) db (\<lambda>c.
            tryWrite lost CallUpdateCost
              (UpdateFLAndCostVal (rc_ID c) flMax (fixRateCostVal c flMax) (ef_UpdatedBy cmd) db) db (\<lambda>db.
            tryRead (guardCall lost CallReload (RMCost_GetByID (rc_ID c) db)) db (\<lambda>updated.
              (Inr (d', updated), db))))))))"

end
