(* ===== verification/RMMembers.thy ===== *)
theory RMMembers
  imports RMCalc
begin

text \<open>
  The members of the raw material groups: a group is created (\<^verbatim>\<open>create_handler.go\<close>), gets items
  (\<^verbatim>\<open>add_items_handler.go\<close>), loses items (\<^verbatim>\<open>remove_items_handler.go\<close>) and is deleted
  (\<^verbatim>\<open>delete_handler.go\<close>, all in \<^verbatim>\<open>services/finance/internal/application/rmgroup\<close>), with the statements of
  \<^verbatim>\<open>rmgroup_head_repository.go\<close> and \<^verbatim>\<open>rmgroup_detail_repository.go\<close>; then the sequences of runs of all
  handlers on the tables.

  An id of a command is \<open>None\<close> when its text is not a \<open>uuid\<close>. The unique indices and the foreign key of the
  tables are part of the statements. The limits of the text columns are not: a write that exceeds one fails, as
  the writes that the schedule loses do.
\<close>

section \<open>Codes\<close>

definition codeStart :: "char \<Rightarrow> bool" where
  "codeStart c \<longleftrightarrow> isDigit c \<or> (65 :: nat) \<le> of_char c \<and> of_char c \<le> (90 :: nat)"

text \<open>\<open>^[A-Z0-9][A-Z0-9 \-]{0,29}$\<close>\<close>

fun codePattern :: "string \<Rightarrow> bool" where
  "codePattern [] = False"
| "codePattern (c # cs) =
     (codeStart c \<and> length cs \<le> 29 \<and> list_all (\<lambda>d. codeStart d \<or> d = CHR '' '' \<or> d = CHR ''-'') cs)"

definition NewCode :: "string \<Rightarrow> rm_error + string" where
  "NewCode raw =
     (let trimmed = trimSpace raw; normalized = toUpper trimmed
      in if trimmed = [] then Inl ErrRMEmptyCode
         else if 30 < length trimmed then Inl ErrRMCodeTooLong
         else if \<not> codePattern normalized then Inl ErrRMInvalidCodeFormat
         else Inr normalized)"

definition NewItemCode :: "string \<Rightarrow> rm_error + string" where
  "NewItemCode raw =
     (let trimmed = trimSpace raw
      in if trimmed = [] then Inl ErrRMEmptyItemCode
         else if 20 < length trimmed then Inl ErrRMItemCodeTooLong
         else Inr trimmed)"

definition optText :: "string \<Rightarrow> string option" where
  "optText s = (if s = [] then None else Some s)"

section \<open>Creating a group\<close>

record 'f create_command =
  cc_Code :: string
  cc_Name :: string
  cc_Description :: string
  cc_Colorant :: string
  cc_CIName :: string
  cc_CostPercentage :: 'f
  cc_CostPerKg :: 'f
  cc_CreatedBy :: string
  cc_MarketingFreightRate :: "'f option"
  cc_MarketingAntiDumpingPct :: "'f option"
  cc_MarketingDefaultValue :: "'f option"
  cc_ValuationFlag :: string
  cc_MarketingFlag :: string
  cc_IsOilGroup :: bool
  cc_Denier :: "'f option"
  cc_DenierUseDraft :: bool

definition noMarketing :: "'f marketing_inputs" where
  "noMarketing =
     \<lparr>mi_FreightRate = None, mi_AntiDumpingPct = None, mi_DefaultValue = None, mi_ValuationFlag = [], mi_MarketingFlag = []\<rparr>"

definition NewHead ::
  "nat \<Rightarrow> string \<Rightarrow> string \<Rightarrow> string \<Rightarrow> 'f \<Rightarrow> 'f \<Rightarrow> string \<Rightarrow> rm_error + ('f::{zero,ord}) group_head" where
  "NewHead newID code name description costPercentage costPerKg createdBy =
     (if code = [] then Inl ErrRMEmptyCode
      else if name = [] then Inl ErrRMEmptyName
      else if 200 < length name then Inl ErrRMNameTooLong
      else if createdBy = [] then Inl ErrRMEmptyCreatedBy
      else if costPercentage < 0 then Inl ErrRMNegativeCostPercentage
      else if costPerKg < 0 then Inl ErrRMNegativeCostPerKg
      else Inr
        \<lparr>gh_ID = newID, gh_Code = code,
         gh_Config =
           \<lparr>hc_Name = name, hc_Description = description, hc_Colorant = [], hc_CIName = [],
            hc_CostPercentage = costPercentage, hc_CostPerKg = costPerKg,
            hc_FlagValuation = FlagCons, hc_FlagMarketing = FlagCons, hc_FlagSimulation = FlagCons,
            hc_InitValValuation = None, hc_InitValMarketing = None, hc_InitValSimulation = None\<rparr>,
         gh_Marketing = noMarketing, gh_IsActive = True, gh_IsOilGroup = False, gh_Denier = None,
         gh_DenierUseDraft = False, gh_CreatedBy = createdBy, gh_UpdatedBy = None, gh_Deleted = False\<rparr>)"

definition applyCreateOptionalText ::
  "'f create_command \<Rightarrow> 'f group_head \<Rightarrow> rm_error + ('f::{zero,ord}) group_head" where
  "applyCreateOptionalText cmd h =
     (if cc_Colorant cmd = [] \<and> cc_CIName cmd = [] then Inr h
      else Head_Update (emptyUpdateInput\<lparr>ui_Colorant := optText (cc_Colorant cmd), ui_CIName := optText (cc_CIName cmd)\<rparr>)
             (cc_CreatedBy cmd) h)"

definition hasV2CreateMarketingPatch :: "'f create_command \<Rightarrow> bool" where
  "hasV2CreateMarketingPatch cmd \<longleftrightarrow>
     cc_MarketingFreightRate cmd \<noteq> None \<or> cc_MarketingAntiDumpingPct cmd \<noteq> None \<or>
     cc_MarketingDefaultValue cmd \<noteq> None \<or> cc_ValuationFlag cmd \<noteq> [] \<or> cc_MarketingFlag cmd \<noteq> []"

definition applyCreateMarketingInputs :: "'f create_command \<Rightarrow> 'f group_head \<Rightarrow> rm_error + 'f group_head" where
  "applyCreateMarketingInputs cmd h =
     (if \<not> hasV2CreateMarketingPatch cmd then Inr h
      else
        tryRM (ParseValuationFlag (cc_ValuationFlag cmd)) (\<lambda>valFlag.
        tryRM (ParseMarketingFlag (cc_MarketingFlag cmd)) (\<lambda>mktFlag.
          AttachMarketingInputs
            \<lparr>mi_FreightRate = cc_MarketingFreightRate cmd, mi_AntiDumpingPct = cc_MarketingAntiDumpingPct cmd,
             mi_DefaultValue = cc_MarketingDefaultValue cmd, mi_ValuationFlag = valFlag, mi_MarketingFlag = mktFlag\<rparr> h)))"

definition ExistsHeadByCode :: "string \<Rightarrow> 'f rm_tables \<Rightarrow> bool" where
  "ExistsHeadByCode code db \<longleftrightarrow> list_ex (\<lambda>h. gh_Code h = code \<and> \<not> gh_Deleted h) (rt_Heads db)"

text \<open>
  The unique index \<^verbatim>\<open>uk_rm_group_head_code_active\<close> fails the insert. \<open>INSERT\<close> does not write \<open>updated_by\<close>.
\<close>

definition CreateHead :: "'f group_head \<Rightarrow> 'f rm_tables \<Rightarrow> rm_error + 'f rm_tables" where
  "CreateHead h db =
     (if ExistsHeadByCode (gh_Code h) db then Inl ErrRMCodeAlreadyExists
      else Inr (db
        \<lparr>rt_Heads := rt_Heads db @ [h\<lparr>gh_Marketing := Head_MarketingInputs h, gh_UpdatedBy := None, gh_Deleted := False\<rparr>],
         rt_NextID := rt_NextID db + 1\<rparr>))"

definition CreateHandle ::
  "(rm_call \<Rightarrow> bool) \<Rightarrow> 'f create_command \<Rightarrow> 'f rm_tables
    \<Rightarrow> (rm_error + ('f::{zero,ord}) group_head) \<times> 'f rm_tables" where
  "CreateHandle lost cmd db =
     tryRead (NewCode (cc_Code cmd)) db (\<lambda>code.
     tryRead (guardCall lost CallExistsCode
         (if ExistsHeadByCode code db then Inl ErrRMCodeAlreadyExists else Inr ())) db (\<lambda>_.
     tryRead
       (tryRM (NewHead (rt_NextID db) code (cc_Name cmd) (cc_Description cmd) (cc_CostPercentage cmd)
                 (cc_CostPerKg cmd) (cc_CreatedBy cmd)) (\<lambda>h.
        tryRM (applyCreateOptionalText cmd h) (\<lambda>h.
        tryRM (applyCreateMarketingInputs cmd h) (\<lambda>h.
          applyDenierPatch (cc_Denier cmd)
            (h\<lparr>gh_IsOilGroup := cc_IsOilGroup cmd, gh_DenierUseDraft := cc_DenierUseDraft cmd\<rparr>))))) db (\<lambda>h.
     tryWrite lost CallCreateHead (CreateHead h db) db (\<lambda>db. (Inr h, db)))))"

section \<open>Adding items\<close>

record 'f add_item =
  ai_ItemCode :: string
  ai_ItemName :: string
  ai_ItemTypeCode :: string
  ai_GradeCode :: string
  ai_ItemGrade :: string
  ai_UOMCode :: string
  ai_MarketPercentage :: "'f option"
  ai_MarketValueRp :: "'f option"
  ai_SortOrder :: int
  ai_Valuation :: "'f valuation_inputs"

record 'f add_items_command =
  ac_HeadID :: "nat option"
  ac_CreatedBy :: string
  ac_Items :: "'f add_item list"

datatype skip_reason = SkipInvalid rm_error | SkipOtherGroup | SkipThisGroup

record skipped_item =
  sk_ItemCode :: string
  sk_Reason :: skip_reason
  sk_OwningGroupID :: "nat option"
  sk_OwningDetailID :: "nat option"

record 'f add_items_result =
  ar_HeadID :: nat
  ar_Added :: "'f group_detail list"
  ar_Skipped :: "skipped_item list"

definition noValuation :: "'f valuation_inputs" where
  "noValuation =
     \<lparr>va_FreightRate = None, va_AntiDumpingPct = None, va_DutyPct = None, va_TransportRate = None, va_DefaultValue = None\<rparr>"

definition NewDetail :: "nat \<Rightarrow> nat \<Rightarrow> string \<Rightarrow> string \<Rightarrow> rm_error + 'f group_detail" where
  "NewDetail newID headID itemCode createdBy =
     (if itemCode = [] then Inl ErrRMEmptyItemCode
      else if createdBy = [] then Inl ErrRMEmptyCreatedBy
      else Inr
        \<lparr>gd_ID = newID, gd_HeadID = headID, gd_ItemCode = itemCode, gd_ItemName = [], gd_ItemTypeCode = [],
         gd_GradeCode = [], gd_ItemGrade = [], gd_UOMCode = [], gd_MarketPercentage = None, gd_MarketValueRp = None,
         gd_SortOrder = 0, gd_IsActive = True, gd_IsDummy = False, gd_Valuation = noValuation,
         gd_CreatedBy = createdBy, gd_UpdatedBy = None, gd_Deleted = False\<rparr>)"

definition needsBackfill :: "'f group_detail \<Rightarrow> bool" where
  "needsBackfill d \<longleftrightarrow> gd_ItemName d = [] \<or> gd_GradeCode d = [] \<or> gd_UOMCode d = []"

definition hasMetadata :: "'f add_item \<Rightarrow> bool" where
  "hasMetadata inp \<longleftrightarrow>
     ai_ItemName inp \<noteq> [] \<or> ai_GradeCode inp \<noteq> [] \<or> ai_ItemGrade inp \<noteq> [] \<or> ai_UOMCode inp \<noteq> []"

definition buildDetailV1Update :: "'f add_item \<Rightarrow> 'f detail_update_input" where
  "buildDetailV1Update inp = emptyDetailUpdate
     \<lparr>du_ItemName := optText (ai_ItemName inp), du_ItemTypeCode := optText (ai_ItemTypeCode inp),
      du_GradeCode := optText (ai_GradeCode inp), du_ItemGrade := optText (ai_ItemGrade inp),
      du_UOMCode := optText (ai_UOMCode inp), du_MarketPercentage := ai_MarketPercentage inp,
      du_MarketValueRp := ai_MarketValueRp inp,
      du_SortOrder := (if 0 < ai_SortOrder inp then Some (ai_SortOrder inp) else None)\<rparr>"

definition hasV1DetailPatch :: "'f detail_update_input \<Rightarrow> bool" where
  "hasV1DetailPatch u \<longleftrightarrow>
     du_ItemName u \<noteq> None \<or> du_ItemTypeCode u \<noteq> None \<or> du_GradeCode u \<noteq> None \<or> du_ItemGrade u \<noteq> None \<or>
     du_UOMCode u \<noteq> None \<or> du_SortOrder u \<noteq> None \<or> du_MarketPercentage u \<noteq> None \<or> du_MarketValueRp u \<noteq> None"

definition hasV2ValuationPatch :: "'f add_item \<Rightarrow> bool" where
  "hasV2ValuationPatch inp \<longleftrightarrow>
     (let va = ai_Valuation inp
      in va_FreightRate va \<noteq> None \<or> va_AntiDumpingPct va \<noteq> None \<or> va_DutyPct va \<noteq> None \<or>
         va_TransportRate va \<noteq> None \<or> va_DefaultValue va \<noteq> None)"

definition applyItemMetadata ::
  "'f add_item \<Rightarrow> string \<Rightarrow> 'f group_detail \<Rightarrow> rm_error + ('f::{zero,ord}) group_detail" where
  "applyItemMetadata inp createdBy d =
     (let u = buildDetailV1Update inp
      in tryRM (if hasV1DetailPatch u then Detail_Update u createdBy d else Inr d) (\<lambda>d.
           if \<not> hasV2ValuationPatch inp then Inr d else AttachValuationInputs (ai_Valuation inp) d))"

definition GetActiveDetailByItemCodeGrade :: "string \<Rightarrow> string \<Rightarrow> 'f rm_tables \<Rightarrow> 'f group_detail option" where
  "GetActiveDetailByItemCodeGrade itemCode gradeCode db =
     find (\<lambda>d. gd_ItemCode d = itemCode \<and> gd_GradeCode d = gradeCode \<and> gd_IsActive d \<and> \<not> gd_Deleted d) (rt_Details db)"

text \<open>The head is a foreign key; \<open>INSERT\<close> does not write \<open>updated_by\<close>.\<close>

definition AddDetail :: "'f group_detail \<Rightarrow> 'f rm_tables \<Rightarrow> rm_error + 'f rm_tables" where
  "AddDetail d db =
     (if \<not> list_ex (\<lambda>h. gh_ID h = gd_HeadID d) (rt_Heads db) then Inl RMQueryFailed
      else if itemTaken d db then Inl ErrRMItemInOtherGroup
      else Inr (db\<lparr>rt_Details := rt_Details db @ [d\<lparr>gd_UpdatedBy := None, gd_Deleted := False\<rparr>],
                   rt_NextID := rt_NextID db + 1\<rparr>))"

definition ownedItem :: "nat \<Rightarrow> 'f add_item \<Rightarrow> 'f group_detail \<Rightarrow> skipped_item" where
  "ownedItem headID inp d =
     \<lparr>sk_ItemCode = ai_ItemCode inp, sk_Reason = (if gd_HeadID d = headID then SkipThisGroup else SkipOtherGroup),
      sk_OwningGroupID = Some (gd_HeadID d), sk_OwningDetailID = Some (gd_ID d)\<rparr>"

text \<open>
  The item at position \<open>i\<close>: added (\<open>Inr\<close>) or skipped (\<open>Inl\<close>). An error of the patch of an owned item is
  dropped.
\<close>

definition processItem ::
  "(rm_call \<Rightarrow> bool) \<Rightarrow> nat \<Rightarrow> nat \<Rightarrow> string \<Rightarrow> 'f add_item \<Rightarrow> 'f rm_tables
    \<Rightarrow> (rm_error + (skipped_item + ('f::{zero,ord}) group_detail)) \<times> 'f rm_tables" where
  "processItem lost i headID createdBy inp db =
     (case NewItemCode (ai_ItemCode inp) of
        Inl e \<Rightarrow>
          (Inr (Inl \<lparr>sk_ItemCode = ai_ItemCode inp, sk_Reason = SkipInvalid e, sk_OwningGroupID = None, sk_OwningDetailID = None\<rparr>), db)
      | Inr itemCode \<Rightarrow>
          tryRead (guardCall lost (CallFindItem i) (Inr (GetActiveDetailByItemCodeGrade itemCode (ai_GradeCode inp) db))) db (\<lambda>existing.
          case existing of
            Some d \<Rightarrow>
              if gd_HeadID d = headID \<and> needsBackfill d \<and> hasMetadata inp
              then (case applyItemMetadata inp createdBy d of
                      Inl _ \<Rightarrow> (Inr (Inl (ownedItem headID inp d)), db)
                    | Inr d' \<Rightarrow>
                        tryWrite lost (CallBackfill i) (UpdateDetail d' db) db (\<lambda>db. (Inr (Inl (ownedItem headID inp d)), db)))
              else (Inr (Inl (ownedItem headID inp d)), db)
          | None \<Rightarrow>
              tryRead (tryRM (NewDetail (rt_NextID db) headID itemCode createdBy) (applyItemMetadata inp createdBy)) db (\<lambda>d.
              tryWrite lost (CallAddDetail i) (AddDetail d db) db (\<lambda>db. (Inr (Inr d), db)))))"

fun processItems ::
  "(rm_call \<Rightarrow> bool) \<Rightarrow> nat \<Rightarrow> nat \<Rightarrow> string \<Rightarrow> 'f add_item list \<Rightarrow> 'f add_items_result \<Rightarrow> 'f rm_tables
    \<Rightarrow> (rm_error + ('f::{zero,ord}) add_items_result) \<times> 'f rm_tables" where
  "processItems lost i headID createdBy [] res db = (Inr res, db)"
| "processItems lost i headID createdBy (inp # rest) res db =
     (case processItem lost i headID createdBy inp db of
        (Inl e, db') \<Rightarrow> (Inl e, db')
      | (Inr (Inl s), db') \<Rightarrow> processItems lost (i + 1) headID createdBy rest (res\<lparr>ar_Skipped := ar_Skipped res @ [s]\<rparr>) db'
      | (Inr (Inr d), db') \<Rightarrow> processItems lost (i + 1) headID createdBy rest (res\<lparr>ar_Added := ar_Added res @ [d]\<rparr>) db')"

definition parseHeadID :: "nat option \<Rightarrow> rm_error + nat" where
  "parseHeadID raw = orError ErrRMNotFound raw"

definition AddItemsHandle ::
  "(rm_call \<Rightarrow> bool) \<Rightarrow> 'f add_items_command \<Rightarrow> 'f rm_tables
    \<Rightarrow> (rm_error + ('f::{zero,ord}) add_items_result) \<times> 'f rm_tables" where
  "AddItemsHandle lost cmd db =
     (if ac_CreatedBy cmd = [] then (Inl ErrRMEmptyCreatedBy, db)
      else
        tryRead (parseHeadID (ac_HeadID cmd)) db (\<lambda>headID.
        tryRead (guardCall lost CallGetHead (GetHeadByID headID db)) db (\<lambda>h.
        if gh_Deleted h then (Inl ErrRMAlreadyDeleted, db)
        else processItems lost 0 headID (ac_CreatedBy cmd) (ac_Items cmd)
               \<lparr>ar_HeadID = headID, ar_Added = [], ar_Skipped = []\<rparr> db)))"

section \<open>Removing items\<close>

definition RemoveModeDeactivate :: string where "RemoveModeDeactivate = ''deactivate''"

definition RemoveModeSoftDelete :: string where "RemoveModeSoftDelete = ''soft_delete''"

record remove_items_command =
  rv_HeadID :: "nat option"
  rv_DetailIDs :: "nat option list"
  rv_Mode :: string
  rv_RemovedBy :: string

record remove_items_result =
  rr_HeadID :: nat
  rr_Removed :: "nat list"
  rr_NotFound :: "nat list"

fun parseDetailIDs :: "nat option list \<Rightarrow> rm_error + nat list" where
  "parseDetailIDs [] = Inr []"
| "parseDetailIDs (raw # rest) =
     tryRM (orError RMInvalidDetailID raw) (\<lambda>detailID. tryRM (parseDetailIDs rest) (\<lambda>ids. Inr (detailID # ids)))"

definition Deactivate :: "string \<Rightarrow> 'f group_detail \<Rightarrow> rm_error + 'f group_detail" where
  "Deactivate updatedBy d =
     (if gd_Deleted d then Inl ErrRMAlreadyDeleted
      else if updatedBy = [] then Inl ErrRMEmptyUpdatedBy
      else Inr (d\<lparr>gd_IsActive := False, gd_UpdatedBy := Some updatedBy\<rparr>))"

definition SoftDeleteDetail :: "nat \<Rightarrow> 'f rm_tables \<Rightarrow> rm_error + 'f rm_tables" where
  "SoftDeleteDetail detailID db =
     (let hit = (\<lambda>r. gd_ID r = detailID \<and> \<not> gd_Deleted r)
      in if \<not> list_ex hit (rt_Details db) then Inl ErrRMDetailNotFound
         else Inr (db\<lparr>rt_Details :=
                map (\<lambda>r. if hit r then r\<lparr>gd_IsActive := False, gd_Deleted := True\<rparr> else r) (rt_Details db)\<rparr>))"

definition removeOne ::
  "(rm_call \<Rightarrow> bool) \<Rightarrow> nat \<Rightarrow> nat \<Rightarrow> nat \<Rightarrow> string \<Rightarrow> string \<Rightarrow> remove_items_result \<Rightarrow> 'f rm_tables
    \<Rightarrow> (rm_error + remove_items_result) \<times> 'f rm_tables" where
  "removeOne lost i headID detailID mode removedBy res db =
     (case guardCall lost (CallGetMember i) (GetDetailByID detailID db) of
        Inl e \<Rightarrow>
          if e = ErrRMDetailNotFound then (Inr (res\<lparr>rr_NotFound := rr_NotFound res @ [detailID]\<rparr>), db) else (Inl e, db)
      | Inr d \<Rightarrow>
          if gd_HeadID d \<noteq> headID then (Inl RMWrongHead, db)
          else
            tryRead (if mode = RemoveModeDeactivate then Deactivate removedBy d else Inr d) db (\<lambda>d.
            tryWrite lost (CallRemoveMember i)
              (if mode = RemoveModeDeactivate then UpdateDetail d db else SoftDeleteDetail detailID db) db (\<lambda>db.
              (Inr (res\<lparr>rr_Removed := rr_Removed res @ [detailID]\<rparr>), db))))"

fun removeEach ::
  "(rm_call \<Rightarrow> bool) \<Rightarrow> nat \<Rightarrow> nat \<Rightarrow> nat list \<Rightarrow> string \<Rightarrow> string \<Rightarrow> remove_items_result \<Rightarrow> 'f rm_tables
    \<Rightarrow> (rm_error + remove_items_result) \<times> 'f rm_tables" where
  "removeEach lost i headID [] mode removedBy res db = (Inr res, db)"
| "removeEach lost i headID (detailID # rest) mode removedBy res db =
     (case removeOne lost i headID detailID mode removedBy res db of
        (Inl e, db') \<Rightarrow> (Inl e, db')
      | (Inr res', db') \<Rightarrow> removeEach lost (i + 1) headID rest mode removedBy res' db')"

definition RemoveItemsHandle ::
  "(rm_call \<Rightarrow> bool) \<Rightarrow> remove_items_command \<Rightarrow> 'f rm_tables \<Rightarrow> (rm_error + remove_items_result) \<times> 'f rm_tables" where
  "RemoveItemsHandle lost cmd db =
     (let mode = (if rv_Mode cmd = [] then RemoveModeSoftDelete else rv_Mode cmd)
      in if rv_RemovedBy cmd = [] then (Inl ErrRMEmptyUpdatedBy, db)
         else if mode \<noteq> RemoveModeDeactivate \<and> mode \<noteq> RemoveModeSoftDelete then (Inl RMInvalidRemoveMode, db)
         else
           tryRead (parseHeadID (rv_HeadID cmd)) db (\<lambda>headID.
           tryRead (guardCall lost CallGetHead (GetHeadByID headID db)) db (\<lambda>_.
           tryRead (parseDetailIDs (rv_DetailIDs cmd)) db (\<lambda>detailIDs.
             removeEach lost 0 headID detailIDs mode (rv_RemovedBy cmd)
               \<lparr>rr_HeadID = headID, rr_Removed = [], rr_NotFound = []\<rparr> db))))"

section \<open>Deleting a group\<close>

record delete_command =
  dl_HeadID :: "nat option"
  dl_DeletedBy :: string

definition ExistsHeadByID :: "nat \<Rightarrow> 'f rm_tables \<Rightarrow> bool" where
  "ExistsHeadByID headID db \<longleftrightarrow> list_ex (\<lambda>h. gh_ID h = headID \<and> \<not> gh_Deleted h) (rt_Heads db)"

definition ExistsForGroupHead :: "nat \<Rightarrow> 'f rm_tables \<Rightarrow> bool" where
  "ExistsForGroupHead headID db \<longleftrightarrow> list_ex (\<lambda>r. rc_GroupHeadID (row_Cost r) = headID) (rt_Costs db)"

definition SoftDeleteHead :: "nat \<Rightarrow> 'f rm_tables \<Rightarrow> rm_error + 'f rm_tables" where
  "SoftDeleteHead headID db =
     (if \<not> ExistsHeadByID headID db then Inl ErrRMNotFound
      else Inr (db
        \<lparr>rt_Heads := map (\<lambda>h. if gh_ID h = headID \<and> \<not> gh_Deleted h
           then h\<lparr>gh_IsActive := False, gh_Deleted := True\<rparr> else h) (rt_Heads db),
         rt_Details := map (\<lambda>d. if gd_HeadID d = headID \<and> \<not> gd_Deleted d
           then d\<lparr>gd_IsActive := False, gd_Deleted := True\<rparr> else d) (rt_Details db)\<rparr>))"

text \<open>The handler as the server builds it, with a checker of costs.\<close>

definition DeleteHandle ::
  "(rm_call \<Rightarrow> bool) \<Rightarrow> (nat \<Rightarrow> bool) \<Rightarrow> delete_command \<Rightarrow> 'f rm_tables \<Rightarrow> (rm_error + unit) \<times> 'f rm_tables" where
  "DeleteHandle lost inUse cmd db =
     (if dl_DeletedBy cmd = [] then (Inl ErrRMEmptyUpdatedBy, db)
      else
        tryRead (parseHeadID (dl_HeadID cmd)) db (\<lambda>headID.
        tryRead (guardCall lost CallExistsHead (if ExistsHeadByID headID db then Inr () else Inl ErrRMNotFound)) db (\<lambda>_.
        tryRead (guardCall lost CallExistsCost (if ExistsForGroupHead headID db then Inl ErrRMGroupHasCostData else Inr ())) db (\<lambda>_.
        tryRead (guardCall lost CallOilInUse (if inUse headID then Inl ErrRMOilGroupInUse else Inr ())) db (\<lambda>_.
        tryWrite lost CallSoftDeleteHead (SoftDeleteHead headID db) db (\<lambda>db. (Inr (), db)))))))"

section \<open>Sequences of actions\<close>

text \<open>One run of a handler, with the calls it loses. The handlers are run one after the other.\<close>

datatype 'f rm_action =
  CreateGroup "rm_call \<Rightarrow> bool" "'f create_command"
| AddItems "rm_call \<Rightarrow> bool" "'f add_items_command"
| RemoveItems "rm_call \<Rightarrow> bool" remove_items_command
| DeleteGroup "rm_call \<Rightarrow> bool" "nat \<Rightarrow> bool" delete_command
| EditHead "rm_call \<Rightarrow> bool" "nat \<Rightarrow> bool" "'f update_command"
| EditItem "rm_call \<Rightarrow> bool" "'f item_command"
| Calculate "rm_call \<Rightarrow> bool" "'f sync_row list" nat string string string
| EditInputs "rm_call \<Rightarrow> bool" "'f edit_inputs_command"
| EditFixRate "rm_call \<Rightarrow> bool" "'f edit_fix_rate_command"

primrec rmRun :: "'f rm_action \<Rightarrow> 'f rm_tables \<Rightarrow> ('f::{zero,one,plus,times,inverse,ord}) rm_tables" where
  "rmRun (CreateGroup lost cmd) db = snd (CreateHandle lost cmd db)"
| "rmRun (AddItems lost cmd) db = snd (AddItemsHandle lost cmd db)"
| "rmRun (RemoveItems lost cmd) db = snd (RemoveItemsHandle lost cmd db)"
| "rmRun (DeleteGroup lost inUse cmd) db = snd (DeleteHandle lost inUse cmd db)"
| "rmRun (EditHead lost inUse cmd) db = snd (UpdateHandle lost inUse cmd db)"
| "rmRun (EditItem lost cmd) db = snd (UpdateItemHandle lost cmd db)"
| "rmRun (Calculate lost sync headID period calculatedBy reason) db =
     snd (HandleOneGroup lost sync headID period calculatedBy reason db)"
| "rmRun (EditInputs lost cmd) db = snd (EditInputsHandle lost cmd db)"
| "rmRun (EditFixRate lost cmd) db = snd (EditFixRateHandle lost cmd db)"

end
