(* ===== verification/RMLaws.thy ===== *)
theory RMLaws
  imports RMMembers
begin

text \<open>
  Laws of the tables of the raw material groups. A relation on the tables that every statement respects is
  respected by every run of a handler, whatever calls it loses, and by every sequence of runs.
\<close>

section \<open>Rows under a key\<close>

lemma find_upsert_other:
  assumes "\<not> P new" "\<And>r. Q r \<Longrightarrow> \<not> P r" "\<And>r. Q r \<Longrightarrow> \<not> P (conflict r)"
  shows "find P (upsertRow Q new conflict rows) = find P rows"
proof -
  have "find P (map (\<lambda>r. if Q r then conflict r else r) rows) = find P rows"
    by (induction rows) (use assms in auto)
  moreover have "find P (rows @ [new]) = find P rows"
    by (induction rows) (use assms(1) in auto)
  ultimately show ?thesis by (simp add: upsertRow_def)
qed

lemma find_upsert_same:
  assumes "P new" "\<And>r. P r \<Longrightarrow> P (conflict r)"
  shows "find P (upsertRow P new conflict rows) =
    Some (case find P rows of None \<Rightarrow> new | Some r \<Rightarrow> conflict r)"
proof (cases "list_ex P rows")
  case True
  then have "find P (map (\<lambda>r. if P r then conflict r else r) rows) = map_option conflict (find P rows)"
    by (induction rows) (use assms in auto)
  moreover from True have "find P rows \<noteq> None" by (auto simp: find_None_iff list_ex_iff)
  ultimately show ?thesis using True by (auto simp: upsertRow_def)
next
  case False
  then have "find P (rows @ [new]) = Some new" "find P rows = None"
    by (induction rows) (use assms(1) in \<open>auto split: if_splits\<close>)
  with False show ?thesis by (simp add: upsertRow_def)
qed

lemma find_insert_same:
  "P new \<Longrightarrow> find P (upsertRow P new id rows) = Some (case find P rows of None \<Rightarrow> new | Some r \<Rightarrow> r)"
  using find_upsert_same [of P new id rows] by (auto split: option.splits)

lemma own_period [simp]:
  "isHeadPeriod (hs_GroupHeadID s) (hs_Period s) s" "isDetailPeriod (ds_GroupDetailID t) (ds_Period t) t"
  by (simp_all add: isHeadPeriod_def isDetailPeriod_def)

section \<open>Runs of a handler\<close>

text \<open>What a handler leaves: whatever holds of the tables at each point where it may stop.\<close>

lemma tryRead_keep: "P db \<Longrightarrow> (\<And>v. r = Inr v \<Longrightarrow> P (snd (k v))) \<Longrightarrow> P (snd (tryRead r db k))"
  by (cases r) (simp_all add: tryRead_def)

lemma tryWrite_keep:
  "P db \<Longrightarrow> (\<And>db'. r = Inr db' \<Longrightarrow> P (snd (k db'))) \<Longrightarrow> P (snd (tryWrite lost c r db k))"
  by (cases r) (simp_all add: tryWrite_def guardCall_def)

lemma tryRead_Inr: "tryRead r db k = (Inr v, db') \<longleftrightarrow> (\<exists>u. r = Inr u \<and> k u = (Inr v, db'))"
  by (cases r) (simp_all add: tryRead_def)

lemma tryWrite_Inr:
  "tryWrite lost c r db k = (Inr v, db') \<longleftrightarrow> (\<exists>u. \<not> lost c \<and> r = Inr u \<and> k u = (Inr v, db'))"
  by (cases r) (simp_all add: tryWrite_def guardCall_def)

lemma result_Inr:
  "(case z of (Inl e, db') \<Rightarrow> (Inl e, db') | (Inr u, db') \<Rightarrow> (Inr w, db')) = (Inr v, d) \<longleftrightarrow>
    w = v \<and> (\<exists>u. z = (Inr u, d))"
  by (auto split: prod.splits sum.splits)

lemma guardCall_Inr: "guardCall lost c r = Inr v \<longleftrightarrow> \<not> lost c \<and> r = Inr v"
  by (simp add: guardCall_def)

lemma orError_Inr: "orError e x = Inr v \<longleftrightarrow> x = Some v"
  by (simp add: orError_def split: option.splits)

lemma latestBy_mem: "latestBy f xs = Some x \<Longrightarrow> x \<in> set xs"
  by (induction xs arbitrary: x) (auto split: option.splits if_splits)

lemma ResolveHeadSnapshot_key:
  "hs_GroupHeadID (fst (ResolveHeadSnapshot db h period)) = gh_ID h"
  "hs_Period (fst (ResolveHeadSnapshot db h period)) = period"
proof -
  show "hs_GroupHeadID (fst (ResolveHeadSnapshot db h period)) = gh_ID h"
    by (auto simp: ResolveHeadSnapshot_def GetHeadPeriodSnapshot_def GetLatestHeadPeriodSnapshotBefore_def
        isHeadPeriod_def NewHeadPeriodSnapshotFromHead_def Head_CarryForwardTo_def
        dest!: find_SomeD latestBy_mem split: option.splits)
  show "hs_Period (fst (ResolveHeadSnapshot db h period)) = period"
    by (auto simp: ResolveHeadSnapshot_def GetHeadPeriodSnapshot_def isHeadPeriod_def
        NewHeadPeriodSnapshotFromHead_def Head_CarryForwardTo_def dest!: find_SomeD split: option.splits)
qed

lemma ResolveDetailSnapshot_key:
  "ds_GroupDetailID (fst (ResolveDetailSnapshot db headID period d)) = gd_ID d"
  "ds_Period (fst (ResolveDetailSnapshot db headID period d)) = period"
proof -
  show "ds_GroupDetailID (fst (ResolveDetailSnapshot db headID period d)) = gd_ID d"
    by (auto simp: ResolveDetailSnapshot_def GetDetailPeriodSnapshot_def GetLatestDetailPeriodSnapshotsBefore_def
        isDetailPeriod_def NewDetailPeriodSnapshotFromDetail_def Detail_CarryForwardTo_def
        dest!: find_SomeD latestBy_mem split: option.splits if_splits)
  show "ds_Period (fst (ResolveDetailSnapshot db headID period d)) = period"
    by (auto simp: ResolveDetailSnapshot_def GetDetailPeriodSnapshot_def isDetailPeriod_def
        NewDetailPeriodSnapshotFromDetail_def Detail_CarryForwardTo_def dest!: find_SomeD split: option.splits)
qed

lemma applyHeadSnapshotPatch_key:
  assumes "applyHeadSnapshotPatch cmd s = Inr s'"
  shows "hs_GroupHeadID s' = hs_GroupHeadID s" "hs_Period s' = hs_Period s"
  using assms
  by (auto simp: applyHeadSnapshotPatch_def applySnapshotMarketingPatch_def Let_def tryRM_Inr split: if_splits)

lemma applyDetailSnapshotPatch_key:
  assumes "applyDetailSnapshotPatch cmd s = Inr s'"
  shows "ds_GroupDetailID s' = ds_GroupDetailID s" "ds_Period s' = ds_Period s"
  using assms by (auto simp: applyDetailSnapshotPatch_def Let_def split: if_splits)

lemma GetHeadByID_id: "GetHeadByID headID db = Inr h \<Longrightarrow> gh_ID h = headID"
  by (auto simp: GetHeadByID_def orError_Inr dest!: find_SomeD)

lemma GetDetailByID_id: "GetDetailByID detailID db = Inr d \<Longrightarrow> gd_ID d = detailID"
  by (auto simp: GetDetailByID_def orError_Inr dest!: find_SomeD)

section \<open>Where a written row comes from\<close>

lemma GetHeadByID_live: "GetHeadByID headID db = Inr h \<Longrightarrow> ExistsHeadByID headID db"
  by (auto simp: GetHeadByID_def ExistsHeadByID_def orError_Inr list_ex_iff dest!: find_SomeD)

lemma OverlayHeadFromSnapshot_id: "OverlayHeadFromSnapshot h s = Inr h' \<Longrightarrow> gh_ID h' = gh_ID h"
  by (auto simp: OverlayHeadFromSnapshot_def AttachMarketingInputs_def SetDenier_def tryRM_Inr
      split: if_splits option.splits)

lemma loaded_head:
  assumes "loadHeadAndDetails lost headID period db = Inr (h, details, fz)"
  shows "gh_ID h = headID" "ExistsHeadByID headID db"
  using assms
  by (auto simp: loadHeadAndDetails_def tryRM_Inr guardCall_Inr GetHeadByID_live GetHeadByID_id
      dest!: OverlayHeadFromSnapshot_id)

lemma costToEntity_head: "rc_GroupHeadID (costToEntity r) = rc_GroupHeadID (row_Cost r)"
  by (simp add: costToEntity_def AttachV2_def)

lemma built_cost_head:
  assumes "buildOrApplyCost newID (GetByPeriodAndCode period code db) h p uomCode tot proj hv2 cmp by = Inr c"
  shows "rc_GroupHeadID c = gh_ID h \<or> ExistsForGroupHead (rc_GroupHeadID c) db"
proof (cases "GetByPeriodAndCode period code db")
  case None
  with assms show ?thesis
    by (auto simp: buildOrApplyCost_def NewGroupCost_def AttachV2_def tryRM_Inr split: sum.splits if_splits)
next
  case (Some c0)
  then have "ExistsForGroupHead (rc_GroupHeadID c0) db"
    by (auto simp: GetByPeriodAndCode_def ExistsForGroupHead_def costToEntity_head list_ex_iff dest!: find_SomeD)
  moreover from assms Some have "rc_GroupHeadID c = rc_GroupHeadID c0"
    by (auto simp: buildOrApplyCost_def ApplyComputed_def AttachV2_def tryRM_Inr split: if_splits)
  ultimately show ?thesis by simp
qed

lemma head_steps:
  "NewHead newID code name description pct kg by = Inr h \<Longrightarrow> gh_ID h = newID \<and> gh_Code h = code"
  "applyCreateOptionalText cmd h = Inr h' \<Longrightarrow> gh_ID h' = gh_ID h \<and> gh_Code h' = gh_Code h"
  "applyCreateMarketingInputs cmd h = Inr h' \<Longrightarrow> gh_ID h' = gh_ID h \<and> gh_Code h' = gh_Code h"
  "applyDenierPatch denier h = Inr h' \<Longrightarrow> gh_ID h' = gh_ID h \<and> gh_Code h' = gh_Code h"
  by (auto simp: NewHead_def split: if_splits)
    (auto simp: tryRM_Inr applyCreateOptionalText_def Head_Update_def applyCreateMarketingInputs_def
      AttachMarketingInputs_def applyDenierPatch_def SetDenier_def split: if_splits option.splits)

lemma created_head_id:
  assumes "tryRM (NewHead newID code name description pct kg by) (\<lambda>h.
      tryRM (applyCreateOptionalText cmd h) (\<lambda>h. tryRM (applyCreateMarketingInputs cmd h) (\<lambda>h.
      applyDenierPatch denier (h\<lparr>gh_IsOilGroup := oil, gh_DenierUseDraft := draft\<rparr>)))) = Inr h"
  shows "gh_ID h = newID" "gh_Code h = code"
  using assms by (auto simp: tryRM_Inr dest!: head_steps)

lemma Detail_Update_keeps:
  assumes "Detail_Update u by d = Inr d'"
  shows "gd_ID d' = gd_ID d" "gd_HeadID d' = gd_HeadID d" "gd_ItemCode d' = gd_ItemCode d"
    "gd_Deleted d' = gd_Deleted d" "gd_GradeCode d' = orKeep (du_GradeCode u) (gd_GradeCode d)"
    "gd_IsActive d' = orKeep (du_IsActive u) (gd_IsActive d)" "gd_ItemName d' = orKeep (du_ItemName u) (gd_ItemName d)"
    "gd_Valuation d' = gd_Valuation d"
  using assms
  by (auto simp: Detail_Update_def applyDetailMarketFields_def tryRM_Inr applyDetailTextFields_def
      applyDetailFlagFields_def split: if_splits)

lemma AttachValuationInputs_keeps:
  assumes "AttachValuationInputs va d = Inr d'"
  shows "d' = d\<lparr>gd_Valuation := va\<rparr>"
  using assms by (simp add: AttachValuationInputs_def split: if_splits)

lemma buildDetailV1Update_simps [simp]:
  "du_GradeCode (buildDetailV1Update inp) = optText (ai_GradeCode inp)"
  "du_ItemName (buildDetailV1Update inp) = optText (ai_ItemName inp)"
  "du_IsActive (buildDetailV1Update inp) = None"
  by (simp_all add: buildDetailV1Update_def emptyDetailUpdate_def)

lemma orKeep_optText [simp]: "orKeep (optText s) t = (if s = [] then t else s)"
  by (simp add: orKeep_def optText_def)

lemma hasV1_fields: "\<not> hasV1DetailPatch u \<Longrightarrow> du_GradeCode u = None \<and> du_ItemName u = None"
  by (simp add: hasV1DetailPatch_def)

lemma applyItemMetadata_keeps:
  assumes "applyItemMetadata inp by d = Inr d'"
  shows "gd_ID d' = gd_ID d" "gd_HeadID d' = gd_HeadID d" "gd_ItemCode d' = gd_ItemCode d"
    "gd_IsActive d' = gd_IsActive d" "gd_Deleted d' = gd_Deleted d"
    "gd_GradeCode d' = (if ai_GradeCode inp = [] then gd_GradeCode d else ai_GradeCode inp)"
    "gd_ItemName d' = (if ai_ItemName inp = [] then gd_ItemName d else ai_ItemName inp)"
    "gd_Valuation d' = (if hasV2ValuationPatch inp then ai_Valuation inp else gd_Valuation d)"
proof -
  from assms obtain e where e: "(if hasV1DetailPatch (buildDetailV1Update inp)
      then Detail_Update (buildDetailV1Update inp) by d else Inr d) = Inr e"
    "(if \<not> hasV2ValuationPatch inp then Inr e else AttachValuationInputs (ai_Valuation inp) e) = Inr d'"
    unfolding applyItemMetadata_def Let_def by (auto simp: tryRM_Inr)
  have d': "d' = (if hasV2ValuationPatch inp then e\<lparr>gd_Valuation := ai_Valuation inp\<rparr> else e)"
    using e(2) by (auto dest: AttachValuationInputs_keeps split: if_splits)
  have "gd_ID e = gd_ID d \<and> gd_HeadID e = gd_HeadID d \<and> gd_ItemCode e = gd_ItemCode d \<and>
    gd_IsActive e = gd_IsActive d \<and> gd_Deleted e = gd_Deleted d \<and> gd_Valuation e = gd_Valuation d \<and>
    gd_GradeCode e = (if ai_GradeCode inp = [] then gd_GradeCode d else ai_GradeCode inp) \<and>
    gd_ItemName e = (if ai_ItemName inp = [] then gd_ItemName d else ai_ItemName inp)"
  proof (cases "hasV1DetailPatch (buildDetailV1Update inp)")
    case True
    with e(1) have "Detail_Update (buildDetailV1Update inp) by d = Inr e" by simp
    then show ?thesis by (simp add: Detail_Update_keeps)
  next
    case False
    with e(1) have "e = d" by simp
    with hasV1_fields [OF False] show ?thesis by (simp add: optText_def split: if_splits)
  qed
  then show "gd_ID d' = gd_ID d" "gd_HeadID d' = gd_HeadID d" "gd_ItemCode d' = gd_ItemCode d"
    "gd_IsActive d' = gd_IsActive d" "gd_Deleted d' = gd_Deleted d"
    "gd_GradeCode d' = (if ai_GradeCode inp = [] then gd_GradeCode d else ai_GradeCode inp)"
    "gd_ItemName d' = (if ai_ItemName inp = [] then gd_ItemName d else ai_ItemName inp)"
    "gd_Valuation d' = (if hasV2ValuationPatch inp then ai_Valuation inp else gd_Valuation d)"
    by (simp_all add: d')
qed

lemma new_member:
  assumes "tryRM (NewDetail newID headID itemCode by) (applyItemMetadata inp by) = Inr d"
  shows "gd_ID d = newID" "gd_HeadID d = headID" "gd_ItemCode d = itemCode" "gd_GradeCode d = ai_GradeCode inp"
    "gd_IsActive d" "\<not> gd_Deleted d"
proof -
  from assms obtain e where e: "NewDetail newID headID itemCode by = Inr e" "applyItemMetadata inp by e = Inr d"
    by (auto simp: tryRM_Inr)
  from e(1) have "gd_ID e = newID \<and> gd_HeadID e = headID \<and> gd_ItemCode e = itemCode \<and> gd_GradeCode e = [] \<and>
      gd_IsActive e \<and> \<not> gd_Deleted e"
    by (auto simp: NewDetail_def split: if_splits)
  with applyItemMetadata_keeps [OF e(2)]
  show "gd_ID d = newID" "gd_HeadID d = headID" "gd_ItemCode d = itemCode" "gd_GradeCode d = ai_GradeCode inp"
    "gd_IsActive d" "\<not> gd_Deleted d" by simp_all
qed

section \<open>Laws of the tables\<close>

text \<open>\<open>H\<close> and \<open>D\<close> are the heads and items, with their periods, that may be edited.\<close>

primrec editsOnly :: "(nat \<Rightarrow> string \<Rightarrow> bool) \<Rightarrow> (nat \<Rightarrow> string \<Rightarrow> bool) \<Rightarrow> 'f rm_action \<Rightarrow> bool" where
  "editsOnly H D (CreateGroup lost cmd) = True"
| "editsOnly H D (AddItems lost cmd) = True"
| "editsOnly H D (RemoveItems lost cmd) = True"
| "editsOnly H D (DeleteGroup lost inUse cmd) = True"
| "editsOnly H D (EditHead lost inUse cmd) = H (uc_HeadID cmd) (uc_Period cmd)"
| "editsOnly H D (EditItem lost cmd) = D (ic_GroupDetailID cmd) (ic_Period cmd)"
| "editsOnly H D (Calculate lost sync headID period calculatedBy reason) = True"
| "editsOnly H D (EditInputs lost cmd) = True"
| "editsOnly H D (EditFixRate lost cmd) = True"

locale group_law =
  fixes R :: "('f::{zero,one,plus,times,inverse,ord}) rm_tables \<Rightarrow> 'f rm_tables \<Rightarrow> bool"
    and H :: "nat \<Rightarrow> string \<Rightarrow> bool" and D :: "nat \<Rightarrow> string \<Rightarrow> bool"
  assumes trans: "R db db1 \<Longrightarrow> R db1 db2 \<Longrightarrow> R db db2"
    and same: "rt_Heads db' = rt_Heads db \<Longrightarrow> rt_Details db' = rt_Details db \<Longrightarrow>
      rt_HeadPeriods db' = rt_HeadPeriods db \<Longrightarrow> rt_DetailPeriods db' = rt_DetailPeriods db \<Longrightarrow>
      rt_Costs db' = rt_Costs db \<Longrightarrow> rt_NextID db \<le> rt_NextID db' \<Longrightarrow> R db db'"
    and upsert_head: "H (hs_GroupHeadID s) (hs_Period s) \<Longrightarrow> R db (UpsertHeadPeriod s db)"
    and upsert_detail: "D (ds_GroupDetailID t) (ds_Period t) \<Longrightarrow> R db (UpsertDetailPeriod t db)"
    and update_head: "UpdateHead h db = Inr db' \<Longrightarrow> R db db'"
    and update_detail: "UpdateDetail d db = Inr db' \<Longrightarrow> R db db'"
    and create_head: "CreateHead h db = Inr db' \<Longrightarrow> gh_ID h = rt_NextID db \<Longrightarrow> R db db'"
    and add_detail: "AddDetail d db = Inr db' \<Longrightarrow> gd_ID d = rt_NextID db \<Longrightarrow> ExistsHeadByID (gd_HeadID d) db \<Longrightarrow> R db db'"
    and delete_detail: "SoftDeleteDetail detailID db = Inr db' \<Longrightarrow> R db db'"
    and delete_head: "SoftDeleteHead headID db = Inr db' \<Longrightarrow> \<not> ExistsForGroupHead headID db \<Longrightarrow> R db db'"
begin

lemma refl: "R db db"
  by (rule same) simp_all

lemma runs:
  "R db0 db \<Longrightarrow> (\<And>v. r = Inr v \<Longrightarrow> R db0 (snd (k v))) \<Longrightarrow> R db0 (snd (tryRead r db k))"
  "R db0 db \<Longrightarrow> (\<And>db'. q = Inr db' \<Longrightarrow> R db0 (snd (k' db'))) \<Longrightarrow> R db0 (snd (tryWrite lost c q db k'))"
  "(b \<Longrightarrow> R db0 (snd x)) \<Longrightarrow> (\<not> b \<Longrightarrow> R db0 (snd y)) \<Longrightarrow> R db0 (snd (if b then x else y))"
  "R db0 (snd z) \<Longrightarrow> R db0 (snd (case z of (Inl e, db') \<Rightarrow> (Inl e, db') | (Inr u, db') \<Rightarrow> (Inr w, db')))"
  by (auto intro: tryRead_keep tryWrite_keep split: prod.splits sum.splits)

lemma anchor_head:
  "R db (snd (writeThroughAnchor lost h cmd db))" "R db (snd (writeOilFlagOnly lost h cmd db))"
  unfolding writeThroughAnchor_def writeOilFlagOnly_def Let_def
  by (intro runs; simp add: refl update_head)+

lemma update_law:
  assumes "H (uc_HeadID cmd) (uc_Period cmd)"
  shows "R db (snd (UpdateHandle lost inUse cmd db))"
proof -
  have ups: "R db (UpsertHeadPeriod s db)"
    if "GetHeadByID (uc_HeadID cmd) db = Inr h"
      "applyHeadSnapshotPatch cmd (fst (ResolveHeadSnapshot db h (uc_Period cmd))) = Inr s" for h s
    using that assms
    by (intro upsert_head) (simp add: applyHeadSnapshotPatch_key ResolveHeadSnapshot_key GetHeadByID_id)
  show ?thesis
    unfolding UpdateHandle_def
    by (intro runs) (auto simp: guardCall_Inr intro: refl ups anchor_head trans [OF ups anchor_head(1)] trans [OF ups anchor_head(2)])
qed

lemma item_law:
  assumes "D (ic_GroupDetailID cmd) (ic_Period cmd)"
  shows "R db (snd (UpdateItemHandle lost cmd db))"
proof -
  have anchor: "R db (snd (writeThroughAnchorDetail lost d cmd db))" for d and db :: "'f rm_tables"
    unfolding writeThroughAnchorDetail_def by (intro runs) (simp_all add: refl update_detail)
  have ups: "R db (UpsertDetailPeriod s db)"
    if "GetDetailByID (ic_GroupDetailID cmd) db = Inr d"
      "applyDetailSnapshotPatch cmd (fst (ResolveDetailSnapshot db (gd_HeadID d) (ic_Period cmd) d)) = Inr s" for d s
    using that assms
    by (intro upsert_detail) (simp add: applyDetailSnapshotPatch_key ResolveDetailSnapshot_key GetDetailByID_id)
  show ?thesis
    unfolding UpdateItemHandle_def
    by (intro runs) (auto simp: guardCall_Inr intro: refl ups trans [OF ups anchor])
qed

lemma create_law: "R db (snd (CreateHandle lost ccmd db))"
  unfolding CreateHandle_def by (intro runs refl) (simp add: create_head created_head_id)

lemma process_item_law:
  assumes "ExistsHeadByID headID db"
  shows "R db (snd (processItem lost i headID createdBy inp db))"
    and "ExistsHeadByID headID (snd (processItem lost i headID createdBy inp db))"
proof -
  have add: "R db db'"
    if "tryRM (NewDetail (rt_NextID db) headID itemCode createdBy) (applyItemMetadata inp createdBy) = Inr d"
      "AddDetail d db = Inr db'" for itemCode d db'
    by (rule add_detail [OF that(2) new_member(1) [OF that(1)]]) (simp only: new_member(2) [OF that(1)] assms)
  show "R db (snd (processItem lost i headID createdBy inp db))"
    unfolding processItem_def
    by (auto simp: refl update_detail intro!: runs split: sum.splits option.splits) (rule add)
  have heads: "UpdateDetail d db = Inr db' \<Longrightarrow> ExistsHeadByID headID db'"
    "AddDetail d db = Inr db' \<Longrightarrow> ExistsHeadByID headID db'" for d db'
    using assms by (auto simp: UpdateDetail_def AddDetail_def ExistsHeadByID_def Let_def split: if_splits option.splits)
  show "ExistsHeadByID headID (snd (processItem lost i headID createdBy inp db))"
    unfolding processItem_def
    by (auto simp: assms heads
        intro!: tryRead_keep [where P = "ExistsHeadByID k" for k] tryWrite_keep [where P = "ExistsHeadByID k" for k]
        split: sum.splits option.splits) (use assms heads in simp_all)
qed

lemma process_items_law:
  "ExistsHeadByID headID db \<Longrightarrow> R db (snd (processItems lost i headID createdBy inps res db))"
proof (induction inps arbitrary: i res db)
  case (Cons inp inps)
  obtain r db1 where p: "processItem lost i headID createdBy inp db = (r, db1)" by fastforce
  from process_item_law [OF Cons.prems, of lost i createdBy inp] p
  have step: "R db db1" "ExistsHeadByID headID db1" by simp_all
  with p show ?case
    by (auto intro: trans [OF step(1)] Cons.IH split: sum.splits)
qed (simp add: refl)

lemma add_items_law: "R db (snd (AddItemsHandle lost acmd db))"
  unfolding AddItemsHandle_def
  by (intro runs refl) (auto simp: refl guardCall_Inr GetHeadByID_live intro: process_items_law)

lemma remove_one_law: "R db (snd (removeOne lost i headID mode removedBy detailID res db))"
  unfolding removeOne_def
  by (auto simp: refl intro!: runs intro: update_detail delete_detail split: sum.splits)

lemma remove_each_law: "R db (snd (removeEach lost i headID ids mode removedBy res db))"
proof (induction ids arbitrary: i res db)
  case (Cons detailID ids)
  obtain r db1 where p: "removeOne lost i headID detailID mode removedBy res db = (r, db1)" by fastforce
  have "R db db1" using remove_one_law [of db lost i headID detailID mode removedBy res] p by simp
  with p show ?case by (auto intro: trans Cons.IH split: sum.splits)
qed (simp add: refl)

lemma remove_items_law: "R db (snd (RemoveItemsHandle lost rcmd db))"
  unfolding RemoveItemsHandle_def Let_def by (intro runs) (simp_all add: refl remove_each_law)

lemma delete_law: "R db (snd (DeleteHandle lost inUse dcmd db))"
  unfolding DeleteHandle_def by (intro runs) (auto simp: refl guardCall_Inr intro: delete_head split: if_splits)

end

text \<open>With the statements of the calculation and of the edits of a cost.\<close>

locale table_law = group_law R H D
  for R :: "('f::{zero,one,plus,times,inverse,ord}) rm_tables \<Rightarrow> 'f rm_tables \<Rightarrow> bool"
    and H :: "nat \<Rightarrow> string \<Rightarrow> bool" and D :: "nat \<Rightarrow> string \<Rightarrow> bool" +
  assumes insert_head: "R db (InsertHeadPeriodIfAbsent s db)"
    and insert_detail: "R db (InsertDetailPeriodIfAbsent t db)"
    and upsert_cost: "ExistsHeadByID (rc_GroupHeadID c) db \<or> ExistsForGroupHead (rc_GroupHeadID c) db \<Longrightarrow>
      R db (RMCost_Upsert c hist (db\<lparr>rt_NextID := rt_NextID db + 1\<rparr>))"
    and update_inputs: "UpdateInputs costID i rates m v by db = Inr db' \<Longrightarrow> R db db'"
    and update_value: "UpdateFLAndCostVal costID x y by db = Inr db' \<Longrightarrow> R db db'"
begin

lemma freeze_details_law: "R db (snd (freezeDetails lost frozenBy fs db))"
proof (induction fs arbitrary: db)
  case (Cons f fs)
  obtain t i where f: "f = (t, i)" by (cases f)
  show ?case
  proof (cases "FrozenDetailCopy t i frozenBy")
    case None
    with f Cons.IH show ?thesis by simp
  next
    case (Some fr)
    have "R db (snd (tryWrite lost (CallFreezeDetail (ds_GroupDetailID t)) (Inr (InsertDetailPeriodIfAbsent fr db)) db
        (freezeDetails lost frozenBy fs)))"
      by (intro runs refl) (use trans [OF insert_detail Cons.IH] in simp)
    with f Some show ?thesis by simp
  qed
qed (simp add: refl)

lemma freeze_law: "R db (snd (freezeInheritedSnapshots lost f frozenBy db))"
proof (cases "FrozenHeadCopy (fst (pf_Head f)) (snd (pf_Head f)) frozenBy")
  case None
  then show ?thesis by (simp add: freezeInheritedSnapshots_def freeze_details_law)
next
  case (Some fr)
  have "R db (snd (tryWrite lost CallFreezeHead (Inr (InsertHeadPeriodIfAbsent fr db)) db
      (freezeDetails lost frozenBy (pf_Details f))))"
    by (intro runs refl) (use trans [OF insert_head freeze_details_law] in simp)
  with Some show ?thesis by (simp add: freezeInheritedSnapshots_def)
qed

lemma calculate_law: "R db (snd (HandleOneGroup lost sync headID period calculatedBy reason db))"
proof -
  have cost: "R db (RMCost_Upsert c hist (db\<lparr>rt_NextID := Suc (rt_NextID db)\<rparr>))"
    if "loadHeadAndDetails lost headID period db = Inr (h, details, fz)"
      "buildOrApplyCost newID (GetByPeriodAndCode p code db) h q uomCode tot proj hv2 cmp by = Inr c"
    for h details fz newID p code q uomCode tot proj hv2 cmp "by" c hist
    using built_cost_head [OF that(2)] loaded_head [OF that(1)] upsert_cost [of c db hist] by auto
  have details: "R db1 (UpsertAll costID ds (db1\<lparr>rt_NextID := rt_NextID db1 + n\<rparr>))" for costID ds n and db1 :: "'f rm_tables"
    by (rule same) (simp_all add: UpsertAll_def)
  note cf = trans [OF cost details]
  show ?thesis
    unfolding HandleOneGroup_def Let_def
    by (intro runs refl)
      (auto simp: guardCall_Inr split: prod.splits intro!: runs intro: refl cost cf trans [OF cf freeze_law])
qed

lemma edit_laws:
  "R db (snd (EditInputsHandle lost ecmd db))" "R db (snd (EditFixRateHandle lost fcmd db))"
proof -
  have snap: "UpdateSnapshot d db = Inr db2 \<Longrightarrow> R db db2" for d db2
    by (rule same) (auto simp: UpdateSnapshot_def Let_def split: if_splits)
  show "R db (snd (EditInputsHandle lost ecmd db))"
    unfolding EditInputsHandle_def Let_def by (intro runs) (auto intro: refl update_inputs)
  show "R db (snd (EditFixRateHandle lost fcmd db))"
    unfolding EditFixRateHandle_def Let_def by (intro runs) (auto intro: refl snap trans [OF snap update_value])
qed

lemma action_law: "editsOnly H D a \<Longrightarrow> R db (rmRun a db)"
  by (cases a)
    (auto intro: update_law item_law calculate_law edit_laws create_law add_items_law remove_items_law delete_law)

lemma actions_law: "\<forall>a \<in> set acts. editsOnly H D a \<Longrightarrow> R db (fold rmRun acts db)"
  by (induction acts arbitrary: db) (auto intro: refl trans [OF action_law])

end

section \<open>Laws of the period tables\<close>

text \<open>A relation that only the snapshots of the periods matter to.\<close>

locale period_law =
  fixes R :: "('f::{zero,one,plus,times,inverse,ord}) rm_tables \<Rightarrow> 'f rm_tables \<Rightarrow> bool"
    and H :: "nat \<Rightarrow> string \<Rightarrow> bool" and D :: "nat \<Rightarrow> string \<Rightarrow> bool"
  assumes trans: "R db db1 \<Longrightarrow> R db1 db2 \<Longrightarrow> R db db2"
    and other: "rt_HeadPeriods db' = rt_HeadPeriods db \<Longrightarrow> rt_DetailPeriods db' = rt_DetailPeriods db \<Longrightarrow> R db db'"
    and upsert_head: "H (hs_GroupHeadID s) (hs_Period s) \<Longrightarrow> R db (UpsertHeadPeriod s db)"
    and insert_head: "R db (InsertHeadPeriodIfAbsent s db)"
    and upsert_detail: "D (ds_GroupDetailID t) (ds_Period t) \<Longrightarrow> R db (UpsertDetailPeriod t db)"
    and insert_detail: "R db (InsertDetailPeriodIfAbsent t db)"

lemma statement_periods:
  "UpdateHead h db = Inr db' \<Longrightarrow> rt_HeadPeriods db' = rt_HeadPeriods db \<and> rt_DetailPeriods db' = rt_DetailPeriods db"
  "UpdateDetail d db = Inr db' \<Longrightarrow> rt_HeadPeriods db' = rt_HeadPeriods db \<and> rt_DetailPeriods db' = rt_DetailPeriods db"
  "CreateHead h db = Inr db' \<Longrightarrow> rt_HeadPeriods db' = rt_HeadPeriods db \<and> rt_DetailPeriods db' = rt_DetailPeriods db"
  "AddDetail d db = Inr db' \<Longrightarrow> rt_HeadPeriods db' = rt_HeadPeriods db \<and> rt_DetailPeriods db' = rt_DetailPeriods db"
  "SoftDeleteDetail detailID db = Inr db' \<Longrightarrow> rt_HeadPeriods db' = rt_HeadPeriods db \<and> rt_DetailPeriods db' = rt_DetailPeriods db"
  "SoftDeleteHead headID db = Inr db' \<Longrightarrow> rt_HeadPeriods db' = rt_HeadPeriods db \<and> rt_DetailPeriods db' = rt_DetailPeriods db"
  "UpdateInputs costID i rates m v by db = Inr db' \<Longrightarrow> rt_HeadPeriods db' = rt_HeadPeriods db \<and> rt_DetailPeriods db' = rt_DetailPeriods db"
  "UpdateFLAndCostVal costID x y by db = Inr db' \<Longrightarrow> rt_HeadPeriods db' = rt_HeadPeriods db \<and> rt_DetailPeriods db' = rt_DetailPeriods db"
  by (auto simp: UpdateHead_def UpdateDetail_def CreateHead_def AddDetail_def SoftDeleteDetail_def SoftDeleteHead_def
      UpdateInputs_def UpdateFLAndCostVal_def Let_def split: if_splits option.splits)

sublocale period_law \<subseteq> tables: table_law
  by unfold_locales
    (auto intro: trans other upsert_head insert_head upsert_detail insert_detail simp: RMCost_Upsert_def dest: statement_periods)

end
