(* ===== verification/RMFacts.thy ===== *)
theory RMFacts
  imports RMLaws
begin

text \<open>
  A calculated period keeps the configuration it was calculated with.
\<close>

section \<open>A calculated period is frozen\<close>

lemma find_head_other:
  assumes "\<not> (hs_GroupHeadID s = headID \<and> hs_Period s = period)"
    and "\<And>r. isHeadPeriod (hs_GroupHeadID s) (hs_Period s) r \<Longrightarrow> isHeadPeriod (hs_GroupHeadID s) (hs_Period s) (conflict r)"
  shows "find (isHeadPeriod headID period) (upsertRow (isHeadPeriod (hs_GroupHeadID s) (hs_Period s)) s conflict rows) =
    find (isHeadPeriod headID period) rows"
  by (rule find_upsert_other) (use assms in \<open>auto simp: isHeadPeriod_def\<close>)

lemma find_detail_other:
  assumes "\<not> (ds_GroupDetailID s = detailID \<and> ds_Period s = period)"
    and "\<And>r. isDetailPeriod (ds_GroupDetailID s) (ds_Period s) r \<Longrightarrow> isDetailPeriod (ds_GroupDetailID s) (ds_Period s) (conflict r)"
  shows "find (isDetailPeriod detailID period) (upsertRow (isDetailPeriod (ds_GroupDetailID s) (ds_Period s)) s conflict rows) =
    find (isDetailPeriod detailID period) rows"
  by (rule find_upsert_other) (use assms in \<open>auto simp: isDetailPeriod_def\<close>)

text \<open>The exact row of one head, or one item, in one period stays what it is while that period is not edited.\<close>

interpretation headRow: period_law
  "\<lambda>db db'. \<forall>s. GetHeadPeriodSnapshot headID period db = Some s \<longrightarrow> GetHeadPeriodSnapshot headID period db' = Some s"
  "\<lambda>h p. \<not> (h = headID \<and> p = period)" "\<lambda>_ _. True" for headID period
proof (unfold_locales, goal_cases)
  case (3 s db)
  then show ?case
    unfolding GetHeadPeriodSnapshot_def UpsertHeadPeriod_def by (auto simp: find_head_other isHeadPeriod_def)
next
  case (4 db s)
  show ?case
  proof (cases "hs_GroupHeadID s = headID \<and> hs_Period s = period")
    case True
    then show ?thesis
      by (auto simp: GetHeadPeriodSnapshot_def InsertHeadPeriodIfAbsent_def find_insert_same)
  next
    case False
    then show ?thesis
      by (simp add: GetHeadPeriodSnapshot_def InsertHeadPeriodIfAbsent_def find_head_other)
  qed
qed (auto simp: GetHeadPeriodSnapshot_def UpsertDetailPeriod_def InsertDetailPeriodIfAbsent_def)

interpretation detailRow: period_law
  "\<lambda>db db'. \<forall>s. GetDetailPeriodSnapshot detailID period db = Some s \<longrightarrow> GetDetailPeriodSnapshot detailID period db' = Some s"
  "\<lambda>_ _. True" "\<lambda>d p. \<not> (d = detailID \<and> p = period)" for detailID period
proof (unfold_locales, goal_cases)
  case (5 s db)
  then show ?case
    unfolding GetDetailPeriodSnapshot_def UpsertDetailPeriod_def by (auto simp: find_detail_other isDetailPeriod_def)
next
  case (6 db s)
  show ?case
  proof (cases "ds_GroupDetailID s = detailID \<and> ds_Period s = period")
    case True
    then show ?thesis
      by (auto simp: GetDetailPeriodSnapshot_def InsertDetailPeriodIfAbsent_def find_insert_same)
  next
    case False
    then show ?thesis
      by (simp add: GetDetailPeriodSnapshot_def InsertDetailPeriodIfAbsent_def find_detail_other)
  qed
qed (auto simp: GetDetailPeriodSnapshot_def UpsertHeadPeriod_def InsertHeadPeriodIfAbsent_def)

text \<open>What a calculation reads of a snapshot.\<close>

definition sameHeadConfig :: "'f head_snapshot \<Rightarrow> 'f head_snapshot \<Rightarrow> bool" where
  "sameHeadConfig s t \<longleftrightarrow> hs_Config s = hs_Config t \<and> hs_Marketing s = hs_Marketing t"

definition sameDetailConfig :: "'f detail_snapshot \<Rightarrow> 'f detail_snapshot \<Rightarrow> bool" where
  "sameDetailConfig s t \<longleftrightarrow>
     ds_MarketPercentage s = ds_MarketPercentage t \<and> ds_MarketValueRp s = ds_MarketValueRp t \<and>
     ds_SortOrder s = ds_SortOrder t \<and> ds_IsActive s = ds_IsActive t \<and> ds_IsDummy s = ds_IsDummy t \<and>
     ds_Valuation s = ds_Valuation t"

lemma frozen_copies:
  "FrozenHeadCopy s i by = Some s' \<Longrightarrow> sameHeadConfig s s' \<and> hs_GroupHeadID s' = hs_GroupHeadID s \<and> hs_Period s' = hs_Period s"
  "FrozenDetailCopy t i by = Some t' \<Longrightarrow>
    sameDetailConfig t t' \<and> ds_GroupDetailID t' = ds_GroupDetailID t \<and> ds_Period t' = ds_Period t"
  by (auto simp: FrozenHeadCopy_def FrozenDetailCopy_def sameHeadConfig_def sameDetailConfig_def split: if_splits)

lemma insert_detail_find:
  assumes "GetDetailPeriodSnapshot (ds_GroupDetailID s) (ds_Period s) db = None"
  shows "GetDetailPeriodSnapshot (ds_GroupDetailID s) (ds_Period s) (InsertDetailPeriodIfAbsent s db) = Some s"
  using assms
  by (simp add: GetDetailPeriodSnapshot_def InsertDetailPeriodIfAbsent_def find_insert_same)

lemma insert_detail_other:
  assumes "ds_GroupDetailID s \<noteq> detailID"
  shows "GetDetailPeriodSnapshot detailID period (InsertDetailPeriodIfAbsent s db) = GetDetailPeriodSnapshot detailID period db"
  using assms
  by (simp add: GetDetailPeriodSnapshot_def InsertDetailPeriodIfAbsent_def find_detail_other)

lemma freezeDetails_rows:
  fixes db :: "('f::{zero,one,plus,times,inverse,ord}) rm_tables"
  assumes "freezeDetails lost frozenBy fs db = (Inr u, db')" "(t, i) \<in> set fs" "distinct (map (ds_GroupDetailID \<circ> fst) fs)"
    and "if i = ExactPeriod then GetDetailPeriodSnapshot (ds_GroupDetailID t) (ds_Period t) db = Some t
         else GetDetailPeriodSnapshot (ds_GroupDetailID t) (ds_Period t) db = None"
  shows "\<exists>t'. GetDetailPeriodSnapshot (ds_GroupDetailID t) (ds_Period t) db' = Some t' \<and> sameDetailConfig t t'"
  using assms
proof (induction fs arbitrary: db)
  case (Cons f fs)
  obtain s j where f: "f = (s, j)" by (cases f)
  show ?case
  proof (cases "FrozenDetailCopy s j frozenBy")
    case None
    then have j: "j = ExactPeriod" by (simp add: FrozenDetailCopy_def split: if_splits)
    from None f Cons.prems(1) have rest: "freezeDetails lost frozenBy fs db = (Inr u, db')" by simp
    show ?thesis
    proof (cases "(t, i) \<in> set fs")
      case True
      with Cons.IH [OF rest True] Cons.prems(3,4) show ?thesis by simp
    next
      case False
      with Cons.prems(2) f have "t = s" "i = j" by auto
      with Cons.prems(4) j have "GetDetailPeriodSnapshot (ds_GroupDetailID t) (ds_Period t) db = Some t" by simp
      then have "GetDetailPeriodSnapshot (ds_GroupDetailID t) (ds_Period t) db' = Some t"
        using detailRow.tables.freeze_details_law [of "ds_GroupDetailID t" "ds_Period t" db lost frozenBy fs] rest by simp
      then show ?thesis by (simp add: sameDetailConfig_def)
    qed
  next
    case (Some fr)
    with f Cons.prems(1) have rest: "freezeDetails lost frozenBy fs (InsertDetailPeriodIfAbsent fr db) = (Inr u, db')"
      by (auto simp: tryWrite_Inr)
    from frozen_copies(2) [OF Some] have fr: "sameDetailConfig s fr" "ds_GroupDetailID fr = ds_GroupDetailID s" "ds_Period fr = ds_Period s"
      by simp_all
    show ?thesis
    proof (cases "(t, i) \<in> set fs")
      case True
      then have "ds_GroupDetailID t \<in> (ds_GroupDetailID \<circ> fst) ` set fs" by force
      with Cons.prems(3) f have "ds_GroupDetailID fr \<noteq> ds_GroupDetailID t" using fr(2) by (metis comp_apply distinct.simps(2) fst_conv list.simps(9) list.set_map)
      with Cons.IH [OF rest True] Cons.prems(3,4) show ?thesis by (simp add: insert_detail_other)
    next
      case False
      with Cons.prems(2) f have t: "t = s" "i = j" by auto
      with Some have "i \<noteq> ExactPeriod" by (auto simp: FrozenDetailCopy_def)
      with Cons.prems(4) have "GetDetailPeriodSnapshot (ds_GroupDetailID fr) (ds_Period fr) db = None" using t fr by simp
      then have "GetDetailPeriodSnapshot (ds_GroupDetailID t) (ds_Period t) (InsertDetailPeriodIfAbsent fr db) = Some fr"
        using insert_detail_find fr t by metis
      then have "GetDetailPeriodSnapshot (ds_GroupDetailID t) (ds_Period t) db' = Some fr"
        using detailRow.tables.freeze_details_law [of "ds_GroupDetailID t" "ds_Period t" "InsertDetailPeriodIfAbsent fr db" lost frozenBy fs] rest
        by simp
      with fr t show ?thesis by blast
    qed
  qed
qed simp

lemma insert_head_find:
  assumes "GetHeadPeriodSnapshot (hs_GroupHeadID s) (hs_Period s) db = None"
  shows "GetHeadPeriodSnapshot (hs_GroupHeadID s) (hs_Period s) (InsertHeadPeriodIfAbsent s db) = Some s"
  using assms by (simp add: GetHeadPeriodSnapshot_def InsertHeadPeriodIfAbsent_def find_insert_same)

lemma freezeDetails_other:
  "rt_HeadPeriods (snd (freezeDetails lost frozenBy fs db)) = rt_HeadPeriods db"
  "rt_Costs (snd (freezeDetails lost frozenBy fs db)) = rt_Costs db"
  "rt_CostDetails (snd (freezeDetails lost frozenBy fs db)) = rt_CostDetails db"
  by (induction lost frozenBy fs db rule: freezeDetails.induct)
    (auto simp: tryWrite_def guardCall_def InsertDetailPeriodIfAbsent_def split: option.split)

lemma freeze_other:
  "rt_Costs (snd (freezeInheritedSnapshots lost f frozenBy db)) = rt_Costs db"
  "rt_CostDetails (snd (freezeInheritedSnapshots lost f frozenBy db)) = rt_CostDetails db"
  by (simp_all add: freezeInheritedSnapshots_def tryWrite_def guardCall_def InsertHeadPeriodIfAbsent_def
      freezeDetails_other split: option.split)

text \<open>A calculation that returns a cost, step by step.\<close>

lemma HandleOneGroup_Inr:
  fixes db :: "('f::{zero,one,plus,times,inverse,ord}) rm_tables"
  assumes "HandleOneGroup lost sync headID period calculatedBy reason db = (Inr c, db')"
  obtains h details f outs existing hv2 cds db1 where
    "loadHeadAndDetails lost headID period db = Inr (h, details, f)"
    "computeDetailOutputs lost sync period details = Inr outs"
    "existing = GetByPeriodAndCode period (gh_Code h) db"
    "hv2 = headerInputsV2FromHead h (simRateFromExisting existing) (mdvFromExisting existing)"
    "buildOrApplyCost (rt_NextID db) existing h period (resolveGroupUOM lost sync period details)
       (AggregateGroupTotals outs) (ComputeMarketingProjections (AggregateGroupTotals outs) hv2) hv2
       (computedOf h (AggregateGroupTotals outs) (ComputeMarketingProjections (AggregateGroupTotals outs) hv2) hv2)
       calculatedBy = Inr c"
    "rebuildCostDetails (rt_NextID db + 1) (zip (realDetails details) outs) (gh_ID h) (rc_ID c) period calculatedBy = Inr cds"
    "rt_Costs db1 = upsertCost c (rt_Costs db)" "rt_HeadPeriods db1 = rt_HeadPeriods db"
    "rt_DetailPeriods db1 = rt_DetailPeriods db"
    "rt_CostDetails db1 = filter (\<lambda>d. cd_CostID d \<noteq> rc_ID c) (rt_CostDetails db) @ cds"
    "freezeInheritedSnapshots lost f calculatedBy db1 = (Inr (), db')" "\<not> lost CallGetCost"
proof -
  from assms obtain x where x: "loadHeadAndDetails lost headID period db = Inr x"
    by (auto simp: HandleOneGroup_def tryRead_Inr split: if_splits)
  obtain h details f where hdf: "x = (h, details, f)" by (cases x)
  let ?ex = "GetByPeriodAndCode period (gh_Code h) db"
  let ?hv2 = "headerInputsV2FromHead h (simRateFromExisting ?ex) (mdvFromExisting ?ex)"
  from assms x hdf obtain outs cds db1 where
      outs: "computeDetailOutputs lost sync period details = Inr outs" "\<not> lost CallGetCost"
    and c: "buildOrApplyCost (rt_NextID db) ?ex h period (resolveGroupUOM lost sync period details)
       (AggregateGroupTotals outs) (ComputeMarketingProjections (AggregateGroupTotals outs) ?hv2) ?hv2
       (computedOf h (AggregateGroupTotals outs) (ComputeMarketingProjections (AggregateGroupTotals outs) ?hv2) ?hv2)
       calculatedBy = Inr c"
    and cds: "rebuildCostDetails (rt_NextID db + 1) (zip (realDetails details) outs) (gh_ID h) (rc_ID c) period calculatedBy = Inr cds"
    and db1: "db1 = UpsertAll (rc_ID c) cds ((RMCost_Upsert c (buildHistoryV2 c h (length outs) reason calculatedBy)
         (db\<lparr>rt_NextID := rt_NextID db + 1\<rparr>))\<lparr>rt_NextID := rt_NextID db + 1 + length cds\<rparr>)"
    and fr: "freezeInheritedSnapshots lost f calculatedBy db1 = (Inr (), db')"
    unfolding HandleOneGroup_def Let_def tryRead_Inr tryWrite_Inr guardCall_Inr result_Inr
    by (auto simp: tryRead_Inr tryWrite_Inr guardCall_Inr result_Inr RMCost_Upsert_def split: if_splits)
  from db1 have "rt_Costs db1 = upsertCost c (rt_Costs db)" "rt_HeadPeriods db1 = rt_HeadPeriods db"
    "rt_DetailPeriods db1 = rt_DetailPeriods db"
    "rt_CostDetails db1 = filter (\<lambda>d. cd_CostID d \<noteq> rc_ID c) (rt_CostDetails db) @ cds"
    by (simp_all add: UpsertAll_def RMCost_Upsert_def)
  with x hdf outs c cds fr show ?thesis by (intro that) simp_all
qed

lemma loadHeadAndDetails_Inr:
  assumes "loadHeadAndDetails lost headID period db = Inr (h, details, f)"
  shows "\<exists>anchor. GetHeadByID headID db = Inr anchor \<and> pf_Head f = ResolveHeadSnapshot db anchor period \<and>
    OverlayHeadFromSnapshot anchor (fst (pf_Head f)) = Inr h \<and>
    pf_Details f = ResolveDetailSnapshots db headID (ListActiveDetailsByHeadID headID db) period \<and>
    overlayDetails (zip (ListActiveDetailsByHeadID headID db) (pf_Details f)) = Inr details"
  using assms by (auto simp: loadHeadAndDetails_def tryRM_Inr guardCall_Inr)

lemma load_without_loss:
  "loadHeadAndDetails lost headID period db = Inr x \<Longrightarrow> loadHeadAndDetails (\<lambda>_. False) headID period db = Inr x"
  by (auto simp: loadHeadAndDetails_def tryRM_Inr guardCall_Inr)

lemma overlayHead_config:
  assumes "OverlayHeadFromSnapshot anchor s = Inr h"
  shows "gh_Config h = hs_Config s" "gh_Marketing h = hs_Marketing s"
  using assms
  by (auto simp: OverlayHeadFromSnapshot_def AttachMarketingInputs_def SetDenier_def tryE_def
      split: if_splits option.splits)

lemma overlayDetail_config:
  assumes "OverlayDetailFromSnapshot d s = Inr d'"
  shows "gd_ID d' = gd_ID d" "gd_Valuation d' = ds_Valuation s" "gd_IsDummy d' = ds_IsDummy s"
    "gd_ItemCode d' = gd_ItemCode d" "gd_GradeCode d' = gd_GradeCode d"
  using assms by (auto simp: OverlayDetailFromSnapshot_def AttachValuationInputs_def split: if_splits)

lemma overlayDetails_mem:
  assumes "overlayDetails zs = Inr ds" "d' \<in> set ds"
  shows "\<exists>d s i. (d, s, i) \<in> set zs \<and> OverlayDetailFromSnapshot d s = Inr d'"
  using assms
proof (induction zs arbitrary: ds rule: overlayDetails.induct)
  case (2 d s i rest)
  from 2(2) obtain e es where es: "OverlayDetailFromSnapshot d s = Inr e" "overlayDetails rest = Inr es" "ds = e # es"
    by (auto simp: tryRM_Inr)
  show ?case
  proof (cases "d' = e")
    case True
    with es(1) show ?thesis by (intro exI [of _ d] exI [of _ s] exI [of _ i]) simp
  next
    case False
    with es(3) 2(3) have "d' \<in> set es" by simp
    from 2(1) [OF es(2) this] show ?thesis by (meson list.set_intros(2))
  qed
qed simp

lemma resolved_detail_mem:
  assumes "loadHeadAndDetails lost headID period db = Inr (h, details, f)" "d' \<in> set details"
  shows "\<exists>d \<in> set (ListActiveDetailsByHeadID headID db).
    OverlayDetailFromSnapshot d (fst (ResolveDetailSnapshot db headID period d)) = Inr d'"
proof -
  let ?ds = "ListActiveDetailsByHeadID headID db"
  from loadHeadAndDetails_Inr [OF assms(1)]
  have "overlayDetails (zip ?ds (map (ResolveDetailSnapshot db headID period) ?ds)) = Inr details"
    by (auto simp: ResolveDetailSnapshots_def)
  from overlayDetails_mem [OF this assms(2)] obtain d s i
    where "(d, s, i) \<in> set (zip ?ds (map (ResolveDetailSnapshot db headID period) ?ds))"
      "OverlayDetailFromSnapshot d s = Inr d'" by blast
  then have "d \<in> set ?ds" "(s, i) = ResolveDetailSnapshot db headID period d"
    by (auto simp: set_zip)
  then show ?thesis using \<open>OverlayDetailFromSnapshot d s = Inr d'\<close> by (metis fst_conv)
qed

lemma mset_insertDetail: "mset (insertDetail d ds) = add_mset d (mset ds)"
  by (induction ds) auto

lemma mset_ListActiveDetails:
  "mset (ListActiveDetailsByHeadID headID db) =
    mset (filter (\<lambda>d. gd_HeadID d = headID \<and> gd_IsActive d \<and> \<not> gd_Deleted d) (rt_Details db))"
proof -
  have "mset (fold insertDetail ds acc) = mset ds + mset acc" for ds acc :: "'a group_detail list"
    by (induction ds arbitrary: acc) (simp_all add: mset_insertDetail)
  then show ?thesis by (simp add: ListActiveDetailsByHeadID_def sortDetails_def)
qed

lemma ListActiveDetails_mem:
  "set (ListActiveDetailsByHeadID headID db) =
    {d \<in> set (rt_Details db). gd_HeadID d = headID \<and> gd_IsActive d \<and> \<not> gd_Deleted d}"
  by (simp only: mset_ListActiveDetails [THEN mset_eq_setD]) simp

lemma ListActiveDetails_distinct:
  assumes "distinct (map gd_ID (rt_Details db))"
  shows "distinct (map gd_ID (ListActiveDetailsByHeadID headID db))"
proof -
  have m: "mset (map gd_ID (ListActiveDetailsByHeadID headID db)) =
      mset (map gd_ID (filter (\<lambda>d. gd_HeadID d = headID \<and> gd_IsActive d \<and> \<not> gd_Deleted d) (rt_Details db)))"
    by (simp only: mset_map mset_ListActiveDetails)
  show ?thesis by (simp only: mset_eq_imp_distinct_iff [OF m] distinct_map_filter [OF assms])
qed

text \<open>After a calculation each snapshot it has read is the exact row of its period.\<close>

lemma calculated_rows:
  fixes db :: "('f::{zero,one,plus,times,inverse,ord}) rm_tables"
  assumes calc: "HandleOneGroup lost sync headID period calculatedBy reason db = (Inr c, db')"
    and ids: "distinct (map gd_ID (rt_Details db))"
    and anchor: "GetHeadByID headID db = Inr anchor"
  shows "\<exists>s. GetHeadPeriodSnapshot headID period db' = Some s \<and> sameHeadConfig (fst (ResolveHeadSnapshot db anchor period)) s"
    "d \<in> set (ListActiveDetailsByHeadID headID db) \<Longrightarrow>
      \<exists>s. GetDetailPeriodSnapshot (gd_ID d) period db' = Some s \<and> sameDetailConfig (fst (ResolveDetailSnapshot db headID period d)) s"
proof -
  from HandleOneGroup_Inr [OF calc] obtain h details f db1 where
      load: "loadHeadAndDetails lost headID period db = Inr (h, details, f)"
    and same: "rt_HeadPeriods db1 = rt_HeadPeriods db" "rt_DetailPeriods db1 = rt_DetailPeriods db"
    and fr: "freezeInheritedSnapshots lost f calculatedBy db1 = (Inr (), db')" by metis
  from loadHeadAndDetails_Inr [OF load] anchor
  have f: "pf_Head f = ResolveHeadSnapshot db anchor period"
    "pf_Details f = map (ResolveDetailSnapshot db headID period) (ListActiveDetailsByHeadID headID db)"
    by (auto simp: ResolveDetailSnapshots_def)
  let ?r = "ResolveHeadSnapshot db anchor period"
  have key: "hs_GroupHeadID (fst ?r) = headID" "hs_Period (fst ?r) = period"
    using ResolveHeadSnapshot_key [of db anchor period] GetHeadByID_id [OF anchor] by simp_all
  obtain db2 where db2: "freezeDetails lost calculatedBy (pf_Details f) db2 = (Inr (), db')"
      "rt_DetailPeriods db2 = rt_DetailPeriods db"
      "\<exists>s. GetHeadPeriodSnapshot headID period db2 = Some s \<and> sameHeadConfig (fst ?r) s"
  proof (cases "FrozenHeadCopy (fst ?r) (snd ?r) calculatedBy")
    case None
    then have "snd ?r = ExactPeriod" by (simp add: FrozenHeadCopy_def split: if_splits)
    then have "GetHeadPeriodSnapshot headID period db = Some (fst ?r)"
      using GetHeadByID_id [OF anchor] by (auto simp: ResolveHeadSnapshot_def split: option.splits)
    with None f fr same show ?thesis
      by (intro that [of db1]) (simp_all add: freezeInheritedSnapshots_def GetHeadPeriodSnapshot_def sameHeadConfig_def)
  next
    case (Some frz)
    then have "snd ?r \<noteq> ExactPeriod" by (auto simp: FrozenHeadCopy_def)
    then have "GetHeadPeriodSnapshot headID period db = None"
      using GetHeadByID_id [OF anchor] by (auto simp: ResolveHeadSnapshot_def split: option.splits)
    then have none: "GetHeadPeriodSnapshot (hs_GroupHeadID frz) (hs_Period frz) db1 = None"
      using frozen_copies(1) [OF Some] key same by (simp add: GetHeadPeriodSnapshot_def)
    from Some f fr have "freezeDetails lost calculatedBy (pf_Details f) (InsertHeadPeriodIfAbsent frz db1) = (Inr (), db')"
      by (simp add: freezeInheritedSnapshots_def tryWrite_Inr)
    with insert_head_find [OF none] frozen_copies(1) [OF Some] key same show ?thesis
      by (intro that [of "InsertHeadPeriodIfAbsent frz db1"]) (simp_all add: InsertHeadPeriodIfAbsent_def)
  qed
  from db2(1,3) freezeDetails_other(1) [of lost calculatedBy "pf_Details f" db2]
  show "\<exists>s. GetHeadPeriodSnapshot headID period db' = Some s \<and> sameHeadConfig (fst ?r) s"
    by (simp add: GetHeadPeriodSnapshot_def)
  assume d: "d \<in> set (ListActiveDetailsByHeadID headID db)"
  let ?t = "ResolveDetailSnapshot db headID period d"
  have "ds_GroupDetailID (fst (ResolveDetailSnapshot db headID period e)) = gd_ID e" for e
    by (simp add: ResolveDetailSnapshot_key)
  then have dist: "distinct (map (ds_GroupDetailID \<circ> fst) (pf_Details f))"
    using ListActiveDetails_distinct [OF ids, of headID] by (simp add: f comp_def)
  have "if snd ?t = ExactPeriod then GetDetailPeriodSnapshot (gd_ID d) period db2 = Some (fst ?t)
      else GetDetailPeriodSnapshot (gd_ID d) period db2 = None"
    using db2(2) by (auto simp: ResolveDetailSnapshot_def GetDetailPeriodSnapshot_def split: option.splits)
  then show "\<exists>s. GetDetailPeriodSnapshot (gd_ID d) period db' = Some s \<and> sameDetailConfig (fst ?t) s"
    using freezeDetails_rows [OF db2(1), of "fst ?t" "snd ?t"] d dist f(2)
    by (auto simp: ResolveDetailSnapshot_key)
qed

lemma editsOnly_mono:
  "editsOnly H D a \<Longrightarrow> (\<And>h p. H h p \<Longrightarrow> H' h p) \<Longrightarrow> (\<And>d p. D d p \<Longrightarrow> D' d p) \<Longrightarrow> editsOnly H' D' a"
  by (cases a) auto

text \<open>An exact row is what a period resolves to.\<close>

lemma resolve_exact:
  "GetHeadPeriodSnapshot (gh_ID h) period db = Some s \<Longrightarrow> fst (ResolveHeadSnapshot db h period) = s"
  "GetDetailPeriodSnapshot (gd_ID d) period db = Some t \<Longrightarrow> fst (ResolveDetailSnapshot db headID period d) = t"
  by (simp_all add: ResolveHeadSnapshot_def ResolveDetailSnapshot_def)


section \<open>An example\<close>

definition exampleConfig :: "rat head_config" where
  "exampleConfig =
     \<lparr>hc_Name = ''CHIPS'', hc_Description = [], hc_Colorant = [], hc_CIName = [], hc_CostPercentage = 0, hc_CostPerKg = 0,
      hc_FlagValuation = FlagCons, hc_FlagMarketing = FlagCons, hc_FlagSimulation = FlagCons,
      hc_InitValValuation = None, hc_InitValMarketing = None, hc_InitValSimulation = None\<rparr>"

definition exampleHead :: "rat group_head" where
  "exampleHead =
     \<lparr>gh_ID = 1, gh_Code = ''RM1'', gh_Config = exampleConfig,
      gh_Marketing = \<lparr>mi_FreightRate = None, mi_AntiDumpingPct = None, mi_DefaultValue = None,
                      mi_ValuationFlag = [], mi_MarketingFlag = []\<rparr>,
      gh_IsActive = True, gh_IsOilGroup = False, gh_Denier = None, gh_DenierUseDraft = False,
      gh_CreatedBy = ''a'', gh_UpdatedBy = None, gh_Deleted = False\<rparr>"

definition exampleDetail :: "rat group_detail" where
  "exampleDetail =
     \<lparr>gd_ID = 11, gd_HeadID = 1, gd_ItemCode = ''I1'', gd_ItemName = ''ITEM'', gd_ItemTypeCode = [], gd_GradeCode = [],
      gd_ItemGrade = [], gd_UOMCode = ''KG'', gd_MarketPercentage = None, gd_MarketValueRp = None, gd_SortOrder = 1,
      gd_IsActive = True, gd_IsDummy = False,
      gd_Valuation = \<lparr>va_FreightRate = None, va_AntiDumpingPct = None, va_DutyPct = None, va_TransportRate = None,
                      va_DefaultValue = None\<rparr>,
      gd_CreatedBy = ''a'', gd_UpdatedBy = None, gd_Deleted = False\<rparr>"

definition exampleTables :: "rat rm_tables" where
  "exampleTables =
     \<lparr>rt_Heads = [exampleHead], rt_Details = [exampleDetail], rt_HeadPeriods = [], rt_DetailPeriods = [],
      rt_Costs = [], rt_CostDetails = [], rt_History = [], rt_NextID = 3\<rparr>"

text \<open>Ten units were ordered for a hundred; nothing was consumed and nothing is in stock.\<close>

definition exampleSync :: "string \<Rightarrow> rat sync_row" where
  "exampleSync period =
     \<lparr>sy_Period = period, sy_ItemCode = ''I1'', sy_GradeCode = [], sy_ConsVal = None, sy_ConsQty = None,
      sy_StoresVal = None, sy_StoresQty = None, sy_DeptVal = None, sy_DeptQty = None,
      sy_LastPOVal1 = Some 100, sy_LastPOQty1 = Some 10, sy_UOM = ''KG''\<rparr>"

definition exampleEdit :: "string \<Rightarrow> rat update_command" where
  "exampleEdit period =
     \<lparr>uc_HeadID = 1, uc_Period = period, uc_Input = emptyUpdateInput\<lparr>ui_CostPerKg := Some 5\<rparr>, uc_UpdatedBy = ''b'',
      uc_MarketingFreightRate = None, uc_MarketingAntiDumpingPct = None, uc_MarketingDefaultValue = None,
      uc_ValuationFlag = None, uc_MarketingFlag = None, uc_ClearMarketingFreightRate = False,
      uc_ClearMarketingAntiDumpingPct = False, uc_ClearMarketingDefaultValue = False,
      uc_IsOilGroup = None, uc_Denier = None, uc_DenierUseDraft = None\<rparr>"

text \<open>A later period has a cost already, of another group.\<close>

definition exampleOtherCost :: "rat cost_row" where
  "exampleOtherCost =
     \<lparr>row_Cost =
        \<lparr>rc_ID = 2, rc_Period = ''202602'', rc_Code = ''RM2'', rc_GroupHeadID = 5, rc_Name = ''OIL'', rc_UOMCode = ''KG'',
         rc_CostValuation = Some 0, rc_CostMarketing = Some 0, rc_CostSimulation = Some 0, rc_FlagValuation = FlagCons,
         rc_FlagMarketing = FlagCons, rc_FlagSimulation = FlagCons, rc_FlagValuationUsed = FlagCons,
         rc_FlagMarketingUsed = FlagCons, rc_FlagSimulationUsed = FlagCons, rc_CalculatedBy = None, rc_CreatedBy = ''a'',
         rc_UpdatedBy = None, rc_Inputs = None, rc_Rates = None\<rparr>,
      row_ValuationFlag = None, row_MarketingFlag = None, row_Numbers = noNumbers, row_Rates = noRates\<rparr>"

definition exampleStart :: "rat rm_tables" where
  "exampleStart = exampleTables\<lparr>rt_Costs := [exampleOtherCost]\<rparr>"

text \<open>The calculation of the first period, step by step, on any tables with these heads, items and snapshots.\<close>

definition exampleLoaded :: "rat group_head \<times> rat group_detail list \<times> rat period_freeze" where
  "exampleLoaded = projr (loadHeadAndDetails (\<lambda>_. False) 1 ''202601'' exampleStart)"

definition exampleOuts :: "rat detail_output list" where
  "exampleOuts = projr (computeDetailOutputs (\<lambda>_. False) [exampleSync ''202601''] ''202601'' [exampleDetail])"

definition exampleHeader :: "rat header_inputs" where
  "exampleHeader = headerInputsV2FromHead (fst exampleLoaded) 0 0"

definition exampleProjections :: "rat projections" where
  "exampleProjections = ComputeMarketingProjections (AggregateGroupTotals exampleOuts) exampleHeader"

definition exampleCost :: "rat rm_cost" where
  "exampleCost = projr (buildOrApplyCost 3 None (fst exampleLoaded) ''202601'' ''KG'' (AggregateGroupTotals exampleOuts)
     exampleProjections exampleHeader
     (computedOf (fst exampleLoaded) (AggregateGroupTotals exampleOuts) exampleProjections exampleHeader) ''a'')"

definition exampleDetailRows :: "rat cost_detail list" where
  "exampleDetailRows = projr (rebuildCostDetails 4 (zip [exampleDetail] exampleOuts) 1 3 ''202601'' ''a'')"

definition exampleStored :: "rat rm_tables" where
  "exampleStored = UpsertAll 3 exampleDetailRows
     ((RMCost_Upsert exampleCost (buildHistoryV2 exampleCost (fst exampleLoaded) 1 ''manual'' ''a'')
        (exampleStart\<lparr>rt_NextID := 4\<rparr>))\<lparr>rt_NextID := 5\<rparr>)"

definition exampleCalculated :: "rat rm_tables" where
  "exampleCalculated = snd (freezeInheritedSnapshots (\<lambda>_. False) (snd (snd exampleLoaded)) ''a'' exampleStored)"

lemma returned: "\<not> isl (fst r) \<Longrightarrow> r = (Inr (projr (fst r)), snd r)"
  by (cases r) auto

lemma HandleOneGroup_run:
  assumes "RMValidatePeriod period = Inr u" "calculatedBy \<noteq> []"
    "loadHeadAndDetails (\<lambda>_. False) headID period db = Inr (h, details, f)"
    "computeDetailOutputs (\<lambda>_. False) sync period details = Inr outs"
    "GetByPeriodAndCode period (gh_Code h) db = existing"
    "hv2 = headerInputsV2FromHead h (simRateFromExisting existing) (mdvFromExisting existing)"
    "proj = ComputeMarketingProjections (AggregateGroupTotals outs) hv2"
    "buildOrApplyCost (rt_NextID db) existing h period (resolveGroupUOM (\<lambda>_. False) sync period details)
       (AggregateGroupTotals outs) proj hv2 (computedOf h (AggregateGroupTotals outs) proj hv2) calculatedBy = Inr c"
    "rebuildCostDetails (rt_NextID db + 1) (zip (realDetails details) outs) (gh_ID h) (rc_ID c) period calculatedBy = Inr cds"
    "freezeInheritedSnapshots (\<lambda>_. False) f calculatedBy
       (UpsertAll (rc_ID c) cds ((RMCost_Upsert c (buildHistoryV2 c h (length outs) reason calculatedBy)
          (db\<lparr>rt_NextID := rt_NextID db + 1\<rparr>))\<lparr>rt_NextID := rt_NextID db + 1 + length cds\<rparr>)) = (Inr v, db')"
  shows "HandleOneGroup (\<lambda>_. False) sync headID period calculatedBy reason db = (Inr c, db')"
  using assms
  by (simp add: HandleOneGroup_def tryRead_def tryWrite_def guardCall_def Let_def RMCost_Upsert_def)

lemma exampleCalculated_run:
  "HandleOneGroup (\<lambda>_. False) [exampleSync ''202601''] 1 ''202601'' ''a'' ''manual'' exampleStart =
    (Inr exampleCost, exampleCalculated)"
proof (rule HandleOneGroup_run)
  show "RMValidatePeriod ''202601'' = Inr ()" by code_simp
  show "loadHeadAndDetails (\<lambda>_. False) 1 ''202601'' exampleStart = Inr (fst exampleLoaded, fst (snd exampleLoaded), snd (snd exampleLoaded))"
  proof -
    have "\<not> isl (loadHeadAndDetails (\<lambda>_. False) 1 ''202601'' exampleStart)" by code_simp
    then show ?thesis unfolding prod.collapse exampleLoaded_def by (rule sum.collapse(2) [symmetric])
  qed
  have d: "fst (snd exampleLoaded) = [exampleDetail]" by code_simp
  show "computeDetailOutputs (\<lambda>_. False) [exampleSync ''202601''] ''202601'' (fst (snd exampleLoaded)) = Inr exampleOuts"
    by (simp add: d exampleOuts_def computeDetailOutputs_def)
  show "GetByPeriodAndCode ''202601'' (gh_Code (fst exampleLoaded)) exampleStart = None" by code_simp
  show "exampleHeader = headerInputsV2FromHead (fst exampleLoaded) (simRateFromExisting None) (mdvFromExisting None)"
    by (simp add: exampleHeader_def simRateFromExisting_def mdvFromExisting_def inputFromExisting_def)
  show "exampleProjections = ComputeMarketingProjections (AggregateGroupTotals exampleOuts) exampleHeader"
    by (rule exampleProjections_def)
  have u: "resolveGroupUOM (\<lambda>_. False) [exampleSync ''202601''] ''202601'' (fst (snd exampleLoaded)) = ''KG''"
    "rt_NextID exampleStart = 3" "rc_ID exampleCost = 3" "gh_ID (fst exampleLoaded) = 1" "length exampleOuts = 1"
    "length exampleDetailRows = 1" "realDetails [exampleDetail] = [exampleDetail]" by code_simp+
  show "buildOrApplyCost (rt_NextID exampleStart) None (fst exampleLoaded) ''202601''
      (resolveGroupUOM (\<lambda>_. False) [exampleSync ''202601''] ''202601'' (fst (snd exampleLoaded)))
      (AggregateGroupTotals exampleOuts) exampleProjections exampleHeader
      (computedOf (fst exampleLoaded) (AggregateGroupTotals exampleOuts) exampleProjections exampleHeader) ''a'' = Inr exampleCost"
  proof -
    have "\<not> isl (buildOrApplyCost 3 None (fst exampleLoaded) ''202601'' ''KG'' (AggregateGroupTotals exampleOuts)
       exampleProjections exampleHeader
       (computedOf (fst exampleLoaded) (AggregateGroupTotals exampleOuts) exampleProjections exampleHeader) ''a'')" by code_simp
    then show ?thesis unfolding u exampleCost_def by (rule sum.collapse(2) [symmetric])
  qed
  show "rebuildCostDetails (rt_NextID exampleStart + 1) (zip (realDetails (fst (snd exampleLoaded))) exampleOuts)
      (gh_ID (fst exampleLoaded)) (rc_ID exampleCost) ''202601'' ''a'' = Inr exampleDetailRows"
    by (simp add: d u exampleDetailRows_def) code_simp
  show "freezeInheritedSnapshots (\<lambda>_. False) (snd (snd exampleLoaded)) ''a''
      (UpsertAll (rc_ID exampleCost) exampleDetailRows
        ((RMCost_Upsert exampleCost (buildHistoryV2 exampleCost (fst exampleLoaded) (length exampleOuts) ''manual'' ''a'')
           (exampleStart\<lparr>rt_NextID := rt_NextID exampleStart + 1\<rparr>))
           \<lparr>rt_NextID := rt_NextID exampleStart + 1 + length exampleDetailRows\<rparr>)) = (Inr (), exampleCalculated)"
  proof -
    have "\<not> isl (fst (freezeInheritedSnapshots (\<lambda>_. False) (snd (snd exampleLoaded)) ''a'' exampleStored))" by code_simp
    from returned [OF this] show ?thesis by (simp add: u exampleCalculated_def exampleStored_def)
  qed
qed simp

text \<open>The later period is edited, which writes the anchor row.\<close>

lemma UpdateHandle_run:
  assumes "RMValidatePeriod (uc_Period cmd) = Inr u" "GetHeadByID (uc_HeadID cmd) db = Inr h"
    "assertGlobalFieldChangeAllowed (\<lambda>_. False) inUse h cmd = Inr v" "hasPeriodPatch cmd"
    "applyHeadSnapshotPatch cmd (fst (ResolveHeadSnapshot db h (uc_Period cmd))) = Inr s"
    "LatestSyncPeriod (UpsertHeadPeriod s db) = Inr (uc_Period cmd)"
  shows "snd (UpdateHandle (\<lambda>_. False) inUse cmd db) = snd (writeThroughAnchor (\<lambda>_. False) h cmd (UpsertHeadPeriod s db))"
  using assms by (simp add: UpdateHandle_def tryRead_def tryWrite_def guardCall_def split: prod.split sum.split)

definition examplePatched :: "rat head_snapshot" where
  "examplePatched = projr (applyHeadSnapshotPatch (exampleEdit ''202602'')
     (fst (ResolveHeadSnapshot exampleCalculated exampleHead ''202602'')))"

definition exampleLater :: "rat rm_tables" where
  "exampleLater = snd (writeThroughAnchor (\<lambda>_. False) exampleHead (exampleEdit ''202602'') (UpsertHeadPeriod examplePatched exampleCalculated))"

definition exampleActions :: "rat rm_action list" where
  "exampleActions = [EditHead (\<lambda>_. False) (\<lambda>_. False) (exampleEdit ''202602'')]"

lemma exampleLater_run: "fold rmRun exampleActions exampleCalculated = exampleLater"
proof -
  have "\<not> isl (applyHeadSnapshotPatch (exampleEdit ''202602'') (fst (ResolveHeadSnapshot exampleCalculated exampleHead ''202602'')))"
    by code_simp
  then have patched: "applyHeadSnapshotPatch (exampleEdit ''202602'') (fst (ResolveHeadSnapshot exampleCalculated exampleHead
      ''202602'')) = Inr examplePatched"
    unfolding examplePatched_def by (rule sum.collapse(2) [symmetric])
  have "RMValidatePeriod ''202602'' = Inr ()" "hasPeriodPatch (exampleEdit ''202602'')"
    "GetHeadByID 1 exampleCalculated = Inr exampleHead"
    "assertGlobalFieldChangeAllowed (\<lambda>_. False) (\<lambda>_. False) exampleHead (exampleEdit ''202602'') = Inr ()"
    "LatestSyncPeriod (UpsertHeadPeriod examplePatched exampleCalculated) = Inr ''202602''" by code_simp+
  with patched show ?thesis
    unfolding exampleActions_def exampleLater_def
    by (simp add: UpdateHandle_run exampleEdit_def del: One_nat_def)
qed


end
