(* ===== verification/RMRows.thy ===== *)
theory RMRows
  imports RMFacts
begin

text \<open>
  The columns of a stored raw material cost agree with each other: after any run of the handlers the selected
  marketing price, the simulated price and the fix price follow from the inputs and rates of the same row.
\<close>

section \<open>Reading back what was written\<close>

lemma deref_nil [simp]: "derefOrZero (nilIfZero v) = (v :: 'f::{zero,order})"
  by (auto simp: derefOrZero_def nilIfZero_def floatEq_def intro: antisym)

lemma flag_read_back [simp]: "nullStringValOrAuto (nullableFlagString f) = orAuto f"
  by (simp add: nullStringValOrAuto_def nullableFlagString_def orAuto_def FlagAuto_def)

lemma orAuto_orAuto [simp]: "orAuto (orAuto f) = orAuto f"
  by (simp add: orAuto_def FlagAuto_def)

lemma orAuto_read [simp]: "orAuto (nullStringValOrAuto f) = nullStringValOrAuto f"
  by (simp add: nullStringValOrAuto_def orAuto_def FlagAuto_def split: option.split)

section \<open>Consistent rows\<close>

definition rowInputs :: "('f::zero) cost_row \<Rightarrow> 'f header_inputs" where
  "rowInputs r = headerInputsOf
     \<lparr>in_Numbers = row_Numbers r, in_ValuationFlag = nullStringValOrAuto (row_ValuationFlag r),
      in_MarketingFlag = nullStringValOrAuto (row_MarketingFlag r)\<rparr>"

definition rowProjections :: "('f::zero) cost_row \<Rightarrow> 'f projections" where
  "rowProjections r =
     \<lparr>pj_SP = derefOrZero (vr_SP (row_Rates r)), pj_PP = derefOrZero (vr_PP (row_Rates r)),
      pj_FP = derefOrZero (vr_FP (row_Rates r))\<rparr>"

definition rowConsistent :: "('f::{zero,one,plus,times,ord}) cost_row \<Rightarrow> bool" where
  "rowConsistent r \<longleftrightarrow>
     rc_CostMarketing (row_Cost r) = Some (SelectMarketing (rowProjections r) (hi_MarketingFlag (rowInputs r))) \<and>
     rc_CostSimulation (row_Cost r) = Some (ComputeSimulation (hi_SimulationRate (rowInputs r)) (rowInputs r)) \<and>
     pj_FP (rowProjections r) = marketingPrice (rowInputs r) (hi_MarketingDefaultValue (rowInputs r))"

definition rowsConsistent :: "('f::{zero,one,plus,times,ord}) rm_tables \<Rightarrow> bool" where
  "rowsConsistent db \<longleftrightarrow> (\<forall>r \<in> set (rt_Costs db). rowConsistent r)"

lemma rowsConsistent_cong: "rt_Costs db' = rt_Costs db \<Longrightarrow> rowsConsistent db' = rowsConsistent db"
  by (simp add: rowsConsistent_def)

text \<open>What a calculation writes, new or over an older row.\<close>

lemma computedOf_simps:
  "cp_CostMarketing (computedOf h tot proj hv2) = SelectMarketing proj (hi_MarketingFlag hv2)"
  "cp_CostSimulation (computedOf h tot proj hv2) = ComputeSimulation (hi_SimulationRate hv2) hv2"
  "cp_CostValuation (computedOf h tot proj hv2) = SelectValuation tot (hi_ValuationFlag hv2)"
  by (simp_all add: computedOf_def SelectMarketing_def SelectValuation_def Let_def split: prod.split)

lemma buildOrApplyCost_Inr:
  assumes "buildOrApplyCost newID existing h period uomCode tot proj hv2 cmp calculatedBy = Inr c"
  shows "rc_Inputs c = Some (v2InputsOf hv2)" "rc_Rates c = Some (buildV2Rates tot proj)"
    "rc_CostMarketing c = Some (cp_CostMarketing cmp)" "rc_CostSimulation c = Some (cp_CostSimulation cmp)"
    "rc_CostValuation c = Some (cp_CostValuation cmp)"
  using assms
  by (auto simp: buildOrApplyCost_def NewGroupCost_def ApplyComputed_def AttachV2_def tryRM_Inr
      split: option.splits sum.splits if_splits)

lemma computed_row:
  fixes h :: "('f::linordered_field) group_head"
  assumes "buildOrApplyCost newID existing h period uomCode tot (ComputeMarketingProjections tot hv2) hv2
      (computedOf h tot (ComputeMarketingProjections tot hv2) hv2) calculatedBy = Inr c"
    and "orAuto (hi_MarketingFlag hv2) = hi_MarketingFlag hv2"
  shows "rowConsistent (costInserted c)" "rowConsistent (costConflict c r)"
proof -
  note c = buildOrApplyCost_Inr [OF assms(1)]
  have inp: "rowInputs (costInserted c) = hv2\<lparr>hi_ValuationFlag := orAuto (hi_ValuationFlag hv2)\<rparr>"
    using c assms(2) by (simp add: rowInputs_def costInserted_def v2InputsOf_def headerInputsOf_def)
  have proj: "rowProjections (costInserted c) = ComputeMarketingProjections tot hv2"
    using c by (simp add: rowProjections_def costInserted_def buildV2Rates_def)
  show new: "rowConsistent (costInserted c)"
    unfolding rowConsistent_def inp proj using c
    by (simp add: computedOf_simps costInserted_def ComputeSimulation_def ComputeMarketingProjections_def marketingPrice_def)
  then show "rowConsistent (costConflict c r)"
    by (simp add: costConflict_def Let_def rowConsistent_def rowInputs_def rowProjections_def)
qed

lemma upsert_rows:
  assumes "rowsConsistent db" "rowConsistent (costInserted c)" "\<And>r. rowConsistent (costConflict c r)"
  shows "rowsConsistent (db\<lparr>rt_Costs := upsertCost c (rt_Costs db)\<rparr>)"
  using assms by (auto simp: rowsConsistent_def upsertCost_def upsertRow_def)

section \<open>Runs\<close>

lemma if_keep: "(b \<Longrightarrow> P (snd x)) \<Longrightarrow> (\<not> b \<Longrightarrow> P (snd y)) \<Longrightarrow> P (snd (if b then x else y))"
  by simp

lemma result_keep:
  "P (snd z) \<Longrightarrow> P (snd (case z of (Inl e, db') \<Rightarrow> (Inl e, db') | (Inr u, db') \<Rightarrow> (Inr w, db')))"
  by (auto split: prod.splits sum.splits)

lemmas keeps =
  tryRead_keep [where P = rowsConsistent] tryWrite_keep [where P = rowsConsistent]
  if_keep [where P = rowsConsistent] result_keep [where P = rowsConsistent]

lemma calculate_rows:
  fixes db :: "('f::linordered_field) rm_tables"
  assumes "rowsConsistent db"
  shows "rowsConsistent (snd (HandleOneGroup lost sync headID period calculatedBy reason db))"
proof -
  have upsert: "rowsConsistent (RMCost_Upsert c hist (db\<lparr>rt_NextID := n\<rparr>))"
    if "buildOrApplyCost newID existing h period uomCode tot (ComputeMarketingProjections tot (headerInputsV2FromHead h sim mdv))
        (headerInputsV2FromHead h sim mdv) (computedOf h tot (ComputeMarketingProjections tot (headerInputsV2FromHead h sim mdv))
          (headerInputsV2FromHead h sim mdv)) calculatedBy = Inr c"
    for newID existing h period uomCode tot sim mdv calculatedBy c hist n
    using upsert_rows [OF assms computed_row [OF that]]
    by (simp add: headerInputsV2FromHead_def Let_def RMCost_Upsert_def rowsConsistent_def)
  have details: "rowsConsistent (UpsertAll costID ds (db1\<lparr>rt_NextID := n\<rparr>)) = rowsConsistent db1" for costID ds n db1
    by (rule rowsConsistent_cong) (simp add: UpsertAll_def)
  have freeze: "rowsConsistent (snd (freezeInheritedSnapshots lost f calculatedBy db1)) = rowsConsistent db1" for f db1
    by (rule rowsConsistent_cong) (rule freeze_other)
  show ?thesis
    unfolding HandleOneGroup_def Let_def
    by (intro keeps assms; auto simp: guardCall_Inr assms details freeze intro!: keeps upsert split: prod.splits)
qed

lemma edit_inputs_rows:
  fixes db :: "('f::linordered_field) rm_tables"
  assumes "rowsConsistent db"
  shows "rowsConsistent (snd (EditInputsHandle lost cmd db))"
proof -
  have edited: "rowConsistent (writeInputs cur rates m v updatedBy r)"
    if "rates = buildV2Rates tot (ComputeMarketingProjections tot (headerInputsOf cur))"
      "m = SelectMarketing (ComputeMarketingProjections tot (headerInputsOf cur)) (hi_MarketingFlag (headerInputsOf cur))"
      "v = ComputeSimulation (hi_SimulationRate (headerInputsOf cur)) (headerInputsOf cur)"
    for r :: "'f cost_row" and cur rates m v tot updatedBy
    using that
    by (simp add: writeInputs_def rowConsistent_def rowInputs_def rowProjections_def headerInputsOf_def buildV2Rates_def
        ComputeMarketingProjections_def Let_def marketingPrice_def ComputeSimulation_def)
  have "rowsConsistent db'"
    if "UpdateInputs costID cur rates m v updatedBy db = Inr db'"
      "rates = buildV2Rates tot (ComputeMarketingProjections tot (headerInputsOf cur))"
      "m = SelectMarketing (ComputeMarketingProjections tot (headerInputsOf cur)) (hi_MarketingFlag (headerInputsOf cur))"
      "v = ComputeSimulation (hi_SimulationRate (headerInputsOf cur)) (headerInputsOf cur)"
    for costID cur rates m v updatedBy tot db'
    using that assms edited [OF that(2-4)]
    by (auto simp: UpdateInputs_def Let_def rowsConsistent_def split: if_splits)
  then show ?thesis
    unfolding EditInputsHandle_def Let_def by (intro keeps) (simp_all add: assms)
qed

lemma edit_fix_rate_rows:
  assumes "rowsConsistent db"
  shows "rowsConsistent (snd (EditFixRateHandle lost cmd db))"
proof -
  have snap: "rowsConsistent db'" if "UpdateSnapshot d db = Inr db'" for d db'
    using that assms by (auto simp: UpdateSnapshot_def rowsConsistent_def split: if_splits)
  have fl: "rowsConsistent db'"
    if "UpdateFLAndCostVal costID x y updatedBy db1 = Inr db'" "rowsConsistent db1" for costID x y updatedBy db1 db'
    using that
    by (auto simp: UpdateFLAndCostVal_def rowsConsistent_def rowConsistent_def rowInputs_def rowProjections_def Let_def
        split: if_splits)
  show ?thesis
    unfolding EditFixRateHandle_def Let_def
    by (intro keeps; (simp add: assms)?; (rule fl, assumption)?; erule snap)
qed

text \<open>The handlers of groups and items do not touch the costs.\<close>

interpretation costsKept: group_law "\<lambda>db db'. rt_Costs db' = rt_Costs db" "\<lambda>_ _. True" "\<lambda>_ _. True"
  by unfold_locales
    (auto simp: UpsertHeadPeriod_def UpsertDetailPeriod_def UpdateHead_def UpdateDetail_def CreateHead_def AddDetail_def
      SoftDeleteDetail_def SoftDeleteHead_def Let_def split: if_splits option.splits)

lemmas group_rows =
  costsKept.update_law [OF TrueI, THEN rowsConsistent_cong] costsKept.item_law [OF TrueI, THEN rowsConsistent_cong]
  costsKept.create_law [THEN rowsConsistent_cong] costsKept.add_items_law [THEN rowsConsistent_cong]
  costsKept.remove_items_law [THEN rowsConsistent_cong] costsKept.delete_law [THEN rowsConsistent_cong]

text \<open>(C27) In every raw material cost the selected marketing price is the one its marketing flag selects
  from the projections of the row, and the simulated price and the fix price are computed from the inputs of the
  row: whatever sequence of edits and calculations, with whatever calls failing, has written tables that were
  consistent, as empty ones are.\<close>

theorem rm_cost_rows_agree:
  fixes db :: "('f::linordered_field) rm_tables"
  assumes "rowsConsistent db" "r \<in> set (rt_Costs (fold rmRun acts db))"
  shows "rowConsistent r"
proof -
  have step: "rowsConsistent (rmRun a db)" if "rowsConsistent db" for a and db :: "'f rm_tables"
    using that by (cases a) (simp_all add: calculate_rows edit_inputs_rows edit_fix_rate_rows group_rows)
  have "rowsConsistent (fold rmRun acts db)" if "rowsConsistent db" for acts and db :: "'f rm_tables"
    using that by (induction acts arbitrary: db) (simp_all add: step)
  from this [of db acts] assms show ?thesis by (simp add: rowsConsistent_def)
qed

text \<open>A calculated row of the example, which has neither consumption nor stock, and the row of another group.\<close>

definition exampleRow :: "rat cost_row" where
  "exampleRow = rt_Costs exampleCalculated ! 1"

lemma exampleRow_facts:
  "length (rt_Costs exampleCalculated) = 2" "rc_CostMarketing (row_Cost exampleRow) = Some 10" "\<not> isV2Row exampleRow"
  by code_simp+

lemma rm_cost_rows_agree_witness:
  "rowConsistent exampleRow \<and> rc_CostMarketing (row_Cost exampleRow) = Some 10"
proof -
  have start: "rowsConsistent exampleStart" by code_simp
  have "fold rmRun [Calculate (\<lambda>_. False) [exampleSync ''202601''] 1 ''202601'' ''a'' ''manual''] exampleStart = exampleCalculated"
    by (simp add: exampleCalculated_run del: One_nat_def)
  moreover have "exampleRow \<in> set (rt_Costs exampleCalculated)"
    unfolding exampleRow_def by (rule nth_mem) (simp add: exampleRow_facts)
  ultimately show ?thesis using rm_cost_rows_agree [OF start] exampleRow_facts(2) by metis
qed

section \<open>A cost without landed rates\<close>

text \<open>The projections of a cost that is read without its rates and inputs are all zero.\<close>

lemma no_projections:
  "ComputeMarketingProjections (ratesTotals noRates) (headerInputsOf \<lparr>in_Numbers = noNumbers, in_ValuationFlag = v, in_MarketingFlag = m\<rparr>) =
    \<lparr>pj_SP = 0, pj_PP = 0, pj_FP = (0 :: 'f::linordered_field)\<rparr>"
  by (simp add: ComputeMarketingProjections_def ratesTotals_def noRates_def noNumbers_def headerInputsOf_def Let_def
      marketingPrice_def derefOrZero_def)

lemma SelectMarketing_zero: "SelectMarketing \<lparr>pj_SP = 0, pj_PP = 0, pj_FP = (0 :: 'f::linordered_field)\<rparr> flag = 0"
  by (simp add: SelectMarketing_def SelectMarketingWithFlag_def orNone_def floatEq_def FirstNonZeroWithLabel_def)

lemma applyEditPatches_none:
  assumes "ei_Numbers cmd = noNumbers" "ei_ValuationFlag cmd = None" "ei_MarketingFlag cmd = None"
    "in_Numbers cur = noNumbers"
  shows "applyEditPatches cmd cur = cur"
  using assms by (simp add: applyEditPatches_def patchOptFloat_def noNumbers_def orKeep_def Let_def)

lemma UpdateInputs_reload:
  assumes "UpdateInputs costID i rates m v updatedBy db = Inr db'"
  shows "\<exists>c. RMCost_GetByID costID db' = Inr c \<and> rc_CostMarketing c = Some m \<and> rc_CostSimulation c = Some v"
proof -
  let ?hit = "\<lambda>r. rc_ID (row_Cost r) = costID"
  have written: "?hit (writeInputs i rates m v updatedBy r) = ?hit r"
    "rc_CostMarketing (row_Cost (writeInputs i rates m v updatedBy r)) = Some m"
    "rc_CostSimulation (row_Cost (writeInputs i rates m v updatedBy r)) = Some v" for r
    by (simp_all add: writeInputs_def)
  from assms have hit: "\<exists>r \<in> set (rt_Costs db). ?hit r"
    and rows: "rt_Costs db' = map (\<lambda>r. if ?hit r then writeInputs i rates m v updatedBy r else r) (rt_Costs db)"
    by (auto simp: UpdateInputs_def Let_def list_ex_iff split: if_splits)
  from hit obtain r0 where "r0 \<in> set (rt_Costs db)" "?hit r0" by blast
  with rows have "writeInputs i rates m v updatedBy r0 \<in> set (rt_Costs db')" by force
  moreover have "?hit (writeInputs i rates m v updatedBy r0)" by (simp only: written \<open>?hit r0\<close>)
  ultimately have "\<exists>r \<in> set (rt_Costs db'). ?hit r" by (rule bexI [rotated])
  then obtain r where r: "find ?hit (rt_Costs db') = Some r"
    by (cases "find ?hit (rt_Costs db')") (auto simp only: find_None_iff)
  from find_SomeD [OF r] rows have "rc_CostMarketing (row_Cost r) = Some m" "rc_CostSimulation (row_Cost r) = Some v"
    by (auto simp: written split: if_splits)
  with r show ?thesis
    by (auto simp: RMCost_GetByID_def orError_def costToEntity_def AttachV2_def)
qed

text \<open>(C38) A cost whose row has neither a flag, nor an input, nor a landed rate is read without its PO rate and its
  projections. Saving its inputs unchanged then sets the selected marketing price to zero.\<close>

theorem saving_unread_cost_zeroes_it:
  fixes db :: "('f::linordered_field) rm_tables"
  assumes row: "find (\<lambda>r. rc_ID (row_Cost r) = ei_RMCostID cmd) (rt_Costs db) = Some r" "\<not> isV2Row r"
    and cmd: "ei_UpdatedBy cmd \<noteq> []" "ei_Numbers cmd = noNumbers" "ei_ValuationFlag cmd = None" "ei_MarketingFlag cmd = None"
  shows "\<exists>c db'. EditInputsHandle (\<lambda>_. False) cmd db = (Inr c, db') \<and> rc_CostMarketing c = Some 0"
proof -
  let ?id = "ei_RMCostID cmd" and ?cur = "\<lparr>in_Numbers = noNumbers, in_ValuationFlag = FlagAuto, in_MarketingFlag = FlagAuto\<rparr>"
  let ?c = "costToEntity r"
  from row(2) have c: "rc_Inputs ?c = None" "rc_Rates ?c = None" by (simp_all add: costToEntity_def)
  have id: "rc_ID ?c = ?id" using find_SomeD [OF row(1)] by (simp add: costToEntity_def AttachV2_def)
  have cur: "applyEditPatches cmd (currentV2Inputs ?c) = ?cur"
    using cmd c by (simp add: currentV2Inputs_def applyEditPatches_none)
  have hit: "list_ex (\<lambda>r. rc_ID (row_Cost r) = ?id) (rt_Costs db)" using find_SomeD [OF row(1)] by (auto simp: list_ex_iff)
  then have "\<exists>db'. UpdateInputs ?id ?cur rates 0 v (ei_UpdatedBy cmd) db = Inr db'" for rates v
    by (simp add: UpdateInputs_def Let_def valuationFlags_def marketingFlags_def)
  then obtain db' where db': "UpdateInputs ?id ?cur (buildV2Rates (totalsFromCost ?c)
      (ComputeMarketingProjections (totalsFromCost ?c) (headerInputsOf ?cur))) 0
      (ComputeSimulation (hi_SimulationRate (headerInputsOf ?cur)) (headerInputsOf ?cur)) (ei_UpdatedBy cmd) db = Inr db'"
    by metis
  have mkt: "SelectMarketing (ComputeMarketingProjections (totalsFromCost ?c) (headerInputsOf ?cur)) flag = 0" for flag
    by (simp add: totalsFromCost_def c no_projections SelectMarketing_zero)
  from UpdateInputs_reload [OF db'] obtain c' where "RMCost_GetByID ?id db' = Inr c'" "rc_CostMarketing c' = Some 0" by blast
  moreover have "RMCost_GetByID ?id db = Inr ?c" by (simp add: RMCost_GetByID_def row(1) orError_def)
  ultimately show ?thesis
    using cmd(1) db' by (simp add: EditInputsHandle_def Let_def tryRead_def tryWrite_def guardCall_def cur mkt id)
qed

definition exampleSave :: "rat edit_inputs_command" where
  "exampleSave =
     \<lparr>ei_RMCostID = 3, ei_Numbers = noNumbers, ei_ValuationFlag = None, ei_MarketingFlag = None,
      ei_ClearMarketingFreightRate = False, ei_ClearMarketingAntiDumpingPct = False, ei_ClearMarketingDutyPct = False,
      ei_ClearMarketingTransportRate = False, ei_ClearMarketingDefaultValue = False, ei_ClearSimulationRate = False,
      ei_UpdatedBy = ''b''\<rparr>"

lemma saving_unread_cost_zeroes_it_witness:
  "rc_CostMarketing (row_Cost exampleRow) = Some 10 \<and>
   (\<exists>c db'. EditInputsHandle (\<lambda>_. False) exampleSave exampleCalculated = (Inr c, db') \<and> rc_CostMarketing c = Some 0)"
proof -
  have "find (\<lambda>r. rc_ID (row_Cost r) = ei_RMCostID exampleSave) (rt_Costs exampleCalculated) = Some exampleRow" by code_simp
  then show ?thesis
    using saving_unread_cost_zeroes_it [OF _ exampleRow_facts(3), of exampleSave exampleCalculated] exampleRow_facts(2)
    by (simp add: exampleSave_def)
qed

end
