(* ===== verification/RMMembership.thy ===== *)
theory RMMembership
  imports RMRows
begin

text \<open>
  Who is a member of a raw material group. The invariant: an item and grade is active in one row only, a code names
  one group, and the group of every item and of every cost exists. Every statement keeps it, hence every run of a
  handler; then what adding items does to the rows that are held.
\<close>

section \<open>The invariant\<close>

definition activeRow :: "'f group_detail \<Rightarrow> bool" where
  "activeRow d \<longleftrightarrow> gd_IsActive d \<and> \<not> gd_Deleted d"

definition holdsItem :: "string \<Rightarrow> string \<Rightarrow> 'f group_detail \<Rightarrow> bool" where
  "holdsItem itemCode gradeCode d \<longleftrightarrow> activeRow d \<and> gd_ItemCode d = itemCode \<and> gd_GradeCode d = gradeCode"

definition oneRowPerItem :: "'f rm_tables \<Rightarrow> bool" where
  "oneRowPerItem db \<longleftrightarrow>
     distinct (map gd_ID (rt_Details db)) \<and>
     (\<forall>d \<in> set (rt_Details db). \<forall>e \<in> set (rt_Details db).
        activeRow d \<and> activeRow e \<and> gd_ItemCode d = gd_ItemCode e \<and> gd_GradeCode d = gd_GradeCode e \<longrightarrow> gd_ID d = gd_ID e)"

definition oneHeadPerCode :: "'f rm_tables \<Rightarrow> bool" where
  "oneHeadPerCode db \<longleftrightarrow>
     distinct (map gh_ID (rt_Heads db)) \<and>
     (\<forall>h \<in> set (rt_Heads db). \<forall>k \<in> set (rt_Heads db).
        \<not> gh_Deleted h \<and> \<not> gh_Deleted k \<and> gh_Code h = gh_Code k \<longrightarrow> gh_ID h = gh_ID k)"

definition headsExist :: "'f rm_tables \<Rightarrow> bool" where
  "headsExist db \<longleftrightarrow>
     (\<forall>d \<in> set (rt_Details db). \<not> gd_Deleted d \<longrightarrow> ExistsHeadByID (gd_HeadID d) db) \<and>
     (\<forall>r \<in> set (rt_Costs db). ExistsHeadByID (rc_GroupHeadID (row_Cost r)) db)"

definition idsUsed :: "'f rm_tables \<Rightarrow> bool" where
  "idsUsed db \<longleftrightarrow>
     (\<forall>h \<in> set (rt_Heads db). gh_ID h < rt_NextID db) \<and> (\<forall>d \<in> set (rt_Details db). gd_ID d < rt_NextID db)"

definition membersOK :: "'f rm_tables \<Rightarrow> bool" where
  "membersOK db \<longleftrightarrow> oneRowPerItem db \<and> oneHeadPerCode db \<and> headsExist db \<and> idsUsed db"

lemma oneRowPerItem_iff:
  "oneRowPerItem db \<longleftrightarrow> distinct (map gd_ID (rt_Details db)) \<and>
    (\<forall>d e item grade. d \<in> set (rt_Details db) \<longrightarrow> e \<in> set (rt_Details db) \<longrightarrow>
       holdsItem item grade d \<longrightarrow> holdsItem item grade e \<longrightarrow> gd_ID d = gd_ID e)"
  unfolding oneRowPerItem_def holdsItem_def by (intro conj_cong HOL.refl iffI allI ballI impI) metis+

lemma membersOK_D:
  assumes "membersOK db"
  shows members_item_ids: "distinct (map gd_ID (rt_Details db))"
    and members_one_row: "\<And>d e item grade. d \<in> set (rt_Details db) \<Longrightarrow> e \<in> set (rt_Details db) \<Longrightarrow>
      holdsItem item grade d \<Longrightarrow> holdsItem item grade e \<Longrightarrow> gd_ID d = gd_ID e"
    and members_head_ids: "distinct (map gh_ID (rt_Heads db))"
    and members_one_head: "\<And>h k. h \<in> set (rt_Heads db) \<Longrightarrow> k \<in> set (rt_Heads db) \<Longrightarrow>
      \<not> gh_Deleted h \<Longrightarrow> \<not> gh_Deleted k \<Longrightarrow> gh_Code h = gh_Code k \<Longrightarrow> gh_ID h = gh_ID k"
    and members_item_head: "\<And>d. d \<in> set (rt_Details db) \<Longrightarrow> \<not> gd_Deleted d \<Longrightarrow> ExistsHeadByID (gd_HeadID d) db"
    and members_cost_head: "\<And>r. r \<in> set (rt_Costs db) \<Longrightarrow> ExistsHeadByID (rc_GroupHeadID (row_Cost r)) db"
    and members_head_used: "\<And>h. h \<in> set (rt_Heads db) \<Longrightarrow> gh_ID h < rt_NextID db"
    and members_item_used: "\<And>d. d \<in> set (rt_Details db) \<Longrightarrow> gd_ID d < rt_NextID db"
  using assms unfolding membersOK_def oneRowPerItem_iff oneHeadPerCode_def headsExist_def idsUsed_def by blast+

lemma membersOK_I:
  assumes "oneRowPerItem db" "distinct (map gh_ID (rt_Heads db))"
    and "\<And>h k. h \<in> set (rt_Heads db) \<Longrightarrow> k \<in> set (rt_Heads db) \<Longrightarrow>
      \<not> gh_Deleted h \<Longrightarrow> \<not> gh_Deleted k \<Longrightarrow> gh_Code h = gh_Code k \<Longrightarrow> gh_ID h = gh_ID k"
    and "\<And>d. d \<in> set (rt_Details db) \<Longrightarrow> \<not> gd_Deleted d \<Longrightarrow> ExistsHeadByID (gd_HeadID d) db"
    and "\<And>r. r \<in> set (rt_Costs db) \<Longrightarrow> ExistsHeadByID (rc_GroupHeadID (row_Cost r)) db"
    and "\<And>h. h \<in> set (rt_Heads db) \<Longrightarrow> gh_ID h < rt_NextID db"
    and "\<And>d. d \<in> set (rt_Details db) \<Longrightarrow> gd_ID d < rt_NextID db"
  shows "membersOK db"
  using assms unfolding membersOK_def oneHeadPerCode_def headsExist_def idsUsed_def by blast

lemma membersOK_one: "membersOK db \<Longrightarrow> oneRowPerItem db"
  by (simp add: membersOK_def)

lemma one_row_cong: "rt_Details db' = rt_Details db \<Longrightarrow> oneRowPerItem db' = oneRowPerItem db"
  by (simp add: oneRowPerItem_def)

lemma live_cong: "rt_Heads db' = rt_Heads db \<Longrightarrow> ExistsHeadByID headID db' = ExistsHeadByID headID db"
  by (simp add: ExistsHeadByID_def)

lemma membersOK_cong:
  assumes heads: "rt_Heads db' = rt_Heads db" and details: "rt_Details db' = rt_Details db"
    and ids: "rt_NextID db \<le> rt_NextID db'"
    and costs: "\<And>r. r \<in> set (rt_Costs db') \<Longrightarrow> ExistsHeadByID (rc_GroupHeadID (row_Cost r)) db"
    and ok: "membersOK db"
  shows "membersOK db'"
proof (rule membersOK_I)
  show "oneRowPerItem db'" using membersOK_one [OF ok] by (simp add: one_row_cong [OF details])
  show "distinct (map gh_ID (rt_Heads db'))" using members_head_ids [OF ok] by (simp add: heads)
  show "gh_ID h < rt_NextID db'" if "h \<in> set (rt_Heads db')" for h
    using members_head_used [OF ok] that ids by (fastforce simp: heads)
  show "gd_ID d < rt_NextID db'" if "d \<in> set (rt_Details db')" for d
    using members_item_used [OF ok] that ids by (fastforce simp: details)
  show "ExistsHeadByID (rc_GroupHeadID (row_Cost r)) db'" if "r \<in> set (rt_Costs db')" for r
    using costs [OF that] by (simp add: live_cong [OF heads])
  show "ExistsHeadByID (gd_HeadID d) db'" if "d \<in> set (rt_Details db')" "\<not> gd_Deleted d" for d
    using members_item_head [OF ok] that by (simp add: live_cong [OF heads] details)
qed (rule members_one_head [OF ok]; simp add: heads)

section \<open>Statements on heads\<close>

definition headKey :: "'f group_head \<Rightarrow> nat \<times> string \<times> bool" where
  "headKey h = (gh_ID h, gh_Code h, gh_Deleted h)"

lemma membersOK_heads:
  fixes db :: "'a rm_tables"
  assumes ok: "membersOK db" and other: "rt_Details db' = rt_Details db" "rt_Costs db' = rt_Costs db"
    "rt_NextID db' = rt_NextID db" and keys: "map headKey (rt_Heads db') = map headKey (rt_Heads db)"
  shows "membersOK db'"
proof (rule membersOK_I)
  have sets: "headKey ` set (rt_Heads db') = headKey ` set (rt_Heads db)"
    using arg_cong [OF keys, of set] by simp
  have old: "\<exists>k \<in> set (rt_Heads db). headKey k = headKey h" if "h \<in> set (rt_Heads db')" for h
  proof -
    from that have "headKey h \<in> headKey ` set (rt_Heads db)" unfolding sets [symmetric] by (rule imageI)
    then show ?thesis by (rule imageE) auto
  qed
  have new: "\<exists>k \<in> set (rt_Heads db'). headKey k = headKey h" if "h \<in> set (rt_Heads db)" for h
  proof -
    from that have "headKey h \<in> headKey ` set (rt_Heads db')" unfolding sets by (rule imageI)
    then show ?thesis by (rule imageE) auto
  qed
  have live: "ExistsHeadByID headID db'" if "ExistsHeadByID headID db" for headID
    using that new by (fastforce simp: ExistsHeadByID_def list_ex_iff headKey_def)
  show "oneRowPerItem db'" using membersOK_one [OF ok] by (simp add: one_row_cong [OF other(1)])
  have "map gh_ID hs = map fst (map headKey hs)" for hs :: "'a group_head list"
    by (simp add: headKey_def)
  with keys have "map gh_ID (rt_Heads db') = map gh_ID (rt_Heads db)" by metis
  then show "distinct (map gh_ID (rt_Heads db'))" using members_head_ids [OF ok] by simp
  show "gh_ID h < rt_NextID db'" if "h \<in> set (rt_Heads db')" for h
  proof -
    from old [OF that] obtain k where "k \<in> set (rt_Heads db)" "headKey k = headKey h" by blast
    then show ?thesis using members_head_used [OF ok, of k] by (simp add: other headKey_def)
  qed
  show "gh_ID h = gh_ID k"
    if hk: "h \<in> set (rt_Heads db')" "k \<in> set (rt_Heads db')" "\<not> gh_Deleted h" "\<not> gh_Deleted k" "gh_Code h = gh_Code k" for h k
  proof -
    obtain a b where "a \<in> set (rt_Heads db)" "headKey a = headKey h" "b \<in> set (rt_Heads db)" "headKey b = headKey k"
      using old hk(1,2) by blast
    with members_one_head [OF ok, of a b] hk(3-5) show ?thesis by (simp add: headKey_def)
  qed
  show "ExistsHeadByID (gd_HeadID d) db'" if "d \<in> set (rt_Details db')" "\<not> gd_Deleted d" for d
    using that members_item_head [OF ok] by (simp add: live other)
  show "ExistsHeadByID (rc_GroupHeadID (row_Cost r)) db'" if "r \<in> set (rt_Costs db')" for r
    using that members_cost_head [OF ok] by (simp add: live other)
qed (use members_item_used [OF ok] in \<open>simp add: other\<close>)

lemma update_head_members:
  assumes "membersOK db" "UpdateHead h db = Inr db'"
  shows "membersOK db'"
  using assms(2)
  by (intro membersOK_heads [OF assms(1)]) (auto simp: UpdateHead_def Let_def headKey_def split: if_splits)

lemma create_head_members:
  assumes ok: "membersOK db" and c: "CreateHead h db = Inr db'" and new: "gh_ID h = rt_NextID db"
  shows "membersOK db'"
proof -
  define h1 where "h1 = h\<lparr>gh_Marketing := Head_MarketingInputs h, gh_UpdatedBy := None, gh_Deleted := False\<rparr>"
  have h1: "gh_ID h1 = rt_NextID db" "gh_Code h1 = gh_Code h" by (simp_all add: h1_def new)
  from c have db': "rt_Heads db' = rt_Heads db @ [h1]" "rt_NextID db' = rt_NextID db + 1"
    "rt_Details db' = rt_Details db" "rt_Costs db' = rt_Costs db"
    and free: "\<not> ExistsHeadByCode (gh_Code h) db"
    by (auto simp: CreateHead_def h1_def split: if_splits)
  have code: "gh_Code k \<noteq> gh_Code h" if "k \<in> set (rt_Heads db)" "\<not> gh_Deleted k" for k
    using free that by (auto simp: ExistsHeadByCode_def list_ex_iff)
  have live: "ExistsHeadByID headID db \<Longrightarrow> ExistsHeadByID headID db'" for headID
    by (simp add: ExistsHeadByID_def db')
  note used = members_head_used [OF ok]
  show ?thesis
  proof (rule membersOK_I)
    show "oneRowPerItem db'" using membersOK_one [OF ok] by (simp add: one_row_cong [OF db'(3)])
    show "distinct (map gh_ID (rt_Heads db'))"
      using members_head_ids [OF ok] by (auto simp: db' h1 dest: used)
    show "gh_ID g = gh_ID k"
      if "g \<in> set (rt_Heads db')" "k \<in> set (rt_Heads db')" "\<not> gh_Deleted g" "\<not> gh_Deleted k" "gh_Code g = gh_Code k" for g k
    proof -
      from that(1,2) have "g \<in> set (rt_Heads db) \<or> g = h1" "k \<in> set (rt_Heads db) \<or> k = h1" by (auto simp: db')
      with that(3-5) code h1(2) members_one_head [OF ok, of g k] show ?thesis by metis
    qed
    show "ExistsHeadByID (gd_HeadID d) db'" if "d \<in> set (rt_Details db')" "\<not> gd_Deleted d" for d
      using that members_item_head [OF ok] by (simp add: live db')
    show "ExistsHeadByID (rc_GroupHeadID (row_Cost r)) db'" if "r \<in> set (rt_Costs db')" for r
      using that members_cost_head [OF ok] by (simp add: live db')
  qed (use used members_item_used [OF ok] in \<open>auto simp: db' h1 less_Suc_eq\<close>)
qed

section \<open>Statements on items\<close>

lemma rows_written:
  assumes ok: "oneRowPerItem db"
    and rows: "rt_Details db' = map (\<lambda>r. if gd_ID r = k \<and> \<not> gd_Deleted r then f r else r) (rt_Details db)"
    and id: "\<And>r. gd_ID (f r) = gd_ID r"
    and free: "\<And>r e item grade. r \<in> set (rt_Details db) \<Longrightarrow> gd_ID r = k \<Longrightarrow> \<not> gd_Deleted r \<Longrightarrow>
      holdsItem item grade (f r) \<Longrightarrow> e \<in> set (rt_Details db) \<Longrightarrow> holdsItem item grade e \<Longrightarrow> gd_ID e = k"
  shows "oneRowPerItem db'"
proof -
  have "map gd_ID (rt_Details db') = map gd_ID (rt_Details db)"
    by (simp add: rows id)
  then have "distinct (map gd_ID (rt_Details db'))"
    using ok by (simp add: oneRowPerItem_iff)
  moreover have "gd_ID d = gd_ID e"
    if in': "d \<in> set (rt_Details db')" "e \<in> set (rt_Details db')" and hold: "holdsItem item grade d" "holdsItem item grade e"
    for d e item grade
  proof -
    from in' obtain r s where r: "r \<in> set (rt_Details db)" "d = (if gd_ID r = k \<and> \<not> gd_Deleted r then f r else r)"
      and s: "s \<in> set (rt_Details db)" "e = (if gd_ID s = k \<and> \<not> gd_Deleted s then f s else s)"
      by (auto simp: rows)
    have same: "gd_ID r = gd_ID s" if "d = r" "e = s"
      using ok r(1) s(1) hold that unfolding oneRowPerItem_iff by blast
    have "gd_ID d = gd_ID r" "gd_ID e = gd_ID s" using r(2) s(2) id by simp_all
    moreover have "gd_ID r = gd_ID s"
    proof (cases "d = r")
      case True
      show ?thesis
      proof (cases "e = s")
        case False
        with s(2) have "gd_ID s = k" "\<not> gd_Deleted s" "e = f s" by (auto split: if_splits)
        with free [OF s(1)] hold r(1) True show ?thesis by metis
      qed (use same True in simp)
    next
      case False
      with r(2) have hit: "gd_ID r = k" "\<not> gd_Deleted r" "d = f r" by (auto split: if_splits)
      show ?thesis
      proof (cases "e = s")
        case True
        with free [OF r(1)] hit hold s(1) show ?thesis by metis
      next
        case False
        with s(2) hit show ?thesis by (auto split: if_splits)
      qed
    qed
    ultimately show ?thesis by simp
  qed
  ultimately show ?thesis unfolding oneRowPerItem_iff by blast
qed

text \<open>Statements that write rows of items and leave their ids and heads.\<close>

lemma membersOK_details:
  assumes ok: "membersOK db" and one: "oneRowPerItem db'"
    and other: "rt_Heads db' = rt_Heads db" "rt_Costs db' = rt_Costs db" "rt_NextID db' = rt_NextID db"
      "rt_Details db' = map f (rt_Details db)"
    and f: "\<And>r. gd_ID (f r) = gd_ID r" "\<And>r. gd_HeadID (f r) = gd_HeadID r" "\<And>r. gd_Deleted r \<Longrightarrow> gd_Deleted (f r)"
  shows "membersOK db'"
proof (rule membersOK_I [OF one])
  show "distinct (map gh_ID (rt_Heads db'))" using members_head_ids [OF ok] by (simp add: other)
  show "gh_ID h = gh_ID k"
    if "h \<in> set (rt_Heads db')" "k \<in> set (rt_Heads db')" "\<not> gh_Deleted h" "\<not> gh_Deleted k" "gh_Code h = gh_Code k" for h k
    by (rule members_one_head [OF ok]) (use that in \<open>simp_all add: other\<close>)
  show "ExistsHeadByID (gd_HeadID d) db'" if "d \<in> set (rt_Details db')" "\<not> gd_Deleted d" for d
  proof -
    from that(1) obtain r where "r \<in> set (rt_Details db)" "d = f r" by (auto simp: other(4))
    moreover from this that(2) f(3) [of r] have "\<not> gd_Deleted r" by blast
    ultimately show ?thesis using members_item_head [OF ok] by (simp add: live_cong [OF other(1)] f)
  qed
  show "ExistsHeadByID (rc_GroupHeadID (row_Cost r)) db'" if "r \<in> set (rt_Costs db')" for r
    using that members_cost_head [OF ok] by (simp add: live_cong [OF other(1)] other)
qed (use members_head_used [OF ok] members_item_used [OF ok] in \<open>auto simp: other f\<close>)

lemma update_detail_members:
  assumes ok: "membersOK db" and u: "UpdateDetail d db = Inr db'"
  shows "membersOK db'"
proof -
  let ?hit = "\<lambda>r. gd_ID r = gd_ID d \<and> \<not> gd_Deleted r"
  from u obtain r where r: "find ?hit (rt_Details db) = Some r" and free: "\<not> itemTaken (detailWritten d r) db"
    and db': "db' = db\<lparr>rt_Details := map (\<lambda>r. if ?hit r then detailWritten d r else r) (rt_Details db)\<rparr>"
    by (auto simp: UpdateDetail_def Let_def split: option.splits if_splits)
  from find_SomeD [OF r] have rin: "?hit r" "r \<in> set (rt_Details db)" by simp_all
  have only: "s = r" if "s \<in> set (rt_Details db)" "gd_ID s = gd_ID d" for s
    using members_item_ids [OF ok] rin that by (metis distinct_map inj_onD)
  let ?f = "\<lambda>r. if ?hit r then (detailWritten d r)\<lparr>gd_ID := gd_ID r\<rparr> else r"
  have f: "(if ?hit r then detailWritten d r else r) = ?f r" for r
    by (auto simp: detailWritten_def)
  have rows: "rt_Details db' = map ?f (rt_Details db)"
    by (simp only: db' f) simp
  have "oneRowPerItem db'"
  proof (rule rows_written [where k = "gd_ID d" and f = "\<lambda>r. (detailWritten d r)\<lparr>gd_ID := gd_ID r\<rparr>"])
    show "oneRowPerItem db" using ok by (simp add: membersOK_def)
    show "rt_Details db' = map ?f (rt_Details db)" by (rule rows)
    fix s e item grade
    assume s: "s \<in> set (rt_Details db)" "gd_ID s = gd_ID d"
      and hold: "holdsItem item grade ((detailWritten d s)\<lparr>gd_ID := gd_ID s\<rparr>)"
      and e: "e \<in> set (rt_Details db)" "holdsItem item grade e"
    from only [OF s] have "s = r" .
    with free hold e show "gd_ID e = gd_ID d"
      by (auto simp: itemTaken_def holdsItem_def activeRow_def list_ex_iff detailWritten_def)
  qed simp
  then show ?thesis
    by (rule membersOK_details [OF ok _ _ _ _ rows]) (simp_all add: db' detailWritten_def)
qed

lemma soft_delete_detail_members:
  assumes ok: "membersOK db" and d: "SoftDeleteDetail detailID db = Inr db'"
  shows "membersOK db'"
proof -
  let ?f = "\<lambda>r. if gd_ID r = detailID \<and> \<not> gd_Deleted r then r\<lparr>gd_IsActive := False, gd_Deleted := True\<rparr> else r"
  from d have db': "db' = db\<lparr>rt_Details := map ?f (rt_Details db)\<rparr>"
    by (simp add: SoftDeleteDetail_def Let_def split: if_splits)
  have "oneRowPerItem db'"
    by (rule rows_written [where k = detailID and f = "\<lambda>r. r\<lparr>gd_IsActive := False, gd_Deleted := True\<rparr>"])
      (use ok in \<open>simp_all add: membersOK_def db' holdsItem_def activeRow_def\<close>)
  then show ?thesis
    by (rule membersOK_details [OF ok, where f = ?f]) (simp_all add: db')
qed

lemma add_detail_members:
  assumes ok: "membersOK db" and a: "AddDetail d db = Inr db'" and new: "gd_ID d = rt_NextID db"
    and live: "ExistsHeadByID (gd_HeadID d) db"
  shows "membersOK db'"
proof -
  define d1 where "d1 = d\<lparr>gd_UpdatedBy := None, gd_Deleted := False\<rparr>"
  from a have db': "rt_Details db' = rt_Details db @ [d1]" "rt_NextID db' = rt_NextID db + 1"
    "rt_Heads db' = rt_Heads db" "rt_Costs db' = rt_Costs db"
    and free: "\<not> itemTaken d db"
    by (auto simp: AddDetail_def d1_def split: if_splits)
  note used = members_item_used [OF ok]
  have d1: "gd_ID d1 = rt_NextID db" "gd_HeadID d1 = gd_HeadID d" by (simp_all add: d1_def new)
  have alone: "\<not> holdsItem item grade e" if "holdsItem item grade d1" "e \<in> set (rt_Details db)" for item grade e
    using free that used [OF that(2)] new by (auto simp: itemTaken_def holdsItem_def activeRow_def list_ex_iff d1_def)
  have "oneRowPerItem db'"
    unfolding oneRowPerItem_iff
  proof (intro conjI allI impI)
    show "distinct (map gd_ID (rt_Details db'))"
      using members_item_ids [OF ok] by (auto simp: db' d1 dest: used)
    fix x y item grade
    assume "x \<in> set (rt_Details db')" "y \<in> set (rt_Details db')" "holdsItem item grade x" "holdsItem item grade y"
    then show "gd_ID x = gd_ID y"
      using members_one_row [OF ok, of x y item grade] alone [of item grade x] alone [of item grade y] by (auto simp: db')
  qed
  then show ?thesis
  proof (rule membersOK_I)
    show "distinct (map gh_ID (rt_Heads db'))" using members_head_ids [OF ok] by (simp add: db')
    show "gh_ID h = gh_ID k"
      if "h \<in> set (rt_Heads db')" "k \<in> set (rt_Heads db')" "\<not> gh_Deleted h" "\<not> gh_Deleted k" "gh_Code h = gh_Code k" for h k
      by (rule members_one_head [OF ok]) (use that in \<open>simp_all add: db'\<close>)
    show "ExistsHeadByID (gd_HeadID e) db'" if "e \<in> set (rt_Details db')" "\<not> gd_Deleted e" for e
      using that members_item_head [OF ok] live by (auto simp: live_cong [OF db'(3)] db'(1) d1)
    show "ExistsHeadByID (rc_GroupHeadID (row_Cost r)) db'" if "r \<in> set (rt_Costs db')" for r
      using that members_cost_head [OF ok] by (simp add: live_cong [OF db'(3)] db')
  qed (use members_head_used [OF ok] used in \<open>auto simp: db' d1 less_Suc_eq\<close>)
qed

section \<open>Deleting a group\<close>

lemma soft_delete_head_members:
  fixes db :: "'a rm_tables"
  assumes ok: "membersOK db" and d: "SoftDeleteHead headID db = Inr db'" and unused: "\<not> ExistsForGroupHead headID db"
  shows "membersOK db'"
proof -
  define f where "f h = (if gh_ID h = headID \<and> \<not> gh_Deleted h then h\<lparr>gh_IsActive := False, gh_Deleted := True\<rparr> else h)"
    for h :: "'a group_head"
  define g where "g r = (if gd_HeadID r = headID \<and> \<not> gd_Deleted r then r\<lparr>gd_IsActive := False, gd_Deleted := True\<rparr> else r)"
    for r :: "'a group_detail"
  from d have db': "rt_Heads db' = map f (rt_Heads db)" "rt_Details db' = map g (rt_Details db)"
    "rt_Costs db' = rt_Costs db" "rt_NextID db' = rt_NextID db"
    by (auto simp: SoftDeleteHead_def f_def g_def split: if_splits)
  have f: "gh_ID (f h) = gh_ID h" "gh_Code (f h) = gh_Code h" "\<not> gh_Deleted (f h) \<Longrightarrow> \<not> gh_Deleted h" for h
    by (auto simp: f_def split: if_splits)
  have g: "gd_ID (g r) = gd_ID r" "holdsItem item grade (g r) \<Longrightarrow> holdsItem item grade r" for r item grade
    by (auto simp: g_def holdsItem_def activeRow_def split: if_splits)
  have live: "ExistsHeadByID k db'" if "ExistsHeadByID k db" "k \<noteq> headID" for k
    using that by (auto simp: ExistsHeadByID_def db' list_ex_iff f_def)
  show ?thesis
  proof (rule membersOK_I)
    show "oneRowPerItem db'"
      unfolding oneRowPerItem_iff
    proof (intro conjI allI impI)
      have "map gd_ID (rt_Details db') = map gd_ID (rt_Details db)" by (simp add: db' g)
      then show "distinct (map gd_ID (rt_Details db'))" using members_item_ids [OF ok] by simp
      fix x y item grade
      assume xy: "x \<in> set (rt_Details db')" "y \<in> set (rt_Details db')" "holdsItem item grade x" "holdsItem item grade y"
      then obtain a b where "x = g a" "a \<in> set (rt_Details db)" "y = g b" "b \<in> set (rt_Details db)"
        by (auto simp: db')
      with xy(3,4) g members_one_row [OF ok, of a b item grade] show "gd_ID x = gd_ID y" by metis
    qed
    have "map gh_ID (rt_Heads db') = map gh_ID (rt_Heads db)" by (simp add: db' f)
    then show "distinct (map gh_ID (rt_Heads db'))" using members_head_ids [OF ok] by simp
    show "gh_ID h = gh_ID k"
      if hk: "h \<in> set (rt_Heads db')" "k \<in> set (rt_Heads db')" "\<not> gh_Deleted h" "\<not> gh_Deleted k" "gh_Code h = gh_Code k" for h k
    proof -
      from hk(1,2) obtain a b where "h = f a" "a \<in> set (rt_Heads db)" "k = f b" "b \<in> set (rt_Heads db)"
        by (auto simp: db')
      with hk(3-5) f members_one_head [OF ok, of a b] show ?thesis by metis
    qed
    show "ExistsHeadByID (gd_HeadID e) db'" if "e \<in> set (rt_Details db')" "\<not> gd_Deleted e" for e
      using that members_item_head [OF ok] live by (auto simp: db'(2) g_def split: if_splits)
    show "ExistsHeadByID (rc_GroupHeadID (row_Cost r)) db'" if "r \<in> set (rt_Costs db')" for r
      using that members_cost_head [OF ok, of r] live unused by (auto simp: db'(3) ExistsForGroupHead_def list_ex_iff)
  qed (use members_head_used [OF ok] members_item_used [OF ok] in \<open>auto simp: db' f g\<close>)
qed

section \<open>Every run keeps the members in order\<close>

lemma cost_rows_members:
  assumes ok: "membersOK db"
  shows "UpdateInputs costID i rates m v by db = Inr db' \<Longrightarrow> membersOK db'"
    and "UpdateFLAndCostVal costID x y by db = Inr db' \<Longrightarrow> membersOK db'"
proof -
  have same: "membersOK (db\<lparr>rt_Costs := map f (rt_Costs db)\<rparr>)"
    if "\<And>r. rc_GroupHeadID (row_Cost (f r)) = rc_GroupHeadID (row_Cost r)" for f
    by (rule membersOK_cong [OF _ _ _ _ ok]) (use members_cost_head [OF ok] that in auto)
  show "membersOK db'" if "UpdateInputs costID i rates m v by db = Inr db'"
    using that same by (auto simp: UpdateInputs_def Let_def writeInputs_def split: if_splits)
  show "membersOK db'" if "UpdateFLAndCostVal costID x y by db = Inr db'"
    using that same by (auto simp: UpdateFLAndCostVal_def Let_def split: if_splits)
qed

lemma upsert_cost_members:
  assumes ok: "membersOK db"
    and head: "ExistsHeadByID (rc_GroupHeadID c) db \<or> ExistsForGroupHead (rc_GroupHeadID c) db"
  shows "membersOK (RMCost_Upsert c hist (db\<lparr>rt_NextID := rt_NextID db + 1\<rparr>))"
proof -
  have live: "ExistsHeadByID (rc_GroupHeadID c) db"
    using head members_cost_head [OF ok] unfolding ExistsForGroupHead_def list_ex_iff by metis
  have "rc_GroupHeadID (row_Cost (costInserted c)) = rc_GroupHeadID c"
    "rc_GroupHeadID (row_Cost (costConflict c r)) = rc_GroupHeadID c" for r
    by (simp_all add: costInserted_def costConflict_def Let_def)
  then show ?thesis
    using live members_cost_head [OF ok]
    by (intro membersOK_cong [OF _ _ _ _ ok])
      (auto simp: RMCost_Upsert_def upsertCost_def upsertRow_def split: if_splits)
qed

lemma period_rows_members:
  "membersOK (UpsertHeadPeriod s db) = membersOK db" "membersOK (InsertHeadPeriodIfAbsent s db) = membersOK db"
  "membersOK (UpsertDetailPeriod t db) = membersOK db" "membersOK (InsertDetailPeriodIfAbsent t db) = membersOK db"
  by (simp_all add: membersOK_def oneRowPerItem_def oneHeadPerCode_def headsExist_def idsUsed_def ExistsHeadByID_def
      UpsertHeadPeriod_def InsertHeadPeriodIfAbsent_def UpsertDetailPeriod_def InsertDetailPeriodIfAbsent_def)

interpretation members: table_law "\<lambda>db db'. membersOK db \<longrightarrow> membersOK db'" "\<lambda>_ _. True" "\<lambda>_ _. True"
proof (unfold_locales; (simp only: period_rows_members simp_thms)?; (intro impI)?)
  fix db db' :: "'a rm_tables"
  assume same: "rt_Heads db' = rt_Heads db" "rt_Details db' = rt_Details db" "rt_Costs db' = rt_Costs db"
      "rt_NextID db \<le> rt_NextID db'" and ok: "membersOK db"
  show "membersOK db'" by (rule membersOK_cong [OF same(1,2,4) _ ok]) (use same(3) members_cost_head [OF ok] in simp)
qed (blast intro: update_head_members update_detail_members create_head_members add_detail_members
    soft_delete_detail_members soft_delete_head_members upsert_cost_members cost_rows_members)+

lemma editsOnly_any: "editsOnly (\<lambda>_ _. True) (\<lambda>_ _. True) a"
  by (cases a) simp_all

lemma runs_keep_members: "membersOK db \<Longrightarrow> membersOK (fold rmRun acts db)"
  using members.actions_law [of acts db] editsOnly_any by blast

section \<open>What adding items does\<close>

definition itemHeld :: "string \<Rightarrow> string \<Rightarrow> 'f rm_tables \<Rightarrow> bool" where
  "itemHeld itemCode gradeCode db \<longleftrightarrow> list_ex (holdsItem itemCode gradeCode) (rt_Details db)"

lemma held_find:
  "GetActiveDetailByItemCodeGrade itemCode gradeCode db = find (holdsItem itemCode gradeCode) (rt_Details db)"
  unfolding GetActiveDetailByItemCodeGrade_def
  by (rule arg_cong [where f = "\<lambda>p. find p (rt_Details db)"]) (auto simp: holdsItem_def activeRow_def)

lemma UpdateDetail_row:
  assumes ok: "membersOK db" and r: "r \<in> set (rt_Details db)" "\<not> gd_Deleted r" "gd_ID r = gd_ID d"
    and u: "UpdateDetail d db = Inr db'"
  shows "rt_Details db' = map (\<lambda>s. if s = r then detailWritten d r else s) (rt_Details db)"
proof -
  have only: "s = r" if "s \<in> set (rt_Details db)" "gd_ID s = gd_ID d" for s
    using members_item_ids [OF ok] r that by (metis distinct_map inj_onD)
  from u have "rt_Details db' = map (\<lambda>s. if gd_ID s = gd_ID d \<and> \<not> gd_Deleted s then detailWritten d s else s) (rt_Details db)"
    by (auto simp: UpdateDetail_def Let_def split: option.splits if_splits)
  moreover have "(if gd_ID s = gd_ID d \<and> \<not> gd_Deleted s then detailWritten d s else s) = (if s = r then detailWritten d r else s)"
    if "s \<in> set (rt_Details db)" for s
  proof (cases "gd_ID s = gd_ID d")
    case True
    with only [OF that] have "s = r" .
    with r show ?thesis by simp
  qed (use r in auto)
  ultimately show ?thesis by simp
qed

lemma try_simps:
  "tryRead (Inr v) db k = k v" "tryRead (Inl x) db k = (Inl x, db)"
  "tryWrite lost c (Inr db1) db k' = (if lost c then (Inl RMQueryFailed, db) else k' db1)"
  by (simp_all add: tryRead_def tryWrite_def guardCall_def)

text \<open>What one item does: the item is held afterwards, and what was held still is.\<close>

lemma processItem_held:
  assumes ok: "membersOK db" and p: "processItem lost i headID createdBy inp db = (Inr out, db')"
  shows "itemHeld c g db \<Longrightarrow> itemHeld c g db'"
    and "NewItemCode (ai_ItemCode inp) = Inr itemCode \<Longrightarrow> itemHeld itemCode (ai_GradeCode inp) db'"
proof -
  consider (bad) "db' = db" "\<And>code. NewItemCode (ai_ItemCode inp) \<noteq> Inr code"
    | (same) code d where "NewItemCode (ai_ItemCode inp) = Inr code"
        "find (holdsItem code (ai_GradeCode inp)) (rt_Details db) = Some d" "db' = db"
    | (fill) code d d' where "NewItemCode (ai_ItemCode inp) = Inr code"
        "find (holdsItem code (ai_GradeCode inp)) (rt_Details db) = Some d"
        "applyItemMetadata inp createdBy d = Inr d'" "UpdateDetail d' db = Inr db'"
    | (add) code d where "NewItemCode (ai_ItemCode inp) = Inr code"
        "tryRM (NewDetail (rt_NextID db) headID code createdBy) (applyItemMetadata inp createdBy) = Inr d"
        "AddDetail d db = Inr db'"
  proof (cases "NewItemCode (ai_ItemCode inp)")
    case Inl
    with p bad show ?thesis by (simp add: processItem_def)
  next
    case (Inr code)
    show ?thesis
    proof (cases "find (holdsItem code (ai_GradeCode inp)) (rt_Details db)")
      case None
      with p Inr have "tryRead (tryRM (NewDetail (rt_NextID db) headID code createdBy) (applyItemMetadata inp createdBy)) db
          (\<lambda>d. tryWrite lost (CallAddDetail i) (AddDetail d db) db (\<lambda>db. (Inr (Inr d), db))) = (Inr out, db')"
        unfolding processItem_def held_find by (simp add: guardCall_def try_simps split: if_splits)
      then obtain d where "tryRM (NewDetail (rt_NextID db) headID code createdBy) (applyItemMetadata inp createdBy) = Inr d"
          "AddDetail d db = Inr db'"
        unfolding tryRead_Inr tryWrite_Inr by blast
      with Inr show ?thesis by (rule add)
    next
      case (Some d)
      with p Inr have "(if gd_HeadID d = headID \<and> needsBackfill d \<and> hasMetadata inp
          then (case applyItemMetadata inp createdBy d of
                  Inl _ \<Rightarrow> (Inr (Inl (ownedItem headID inp d)), db)
                | Inr d' \<Rightarrow>
                    tryWrite lost (CallBackfill i) (UpdateDetail d' db) db (\<lambda>db. (Inr (Inl (ownedItem headID inp d)), db)))
          else (Inr (Inl (ownedItem headID inp d)), db)) = (Inr out, db')"
        by (simp add: processItem_def held_find tryRead_Inr guardCall_Inr)
      then have "db' = db \<or> (\<exists>d'. applyItemMetadata inp createdBy d = Inr d' \<and> UpdateDetail d' db = Inr db')"
        by (auto simp: tryWrite_Inr split: if_splits sum.splits)
      with same [OF Inr Some] fill [OF Inr Some] show ?thesis by blast
    qed
  qed
  then have all: "(itemHeld c g db \<longrightarrow> itemHeld c g db') \<and>
    (NewItemCode (ai_ItemCode inp) = Inr itemCode \<longrightarrow> itemHeld itemCode (ai_GradeCode inp) db')"
  proof cases
    case bad
    then show ?thesis by simp
  next
    case same
    from find_SomeD [OF same(2)] same show ?thesis by (auto simp: itemHeld_def list_ex_iff)
  next
    case fill
    from find_SomeD [OF fill(2)] have d: "holdsItem code (ai_GradeCode inp) d" "d \<in> set (rt_Details db)" by simp_all
    note k = applyItemMetadata_keeps [OF fill(3)]
    have rows: "rt_Details db' = map (\<lambda>s. if s = d then detailWritten d' d else s) (rt_Details db)"
      by (rule UpdateDetail_row [OF ok d(2) _ _ fill(4)]) (use d(1) k in \<open>simp_all add: holdsItem_def activeRow_def\<close>)
    have "holdsItem x y (detailWritten d' d) = holdsItem x y d" for x y
      using d(1) k by (auto simp: holdsItem_def activeRow_def detailWritten_def)
    then have "holdsItem x y (if s = d then detailWritten d' d else s) = holdsItem x y s" for x y s
      by simp
    then have "itemHeld x y db' = itemHeld x y db" for x y
      by (simp only: itemHeld_def rows list_ex_iff set_map bex_simps)
    with d fill(1) show ?thesis by (auto simp: itemHeld_def list_ex_iff)
  next
    case add
    from add(3) have "rt_Details db' = rt_Details db @ [d\<lparr>gd_UpdatedBy := None, gd_Deleted := False\<rparr>]"
      by (auto simp: AddDetail_def split: if_splits)
    with add(1) new_member [OF add(2)] show ?thesis
      by (auto simp: itemHeld_def holdsItem_def activeRow_def list_ex_iff)
  qed
  from all show "itemHeld c g db \<Longrightarrow> itemHeld c g db'"
    "NewItemCode (ai_ItemCode inp) = Inr itemCode \<Longrightarrow> itemHeld itemCode (ai_GradeCode inp) db'" by blast+
qed

text \<open>The calls that lead from one item to the next leave the tables in order.\<close>

lemma processItems_held:
  fixes inps :: "('f::{zero,one,plus,times,inverse,ord}) add_item list"
  assumes "membersOK db" "ExistsHeadByID headID db"
    and "processItems lost i headID createdBy inps res db = (Inr res', db')"
  shows "(itemHeld c g db \<longrightarrow> itemHeld c g db') \<and>
    (\<forall>inp \<in> set inps. \<forall>code. NewItemCode (ai_ItemCode inp) = Inr code \<longrightarrow> itemHeld code (ai_GradeCode inp) db') \<and>
    length (ar_Added res') + length (ar_Skipped res') = length (ar_Added res) + length (ar_Skipped res) + length inps"
  using assms
proof (induction inps arbitrary: i res db c g)
  case (Cons inp inps)
  obtain r db1 where p: "processItem lost i headID createdBy inp db = (r, db1)" by fastforce
  from members.process_item_law [OF Cons.prems(2), of lost i createdBy inp] Cons.prems(1) p
  have ok: "membersOK db1" "ExistsHeadByID headID db1" by simp_all
  from Cons.prems(3) p obtain out where r: "r = Inr out" by (cases r) simp_all
  define res1 where "res1 = (case out of Inl s \<Rightarrow> res\<lparr>ar_Skipped := ar_Skipped res @ [s]\<rparr> | Inr d \<Rightarrow> res\<lparr>ar_Added := ar_Added res @ [d]\<rparr>)"
  have len: "length (ar_Added res1) + length (ar_Skipped res1) = Suc (length (ar_Added res) + length (ar_Skipped res))"
    by (cases out) (simp_all add: res1_def)
  from Cons.prems(3) p r have rest: "processItems lost (i + 1) headID createdBy inps res1 db1 = (Inr res', db')"
    by (cases out) (simp_all add: res1_def)
  note IH = Cons.IH [OF ok rest]
  note one = processItem_held [OF Cons.prems(1) p [unfolded r]]
  show ?case
  proof (intro conjI impI ballI allI)
    show "itemHeld c g db'" if "itemHeld c g db" using one(1) [OF that] IH by blast
    show "itemHeld code (ai_GradeCode x) db'" if "x \<in> set (inp # inps)" "NewItemCode (ai_ItemCode x) = Inr code" for x code
    proof (cases "x = inp")
      case True
      with one(2) that(2) have "itemHeld code (ai_GradeCode x) db1" by simp
      with IH [of code "ai_GradeCode x"] show ?thesis by blast
    qed (use IH that in auto)
    show "length (ar_Added res') + length (ar_Skipped res') =
        length (ar_Added res) + length (ar_Skipped res) + length (inp # inps)"
      using IH len by simp
  qed
qed simp

end
