(* ===== verification/RMMemberFacts.thy ===== *)
theory RMMemberFacts
  imports RMMembership
begin

text \<open>
  What the members of the raw material groups promise, and two things they do not: removing items is not all or
  nothing, and adding an item that is there already may overwrite its row.
\<close>

section \<open>At all times\<close>

text \<open>(C16) At any time an item and grade is active in at most one row of the groups, and the group of that row
  exists and is not deleted: after any sequence of creations, additions, removals, deletions, edits and calculations,
  with any calls failing, from tables for which this held.\<close>

theorem one_active_row_per_item:
  fixes db :: "('f::linordered_field) rm_tables"
  assumes "membersOK db"
    and "d \<in> set (rt_Details (fold rmRun acts db))" "e \<in> set (rt_Details (fold rmRun acts db))"
    and "holdsItem itemCode gradeCode d" "holdsItem itemCode gradeCode e"
  shows "d = e \<and> ExistsHeadByID (gd_HeadID d) (fold rmRun acts db)"
proof -
  note ok = runs_keep_members [OF assms(1), of acts]
  have "gd_ID d = gd_ID e" by (rule members_one_row [OF ok assms(2-5)])
  then have "d = e" using members_item_ids [OF ok] assms(2,3) by (metis distinct_map inj_onD)
  then show ?thesis
    using members_item_head [OF ok assms(2)] assms(4) by (simp add: holdsItem_def activeRow_def)
qed

text \<open>(C30) The group of every stored cost exists and is not deleted, whatever sequence of runs has been made:
  deleting a group is refused once it has a cost, and a calculation only writes costs of groups that exist.\<close>

theorem costs_name_existing_groups:
  fixes db :: "('f::linordered_field) rm_tables"
  assumes "membersOK db" "r \<in> set (rt_Costs (fold rmRun acts db))"
  shows "\<exists>h. GetHeadByID (rc_GroupHeadID (row_Cost r)) (fold rmRun acts db) = Inr h"
  using members_cost_head [OF runs_keep_members [OF assms(1)] assms(2)]
  by (auto simp: ExistsHeadByID_def GetHeadByID_def orError_def find_None_iff list_ex_iff split: option.splits)

section \<open>Adding items\<close>

text \<open>(C32) When adding items succeeds, every item with a valid code is active in some row under its code and
  grade, added now or before; no item that was active has been lost; and every item of the request is reported once,
  as added or as skipped.\<close>

theorem added_items_are_held:
  fixes db :: "('f::linordered_field) rm_tables"
  assumes "membersOK db" "AddItemsHandle lost cmd db = (Inr res, db')"
  shows "(\<forall>inp \<in> set (ac_Items cmd). \<forall>code. NewItemCode (ai_ItemCode inp) = Inr code \<longrightarrow> itemHeld code (ai_GradeCode inp) db') \<and>
    (\<forall>c g. itemHeld c g db \<longrightarrow> itemHeld c g db') \<and>
    length (ar_Added res) + length (ar_Skipped res) = length (ac_Items cmd)"
proof -
  from assms(2) obtain headID where "ExistsHeadByID headID db" and
    p: "processItems lost 0 headID (ac_CreatedBy cmd) (ac_Items cmd) \<lparr>ar_HeadID = headID, ar_Added = [], ar_Skipped = []\<rparr> db = (Inr res, db')"
    by (auto simp: AddItemsHandle_def tryRead_Inr guardCall_Inr dest: GetHeadByID_live split: if_splits)
  note all = processItems_held [OF assms(1) this]
  show ?thesis using all by auto
qed

text \<open>(C40) An item that the group has already is reported as skipped, but when its row lacks a name, a grade or a
  unit, the name of the request replaces the one of the row, and one valuation input of the request replaces all five
  of the row.\<close>

theorem re_added_item_is_overwritten:
  fixes db :: "('f::linordered_field) rm_tables"
  assumes ok: "membersOK db" and code: "NewItemCode (ai_ItemCode inp) = Inr itemCode"
    and d: "GetActiveDetailByItemCodeGrade itemCode (ai_GradeCode inp) db = Some d" "gd_HeadID d = headID"
    and fill: "needsBackfill d" "hasMetadata inp" "applyItemMetadata inp createdBy d = Inr d'"
  shows "\<exists>e db'. processItem (\<lambda>_. False) i headID createdBy inp db = (Inr (Inl (ownedItem headID inp d)), db') \<and>
    GetDetailByID (gd_ID d) db' = Inr e \<and>
    (ai_ItemName inp \<noteq> [] \<longrightarrow> gd_ItemName e = ai_ItemName inp) \<and>
    (hasV2ValuationPatch inp \<longrightarrow> gd_Valuation e = ai_Valuation inp)"
proof -
  from find_SomeD [OF d(1) [unfolded held_find]]
  have held: "holdsItem itemCode (ai_GradeCode inp) d" and mem: "d \<in> set (rt_Details db)" by simp_all
  note k = applyItemMetadata_keeps [OF fill(3)]
  have only: "s = d" if "s \<in> set (rt_Details db)" "gd_ID s = gd_ID d" for s
    using members_item_ids [OF ok] mem that by (metis distinct_map inj_onD)
  obtain r where r: "find (\<lambda>r. gd_ID r = gd_ID d' \<and> \<not> gd_Deleted r) (rt_Details db) = Some r"
    using mem held k by (cases "find (\<lambda>r. gd_ID r = gd_ID d' \<and> \<not> gd_Deleted r) (rt_Details db)")
      (auto simp: find_None_iff holdsItem_def activeRow_def)
  with find_SomeD [OF r] only k have "r = d" by simp
  let ?e = "detailWritten d' d"
  have e: "holdsItem itemCode (ai_GradeCode inp) ?e" "gd_ID ?e = gd_ID d"
    using held k by (auto simp: holdsItem_def activeRow_def detailWritten_def)
  have "\<not> itemTaken ?e db"
  proof
    assume "itemTaken ?e db"
    then obtain s where s: "s \<in> set (rt_Details db)" "gd_ID s \<noteq> gd_ID ?e" "holdsItem itemCode (ai_GradeCode inp) s"
      using e by (auto simp: itemTaken_def list_ex_iff holdsItem_def activeRow_def)
    with members_one_row [OF ok s(1) mem s(3) held] e(2) show False by simp
  qed
  with r \<open>r = d\<close> obtain db' where u: "UpdateDetail d' db = Inr db'"
    by (simp add: UpdateDetail_def Let_def)
  have rows: "rt_Details db' = map (\<lambda>s. if s = d then ?e else s) (rt_Details db)"
    by (rule UpdateDetail_row [OF ok mem _ _ u]) (use held k in \<open>simp_all add: holdsItem_def activeRow_def\<close>)
  have "processItem (\<lambda>_. False) i headID createdBy inp db = (Inr (Inl (ownedItem headID inp d)), db')"
    using code d fill u by (simp add: processItem_def guardCall_def try_simps)
  moreover have "GetDetailByID (gd_ID d) db' = Inr ?e"
  proof -
    have "find (\<lambda>r. gd_ID r = gd_ID d \<and> \<not> gd_Deleted r) (rt_Details db') = Some ?e"
    proof (cases "find (\<lambda>r. gd_ID r = gd_ID d \<and> \<not> gd_Deleted r) (rt_Details db')")
      case None
      moreover have "?e \<in> set (rt_Details db')" using mem by (simp add: rows)
      ultimately show ?thesis using e by (auto simp: find_None_iff holdsItem_def activeRow_def)
    next
      case (Some s)
      from find_SomeD [OF Some] only e(2) have "s = ?e" by (auto simp: rows split: if_splits)
      with Some show ?thesis by simp
    qed
    then show ?thesis by (simp add: GetDetailByID_def orError_def)
  qed
  ultimately show ?thesis using k by (auto simp: detailWritten_def)
qed

section \<open>Removing items\<close>

text \<open>(C39) Removing items is not all or nothing: an item of another group ends the call with an error, and the
  items before it in the list are deleted.\<close>

theorem remove_items_is_not_atomic:
  fixes db :: "'f rm_tables"
  assumes "GetHeadByID headID db = Inr h" "removedBy \<noteq> []" "parseDetailIDs rest = Inr ids"
    and mine: "GetDetailByID a db = Inr d" "gd_HeadID d = headID"
    and other: "GetDetailByID b db = Inr e" "gd_HeadID e \<noteq> headID"
  shows "\<exists>db'. RemoveItemsHandle (\<lambda>_. False)
      \<lparr>rv_HeadID = Some headID, rv_DetailIDs = Some a # Some b # rest, rv_Mode = [], rv_RemovedBy = removedBy\<rparr> db =
      (Inl RMWrongHead, db') \<and> GetDetailByID a db' = Inl ErrRMDetailNotFound"
proof -
  define f where "f = (\<lambda>r :: 'f group_detail. if gd_ID r = a \<and> \<not> gd_Deleted r then r\<lparr>gd_IsActive := False, gd_Deleted := True\<rparr> else r)"
  define db' where "db' = db\<lparr>rt_Details := map f (rt_Details db)\<rparr>"
  from mine other have "a \<noteq> b" by auto
  from mine(1) have "find (\<lambda>r. gd_ID r = a \<and> \<not> gd_Deleted r) (rt_Details db) = Some d"
    by (simp add: GetDetailByID_def orError_Inr)
  from find_SomeD [OF this] have "SoftDeleteDetail a db = Inr db'"
    by (auto simp: SoftDeleteDetail_def Let_def list_ex_iff db'_def f_def)
  moreover have "find (\<lambda>r. gd_ID r = a \<and> \<not> gd_Deleted r) (map f rows) = None" for rows
    by (induction rows) (auto simp: f_def)
  then have "GetDetailByID a db' = Inl ErrRMDetailNotFound"
    by (simp add: GetDetailByID_def orError_def db'_def)
  moreover have "find (\<lambda>r. gd_ID r = b \<and> \<not> gd_Deleted r) (map f rows) = find (\<lambda>r. gd_ID r = b \<and> \<not> gd_Deleted r) rows" for rows
    using \<open>a \<noteq> b\<close> by (induction rows) (auto simp: f_def)
  then have "GetDetailByID b db' = Inr e"
    using other(1) by (simp add: GetDetailByID_def db'_def)
  ultimately show ?thesis
    using assms
    by (simp add: RemoveItemsHandle_def Let_def try_simps guardCall_def parseHeadID_def orError_def removeOne_def
        RemoveModeSoftDelete_def RemoveModeDeactivate_def)
qed

section \<open>Examples\<close>

text \<open>Two groups with an item each, the first with a freight rate and a cost.\<close>

definition exampleFreight :: "rat group_detail" where
  "exampleFreight = exampleDetail\<lparr>gd_Valuation := noValuation\<lparr>va_FreightRate := Some 5\<rparr>\<rparr>"

definition exampleGroups :: "rat rm_tables" where
  "exampleGroups = exampleTables
     \<lparr>rt_Heads := [exampleHead, exampleHead\<lparr>gh_ID := 2, gh_Code := ''RM2''\<rparr>],
      rt_Details := [exampleFreight, exampleDetail\<lparr>gd_ID := 12, gd_HeadID := 2, gd_ItemCode := ''I2''\<rparr>],
      rt_Costs := [exampleOtherCost\<lparr>row_Cost := (row_Cost exampleOtherCost)\<lparr>rc_GroupHeadID := 1\<rparr>\<rparr>],
      rt_NextID := 13\<rparr>"

definition exampleItem :: "string \<Rightarrow> rat add_item" where
  "exampleItem itemCode =
     \<lparr>ai_ItemCode = itemCode, ai_ItemName = ''NEW'', ai_ItemTypeCode = [], ai_GradeCode = [], ai_ItemGrade = [],
      ai_UOMCode = [], ai_MarketPercentage = None, ai_MarketValueRp = None, ai_SortOrder = 0,
      ai_Valuation = noValuation\<lparr>va_DutyPct := Some 1\<rparr>\<rparr>"

text \<open>An item of this group, one of the other group, a new one and one without a code.\<close>

definition exampleAdd :: "rat add_items_command" where
  "exampleAdd = \<lparr>ac_HeadID = Some 1, ac_CreatedBy = ''b'', ac_Items = map exampleItem ['' I1'', ''I2'', ''I3'', '' '']\<rparr>"

definition exampleNoCalls :: "rm_call \<Rightarrow> bool" where "exampleNoCalls = (\<lambda>_. False)"

lemma exampleGroups_OK: "membersOK exampleGroups"
  by code_simp

definition exampleAdded :: "(rm_error + rat add_items_result) \<times> rat rm_tables" where
  "exampleAdded = AddItemsHandle exampleNoCalls exampleAdd exampleGroups"

lemma exampleAdded_facts:
  "\<not> isl (fst exampleAdded)"
  "map gd_ItemCode (rt_Details (snd exampleAdded)) = [''I1'', ''I2'', ''I3'']"
  "length (ar_Skipped (projr (fst exampleAdded))) = 3"
  by code_simp+

lemma exampleAdded_run: "AddItemsHandle exampleNoCalls exampleAdd exampleGroups =
  (Inr (projr (fst exampleAdded)), snd exampleAdded)"
  using returned [OF exampleAdded_facts(1)] by (simp add: exampleAdded_def)

definition exampleNewRow :: "rat group_detail" where
  "exampleNewRow = rt_Details (snd exampleAdded) ! 2"

lemma exampleNewRow_facts: "holdsItem ''I3'' [] exampleNewRow" "gd_HeadID exampleNewRow = 1"
  by code_simp+

lemma one_active_row_per_item_witness:
  "GetActiveDetailByItemCodeGrade ''I3'' [] (snd exampleAdded) = Some exampleNewRow \<and> ExistsHeadByID 1 (snd exampleAdded)"
proof -
  have db: "fold rmRun [AddItems exampleNoCalls exampleAdd] exampleGroups = snd exampleAdded"
    by (simp add: exampleAdded_def)
  have mem: "exampleNewRow \<in> set (rt_Details (snd exampleAdded))"
    unfolding exampleNewRow_def using arg_cong [OF exampleAdded_facts(2), of length] by (intro nth_mem) simp
  then obtain e where e: "find (holdsItem ''I3'' []) (rt_Details (snd exampleAdded)) = Some e"
    using exampleNewRow_facts(1) by (cases "find (holdsItem ''I3'' []) (rt_Details (snd exampleAdded))")
      (auto simp: find_None_iff)
  from one_active_row_per_item [OF exampleGroups_OK mem [folded db] _ exampleNewRow_facts(1), of e] find_SomeD [OF e] db e
    exampleNewRow_facts(2)
  show ?thesis by (simp add: held_find)
qed

text \<open>The deletion of the group that has a cost is refused.\<close>

definition exampleDelete :: "rat rm_action" where
  "exampleDelete = DeleteGroup exampleNoCalls (\<lambda>_. False) \<lparr>dl_HeadID = Some 1, dl_DeletedBy = ''b''\<rparr>"

lemma exampleDelete_refused:
  "fst (DeleteHandle exampleNoCalls (\<lambda>_. False) \<lparr>dl_HeadID = Some 1, dl_DeletedBy = ''b''\<rparr> exampleGroups) = Inl ErrRMGroupHasCostData"
  "map (rc_GroupHeadID \<circ> row_Cost) (rt_Costs (rmRun exampleDelete exampleGroups)) = [1]"
  by code_simp+

lemma costs_name_existing_groups_witness:
  "\<exists>h. GetHeadByID 1 (fold rmRun [exampleDelete] exampleGroups) = Inr h"
proof -
  from exampleDelete_refused(2) obtain r where "r \<in> set (rt_Costs (fold rmRun [exampleDelete] exampleGroups))"
    "rc_GroupHeadID (row_Cost r) = 1" by auto
  with costs_name_existing_groups [OF exampleGroups_OK] show ?thesis by metis
qed

lemma added_items_are_held_witness: "itemHeld ''I3'' [] (snd exampleAdded) \<and> itemHeld ''I1'' [] (snd exampleAdded)"
proof -
  have codes: "NewItemCode ''I3'' = Inr ''I3''" "NewItemCode '' I1'' = Inr ''I1''" by code_simp+
  have "exampleItem ''I3'' \<in> set (ac_Items exampleAdd)" "exampleItem '' I1'' \<in> set (ac_Items exampleAdd)"
    by (simp_all add: exampleAdd_def)
  with added_items_are_held [OF exampleGroups_OK exampleAdded_run] codes show ?thesis
    by (force simp: exampleItem_def)
qed

lemma re_added_item_is_overwritten_witness:
  "\<exists>e db'. snd (processItem (\<lambda>_. False) 0 1 ''b'' (exampleItem '' I1'') exampleGroups) = db' \<and>
    GetDetailByID 11 db' = Inr e \<and> va_FreightRate (gd_Valuation exampleFreight) = Some 5 \<and>
    va_FreightRate (gd_Valuation e) = None \<and> gd_ItemName e = ''NEW''"
proof -
  have code: "NewItemCode (ai_ItemCode (exampleItem '' I1'')) = Inr ''I1''" by code_simp
  have row: "GetActiveDetailByItemCodeGrade ''I1'' (ai_GradeCode (exampleItem '' I1'')) exampleGroups = Some exampleFreight"
    by code_simp
  have fill: "gd_HeadID exampleFreight = 1" "needsBackfill exampleFreight" "hasMetadata (exampleItem '' I1'')"
    "hasV2ValuationPatch (exampleItem '' I1'')" "ai_ItemName (exampleItem '' I1'') = ''NEW''"
    "va_FreightRate (ai_Valuation (exampleItem '' I1'')) = None" "va_FreightRate (gd_Valuation exampleFreight) = Some 5"
    "gd_ID exampleFreight = 11" "\<not> isl (applyItemMetadata (exampleItem '' I1'') ''b'' exampleFreight)"
    by code_simp+
  from fill(9) obtain d' where d': "applyItemMetadata (exampleItem '' I1'') ''b'' exampleFreight = Inr d'"
    by (cases "applyItemMetadata (exampleItem '' I1'') ''b'' exampleFreight") simp_all
  from re_added_item_is_overwritten [OF exampleGroups_OK code row fill(1-3) d', of 0] fill(4-8)
  show ?thesis by (auto simp: snd_def)
qed

lemma remove_items_is_not_atomic_witness:
  "\<exists>db'. RemoveItemsHandle (\<lambda>_. False)
     \<lparr>rv_HeadID = Some 1, rv_DetailIDs = [Some 11, Some 12], rv_Mode = [], rv_RemovedBy = ''b''\<rparr> exampleGroups =
     (Inl RMWrongHead, db') \<and> GetDetailByID 11 db' = Inl ErrRMDetailNotFound"
proof -
  have ids: "parseDetailIDs [] = Inr []" by simp
  have head: "GetHeadByID 1 exampleGroups = Inr exampleHead" by code_simp
  have items: "GetDetailByID 11 exampleGroups = Inr exampleFreight" "gd_HeadID exampleFreight = 1"
    "GetDetailByID 12 exampleGroups = Inr (exampleDetail\<lparr>gd_ID := 12, gd_HeadID := 2, gd_ItemCode := ''I2''\<rparr>)"
    "gd_HeadID (exampleDetail\<lparr>gd_ID := 12, gd_HeadID := 2, gd_ItemCode := ''I2''\<rparr>) \<noteq> 1"
    by code_simp+
  show ?thesis using remove_items_is_not_atomic [OF head _ ids items, of "''b''"] by simp
qed

end
