(* ===== verification/Spec2Isabelle.thy ===== *)
theory Spec2Isabelle
  imports CalcFaults HandOver MBBatchFacts RMRates RMMemberFacts
begin

text \<open>
  The costing core of goapps-backend.

  The product cost of a textile mill is calculated once a month for every product of a routing graph.
  Three services take part. The finance service (\<^verbatim>\<open>services/finance\<close>) owns the data, decides what a job
  covers (\<open>TriggerHandle\<close>), calculates products (\<open>ComputeProduct\<close>) and stores results
  (\<open>ServiceProcessChunk\<close>, \<open>computeOne\<close>). The orchestrator (\<^verbatim>\<open>services/finance-cost-orchestrator\<close>) orders the products of a
  job into waves, packs the waves into chunks, and sends the chunks to the workers. A worker
  (\<^verbatim>\<open>services/finance-cost-worker\<close>) claims a chunk, has the finance service calculate it, and reports
  back. The orchestrator and the workers share four tables and the queues of a message broker. Beside
  the jobs stand the freeze of a period, the ledger of stored results with its manual transitions, and the
  master batch, whose costs are calculated in a run of their own and pushed into products.

  Conventions. A Go function is a HOL function of the same name (with its
  type before it where two share one, and with \<^verbatim>\<open>Handle\<close> replaced by the name of the handler); an error return is \<open>Inl\<close> or \<open>None\<close>; a method on a pointer returns the
  updated record; Go maps are association lists or functions to \<open>option\<close>, and their random order of
  iteration never matters because the code sorts, or is an explicit argument. A SQL statement is a
  function on lists of rows, a transaction a function on the record of its tables that is
  dropped when it fails. Floats and NUMERIC columns are an arbitrary type with the arithmetic the
  code uses (field laws only where a theorem says so), so no theorem relies on the absence of
  rounding; the one theorem about exact sums names the ordered field. Identifiers
  from a sequence are a counter in the record of the tables; time is an argument.

  The theories, with the code each one holds.

  \<^item> \<open>Prelude\<close>: Go values (time, \<^verbatim>\<open>strings.TrimSpace\<close>), lemmas on folds, association lists and lists of
    rows. \<open>Processes\<close>: handlers as programs of atomic calls, pools of them
    running at once, and the locales \<open>rely_guarantee\<close> and \<open>protocol\<close> that prove an invariant of
    every interleaving from one rule per call.
  \<^item> \<open>WavePlanner\<close> (\<^verbatim>\<open>pkg/costcalc/dependency_graph.go\<close>, \<^verbatim>\<open>wave_planner.go\<close>): the graph of the products and
    its layering. The loop is \<open>while_option\<close>; its termination, the exact layers it produces (refinement of
    \<open>layers\<close>) and the products it reports on a cycle are proved. \<open>ChunkPacker\<close> (\<^verbatim>\<open>chunk_packer.go\<close>):
    chunks cover a wave in order and respect the size limits. \<open>DagBuilder\<close> (\<^verbatim>\<open>dag_builder.go\<close>,
    \<^verbatim>\<open>job_scope.go\<close>): the products of a job and the closure of its dependencies; locale
    \<open>rm_source\<close> is the interface of the queries, interpreted on the SQL of the repository.
  \<^item> \<open>CalcStore\<close> (\<^verbatim>\<open>repos.go\<close>, \<^verbatim>\<open>events.go\<close>, \<^verbatim>\<open>publisher.go\<close>, \<^verbatim>\<open>chunk_repo.go\<close>): tables, queues and the
    statements on them, each under a schedule that says which calls fail. \<open>Coordinator\<close>
    (\<^verbatim>\<open>coordinator.go\<close>, \<^verbatim>\<open>cron.go\<close>) and \<open>Worker\<close> (\<^verbatim>\<open>processor.go\<close>): the message handlers as programs.
    \<open>CalcSystem\<close> states the invariant of the tables and proves one rule per call and per handler;
    \<open>CalcEngine\<close> interprets \<open>protocol\<close> on the handlers and draws the safety properties of
    every schedule: chunks are counted once, waves stay in order, a cancelled job stays cancelled.
    \<open>CalcBehaviour\<close> and \<open>CalcFaults\<close> run single handlers from start to end: planning, retries, the
    verdict of a job, the sweeper, and two schedules of lost calls that leave a job hanging.
  \<^item> \<open>CostRoute\<close> (\<^verbatim>\<open>domain/costroute/types.go\<close>, \<^verbatim>\<open>rm_ratio.go\<close>), \<open>RMCascade\<close> (\<^verbatim>\<open>loader.go\<close>,
    \<^verbatim>\<open>valuation_cascade.go\<close>): ratios of the raw materials of a route, configured rate orders and the rate
    picked. \<open>KahnQueue\<close> holds the queue both topological sorts of the finance service run, with the
    locale \<open>kahn_graph\<close>; \<open>FormulaOrder\<close> (\<^verbatim>\<open>formula.go\<close>, \<^verbatim>\<open>loader.go\<close>) interprets it on formulas, and
    \<open>MBBatchFacts\<close> uses it on master batch heads.
  \<^item> \<open>ComputeInputs\<close>, \<open>Compute\<close> (\<^verbatim>\<open>compute.go\<close>, \<^verbatim>\<open>compute_rm_ratio.go\<close>, \<^verbatim>\<open>conversion_inheritance.go\<close>,
    \<^verbatim>\<open>evaluator.go\<close>, \<^verbatim>\<open>cache.go\<close>): the scope, the chain of formulas, raw material cost, cost by level, final
    cost and snapshot of one product. The expression language is a library: compilation and evaluation
    are the fields of the parameter \<open>expr_lang\<close>. \<open>ComputeFacts\<close> says what a calculation promises: which value
    each formula reads, that material cost adds up, where the values of the snapshot come from.
  \<^item> \<open>PeriodLock\<close> (\<^verbatim>\<open>domain/periodlock\<close>, \<^verbatim>\<open>period_lock_repository.go\<close>, \<^verbatim>\<open>lock_handler.go\<close>, \<^verbatim>\<open>unlock_handler.go\<close>):
    the freeze of a period. \<open>CostLedger\<close> (\<^verbatim>\<open>entity_result.go\<close>, \<^verbatim>\<open>cost_result_repository.go\<close>,
    \<^verbatim>\<open>verify_cost_handler.go\<close>, \<^verbatim>\<open>approve_cost_handler.go\<close>, \<^verbatim>\<open>mbpush\<close>): the table of results. \<open>LedgerFacts\<close>: invariants of every
    transaction through the locales \<open>push_law\<close> and \<open>ledger_law\<close>, interpreted three times: rows are well formed,
    the ledger is append only, a locked period is frozen.
  \<^item> \<open>FinanceStore\<close> (\<^verbatim>\<open>entity_job.go\<close>, \<^verbatim>\<open>entity_chunk.go\<close>, \<^verbatim>\<open>entity_product.go\<close> and their
    repositories), \<open>FinanceChunk\<close> (\<^verbatim>\<open>process_chunk.go\<close>, \<^verbatim>\<open>oil_rate.go\<close>, \<^verbatim>\<open>tx_weight.go\<close>), \<open>FinanceTrigger\<close>
    (\<^verbatim>\<open>trigger_handler.go\<close>): the finance service's side of a job; \<open>FinanceFacts\<close> and \<open>TriggerFacts\<close> say
    what a chunk and a trigger leave in the tables.
  \<^item> \<open>HandOver\<close>: the row of \<^verbatim>\<open>cal_job\<close> the trigger writes, read by the coordinator; the products of
    a triggered job are planned.
  \<^item> \<open>MBBatch\<close> (\<^verbatim>\<open>application/mbbatch\<close>), \<open>MBBatchFacts\<close>: the run over all master batch heads.

  \<^item> \<open>RMCost\<close>, \<open>RMGroup\<close>, \<open>RMCalc\<close> (\<^verbatim>\<open>calc_formulas_v2.go\<close>, \<^verbatim>\<open>calculate_handler_v2.go\<close>, \<^verbatim>\<open>edit_inputs_handler.go\<close>,
    \<^verbatim>\<open>edit_fix_rate_handler.go\<close>, \<^verbatim>\<open>domain/rmgroup\<close>, \<^verbatim>\<open>update_handler.go\<close>, \<^verbatim>\<open>update_item_handler.go\<close>,
    \<^verbatim>\<open>period_resolver.go\<close> and the repositories behind them): the raw material groups, whose rates the costing
    reads. A head and its items are edited per period; a calculation turns them and the synchronised stock
    into one cost per group and period, and freezes what it has read. \<open>RMRates\<close>: the rates of a group
    against those of its items.
  \<^item> \<open>RMMembers\<close> (\<^verbatim>\<open>create_handler.go\<close>, \<^verbatim>\<open>add_items_handler.go\<close>, \<^verbatim>\<open>remove_items_handler.go\<close>, \<^verbatim>\<open>delete_handler.go\<close>): who
    is in a group, and the sequences of runs of all these handlers. \<open>RMLaws\<close>: the locales \<open>group_law\<close>,
    \<open>table_law\<close> and \<open>period_law\<close> say what every run may do to the tables, statement by statement. Their
    interpretations give that a calculated period keeps its configuration (\<open>RMFacts\<close>), that the columns of a
    stored cost agree with each other (\<open>RMRows\<close>), and that an item is active once and the groups of items and costs
    exist (\<open>RMMembership\<close>, \<open>RMMemberFacts\<close>). These handlers run one after the other, with any calls failing.

  Bounds and fuel. No definition takes fuel. A program of calls is a well-founded tree, so \<open>run\<close> is structural;
  the wave loop, the traversal of the dependencies and the queue of the topological sorts are \<open>while_option\<close>
  and proved to return; the packing loop and \<open>trimLeft\<close> are functions with a measure; \<open>maxDepth\<close>, whose recursion does not
  end on a cycle of formulas, is a \<open>partial_function\<close> and proved to have a value without one. The worker's
  attempts are bounded by the code (three). Integers of the code that count rows and products are HOL integers:
  they are far from the width of an \<^verbatim>\<open>int\<close>.

  Assumptions. The broker may lose, repeat and reorder messages; any call may fail, and a handler may stop
  after any of its calls. A SQL statement is atomic, and a transaction is serialised by the row and table locks
  its code takes. Nothing else is assumed of the services' schedule.

  Not modelled.

  \<^item> Floating point rounding, and the NUMERIC scale of the columns.
  \<^item> The expression language of formulas (\<^verbatim>\<open>github.com/expr-lang/expr\<close>), JSON encoding, SHA-256, the cron
    parser and Oracle: third-party code, parameters where a value of theirs is used.
  \<^item> Logs, metrics, traces, audit events, health checks, configuration and wiring: no claim depends on them.
  \<^item> The RabbitMQ connection and consumer loops: a consumer is a handler that may be started for any message at
    any time, which is more than the broker can do.
  \<^item> The listing queries behind the screens, exports, imports and bulk jobs of the finance service, BI, the ERP
    integration, requests and workflows around a product, the IAM and PPC services: other applications of
    the same repository, whose code neither calls the costing core nor is called by it, apart from master
    data tables read through the queries that are parameters here. The manifest lists them one by one.
\<close>

end
